(* ===== verification/Prelude.thy ===== *)
theory Prelude
  imports Complex_Main "HOL-Library.Word"
begin

text \<open>
  Shared vocabulary of the development.

  Identifiers (Python's \<^verbatim>\<open>uuid.UUID\<close>) are 128-bit words.  Python integers are
  \<^typ>\<open>int\<close>; instants and durations are integers of the unit the code uses at that
  place.  A finite Python float is the rational number it denotes, so that comparisons,
  \<^verbatim>\<open>min\<close> and \<^verbatim>\<open>max\<close> are exact; every arithmetic operation whose result is
  rounded goes through a \<open>float_arith\<close> record.  \<open>exact_arith\<close> does not round at all and
  \<open>double_arith\<close> rounds to 53 significant bits, ties to even, the way IEEE doubles do.
  \<^verbatim>\<open>sum\<close> is a member of its own because its algorithm depends on the interpreter version
  (plain left-to-right up to 3.11, compensated from 3.12 on).  NaN and the infinities are
  not values of the model; overflow to infinity is outside it.

  JSON-like payloads (\<^verbatim>\<open>dict[str, Any]\<close>) are association lists in insertion order.
  Exceptions are values of \<open>py_error\<close>; a call that may raise returns a sum whose left
  side is the exception.
\<close>

section \<open>Identifiers, payloads, exceptions\<close>

type_synonym uuid = "128 word"
type_synonym timestamp = int

datatype jval =
    JNull
  | JBool bool
  | JInt int
  | JFloat rat
  | JNegInf
  | JStr string
  | JList "jval list"
  | JDict "(string \<times> jval) list"

type_synonym jdict = "(string \<times> jval) list"

datatype py_error =
    ValueError string
  | ZeroDivisionError
  | IndexError
  | KeyError
  | TypeError string
  | AttributeError string
  | RuntimeError string

text \<open>Sequencing of calls that may raise.\<close>

definition bind_err :: "'e + 'a \<Rightarrow> ('a \<Rightarrow> 'e + 'b) \<Rightarrow> 'e + 'b" where
  "bind_err r f = (case r of Inl e \<Rightarrow> Inl e | Inr a \<Rightarrow> f a)"

definition guard_err :: "bool \<Rightarrow> 'e \<Rightarrow> 'e + unit" where
  "guard_err ok e = (if ok then Inr () else Inl e)"

lemma bind_err_simps [simp]:
  "bind_err (Inl e) f = Inl e"
  "bind_err (Inr a) f = f a"
  by (simp_all add: bind_err_def)

lemma bind_err_eq_Inr:
  "bind_err r f = Inr b \<longleftrightarrow> (\<exists>a. r = Inr a \<and> f a = Inr b)"
  by (cases r) auto

lemma guard_err_simps [simp]:
  "guard_err True e = Inr ()"
  "guard_err False e = Inl e"
  by (simp_all add: guard_err_def)

lemma guard_err_eq_Inr [simp]: "guard_err ok e = Inr u \<longleftrightarrow> ok"
  by (cases ok) simp_all

lemma guard_err_eq_Inl [simp]: "guard_err ok e = Inl e' \<longleftrightarrow> \<not> ok \<and> e = e'"
  by (cases ok) auto

fun is_Inr :: "'e + 'a \<Rightarrow> bool" where
  "is_Inr (Inl _) = False"
| "is_Inr (Inr _) = True"

lemma is_Inr_iff: "is_Inr r \<longleftrightarrow> (\<exists>a. r = Inr a)"
  by (cases r) auto

section \<open>Float arithmetic\<close>

record float_arith =
  f_add :: "rat \<Rightarrow> rat \<Rightarrow> rat"
  f_sub :: "rat \<Rightarrow> rat \<Rightarrow> rat"
  f_mul :: "rat \<Rightarrow> rat \<Rightarrow> rat"
  f_div :: "rat \<Rightarrow> rat \<Rightarrow> rat"
  f_sum :: "rat list \<Rightarrow> rat"

definition exact_arith :: float_arith where
  "exact_arith = \<lparr> f_add = (+), f_sub = (-), f_mul = (*), f_div = (/), f_sum = sum_list \<rparr>"

text \<open>Rounding to 53 significant bits.  The scale is found by doubling or halving, with
  the 1100 steps that cover every exponent of a double as the bound.\<close>

fun scale_exp :: "nat \<Rightarrow> rat \<Rightarrow> int \<Rightarrow> int" where
  "scale_exp 0 a e = e"
| "scale_exp (Suc n) a e =
     (if 2 ^ 53 \<le> a then scale_exp n (a / 2) (e + 1)
      else if a < 2 ^ 52 then scale_exp n (a * 2) (e - 1)
      else e)"

definition pow2 :: "int \<Rightarrow> rat" where
  "pow2 e = (if 0 \<le> e then 2 ^ nat e else 1 / 2 ^ nat (- e))"

definition round_half_even :: "rat \<Rightarrow> int" where
  "round_half_even x =
     (let f = \<lfloor>x\<rfloor>; d = x - of_int f in
      if d < 1 / 2 then f
      else if 1 / 2 < d then f + 1
      else if even f then f else f + 1)"

definition round_double :: "rat \<Rightarrow> rat" where
  "round_double x =
     (if x = 0 then 0
      else let e = scale_exp 1100 \<bar>x\<bar> 0 in of_int (round_half_even (x / pow2 e)) * pow2 e)"

definition double_arith :: float_arith where
  "double_arith = \<lparr> f_add = (\<lambda>a b. round_double (a + b)),
                    f_sub = (\<lambda>a b. round_double (a - b)),
                    f_mul = (\<lambda>a b. round_double (a * b)),
                    f_div = (\<lambda>a b. round_double (a / b)),
                    f_sum = foldl (\<lambda>a b. round_double (a + b)) 0 \<rparr>"

text \<open>Python's \<^verbatim>\<open>min\<close>, \<^verbatim>\<open>max\<close> on a sequence and \<^verbatim>\<open>sum(xs) / len(xs)\<close>.
  An empty sequence raises.\<close>

definition py_min :: "rat list \<Rightarrow> py_error + rat" where
  "py_min xs = (case xs of [] \<Rightarrow> Inl (ValueError ''min() arg is an empty sequence'')
                         | x # r \<Rightarrow> Inr (foldl min x r))"

definition py_max :: "rat list \<Rightarrow> py_error + rat" where
  "py_max xs = (case xs of [] \<Rightarrow> Inl (ValueError ''max() arg is an empty sequence'')
                         | x # r \<Rightarrow> Inr (foldl max x r))"

definition py_mean :: "float_arith \<Rightarrow> rat list \<Rightarrow> py_error + rat" where
  "py_mean fa xs = (if xs = [] then Inl ZeroDivisionError
                    else Inr (f_div fa (f_sum fa xs) (of_nat (length xs))))"

lemma foldl_min_le: "foldl min (x::rat) xs \<le> x \<and> (\<forall>y\<in>set xs. foldl min x xs \<le> y)"
proof (induction xs arbitrary: x)
  case (Cons a xs)
  from Cons.IH[of "min x a"] show ?case by (auto simp: min_le_iff_disj)
qed simp

lemma foldl_max_ge: "x \<le> foldl max (x::rat) xs \<and> (\<forall>y\<in>set xs. y \<le> foldl max x xs)"
proof (induction xs arbitrary: x)
  case (Cons a xs)
  from Cons.IH[of "max x a"] show ?case by (auto simp: max_def split: if_splits)
qed simp

lemma foldl_min_in: "foldl min (x::rat) xs \<in> set (x # xs)"
proof (induction xs arbitrary: x)
  case (Cons a xs)
  from Cons.IH[of "min x a"] show ?case by (auto simp: min_def split: if_splits)
qed simp

lemma foldl_max_in: "foldl max (x::rat) xs \<in> set (x # xs)"
proof (induction xs arbitrary: x)
  case (Cons a xs)
  from Cons.IH[of "max x a"] show ?case by (auto simp: max_def split: if_splits)
qed simp

lemma py_min_lower: "py_min xs = Inr m \<Longrightarrow> y \<in> set xs \<Longrightarrow> m \<le> y"
  using foldl_min_le by (fastforce simp: py_min_def split: list.splits)

lemma py_max_upper: "py_max xs = Inr m \<Longrightarrow> y \<in> set xs \<Longrightarrow> y \<le> m"
  using foldl_max_ge by (fastforce simp: py_max_def split: list.splits)

lemma py_min_in: "py_min xs = Inr m \<Longrightarrow> m \<in> set xs"
  using foldl_min_in by (fastforce simp: py_min_def split: list.splits)

lemma py_max_in: "py_max xs = Inr m \<Longrightarrow> m \<in> set xs"
  using foldl_max_in by (fastforce simp: py_max_def split: list.splits)

lemma py_min_total: "xs \<noteq> [] \<Longrightarrow> \<exists>m. py_min xs = Inr m"
  by (cases xs) (auto simp: py_min_def)

lemma py_max_total: "xs \<noteq> [] \<Longrightarrow> \<exists>m. py_max xs = Inr m"
  by (cases xs) (auto simp: py_max_def)

lemma py_mean_total: "xs \<noteq> [] \<Longrightarrow> \<exists>m. py_mean fa xs = Inr m"
  by (simp add: py_mean_def)

section \<open>Association lists\<close>

text \<open>\<^verbatim>\<open>d.get(k, default)\<close> on a payload.\<close>

definition dict_get :: "(string \<times> 'v) list \<Rightarrow> string \<Rightarrow> 'v \<Rightarrow> 'v" where
  "dict_get d k dflt = (case map_of d k of None \<Rightarrow> dflt | Some v \<Rightarrow> v)"

lemma dict_get_simps [simp]:
  "dict_get [] k v = v"
  "dict_get ((k, a) # d) k v = a"
  "k \<noteq> k' \<Longrightarrow> dict_get ((k', a) # d) k v = dict_get d k v"
  by (simp_all add: dict_get_def)

section \<open>Decimal numerals\<close>

text \<open>\<^verbatim>\<open>str(n)\<close>.\<close>

fun show_nat :: "nat \<Rightarrow> string" where
  "show_nat n = (if n < 10 then [char_of (48 + n)] else show_nat (n div 10) @ [char_of (48 + n mod 10)])"

declare show_nat.simps [simp del]

definition show_int :: "int \<Rightarrow> string" where
  "show_int i = (if i < 0 then ''-'' @ show_nat (nat (- i)) else show_nat (nat i))"

section \<open>Suffixes and windows\<close>

definition lastn :: "nat \<Rightarrow> 'a list \<Rightarrow> 'a list" where
  "lastn n xs = drop (length xs - n) xs"

lemma length_lastn [simp]: "length (lastn n xs) = min n (length xs)"
  by (simp add: lastn_def)

lemma lastn_all [simp]: "length xs \<le> n \<Longrightarrow> lastn n xs = xs"
  by (simp add: lastn_def)

lemma lastn_0 [simp]: "lastn 0 xs = []"
  by (simp add: lastn_def)

lemma lastn_snoc_Suc: "lastn (Suc n) (xs @ [x]) = lastn n xs @ [x]"
  by (simp add: lastn_def)

lemma lastn_lastn_snoc: "lastn n (lastn n xs @ [x]) = lastn n (xs @ [x])"
proof (cases n)
  case (Suc m)
  have "lastn m (lastn (Suc m) xs) = lastn m xs"
    by (cases "length xs \<le> m") (simp_all add: lastn_def Suc_diff_Suc)
  with Suc show ?thesis by (simp add: lastn_snoc_Suc)
qed simp

lemma set_lastn: "set (lastn n xs) \<subseteq> set xs"
  by (simp add: lastn_def set_drop_subset)

lemma lastn_map: "lastn n (map f xs) = map f (lastn n xs)"
  by (simp add: lastn_def drop_map)

lemma lastn_eq_suffix: "\<exists>pre. xs = pre @ lastn n xs"
  by (metis append_take_drop_id lastn_def)

lemma lastn_append_ge: "n \<le> length ys \<Longrightarrow> lastn n (xs @ ys) = lastn n ys"
  by (simp add: lastn_def)

lemma distinct_lastn: "distinct xs \<Longrightarrow> distinct (lastn n xs)"
  by (simp add: lastn_def)

text \<open>Interface of a buffer that keeps a suffix of what was pushed into it, and its
  extension by a fixed capacity.  The windows of the aggregator, the telemetry queue and
  the frame buffer are instances.  \<open>ok\<close> is the representation invariant.\<close>

locale suffix_buffer =
  fixes push :: "'b \<Rightarrow> 'a \<Rightarrow> 'b"
    and contents :: "'b \<Rightarrow> 'a list"
    and ok :: "'b \<Rightarrow> bool"
  assumes push_ok: "ok b \<Longrightarrow> ok (push b x)"
    and push_suffix: "ok b \<Longrightarrow> \<exists>k. contents (push b x) = drop k (contents b @ [x])"
begin

lemma pushes_ok: "ok b \<Longrightarrow> ok (foldl push b xs)"
  by (induction xs arbitrary: b) (simp_all add: push_ok)

lemma pushes_suffix: "ok b \<Longrightarrow> \<exists>k. contents (foldl push b xs) = drop k (contents b @ xs)"
proof (induction xs arbitrary: b)
  case (Cons x xs)
  obtain k where k: "contents (push b x) = drop k (contents b @ [x])"
    using push_suffix[OF Cons.prems] by blast
  obtain j where "contents (foldl push (push b x) xs) = drop j (contents (push b x) @ xs)"
    using Cons.IH[OF push_ok[OF Cons.prems]] by blast
  with k have "contents (foldl push b (x # xs)) = drop j (drop k (contents b @ [x]) @ xs)"
    by simp
  also have "drop k (contents b @ [x]) @ xs
      = drop (min k (Suc (length (contents b)))) (contents b @ x # xs)"
    using drop_append[of "min k (Suc (length (contents b)))" "contents b @ [x]" xs]
    by (cases "k \<le> Suc (length (contents b))") (simp_all add: min_def)
  finally have "contents (foldl push b (x # xs))
      = drop (j + min k (Suc (length (contents b)))) (contents b @ x # xs)"
    by (simp only: drop_drop)
  then show ?case by blast
qed (auto intro: exI[of _ 0])

lemma pushes_subset: "ok b \<Longrightarrow> set (contents (foldl push b xs)) \<subseteq> set (contents b) \<union> set xs"
  using pushes_suffix[of b xs] set_drop_subset by (metis set_append)

end

locale bounded_window =
  fixes push :: "'b \<Rightarrow> 'a \<Rightarrow> 'b"
    and contents :: "'b \<Rightarrow> 'a list"
    and ok :: "'b \<Rightarrow> bool"
    and cap :: nat
  assumes push_keeps: "ok b \<Longrightarrow> ok (push b x)"
    and push_lastn: "ok b \<Longrightarrow> contents (push b x) = lastn cap (contents b @ [x])"
begin

lemma pushes_lastn:
  "ok b \<Longrightarrow> contents b = lastn cap h \<Longrightarrow> contents (foldl push b xs) = lastn cap (h @ xs)"
proof (induction xs arbitrary: b h)
  case (Cons x xs)
  have "contents (push b x) = lastn cap (h @ [x])"
    by (simp add: push_lastn Cons.prems lastn_lastn_snoc)
  from Cons.IH[OF push_keeps[OF Cons.prems(1)] this] show ?case by simp
qed simp

lemma pushes_length:
  "ok b \<Longrightarrow> contents b = [] \<Longrightarrow> length (contents (foldl push b xs)) = min cap (length xs)"
  using pushes_lastn[of b "[]" xs] by simp

end

sublocale bounded_window \<subseteq> window: suffix_buffer push contents ok
  by unfold_locales (simp_all only: push_keeps push_lastn lastn_def, blast)

end
