(* ===== verification/InferenceTypes.thy ===== *)
theory InferenceTypes
  imports Prelude
begin

text \<open>
  The result types of the inference layer
  (\<^verbatim>\<open>src/src/proctoring_engine/inference/_types.py\<close>): the confidence triple and the
  bounding box with the checks of their \<^verbatim>\<open>__post_init__\<close>, and one record per modality
  extending the common \<^verbatim>\<open>InferenceResult\<close>.  A value that a Python constructor builds is
  built here by the corresponding \<open>mk_\<close> function, which returns the exception the
  constructor raises.
\<close>

section \<open>ConfidenceInterval\<close>

record confidence_interval =
  ci_lower :: rat
  ci_score :: rat
  ci_upper :: rat

definition in_unit :: "rat \<Rightarrow> bool" where
  "in_unit v \<longleftrightarrow> 0 \<le> v \<and> v \<le> 1"

definition mk_confidence_interval :: "rat \<Rightarrow> rat \<Rightarrow> rat \<Rightarrow> py_error + confidence_interval" where
  "mk_confidence_interval l s u =
     (if \<not> in_unit l then Inl (ValueError ''ConfidenceInterval.lower must be in [0, 1]'')
      else if \<not> in_unit s then Inl (ValueError ''ConfidenceInterval.score must be in [0, 1]'')
      else if \<not> in_unit u then Inl (ValueError ''ConfidenceInterval.upper must be in [0, 1]'')
      else if l > s then Inl (ValueError ''ConfidenceInterval.lower must be <= score'')
      else if s > u then Inl (ValueError ''ConfidenceInterval.score must be <= upper'')
      else Inr \<lparr> ci_lower = l, ci_score = s, ci_upper = u \<rparr>)"

text \<open>The class invariant the constructor establishes.\<close>

definition ci_ok :: "confidence_interval \<Rightarrow> bool" where
  "ci_ok c \<longleftrightarrow> 0 \<le> ci_lower c \<and> ci_lower c \<le> ci_score c
                \<and> ci_score c \<le> ci_upper c \<and> ci_upper c \<le> 1"

lemma mk_confidence_interval_iff:
  "mk_confidence_interval l s u = Inr c \<longleftrightarrow>
     c = \<lparr> ci_lower = l, ci_score = s, ci_upper = u \<rparr> \<and> ci_ok c"
  by (auto simp: mk_confidence_interval_def ci_ok_def in_unit_def)

lemma ci_ok_unit: "ci_ok c \<Longrightarrow> in_unit (ci_score c) \<and> in_unit (ci_lower c) \<and> in_unit (ci_upper c)"
  by (auto simp: ci_ok_def in_unit_def)

definition certain :: confidence_interval where
  "certain = \<lparr> ci_lower = 1, ci_score = 1, ci_upper = 1 \<rparr>"

lemma certain_constructed: "mk_confidence_interval 1 1 1 = Inr certain"
  by (simp add: mk_confidence_interval_def certain_def in_unit_def)

lemma certain_ok [simp]: "ci_ok certain"
  by (simp add: ci_ok_def certain_def)

text \<open>A point interval is accepted exactly when the point is in the unit interval.\<close>

definition mk_point_interval :: "rat \<Rightarrow> py_error + confidence_interval" where
  "mk_point_interval p = mk_confidence_interval p p p"

lemma mk_point_interval_total: "in_unit p \<Longrightarrow>
  mk_point_interval p = Inr \<lparr> ci_lower = p, ci_score = p, ci_upper = p \<rparr>"
  by (simp add: mk_point_interval_def mk_confidence_interval_def)

section \<open>BoundingBox\<close>

record bounding_box =
  bb_x :: rat
  bb_y :: rat
  bb_w :: rat
  bb_h :: rat

definition mk_bounding_box :: "rat \<Rightarrow> rat \<Rightarrow> rat \<Rightarrow> rat \<Rightarrow> py_error + bounding_box" where
  "mk_bounding_box x y w h =
     (if \<not> in_unit x then Inl (ValueError ''BoundingBox.x must be in [0, 1]'')
      else if \<not> in_unit y then Inl (ValueError ''BoundingBox.y must be in [0, 1]'')
      else if \<not> in_unit w then Inl (ValueError ''BoundingBox.w must be in [0, 1]'')
      else if \<not> in_unit h then Inl (ValueError ''BoundingBox.h must be in [0, 1]'')
      else Inr \<lparr> bb_x = x, bb_y = y, bb_w = w, bb_h = h \<rparr>)"

definition bb_ok :: "bounding_box \<Rightarrow> bool" where
  "bb_ok b \<longleftrightarrow> in_unit (bb_x b) \<and> in_unit (bb_y b) \<and> in_unit (bb_w b) \<and> in_unit (bb_h b)"

lemma mk_bounding_box_iff:
  "mk_bounding_box x y w h = Inr b \<longleftrightarrow>
     b = \<lparr> bb_x = x, bb_y = y, bb_w = w, bb_h = h \<rparr> \<and> bb_ok b"
  by (auto simp: mk_bounding_box_def bb_ok_def)

definition bb_to_dict :: "bounding_box \<Rightarrow> jdict" where
  "bb_to_dict b = [(''x'', JFloat (bb_x b)), (''y'', JFloat (bb_y b)),
                   (''w'', JFloat (bb_w b)), (''h'', JFloat (bb_h b))]"

section \<open>Results\<close>

record inference_result =
  ir_modality :: string
  ir_event_type :: string
  ir_confidence :: confidence_interval
  ir_bounding_boxes :: "bounding_box list"
  ir_raw_value :: jdict

record face_presence_result = inference_result +
  fp_face_count :: int

record identity_match_result = inference_result +
  im_similarity :: rat

record head_pose_gaze_result = inference_result +
  hp_off_screen :: "bool option"
  hp_yaw :: rat
  hp_pitch :: rat
  hp_roll :: rat
  hp_ear :: rat
  hp_iris_offset :: rat

record object_detection_result = inference_result +
  od_detected_class :: string

text \<open>\<^verbatim>\<open>rms_db\<close> is minus infinity for a silent chunk, so it is a payload value.\<close>

record audio_vad_result = inference_result +
  av_speech_ratio :: rat
  av_rms_db :: jval
  av_speech_frames :: int
  av_total_frames :: int

record liveness_result = inference_result +
  lv_is_real :: bool

record browser_event_result = inference_result +
  be_detail :: jdict

end
