(* ===== verification/FusionTypes.thy ===== *)
theory FusionTypes
  imports InferenceTypes
begin

text \<open>
  The vocabulary of the fusion engine (\<^verbatim>\<open>fusion/_types.py\<close>), the book-detection rule
  (\<^verbatim>\<open>fusion/book_severity.py\<close>) and the exemption lookup (\<^verbatim>\<open>fusion/exemptions.py\<close>).
\<close>

section \<open>GazeAwayEvent and FlagDecision\<close>

record gaze_away_event =
  ga_started_at_ms :: int
  ga_ended_at_ms :: int
  ga_contributing_event_ids :: "uuid list"

record flag_decision =
  fd_rule_code :: string
  fd_severity :: string
  fd_confidence :: confidence_interval
  fd_triggered_termination :: bool
  fd_suppressed_by_exemption_id :: "uuid option"
  fd_detail :: jdict
  fd_contributing_event_ids :: "uuid list"
  fd_score_delta :: rat

text \<open>The constructor with the defaults of the dataclass for the optional fields.\<close>

definition default_flag_decision :: "string \<Rightarrow> string \<Rightarrow> confidence_interval \<Rightarrow> flag_decision" where
  "default_flag_decision rule sev conf =
     \<lparr> fd_rule_code = rule, fd_severity = sev, fd_confidence = conf,
       fd_triggered_termination = False, fd_suppressed_by_exemption_id = None,
       fd_detail = [], fd_contributing_event_ids = [], fd_score_delta = 0 \<rparr>"

lemma default_flag_decision_sel [simp]:
  "fd_rule_code (default_flag_decision r s c) = r"
  "fd_severity (default_flag_decision r s c) = s"
  "fd_confidence (default_flag_decision r s c) = c"
  "fd_triggered_termination (default_flag_decision r s c) = False"
  "fd_suppressed_by_exemption_id (default_flag_decision r s c) = None"
  "fd_detail (default_flag_decision r s c) = []"
  "fd_contributing_event_ids (default_flag_decision r s c) = []"
  "fd_score_delta (default_flag_decision r s c) = 0"
  by (simp_all add: default_flag_decision_def)

section \<open>Book severity\<close>

definition BOOK_FLAG_SEVERITY :: string where "BOOK_FLAG_SEVERITY = ''medium''"
definition BOOK_RULE_CODE :: string where "BOOK_RULE_CODE = ''book_detected''"

definition should_flag_book :: "string \<Rightarrow> jdict \<Rightarrow> bool" where
  "should_flag_book policy details =
     (if policy = ''closed_book'' then True
      else if policy = ''open_book'' then False
      else if policy = ''specific_list'' then
        (case dict_get details ''allowed_items'' (JList []) of
           JList allowed \<Rightarrow> \<not> List.member allowed (JStr ''book'')
         | _ \<Rightarrow> True)
      else True)"

lemma should_flag_book_iff:
  "\<not> should_flag_book policy details \<longleftrightarrow>
     policy = ''open_book'' \<or>
     policy = ''specific_list'' \<and>
       (\<exists>allowed. map_of details ''allowed_items'' = Some (JList allowed) \<and> JStr ''book'' \<in> set allowed)"
  by (auto simp: should_flag_book_def dict_get_def List.member_iff
      split: option.splits jval.splits)

section \<open>Exemptions\<close>

record exemption_record =
  ex_id :: uuid
  ex_participant_id :: uuid
  ex_object_class :: string
  ex_exam_reference :: string
  ex_effective_at :: timestamp
  ex_expires_at :: "timestamp option"

definition SUPPRESSED_SEVERITY :: string where "SUPPRESSED_SEVERITY = ''low''"

fun find_matching_exemption ::
  "uuid \<Rightarrow> string \<Rightarrow> string \<Rightarrow> timestamp \<Rightarrow> exemption_record list \<Rightarrow> exemption_record option" where
  "find_matching_exemption pid cls exam now [] = None"
| "find_matching_exemption pid cls exam now (ex # exs) =
     (if ex_participant_id ex \<noteq> pid then find_matching_exemption pid cls exam now exs
      else if ex_object_class ex \<noteq> cls then find_matching_exemption pid cls exam now exs
      else if ex_exam_reference ex \<noteq> exam then find_matching_exemption pid cls exam now exs
      else if now < ex_effective_at ex then find_matching_exemption pid cls exam now exs
      else (case ex_expires_at ex of
              Some e \<Rightarrow> if e \<le> now then find_matching_exemption pid cls exam now exs else Some ex
            | None \<Rightarrow> Some ex))"

text \<open>What it means for an exemption to cover a detection, independently of the loop.\<close>

definition exemption_covers :: "uuid \<Rightarrow> string \<Rightarrow> string \<Rightarrow> timestamp \<Rightarrow> exemption_record \<Rightarrow> bool" where
  "exemption_covers pid cls exam now ex \<longleftrightarrow>
     ex_participant_id ex = pid \<and> ex_object_class ex = cls \<and> ex_exam_reference ex = exam
     \<and> ex_effective_at ex \<le> now
     \<and> (case ex_expires_at ex of None \<Rightarrow> True | Some e \<Rightarrow> now < e)"

lemma find_matching_exemption_is_find:
  "find_matching_exemption pid cls exam now exs = find (exemption_covers pid cls exam now) exs"
  by (induction exs) (auto simp: exemption_covers_def split: option.splits)

lemma find_matching_exemption_covers:
  "find_matching_exemption pid cls exam now exs = Some ex \<Longrightarrow>
     ex \<in> set exs \<and> exemption_covers pid cls exam now ex"
  by (auto simp: find_matching_exemption_is_find find_Some_iff)

lemma find_matching_exemption_None:
  "find_matching_exemption pid cls exam now exs = None \<longleftrightarrow>
     (\<forall>ex\<in>set exs. \<not> exemption_covers pid cls exam now ex)"
  by (auto simp: find_matching_exemption_is_find find_None_iff)

end
