(* ===== verification/Enums.thy ===== *)
theory Enums
  imports Prelude
begin

text \<open>
  The enumerations of \<^verbatim>\<open>models.py\<close>.  Each is a datatype with the members of the source;
  \<open>*_value\<close> is the member's \<^verbatim>\<open>.value\<close>, the string that is persisted, and \<open>*_members\<close>
  lists the members in the order of the source.  \<open>enum_of\<close> is the lookup by value that
  \<^verbatim>\<open>E(s)\<close> performs; it raises \<^verbatim>\<open>ValueError\<close> for a string that is no member's value.
\<close>

datatype session_status = SS_PENDING | SS_ACTIVE | SS_COMPLETED | SS_TERMINATED
  | SS_UNDER_REVIEW | SS_REINSTATED

fun session_status_value :: "session_status \<Rightarrow> string" where
  "session_status_value SS_PENDING = ''pending''"
| "session_status_value SS_ACTIVE = ''active''"
| "session_status_value SS_COMPLETED = ''completed''"
| "session_status_value SS_TERMINATED = ''terminated''"
| "session_status_value SS_UNDER_REVIEW = ''under_review''"
| "session_status_value SS_REINSTATED = ''reinstated''"

definition session_status_members :: "session_status list" where
  "session_status_members =
     [SS_PENDING, SS_ACTIVE, SS_COMPLETED, SS_TERMINATED, SS_UNDER_REVIEW, SS_REINSTATED]"

datatype medium_score_action = AUTO_TERMINATE | FLAG_FOR_REVIEW

fun medium_score_action_value :: "medium_score_action \<Rightarrow> string" where
  "medium_score_action_value AUTO_TERMINATE = ''auto_terminate''"
| "medium_score_action_value FLAG_FOR_REVIEW = ''flag_for_review''"

datatype liveness_action = CRITICAL_TERMINATE | MEDIUM_ACCUMULATE

fun liveness_action_value :: "liveness_action \<Rightarrow> string" where
  "liveness_action_value CRITICAL_TERMINATE = ''critical_terminate''"
| "liveness_action_value MEDIUM_ACCUMULATE = ''medium_accumulate''"

datatype reference_material_policy = CLOSED_BOOK | OPEN_BOOK | SPECIFIC_LIST

fun reference_material_policy_value :: "reference_material_policy \<Rightarrow> string" where
  "reference_material_policy_value CLOSED_BOOK = ''closed_book''"
| "reference_material_policy_value OPEN_BOOK = ''open_book''"
| "reference_material_policy_value SPECIFIC_LIST = ''specific_list''"

datatype telemetry_modality = TM_BROWSER | TM_FACE | TM_GAZE | TM_IDENTITY | TM_OBJECT
  | TM_AUDIO | TM_LIVENESS | TM_SYSTEM

fun telemetry_modality_value :: "telemetry_modality \<Rightarrow> string" where
  "telemetry_modality_value TM_BROWSER = ''browser''"
| "telemetry_modality_value TM_FACE = ''face''"
| "telemetry_modality_value TM_GAZE = ''gaze''"
| "telemetry_modality_value TM_IDENTITY = ''identity''"
| "telemetry_modality_value TM_OBJECT = ''object''"
| "telemetry_modality_value TM_AUDIO = ''audio''"
| "telemetry_modality_value TM_LIVENESS = ''liveness''"
| "telemetry_modality_value TM_SYSTEM = ''system''"

definition telemetry_modality_members :: "telemetry_modality list" where
  "telemetry_modality_members =
     [TM_BROWSER, TM_FACE, TM_GAZE, TM_IDENTITY, TM_OBJECT, TM_AUDIO, TM_LIVENESS, TM_SYSTEM]"

datatype flag_severity = FS_LOW | FS_MEDIUM | FS_HIGH | FS_CRITICAL

fun flag_severity_value :: "flag_severity \<Rightarrow> string" where
  "flag_severity_value FS_LOW = ''low''"
| "flag_severity_value FS_MEDIUM = ''medium''"
| "flag_severity_value FS_HIGH = ''high''"
| "flag_severity_value FS_CRITICAL = ''critical''"

definition flag_severity_members :: "flag_severity list" where
  "flag_severity_members = [FS_LOW, FS_MEDIUM, FS_HIGH, FS_CRITICAL]"

datatype flag_status = FST_RAISED | FST_CONFIRMED | FST_DISMISSED | FST_OVERTURNED

fun flag_status_value :: "flag_status \<Rightarrow> string" where
  "flag_status_value FST_RAISED = ''raised''"
| "flag_status_value FST_CONFIRMED = ''confirmed''"
| "flag_status_value FST_DISMISSED = ''dismissed''"
| "flag_status_value FST_OVERTURNED = ''overturned''"

datatype evidence_kind = EK_FRAME | EK_CLIP | EK_AUDIO | EK_EVENT_EXPORT

fun evidence_kind_value :: "evidence_kind \<Rightarrow> string" where
  "evidence_kind_value EK_FRAME = ''frame''"
| "evidence_kind_value EK_CLIP = ''clip''"
| "evidence_kind_value EK_AUDIO = ''audio''"
| "evidence_kind_value EK_EVENT_EXPORT = ''event_export''"

definition evidence_kind_members :: "evidence_kind list" where
  "evidence_kind_members = [EK_FRAME, EK_CLIP, EK_AUDIO, EK_EVENT_EXPORT]"

datatype delivery_status = DS_PENDING | DS_SENT | DS_ACKNOWLEDGED | DS_FAILED

fun delivery_status_value :: "delivery_status \<Rightarrow> string" where
  "delivery_status_value DS_PENDING = ''pending''"
| "delivery_status_value DS_SENT = ''sent''"
| "delivery_status_value DS_ACKNOWLEDGED = ''acknowledged''"
| "delivery_status_value DS_FAILED = ''failed''"

datatype review_decision = RD_UPHELD | RD_OVERTURNED | RD_ANNOTATED | RD_NEEDS_MORE_INFO

fun review_decision_value :: "review_decision \<Rightarrow> string" where
  "review_decision_value RD_UPHELD = ''upheld''"
| "review_decision_value RD_OVERTURNED = ''overturned''"
| "review_decision_value RD_ANNOTATED = ''annotated''"
| "review_decision_value RD_NEEDS_MORE_INFO = ''needs_more_info''"

datatype admin_role = AR_INSTRUCTOR | AR_ADMIN | AR_PROCTOR | AR_HEAD

fun admin_role_value :: "admin_role \<Rightarrow> string" where
  "admin_role_value AR_INSTRUCTOR = ''instructor''"
| "admin_role_value AR_ADMIN = ''admin''"
| "admin_role_value AR_PROCTOR = ''proctor''"
| "admin_role_value AR_HEAD = ''head''"

definition admin_role_members :: "admin_role list" where
  "admin_role_members = [AR_INSTRUCTOR, AR_ADMIN, AR_PROCTOR, AR_HEAD]"

datatype identity_verification_status = IV_PENDING_CHECK | IV_VERIFIED | IV_UNAVAILABLE
  | IV_FAILED_TO_MATCH

fun identity_verification_status_value :: "identity_verification_status \<Rightarrow> string" where
  "identity_verification_status_value IV_PENDING_CHECK = ''pending_check''"
| "identity_verification_status_value IV_VERIFIED = ''verified''"
| "identity_verification_status_value IV_UNAVAILABLE = ''unavailable''"
| "identity_verification_status_value IV_FAILED_TO_MATCH = ''failed_to_match''"

datatype override_request_status = OR_PENDING | OR_APPROVED | OR_REJECTED

fun override_request_status_value :: "override_request_status \<Rightarrow> string" where
  "override_request_status_value OR_PENDING = ''pending''"
| "override_request_status_value OR_APPROVED = ''approved''"
| "override_request_status_value OR_REJECTED = ''rejected''"

section \<open>Lookup by value\<close>

fun enum_of :: "('e \<Rightarrow> string) \<Rightarrow> 'e list \<Rightarrow> string \<Rightarrow> py_error + 'e" where
  "enum_of value [] s = Inl (ValueError s)"
| "enum_of value (m # ms) s = (if value m = s then Inr m else enum_of value ms s)"

lemma enum_of_value:
  "distinct (map value ms) \<Longrightarrow> m \<in> set ms \<Longrightarrow> enum_of value ms (value m) = Inr m"
  by (induction ms) force+

lemma enum_of_Inr: "enum_of value ms s = Inr m \<Longrightarrow> m \<in> set ms \<and> value m = s"
  by (induction ms) (auto split: if_splits)

lemma enum_of_error: "(\<exists>e. enum_of value ms s = Inl e) \<longleftrightarrow> s \<notin> value ` set ms"
  by (induction ms) auto

lemma session_status_members_all: "m \<in> set session_status_members"
  by (cases m) (simp_all add: session_status_members_def)

lemma flag_severity_members_all: "m \<in> set flag_severity_members"
  by (cases m) (simp_all add: flag_severity_members_def)

lemma evidence_kind_members_all: "m \<in> set evidence_kind_members"
  by (cases m) (simp_all add: evidence_kind_members_def)

lemma admin_role_members_all: "m \<in> set admin_role_members"
  by (cases m) (simp_all add: admin_role_members_def)

lemma telemetry_modality_members_all: "m \<in> set telemetry_modality_members"
  by (cases m) (simp_all add: telemetry_modality_members_def)

lemma severity_of_value: "enum_of flag_severity_value flag_severity_members (flag_severity_value m) = Inr m"
  by (rule enum_of_value) (simp_all add: flag_severity_members_all, simp add: flag_severity_members_def)

lemma evidence_kind_of_value:
  "enum_of evidence_kind_value evidence_kind_members (evidence_kind_value m) = Inr m"
  by (rule enum_of_value) (simp_all add: evidence_kind_members_all, simp add: evidence_kind_members_def)

end
