(* ===== verification/Aggregator.thy ===== *)
theory Aggregator
  imports FusionTypes Enums
begin

text \<open>
  The fusion aggregator (\<^verbatim>\<open>fusion/aggregator.py\<close>): one \<open>session_aggregator\<close> record per
  exam session with the attributes of the class \<^verbatim>\<open>SessionAggregator\<close>, and one function per
  \<^verbatim>\<open>process_*\<close> method from the state to the new state and the list of flag decisions.
  The two methods that can raise (\<open>process_liveness\<close>, \<open>process_identity_match\<close>: mean and
  confidence interval of a window) return a sum; the attributes they changed before the
  exception stay changed, as in the code.  Floats are rounded by the \<open>float_arith\<close> argument.
\<close>

section \<open>Constants\<close>

definition RULE_SECOND_PERSON :: string where "RULE_SECOND_PERSON = ''second_person''"
definition RULE_GAZE_AWAY_FREQUENCY :: string where "RULE_GAZE_AWAY_FREQUENCY = ''gaze_away_frequency''"
definition RULE_ACCUMULATED_SCORE :: string where "RULE_ACCUMULATED_SCORE = ''accumulated_score''"
definition RULE_OBJECT_DETECTED :: string where "RULE_OBJECT_DETECTED = ''object_detected''"
definition RULE_BROWSER_EVENT :: string where "RULE_BROWSER_EVENT = ''browser_event''"
definition RULE_LIVENESS_CHECK_FAILED :: string where "RULE_LIVENESS_CHECK_FAILED = ''liveness_check_failed''"
definition RULE_IDENTITY_MISMATCH :: string where "RULE_IDENTITY_MISMATCH = ''identity_mismatch''"
definition RULE_IDENTITY_CHECK_UNAVAILABLE :: string where
  "RULE_IDENTITY_CHECK_UNAVAILABLE = ''identity_check_unavailable''"
definition RULE_AUDIO_ANOMALY :: string where "RULE_AUDIO_ANOMALY = ''audio_anomaly''"

lemmas rule_codes =
  RULE_SECOND_PERSON_def RULE_GAZE_AWAY_FREQUENCY_def RULE_ACCUMULATED_SCORE_def
  RULE_OBJECT_DETECTED_def RULE_BROWSER_EVENT_def RULE_LIVENESS_CHECK_FAILED_def
  RULE_IDENTITY_MISMATCH_def RULE_IDENTITY_CHECK_UNAVAILABLE_def RULE_AUDIO_ANOMALY_def
  BOOK_RULE_CODE_def

definition SEV_CRITICAL :: string where "SEV_CRITICAL = ''critical''"
definition SEV_MEDIUM :: string where "SEV_MEDIUM = ''medium''"

lemmas severities = SEV_CRITICAL_def SEV_MEDIUM_def SUPPRESSED_SEVERITY_def BOOK_FLAG_SEVERITY_def

definition BROWSER_ACCUMULATION_EVENTS :: "string list" where
  "BROWSER_ACCUMULATION_EVENTS = [''visibilitychange'', ''blur'']"

section \<open>PolicySnapshot and SessionContext\<close>

record policy_snapshot =
  ps_terminate_on_second_face :: bool
  ps_second_face_confirmation_frames :: int
  ps_gaze_min_duration_ms :: int
  ps_gaze_window_seconds :: int
  ps_gaze_warning_limit :: int
  ps_gaze_termination_limit :: int
  ps_medium_score_termination_threshold :: rat
  ps_medium_score_action :: medium_score_action
  ps_liveness_check_enabled :: bool
  ps_liveness_check_action :: "liveness_action option"
  ps_liveness_score_threshold :: rat
  ps_liveness_confirmation_frames :: int
  ps_identity_similarity_threshold :: rat
  ps_identity_confirmation_frames :: int
  ps_audio_noise_floor_dbfs :: rat
  ps_audio_speech_ratio_threshold :: rat
  ps_score_weights :: "(string \<times> rat) list"

definition default_policy_snapshot :: policy_snapshot where
  "default_policy_snapshot =
     \<lparr> ps_terminate_on_second_face = True,
       ps_second_face_confirmation_frames = 3,
       ps_gaze_min_duration_ms = 800,
       ps_gaze_window_seconds = 300,
       ps_gaze_warning_limit = 3,
       ps_gaze_termination_limit = 8,
       ps_medium_score_termination_threshold = 10,
       ps_medium_score_action = AUTO_TERMINATE,
       ps_liveness_check_enabled = False,
       ps_liveness_check_action = None,
       ps_liveness_score_threshold = 1 / 2,
       ps_liveness_confirmation_frames = 3,
       ps_identity_similarity_threshold = 5404319552844595 / 9007199254740992,
       ps_identity_confirmation_frames = 3,
       ps_audio_noise_floor_dbfs = - 30,
       ps_audio_speech_ratio_threshold = 5404319552844595 / 18014398509481984,
       ps_score_weights = [] \<rparr>"

definition weight_for :: "policy_snapshot \<Rightarrow> string \<Rightarrow> rat" where
  "weight_for p rule_code = dict_get (ps_score_weights p) rule_code 1"

record session_context =
  cx_exam_session_id :: uuid
  cx_participant_id :: uuid
  cx_exam_reference :: string
  cx_policy_config_id :: uuid
  cx_allowed_reference_materials :: string
  cx_permitted_material_details :: jdict
  cx_exemptions :: "exemption_record list"

section \<open>State\<close>

record session_aggregator =
  sa_policy :: policy_snapshot
  sa_ctx :: session_context
  sa_consecutive_second_person_frames :: int
  sa_second_person_event_ids :: "uuid list"
  sa_second_person_fired :: bool
  sa_gaze_off_start_ms :: "int option"
  sa_gaze_off_event_ids :: "uuid list"
  sa_gaze_away_events :: "gaze_away_event list"
  sa_gaze_termination_fired :: bool
  sa_accumulated_score :: rat
  sa_liveness_window :: "liveness_result list"
  sa_liveness_event_ids_window :: "uuid list"
  sa_liveness_spoof_run_length :: int
  sa_identity_unavailable_fired :: bool
  sa_identity_window :: "identity_match_result list"
  sa_identity_event_ids_window :: "uuid list"
  sa_identity_mismatch_fired :: bool

definition new_session_aggregator :: "policy_snapshot \<Rightarrow> session_context \<Rightarrow> session_aggregator" where
  "new_session_aggregator policy ctx =
     \<lparr> sa_policy = policy, sa_ctx = ctx,
       sa_consecutive_second_person_frames = 0,
       sa_second_person_event_ids = [],
       sa_second_person_fired = False,
       sa_gaze_off_start_ms = None,
       sa_gaze_off_event_ids = [],
       sa_gaze_away_events = [],
       sa_gaze_termination_fired = False,
       sa_accumulated_score = 0,
       sa_liveness_window = [],
       sa_liveness_event_ids_window = [],
       sa_liveness_spoof_run_length = 0,
       sa_identity_unavailable_fired = False,
       sa_identity_window = [],
       sa_identity_event_ids_window = [],
       sa_identity_mismatch_fired = False \<rparr>"

definition gaze_away_count_in_window :: "session_aggregator \<Rightarrow> int" where
  "gaze_away_count_in_window st = int (length (sa_gaze_away_events st))"

type_synonym agg_result = "session_aggregator \<times> flag_decision list"

section \<open>Accumulated score\<close>

definition check_accumulated_threshold :: "session_aggregator \<Rightarrow> uuid list \<Rightarrow> flag_decision option" where
  "check_accumulated_threshold st ids =
     (let threshold = ps_medium_score_termination_threshold (sa_policy st) in
      if threshold \<le> 0 then None
      else if sa_accumulated_score st < threshold then None
      else if ps_medium_score_action (sa_policy st) = AUTO_TERMINATE then
        Some ((default_flag_decision RULE_ACCUMULATED_SCORE SEV_CRITICAL certain)
          \<lparr> fd_triggered_termination := True,
            fd_detail :=
              [(''accumulated_score'', JFloat (sa_accumulated_score st)),
               (''threshold'', JFloat threshold),
               (''medium_score_action'', JStr (medium_score_action_value AUTO_TERMINATE))],
            fd_contributing_event_ids := ids \<rparr>)
      else
        Some ((default_flag_decision RULE_ACCUMULATED_SCORE SEV_CRITICAL certain)
          \<lparr> fd_triggered_termination := False,
            fd_detail :=
              [(''accumulated_score'', JFloat (sa_accumulated_score st)),
               (''threshold'', JFloat threshold),
               (''medium_score_action'', JStr (medium_score_action_value FLAG_FOR_REVIEW))],
            fd_contributing_event_ids := ids \<rparr>))"

text \<open>The shared tail of the accumulating paths: add the weight, then check the threshold
  and append its decision.\<close>

definition accumulate_and_check ::
  "float_arith \<Rightarrow> rat \<Rightarrow> uuid list \<Rightarrow> flag_decision list \<Rightarrow> session_aggregator \<Rightarrow> agg_result" where
  "accumulate_and_check fa weight ids decisions st =
     (let st1 = st\<lparr> sa_accumulated_score := f_add fa (sa_accumulated_score st) weight \<rparr> in
      case check_accumulated_threshold st1 ids of
        None \<Rightarrow> (st1, decisions)
      | Some acc \<Rightarrow> (st1, decisions @ [acc]))"

section \<open>Path 1: second person\<close>

definition process_face_presence ::
  "face_presence_result \<Rightarrow> uuid \<Rightarrow> session_aggregator \<Rightarrow> agg_result" where
  "process_face_presence result eid st =
     (if sa_second_person_fired st then (st, [])
      else if \<not> ps_terminate_on_second_face (sa_policy st) then (st, [])
      else if fp_face_count result \<ge> 2 then
        (let st1 = st\<lparr> sa_consecutive_second_person_frames := sa_consecutive_second_person_frames st + 1,
                       sa_second_person_event_ids := sa_second_person_event_ids st @ [eid] \<rparr>
         in if sa_consecutive_second_person_frames st1
               \<ge> ps_second_face_confirmation_frames (sa_policy st1)
            then (st1\<lparr> sa_second_person_fired := True \<rparr>,
                  [(default_flag_decision RULE_SECOND_PERSON SEV_CRITICAL (ir_confidence result))
                     \<lparr> fd_triggered_termination := True,
                       fd_detail :=
                         [(''face_count'', JInt (fp_face_count result)),
                          (''confirmation_frames'',
                             JInt (ps_second_face_confirmation_frames (sa_policy st1)))],
                       fd_contributing_event_ids := sa_second_person_event_ids st1 \<rparr>])
            else (st1, []))
      else (st\<lparr> sa_consecutive_second_person_frames := 0, sa_second_person_event_ids := [] \<rparr>, []))"

section \<open>Windows\<close>

text \<open>\<^verbatim>\<open>append\<close> to the deque and one \<^verbatim>\<open>popleft\<close> when it is longer than the limit.\<close>

definition push_window :: "int \<Rightarrow> 'a list \<Rightarrow> 'a \<Rightarrow> 'a list" where
  "push_window n w x = (let w1 = w @ [x] in if int (length w1) > n then tl w1 else w1)"

text \<open>Mean, minimum and maximum of a window with the mean clamped between the two, and the
  confidence interval built from them.\<close>

definition window_interval ::
  "float_arith \<Rightarrow> rat list \<Rightarrow> py_error + (rat \<times> rat \<times> rat \<times> confidence_interval)" where
  "window_interval fa scores =
     bind_err (py_mean fa scores) (\<lambda>mean_score.
     bind_err (py_min scores) (\<lambda>min_score.
     bind_err (py_max scores) (\<lambda>max_score.
     let clamped_mean = max min_score (min max_score mean_score) in
     bind_err (mk_confidence_interval min_score clamped_mean max_score) (\<lambda>interval.
     Inr (clamped_mean, min_score, max_score, interval)))))"

section \<open>Path 4: liveness\<close>

definition liveness_detail ::
  "session_aggregator \<Rightarrow> liveness_action \<Rightarrow> rat \<Rightarrow> rat \<Rightarrow> rat \<Rightarrow> jdict" where
  "liveness_detail st action mean mn mx =
     [(''window_size'', JInt (ps_liveness_confirmation_frames (sa_policy st))),
      (''mean_confidence'', JFloat mean),
      (''min_confidence'', JFloat mn),
      (''max_confidence'', JFloat mx),
      (''threshold'', JFloat (ps_liveness_score_threshold (sa_policy st))),
      (''liveness_check_action'', JStr (liveness_action_value action))]"

text \<open>The rolling window of results and the parallel window of event ids: append to both,
  pop both when the result window has become too long.\<close>

definition liveness_push :: "liveness_result \<Rightarrow> uuid \<Rightarrow> session_aggregator \<Rightarrow> session_aggregator" where
  "liveness_push result eid st =
     (let window_size = ps_liveness_confirmation_frames (sa_policy st);
          long = int (length (sa_liveness_window st @ [result])) > window_size
      in st\<lparr> sa_liveness_window := push_window window_size (sa_liveness_window st) result,
             sa_liveness_event_ids_window :=
               (if long then tl (sa_liveness_event_ids_window st @ [eid])
                else sa_liveness_event_ids_window st @ [eid]) \<rparr>)"

text \<open>The confirmed spoof window: interval, severity by the configured action, score.\<close>

definition liveness_fire ::
  "float_arith \<Rightarrow> session_aggregator \<Rightarrow> session_aggregator \<times> (py_error + flag_decision list)" where
  "liveness_fire fa st =
     (case window_interval fa (map (\<lambda>r. ci_score (ir_confidence r)) (sa_liveness_window st)) of
        Inl e \<Rightarrow> (st, Inl e)
      | Inr (mean, mn, mx, interval) \<Rightarrow>
          if ps_liveness_check_action (sa_policy st) = Some CRITICAL_TERMINATE then
            (st, Inr [(default_flag_decision RULE_LIVENESS_CHECK_FAILED SEV_CRITICAL interval)
               \<lparr> fd_triggered_termination := True,
                 fd_detail := liveness_detail st CRITICAL_TERMINATE mean mn mx,
                 fd_contributing_event_ids := sa_liveness_event_ids_window st \<rparr>])
          else
            let weight = weight_for (sa_policy st) RULE_LIVENESS_CHECK_FAILED;
                decision = (default_flag_decision RULE_LIVENESS_CHECK_FAILED SEV_MEDIUM interval)
                  \<lparr> fd_detail := liveness_detail st MEDIUM_ACCUMULATE mean mn mx,
                    fd_contributing_event_ids := sa_liveness_event_ids_window st,
                    fd_score_delta := weight \<rparr>;
                r = accumulate_and_check fa weight (sa_liveness_event_ids_window st) [decision] st
            in (fst r, Inr (snd r)))"

definition process_liveness ::
  "float_arith \<Rightarrow> liveness_result \<Rightarrow> uuid \<Rightarrow> session_aggregator
     \<Rightarrow> session_aggregator \<times> (py_error + flag_decision list)" where
  "process_liveness fa result eid st =
     (if \<not> ps_liveness_check_enabled (sa_policy st) then (st, Inr [])
      else
        let window_size = ps_liveness_confirmation_frames (sa_policy st);
            st1 = liveness_push result eid st
        in
        if lv_is_real result then (st1\<lparr> sa_liveness_spoof_run_length := 0 \<rparr>, Inr [])
        else
          let st2 = st1\<lparr> sa_liveness_spoof_run_length := sa_liveness_spoof_run_length st1 + 1 \<rparr> in
          if int (length (sa_liveness_window st2)) < window_size then (st2, Inr [])
          else if list_ex lv_is_real (sa_liveness_window st2) then (st2, Inr [])
          else if window_size = 0 then (st2, Inl ZeroDivisionError)
          else if sa_liveness_spoof_run_length st2 mod window_size \<noteq> 0 then (st2, Inr [])
          else liveness_fire fa st2)"

section \<open>Path 2: gaze\<close>

text \<open>First part of \<^verbatim>\<open>process_gaze\<close>: continue, close or ignore the off-screen streak.\<close>

definition gaze_track :: "head_pose_gaze_result \<Rightarrow> uuid \<Rightarrow> int \<Rightarrow> session_aggregator \<Rightarrow> session_aggregator" where
  "gaze_track result eid ts st =
     (case hp_off_screen result of
        None \<Rightarrow> st
      | Some True \<Rightarrow>
          st\<lparr> sa_gaze_off_start_ms :=
                (case sa_gaze_off_start_ms st of None \<Rightarrow> Some ts | Some s \<Rightarrow> Some s),
              sa_gaze_off_event_ids := sa_gaze_off_event_ids st @ [eid] \<rparr>
      | Some False \<Rightarrow>
          (case sa_gaze_off_start_ms st of
             None \<Rightarrow> st
           | Some s \<Rightarrow>
               (let duration_ms = ts - s;
                    st1 = (if duration_ms \<ge> ps_gaze_min_duration_ms (sa_policy st)
                           then st\<lparr> sa_gaze_away_events := sa_gaze_away_events st @
                                  [\<lparr> ga_started_at_ms = s, ga_ended_at_ms = ts,
                                     ga_contributing_event_ids = sa_gaze_off_event_ids st \<rparr>] \<rparr>
                           else st)
                in st1\<lparr> sa_gaze_off_start_ms := None, sa_gaze_off_event_ids := [] \<rparr>)))"

text \<open>The \<^verbatim>\<open>while\<close> loop that pops expired events from the left.\<close>

fun expire_gaze :: "int \<Rightarrow> gaze_away_event list \<Rightarrow> gaze_away_event list" where
  "expire_gaze window_start [] = []"
| "expire_gaze window_start (ev # evs) =
     (if ga_ended_at_ms ev < window_start then expire_gaze window_start evs else ev # evs)"

text \<open>Third part: the two limits, the termination limit first.\<close>

definition gaze_evaluate ::
  "float_arith \<Rightarrow> head_pose_gaze_result \<Rightarrow> session_aggregator \<Rightarrow> agg_result" where
  "gaze_evaluate fa result st =
     (let p = sa_policy st; count = int (length (sa_gaze_away_events st)) in
      if count \<ge> ps_gaze_termination_limit p then
        (st\<lparr> sa_gaze_termination_fired := True \<rparr>,
         [(default_flag_decision RULE_GAZE_AWAY_FREQUENCY SEV_CRITICAL (ir_confidence result))
            \<lparr> fd_triggered_termination := True,
              fd_detail :=
                [(''gaze_away_count'', JInt count),
                 (''gaze_termination_limit'', JInt (ps_gaze_termination_limit p)),
                 (''window_seconds'', JInt (ps_gaze_window_seconds p))],
              fd_contributing_event_ids :=
                concat (map ga_contributing_event_ids (sa_gaze_away_events st)) \<rparr>])
      else if count \<ge> ps_gaze_warning_limit p then
        (let contributing = (if sa_gaze_away_events st = [] then []
                             else ga_contributing_event_ids (last (sa_gaze_away_events st)));
             weight = weight_for p RULE_GAZE_AWAY_FREQUENCY;
             medium = (default_flag_decision RULE_GAZE_AWAY_FREQUENCY SEV_MEDIUM (ir_confidence result))
               \<lparr> fd_detail :=
                   [(''gaze_away_count'', JInt count),
                    (''gaze_warning_limit'', JInt (ps_gaze_warning_limit p)),
                    (''window_seconds'', JInt (ps_gaze_window_seconds p))],
                 fd_contributing_event_ids := contributing,
                 fd_score_delta := weight \<rparr>
         in accumulate_and_check fa weight contributing [medium] st)
      else (st, []))"

definition process_gaze ::
  "float_arith \<Rightarrow> head_pose_gaze_result \<Rightarrow> uuid \<Rightarrow> int \<Rightarrow> session_aggregator \<Rightarrow> agg_result" where
  "process_gaze fa result eid ts st =
     (if sa_gaze_termination_fired st then (st, [])
      else
        let st1 = gaze_track result eid ts st;
            window_start_ms = ts - ps_gaze_window_seconds (sa_policy st1) * 1000;
            st2 = st1\<lparr> sa_gaze_away_events := expire_gaze window_start_ms (sa_gaze_away_events st1) \<rparr>
        in gaze_evaluate fa result st2)"

section \<open>Path 5: identity\<close>

definition identity_push :: "identity_match_result \<Rightarrow> uuid \<Rightarrow> session_aggregator \<Rightarrow> session_aggregator" where
  "identity_push result eid st =
     (let window_size = ps_identity_confirmation_frames (sa_policy st);
          long = int (length (sa_identity_window st @ [result])) > window_size
      in st\<lparr> sa_identity_window := push_window window_size (sa_identity_window st) result,
             sa_identity_event_ids_window :=
               (if long then tl (sa_identity_event_ids_window st @ [eid])
                else sa_identity_event_ids_window st @ [eid]) \<rparr>)"

definition identity_fire ::
  "float_arith \<Rightarrow> session_aggregator \<Rightarrow> session_aggregator \<times> (py_error + flag_decision list)" where
  "identity_fire fa st =
     (case window_interval fa (map im_similarity (sa_identity_window st)) of
        Inl e \<Rightarrow> (st, Inl e)
      | Inr (mean, mn, mx, interval) \<Rightarrow>
          (st\<lparr> sa_identity_mismatch_fired := True \<rparr>,
           Inr [(default_flag_decision RULE_IDENTITY_MISMATCH SEV_CRITICAL interval)
             \<lparr> fd_triggered_termination := True,
               fd_detail :=
                 [(''window_size'', JInt (ps_identity_confirmation_frames (sa_policy st))),
                  (''mean_similarity'', JFloat mean),
                  (''min_similarity'', JFloat mn),
                  (''max_similarity'', JFloat mx),
                  (''threshold'', JFloat (ps_identity_similarity_threshold (sa_policy st)))],
               fd_contributing_event_ids := sa_identity_event_ids_window st \<rparr>]))"

definition process_identity_match ::
  "float_arith \<Rightarrow> identity_match_result \<Rightarrow> uuid \<Rightarrow> session_aggregator
     \<Rightarrow> session_aggregator \<times> (py_error + flag_decision list)" where
  "process_identity_match fa result eid st =
     (if sa_identity_mismatch_fired st then (st, Inr [])
      else
        let st1 = identity_push result eid st in
        if int (length (sa_identity_window st1)) < ps_identity_confirmation_frames (sa_policy st)
        then (st1, Inr [])
        else if list_ex (\<lambda>r. im_similarity r \<ge> ps_identity_similarity_threshold (sa_policy st))
                  (sa_identity_window st1)
        then (st1, Inr [])
        else identity_fire fa st1)"

definition process_identity_check_unavailable :: "uuid \<Rightarrow> session_aggregator \<Rightarrow> agg_result" where
  "process_identity_check_unavailable eid st =
     (st, [(default_flag_decision RULE_IDENTITY_CHECK_UNAVAILABLE SEV_MEDIUM certain)
             \<lparr> fd_detail :=
                 [(''reason'', JStr ''identity backend unavailable at session start; override exists, mandatory review required'')],
               fd_contributing_event_ids := [eid] \<rparr>])"

section \<open>Object detection\<close>

definition process_object_detection ::
  "float_arith \<Rightarrow> object_detection_result \<Rightarrow> uuid \<Rightarrow> timestamp \<Rightarrow> session_aggregator \<Rightarrow> agg_result" where
  "process_object_detection fa result eid now st =
     (let cls = od_detected_class result; ctx = sa_ctx st in
      if cls = ''book'' \<and> \<not> should_flag_book (cx_allowed_reference_materials ctx)
                                             (cx_permitted_material_details ctx)
      then (st, [])
      else
        let exemption = find_matching_exemption (cx_participant_id ctx) cls (cx_exam_reference ctx)
                          now (cx_exemptions ctx);
            rule_code = (if cls = ''book'' then BOOK_RULE_CODE else RULE_OBJECT_DETECTED);
            base_severity = (if cls = ''book'' then BOOK_FLAG_SEVERITY else SEV_MEDIUM);
            severity = (case exemption of Some _ \<Rightarrow> SUPPRESSED_SEVERITY | None \<Rightarrow> base_severity);
            decision = (default_flag_decision rule_code severity (ir_confidence result))
              \<lparr> fd_suppressed_by_exemption_id := map_option ex_id exemption,
                fd_detail :=
                  [(''detected_class'', JStr cls),
                   (''yolo_confidence'', JFloat (ci_score (ir_confidence result))),
                   (''suppressed'', JBool (exemption \<noteq> None))],
                fd_contributing_event_ids := [eid] \<rparr>
        in
        if severity = SEV_MEDIUM then
          let weight = weight_for (sa_policy st) rule_code in
          accumulate_and_check fa weight [eid] [decision\<lparr> fd_score_delta := weight \<rparr>] st
        else (st, [decision]))"

section \<open>Browser events\<close>

definition process_browser_event ::
  "float_arith \<Rightarrow> browser_event_result \<Rightarrow> uuid \<Rightarrow> session_aggregator \<Rightarrow> agg_result" where
  "process_browser_event fa result eid st =
     (let accumulates = List.member BROWSER_ACCUMULATION_EVENTS (ir_event_type result);
          weight = (if accumulates then weight_for (sa_policy st) RULE_BROWSER_EVENT else 0);
          decision = (default_flag_decision RULE_BROWSER_EVENT SEV_MEDIUM (ir_confidence result))
            \<lparr> fd_detail :=
                [(''browser_event_type'', JStr (ir_event_type result)),
                 (''detail'', JDict (be_detail result))],
              fd_contributing_event_ids := [eid],
              fd_score_delta := weight \<rparr>
      in if accumulates then accumulate_and_check fa weight [eid] [decision] st
         else (st, [decision]))"

section \<open>Path 6: audio\<close>

definition process_audio_vad ::
  "float_arith \<Rightarrow> audio_vad_result \<Rightarrow> uuid \<Rightarrow> session_aggregator \<Rightarrow> agg_result" where
  "process_audio_vad fa result eid st =
     (if ir_event_type result = ''silence'' then (st, [])
      else
        let weight = weight_for (sa_policy st) RULE_AUDIO_ANOMALY;
            decision = (default_flag_decision RULE_AUDIO_ANOMALY SEV_MEDIUM (ir_confidence result))
              \<lparr> fd_detail :=
                  [(''audio_event_type'', JStr (ir_event_type result)),
                   (''speech_ratio'', JFloat (av_speech_ratio result)),
                   (''rms_db'', av_rms_db result),
                   (''speech_ratio_threshold'', JFloat (ps_audio_speech_ratio_threshold (sa_policy st))),
                   (''noise_floor_dbfs'', JFloat (ps_audio_noise_floor_dbfs (sa_policy st)))],
                fd_contributing_event_ids := [eid],
                fd_score_delta := weight \<rparr>
        in accumulate_and_check fa weight [eid] [decision] st)"

end
