(* ===== verification/Windows.thy ===== *)
theory Windows
  imports Prelude
begin

text \<open>
  Runs of consecutive readings: the specification side of every confirmation-frame rule.
  \<open>trailing_run P xs\<close> is the number of readings at the end of the history \<open>xs\<close> that satisfy
  \<open>P\<close>; \<open>has_run n P xs\<close> says that somewhere in the history \<open>n\<close> consecutive readings do.
\<close>

definition trailing_run :: "('a \<Rightarrow> bool) \<Rightarrow> 'a list \<Rightarrow> nat" where
  "trailing_run P xs = length (takeWhile P (rev xs))"

definition has_run :: "nat \<Rightarrow> ('a \<Rightarrow> bool) \<Rightarrow> 'a list \<Rightarrow> bool" where
  "has_run n P xs \<longleftrightarrow> (\<exists>i\<le>length xs. i + n \<le> length xs \<and> (\<forall>j<n. P (xs ! (i + j))))"

lemma has_runI: "i + n \<le> length xs \<Longrightarrow> (\<And>j. j < n \<Longrightarrow> P (xs ! (i + j))) \<Longrightarrow> has_run n P xs"
  by (auto simp: has_run_def intro!: exI[of _ i])

lemma trailing_run_Nil [simp]: "trailing_run P [] = 0"
  by (simp add: trailing_run_def)

lemma trailing_run_snoc [simp]:
  "trailing_run P (xs @ [x]) = (if P x then Suc (trailing_run P xs) else 0)"
  by (simp add: trailing_run_def)

lemma trailing_run_le_length: "trailing_run P xs \<le> length xs"
  by (metis length_rev length_takeWhile_le trailing_run_def)

lemma list_all_lastn_snoc:
  "list_all P (lastn (Suc n) (xs @ [x])) \<longleftrightarrow> list_all P (lastn n xs) \<and> P x"
  by (simp add: lastn_snoc_Suc)

lemma trailing_run_ge:
  "n \<le> trailing_run P xs \<longleftrightarrow> n \<le> length xs \<and> list_all P (lastn n xs)"
proof (induction xs arbitrary: n rule: rev_induct)
  case (snoc x xs)
  then show ?case by (cases n) (auto simp: list_all_lastn_snoc)
qed auto

lemma trailing_run_append_all:
  "list_all P ys \<Longrightarrow> trailing_run P (xs @ ys) = trailing_run P xs + length ys"
proof (induction ys rule: rev_induct)
  case (snoc y ys)
  then show ?case by (simp flip: append_assoc)
qed simp

lemma has_run_lastn:
  "n \<le> length xs \<Longrightarrow> list_all P (lastn n xs) \<Longrightarrow> has_run n P xs"
  by (rule has_runI[of "length xs - n"]) (auto simp: lastn_def list_all_length)

lemma has_run_Nil [simp]: "has_run n P [] \<longleftrightarrow> n = 0"
  by (auto simp: has_run_def)

lemma has_run_snoc:
  assumes "0 < n"
  shows "has_run n P (xs @ [x]) \<longleftrightarrow> has_run n P xs \<or> n \<le> trailing_run P (xs @ [x])"
proof
  assume "has_run n P (xs @ [x])"
  then obtain i where i: "i + n \<le> Suc (length xs)" "\<forall>j<n. P ((xs @ [x]) ! (i + j))"
    by (auto simp: has_run_def)
  show "has_run n P xs \<or> n \<le> trailing_run P (xs @ [x])"
  proof (cases "i + n \<le> length xs")
    case True
    with i(2) have "\<forall>j<n. P (xs ! (i + j))" by (auto simp: nth_append)
    with True have "has_run n P xs" by (blast intro: has_runI)
    then show ?thesis ..
  next
    case False
    with i(1) have "i + n = length (xs @ [x])" by simp
    then have "length (xs @ [x]) - n = i" by arith
    then have "lastn n (xs @ [x]) = drop i (xs @ [x])" by (simp only: lastn_def)
    with i(2) \<open>i + n = length (xs @ [x])\<close> have "list_all P (lastn n (xs @ [x]))"
      by (auto simp only: list_all_length length_drop nth_drop)
    with i(1) show ?thesis by (simp only: trailing_run_ge) simp
  qed
next
  assume "has_run n P xs \<or> n \<le> trailing_run P (xs @ [x])"
  then show "has_run n P (xs @ [x])"
  proof
    assume "has_run n P xs"
    then obtain i where "i + n \<le> length xs" "\<forall>j<n. P (xs ! (i + j))"
      by (auto simp: has_run_def)
    then show ?thesis by (intro has_runI[of i]) (auto simp: nth_append)
  next
    assume "n \<le> trailing_run P (xs @ [x])"
    then show ?thesis by (simp only: trailing_run_ge has_run_lastn)
  qed
qed

lemma has_run_trailing: "n \<le> trailing_run P xs \<Longrightarrow> has_run n P xs"
  by (simp only: trailing_run_ge has_run_lastn)

text \<open>The lengths of the prefixes of a history that satisfy \<open>P\<close>: the moments at which a
  condition on the history so far held.\<close>

definition prefix_points :: "('a list \<Rightarrow> bool) \<Rightarrow> 'a list \<Rightarrow> nat list" where
  "prefix_points P xs = filter (\<lambda>k. P (take k xs)) [0..<Suc (length xs)]"

lemma prefix_points_Nil [simp]: "prefix_points P [] = (if P [] then [0] else [])"
  by (simp add: prefix_points_def)

lemma prefix_points_snoc [simp]:
  "prefix_points P (xs @ [x]) = prefix_points P xs @ (if P (xs @ [x]) then [Suc (length xs)] else [])"
proof -
  have "filter (\<lambda>k. P (take k (xs @ [x]))) [0..<Suc (length xs)] = prefix_points P xs"
    unfolding prefix_points_def by (rule filter_cong) auto
  moreover have "take (Suc (length xs)) (xs @ [x]) = xs @ [x]" by simp
  ultimately show ?thesis
    unfolding prefix_points_def[of P "xs @ [x]"] length_append_singleton upt_Suc_append[OF le0, of "Suc (length xs)"]
    by (simp only: filter_append filter.simps)
qed

lemma prefix_points_le: "k \<in> set (prefix_points P xs) \<Longrightarrow> k \<le> length xs \<and> P (take k xs)"
  by (simp only: prefix_points_def set_filter) auto

end
