(* ===== verification/AggregatorProps.thy ===== *)
theory AggregatorProps
  imports Aggregator Windows
begin

text \<open>
  Properties of the aggregator.  \<open>agg_event\<close> names a call of one \<^verbatim>\<open>process_*\<close> method with
  its arguments, \<open>agg_step\<close> performs it, and \<open>agg_run\<close> performs any interleaving of calls
  and collects the decisions; a call that raises contributes none.  The theorems about one
  rule hold for interleavings with the calls of all the others: each method changes only
  the attributes of its own path (the frame lemmas) and the shared score.
\<close>

section \<open>Interleavings of calls\<close>

datatype agg_event =
    FaceEv face_presence_result uuid
  | LivenessEv liveness_result uuid
  | GazeEv head_pose_gaze_result uuid int
  | IdentityEv identity_match_result uuid
  | IdentityUnavailableEv uuid
  | ObjectEv object_detection_result uuid timestamp
  | BrowserEv browser_event_result uuid
  | AudioEv audio_vad_result uuid

definition returns :: "agg_result \<Rightarrow> session_aggregator \<times> (py_error + flag_decision list)" where
  "returns r = (fst r, Inr (snd r))"

fun agg_step :: "float_arith \<Rightarrow> agg_event \<Rightarrow> session_aggregator
    \<Rightarrow> session_aggregator \<times> (py_error + flag_decision list)" where
  "agg_step fa (FaceEv r e) st = returns (process_face_presence r e st)"
| "agg_step fa (LivenessEv r e) st = process_liveness fa r e st"
| "agg_step fa (GazeEv r e ts) st = returns (process_gaze fa r e ts st)"
| "agg_step fa (IdentityEv r e) st = process_identity_match fa r e st"
| "agg_step fa (IdentityUnavailableEv e) st = returns (process_identity_check_unavailable e st)"
| "agg_step fa (ObjectEv r e now) st = returns (process_object_detection fa r e now st)"
| "agg_step fa (BrowserEv r e) st = returns (process_browser_event fa r e st)"
| "agg_step fa (AudioEv r e) st = returns (process_audio_vad fa r e st)"

fun decisions_of :: "py_error + flag_decision list \<Rightarrow> flag_decision list" where
  "decisions_of (Inl _) = []"
| "decisions_of (Inr ds) = ds"

definition agg_run :: "float_arith \<Rightarrow> agg_event list \<Rightarrow> session_aggregator \<Rightarrow> agg_result" where
  "agg_run fa evs st =
     foldl (\<lambda>(s, ds) ev. (fst (agg_step fa ev s), ds @ decisions_of (snd (agg_step fa ev s)))) (st, []) evs"

lemma agg_run_Nil [simp]: "agg_run fa [] st = (st, [])"
  by (simp add: agg_run_def)

lemma agg_run_snoc [simp]:
  "agg_run fa (evs @ [ev]) st =
     (fst (agg_step fa ev (fst (agg_run fa evs st))),
      snd (agg_run fa evs st) @ decisions_of (snd (agg_step fa ev (fst (agg_run fa evs st)))))"
  by (simp add: agg_run_def case_prod_beta)

definition of_rule :: "string \<Rightarrow> flag_decision list \<Rightarrow> flag_decision list" where
  "of_rule c ds = filter (\<lambda>d. fd_rule_code d = c) ds"

lemma of_rule_simps [simp]:
  "of_rule c [] = []"
  "of_rule c (d # ds) = (if fd_rule_code d = c then d # of_rule c ds else of_rule c ds)"
  "of_rule c (ds @ ds') = of_rule c ds @ of_rule c ds'"
  by (simp_all add: of_rule_def)

section \<open>The shared score\<close>

lemma acc_state [simp]:
  "fst (accumulate_and_check fa w ids ds st)
     = st\<lparr> sa_accumulated_score := f_add fa (sa_accumulated_score st) w \<rparr>"
  by (simp add: accumulate_and_check_def Let_def split: option.splits)

lemma acc_decisions [simp]:
  "snd (accumulate_and_check fa w ids ds st) = ds @
     (case check_accumulated_threshold
             (st\<lparr> sa_accumulated_score := f_add fa (sa_accumulated_score st) w \<rparr>) ids of
        None \<Rightarrow> [] | Some d \<Rightarrow> [d])"
  by (simp add: accumulate_and_check_def Let_def split: option.splits)

lemma check_accumulated_threshold_Some:
  "check_accumulated_threshold st ids = Some d \<Longrightarrow>
     fd_rule_code d = RULE_ACCUMULATED_SCORE \<and> fd_severity d = SEV_CRITICAL \<and>
     fd_confidence d = certain \<and> fd_score_delta d = 0 \<and> fd_contributing_event_ids d = ids \<and>
     fd_triggered_termination d = (ps_medium_score_action (sa_policy st) = AUTO_TERMINATE)"
  by (auto simp: check_accumulated_threshold_def Let_def split: if_splits)

lemma check_accumulated_threshold_iff:
  "(\<exists>d. check_accumulated_threshold st ids = Some d) \<longleftrightarrow>
     0 < ps_medium_score_termination_threshold (sa_policy st) \<and>
     ps_medium_score_termination_threshold (sa_policy st) \<le> sa_accumulated_score st"
  by (auto simp: check_accumulated_threshold_def Let_def)

section \<open>Frame lemmas\<close>

lemmas step_defs =
  returns_def process_face_presence_def process_liveness_def liveness_push_def liveness_fire_def
  process_gaze_def process_identity_match_def identity_push_def identity_fire_def process_identity_check_unavailable_def
  process_object_detection_def process_browser_event_def process_audio_vad_def

lemma gaze_track_frame [simp]:
  "sa_policy (gaze_track r e ts st) = sa_policy st"
  "sa_ctx (gaze_track r e ts st) = sa_ctx st"
  "sa_consecutive_second_person_frames (gaze_track r e ts st) = sa_consecutive_second_person_frames st"
  "sa_second_person_event_ids (gaze_track r e ts st) = sa_second_person_event_ids st"
  "sa_second_person_fired (gaze_track r e ts st) = sa_second_person_fired st"
  "sa_gaze_termination_fired (gaze_track r e ts st) = sa_gaze_termination_fired st"
  "sa_accumulated_score (gaze_track r e ts st) = sa_accumulated_score st"
  "sa_liveness_window (gaze_track r e ts st) = sa_liveness_window st"
  "sa_liveness_event_ids_window (gaze_track r e ts st) = sa_liveness_event_ids_window st"
  "sa_liveness_spoof_run_length (gaze_track r e ts st) = sa_liveness_spoof_run_length st"
  "sa_identity_window (gaze_track r e ts st) = sa_identity_window st"
  "sa_identity_event_ids_window (gaze_track r e ts st) = sa_identity_event_ids_window st"
  "sa_identity_mismatch_fired (gaze_track r e ts st) = sa_identity_mismatch_fired st"
  by (simp_all add: gaze_track_def Let_def split: option.splits bool.splits)

lemma gaze_evaluate_frame [simp]:
  "sa_policy (fst (gaze_evaluate fa r st)) = sa_policy st"
  "sa_ctx (fst (gaze_evaluate fa r st)) = sa_ctx st"
  "sa_consecutive_second_person_frames (fst (gaze_evaluate fa r st)) = sa_consecutive_second_person_frames st"
  "sa_second_person_event_ids (fst (gaze_evaluate fa r st)) = sa_second_person_event_ids st"
  "sa_second_person_fired (fst (gaze_evaluate fa r st)) = sa_second_person_fired st"
  "sa_gaze_off_start_ms (fst (gaze_evaluate fa r st)) = sa_gaze_off_start_ms st"
  "sa_gaze_off_event_ids (fst (gaze_evaluate fa r st)) = sa_gaze_off_event_ids st"
  "sa_gaze_away_events (fst (gaze_evaluate fa r st)) = sa_gaze_away_events st"
  "sa_liveness_window (fst (gaze_evaluate fa r st)) = sa_liveness_window st"
  "sa_liveness_event_ids_window (fst (gaze_evaluate fa r st)) = sa_liveness_event_ids_window st"
  "sa_liveness_spoof_run_length (fst (gaze_evaluate fa r st)) = sa_liveness_spoof_run_length st"
  "sa_identity_window (fst (gaze_evaluate fa r st)) = sa_identity_window st"
  "sa_identity_event_ids_window (fst (gaze_evaluate fa r st)) = sa_identity_event_ids_window st"
  "sa_identity_mismatch_fired (fst (gaze_evaluate fa r st)) = sa_identity_mismatch_fired st"
  by (simp_all add: gaze_evaluate_def Let_def)

text \<open>The policy snapshot and the context never change.\<close>

lemma agg_step_policy [simp]: "sa_policy (fst (agg_step fa ev st)) = sa_policy st"
  by (cases ev) (auto simp: step_defs Let_def split: sum.splits option.splits)

lemma agg_step_ctx [simp]: "sa_ctx (fst (agg_step fa ev st)) = sa_ctx st"
  by (cases ev) (auto simp: step_defs Let_def split: sum.splits option.splits)

text \<open>Each path's attributes are changed by the calls of that path only.\<close>

fun is_face :: "agg_event \<Rightarrow> bool" where
  "is_face (FaceEv _ _) = True" | "is_face _ = False"

fun is_liveness :: "agg_event \<Rightarrow> bool" where
  "is_liveness (LivenessEv _ _) = True" | "is_liveness _ = False"

fun is_gaze :: "agg_event \<Rightarrow> bool" where
  "is_gaze (GazeEv _ _ _) = True" | "is_gaze _ = False"

fun is_identity :: "agg_event \<Rightarrow> bool" where
  "is_identity (IdentityEv _ _) = True" | "is_identity _ = False"

lemma face_frame:
  "\<not> is_face ev \<Longrightarrow>
     sa_consecutive_second_person_frames (fst (agg_step fa ev st)) = sa_consecutive_second_person_frames st \<and>
     sa_second_person_event_ids (fst (agg_step fa ev st)) = sa_second_person_event_ids st \<and>
     sa_second_person_fired (fst (agg_step fa ev st)) = sa_second_person_fired st"
  by (cases ev) (simp_all add: step_defs Let_def split: sum.splits prod.splits)

lemma liveness_frame:
  "\<not> is_liveness ev \<Longrightarrow>
     sa_liveness_window (fst (agg_step fa ev st)) = sa_liveness_window st \<and>
     sa_liveness_event_ids_window (fst (agg_step fa ev st)) = sa_liveness_event_ids_window st \<and>
     sa_liveness_spoof_run_length (fst (agg_step fa ev st)) = sa_liveness_spoof_run_length st"
  by (cases ev) (simp_all add: step_defs Let_def split: sum.splits prod.splits)

lemma gaze_frame:
  "\<not> is_gaze ev \<Longrightarrow>
     sa_gaze_off_start_ms (fst (agg_step fa ev st)) = sa_gaze_off_start_ms st \<and>
     sa_gaze_off_event_ids (fst (agg_step fa ev st)) = sa_gaze_off_event_ids st \<and>
     sa_gaze_away_events (fst (agg_step fa ev st)) = sa_gaze_away_events st \<and>
     sa_gaze_termination_fired (fst (agg_step fa ev st)) = sa_gaze_termination_fired st"
  by (cases ev) (simp_all add: step_defs Let_def split: sum.splits prod.splits)

lemma identity_frame:
  "\<not> is_identity ev \<Longrightarrow>
     sa_identity_window (fst (agg_step fa ev st)) = sa_identity_window st \<and>
     sa_identity_event_ids_window (fst (agg_step fa ev st)) = sa_identity_event_ids_window st \<and>
     sa_identity_mismatch_fired (fst (agg_step fa ev st)) = sa_identity_mismatch_fired st"
  by (cases ev) (simp_all add: step_defs Let_def split: sum.splits prod.splits)

text \<open>The rules each call can flag under.\<close>

fun event_rules :: "agg_event \<Rightarrow> string list" where
  "event_rules (FaceEv _ _) = [RULE_SECOND_PERSON]"
| "event_rules (LivenessEv _ _) = [RULE_LIVENESS_CHECK_FAILED, RULE_ACCUMULATED_SCORE]"
| "event_rules (GazeEv _ _ _) = [RULE_GAZE_AWAY_FREQUENCY, RULE_ACCUMULATED_SCORE]"
| "event_rules (IdentityEv _ _) = [RULE_IDENTITY_MISMATCH]"
| "event_rules (IdentityUnavailableEv _) = [RULE_IDENTITY_CHECK_UNAVAILABLE]"
| "event_rules (ObjectEv _ _ _) = [RULE_OBJECT_DETECTED, BOOK_RULE_CODE, RULE_ACCUMULATED_SCORE]"
| "event_rules (BrowserEv _ _) = [RULE_BROWSER_EVENT, RULE_ACCUMULATED_SCORE]"
| "event_rules (AudioEv _ _) = [RULE_AUDIO_ANOMALY, RULE_ACCUMULATED_SCORE]"

lemma set_option_list [simp]:
  "d \<in> set (case x of None \<Rightarrow> [] | Some y \<Rightarrow> [y]) \<longleftrightarrow> x = Some d"
  by (auto split: option.splits)

lemma check_rule: "check_accumulated_threshold st ids = Some d \<Longrightarrow> fd_rule_code d = RULE_ACCUMULATED_SCORE"
  by (simp add: check_accumulated_threshold_Some)

lemma emitted_rules:
  "d \<in> set (decisions_of (snd (agg_step fa ev st))) \<Longrightarrow> fd_rule_code d \<in> set (event_rules ev)"
  by (cases ev)
     (auto simp: step_defs gaze_evaluate_def Let_def dest!: check_rule check_rule[OF sym]
        split: sum.splits prod.splits if_splits)

lemma of_rule_other:
  "c \<notin> set (event_rules ev) \<Longrightarrow> of_rule c (decisions_of (snd (agg_step fa ev st))) = []"
  using emitted_rules by (fastforce simp: of_rule_def filter_empty_conv)

section \<open>Second person\<close>

definition faces_of :: "agg_event list \<Rightarrow> (face_presence_result \<times> uuid) list" where
  "faces_of evs = concat (map (\<lambda>ev. case ev of FaceEv r e \<Rightarrow> [(r, e)] | _ \<Rightarrow> []) evs)"

definition two_faces :: "face_presence_result \<times> uuid \<Rightarrow> bool" where
  "two_faces x \<longleftrightarrow> 2 \<le> fp_face_count (fst x)"

lemma faces_of_snoc [simp]:
  "faces_of [] = []"
  "faces_of (evs @ [FaceEv r e]) = faces_of evs @ [(r, e)]"
  "\<not> is_face ev \<Longrightarrow> faces_of (evs @ [ev]) = faces_of evs"
  by (simp_all add: faces_of_def) (cases ev; simp)

text \<open>\<open>confirmed_at n P xs k\<close>: reading number \<open>k\<close> (from 1) is the first one that completes
  \<open>n\<close> consecutive readings satisfying \<open>P\<close>.\<close>

definition confirmed_at :: "nat \<Rightarrow> ('a \<Rightarrow> bool) \<Rightarrow> 'a list \<Rightarrow> nat \<Rightarrow> bool" where
  "confirmed_at n P xs k \<longleftrightarrow> n \<le> k \<and> k \<le> length xs \<and> list_all P (lastn n (take k xs))
     \<and> \<not> has_run n P (take (k - 1) xs)"

lemma confirmed_at_append: "confirmed_at n P xs k \<Longrightarrow> confirmed_at n P (xs @ ys) k"
  by (auto simp: confirmed_at_def)

lemma confirmed_at_snoc:
  "\<not> has_run n P xs \<Longrightarrow> n \<le> trailing_run P (xs @ [x]) \<Longrightarrow>
     confirmed_at n P (xs @ [x]) (length (xs @ [x]))"
  by (simp add: confirmed_at_def trailing_run_ge del: trailing_run_snoc)

lemma agg_run_policy [simp]: "sa_policy (fst (agg_run fa evs st)) = sa_policy st"
  by (induction evs rule: rev_induct) simp_all

lemma new_sel [simp]:
  "sa_policy (new_session_aggregator p ctx) = p"
  "sa_ctx (new_session_aggregator p ctx) = ctx"
  "sa_consecutive_second_person_frames (new_session_aggregator p ctx) = 0"
  "sa_second_person_event_ids (new_session_aggregator p ctx) = []"
  "\<not> sa_second_person_fired (new_session_aggregator p ctx)"
  "sa_gaze_off_start_ms (new_session_aggregator p ctx) = None"
  "sa_gaze_off_event_ids (new_session_aggregator p ctx) = []"
  "sa_gaze_away_events (new_session_aggregator p ctx) = []"
  "\<not> sa_gaze_termination_fired (new_session_aggregator p ctx)"
  "sa_accumulated_score (new_session_aggregator p ctx) = 0"
  "sa_liveness_window (new_session_aggregator p ctx) = []"
  "sa_liveness_event_ids_window (new_session_aggregator p ctx) = []"
  "sa_liveness_spoof_run_length (new_session_aggregator p ctx) = 0"
  "sa_identity_window (new_session_aggregator p ctx) = []"
  "sa_identity_event_ids_window (new_session_aggregator p ctx) = []"
  "\<not> sa_identity_mismatch_fired (new_session_aggregator p ctx)"
  by (simp_all add: new_session_aggregator_def)

text \<open>What the state and the decisions say about the history of face readings.\<close>

definition second_person_inv ::
  "nat \<Rightarrow> (face_presence_result \<times> uuid) list \<Rightarrow> session_aggregator \<Rightarrow> flag_decision list \<Rightarrow> bool" where
  "second_person_inv n xs st ds \<longleftrightarrow>
     (if has_run n two_faces xs
      then sa_second_person_fired st \<and>
        (\<exists>k d. confirmed_at n two_faces xs k \<and> ds = [d] \<and> fd_triggered_termination d \<and>
               fd_severity d = SEV_CRITICAL \<and>
               fd_contributing_event_ids d = map snd (lastn n (take k xs)))
      else \<not> sa_second_person_fired st \<and> ds = [] \<and>
        sa_consecutive_second_person_frames st = int (trailing_run two_faces xs) \<and>
        sa_second_person_event_ids st = map snd (lastn (trailing_run two_faces xs) xs))"

lemma second_person_step:
  assumes inv: "second_person_inv n xs st ds" and n: "0 < n"
    and p: "ps_terminate_on_second_face (sa_policy st)"
           "ps_second_face_confirmation_frames (sa_policy st) = int n"
  shows "second_person_inv n (xs @ [(r, e)]) (fst (process_face_presence r e st))
           (ds @ snd (process_face_presence r e st))"
proof (cases "has_run n two_faces xs")
  case True
  then have run: "has_run n two_faces (xs @ [(r, e)])" by (simp add: has_run_snoc n)
  from True inv obtain k d where kd: "confirmed_at n two_faces xs k" "ds = [d]" "fd_triggered_termination d"
      "fd_severity d = SEV_CRITICAL" "fd_contributing_event_ids d = map snd (lastn n (take k xs))"
      "sa_second_person_fired st"
    by (auto simp: second_person_inv_def)
  moreover have "take k (xs @ [(r, e)]) = take k xs"
    using kd(1) by (simp add: confirmed_at_def)
  ultimately show ?thesis using run
    by (auto simp: second_person_inv_def process_face_presence_def intro: confirmed_at_append)
next
  case False
  with inv have s: "\<not> sa_second_person_fired st" "ds = []"
      "sa_consecutive_second_person_frames st = int (trailing_run two_faces xs)"
      "sa_second_person_event_ids st = map snd (lastn (trailing_run two_faces xs) xs)"
    by (auto simp: second_person_inv_def)
  have less: "trailing_run two_faces xs < n"
    using False has_run_trailing not_le by blast
  show ?thesis
  proof (cases "two_faces (r, e) \<and> Suc (trailing_run two_faces xs) = n")
    case True
    then have t: "two_faces (r, e)" "n \<le> trailing_run two_faces (xs @ [(r, e)])" by simp_all
    from confirmed_at_snoc[OF False t(2)] have "confirmed_at n two_faces (xs @ [(r, e)]) (Suc (length xs))"
      by simp
    moreover have "has_run n two_faces (xs @ [(r, e)])" using t(2) by (rule has_run_trailing)
    moreover have "n = Suc (trailing_run two_faces xs)" using True by simp
    ultimately show ?thesis using t(1) s p
      by (auto simp: second_person_inv_def process_face_presence_def two_faces_def lastn_snoc_Suc
          intro!: exI[of _ "Suc (length xs)"])
  next
    case nofire: False
    have "\<not> has_run n two_faces (xs @ [(r, e)])"
      using False nofire less by (auto simp: has_run_snoc n)
    then show ?thesis using s p n less nofire
      by (auto simp: second_person_inv_def process_face_presence_def two_faces_def lastn_snoc_Suc)
  qed
qed

lemma second_person_run:
  assumes "ps_terminate_on_second_face p" "0 < n" "ps_second_face_confirmation_frames p = int n"
  shows "second_person_inv n (faces_of evs) (fst (agg_run fa evs (new_session_aggregator p ctx)))
           (of_rule RULE_SECOND_PERSON (snd (agg_run fa evs (new_session_aggregator p ctx))))"
proof (induction evs rule: rev_induct)
  case Nil
  show ?case using assms by (simp add: second_person_inv_def)
next
  case (snoc ev evs)
  let ?st = "fst (agg_run fa evs (new_session_aggregator p ctx))"
  show ?case
  proof (cases "is_face ev")
    case True
    then obtain r e where [simp]: "ev = FaceEv r e" by (cases ev) auto
    have "of_rule RULE_SECOND_PERSON (snd (process_face_presence r e ?st)) = snd (process_face_presence r e ?st)"
      by (simp add: process_face_presence_def Let_def)
    with second_person_step[OF snoc.IH, of r e] assms show ?thesis
      by (simp add: returns_def)
  next
    case False
    then have "RULE_SECOND_PERSON \<notin> set (event_rules ev)"
      by (cases ev) (simp_all add: rule_codes)
    moreover have "second_person_inv n xs (fst (agg_step fa ev ?st)) ds = second_person_inv n xs ?st ds"
      for xs ds by (simp add: second_person_inv_def face_frame[OF False])
    ultimately show ?thesis using False snoc.IH by (simp add: of_rule_other)
  qed
qed

section \<open>Confirmation windows\<close>

lemma push_window_lastn:
  "length w \<le> n \<Longrightarrow> push_window (int n) w x = lastn n (w @ [x])"
  by (cases "n = length w") (simp_all add: push_window_def lastn_def drop_Suc del: drop_append)

interpretation win: bounded_window "push_window (int n)" "\<lambda>w. w" "\<lambda>w. length w \<le> n" n
  for n :: nat
  by unfold_locales (simp_all add: push_window_lastn)

text \<open>The code pops the id window exactly when it pops the result window; with equal lengths
  that is the same operation on both.\<close>

lemma ids_window:
  "length ids = length w \<Longrightarrow>
     (if int (length (w @ [x])) > n then tl (ids @ [e]) else ids @ [e]) = push_window n ids e"
  by (simp add: push_window_def)

lemma window_interval_Inr:
  "window_interval fa scores = Inr (mean, mn, mx, c) \<Longrightarrow>
     ci_ok c \<and> ci_lower c = mn \<and> ci_score c = mean \<and> ci_upper c = mx \<and>
     py_min scores = Inr mn \<and> py_max scores = Inr mx"
  by (auto simp: window_interval_def Let_def bind_err_eq_Inr mk_confidence_interval_iff)

lemma window_interval_total:
  assumes "scores \<noteq> []" "\<forall>s\<in>set scores. in_unit s"
  obtains mean mn mx c where "window_interval fa scores = Inr (mean, mn, mx, c)" "ci_ok c"
proof -
  obtain m mn mx where m: "py_mean fa scores = Inr m" "py_min scores = Inr mn" "py_max scores = Inr mx"
    using assms(1) py_mean_total py_min_total py_max_total by blast
  have "in_unit mn" "in_unit mx" "mn \<le> mx"
    using assms m py_min_in py_max_in py_min_lower by blast+
  then have "mk_confidence_interval mn (max mn (min mx m)) mx
       = Inr \<lparr> ci_lower = mn, ci_score = max mn (min mx m), ci_upper = mx \<rparr>"
    by (auto simp: mk_confidence_interval_def in_unit_def max_def min_def)
  with m have "window_interval fa scores
       = Inr (max mn (min mx m), mn, mx,
              \<lparr> ci_lower = mn, ci_score = max mn (min mx m), ci_upper = mx \<rparr>)"
    by (simp add: window_interval_def Let_def)
  with that window_interval_Inr[OF this] show ?thesis by blast
qed

section \<open>Identity\<close>

definition identities_of :: "agg_event list \<Rightarrow> (identity_match_result \<times> uuid) list" where
  "identities_of evs = concat (map (\<lambda>ev. case ev of IdentityEv r e \<Rightarrow> [(r, e)] | _ \<Rightarrow> []) evs)"

lemma identities_of_snoc [simp]:
  "identities_of [] = []"
  "identities_of (evs @ [IdentityEv r e]) = identities_of evs @ [(r, e)]"
  "\<not> is_identity ev \<Longrightarrow> identities_of (evs @ [ev]) = identities_of evs"
  by (simp_all add: identities_of_def) (cases ev; simp)

definition mismatch :: "rat \<Rightarrow> identity_match_result \<times> uuid \<Rightarrow> bool" where
  "mismatch threshold x \<longleftrightarrow> im_similarity (fst x) < threshold"

definition identity_inv ::
  "nat \<Rightarrow> rat \<Rightarrow> (identity_match_result \<times> uuid) list \<Rightarrow> session_aggregator \<Rightarrow> flag_decision list \<Rightarrow> bool" where
  "identity_inv n th xs st ds \<longleftrightarrow>
     (if has_run n (mismatch th) xs
      then sa_identity_mismatch_fired st \<and>
        (\<exists>k d. confirmed_at n (mismatch th) xs k \<and> ds = [d] \<and> fd_triggered_termination d \<and>
               fd_severity d = SEV_CRITICAL \<and> ci_ok (fd_confidence d) \<and>
               fd_contributing_event_ids d = map snd (lastn n (take k xs)) \<and>
               py_min (map (im_similarity \<circ> fst) (lastn n (take k xs))) = Inr (ci_lower (fd_confidence d)) \<and>
               py_max (map (im_similarity \<circ> fst) (lastn n (take k xs))) = Inr (ci_upper (fd_confidence d)))
      else \<not> sa_identity_mismatch_fired st \<and> ds = [] \<and>
        sa_identity_window st = map fst (lastn n xs) \<and>
        sa_identity_event_ids_window st = map snd (lastn n xs))"

lemma list_ex_mismatch:
  "list_ex (\<lambda>r. th \<le> im_similarity r) (map fst ys) \<longleftrightarrow> \<not> list_all (mismatch th) ys"
  by (auto simp: list_ex_iff list_all_iff mismatch_def not_less)

text \<open>The window after one more reading.\<close>

lemma pushed_windows:
  "push_window (int n) (map f (lastn n xs)) (f x) = map f (lastn n (xs @ [x]))"
  using lastn_lastn_snoc[of n "map f xs" "f x"]
  by (simp add: push_window_lastn lastn_map) (simp add: lastn_map[symmetric])

lemma identity_step:
  assumes inv: "identity_inv n (ps_identity_similarity_threshold (sa_policy st)) xs st ds" and n: "0 < n"
    and p: "ps_identity_confirmation_frames (sa_policy st) = int n"
    and unit: "\<forall>x\<in>set (xs @ [(r, e)]). in_unit (im_similarity (fst x))"
  obtains ds' where "snd (process_identity_match fa r e st) = Inr ds'"
    "identity_inv n (ps_identity_similarity_threshold (sa_policy st)) (xs @ [(r, e)])
       (fst (process_identity_match fa r e st)) (ds @ ds')"
proof (cases "has_run n (mismatch (ps_identity_similarity_threshold (sa_policy st))) xs")
  case True
  define th where "th = ps_identity_similarity_threshold (sa_policy st)"
  from True have run: "has_run n (mismatch th) (xs @ [(r, e)])" by (simp add: has_run_snoc n th_def)
  from True inv have fired: "sa_identity_mismatch_fired st" by (simp add: identity_inv_def)
  from True inv obtain k d where kd: "confirmed_at n (mismatch th) xs k" "ds = [d]" "fd_triggered_termination d"
      "fd_severity d = SEV_CRITICAL" "ci_ok (fd_confidence d)"
      "fd_contributing_event_ids d = map snd (lastn n (take k xs))"
      "py_min (map (im_similarity \<circ> fst) (lastn n (take k xs))) = Inr (ci_lower (fd_confidence d))"
      "py_max (map (im_similarity \<circ> fst) (lastn n (take k xs))) = Inr (ci_upper (fd_confidence d))"
    unfolding identity_inv_def th_def by (simp only: if_True) blast
  have "take k (xs @ [(r, e)]) = take k xs"
    using kd(1) by (simp add: confirmed_at_def)
  with run fired kd have "identity_inv n th (xs @ [(r, e)]) st ds"
    unfolding identity_inv_def by (auto intro!: exI[of _ k] confirmed_at_append)
  with fired that[of "[]"] show ?thesis by (simp add: process_identity_match_def th_def)
next
  case norun: False
  define th where "th = ps_identity_similarity_threshold (sa_policy st)"
  let ?ys = "lastn n (xs @ [(r, e)])"
  from norun inv have s: "\<not> sa_identity_mismatch_fired st" "ds = []"
      "sa_identity_window st = map fst (lastn n xs)"
      "sa_identity_event_ids_window st = map snd (lastn n xs)"
    by (auto simp: identity_inv_def th_def)
  define st1 where "st1 = identity_push r e st"
  have st1: "sa_identity_window st1 = map fst ?ys" "sa_identity_event_ids_window st1 = map snd ?ys"
      "\<not> sa_identity_mismatch_fired st1"
    using pushed_windows[of n fst xs "(r, e)"] pushed_windows[of n snd xs "(r, e)"] s
      ids_window[of "sa_identity_event_ids_window st" "sa_identity_window st" "int n" r e]
    by (simp_all add: st1_def identity_push_def Let_def p)
  have run: "process_identity_match fa r e st =
     (if \<not> n \<le> length (xs @ [(r, e)]) \<or> \<not> list_all (mismatch th) ?ys then (st1, Inr [])
      else identity_fire fa st1)"
    using s(1) by (auto simp: process_identity_match_def Let_def p list_ex_mismatch st1(1)
        simp flip: st1_def th_def)
  show ?thesis
  proof (cases "n \<le> length (xs @ [(r, e)]) \<and> list_all (mismatch th) ?ys")
    case True
    then have t: "n \<le> trailing_run (mismatch th) (xs @ [(r, e)])" by (simp only: trailing_run_ge)
    then have h: "has_run n (mismatch th) (xs @ [(r, e)])" by (rule has_run_trailing)
    have "set ?ys \<subseteq> set (xs @ [(r, e)])" by (rule set_lastn)
    with unit have "\<forall>s\<in>set (map (im_similarity \<circ> fst) ?ys). in_unit s" by auto
    moreover have "?ys \<noteq> []" using n True by (metis length_0_conv length_lastn min_absorb1 not_gr0)
    ultimately obtain mean mn mx c where
      wi: "window_interval fa (map (im_similarity \<circ> fst) ?ys) = Inr (mean, mn, mx, c)" "ci_ok c"
      by (metis window_interval_total Nil_is_map_conv)
    have c: "confirmed_at n (mismatch th) (xs @ [(r, e)]) (length (xs @ [(r, e)]))"
      using norun[folded th_def] t by (rule confirmed_at_snoc)
    define d where "d = (default_flag_decision RULE_IDENTITY_MISMATCH SEV_CRITICAL c)
                  \<lparr> fd_triggered_termination := True,
                    fd_detail :=
                      [(''window_size'', JInt (ps_identity_confirmation_frames (sa_policy st1))),
                       (''mean_similarity'', JFloat mean),
                       (''min_similarity'', JFloat mn), (''max_similarity'', JFloat mx),
                       (''threshold'', JFloat (ps_identity_similarity_threshold (sa_policy st1)))],
                    fd_contributing_event_ids := map snd ?ys \<rparr>"
    have res: "process_identity_match fa r e st = (st1\<lparr> sa_identity_mismatch_fired := True \<rparr>, Inr [d])"
      using run True wi(1) by (simp add: d_def identity_fire_def st1)
    have d: "fd_triggered_termination d" "fd_severity d = SEV_CRITICAL" "fd_confidence d = c"
        "fd_contributing_event_ids d = map snd ?ys"
      by (simp_all add: d_def)
    have "identity_inv n th (xs @ [(r, e)]) (st1\<lparr> sa_identity_mismatch_fired := True \<rparr>) [d]"
      unfolding identity_inv_def if_P[OF h]
      by (intro conjI exI[of _ "length (xs @ [(r, e)])"] exI[of _ d])
         (simp_all only: c d wi(2) take_all_iff[THEN iffD2, OF le_refl] window_interval_Inr[OF wi(1)], simp)
    with res s(2) that[of "[d]"] show ?thesis by (simp add: th_def)
  next
    case nofire: False
    then have "\<not> n \<le> trailing_run (mismatch th) (xs @ [(r, e)])" by (metis trailing_run_ge)
    then have "\<not> has_run n (mismatch th) (xs @ [(r, e)])"
      using norun by (simp add: has_run_snoc n th_def del: trailing_run_snoc)
    moreover have "process_identity_match fa r e st = (st1, Inr [])"
      using run nofire by auto
    ultimately show ?thesis using that[of "[]"] s st1
      by (simp add: identity_inv_def th_def[symmetric])
  qed
qed

lemma identity_run:
  assumes "0 < n" "ps_identity_confirmation_frames p = int n"
    and "\<forall>x\<in>set (identities_of evs). in_unit (im_similarity (fst x))"
  shows "identity_inv n (ps_identity_similarity_threshold p) (identities_of evs)
           (fst (agg_run fa evs (new_session_aggregator p ctx)))
           (of_rule RULE_IDENTITY_MISMATCH (snd (agg_run fa evs (new_session_aggregator p ctx))))"
  using assms(3)
proof (induction evs rule: rev_induct)
  case Nil
  show ?case using assms(1) by (simp add: identity_inv_def)
next
  case (snoc ev evs)
  let ?st = "fst (agg_run fa evs (new_session_aggregator p ctx))"
  show ?case
  proof (cases "is_identity ev")
    case True
    then obtain r e where [simp]: "ev = IdentityEv r e" by (cases ev) auto
    from snoc.prems have u: "\<forall>x\<in>set (identities_of evs @ [(r, e)]). in_unit (im_similarity (fst x))" by simp
    then have "\<forall>x\<in>set (identities_of evs). in_unit (im_similarity (fst x))" by simp
    note inv = snoc.IH[OF this]
    have q: "sa_policy ?st = p" by simp
    obtain ds' where ds': "snd (process_identity_match fa r e ?st) = Inr ds'"
      "identity_inv n (ps_identity_similarity_threshold p) (identities_of evs @ [(r, e)])
         (fst (process_identity_match fa r e ?st))
         (of_rule RULE_IDENTITY_MISMATCH (snd (agg_run fa evs (new_session_aggregator p ctx))) @ ds')"
      using identity_step[OF _ assms(1), of ?st "identities_of evs" _ r e fa] inv q u assms(2) by metis
    have "of_rule RULE_IDENTITY_MISMATCH ds' = ds'"
      using emitted_rules[of _ fa ev ?st] ds'(1) by (auto simp: of_rule_def filter_id_conv)
    with ds' show ?thesis by simp
  next
    case False
    then have "RULE_IDENTITY_MISMATCH \<notin> set (event_rules ev)"
      by (cases ev) (simp_all add: rule_codes)
    moreover have "identity_inv n th xs (fst (agg_step fa ev ?st)) ds = identity_inv n th xs ?st ds"
      for th xs ds by (simp add: identity_inv_def identity_frame[OF False])
    ultimately show ?thesis using False snoc by (simp add: of_rule_other)
  qed
qed

end
