(* ===== verification/LivenessTrace.thy ===== *)
theory LivenessTrace
  imports AggregatorProps
begin

text \<open>
  The trace of the liveness rule: after any interleaving of calls the window, the run
  length and the flags raised so far are determined by the history of liveness readings,
  and no call raises as long as the scores are in the unit interval.
\<close>

section \<open>Liveness\<close>

definition livenesses_of :: "agg_event list \<Rightarrow> (liveness_result \<times> uuid) list" where
  "livenesses_of evs = concat (map (\<lambda>ev. case ev of LivenessEv r e \<Rightarrow> [(r, e)] | _ \<Rightarrow> []) evs)"

lemma livenesses_of_snoc [simp]:
  "livenesses_of [] = []"
  "livenesses_of (evs @ [LivenessEv r e]) = livenesses_of evs @ [(r, e)]"
  "\<not> is_liveness ev \<Longrightarrow> livenesses_of (evs @ [ev]) = livenesses_of evs"
  by (simp_all add: livenesses_of_def) (cases ev; simp)

definition spoof :: "liveness_result \<times> uuid \<Rightarrow> bool" where
  "spoof x \<longleftrightarrow> \<not> lv_is_real (fst x)"

text \<open>The readings at which a flag is due: the run of spoof frames that ends there has a
  length that is a positive multiple of the window size.\<close>

definition spoof_fire_points :: "nat \<Rightarrow> (liveness_result \<times> uuid) list \<Rightarrow> nat list" where
  "spoof_fire_points n = prefix_points (\<lambda>ys. 0 < trailing_run spoof ys \<and> n dvd trailing_run spoof ys)"

definition liveness_score :: "liveness_result \<times> uuid \<Rightarrow> rat" where
  "liveness_score x = ci_score (ir_confidence (fst x))"

definition liveness_inv ::
  "nat \<Rightarrow> (liveness_result \<times> uuid) list \<Rightarrow> session_aggregator \<Rightarrow> flag_decision list \<Rightarrow> bool" where
  "liveness_inv n xs st ds \<longleftrightarrow>
     sa_liveness_window st = map fst (lastn n xs) \<and>
     sa_liveness_event_ids_window st = map snd (lastn n xs) \<and>
     sa_liveness_spoof_run_length st = int (trailing_run spoof xs) \<and>
     map fd_contributing_event_ids ds
       = map (\<lambda>k. map snd (lastn n (take k xs))) (spoof_fire_points n xs) \<and>
     (\<forall>d\<in>set ds. ci_ok (fd_confidence d))"

lemma list_ex_spoof: "list_ex lv_is_real (map fst ys) \<longleftrightarrow> \<not> list_all spoof ys"
  by (auto simp: list_ex_iff list_all_iff spoof_def)

text \<open>A fire that is due never raises, whatever the rounding does to the mean.\<close>

lemma liveness_fire_ok:
  assumes "sa_liveness_window st = map fst ys" "sa_liveness_event_ids_window st = map snd ys"
    and "ys \<noteq> []" "\<forall>y\<in>set ys. in_unit (liveness_score y)"
  obtains d ds' where "snd (liveness_fire fa st) = Inr (d # ds')"
    "fd_rule_code d = RULE_LIVENESS_CHECK_FAILED" "fd_contributing_event_ids d = map snd ys"
    "ci_ok (fd_confidence d)" "of_rule RULE_LIVENESS_CHECK_FAILED ds' = []"
    "sa_liveness_window (fst (liveness_fire fa st)) = sa_liveness_window st"
    "sa_liveness_event_ids_window (fst (liveness_fire fa st)) = sa_liveness_event_ids_window st"
    "sa_liveness_spoof_run_length (fst (liveness_fire fa st)) = sa_liveness_spoof_run_length st"
proof -
  have m: "map (\<lambda>r. ci_score (ir_confidence r)) (sa_liveness_window st) = map liveness_score ys"
    using assms(1) by (simp add: liveness_score_def)
  obtain mean mn mx c where wi: "window_interval fa (map liveness_score ys) = Inr (mean, mn, mx, c)" "ci_ok c"
    by (rule window_interval_total[of "map liveness_score ys" fa]) (use assms(3,4) in auto)
  have acc: "of_rule RULE_LIVENESS_CHECK_FAILED
     (case check_accumulated_threshold s ids of None \<Rightarrow> [] | Some d \<Rightarrow> [d]) = []" for s ids
    using check_rule[of s ids] by (auto simp: rule_codes split: option.splits)
  show ?thesis
  proof (cases "ps_liveness_check_action (sa_policy st) = Some CRITICAL_TERMINATE")
    case True
    then show ?thesis
      by (intro that[of _ "[]"]) (auto simp: liveness_fire_def m wi assms(2))
  next
    case False
    then show ?thesis
      by (intro that) (auto simp: liveness_fire_def m wi Let_def assms(2) acc)
  qed
qed

lemma liveness_step:
  assumes inv: "liveness_inv n xs st ds" and n: "0 < n"
    and p: "ps_liveness_confirmation_frames (sa_policy st) = int n"
           "ps_liveness_check_enabled (sa_policy st)"
    and unit: "\<forall>x\<in>set (xs @ [(r, e)]). in_unit (liveness_score x)"
  obtains ds' where "snd (process_liveness fa r e st) = Inr ds'"
    "liveness_inv n (xs @ [(r, e)]) (fst (process_liveness fa r e st))
       (ds @ of_rule RULE_LIVENESS_CHECK_FAILED ds')"
proof -
  let ?ys = "lastn n (xs @ [(r, e)])"
  let ?run = "trailing_run spoof (xs @ [(r, e)])"
  define st1 where "st1 = liveness_push r e st"
  have st1: "sa_liveness_window st1 = map fst ?ys" "sa_liveness_event_ids_window st1 = map snd ?ys"
      "sa_liveness_spoof_run_length st1 = int (trailing_run spoof xs)"
    using pushed_windows[of n fst xs "(r, e)"] pushed_windows[of n snd xs "(r, e)"] inv
      ids_window[of "sa_liveness_event_ids_window st" "sa_liveness_window st" "int n" r e]
    by (simp_all add: st1_def liveness_push_def Let_def p liveness_inv_def)
  define st2 where "st2 = st1\<lparr> sa_liveness_spoof_run_length := int ?run \<rparr>"
  have st2: "sa_liveness_window st2 = map fst ?ys" "sa_liveness_event_ids_window st2 = map snd ?ys"
      "sa_liveness_spoof_run_length st2 = int ?run"
    by (simp_all add: st2_def st1)
  have due: "(0 < ?run \<and> n dvd ?run) \<longleftrightarrow>
      \<not> lv_is_real r \<and> n \<le> length (xs @ [(r, e)]) \<and> list_all spoof ?ys \<and> n dvd ?run"
    using trailing_run_ge[of n spoof "xs @ [(r, e)]"] dvd_imp_le[of n ?run]
    by (auto simp: spoof_def)
  have run: "process_liveness fa r e st =
     (if 0 < ?run \<and> n dvd ?run then liveness_fire fa st2 else (st2, Inr []))"
  proof (cases "lv_is_real r")
    case True
    then show ?thesis
      by (simp add: process_liveness_def Let_def p spoof_def st2_def flip: st1_def)
  next
    case False
    have st2': "st1\<lparr> sa_liveness_spoof_run_length := sa_liveness_spoof_run_length st1 + 1 \<rparr> = st2"
      using False by (simp add: st2_def st1 spoof_def add.commute)
    have m: "int ?run mod int n \<noteq> 0 \<longleftrightarrow> \<not> n dvd ?run"
      by (simp add: mod_eq_0_iff_dvd del: trailing_run_snoc)
    show ?thesis
      unfolding due using n False
      by (auto simp: process_liveness_def Let_def p list_ex_spoof st2' st1(1) st2 m
            simp del: trailing_run_snoc of_nat_mod simp flip: st1_def)
  qed
  show ?thesis
  proof (cases "0 < ?run \<and> n dvd ?run")
    case True
    have "set ?ys \<subseteq> set (xs @ [(r, e)])" by (rule set_lastn)
    with unit have u: "\<forall>y\<in>set ?ys. in_unit (liveness_score y)" by auto
    have ne: "?ys \<noteq> []" using n True due by (metis length_0_conv length_lastn min_absorb1 not_gr0)
    obtain d ds' where f: "snd (liveness_fire fa st2) = Inr (d # ds')"
       "fd_rule_code d = RULE_LIVENESS_CHECK_FAILED" "fd_contributing_event_ids d = map snd ?ys"
       "ci_ok (fd_confidence d)" "of_rule RULE_LIVENESS_CHECK_FAILED ds' = []"
       "sa_liveness_window (fst (liveness_fire fa st2)) = sa_liveness_window st2"
       "sa_liveness_event_ids_window (fst (liveness_fire fa st2)) = sa_liveness_event_ids_window st2"
       "sa_liveness_spoof_run_length (fst (liveness_fire fa st2)) = sa_liveness_spoof_run_length st2"
      by (rule liveness_fire_ok[OF st2(1,2) ne u])
    have pts: "spoof_fire_points n (xs @ [(r, e)]) = spoof_fire_points n xs @ [Suc (length xs)]"
      using True by (simp add: spoof_fire_points_def del: trailing_run_snoc)
    show ?thesis
    proof (rule that[of "d # ds'"])
      show "snd (process_liveness fa r e st) = Inr (d # ds')" using run True f(1) by simp
      have "map (\<lambda>k. map snd (lastn n (take k (xs @ [(r, e)])))) (spoof_fire_points n xs)
          = map (\<lambda>k. map snd (lastn n (take k xs))) (spoof_fire_points n xs)"
        by (auto simp: spoof_fire_points_def dest: prefix_points_le)
      then show "liveness_inv n (xs @ [(r, e)]) (fst (process_liveness fa r e st))
          (ds @ of_rule RULE_LIVENESS_CHECK_FAILED (d # ds'))"
        using inv True run f st2 by (simp add: liveness_inv_def pts del: trailing_run_snoc)
    qed
  next
    case False
    then have pts: "spoof_fire_points n (xs @ [(r, e)]) = spoof_fire_points n xs"
      by (simp add: spoof_fire_points_def del: trailing_run_snoc)
    have "map (\<lambda>k. map snd (lastn n (take k (xs @ [(r, e)])))) (spoof_fire_points n xs)
        = map (\<lambda>k. map snd (lastn n (take k xs))) (spoof_fire_points n xs)"
      by (auto simp: spoof_fire_points_def dest: prefix_points_le)
    then have "liveness_inv n (xs @ [(r, e)]) st2 ds"
      using inv st2 by (simp add: liveness_inv_def pts del: trailing_run_snoc)
    with that[of "[]"] run False show ?thesis by auto
  qed
qed

lemma liveness_run:
  assumes "0 < n" "ps_liveness_confirmation_frames p = int n" "ps_liveness_check_enabled p"
    and "\<forall>x\<in>set (livenesses_of evs). in_unit (liveness_score x)"
  shows "liveness_inv n (livenesses_of evs) (fst (agg_run fa evs (new_session_aggregator p ctx)))
           (of_rule RULE_LIVENESS_CHECK_FAILED (snd (agg_run fa evs (new_session_aggregator p ctx))))"
  using assms(4)
proof (induction evs rule: rev_induct)
  case Nil
  show ?case by (simp add: liveness_inv_def spoof_fire_points_def)
next
  case (snoc ev evs)
  let ?st = "fst (agg_run fa evs (new_session_aggregator p ctx))"
  show ?case
  proof (cases "is_liveness ev")
    case True
    then obtain r e where [simp]: "ev = LivenessEv r e" by (cases ev) auto
    from snoc.prems have u: "\<forall>x\<in>set (livenesses_of evs @ [(r, e)]). in_unit (liveness_score x)" by simp
    then have "\<forall>x\<in>set (livenesses_of evs). in_unit (liveness_score x)" by simp
    note inv = snoc.IH[OF this]
    have q: "sa_policy ?st = p" by simp
    obtain ds' where "snd (process_liveness fa r e ?st) = Inr ds'"
      "liveness_inv n (livenesses_of evs @ [(r, e)]) (fst (process_liveness fa r e ?st))
         (of_rule RULE_LIVENESS_CHECK_FAILED (snd (agg_run fa evs (new_session_aggregator p ctx)))
            @ of_rule RULE_LIVENESS_CHECK_FAILED ds')"
      using liveness_step[OF inv assms(1) _ _ u, of fa] q assms(2,3) by metis
    then show ?thesis by simp
  next
    case False
    then have "RULE_LIVENESS_CHECK_FAILED \<notin> set (event_rules ev)"
      by (cases ev) (simp_all add: rule_codes)
    moreover have "liveness_inv n xs (fst (agg_step fa ev ?st)) ds = liveness_inv n xs ?st ds"
      for xs ds by (simp add: liveness_inv_def liveness_frame[OF False])
    ultimately show ?thesis using False snoc by (simp add: of_rule_other)
  qed
qed

end
