(* ===== verification/GazeLadder.thy ===== *)
theory GazeLadder
  imports AggregatorProps
begin

text \<open>
  The gaze ladder against a specification.  The specification keeps every completed
  off-screen episode of the session and, at each reading, counts those that ended inside
  the rolling window; the aggregator forgets expired episodes as it goes.  With timestamps
  that never decrease the two agree at every reading, for every interleaving with the
  calls of the other rules.
\<close>

section \<open>Specification\<close>

type_synonym gaze_reading = "head_pose_gaze_result \<times> uuid \<times> int"

definition gazes_of :: "agg_event list \<Rightarrow> gaze_reading list" where
  "gazes_of evs = concat (map (\<lambda>ev. case ev of GazeEv r e ts \<Rightarrow> [(r, e, ts)] | _ \<Rightarrow> []) evs)"

lemma gazes_of_snoc [simp]:
  "gazes_of [] = []"
  "gazes_of (evs @ [GazeEv r e ts]) = gazes_of evs @ [(r, e, ts)]"
  "\<not> is_gaze ev \<Longrightarrow> gazes_of (evs @ [ev]) = gazes_of evs"
  by (simp_all add: gazes_of_def) (cases ev; simp)

text \<open>The open streak (start and event ids) and the completed episodes.\<close>

fun episode_step ::
  "int \<Rightarrow> (int \<times> uuid list) option \<times> gaze_away_event list \<Rightarrow> gaze_reading
     \<Rightarrow> (int \<times> uuid list) option \<times> gaze_away_event list" where
  "episode_step m (streak, eps) (r, e, ts) =
     (case hp_off_screen r of
        None \<Rightarrow> (streak, eps)
      | Some off \<Rightarrow>
          if off then
            (case streak of None \<Rightarrow> Some (ts, [e]) | Some (s, ids) \<Rightarrow> Some (s, ids @ [e]), eps)
          else
            (None, case streak of
                     None \<Rightarrow> eps
                   | Some (s, ids) \<Rightarrow>
                       if m \<le> ts - s
                       then eps @ [\<lparr> ga_started_at_ms = s, ga_ended_at_ms = ts,
                                     ga_contributing_event_ids = ids \<rparr>]
                       else eps))"

definition episodes :: "int \<Rightarrow> gaze_reading list \<Rightarrow> (int \<times> uuid list) option \<times> gaze_away_event list" where
  "episodes m xs = foldl (episode_step m) (None, []) xs"

lemma episodes_snoc [simp]: "episodes m (xs @ [x]) = episode_step m (episodes m xs) x"
  by (simp add: episodes_def)

lemma episodes_Nil [simp]: "episodes m [] = (None, [])"
  by (simp add: episodes_def)

text \<open>The episodes in the rolling window at the last reading of a history.\<close>

definition last_ts :: "gaze_reading list \<Rightarrow> int" where
  "last_ts xs = (if xs = [] then 0 else snd (snd (last xs)))"

definition in_window :: "policy_snapshot \<Rightarrow> gaze_reading list \<Rightarrow> gaze_away_event list" where
  "in_window p xs =
     filter (\<lambda>ev. last_ts xs - ps_gaze_window_seconds p * 1000 \<le> ga_ended_at_ms ev)
       (snd (episodes (ps_gaze_min_duration_ms p) xs))"

definition gaze_count :: "policy_snapshot \<Rightarrow> gaze_reading list \<Rightarrow> int" where
  "gaze_count p xs = int (length (in_window p xs))"

text \<open>The termination limit is met at the last reading; the first time ends the ladder.\<close>

definition gaze_terminal :: "policy_snapshot \<Rightarrow> gaze_reading list \<Rightarrow> bool" where
  "gaze_terminal p xs \<longleftrightarrow> xs \<noteq> [] \<and> ps_gaze_termination_limit p \<le> gaze_count p xs"

definition gaze_ended :: "policy_snapshot \<Rightarrow> gaze_reading list \<Rightarrow> bool" where
  "gaze_ended p xs \<longleftrightarrow> prefix_points (gaze_terminal p) xs \<noteq> []"

lemma gaze_ended_snoc [simp]: "gaze_ended p (xs @ [x]) \<longleftrightarrow> gaze_ended p xs \<or> gaze_terminal p (xs @ [x])"
  by (simp add: gaze_ended_def)

lemma gaze_ended_Nil [simp]: "\<not> gaze_ended p []"
  by (simp add: gaze_ended_def gaze_terminal_def)

text \<open>The verdict at the last reading of a history: whether the session is terminated, and
  the evidence of the flag.\<close>

definition gaze_verdict :: "policy_snapshot \<Rightarrow> gaze_reading list \<Rightarrow> (bool \<times> uuid list) option" where
  "gaze_verdict p xs =
     (if xs = [] \<or> gaze_ended p (butlast xs) then None
      else if ps_gaze_termination_limit p \<le> gaze_count p xs
      then Some (True, concat (map ga_contributing_event_ids (in_window p xs)))
      else if ps_gaze_warning_limit p \<le> gaze_count p xs
      then Some (False, if in_window p xs = [] then [] else ga_contributing_event_ids (last (in_window p xs)))
      else None)"

definition gaze_verdicts :: "policy_snapshot \<Rightarrow> gaze_reading list \<Rightarrow> (bool \<times> uuid list) list" where
  "gaze_verdicts p xs =
     map (\<lambda>k. the (gaze_verdict p (take k xs))) (prefix_points (\<lambda>ys. gaze_verdict p ys \<noteq> None) xs)"

lemma gaze_verdicts_Nil [simp]: "gaze_verdicts p [] = []"
  by (simp add: gaze_verdicts_def gaze_verdict_def)

lemma gaze_verdicts_snoc [simp]:
  "gaze_verdicts p (xs @ [x]) = gaze_verdicts p xs @
     (case gaze_verdict p (xs @ [x]) of None \<Rightarrow> [] | Some v \<Rightarrow> [v])"
proof -
  have "map (\<lambda>k. the (gaze_verdict p (take k (xs @ [x])))) (prefix_points (\<lambda>ys. gaze_verdict p ys \<noteq> None) xs)
      = gaze_verdicts p xs"
    unfolding gaze_verdicts_def by (rule map_cong) (auto dest: prefix_points_le)
  then show ?thesis
    by (cases "gaze_verdict p (xs @ [x])") (simp_all add: gaze_verdicts_def[of p "xs @ [x]"])
qed

section \<open>Expiry\<close>

definition monotone_ts :: "gaze_reading list \<Rightarrow> bool" where
  "monotone_ts xs \<longleftrightarrow> sorted (map (snd \<circ> snd) xs)"

lemma monotone_ts_snoc:
  "monotone_ts (xs @ [x]) \<longleftrightarrow> monotone_ts xs \<and> (xs \<noteq> [] \<longrightarrow> last_ts xs \<le> snd (snd x))"
proof (cases xs rule: rev_cases)
  case (snoc ys y)
  then show ?thesis by (auto simp: monotone_ts_def last_ts_def sorted_append)
qed (simp add: monotone_ts_def)

text \<open>The end times of the completed episodes are sorted and not after the last reading.\<close>

lemma episodes_sorted:
  "monotone_ts xs \<Longrightarrow> sorted (map ga_ended_at_ms (snd (episodes m xs))) \<and>
     (\<forall>ev\<in>set (snd (episodes m xs)). ga_ended_at_ms ev \<le> last_ts xs)"
proof (induction xs rule: rev_induct)
  case (snoc x xs)
  obtain r e ts where x: "x = (r, e, ts)" by (cases x)
  from snoc.prems have m: "monotone_ts xs" "xs \<noteq> [] \<Longrightarrow> last_ts xs \<le> ts"
    by (auto simp: monotone_ts_snoc x)
  note IH = snoc.IH[OF m(1)]
  have le: "ga_ended_at_ms ev \<le> ts" if "ev \<in> set (snd (episodes m xs))" for ev
    using IH m(2) that by (cases "xs = []") force+
  obtain streak eps where se: "episodes m xs = (streak, eps)" by fastforce
  show ?case using IH le
    by (cases streak) (auto simp: x se last_ts_def sorted_append split: option.splits bool.splits)
qed simp

lemma expire_gaze_filter:
  "sorted (map ga_ended_at_ms evs) \<Longrightarrow>
     expire_gaze w evs = filter (\<lambda>ev. w \<le> ga_ended_at_ms ev) evs"
proof (induction evs)
  case (Cons ev evs)
  show ?case
  proof (cases "ga_ended_at_ms ev < w")
    case True
    with Cons show ?thesis by simp
  next
    case False
    with Cons.prems have "filter (\<lambda>ev. w \<le> ga_ended_at_ms ev) (ev # evs) = ev # evs"
      by (intro filter_True) auto
    with False show ?thesis by simp
  qed
qed simp

section \<open>Refinement\<close>

text \<open>The streak attributes of the state, read as the streak of the specification.\<close>

definition streak_of :: "session_aggregator \<Rightarrow> (int \<times> uuid list) option" where
  "streak_of st = (case sa_gaze_off_start_ms st of
                     None \<Rightarrow> None | Some s \<Rightarrow> Some (s, sa_gaze_off_event_ids st))"

definition streak_ok :: "session_aggregator \<Rightarrow> bool" where
  "streak_ok st \<longleftrightarrow> (sa_gaze_off_start_ms st = None \<longrightarrow> sa_gaze_off_event_ids st = [])"

lemma gaze_track_refines:
  assumes "streak_ok st" "ps_gaze_min_duration_ms (sa_policy st) = m" "episodes m xs = (streak_of st, eps)"
  obtains fresh where "streak_ok (gaze_track r e ts st)"
    "episodes m (xs @ [(r, e, ts)]) = (streak_of (gaze_track r e ts st), eps @ fresh)"
    "sa_gaze_away_events (gaze_track r e ts st) = sa_gaze_away_events st @ fresh"
proof -
  define fresh where "fresh = drop (length (sa_gaze_away_events st)) (sa_gaze_away_events (gaze_track r e ts st))"
  show ?thesis
  proof (cases "hp_off_screen r")
    case None
    with assms show ?thesis by (intro that[of "[]"]) (simp_all add: gaze_track_def)
  next
    case (Some off)
    with assms show ?thesis
      by (intro that[of fresh]; cases off; cases "sa_gaze_off_start_ms st")
         (simp_all add: gaze_track_def streak_of_def streak_ok_def Let_def fresh_def)
  qed
qed

definition gaze_inv :: "policy_snapshot \<Rightarrow> gaze_reading list \<Rightarrow> session_aggregator \<Rightarrow> flag_decision list \<Rightarrow> bool" where
  "gaze_inv p xs st ds \<longleftrightarrow>
     map (\<lambda>d. (fd_triggered_termination d, fd_contributing_event_ids d)) ds = gaze_verdicts p xs \<and>
     sa_gaze_termination_fired st = gaze_ended p xs \<and>
     (\<not> gaze_ended p xs \<longrightarrow> streak_ok st \<and>
        streak_of st = fst (episodes (ps_gaze_min_duration_ms p) xs) \<and>
        sa_gaze_away_events st = in_window p xs)"

lemma filter_narrow: "w \<le> w' \<Longrightarrow>
   filter (\<lambda>ev. w' \<le> ga_ended_at_ms ev) (filter (\<lambda>ev. w \<le> ga_ended_at_ms ev) evs)
   = filter (\<lambda>ev. w' \<le> ga_ended_at_ms ev) evs"
  by (induction evs) auto

lemma filter_no_new: "(\<And>ev. ev \<in> set new \<Longrightarrow> P ev) \<Longrightarrow> filter P (xs @ new) = filter P xs @ new"
  by (simp add: filter_id_conv)

text \<open>The state reached before the limits are looked at.\<close>

lemma gaze_expired_window:
  assumes inv: "gaze_inv p xs st ds" and p: "sa_policy st = p"
    and m: "monotone_ts (xs @ [(r, e, ts)])" and W: "0 < ps_gaze_window_seconds p"
    and live: "\<not> gaze_ended p xs"
  shows "expire_gaze (ts - ps_gaze_window_seconds p * 1000) (sa_gaze_away_events (gaze_track r e ts st))
           = in_window p (xs @ [(r, e, ts)])" (is "expire_gaze ?w _ = _")
    and "streak_ok (gaze_track r e ts st)"
    and "streak_of (gaze_track r e ts st)
           = fst (episodes (ps_gaze_min_duration_ms p) (xs @ [(r, e, ts)]))"
proof -
  let ?m = "ps_gaze_min_duration_ms p"
  obtain eps where eps: "episodes ?m xs = (streak_of st, eps)"
    using inv live by (metis gaze_inv_def prod.collapse)
  have ok: "streak_ok st" using inv live by (simp add: gaze_inv_def)
  obtain fresh where t: "streak_ok (gaze_track r e ts st)"
      "episodes ?m (xs @ [(r, e, ts)]) = (streak_of (gaze_track r e ts st), eps @ fresh)"
      "sa_gaze_away_events (gaze_track r e ts st) = sa_gaze_away_events st @ fresh"
    by (rule gaze_track_refines[OF ok _ eps]) (use p in auto)
  show "streak_ok (gaze_track r e ts st)" by fact
  show "streak_of (gaze_track r e ts st) = fst (episodes ?m (xs @ [(r, e, ts)]))" using t(2) by simp
  have srt: "sorted (map ga_ended_at_ms (eps @ fresh))"
    using episodes_sorted[OF m, of ?m] t(2) by simp
  have win: "sa_gaze_away_events st
      = filter (\<lambda>ev. last_ts xs - ps_gaze_window_seconds p * 1000 \<le> ga_ended_at_ms ev) eps" (is "_ = filter ?Q eps")
    using inv live eps by (simp add: gaze_inv_def in_window_def)
  have "sorted (map ga_ended_at_ms (filter ?Q eps @ fresh))"
    using srt by (auto simp: sorted_append sorted_filter)
  then have "expire_gaze ?w (sa_gaze_away_events (gaze_track r e ts st))
      = filter (\<lambda>ev. ?w \<le> ga_ended_at_ms ev) (filter ?Q eps @ fresh)"
    by (simp only: t(3) win expire_gaze_filter)
  also have "filter (\<lambda>ev. ?w \<le> ga_ended_at_ms ev) (filter ?Q eps) = filter (\<lambda>ev. ?w \<le> ga_ended_at_ms ev) eps"
  proof (cases "xs = []")
    case True
    with eps show ?thesis by simp
  next
    case False
    with m have "last_ts xs \<le> ts" by (simp add: monotone_ts_snoc)
    then show ?thesis by (intro filter_narrow) simp
  qed
  ultimately show "expire_gaze ?w (sa_gaze_away_events (gaze_track r e ts st)) = in_window p (xs @ [(r, e, ts)])"
    by (simp add: in_window_def t(2) last_ts_def del: episodes_snoc)
qed

lemma gaze_evaluate_verdict:
  assumes "sa_policy st = p" "sa_gaze_away_events st = in_window p (xs @ [x])" "\<not> gaze_ended p xs"
    "\<not> sa_gaze_termination_fired st"
  shows "map (\<lambda>d. (fd_triggered_termination d, fd_contributing_event_ids d))
            (of_rule RULE_GAZE_AWAY_FREQUENCY (snd (gaze_evaluate fa r st)))
          = (case gaze_verdict p (xs @ [x]) of None \<Rightarrow> [] | Some v \<Rightarrow> [v])"
    and "sa_gaze_termination_fired (fst (gaze_evaluate fa r st)) = gaze_terminal p (xs @ [x])"
proof -
  have acc: "of_rule RULE_GAZE_AWAY_FREQUENCY
     (case check_accumulated_threshold s ids of None \<Rightarrow> [] | Some d \<Rightarrow> [d]) = []" for s ids
    using check_rule[of s ids] by (auto simp: rule_codes split: option.splits)
  show "map (\<lambda>d. (fd_triggered_termination d, fd_contributing_event_ids d))
            (of_rule RULE_GAZE_AWAY_FREQUENCY (snd (gaze_evaluate fa r st)))
          = (case gaze_verdict p (xs @ [x]) of None \<Rightarrow> [] | Some v \<Rightarrow> [v])"
    using assms by (simp add: gaze_evaluate_def gaze_verdict_def gaze_count_def Let_def acc)
  show "sa_gaze_termination_fired (fst (gaze_evaluate fa r st)) = gaze_terminal p (xs @ [x])"
    using assms by (simp add: gaze_evaluate_def gaze_terminal_def gaze_count_def Let_def)
qed

lemma gaze_step:
  assumes inv: "gaze_inv p xs st ds" and p: "sa_policy st = p"
    and m: "monotone_ts (xs @ [(r, e, ts)])" and W: "0 < ps_gaze_window_seconds p"
  shows "gaze_inv p (xs @ [(r, e, ts)]) (fst (process_gaze fa r e ts st))
           (ds @ of_rule RULE_GAZE_AWAY_FREQUENCY (snd (process_gaze fa r e ts st)))"
proof (cases "gaze_ended p xs")
  case True
  then have "gaze_verdict p (xs @ [(r, e, ts)]) = None" by (simp add: gaze_verdict_def)
  with True inv show ?thesis by (simp add: gaze_inv_def process_gaze_def)
next
  case False
  define st2 where "st2 = (gaze_track r e ts st)
      \<lparr> sa_gaze_away_events := expire_gaze (ts - ps_gaze_window_seconds p * 1000)
           (sa_gaze_away_events (gaze_track r e ts st)) \<rparr>"
  from inv False have live: "\<not> sa_gaze_termination_fired st" by (simp add: gaze_inv_def)
  then have run: "process_gaze fa r e ts st = gaze_evaluate fa r st2"
    by (simp add: process_gaze_def Let_def p st2_def)
  note w = gaze_expired_window[OF inv p m W False]
  have st2: "sa_policy st2 = p" "sa_gaze_away_events st2 = in_window p (xs @ [(r, e, ts)])"
      "\<not> sa_gaze_termination_fired st2" "streak_ok st2 = streak_ok (gaze_track r e ts st)"
      "streak_of st2 = streak_of (gaze_track r e ts st)"
    by (simp_all add: st2_def p w(1) live streak_ok_def streak_of_def cong: option.case_cong)
  have keep: "streak_ok (fst (gaze_evaluate fa r st2)) = streak_ok st2"
      "streak_of (fst (gaze_evaluate fa r st2)) = streak_of st2"
    by (simp_all add: streak_ok_def streak_of_def cong: option.case_cong)
  show ?thesis
    using inv False gaze_evaluate_verdict[OF st2(1,2) False st2(3), of fa r] w(2,3) st2 keep
    unfolding run by (simp add: gaze_inv_def del: episodes_snoc)
qed

lemma monotone_ts_append1: "monotone_ts (xs @ ys) \<Longrightarrow> monotone_ts xs"
  by (simp add: monotone_ts_def sorted_append)

lemma gaze_run:
  assumes W: "0 < ps_gaze_window_seconds p" and m: "monotone_ts (gazes_of evs)"
  shows "gaze_inv p (gazes_of evs) (fst (agg_run fa evs (new_session_aggregator p ctx)))
           (of_rule RULE_GAZE_AWAY_FREQUENCY (snd (agg_run fa evs (new_session_aggregator p ctx))))"
  using m
proof (induction evs rule: rev_induct)
  case Nil
  show ?case by (simp add: gaze_inv_def streak_ok_def streak_of_def in_window_def)
next
  case (snoc ev evs)
  let ?st = "fst (agg_run fa evs (new_session_aggregator p ctx))"
  show ?case
  proof (cases "is_gaze ev")
    case True
    then obtain r e ts where [simp]: "ev = GazeEv r e ts" by (cases ev) auto
    from snoc.prems have m: "monotone_ts (gazes_of evs @ [(r, e, ts)])" by simp
    from gaze_step[OF snoc.IH[OF monotone_ts_append1[OF m]] _ m W, of fa] show ?thesis
      by (simp add: returns_def)
  next
    case False
    then have "RULE_GAZE_AWAY_FREQUENCY \<notin> set (event_rules ev)"
      by (cases ev) (simp_all add: rule_codes)
    moreover have "gaze_inv p xs (fst (agg_step fa ev ?st)) ds = gaze_inv p xs ?st ds" for xs ds
      by (simp add: gaze_inv_def streak_ok_def streak_of_def gaze_frame[OF False] cong: option.case_cong)
    ultimately show ?thesis using False snoc by (simp add: of_rule_other)
  qed
qed

section \<open>Repeated warnings\<close>

text \<open>Once the warning limit is met, every further reading raises the warning again, also one
  that carries no landmarks and so adds no episode.\<close>

definition warned_state :: "int \<Rightarrow> session_aggregator \<Rightarrow> bool" where
  "warned_state ts st \<longleftrightarrow> \<not> sa_gaze_termination_fired st
     \<and> ps_gaze_warning_limit (sa_policy st) \<le> int (length (sa_gaze_away_events st))
     \<and> int (length (sa_gaze_away_events st)) < ps_gaze_termination_limit (sa_policy st)
     \<and> (\<forall>ev\<in>set (sa_gaze_away_events st). ts - ps_gaze_window_seconds (sa_policy st) * 1000 \<le> ga_ended_at_ms ev)"

lemma expire_gaze_id: "(\<And>ev. ev \<in> set evs \<Longrightarrow> w \<le> ga_ended_at_ms ev) \<Longrightarrow> expire_gaze w evs = evs"
  by (cases evs) force+

lemma warned_step:
  assumes "warned_state ts st" "hp_off_screen r = None"
  shows "warned_state ts (fst (process_gaze fa r e ts st))"
    and "length (of_rule RULE_GAZE_AWAY_FREQUENCY (snd (process_gaze fa r e ts st))) = 1"
    and "sa_accumulated_score (fst (process_gaze fa r e ts st))
           = f_add fa (sa_accumulated_score st) (weight_for (sa_policy st) RULE_GAZE_AWAY_FREQUENCY)"
    and "sa_policy (fst (process_gaze fa r e ts st)) = sa_policy st"
proof -
  have acc: "of_rule RULE_GAZE_AWAY_FREQUENCY
     (case check_accumulated_threshold s ids of None \<Rightarrow> [] | Some d \<Rightarrow> [d]) = []" for s ids
    using check_rule[of s ids] by (auto simp: rule_codes split: option.splits)
  have "expire_gaze (ts - ps_gaze_window_seconds (sa_policy st) * 1000) (sa_gaze_away_events st)
      = sa_gaze_away_events st"
    using assms(1) by (intro expire_gaze_id) (simp add: warned_state_def)
  then have run: "process_gaze fa r e ts st = gaze_evaluate fa r st"
    using assms by (simp add: process_gaze_def gaze_track_def Let_def warned_state_def)
  show "warned_state ts (fst (process_gaze fa r e ts st))"
    using assms unfolding run by (simp add: warned_state_def gaze_evaluate_def Let_def)
  show "length (of_rule RULE_GAZE_AWAY_FREQUENCY (snd (process_gaze fa r e ts st))) = 1"
    using assms unfolding run by (simp add: warned_state_def gaze_evaluate_def Let_def acc)
  show "sa_accumulated_score (fst (process_gaze fa r e ts st))
           = f_add fa (sa_accumulated_score st) (weight_for (sa_policy st) RULE_GAZE_AWAY_FREQUENCY)"
    using assms unfolding run by (simp add: warned_state_def gaze_evaluate_def Let_def)
  show "sa_policy (fst (process_gaze fa r e ts st)) = sa_policy st"
    unfolding run by simp
qed

lemma warned_repeat:
  assumes "warned_state ts st" "hp_off_screen r = None"
  shows "warned_state ts (fst (agg_run fa (replicate k (GazeEv r e ts)) st)) \<and>
    length (of_rule RULE_GAZE_AWAY_FREQUENCY (snd (agg_run fa (replicate k (GazeEv r e ts)) st))) = k \<and>
    sa_accumulated_score (fst (agg_run fa (replicate k (GazeEv r e ts)) st))
      = ((\<lambda>s. f_add fa s (weight_for (sa_policy st) RULE_GAZE_AWAY_FREQUENCY)) ^^ k) (sa_accumulated_score st)"
proof (induction k)
  case (Suc k)
  let ?st = "fst (agg_run fa (replicate k (GazeEv r e ts)) st)"
  have "warned_state ts ?st" using Suc.IH by simp
  note w = warned_step[OF this assms(2), of fa e]
  have "replicate (Suc k) (GazeEv r e ts) = replicate k (GazeEv r e ts) @ [GazeEv r e ts]"
    by (simp add: replicate_append_same)
  with Suc.IH w show ?case by (simp add: returns_def del: replicate.simps)
qed (use assms in simp)

end
