(* ===== verification/AggregatorScore.thy ===== *)
theory AggregatorScore
  imports AggregatorProps
begin

text \<open>
  What holds of every call of the aggregator: the running score is the sum of the deltas of
  the decisions handed out, a flag that terminates the session is critical, every
  confidence triple is well formed, a zero-tolerance rule terminates at most once, and no
  call raises when the policy satisfies the schema's constraints.
\<close>

section \<open>The score\<close>

text \<open>The decisions whose delta is added to the score are the medium ones, except the
  identity-unavailable flag and the browser events outside the accumulation set, which carry
  the delta 0.\<close>

definition counts :: "flag_decision \<Rightarrow> bool" where
  "counts d \<longleftrightarrow> fd_severity d = SEV_MEDIUM \<and> fd_rule_code d \<noteq> RULE_IDENTITY_CHECK_UNAVAILABLE \<and>
     (fd_rule_code d = RULE_BROWSER_EVENT \<longrightarrow>
        dict_get (fd_detail d) ''browser_event_type'' JNull \<in> JStr ` set BROWSER_ACCUMULATION_EVENTS)"

definition score_after :: "float_arith \<Rightarrow> rat \<Rightarrow> flag_decision list \<Rightarrow> rat" where
  "score_after fa s ds = foldl (f_add fa) s (map fd_score_delta (filter counts ds))"

lemma score_after_simps [simp]:
  "score_after fa s [] = s"
  "score_after fa s (ds @ ds') = score_after fa (score_after fa s ds) ds'"
  by (simp_all add: score_after_def)

lemma score_after_one:
  "score_after fa s [d] = (if counts d then f_add fa s (fd_score_delta d) else s)"
  by (simp add: score_after_def)

lemma sev_distinct: "SEV_CRITICAL \<noteq> SEV_MEDIUM" "SUPPRESSED_SEVERITY \<noteq> SEV_MEDIUM"
  "BOOK_FLAG_SEVERITY = SEV_MEDIUM"
  by (simp_all add: severities)

lemma score_acc [simp]:
  "score_after fa s (case check_accumulated_threshold st ids of None \<Rightarrow> [] | Some d \<Rightarrow> [d]) = s"
  using check_accumulated_threshold_Some[of st ids]
  by (auto simp: score_after_one counts_def sev_distinct split: option.splits)

lemma score_acc_check:
  "counts d \<Longrightarrow> fd_score_delta d = w \<Longrightarrow>
     score_after fa (sa_accumulated_score st) (snd (accumulate_and_check fa w ids [d] st))
       = sa_accumulated_score (fst (accumulate_and_check fa w ids [d] st))"
  unfolding acc_decisions score_after_simps score_acc by (simp add: score_after_one)

lemma counts_rule:
  "fd_severity d = SEV_MEDIUM \<Longrightarrow>
     fd_rule_code d \<in> {RULE_LIVENESS_CHECK_FAILED, RULE_GAZE_AWAY_FREQUENCY, RULE_OBJECT_DETECTED,
                       BOOK_RULE_CODE, RULE_AUDIO_ANOMALY} \<Longrightarrow> counts d"
  by (auto simp: counts_def rule_codes)

lemma counts_not: "fd_severity d \<noteq> SEV_MEDIUM \<Longrightarrow> \<not> counts d"
  by (simp add: counts_def)

lemma score_object:
  "score_after fa (sa_accumulated_score st) (snd (process_object_detection fa r e now st))
     = sa_accumulated_score (fst (process_object_detection fa r e now st))"
  by (cases "find_matching_exemption (cx_participant_id (sa_ctx st)) (od_detected_class r)
               (cx_exam_reference (sa_ctx st)) now (cx_exemptions (sa_ctx st))")
     (simp_all add: process_object_detection_def Let_def score_acc_check counts_rule sev_distinct
        score_after_one counts_not del: acc_decisions acc_state)

lemma score_liveness:
  "score_after fa (sa_accumulated_score st) (decisions_of (snd (process_liveness fa r e st)))
     = sa_accumulated_score (fst (process_liveness fa r e st))"
proof -
  have fire: "score_after fa (sa_accumulated_score st) (decisions_of (snd (liveness_fire fa st)))
      = sa_accumulated_score (fst (liveness_fire fa st))" for st
    by (simp add: liveness_fire_def Let_def score_acc_check counts_rule score_after_one counts_not sev_distinct
        del: acc_decisions acc_state split: sum.splits prod.splits)
  have "sa_accumulated_score (liveness_push r e st) = sa_accumulated_score st"
    by (simp add: liveness_push_def Let_def)
  with fire[of "(liveness_push r e st)
        \<lparr> sa_liveness_spoof_run_length := sa_liveness_spoof_run_length (liveness_push r e st) + 1 \<rparr>"]
  show ?thesis by (simp add: process_liveness_def Let_def)
qed

lemma score_gaze:
  "score_after fa (sa_accumulated_score st) (snd (process_gaze fa r e ts st))
     = sa_accumulated_score (fst (process_gaze fa r e ts st))"
proof -
  have ev: "score_after fa (sa_accumulated_score st) (snd (gaze_evaluate fa r st))
      = sa_accumulated_score (fst (gaze_evaluate fa r st))" for st
    by (simp add: gaze_evaluate_def Let_def score_acc_check counts_rule score_after_one counts_not sev_distinct
        del: acc_decisions acc_state)
  show ?thesis
    using ev[of "(gaze_track r e ts st)
        \<lparr> sa_gaze_away_events := expire_gaze (ts - ps_gaze_window_seconds (sa_policy st) * 1000)
             (sa_gaze_away_events (gaze_track r e ts st)) \<rparr>"]
    by (simp add: process_gaze_def Let_def)
qed

lemma score_browser:
  "score_after fa (sa_accumulated_score st) (snd (process_browser_event fa r e st))
     = sa_accumulated_score (fst (process_browser_event fa r e st))"
proof (cases "ir_event_type r \<in> set BROWSER_ACCUMULATION_EVENTS")
  case True
  then show ?thesis
    by (simp add: process_browser_event_def Let_def List.member_iff del: acc_decisions acc_state)
       (rule score_acc_check, simp_all add: counts_def rule_codes)
next
  case False
  then show ?thesis
    by (simp add: process_browser_event_def Let_def List.member_iff score_after_one counts_def image_iff)
qed

lemma score_audio:
  "score_after fa (sa_accumulated_score st) (snd (process_audio_vad fa r e st))
     = sa_accumulated_score (fst (process_audio_vad fa r e st))"
  by (simp add: process_audio_vad_def Let_def score_acc_check counts_rule del: acc_decisions acc_state)

lemma score_step:
  "score_after fa (sa_accumulated_score st) (decisions_of (snd (agg_step fa ev st)))
     = sa_accumulated_score (fst (agg_step fa ev st))"
  by (cases ev)
     (auto simp: returns_def score_object score_liveness score_gaze score_browser score_audio score_after_one
        process_face_presence_def process_identity_check_unavailable_def process_identity_match_def
        identity_push_def identity_fire_def Let_def counts_def sev_distinct
        split: sum.splits prod.splits)

lemma score_run:
  "sa_accumulated_score (fst (agg_run fa evs st))
    = score_after fa (sa_accumulated_score st) (snd (agg_run fa evs st))"
  by (induction evs rule: rev_induct) (simp_all add: score_step[symmetric])

section \<open>Decisions\<close>

definition event_confidence :: "agg_event \<Rightarrow> confidence_interval" where
  "event_confidence ev = (case ev of
       FaceEv r _ \<Rightarrow> ir_confidence r | LivenessEv r _ \<Rightarrow> ir_confidence r
     | GazeEv r _ _ \<Rightarrow> ir_confidence r | IdentityEv r _ \<Rightarrow> ir_confidence r
     | IdentityUnavailableEv _ \<Rightarrow> certain | ObjectEv r _ _ \<Rightarrow> ir_confidence r
     | BrowserEv r _ \<Rightarrow> ir_confidence r | AudioEv r _ \<Rightarrow> ir_confidence r)"

lemma check_ci: "check_accumulated_threshold st ids = Some d \<Longrightarrow> ci_ok (fd_confidence d)"
  using check_accumulated_threshold_Some by auto

lemma decision_ci_ok:
  assumes "ci_ok (event_confidence ev)" "d \<in> set (decisions_of (snd (agg_step fa ev st)))"
  shows "ci_ok (fd_confidence d)"
  using assms
  by (cases ev)
     (auto simp: step_defs gaze_evaluate_def Let_def event_confidence_def
        dest!: check_ci check_ci[OF sym] dest: window_interval_Inr split: sum.splits prod.splits if_splits)

text \<open>The shape of every decision: a terminating flag is critical and carries no delta; only
  medium flags carry a delta; a flag suppressed by an exemption is low, does not terminate
  and carries no delta.\<close>

definition decision_shape :: "flag_decision \<Rightarrow> bool" where
  "decision_shape d \<longleftrightarrow>
     fd_severity d \<in> {''low'', ''medium'', ''critical''} \<and>
     (fd_triggered_termination d \<longrightarrow> fd_severity d = ''critical'') \<and>
     (fd_score_delta d \<noteq> 0 \<longrightarrow> fd_severity d = ''medium'') \<and>
     (fd_suppressed_by_exemption_id d \<noteq> None \<longleftrightarrow> fd_severity d = ''low'')"

lemma check_suppressed: "check_accumulated_threshold st ids = Some d \<Longrightarrow> fd_suppressed_by_exemption_id d = None"
  by (auto simp: check_accumulated_threshold_def Let_def split: if_splits)

lemma check_shape: "check_accumulated_threshold st ids = Some d \<Longrightarrow> decision_shape d"
  using check_accumulated_threshold_Some[of st ids d] check_suppressed[of st ids d]
  by (simp add: decision_shape_def SEV_CRITICAL_def)

lemma acc_shape:
  "d \<in> set (snd (accumulate_and_check fa w ids [x] st)) \<Longrightarrow> decision_shape x \<Longrightarrow> decision_shape d"
  unfolding acc_decisions set_append Un_iff set_option_list using check_shape by auto

lemma decision_shape_object:
  "d \<in> set (snd (process_object_detection fa r e now st)) \<Longrightarrow> decision_shape d"
  by (cases "find_matching_exemption (cx_participant_id (sa_ctx st)) (od_detected_class r)
               (cx_exam_reference (sa_ctx st)) now (cx_exemptions (sa_ctx st))")
     (auto simp: process_object_detection_def Let_def simp del: acc_decisions elim!: acc_shape split: if_splits,
      simp_all add: decision_shape_def severities)

lemma decision_shape_liveness:
  "d \<in> set (decisions_of (snd (process_liveness fa r e st))) \<Longrightarrow> decision_shape d"
  by (auto simp: process_liveness_def liveness_fire_def Let_def
        simp del: acc_decisions elim!: acc_shape split: if_splits sum.splits prod.splits)
     (simp_all add: decision_shape_def severities)

lemma decision_shape_identity:
  "d \<in> set (decisions_of (snd (process_identity_match fa r e st))) \<Longrightarrow> decision_shape d"
  by (auto simp: process_identity_match_def identity_fire_def Let_def split: if_splits sum.splits prod.splits)
     (simp_all add: decision_shape_def severities)

lemma decision_shape_gaze:
  "d \<in> set (snd (process_gaze fa r e ts st)) \<Longrightarrow> decision_shape d"
  by (auto simp: process_gaze_def gaze_evaluate_def Let_def
        simp del: acc_decisions elim!: acc_shape split: if_splits)
     (simp_all add: decision_shape_def severities)

lemma decision_shape_step:
  "d \<in> set (decisions_of (snd (agg_step fa ev st))) \<Longrightarrow> decision_shape d"
  by (cases ev)
     (auto simp: returns_def process_face_presence_def process_identity_check_unavailable_def
        process_browser_event_def process_audio_vad_def Let_def
        simp del: acc_decisions
        elim!: acc_shape decision_shape_object decision_shape_liveness decision_shape_identity decision_shape_gaze
        split: if_splits,
      simp_all add: decision_shape_def severities)

section \<open>Zero tolerance fires once\<close>

definition terminations :: "string \<Rightarrow> flag_decision list \<Rightarrow> flag_decision list" where
  "terminations c ds = filter fd_triggered_termination (of_rule c ds)"

lemma terminations_simps [simp]:
  "terminations c [] = []"
  "terminations c (ds @ ds') = terminations c ds @ terminations c ds'"
  by (simp_all add: terminations_def)

definition fired :: "string \<Rightarrow> session_aggregator \<Rightarrow> bool" where
  "fired c st = (if c = RULE_SECOND_PERSON then sa_second_person_fired st
                 else if c = RULE_GAZE_AWAY_FREQUENCY then sa_gaze_termination_fired st
                 else sa_identity_mismatch_fired st)"

definition zero_tolerance :: "string list" where
  "zero_tolerance = [RULE_SECOND_PERSON, RULE_GAZE_AWAY_FREQUENCY, RULE_IDENTITY_MISMATCH]"

lemma fired_face:
  "length (terminations RULE_SECOND_PERSON (decisions_of (snd (agg_step fa ev st)))) + of_bool (sa_second_person_fired st)
     = of_bool (sa_second_person_fired (fst (agg_step fa ev st)))"
proof (cases "is_face ev")
  case True
  then show ?thesis
    by (cases ev) (simp_all add: returns_def process_face_presence_def Let_def terminations_def)
next
  case False
  then have "RULE_SECOND_PERSON \<notin> set (event_rules ev)" by (cases ev) (simp_all add: rule_codes)
  with False show ?thesis by (simp add: terminations_def of_rule_other face_frame)
qed

lemma fired_gaze:
  "length (terminations RULE_GAZE_AWAY_FREQUENCY (decisions_of (snd (agg_step fa ev st)))) + of_bool (sa_gaze_termination_fired st)
     = of_bool (sa_gaze_termination_fired (fst (agg_step fa ev st)))"
proof (cases "is_gaze ev")
  case True
  have acc: "filter fd_triggered_termination (of_rule RULE_GAZE_AWAY_FREQUENCY
     (case check_accumulated_threshold st' ids of None \<Rightarrow> [] | Some d \<Rightarrow> [d])) = []" for st' ids
    using check_rule[of st' ids] by (auto simp: rule_codes split: option.splits)
  from True show ?thesis
    by (cases ev) (simp_all add: returns_def process_gaze_def gaze_evaluate_def Let_def terminations_def acc)
next
  case False
  then have "RULE_GAZE_AWAY_FREQUENCY \<notin> set (event_rules ev)" by (cases ev) (simp_all add: rule_codes)
  with False show ?thesis by (simp add: terminations_def of_rule_other gaze_frame)
qed

lemma fired_identity:
  "length (terminations RULE_IDENTITY_MISMATCH (decisions_of (snd (agg_step fa ev st)))) + of_bool (sa_identity_mismatch_fired st)
     = of_bool (sa_identity_mismatch_fired (fst (agg_step fa ev st)))"
proof (cases "is_identity ev")
  case True
  then show ?thesis
    by (cases ev) (auto simp: process_identity_match_def identity_push_def identity_fire_def Let_def terminations_def
        split: sum.splits prod.splits)
next
  case False
  then have "RULE_IDENTITY_MISMATCH \<notin> set (event_rules ev)" by (cases ev) (simp_all add: rule_codes)
  with False show ?thesis by (simp add: terminations_def of_rule_other identity_frame)
qed

lemma fired_step:
  "c \<in> set zero_tolerance \<Longrightarrow>
     length (terminations c (decisions_of (snd (agg_step fa ev st)))) + of_bool (fired c st)
       = of_bool (fired c (fst (agg_step fa ev st)))"
proof -
  have dist: "RULE_GAZE_AWAY_FREQUENCY \<noteq> RULE_SECOND_PERSON" "RULE_IDENTITY_MISMATCH \<noteq> RULE_SECOND_PERSON"
      "RULE_IDENTITY_MISMATCH \<noteq> RULE_GAZE_AWAY_FREQUENCY"
    by (simp_all add: rule_codes)
  assume "c \<in> set zero_tolerance"
  then consider "c = RULE_SECOND_PERSON" | "c = RULE_GAZE_AWAY_FREQUENCY" | "c = RULE_IDENTITY_MISMATCH"
    by (auto simp: zero_tolerance_def)
  then show ?thesis
    by cases (simp_all only: fired_def dist simp_thms if_True if_False fired_face fired_gaze fired_identity)
qed

lemma fired_run:
  "c \<in> set zero_tolerance \<Longrightarrow>
     length (terminations c (snd (agg_run fa evs st))) + of_bool (fired c st)
       = of_bool (fired c (fst (agg_run fa evs st)))"
proof (induction evs rule: rev_induct)
  case (snoc ev evs)
  from fired_step[OF snoc.prems, of fa ev "fst (agg_run fa evs st)"] snoc.IH[OF snoc.prems]
  show ?case by simp
qed simp

end
