(* ===== verification/FusionProperties.thy ===== *)
theory FusionProperties
  imports LivenessTrace GazeLadder AggregatorScore
begin

text \<open>
  The properties of the fusion engine, with an application of each to a concrete session.
  All of them are about \<open>agg_run\<close>: any interleaving of calls of the aggregator's methods,
  from a new aggregator.
\<close>

section \<open>A concrete session\<close>

definition demo_ctx :: session_context where
  "demo_ctx = \<lparr> cx_exam_session_id = 1, cx_participant_id = 2, cx_exam_reference = ''exam'',
     cx_policy_config_id = 3, cx_allowed_reference_materials = ''closed_book'',
     cx_permitted_material_details = [],
     cx_exemptions = [\<lparr> ex_id = 9, ex_participant_id = 2, ex_object_class = ''cell phone'',
        ex_exam_reference = ''exam'', ex_effective_at = 100, ex_expires_at = Some 200 \<rparr>] \<rparr>"

definition point :: "rat \<Rightarrow> confidence_interval" where
  "point s = \<lparr> ci_lower = s, ci_score = s, ci_upper = s \<rparr>"

definition demo_face :: "int \<Rightarrow> face_presence_result" where
  "demo_face n = \<lparr> ir_modality = ''face'', ir_event_type = ''second_person'', ir_confidence = point (1/2),
     ir_bounding_boxes = [], ir_raw_value = [], fp_face_count = n \<rparr>"

definition demo_identity :: "rat \<Rightarrow> identity_match_result" where
  "demo_identity s = \<lparr> ir_modality = ''identity'', ir_event_type = ''identity_match'', ir_confidence = point s,
     ir_bounding_boxes = [], ir_raw_value = [], im_similarity = s \<rparr>"

definition demo_liveness :: "bool \<Rightarrow> rat \<Rightarrow> liveness_result" where
  "demo_liveness b s = \<lparr> ir_modality = ''liveness'', ir_event_type = ''spoof'', ir_confidence = point s,
     ir_bounding_boxes = [], ir_raw_value = [], lv_is_real = b \<rparr>"

definition demo_gaze :: "bool option \<Rightarrow> head_pose_gaze_result" where
  "demo_gaze off = \<lparr> ir_modality = ''gaze'', ir_event_type = ''gaze'', ir_confidence = point 1,
     ir_bounding_boxes = [], ir_raw_value = [], hp_off_screen = off, hp_yaw = 0, hp_pitch = 0,
     hp_roll = 0, hp_ear = 0, hp_iris_offset = 0 \<rparr>"

definition demo_object :: "string \<Rightarrow> object_detection_result" where
  "demo_object c = \<lparr> ir_modality = ''object'', ir_event_type = ''object_detected'', ir_confidence = point (3/4),
     ir_bounding_boxes = [], ir_raw_value = [], od_detected_class = c \<rparr>"

definition demo_blur :: browser_event_result where
  "demo_blur = \<lparr> ir_modality = ''browser'', ir_event_type = ''blur'', ir_confidence = point 1,
     ir_bounding_boxes = [], ir_raw_value = [], be_detail = [] \<rparr>"

lemmas demo_defs = demo_face_def demo_identity_def demo_liveness_def demo_gaze_def demo_object_def
  demo_blur_def point_def

section \<open>Second person\<close>

text \<open>C1: the second-person rule raises exactly one flag, at the first face reading that completes
  the configured number of consecutive readings with two or more faces, and none before;
  that flag is critical, terminates the session and cites exactly those readings.  Calls of
  the other modalities in between change nothing.\<close>

theorem second_person_exact:
  assumes "ps_terminate_on_second_face p" "0 < n" "ps_second_face_confirmation_frames p = int n"
  shows "if has_run n two_faces (faces_of evs)
    then \<exists>k d. confirmed_at n two_faces (faces_of evs) k \<and>
           of_rule RULE_SECOND_PERSON (snd (agg_run fa evs (new_session_aggregator p ctx))) = [d] \<and>
           fd_triggered_termination d \<and> fd_severity d = ''critical'' \<and>
           fd_contributing_event_ids d = map snd (lastn n (take k (faces_of evs)))
    else of_rule RULE_SECOND_PERSON (snd (agg_run fa evs (new_session_aggregator p ctx))) = []"
  using second_person_run[OF assms, of evs fa ctx]
  by (simp add: second_person_inv_def SEV_CRITICAL_def split: if_splits)

definition demo_faces :: "agg_event list" where
  "demo_faces = [FaceEv (demo_face 2) 10, FaceEv (demo_face 1) 11, FaceEv (demo_face 2) 12,
     BrowserEv demo_blur 13, FaceEv (demo_face 3) 14, FaceEv (demo_face 2) 15, FaceEv (demo_face 2) 16]"

lemma demo_faces_of: "faces_of demo_faces =
  [(demo_face 2, 10), (demo_face 1, 11), (demo_face 2, 12), (demo_face 3, 14), (demo_face 2, 15), (demo_face 2, 16)]"
  by (simp add: demo_faces_def faces_of_def)

theorem second_person_exact_witness:
  "length (of_rule RULE_SECOND_PERSON
     (snd (agg_run exact_arith demo_faces (new_session_aggregator default_policy_snapshot demo_ctx)))) = 1"
proof -
  have "has_run 3 two_faces (faces_of demo_faces)"
    unfolding demo_faces_of
    by (rule has_runI[of 2]) (auto simp: less_Suc_eq numeral_eq_Suc two_faces_def demo_face_def)
  then show ?thesis
    using second_person_exact[of default_policy_snapshot 3 demo_faces exact_arith demo_ctx]
    by (auto simp: default_policy_snapshot_def)
qed

section \<open>Identity\<close>

text \<open>C8: the identity rule raises exactly one flag, at the first identity reading that completes
  the configured number of consecutive similarities below the threshold; it is critical,
  terminates, cites those readings, and its interval runs from their smallest to their
  largest similarity with the score in between, however floats are rounded.\<close>

theorem identity_exact:
  assumes "0 < n" "ps_identity_confirmation_frames p = int n"
    and "\<forall>x\<in>set (identities_of evs). in_unit (im_similarity (fst x))"
  defines "low \<equiv> mismatch (ps_identity_similarity_threshold p)"
  shows "if has_run n low (identities_of evs)
    then \<exists>k d. confirmed_at n low (identities_of evs) k \<and>
           of_rule RULE_IDENTITY_MISMATCH (snd (agg_run fa evs (new_session_aggregator p ctx))) = [d] \<and>
           fd_triggered_termination d \<and> fd_severity d = ''critical'' \<and>
           ci_ok (fd_confidence d) \<and>
           fd_contributing_event_ids d = map snd (lastn n (take k (identities_of evs))) \<and>
           py_min (map (im_similarity \<circ> fst) (lastn n (take k (identities_of evs)))) = Inr (ci_lower (fd_confidence d)) \<and>
           py_max (map (im_similarity \<circ> fst) (lastn n (take k (identities_of evs)))) = Inr (ci_upper (fd_confidence d))
    else of_rule RULE_IDENTITY_MISMATCH (snd (agg_run fa evs (new_session_aggregator p ctx))) = []"
  using identity_run[OF assms(1-3), of fa ctx] unfolding low_def
  by (simp add: identity_inv_def SEV_CRITICAL_def split: if_splits)

definition demo_identities :: "agg_event list" where
  "demo_identities = [IdentityEv (demo_identity (1/5)) 10, IdentityEv (demo_identity (9/10)) 11,
     IdentityEv (demo_identity (1/10)) 12, IdentityEv (demo_identity (3/10)) 13,
     IdentityEv (demo_identity (1/5)) 14]"

lemma demo_identities_of: "identities_of demo_identities =
  [(demo_identity (1/5), 10), (demo_identity (9/10), 11), (demo_identity (1/10), 12),
   (demo_identity (3/10), 13), (demo_identity (1/5), 14)]"
  by (simp add: demo_identities_def identities_of_def)

theorem identity_exact_witness:
  "length (of_rule RULE_IDENTITY_MISMATCH
     (snd (agg_run double_arith demo_identities (new_session_aggregator default_policy_snapshot demo_ctx)))) = 1"
proof -
  have "has_run 3 (mismatch (ps_identity_similarity_threshold default_policy_snapshot)) (identities_of demo_identities)"
    unfolding demo_identities_of
    by (rule has_runI[of 2])
       (auto simp: less_Suc_eq numeral_eq_Suc mismatch_def demo_identity_def default_policy_snapshot_def)
  moreover have "\<forall>x\<in>set (identities_of demo_identities). in_unit (im_similarity (fst x))"
    by (simp add: demo_identities_of demo_identity_def in_unit_def)
  ultimately show ?thesis
    using identity_exact[of 3 default_policy_snapshot demo_identities double_arith demo_ctx]
    by (auto simp: default_policy_snapshot_def)
qed

section \<open>Liveness\<close>

text \<open>C10: with the liveness check enabled, a flag is raised at exactly those liveness readings
  where the run of consecutive spoof readings has a length that is a positive multiple of
  the confirmation window; the flag cites the readings of the window and its interval is
  well formed.\<close>

theorem liveness_exact:
  assumes "0 < n" "ps_liveness_confirmation_frames p = int n" "ps_liveness_check_enabled p"
    and "\<forall>x\<in>set (livenesses_of evs). in_unit (liveness_score x)"
  shows "map fd_contributing_event_ids
      (of_rule RULE_LIVENESS_CHECK_FAILED (snd (agg_run fa evs (new_session_aggregator p ctx))))
    = map (\<lambda>k. map snd (lastn n (take k (livenesses_of evs)))) (spoof_fire_points n (livenesses_of evs))"
  using liveness_run[OF assms, of fa ctx] by (simp add: liveness_inv_def)

definition liveness_policy :: policy_snapshot where
  "liveness_policy = default_policy_snapshot
     \<lparr> ps_liveness_check_enabled := True, ps_liveness_check_action := Some MEDIUM_ACCUMULATE,
       ps_liveness_confirmation_frames := 2 \<rparr>"

definition demo_livenesses :: "agg_event list" where
  "demo_livenesses = [LivenessEv (demo_liveness False (4/5)) 10, LivenessEv (demo_liveness False (4/5)) 11,
     LivenessEv (demo_liveness True (9/10)) 12, LivenessEv (demo_liveness False (4/5)) 13,
     LivenessEv (demo_liveness False (4/5)) 14, LivenessEv (demo_liveness False (4/5)) 15,
     LivenessEv (demo_liveness False (4/5)) 16]"

theorem liveness_exact_witness:
  "map fd_contributing_event_ids
      (of_rule RULE_LIVENESS_CHECK_FAILED
        (snd (agg_run exact_arith demo_livenesses (new_session_aggregator liveness_policy demo_ctx))))
    = [[10, 11], [13, 14], [15, 16]]"
proof -
  have h: "\<forall>x\<in>set (livenesses_of demo_livenesses). in_unit (liveness_score x)"
    by (simp add: demo_livenesses_def livenesses_of_def demo_liveness_def point_def liveness_score_def in_unit_def)
  show ?thesis
    unfolding liveness_exact[of 2 liveness_policy, OF _ _ _ h, unfolded liveness_policy_def, simplified, folded liveness_policy_def]
    by code_simp
qed

section \<open>The gaze ladder\<close>

text \<open>C4: with timestamps that never decrease, the flags of the gaze rule are, reading by
  reading, those of the specification that keeps every completed off-screen episode and
  counts the ones that ended inside the rolling window: a terminating flag citing all the
  episodes in the window the first time the termination limit is met, nothing after it, and
  a warning citing the latest episode at every other reading at which the warning limit is
  met.\<close>

theorem gaze_ladder_exact:
  assumes "0 < ps_gaze_window_seconds p" "monotone_ts (gazes_of evs)"
  shows "map (\<lambda>d. (fd_triggered_termination d, fd_contributing_event_ids d))
      (of_rule RULE_GAZE_AWAY_FREQUENCY (snd (agg_run fa evs (new_session_aggregator p ctx))))
    = gaze_verdicts p (gazes_of evs)"
  using gaze_run[OF assms, of fa ctx] by (simp add: gaze_inv_def)

definition gaze_policy :: policy_snapshot where
  "gaze_policy = default_policy_snapshot
     \<lparr> ps_gaze_warning_limit := 1, ps_gaze_termination_limit := 2, ps_gaze_window_seconds := 10 \<rparr>"

definition demo_gazes :: "agg_event list" where
  "demo_gazes = [GazeEv (demo_gaze (Some True)) 10 0, GazeEv (demo_gaze (Some False)) 11 1000,
     GazeEv (demo_gaze None) 12 2000, GazeEv (demo_gaze (Some True)) 13 12000,
     GazeEv (demo_gaze (Some True)) 14 12500, GazeEv (demo_gaze (Some False)) 15 13000,
     GazeEv (demo_gaze (Some True)) 16 14000, GazeEv (demo_gaze (Some False)) 17 15000]"

theorem gaze_ladder_exact_witness:
  "map (\<lambda>d. (fd_triggered_termination d, fd_contributing_event_ids d))
      (of_rule RULE_GAZE_AWAY_FREQUENCY
        (snd (agg_run exact_arith demo_gazes (new_session_aggregator gaze_policy demo_ctx))))
    = [(False, [10]), (False, [10]), (False, [13, 14]), (False, [13, 14]), (True, [13, 14, 16])]"
proof -
  have m: "monotone_ts (gazes_of demo_gazes)"
    by (simp add: demo_gazes_def gazes_of_def monotone_ts_def)
  have w: "0 < ps_gaze_window_seconds gaze_policy" by (simp add: gaze_policy_def)
  show ?thesis unfolding gaze_ladder_exact[OF w m] by code_simp
qed

text \<open>once the warning limit is met, the warning is raised again by every further reading
  until the ladder ends or an episode expires, also by readings without landmarks; each
  time the rule's weight is added to the score.\<close>

theorem gaze_warning_repeats:
  assumes "warned_state ts st" "hp_off_screen r = None"
  shows "length (of_rule RULE_GAZE_AWAY_FREQUENCY
            (snd (agg_run fa (replicate k (GazeEv r e ts)) st))) = k
    \<and> sa_accumulated_score (fst (agg_run fa (replicate k (GazeEv r e ts)) st))
       = ((\<lambda>s. f_add fa s (weight_for (sa_policy st) RULE_GAZE_AWAY_FREQUENCY)) ^^ k) (sa_accumulated_score st)"
  using warned_repeat[OF assms, of fa k e] by simp_all

definition demo_warned :: session_aggregator where
  "demo_warned = (new_session_aggregator default_policy_snapshot demo_ctx)
     \<lparr> sa_gaze_away_events :=
         map (\<lambda>k. \<lparr> ga_started_at_ms = 1000 * k, ga_ended_at_ms = 1000 * k + 900, ga_contributing_event_ids = [of_int k] \<rparr>)
           [1, 2, 3] \<rparr>"

theorem gaze_warning_repeats_witness:
  "length (of_rule RULE_GAZE_AWAY_FREQUENCY
     (snd (agg_run exact_arith (replicate 10 (GazeEv (demo_gaze None) 7 4000)) demo_warned))) = 10
   \<and> sa_accumulated_score (fst (agg_run exact_arith (replicate 10 (GazeEv (demo_gaze None) 7 4000)) demo_warned)) = 10"
proof -
  have w: "warned_state 4000 demo_warned"
    by (simp add: warned_state_def demo_warned_def default_policy_snapshot_def)
  have n: "hp_off_screen (demo_gaze None) = None" by (simp add: demo_gaze_def)
  show ?thesis using gaze_warning_repeats[OF w n, of exact_arith 10 7]
    by (simp add: demo_warned_def exact_arith_def weight_for_def default_policy_snapshot_def numeral_eq_Suc)
qed

section \<open>Every decision\<close>

text \<open>each zero-tolerance rule (second person, gaze frequency, identity mismatch) raises at
  most one terminating flag in the life of an aggregator, under any policy and any
  interleaving of calls.\<close>

theorem zero_tolerance_once:
  assumes "c \<in> set zero_tolerance"
  shows "length (terminations c (snd (agg_run fa evs (new_session_aggregator p ctx)))) \<le> 1"
  using fired_run[OF assms, of fa evs "new_session_aggregator p ctx"] assms
  by (auto simp: zero_tolerance_def fired_def rule_codes split: if_splits)

theorem zero_tolerance_once_witness:
  "length (terminations RULE_SECOND_PERSON
     (snd (agg_run exact_arith demo_faces (new_session_aggregator default_policy_snapshot demo_ctx)))) \<le> 1"
  by (rule zero_tolerance_once) (simp add: zero_tolerance_def)

text \<open>C40: every decision has a severity the schema knows; only critical decisions terminate, only
  medium ones carry a score delta, and exactly the low ones name a suppressing exemption.
  In particular a suppressed detection neither terminates nor counts.\<close>

theorem decisions_well_shaped:
  assumes "d \<in> set (decisions_of (snd (agg_step fa ev st)))"
  shows "fd_severity d \<in> set (map flag_severity_value flag_severity_members)
    \<and> (fd_triggered_termination d \<longrightarrow> fd_severity d = flag_severity_value FS_CRITICAL)
    \<and> (fd_score_delta d \<noteq> 0 \<longrightarrow> fd_severity d = flag_severity_value FS_MEDIUM)
    \<and> (fd_suppressed_by_exemption_id d \<noteq> None \<longleftrightarrow> fd_severity d = flag_severity_value FS_LOW)"
  using decision_shape_step[OF assms] by (auto simp: decision_shape_def flag_severity_members_def)

theorem decisions_well_shaped_witness:
  "\<exists>d. d \<in> set (decisions_of (snd (agg_step exact_arith (BrowserEv demo_blur 13)
          (new_session_aggregator default_policy_snapshot demo_ctx))))
     \<and> fd_severity d \<in> set (map flag_severity_value flag_severity_members) \<and> fd_score_delta d = 1"
proof -
  let ?ds = "decisions_of (snd (agg_step exact_arith (BrowserEv demo_blur 13)
          (new_session_aggregator default_policy_snapshot demo_ctx)))"
  have d: "hd ?ds \<in> set ?ds \<and> fd_score_delta (hd ?ds) = 1"
    by (simp add: returns_def process_browser_event_def Let_def demo_blur_def BROWSER_ACCUMULATION_EVENTS_def
        weight_for_def default_policy_snapshot_def List.member_iff)
  with decisions_well_shaped[of "hd ?ds"] show ?thesis by blast
qed

text \<open>the running score is the sum, in the float arithmetic of the code and in the order of
  the calls, of the deltas of the medium decisions handed out (the identity-unavailable flag
  and browser events outside the accumulation set carry no delta); a consumer that adds up
  the same deltas agrees with the aggregator to the last bit.\<close>

theorem score_is_sum_of_deltas:
  "sa_accumulated_score (fst (agg_run fa evs (new_session_aggregator p ctx)))
    = foldl (f_add fa) 0
        (map fd_score_delta (filter counts (snd (agg_run fa evs (new_session_aggregator p ctx)))))"
  using score_run[of fa evs "new_session_aggregator p ctx"] by (simp add: score_after_def)

text \<open>an accumulated-score flag is appended exactly when the path is enabled and the score,
  with the weight just added, has reached the threshold; it is critical, and terminates
  exactly under the auto-terminate action.\<close>

theorem accumulated_threshold:
  "\<exists>ds'. accumulate_and_check fa w ids ds st
      = (st\<lparr> sa_accumulated_score := f_add fa (sa_accumulated_score st) w \<rparr>, ds @ ds') \<and>
     (if 0 < ps_medium_score_termination_threshold (sa_policy st) \<and>
         ps_medium_score_termination_threshold (sa_policy st) \<le> f_add fa (sa_accumulated_score st) w
      then \<exists>d. ds' = [d] \<and> fd_rule_code d = RULE_ACCUMULATED_SCORE \<and> fd_severity d = ''critical'' \<and>
             fd_contributing_event_ids d = ids \<and>
             fd_triggered_termination d = (ps_medium_score_action (sa_policy st) = AUTO_TERMINATE)
      else ds' = [])"
  by (auto simp: prod_eq_iff check_accumulated_threshold_def Let_def SEV_CRITICAL_def)

section \<open>Object detection and exemptions\<close>



section \<open>No call raises\<close>

text \<open>The constraints of the policy table on the columns the aggregator reads.\<close>

definition snapshot_ok :: "policy_snapshot \<Rightarrow> bool" where
  "snapshot_ok p \<longleftrightarrow> 0 < ps_second_face_confirmation_frames p \<and> 0 \<le> ps_gaze_min_duration_ms p \<and>
     0 < ps_gaze_window_seconds p \<and> 0 \<le> ps_gaze_warning_limit p \<and> 0 < ps_gaze_termination_limit p \<and>
     0 < ps_liveness_confirmation_frames p \<and> 0 < ps_identity_confirmation_frames p"

definition input_ok :: "agg_event \<Rightarrow> bool" where
  "input_ok ev = (case ev of
       IdentityEv r _ \<Rightarrow> in_unit (im_similarity r)
     | LivenessEv r _ \<Rightarrow> in_unit (ci_score (ir_confidence r))
     | _ \<Rightarrow> True)"

lemma input_ok_identities: "list_all input_ok evs \<Longrightarrow> \<forall>x\<in>set (identities_of evs). in_unit (im_similarity (fst x))"
  by (induction evs) (auto simp: identities_of_def input_ok_def split: agg_event.splits)

lemma input_ok_livenesses: "list_all input_ok evs \<Longrightarrow> \<forall>x\<in>set (livenesses_of evs). in_unit (liveness_score x)"
  by (induction evs) (auto simp: livenesses_of_def input_ok_def liveness_score_def split: agg_event.splits)

text \<open>C11: under a policy that satisfies the schema's constraints, and with similarities and
  liveness scores in the unit interval, no call of the aggregator raises, whatever calls
  came before and however floats are rounded.\<close>

theorem aggregator_never_raises:
  assumes "snapshot_ok p" "list_all input_ok (evs @ [ev])"
  shows "is_Inr (snd (agg_step fa ev (fst (agg_run fa evs (new_session_aggregator p ctx)))))"
proof -
  let ?st = "fst (agg_run fa evs (new_session_aggregator p ctx))"
  have q: "sa_policy ?st = p" by simp
  from assms(2) have pre: "list_all input_ok evs" by simp
  show ?thesis
  proof (cases ev)
    case (IdentityEv r e)
    let ?n = "nat (ps_identity_confirmation_frames p)"
    have n: "0 < ?n" "ps_identity_confirmation_frames p = int ?n" using assms(1) by (auto simp: snapshot_ok_def)
    note inv = identity_run[OF n input_ok_identities[OF pre], of fa ctx]
    have u: "\<forall>x\<in>set (identities_of evs @ [(r, e)]). in_unit (im_similarity (fst x))"
      using input_ok_identities[OF assms(2)] by (simp add: IdentityEv)
    obtain ds' where "snd (process_identity_match fa r e ?st) = Inr ds'"
      using identity_step[of ?n ?st "identities_of evs" _ r e fa] inv n u unfolding q by metis
    then show ?thesis by (simp add: IdentityEv)
  next
    case (LivenessEv r e)
    show ?thesis
    proof (cases "ps_liveness_check_enabled p")
      case True
      let ?n = "nat (ps_liveness_confirmation_frames p)"
      have n: "0 < ?n" "ps_liveness_confirmation_frames p = int ?n" using assms(1) by (auto simp: snapshot_ok_def)
      note inv = liveness_run[OF n True input_ok_livenesses[OF pre], of fa ctx]
      have u: "\<forall>x\<in>set (livenesses_of evs @ [(r, e)]). in_unit (liveness_score x)"
        using input_ok_livenesses[OF assms(2)] by (simp add: LivenessEv)
      obtain ds' where "snd (process_liveness fa r e ?st) = Inr ds'"
        using liveness_step[OF inv n(1) _ _ u, of fa] n True unfolding q by metis
      then show ?thesis by (simp add: LivenessEv)
    next
      case False
      then show ?thesis by (simp add: LivenessEv process_liveness_def)
    qed
  qed (simp_all add: returns_def)
qed

theorem aggregator_never_raises_witness:
  "is_Inr (snd (agg_step double_arith (LivenessEv (demo_liveness False (4/5)) 17)
     (fst (agg_run double_arith demo_livenesses (new_session_aggregator liveness_policy demo_ctx)))))"
  by (rule aggregator_never_raises)
     (simp_all add: snapshot_ok_def liveness_policy_def default_policy_snapshot_def demo_livenesses_def
        input_ok_def demo_liveness_def point_def in_unit_def)

text \<open>every confidence triple the aggregator hands out satisfies
  \<open>0 \<le> lower \<le> score \<le> upper \<le> 1\<close> when the triples it is given do.\<close>

theorem decision_intervals:
  assumes "ci_ok (event_confidence ev)" "d \<in> set (decisions_of (snd (agg_step fa ev st)))"
  shows "0 \<le> ci_lower (fd_confidence d) \<and> ci_lower (fd_confidence d) \<le> ci_score (fd_confidence d)
    \<and> ci_score (fd_confidence d) \<le> ci_upper (fd_confidence d) \<and> ci_upper (fd_confidence d) \<le> 1"
  using decision_ci_ok[OF assms] by (simp add: ci_ok_def)

theorem decision_intervals_witness:
  "ci_upper (fd_confidence (hd (decisions_of (snd (agg_step exact_arith (BrowserEv demo_blur 13)
          (new_session_aggregator default_policy_snapshot demo_ctx)))))) \<le> 1"
proof -
  let ?ds = "decisions_of (snd (agg_step exact_arith (BrowserEv demo_blur 13)
          (new_session_aggregator default_policy_snapshot demo_ctx)))"
  have "hd ?ds \<in> set ?ds"
    by (simp add: returns_def process_browser_event_def Let_def demo_blur_def BROWSER_ACCUMULATION_EVENTS_def
        List.member_iff)
  moreover have "ci_ok (event_confidence (BrowserEv demo_blur 13))"
    by (simp add: event_confidence_def demo_blur_def ci_ok_def point_def)
  ultimately show ?thesis using decision_intervals by blast
qed

end
