(* ===== verification/DataModel.thy ===== *)
theory DataModel
  imports Enums
begin

text \<open>
  The persistent data model (\<^verbatim>\<open>models.py\<close>): one record per mapped class with all its
  columns, the check constraints of the table as a predicate on rows, the ORM validators as
  functions that may raise, and the database as a record of tables (lists of rows in the
  order of insertion).  \<open>db_ok\<close> is everything the schema promises of a database: primary
  keys, unique constraints, foreign keys and check constraints.

  A \<open>db_session\<close> is the SQLAlchemy session as the services use it: the committed database
  and the working one of the open transaction.  \<open>flush\<close> raises when the working database
  violates the schema, \<open>commit\<close> flushes and publishes, \<open>rollback\<close> discards.  Relationships
  are navigations over the foreign keys and are not stored.  Primary keys and server-side
  timestamps are arguments of the operations that insert.
\<close>

section \<open>Tables\<close>

record admin_user =
  au_id :: uuid
  au_lti_issuer :: string
  au_lms_user_reference :: string
  au_display_name :: "string option"
  au_role :: admin_role
  au_department :: "string option"
  au_created_at :: timestamp
  au_retired_at :: "timestamp option"

record admin_role_audit =
  ara_id :: uuid
  ara_target_admin_id :: uuid
  ara_changed_by_admin_id :: uuid
  ara_previous_role :: admin_role
  ara_new_role :: admin_role
  ara_reason :: "string option"
  ara_created_at :: timestamp

record participant =
  pt_id :: uuid
  pt_lti_issuer :: string
  pt_lms_user_reference :: string
  pt_display_name :: "string option"
  pt_consent_recorded_at :: "timestamp option"
  pt_consent_notice_version :: "string option"
  pt_created_at :: timestamp

record policy_config =
  pc_id :: uuid
  pc_name :: string
  pc_version :: int
  pc_is_active :: bool
  pc_termination_severity :: flag_severity
  pc_terminate_on_second_face :: bool
  pc_second_face_confirmation_frames :: int
  pc_gaze_min_duration_ms :: int
  pc_gaze_window_seconds :: int
  pc_gaze_warning_limit :: int
  pc_gaze_termination_limit :: int
  pc_medium_score_termination_threshold :: rat
  pc_medium_score_action :: medium_score_action
  pc_liveness_check_enabled :: bool
  pc_liveness_check_action :: "liveness_action option"
  pc_liveness_score_threshold :: rat
  pc_liveness_confirmation_frames :: int
  pc_identity_similarity_threshold :: rat
  pc_identity_confirmation_frames :: int
  pc_audio_noise_floor_dbfs :: rat
  pc_audio_speech_ratio_threshold :: rat
  pc_extra_rules :: jdict
  pc_created_at :: timestamp
  pc_retired_at :: "timestamp option"
  pc_created_by_id :: "uuid option"

definition policy_config_checks :: "policy_config \<Rightarrow> bool" where
  "policy_config_checks p \<longleftrightarrow>
     pc_gaze_min_duration_ms p \<ge> 0 \<and>
     pc_gaze_window_seconds p > 0 \<and>
     pc_gaze_warning_limit p \<ge> 0 \<and>
     pc_gaze_termination_limit p > 0 \<and>
     pc_gaze_warning_limit p \<le> pc_gaze_termination_limit p \<and>
     pc_gaze_min_duration_ms p \<le> pc_gaze_window_seconds p * 1000 \<and>
     pc_second_face_confirmation_frames p > 0 \<and>
     pc_liveness_confirmation_frames p > 0 \<and>
     pc_identity_similarity_threshold p \<ge> 0 \<and> pc_identity_similarity_threshold p \<le> 1 \<and>
     pc_identity_confirmation_frames p > 0 \<and>
     pc_audio_speech_ratio_threshold p \<ge> 0 \<and> pc_audio_speech_ratio_threshold p \<le> 1 \<and>
     pc_medium_score_termination_threshold p \<ge> 0 \<and>
     pc_liveness_score_threshold p \<ge> 0 \<and> pc_liveness_score_threshold p \<le> 1 \<and>
     (\<not> pc_liveness_check_enabled p \<or> pc_liveness_check_action p \<noteq> None)"

text \<open>The partial unique index: a name is unique among the active, unretired rows.\<close>

definition policy_is_current :: "policy_config \<Rightarrow> bool" where
  "policy_is_current p \<longleftrightarrow> pc_is_active p \<and> pc_retired_at p = None"

definition validate_medium_score_threshold :: "rat \<Rightarrow> py_error + rat" where
  "validate_medium_score_threshold v =
     (if v < 0 then Inl (ValueError ''medium_score_termination_threshold must be >= 0'') else Inr v)"

record exam_session =
  es_id :: uuid
  es_participant_id :: uuid
  es_policy_config_id :: uuid
  es_lti_issuer :: string
  es_lti_context_id :: string
  es_exam_reference :: string
  es_attempt_reference :: string
  es_status :: session_status
  es_allowed_reference_materials :: reference_material_policy
  es_permitted_material_details :: jdict
  es_consent_recorded_at :: "timestamp option"
  es_retention_expires_at :: "timestamp option"
  es_accumulated_medium_score :: rat
  es_identity_verification_status :: identity_verification_status
  es_started_at :: "timestamp option"
  es_ended_at :: "timestamp option"
  es_created_at :: timestamp

text \<open>\<open>after_opt a b\<close>: \<^verbatim>\<open>a IS NULL OR b IS NULL OR a >= b\<close>.\<close>

definition after_opt :: "timestamp option \<Rightarrow> timestamp option \<Rightarrow> bool" where
  "after_opt a b = (case (a, b) of (Some x, Some y) \<Rightarrow> y \<le> x | _ \<Rightarrow> True)"

definition exam_session_checks :: "exam_session \<Rightarrow> bool" where
  "exam_session_checks s \<longleftrightarrow>
     after_opt (es_ended_at s) (es_started_at s) \<and>
     after_opt (es_retention_expires_at s) (es_started_at s) \<and>
     es_accumulated_medium_score s \<ge> 0"

definition validate_accumulated_medium_score :: "rat \<Rightarrow> py_error + rat" where
  "validate_accumulated_medium_score v =
     (if v < 0 then Inl (ValueError ''accumulated_medium_score must be >= 0'') else Inr v)"

record accommodation_exemption =
  ae_id :: uuid
  ae_participant_id :: uuid
  ae_exam_reference :: string
  ae_object_class :: string
  ae_approved_by :: string
  ae_approved_by_admin_id :: "uuid option"
  ae_approval_reason :: string
  ae_effective_at :: timestamp
  ae_expires_at :: "timestamp option"
  ae_created_at :: timestamp

definition accommodation_exemption_checks :: "accommodation_exemption \<Rightarrow> bool" where
  "accommodation_exemption_checks e =
     (case ae_expires_at e of None \<Rightarrow> True | Some x \<Rightarrow> x > ae_effective_at e)"

record enrollment_reference =
  er_id :: uuid
  er_participant_id :: uuid
  er_storage_uri :: string
  er_content_sha256 :: string
  er_embedding :: "rat list"
  er_embedding_dimensions :: int
  er_model_name :: string
  er_embedding_model_version :: string
  er_enrolled_at :: timestamp
  er_revoked_at :: "timestamp option"

definition enrollment_reference_checks :: "enrollment_reference \<Rightarrow> bool" where
  "enrollment_reference_checks e \<longleftrightarrow> er_embedding_dimensions e > 0"

text \<open>The items of the embedding are payload values; a value is finite and numeric exactly
  when it is an integer, a float or a boolean, which Python counts as an integer.\<close>

fun finite_number :: "jval \<Rightarrow> rat option" where
  "finite_number (JInt i) = Some (of_int i)"
| "finite_number (JFloat q) = Some q"
| "finite_number (JBool b) = Some (of_bool b)"
| "finite_number _ = None"

definition validate_embedding :: "jval list \<Rightarrow> py_error + rat list" where
  "validate_embedding vs =
     (if vs = [] then Inl (ValueError ''embedding must contain at least one value'')
      else if list_ex (\<lambda>v. finite_number v = None) vs
      then Inl (ValueError ''embedding must contain only finite numeric values'')
      else Inr (map (\<lambda>v. the (finite_number v)) vs))"

definition validate_embedding_dimensions :: "int \<Rightarrow> py_error + int" where
  "validate_embedding_dimensions v =
     (if v \<le> 0 then Inl (ValueError ''embedding_dimensions must be positive'') else Inr v)"

text \<open>\<^verbatim>\<open>str.strip()\<close> on the ASCII whitespace.\<close>

definition is_space :: "char \<Rightarrow> bool" where
  "is_space c \<longleftrightarrow> List.member [CHR '' '', CHR 0x09, CHR 0x0A, CHR 0x0B, CHR 0x0C, CHR 0x0D,
                              CHR 0x1C, CHR 0x1D, CHR 0x1E, CHR 0x1F] c"

definition strip :: "string \<Rightarrow> string" where
  "strip s = rev (dropWhile is_space (rev (dropWhile is_space s)))"

definition validate_embedding_model_version :: "string \<Rightarrow> py_error + string" where
  "validate_embedding_model_version v =
     (if v = [] \<or> strip v = [] then Inl (ValueError ''embedding_model_version must be a non-empty string'')
      else Inr (strip v))"

record telemetry_event =
  te_id :: uuid
  te_exam_session_id :: uuid
  te_modality :: telemetry_modality
  te_event_type :: string
  te_occurred_at :: timestamp
  te_received_at :: timestamp
  te_confidence :: rat
  te_raw_value :: jdict
  te_bounding_boxes :: "jval list"
  te_correlation_id :: "uuid option"

definition telemetry_event_checks :: "telemetry_event \<Rightarrow> bool" where
  "telemetry_event_checks e \<longleftrightarrow> te_confidence e \<ge> 0 \<and> te_confidence e \<le> 1"

definition validate_confidence :: "rat \<Rightarrow> py_error + rat" where
  "validate_confidence v =
     (if \<not> (0 \<le> v \<and> v \<le> 1) then Inl (ValueError ''confidence must be between 0 and 1 inclusive'')
      else Inr v)"

record flag =
  fl_id :: uuid
  fl_exam_session_id :: uuid
  fl_policy_config_id :: uuid
  fl_rule_code :: string
  fl_severity :: flag_severity
  fl_status :: flag_status
  fl_confidence_score :: rat
  fl_confidence_lower :: rat
  fl_confidence_upper :: rat
  fl_triggered_termination :: bool
  fl_suppressed_by_exemption_id :: "uuid option"
  fl_detail :: jdict
  fl_created_at :: timestamp
  fl_resolved_at :: "timestamp option"

definition flag_checks :: "flag \<Rightarrow> bool" where
  "flag_checks f \<longleftrightarrow>
     fl_confidence_lower f \<ge> 0 \<and> fl_confidence_upper f \<le> 1 \<and>
     fl_confidence_lower f \<le> fl_confidence_score f \<and> fl_confidence_score f \<le> fl_confidence_upper f"

definition validate_flag_confidence :: "rat \<Rightarrow> py_error + rat" where
  "validate_flag_confidence v =
     (if \<not> (0 \<le> v \<and> v \<le> 1) then Inl (ValueError ''flag confidence values must be between 0 and 1 inclusive'')
      else Inr v)"

record flag_telemetry_event =
  fte_flag_id :: uuid
  fte_telemetry_event_id :: uuid
  fte_position :: int

record evidence_artifact =
  ea_id :: uuid
  ea_flag_id :: uuid
  ea_kind :: evidence_kind
  ea_storage_uri :: string
  ea_content_sha256 :: string
  ea_media_type :: string
  ea_byte_size :: int
  ea_capture_started_at :: timestamp
  ea_capture_ended_at :: "timestamp option"
  ea_retention_expires_at :: timestamp
  ea_encryption_key_reference :: "string option"
  ea_sealed_at :: "timestamp option"
  ea_created_at :: timestamp

definition evidence_artifact_checks :: "evidence_artifact \<Rightarrow> bool" where
  "evidence_artifact_checks a \<longleftrightarrow>
     ea_byte_size a \<ge> 0 \<and>
     after_opt (ea_capture_ended_at a) (Some (ea_capture_started_at a)) \<and>
     ea_retention_expires_at a \<ge> ea_capture_started_at a"

record termination_record =
  tr_id :: uuid
  tr_exam_session_id :: uuid
  tr_triggering_flag_id :: "uuid option"
  tr_reason :: string
  tr_client_delivery_status :: delivery_status
  tr_client_command_sent_at :: "timestamp option"
  tr_client_acknowledged_at :: "timestamp option"
  tr_lms_delivery_status :: delivery_status
  tr_lms_callback_sent_at :: "timestamp option"
  tr_lms_callback_completed_at :: "timestamp option"
  tr_evidence_sealed_at :: "timestamp option"
  tr_created_at :: timestamp

definition termination_record_checks :: "termination_record \<Rightarrow> bool" where
  "termination_record_checks t \<longleftrightarrow>
     after_opt (tr_client_acknowledged_at t) (tr_client_command_sent_at t) \<and>
     after_opt (tr_lms_callback_completed_at t) (tr_lms_callback_sent_at t)"

record proctor_review =
  pr_id :: uuid
  pr_flag_id :: uuid
  pr_reviewer_reference :: string
  pr_reviewer_admin_id :: "uuid option"
  pr_decision :: review_decision
  pr_notes :: "string option"
  pr_created_at :: timestamp

record identity_override =
  io_id :: uuid
  io_exam_session_id :: uuid
  io_requested_by_admin_id :: uuid
  io_department :: string
  io_reason :: string
  io_status :: override_request_status
  io_approved_by_admin_id :: "uuid option"
  io_valid_from :: timestamp
  io_valid_until :: timestamp
  io_decided_at :: "timestamp option"
  io_created_at :: timestamp

definition identity_override_checks :: "identity_override \<Rightarrow> bool" where
  "identity_override_checks o' \<longleftrightarrow> io_valid_until o' > io_valid_from o'"

section \<open>The database\<close>

record database =
  db_admin_users :: "admin_user list"
  db_admin_role_audits :: "admin_role_audit list"
  db_participants :: "participant list"
  db_policy_configs :: "policy_config list"
  db_exam_sessions :: "exam_session list"
  db_accommodation_exemptions :: "accommodation_exemption list"
  db_telemetry_events :: "telemetry_event list"
  db_flags :: "flag list"
  db_flag_telemetry_events :: "flag_telemetry_event list"
  db_evidence_artifacts :: "evidence_artifact list"
  db_termination_records :: "termination_record list"
  db_proctor_reviews :: "proctor_review list"
  db_identity_overrides :: "identity_override list"

definition empty_database :: database where
  "empty_database = \<lparr> db_admin_users = [], db_admin_role_audits = [], db_participants = [],
     db_policy_configs = [], db_exam_sessions = [], db_accommodation_exemptions = [],
     db_telemetry_events = [], db_flags = [], db_flag_telemetry_events = [],
     db_evidence_artifacts = [], db_termination_records = [], db_proctor_reviews = [],
     db_identity_overrides = [] \<rparr>"

text \<open>A foreign key column: the target's key is among \<open>keys\<close>.\<close>

definition fk :: "('r \<Rightarrow> 'k) \<Rightarrow> 'r list \<Rightarrow> 'k list \<Rightarrow> bool" where
  "fk col rows keys \<longleftrightarrow> list_all (\<lambda>r. col r \<in> set keys) rows"

definition fk_opt :: "('r \<Rightarrow> 'k option) \<Rightarrow> 'r list \<Rightarrow> 'k list \<Rightarrow> bool" where
  "fk_opt col rows keys \<longleftrightarrow> list_all (\<lambda>r. case col r of None \<Rightarrow> True | Some k \<Rightarrow> k \<in> set keys) rows"

definition keys_ok :: "database \<Rightarrow> bool" where
  "keys_ok d \<longleftrightarrow>
     distinct (map au_id (db_admin_users d)) \<and>
     distinct (map (\<lambda>a. (au_lti_issuer a, au_lms_user_reference a)) (db_admin_users d)) \<and>
     distinct (map ara_id (db_admin_role_audits d)) \<and>
     distinct (map pt_id (db_participants d)) \<and>
     distinct (map (\<lambda>p. (pt_lti_issuer p, pt_lms_user_reference p)) (db_participants d)) \<and>
     distinct (map pc_id (db_policy_configs d)) \<and>
     distinct (map pc_name (filter policy_is_current (db_policy_configs d))) \<and>
     distinct (map es_id (db_exam_sessions d)) \<and>
     distinct (map es_attempt_reference (db_exam_sessions d)) \<and>
     distinct (map ae_id (db_accommodation_exemptions d)) \<and>
     distinct (map te_id (db_telemetry_events d)) \<and>
     distinct (map fl_id (db_flags d)) \<and>
     distinct (map (\<lambda>l. (fte_flag_id l, fte_telemetry_event_id l)) (db_flag_telemetry_events d)) \<and>
     distinct (map ea_id (db_evidence_artifacts d)) \<and>
     distinct (map ea_flag_id (db_evidence_artifacts d)) \<and>
     distinct (map ea_storage_uri (db_evidence_artifacts d)) \<and>
     distinct (map tr_id (db_termination_records d)) \<and>
     distinct (map tr_exam_session_id (db_termination_records d)) \<and>
     distinct (map pr_id (db_proctor_reviews d)) \<and>
     distinct (map io_id (db_identity_overrides d))"

definition refs_ok :: "database \<Rightarrow> bool" where
  "refs_ok d \<longleftrightarrow>
     (let admins = map au_id (db_admin_users d); parts = map pt_id (db_participants d);
          sessions = map es_id (db_exam_sessions d); policies = map pc_id (db_policy_configs d);
          flags = map fl_id (db_flags d); events = map te_id (db_telemetry_events d);
          exemptions = map ae_id (db_accommodation_exemptions d) in
     fk ara_target_admin_id (db_admin_role_audits d) admins \<and>
     fk ara_changed_by_admin_id (db_admin_role_audits d) admins \<and>
     fk_opt pc_created_by_id (db_policy_configs d) admins \<and>
     fk es_participant_id (db_exam_sessions d) parts \<and>
     fk es_policy_config_id (db_exam_sessions d) policies \<and>
     fk ae_participant_id (db_accommodation_exemptions d) parts \<and>
     fk_opt ae_approved_by_admin_id (db_accommodation_exemptions d) admins \<and>
     fk te_exam_session_id (db_telemetry_events d) sessions \<and>
     fk fl_exam_session_id (db_flags d) sessions \<and>
     fk fl_policy_config_id (db_flags d) policies \<and>
     fk_opt fl_suppressed_by_exemption_id (db_flags d) exemptions \<and>
     fk fte_flag_id (db_flag_telemetry_events d) flags \<and>
     fk fte_telemetry_event_id (db_flag_telemetry_events d) events \<and>
     fk ea_flag_id (db_evidence_artifacts d) flags \<and>
     fk tr_exam_session_id (db_termination_records d) sessions \<and>
     fk_opt tr_triggering_flag_id (db_termination_records d) flags \<and>
     fk pr_flag_id (db_proctor_reviews d) flags \<and>
     fk_opt pr_reviewer_admin_id (db_proctor_reviews d) admins \<and>
     fk io_exam_session_id (db_identity_overrides d) sessions \<and>
     fk io_requested_by_admin_id (db_identity_overrides d) admins \<and>
     fk_opt io_approved_by_admin_id (db_identity_overrides d) admins)"

definition checks_ok :: "database \<Rightarrow> bool" where
  "checks_ok d \<longleftrightarrow>
     list_all policy_config_checks (db_policy_configs d) \<and>
     list_all exam_session_checks (db_exam_sessions d) \<and>
     list_all accommodation_exemption_checks (db_accommodation_exemptions d) \<and>
     list_all telemetry_event_checks (db_telemetry_events d) \<and>
     list_all flag_checks (db_flags d) \<and>
     list_all (\<lambda>l. fte_position l \<ge> 0) (db_flag_telemetry_events d) \<and>
     list_all evidence_artifact_checks (db_evidence_artifacts d) \<and>
     list_all termination_record_checks (db_termination_records d) \<and>
     list_all identity_override_checks (db_identity_overrides d)"

definition db_ok :: "database \<Rightarrow> bool" where
  "db_ok d \<longleftrightarrow> keys_ok d \<and> refs_ok d \<and> checks_ok d"

lemma empty_database_ok: "db_ok empty_database"
  by (simp add: db_ok_def keys_ok_def refs_ok_def checks_ok_def empty_database_def fk_def fk_opt_def)

section \<open>Sessions and transactions\<close>

datatype db_error = IntegrityError | ImmutableRecordError string

record db_session =
  committed :: database
  working :: database

definition open_session :: "database \<Rightarrow> db_session" where
  "open_session d = \<lparr> committed = d, working = d \<rparr>"

definition flush :: "db_session \<Rightarrow> db_error + unit" where
  "flush s = (if db_ok (working s) then Inr () else Inl IntegrityError)"

definition commit :: "db_session \<Rightarrow> db_error + db_session" where
  "commit s = (if db_ok (working s) then Inr \<lparr> committed = working s, working = working s \<rparr>
               else Inl IntegrityError)"

definition rollback :: "db_session \<Rightarrow> db_session" where
  "rollback s = \<lparr> committed = committed s, working = committed s \<rparr>"

text \<open>The event listeners on \<^verbatim>\<open>before_update\<close> and \<^verbatim>\<open>before_delete\<close> of the append-only
  classes: a flush that would write such a change raises instead.\<close>

definition reject_termination_record_update :: "termination_record \<Rightarrow> db_error" where
  "reject_termination_record_update _ = ImmutableRecordError ''termination records are immutable''"

definition reject_termination_record_delete :: "termination_record \<Rightarrow> db_error" where
  "reject_termination_record_delete _ = ImmutableRecordError ''termination records are immutable''"

definition reject_flag_update :: "flag \<Rightarrow> db_error" where
  "reject_flag_update _ = ImmutableRecordError ''flag records are immutable''"

definition reject_flag_delete :: "flag \<Rightarrow> db_error" where
  "reject_flag_delete _ = ImmutableRecordError ''flag records are immutable''"

lemma commit_Inr: "commit s = Inr s' \<Longrightarrow> committed s' = working s \<and> working s' = working s \<and> db_ok (committed s')"
  by (auto simp: commit_def split: if_splits)

lemma rollback_sel [simp]: "committed (rollback s) = committed s" "working (rollback s) = committed s"
  by (simp_all add: rollback_def)

lemma open_session_sel [simp]: "committed (open_session d) = d" "working (open_session d) = d"
  by (simp_all add: open_session_def)

text \<open>\<^verbatim>\<open>db.get\<close>: the row with the given primary key.\<close>

definition get_row :: "('r \<Rightarrow> uuid) \<Rightarrow> uuid \<Rightarrow> 'r list \<Rightarrow> 'r option" where
  "get_row key k rows = find (\<lambda>r. key r = k) rows"

lemma get_row_Some: "get_row key k rows = Some r \<Longrightarrow> r \<in> set rows \<and> key r = k"
  by (auto simp: get_row_def find_Some_iff)

lemma get_row_None: "get_row key k rows = None \<longleftrightarrow> k \<notin> key ` set rows"
  by (auto simp: get_row_def find_None_iff)

text \<open>Assignment to a loaded row: the row with the key is replaced.\<close>

definition update_row :: "('r \<Rightarrow> uuid) \<Rightarrow> uuid \<Rightarrow> ('r \<Rightarrow> 'r) \<Rightarrow> 'r list \<Rightarrow> 'r list" where
  "update_row key k f rows = map (\<lambda>r. if key r = k then f r else r) rows"

lemma length_update_row [simp]: "length (update_row key k f rows) = length rows"
  by (simp add: update_row_def)

lemma map_update_row:
  "(\<And>r. g (f r) = g r) \<Longrightarrow> map g (update_row key k f rows) = map g rows"
  by (simp add: update_row_def)

lemma get_row_update:
  "(\<And>r. key (f r) = key r) \<Longrightarrow> get_row key k (update_row key k' f rows)
     = (if k = k' then map_option f (get_row key k rows) else get_row key k rows)"
  by (induction rows) (auto simp: get_row_def update_row_def)

lemma list_all_update_row:
  "list_all P rows \<Longrightarrow> (\<And>r. r \<in> set rows \<Longrightarrow> P r \<Longrightarrow> P (f r)) \<Longrightarrow> list_all P (update_row key k f rows)"
  by (auto simp: list_all_iff update_row_def)

lemma fk_update_row:
  "(\<And>r. col (f r) = col r) \<Longrightarrow> fk col (update_row key k f rows) ks = fk col rows ks"
  by (simp add: fk_def update_row_def list.pred_map comp_def if_distrib cong: if_cong)

lemma fk_opt_update_row:
  "(\<And>r. col (f r) = col r) \<Longrightarrow> fk_opt col (update_row key k f rows) ks = fk_opt col rows ks"
  by (simp add: fk_opt_def update_row_def list.pred_map comp_def if_distrib cong: if_cong)

text \<open>An assignment to non-key columns of a session keeps the database consistent when the row
  still satisfies the table's check constraints.\<close>

lemma db_ok_update_session:
  assumes "db_ok d"
    and "\<And>s. es_id (f s) = es_id s" "\<And>s. es_participant_id (f s) = es_participant_id s"
      "\<And>s. es_policy_config_id (f s) = es_policy_config_id s"
      "\<And>s. es_attempt_reference (f s) = es_attempt_reference s"
    and "\<And>s. s \<in> set (db_exam_sessions d) \<Longrightarrow> exam_session_checks s \<Longrightarrow> exam_session_checks (f s)"
  shows "db_ok (d\<lparr> db_exam_sessions := update_row es_id k f (db_exam_sessions d) \<rparr>)"
proof -
  have "keys_ok (d\<lparr> db_exam_sessions := update_row es_id k f (db_exam_sessions d) \<rparr>)"
    using assms(1) by (simp add: db_ok_def keys_ok_def map_update_row assms(2-5))
  moreover have "refs_ok (d\<lparr> db_exam_sessions := update_row es_id k f (db_exam_sessions d) \<rparr>)"
    using assms(1) by (simp add: db_ok_def refs_ok_def Let_def map_update_row fk_update_row assms(2-5))
  moreover have "checks_ok (d\<lparr> db_exam_sessions := update_row es_id k f (db_exam_sessions d) \<rparr>)"
    using assms(1) by (simp add: db_ok_def checks_ok_def list_all_update_row assms(6))
  ultimately show ?thesis by (simp add: db_ok_def)
qed

section \<open>Validators agree with the table constraints\<close>

lemma validate_confidence_checks:
  "is_Inr (validate_confidence (te_confidence e)) \<longleftrightarrow> telemetry_event_checks e"
  by (simp add: validate_confidence_def telemetry_event_checks_def)

lemma validate_score_checks:
  "is_Inr (validate_accumulated_medium_score (es_accumulated_medium_score s)) \<longleftrightarrow> 0 \<le> es_accumulated_medium_score s"
  by (simp add: validate_accumulated_medium_score_def)

lemma validate_embedding_values:
  "validate_embedding vs = Inr qs \<Longrightarrow> qs \<noteq> [] \<and> length qs = length vs \<and> map Some qs = map finite_number vs"
  by (auto simp: validate_embedding_def list_ex_iff split: if_splits)

lemma strip_idem: "strip (strip s) = strip s"
proof -
  have d: "dropWhile is_space (dropWhile is_space xs) = dropWhile is_space xs" for xs
    by (induction xs) simp_all
  define t where "t = dropWhile is_space s"
  have t: "t = [] \<or> \<not> is_space (hd t)" unfolding t_def by (metis hd_dropWhile)
  show ?thesis
  proof (cases "dropWhile is_space (rev t) = []")
    case True
    then have "strip s = []" by (simp only: strip_def t_def rev.simps(1))
    then show ?thesis by (simp only: \<open>strip s = []\<close>) (simp add: strip_def)
  next
    case False
    then have ne: "t \<noteq> []" by auto
    with t have h: "\<not> is_space (hd t)" by simp
    have "\<exists>a. rev t = a @ dropWhile is_space (rev t)" by (metis takeWhile_dropWhile_id)
    then obtain a where "t = rev (dropWhile is_space (rev t)) @ rev a" by (metis rev_append rev_rev_ident)
    then have "hd t = hd (rev (dropWhile is_space (rev t)))" using False by (metis hd_append2 rev_is_Nil_conv)
    with h have "\<not> is_space (hd (rev (dropWhile is_space (rev t))))" by simp
    then have "dropWhile is_space (rev (dropWhile is_space (rev t))) = rev (dropWhile is_space (rev t))"
      using False by (metis dropWhile_eq_self_iff)
    then show ?thesis by (simp add: strip_def d flip: t_def)
  qed
qed

end
