(* ===== verification/DemoData.thy ===== *)
theory DemoData
  imports DataModel
begin

text \<open>
  A small consistent database on which the properties of the persistence services are
  applied: one participant, one policy with the default thresholds, one active session,
  three telemetry events, an exemption, and three administrators.
\<close>

definition demo_participant :: participant where
  "demo_participant = \<lparr> pt_id = 2, pt_lti_issuer = ''iss'', pt_lms_user_reference = ''student'',
     pt_display_name = None, pt_consent_recorded_at = Some 5, pt_consent_notice_version = None,
     pt_created_at = 1 \<rparr>"

definition demo_policy :: policy_config where
  "demo_policy = \<lparr> pc_id = 3, pc_name = ''default'', pc_version = 1, pc_is_active = True,
     pc_termination_severity = FS_CRITICAL, pc_terminate_on_second_face = True,
     pc_second_face_confirmation_frames = 3, pc_gaze_min_duration_ms = 800,
     pc_gaze_window_seconds = 300, pc_gaze_warning_limit = 3, pc_gaze_termination_limit = 8,
     pc_medium_score_termination_threshold = 10, pc_medium_score_action = AUTO_TERMINATE,
     pc_liveness_check_enabled = False, pc_liveness_check_action = None,
     pc_liveness_score_threshold = 1/2, pc_liveness_confirmation_frames = 3,
     pc_identity_similarity_threshold = 3/5, pc_identity_confirmation_frames = 3,
     pc_audio_noise_floor_dbfs = - 30, pc_audio_speech_ratio_threshold = 3/10,
     pc_extra_rules = [], pc_created_at = 1, pc_retired_at = None, pc_created_by_id = Some 20 \<rparr>"

definition demo_session :: exam_session where
  "demo_session = \<lparr> es_id = 1, es_participant_id = 2, es_policy_config_id = 3,
     es_lti_issuer = ''iss'', es_lti_context_id = ''ctx'', es_exam_reference = ''exam'',
     es_attempt_reference = ''attempt'', es_status = SS_ACTIVE,
     es_allowed_reference_materials = CLOSED_BOOK, es_permitted_material_details = [],
     es_consent_recorded_at = Some 5, es_retention_expires_at = Some 1000,
     es_accumulated_medium_score = 2, es_identity_verification_status = IV_PENDING_CHECK,
     es_started_at = Some 10, es_ended_at = None, es_created_at = 1 \<rparr>"

definition demo_event :: "uuid \<Rightarrow> telemetry_event" where
  "demo_event i = \<lparr> te_id = i, te_exam_session_id = 1, te_modality = TM_FACE,
     te_event_type = ''one_face'', te_occurred_at = 11, te_received_at = 12, te_confidence = 1,
     te_raw_value = [], te_bounding_boxes = [], te_correlation_id = None \<rparr>"

definition demo_exemption :: accommodation_exemption where
  "demo_exemption = \<lparr> ae_id = 9, ae_participant_id = 2, ae_exam_reference = ''exam'',
     ae_object_class = ''cell phone'', ae_approved_by = ''head'', ae_approved_by_admin_id = Some 21,
     ae_approval_reason = ''medical'', ae_effective_at = 0, ae_expires_at = None, ae_created_at = 1 \<rparr>"

definition demo_admin :: "uuid \<Rightarrow> string \<Rightarrow> admin_role \<Rightarrow> admin_user" where
  "demo_admin i ref role = \<lparr> au_id = i, au_lti_issuer = ''iss'', au_lms_user_reference = ref,
     au_display_name = None, au_role = role, au_department = Some ''cs'', au_created_at = 1,
     au_retired_at = None \<rparr>"

definition demo_flag :: flag where
  "demo_flag = \<lparr> fl_id = 40, fl_exam_session_id = 1, fl_policy_config_id = 3,
     fl_rule_code = ''second_person'', fl_severity = FS_CRITICAL, fl_status = FST_RAISED,
     fl_confidence_score = 1, fl_confidence_lower = 1, fl_confidence_upper = 1,
     fl_triggered_termination = True, fl_suppressed_by_exemption_id = None, fl_detail = [],
     fl_created_at = 13, fl_resolved_at = None \<rparr>"

definition demo_db :: database where
  "demo_db = empty_database
     \<lparr> db_admin_users := [demo_admin 20 ''admin'' AR_ADMIN, demo_admin 21 ''head'' AR_HEAD,
                         demo_admin 22 ''proctor'' AR_PROCTOR],
       db_participants := [demo_participant],
       db_policy_configs := [demo_policy],
       db_exam_sessions := [demo_session],
       db_accommodation_exemptions := [demo_exemption],
       db_telemetry_events := [demo_event 10, demo_event 11, demo_event 12],
       db_flags := [demo_flag] \<rparr>"

lemma demo_db_ok: "db_ok demo_db"
  by code_simp

end
