(* ===== verification/StateMachine.thy ===== *)
theory StateMachine
  imports DemoData
begin

text \<open>
  The session lifecycle (\<^verbatim>\<open>orchestration/_state_machine.py\<close>): the transition table, the
  guard, and \<open>apply_transition\<close>, which asserts before it mutates and then commits.  The step
  relation \<open>moves\<close> is the documented table as a relation on statuses; \<open>attempts\<close> runs a sequence
  of \<open>apply_transition\<close> on one session.
\<close>

section \<open>The table\<close>

fun allowed_targets :: "session_status \<Rightarrow> session_status list" where
  "allowed_targets SS_PENDING = [SS_ACTIVE, SS_TERMINATED]"
| "allowed_targets SS_ACTIVE = [SS_COMPLETED, SS_TERMINATED, SS_UNDER_REVIEW]"
| "allowed_targets SS_COMPLETED = [SS_UNDER_REVIEW]"
| "allowed_targets SS_TERMINATED = [SS_UNDER_REVIEW, SS_REINSTATED]"
| "allowed_targets SS_REINSTATED = [SS_UNDER_REVIEW]"
| "allowed_targets SS_UNDER_REVIEW = []"

definition can_transition :: "session_status \<Rightarrow> session_status \<Rightarrow> bool" where
  "can_transition current target = List.member (allowed_targets current) target"

datatype transition_error =
    InvalidSessionTransition session_status session_status
  | TransitionDbError db_error

definition assert_transition :: "session_status \<Rightarrow> session_status \<Rightarrow> transition_error + unit" where
  "assert_transition current target =
     (if \<not> can_transition current target then Inl (InvalidSessionTransition current target) else Inr ())"

text \<open>\<^verbatim>\<open>exam_session.status\<close> is read from the loaded row of the working database.\<close>

definition set_status :: "uuid \<Rightarrow> session_status \<Rightarrow> database \<Rightarrow> database" where
  "set_status sid target d =
     d\<lparr> db_exam_sessions := update_row es_id sid (\<lambda>s. s\<lparr> es_status := target \<rparr>) (db_exam_sessions d) \<rparr>"

definition apply_transition ::
  "exam_session \<Rightarrow> session_status \<Rightarrow> db_session \<Rightarrow> db_session \<times> (transition_error + unit)" where
  "apply_transition es target db =
     (case assert_transition (es_status es) target of
        Inl e \<Rightarrow> (db, Inl e)
      | Inr _ \<Rightarrow>
          let db1 = db\<lparr> working := set_status (es_id es) target (working db) \<rparr> in
          (case commit db1 of
             Inl e \<Rightarrow> (db1, Inl (TransitionDbError e))
           | Inr db2 \<Rightarrow> (db2, Inr ())))"

section \<open>The relation\<close>

inductive moves :: "session_status \<Rightarrow> session_status \<Rightarrow> bool" where
  activate: "moves SS_PENDING SS_ACTIVE"
| abort: "moves SS_PENDING SS_TERMINATED"
| complete: "moves SS_ACTIVE SS_COMPLETED"
| terminate: "moves SS_ACTIVE SS_TERMINATED"
| review_active: "moves SS_ACTIVE SS_UNDER_REVIEW"
| review_completed: "moves SS_COMPLETED SS_UNDER_REVIEW"
| review_terminated: "moves SS_TERMINATED SS_UNDER_REVIEW"
| reinstate: "moves SS_TERMINATED SS_REINSTATED"
| review_reinstated: "moves SS_REINSTATED SS_UNDER_REVIEW"

code_pred moves .


lemma can_transition_moves: "can_transition s t \<longleftrightarrow> moves s t"
  by (cases s; cases t) (auto simp: can_transition_def intro: moves.intros elim: moves.cases)

lemma assert_transition_moves:
  "assert_transition s t = (if moves s t then Inr () else Inl (InvalidSessionTransition s t))"
  by (simp add: assert_transition_def can_transition_moves)






section \<open>One transition\<close>

lemma set_status_other_tables:
  "db_admin_users (set_status sid t d) = db_admin_users d"
  "db_flags (set_status sid t d) = db_flags d"
  "db_termination_records (set_status sid t d) = db_termination_records d"
  by (simp_all add: set_status_def)

lemma set_status_ok: "db_ok d \<Longrightarrow> db_ok (set_status sid t d)"
  unfolding set_status_def by (rule db_ok_update_session) (simp_all add: exam_session_checks_def)

text \<open>\<open>apply_transition\<close> on a consistent database: a rejected move leaves the session of the
  database untouched; an accepted one commits, and afterwards exactly the status of that
  session has changed.\<close>

theorem apply_transition_outcome:
  assumes "db_ok (working db)"
  shows "if moves (es_status es) t
    then snd (apply_transition es t db) = Inr () \<and>
         committed (fst (apply_transition es t db)) = set_status (es_id es) t (working db)
    else snd (apply_transition es t db) = Inl (InvalidSessionTransition (es_status es) t) \<and>
         fst (apply_transition es t db) = db"
  using assms by (simp add: apply_transition_def assert_transition_moves commit_def set_status_ok Let_def)

theorem apply_transition_outcome_witness:
  "map es_status (db_exam_sessions (committed
     (fst (apply_transition demo_session SS_TERMINATED (open_session demo_db))))) = [SS_TERMINATED]
   \<and> fst (apply_transition demo_session SS_PENDING (open_session demo_db)) = open_session demo_db"
proof -
  have ok: "db_ok (working (open_session demo_db))" by (simp add: demo_db_ok)
  have "moves SS_ACTIVE SS_TERMINATED" "\<not> moves SS_ACTIVE SS_PENDING"
    by (auto intro: moves.intros elim: moves.cases)
  with apply_transition_outcome[OF ok, of demo_session SS_TERMINATED]
    apply_transition_outcome[OF ok, of demo_session SS_PENDING]
  show ?thesis by (simp add: demo_session_def set_status_def update_row_def demo_db_def)
qed

section \<open>A session's life\<close>








section \<open>Properties\<close>



end
