(* ===== verification/ClientMessages.thy ===== *)
theory ClientMessages
  imports Enums
begin

text \<open>
  The client-to-server envelopes (\<^verbatim>\<open>websocket/client.py\<close>).  The payload classes are records
  and their \<^verbatim>\<open>Field\<close> bounds and field validators are the \<open>check_\<close> predicates.  What pydantic
  itself does (required fields, types and coercions, forbidden extra fields) is the
  parameter \<open>decode\<close> of \<open>parse_client_message\<close>: it reads a raw object as the message class
  chosen by the \<^verbatim>\<open>type\<close> field, or fails; the bounds are then checked on its result.
\<close>

section \<open>Constants\<close>

definition VALID_SAMPLE_RATES :: "int list" where "VALID_SAMPLE_RATES = [8000, 16000, 32000, 48000]"
definition VALID_FRAME_DURATIONS :: "int list" where "VALID_FRAME_DURATIONS = [10, 20, 30]"
definition VALID_BROWSER_EVENTS :: "string list" where
  "VALID_BROWSER_EVENTS =
     [''visibilitychange'', ''blur'', ''focus'', ''fullscreenchange'', ''copy'', ''paste'', ''contextmenu'']"
definition VALID_FRAME_ENCODINGS :: "string list" where
  "VALID_FRAME_ENCODINGS = [''jpeg'', ''png'', ''webp'']"

datatype client_message_type = TELEMETRY_LIGHT | TELEMETRY_HEAVY_FRAME | AUDIO_CHUNK | BROWSER_EVENT
  | KILL_SWITCH_ACK

fun client_message_type_value :: "client_message_type \<Rightarrow> string" where
  "client_message_type_value TELEMETRY_LIGHT = ''telemetry_light''"
| "client_message_type_value TELEMETRY_HEAVY_FRAME = ''telemetry_heavy_frame''"
| "client_message_type_value AUDIO_CHUNK = ''audio_chunk''"
| "client_message_type_value BROWSER_EVENT = ''browser_event''"
| "client_message_type_value KILL_SWITCH_ACK = ''kill_switch_ack''"

section \<open>Payloads\<close>

record telemetry_light_payload =
  tlp_face_count :: int
  tlp_confidence :: rat
  tlp_bbox :: "rat list option"

definition bbox_values_normalised :: "rat list option \<Rightarrow> bool" where
  "bbox_values_normalised v = (case v of None \<Rightarrow> True | Some cs \<Rightarrow> list_all (\<lambda>c. 0 \<le> c \<and> c \<le> 1) cs)"

definition check_telemetry_light :: "telemetry_light_payload \<Rightarrow> bool" where
  "check_telemetry_light p \<longleftrightarrow>
     tlp_face_count p \<ge> 0 \<and> 0 \<le> tlp_confidence p \<and> tlp_confidence p \<le> 1 \<and>
     (case tlp_bbox p of None \<Rightarrow> True | Some cs \<Rightarrow> length cs = 4) \<and>
     bbox_values_normalised (tlp_bbox p)"

record telemetry_heavy_frame_payload =
  thp_frame :: string
  thp_resolution :: "int list"
  thp_encoding :: string

definition check_telemetry_heavy_frame :: "telemetry_heavy_frame_payload \<Rightarrow> bool" where
  "check_telemetry_heavy_frame p \<longleftrightarrow>
     length (thp_frame p) \<ge> 1 \<and>
     length (thp_resolution p) = 2 \<and>
     thp_resolution p ! 0 > 0 \<and> thp_resolution p ! 1 > 0 \<and>
     List.member VALID_FRAME_ENCODINGS (thp_encoding p)"

record telemetry_audio_chunk_payload =
  tap_audio :: string
  tap_sample_rate_hz :: int
  tap_duration_ms :: int

definition check_telemetry_audio_chunk :: "telemetry_audio_chunk_payload \<Rightarrow> bool" where
  "check_telemetry_audio_chunk p \<longleftrightarrow>
     length (tap_audio p) \<ge> 1 \<and>
     List.member VALID_SAMPLE_RATES (tap_sample_rate_hz p) \<and>
     List.member VALID_FRAME_DURATIONS (tap_duration_ms p)"

record telemetry_browser_event_payload =
  tbp_event_type :: string
  tbp_detail :: jdict

definition check_telemetry_browser_event :: "telemetry_browser_event_payload \<Rightarrow> bool" where
  "check_telemetry_browser_event p = List.member VALID_BROWSER_EVENTS (tbp_event_type p)"

record kill_switch_acknowledge_payload =
  kap_flag_id :: string
  kap_answered_questions :: "int option"

definition check_kill_switch_acknowledge :: "kill_switch_acknowledge_payload \<Rightarrow> bool" where
  "check_kill_switch_acknowledge p \<longleftrightarrow>
     length (kap_flag_id p) \<ge> 1 \<and>
     (case kap_answered_questions p of None \<Rightarrow> True | Some n \<Rightarrow> n \<ge> 0)"

section \<open>Envelopes\<close>

record client_envelope =
  ce_session_id :: string
  ce_captured_at :: timestamp

datatype client_message =
    TelemetryLight client_envelope telemetry_light_payload
  | TelemetryHeavyFrame client_envelope telemetry_heavy_frame_payload
  | TelemetryAudioChunk client_envelope telemetry_audio_chunk_payload
  | TelemetryBrowserEvent client_envelope telemetry_browser_event_payload
  | KillSwitchAcknowledge client_envelope kill_switch_acknowledge_payload

fun envelope :: "client_message \<Rightarrow> client_envelope" where
  "envelope (TelemetryLight e _) = e"
| "envelope (TelemetryHeavyFrame e _) = e"
| "envelope (TelemetryAudioChunk e _) = e"
| "envelope (TelemetryBrowserEvent e _) = e"
| "envelope (KillSwitchAcknowledge e _) = e"

fun message_type :: "client_message \<Rightarrow> client_message_type" where
  "message_type (TelemetryLight _ _) = TELEMETRY_LIGHT"
| "message_type (TelemetryHeavyFrame _ _) = TELEMETRY_HEAVY_FRAME"
| "message_type (TelemetryAudioChunk _ _) = AUDIO_CHUNK"
| "message_type (TelemetryBrowserEvent _ _) = BROWSER_EVENT"
| "message_type (KillSwitchAcknowledge _ _) = KILL_SWITCH_ACK"

definition check_envelope :: "client_envelope \<Rightarrow> bool" where
  "check_envelope e \<longleftrightarrow> length (ce_session_id e) \<ge> 1"

fun check_message :: "client_message \<Rightarrow> bool" where
  "check_message (TelemetryLight e p) = (check_envelope e \<and> check_telemetry_light p)"
| "check_message (TelemetryHeavyFrame e p) = (check_envelope e \<and> check_telemetry_heavy_frame p)"
| "check_message (TelemetryAudioChunk e p) = (check_envelope e \<and> check_telemetry_audio_chunk p)"
| "check_message (TelemetryBrowserEvent e p) = (check_envelope e \<and> check_telemetry_browser_event p)"
| "check_message (KillSwitchAcknowledge e p) = (check_envelope e \<and> check_kill_switch_acknowledge p)"

section \<open>Parser\<close>

text \<open>A \<^verbatim>\<open>type\<close> that is a list or an object is not hashable, so the lookup in the table raises
  \<^verbatim>\<open>TypeError\<close>, which is not an envelope error.\<close>

datatype parse_error = EnvelopeValidationError string | UnhashableType

definition TYPE_TO_MODEL :: "(string \<times> client_message_type) list" where
  "TYPE_TO_MODEL = map (\<lambda>t. (client_message_type_value t, t))
     [TELEMETRY_LIGHT, TELEMETRY_HEAVY_FRAME, AUDIO_CHUNK, BROWSER_EVENT, KILL_SWITCH_ACK]"

definition parse_client_message ::
  "(client_message_type \<Rightarrow> jdict \<Rightarrow> client_message option) \<Rightarrow> jdict \<Rightarrow> parse_error + client_message" where
  "parse_client_message decode raw =
     (case dict_get raw ''type'' JNull of
        JNull \<Rightarrow> Inl (EnvelopeValidationError ''missing type'')
      | JList _ \<Rightarrow> Inl UnhashableType
      | JDict _ \<Rightarrow> Inl UnhashableType
      | JStr s \<Rightarrow>
          (case map_of TYPE_TO_MODEL s of
             None \<Rightarrow> Inl (EnvelopeValidationError ''unknown type'')
           | Some t \<Rightarrow>
               (case decode t raw of
                  None \<Rightarrow> Inl (EnvelopeValidationError ''validation failed'')
                | Some msg \<Rightarrow>
                    if check_message msg then Inr msg
                    else Inl (EnvelopeValidationError ''validation failed'')))
      | _ \<Rightarrow> Inl (EnvelopeValidationError ''unknown type''))"

text \<open>What pydantic is relied on for: the class it instantiates is the one it was asked for.\<close>

definition decodes_as_asked :: "(client_message_type \<Rightarrow> jdict \<Rightarrow> client_message option) \<Rightarrow> bool" where
  "decodes_as_asked decode \<longleftrightarrow> (\<forall>t raw msg. decode t raw = Some msg \<longrightarrow> message_type msg = t)"

lemma parse_client_message_Inr:
  assumes "parse_client_message decode raw = Inr msg"
  obtains t where "map_of raw ''type'' = Some (JStr (client_message_type_value t))"
    "decode t raw = Some msg" "check_message msg"
proof -
  from assms obtain s t where st: "dict_get raw ''type'' JNull = JStr s" "map_of TYPE_TO_MODEL s = Some t"
      "decode t raw = Some msg" "check_message msg"
    by (auto simp: parse_client_message_def split: jval.splits option.splits if_splits)
  from st(2) have "s = client_message_type_value t"
    by (auto simp: TYPE_TO_MODEL_def split: if_splits)
  with st that show ?thesis by (auto simp: dict_get_def split: option.splits)
qed

text \<open>The shape of an accepted payload, read off the checks.\<close>

lemma accepted_audio_bytes:
  assumes "check_telemetry_audio_chunk p"
  shows "(tap_sample_rate_hz p * tap_duration_ms p) mod 1000 = 0"
    "80 \<le> tap_sample_rate_hz p * tap_duration_ms p div 1000"
    "tap_sample_rate_hz p * tap_duration_ms p div 1000 \<le> 1440"
  using assms
  by (auto simp: check_telemetry_audio_chunk_def VALID_SAMPLE_RATES_def VALID_FRAME_DURATIONS_def List.member_iff)

end
