(* ===== verification/WsServer.thy ===== *)
theory WsServer
  imports ClientMessages
begin

text \<open>
  The server side of the telemetry connection (\<^verbatim>\<open>websocket/server.py\<close>): the bounded event
  buffer between the socket handler and the dispatcher, and the delivery service with the
  acknowledgement counter and the kill-switch lifecycle.  The wall clock and the monotonic
  clock are read once per call and are arguments.
\<close>

section \<open>TelemetryEventBuffer\<close>

record buffered_event =
  be_message :: client_message
  be_received_at :: timestamp
  be_seq :: int
  be_synthetic_id :: "uuid option"

record telemetry_event_buffer =
  tb_maxlen :: nat
  tb_buf :: "buffered_event list"
  tb_seq :: int
  tb_dropped :: int

definition new_telemetry_event_buffer :: "int \<Rightarrow> py_error + telemetry_event_buffer" where
  "new_telemetry_event_buffer maxlen =
     (if maxlen \<le> 0 then Inl (ValueError ''Buffer maxlen must be positive.'')
      else Inr \<lparr> tb_maxlen = nat maxlen, tb_buf = [], tb_seq = 0, tb_dropped = 0 \<rparr>)"

text \<open>Appending to a full \<^verbatim>\<open>deque(maxlen=n)\<close> discards its leftmost element.\<close>

definition deque_append :: "nat \<Rightarrow> 'a list \<Rightarrow> 'a \<Rightarrow> 'a list" where
  "deque_append n xs x = (if length xs = n then tl (xs @ [x]) else xs @ [x])"

definition tb_push ::
  "timestamp \<Rightarrow> client_message \<Rightarrow> telemetry_event_buffer \<Rightarrow> telemetry_event_buffer \<times> buffered_event" where
  "tb_push now message b =
     (let was_full = length (tb_buf b) = tb_maxlen b;
          event = \<lparr> be_message = message, be_received_at = now, be_seq = tb_seq b, be_synthetic_id = None \<rparr>
      in (b\<lparr> tb_buf := deque_append (tb_maxlen b) (tb_buf b) event,
             tb_seq := tb_seq b + 1,
             tb_dropped := (if was_full then tb_dropped b + 1 else tb_dropped b) \<rparr>, event))"

definition tb_drain :: "telemetry_event_buffer \<Rightarrow> telemetry_event_buffer \<times> buffered_event list" where
  "tb_drain b = (b\<lparr> tb_buf := [] \<rparr>, tb_buf b)"

definition tb_len :: "telemetry_event_buffer \<Rightarrow> int" where
  "tb_len b = int (length (tb_buf b))"

section \<open>DeliveryService\<close>

record session_acknowledge_payload =
  sap_seq :: int
  sap_received_at :: timestamp

record kill_switch_payload =
  ksp_reason :: string
  ksp_flag_id :: string

datatype server_message =
    SessionAcknowledgeDeliver session_acknowledge_payload
  | KillSwitchDeliver kill_switch_payload
  | PolicyUpdateDeliver jdict

fun to_json_dict :: "server_message \<Rightarrow> jdict" where
  "to_json_dict (SessionAcknowledgeDeliver p) =
     [(''type'', JStr ''ack''),
      (''payload'', JDict [(''seq'', JInt (sap_seq p)), (''received_at'', JInt (sap_received_at p))])]"
| "to_json_dict (KillSwitchDeliver p) =
     [(''type'', JStr ''kill_switch''),
      (''payload'', JDict [(''reason'', JStr (ksp_reason p)), (''flag_id'', JStr (ksp_flag_id p))])]"
| "to_json_dict (PolicyUpdateDeliver updates) =
     [(''type'', JStr ''policy_update''), (''payload'', JDict [(''updates'', JDict updates)])]"

record pending_kill_switch =
  pk_flag_id :: string
  pk_sent_at :: rat
  pk_retries :: int

record delivery_service =
  ds_seq :: int
  ds_ack_grace :: rat
  ds_max_retries :: int
  ds_pending_kill :: "pending_kill_switch option"
  ds_kill_switch_acked :: bool

definition new_delivery_service :: "rat \<Rightarrow> int \<Rightarrow> delivery_service" where
  "new_delivery_service ack_grace_seconds max_retries =
     \<lparr> ds_seq = 0, ds_ack_grace = ack_grace_seconds, ds_max_retries = max_retries,
       ds_pending_kill = None, ds_kill_switch_acked = False \<rparr>"

definition has_pending_kill_switch :: "delivery_service \<Rightarrow> bool" where
  "has_pending_kill_switch s \<longleftrightarrow> ds_pending_kill s \<noteq> None \<and> \<not> ds_kill_switch_acked s"

definition next_ack :: "timestamp \<Rightarrow> delivery_service \<Rightarrow> delivery_service \<times> server_message" where
  "next_ack now s =
     (s\<lparr> ds_seq := ds_seq s + 1 \<rparr>,
      SessionAcknowledgeDeliver \<lparr> sap_seq = ds_seq s, sap_received_at = now \<rparr>)"

datatype delivery_error = KillSwitchDeliverError string | PayloadError string

text \<open>The pending record is registered before the message is built; the payload class refuses
  an empty flag id.\<close>

definition prepare_kill_switch ::
  "rat \<Rightarrow> string \<Rightarrow> string \<Rightarrow> delivery_service \<Rightarrow> delivery_service \<times> (delivery_error + server_message)" where
  "prepare_kill_switch monotonic flag_id reason s =
     (if ds_pending_kill s \<noteq> None \<and> \<not> ds_kill_switch_acked s
      then (s, Inl (KillSwitchDeliverError (pk_flag_id (the (ds_pending_kill s)))))
      else
        (s\<lparr> ds_pending_kill := Some \<lparr> pk_flag_id = flag_id, pk_sent_at = monotonic, pk_retries = 0 \<rparr>,
            ds_kill_switch_acked := False \<rparr>,
         if flag_id = [] then Inl (PayloadError ''flag_id'')
         else Inr (KillSwitchDeliver \<lparr> ksp_reason = reason, ksp_flag_id = flag_id \<rparr>)))"

definition record_kill_switch_ack :: "string \<Rightarrow> delivery_service \<Rightarrow> delivery_service \<times> bool" where
  "record_kill_switch_ack flag_id s =
     (case ds_pending_kill s of
        None \<Rightarrow> (s, False)
      | Some pk \<Rightarrow>
          if pk_flag_id pk \<noteq> flag_id then (s, False)
          else (s\<lparr> ds_kill_switch_acked := True \<rparr>, True))"

text \<open>The clock is read twice when a retry is due: for the elapsed time and for the new
  sending time.\<close>

definition should_retry_kill_switch ::
  "float_arith \<Rightarrow> rat \<Rightarrow> rat \<Rightarrow> delivery_service \<Rightarrow> delivery_service \<times> server_message option" where
  "should_retry_kill_switch fa monotonic1 monotonic2 s =
     (case ds_pending_kill s of
        None \<Rightarrow> (s, None)
      | Some pk \<Rightarrow>
          if ds_kill_switch_acked s then (s, None)
          else if f_sub fa monotonic1 (pk_sent_at pk) < ds_ack_grace s then (s, None)
          else if pk_retries pk \<ge> ds_max_retries s then (s, None)
          else
            (s\<lparr> ds_pending_kill := Some (pk\<lparr> pk_retries := pk_retries pk + 1, pk_sent_at := monotonic2 \<rparr>) \<rparr>,
             Some (KillSwitchDeliver \<lparr> ksp_reason = ''retry'', ksp_flag_id = pk_flag_id pk \<rparr>)))"

section \<open>Sequences of buffer operations\<close>

text \<open>The deque of capacity \<open>n\<close> is a bounded window.\<close>

lemma deque_append_lastn:
  "length xs \<le> n \<Longrightarrow> deque_append n xs x = lastn n (xs @ [x])"
  by (cases "length xs = n") (simp_all add: deque_append_def lastn_def drop_Suc del: drop_append)

interpretation dq: bounded_window "deque_append n" "\<lambda>xs. xs" "\<lambda>xs. length xs \<le> n" n
  for n :: nat
  by unfold_locales (simp_all add: deque_append_lastn)

datatype buffer_op = Push timestamp client_message | Drain

text \<open>Running operations, with the events handed to the consumer.\<close>

fun buffer_step :: "buffer_op \<Rightarrow> telemetry_event_buffer \<times> buffered_event list
    \<Rightarrow> telemetry_event_buffer \<times> buffered_event list" where
  "buffer_step (Push now msg) (b, out) = (fst (tb_push now msg b), out)"
| "buffer_step Drain (b, out) = (fst (tb_drain b), out @ snd (tb_drain b))"

definition buffer_run :: "nat \<Rightarrow> buffer_op list \<Rightarrow> telemetry_event_buffer \<times> buffered_event list" where
  "buffer_run n ops =
     foldl (\<lambda>s op. buffer_step op s)
       (\<lparr> tb_maxlen = n, tb_buf = [], tb_seq = 0, tb_dropped = 0 \<rparr>, []) ops"

definition pushes :: "buffer_op list \<Rightarrow> client_message list" where
  "pushes ops = concat (map (\<lambda>op. case op of Push _ msg \<Rightarrow> [msg] | Drain \<Rightarrow> []) ops)"

lemma pushes_snoc [simp]:
  "pushes [] = []"
  "pushes (ops @ [Push now msg]) = pushes ops @ [msg]"
  "pushes (ops @ [Drain]) = pushes ops"
  by (simp_all add: pushes_def)

lemma buffer_run_snoc [simp]:
  "buffer_run n [] = (\<lparr> tb_maxlen = n, tb_buf = [], tb_seq = 0, tb_dropped = 0 \<rparr>, [])"
  "buffer_run n (ops @ [op]) = buffer_step op (buffer_run n ops)"
  by (simp_all add: buffer_run_def)

definition seqs :: "buffered_event list \<Rightarrow> int list" where
  "seqs es = map be_seq es"

text \<open>The invariant: sequence numbers are handed out consecutively, the buffer holds the newest
  ones, everything is accounted for, and each event carries the message pushed under its
  number.\<close>

definition buffer_inv :: "nat \<Rightarrow> buffer_op list \<Rightarrow> telemetry_event_buffer \<Rightarrow> buffered_event list \<Rightarrow> bool" where
  "buffer_inv n ops b out \<longleftrightarrow>
     tb_maxlen b = n \<and> length (tb_buf b) \<le> n \<and>
     tb_seq b = int (length (pushes ops)) \<and>
     int (length out) + tb_len b + tb_dropped b = tb_seq b \<and>
     sorted_wrt (<) (seqs (out @ tb_buf b)) \<and>
     (\<forall>e\<in>set (out @ tb_buf b). 0 \<le> be_seq e \<and> be_seq e < tb_seq b \<and>
        be_message e = pushes ops ! nat (be_seq e))"

lemma buffer_inv_push:
  assumes inv: "buffer_inv n ops b out" and n: "0 < n"
  shows "buffer_inv n (ops @ [Push now msg]) (fst (tb_push now msg b)) out"
proof -
  define ev where "ev = \<lparr> be_message = msg, be_received_at = now, be_seq = tb_seq b, be_synthetic_id = None \<rparr>"
  let ?b = "fst (tb_push now msg b)"
  have buf: "tb_buf ?b = lastn n (tb_buf b @ [ev])"
    using inv by (simp add: tb_push_def Let_def buffer_inv_def deque_append_lastn ev_def)
  obtain pre where pre: "tb_buf b @ [ev] = pre @ tb_buf ?b"
    using lastn_eq_suffix[of "tb_buf b @ [ev]" n] buf by auto
  have srt: "sorted_wrt (<) (seqs (out @ tb_buf b @ [ev]))"
    using inv by (auto simp: buffer_inv_def seqs_def sorted_wrt_append ev_def)
  have "sorted_wrt (<) (seqs (out @ tb_buf ?b))"
    using srt unfolding pre by (auto simp: seqs_def sorted_wrt_append)
  moreover have "set (tb_buf ?b) \<subseteq> set (tb_buf b) \<union> {ev}"
    using pre by (metis Un_upper2 list.simps(15) empty_set set_append sup_commute)
  moreover have "tb_len ?b + tb_dropped ?b = tb_len b + tb_dropped b + 1"
    using inv n buf by (auto simp: tb_push_def Let_def buffer_inv_def tb_len_def)
  moreover have "tb_maxlen ?b = n" "tb_seq ?b = tb_seq b + 1" "length (tb_buf ?b) \<le> n"
    using inv buf by (auto simp: tb_push_def Let_def buffer_inv_def)
  ultimately show ?thesis
    using inv by (auto simp: buffer_inv_def nth_append ev_def nat_less_iff subset_iff)
qed

lemma buffer_run_inv:
  "0 < n \<Longrightarrow> buffer_inv n ops (fst (buffer_run n ops)) (snd (buffer_run n ops))"
proof (induction ops rule: rev_induct)
  case Nil
  then show ?case by (simp add: buffer_inv_def tb_len_def seqs_def)
next
  case (snoc op ops)
  obtain b out where bo: "buffer_run n ops = (b, out)" by fastforce
  with snoc have inv: "buffer_inv n ops b out" by simp
  show ?case
  proof (cases op)
    case (Push now msg)
    with buffer_inv_push[OF inv snoc.prems] bo show ?thesis by simp
  next
    case Drain
    with inv bo show ?thesis by (auto simp: buffer_inv_def tb_drain_def tb_len_def)
  qed
qed

section \<open>Sequences of delivery operations\<close>

datatype delivery_op =
    NextAck timestamp
  | Prepare rat string string
  | Ack string
  | Retry rat rat

fun delivery_step :: "float_arith \<Rightarrow> delivery_op \<Rightarrow> delivery_service \<Rightarrow> delivery_service \<times> server_message list" where
  "delivery_step fa (NextAck now) s = (fst (next_ack now s), [snd (next_ack now s)])"
| "delivery_step fa (Prepare t fid reason) s =
     (fst (prepare_kill_switch t fid reason s),
      case snd (prepare_kill_switch t fid reason s) of Inl _ \<Rightarrow> [] | Inr msg \<Rightarrow> [msg])"
| "delivery_step fa (Ack fid) s = (fst (record_kill_switch_ack fid s), [])"
| "delivery_step fa (Retry t1 t2) s =
     (fst (should_retry_kill_switch fa t1 t2 s),
      case snd (should_retry_kill_switch fa t1 t2 s) of None \<Rightarrow> [] | Some msg \<Rightarrow> [msg])"

definition delivery_run ::
  "float_arith \<Rightarrow> delivery_op list \<Rightarrow> delivery_service \<Rightarrow> delivery_service \<times> server_message list" where
  "delivery_run fa ops s =
     foldl (\<lambda>(s, out) op. (fst (delivery_step fa op s), out @ snd (delivery_step fa op s))) (s, []) ops"

lemma delivery_run_snoc [simp]:
  "delivery_run fa [] s = (s, [])"
  "delivery_run fa (ops @ [op]) s =
     (fst (delivery_step fa op (fst (delivery_run fa ops s))),
      snd (delivery_run fa ops s) @ snd (delivery_step fa op (fst (delivery_run fa ops s))))"
  by (simp_all add: delivery_run_def case_prod_beta)

fun ack_seqs :: "server_message list \<Rightarrow> int list" where
  "ack_seqs [] = []"
| "ack_seqs (SessionAcknowledgeDeliver p # ms) = sap_seq p # ack_seqs ms"
| "ack_seqs (_ # ms) = ack_seqs ms"

fun kills :: "server_message list \<Rightarrow> kill_switch_payload list" where
  "kills [] = []"
| "kills (KillSwitchDeliver p # ms) = p # kills ms"
| "kills (_ # ms) = kills ms"

lemma ack_seqs_append [simp]: "ack_seqs (xs @ ys) = ack_seqs xs @ ack_seqs ys"
  by (induction xs rule: ack_seqs.induct) simp_all

lemma kills_append [simp]: "kills (xs @ ys) = kills xs @ kills ys"
  by (induction xs rule: kills.induct) simp_all

lemmas delivery_defs = next_ack_def prepare_kill_switch_def record_kill_switch_ack_def
  should_retry_kill_switch_def

lemma delivery_step_config [simp]:
  "ds_max_retries (fst (delivery_step fa op s)) = ds_max_retries s"
  "ds_ack_grace (fst (delivery_step fa op s)) = ds_ack_grace s"
  by (cases op; auto simp: delivery_defs split: option.splits)+

lemma delivery_run_config [simp]: "ds_max_retries (fst (delivery_run fa ops s)) = ds_max_retries s"
  by (induction ops rule: rev_induct) simp_all

lemma delivery_acks:
  "ack_seqs (snd (delivery_run fa ops s)) = map (\<lambda>i. ds_seq s + int i) [0..<length (ack_seqs (snd (delivery_run fa ops s)))]
   \<and> ds_seq (fst (delivery_run fa ops s)) = ds_seq s + int (length (ack_seqs (snd (delivery_run fa ops s))))"
proof (induction ops rule: rev_induct)
  case (snoc op ops)
  then show ?case
    by (cases op) (auto simp: delivery_defs split: option.splits)
qed simp

text \<open>Every preparation pays for its message and for the whole retry budget; what is left of
  the budget is \<open>slack\<close>.\<close>

fun is_prepare :: "delivery_op \<Rightarrow> bool" where
  "is_prepare (Prepare _ _ _) = True" | "is_prepare _ = False"

definition slack :: "delivery_service \<Rightarrow> int" where
  "slack s = (case ds_pending_kill s of None \<Rightarrow> 0 | Some pk \<Rightarrow> ds_max_retries s - pk_retries pk)"

definition kills_inv :: "delivery_op list \<Rightarrow> delivery_service \<Rightarrow> server_message list \<Rightarrow> bool" where
  "kills_inv ops s out \<longleftrightarrow> 0 \<le> slack s \<and> 0 \<le> ds_max_retries s \<and>
     int (length (kills out)) + slack s \<le> int (length (filter is_prepare ops)) * (1 + ds_max_retries s)"

lemma kills_step:
  assumes "kills_inv ops s out"
  shows "kills_inv (ops @ [op]) (fst (delivery_step fa op s)) (out @ snd (delivery_step fa op s))"
proof (cases op)
  case (Prepare t fid reason)
  with assms show ?thesis
    by (auto simp: kills_inv_def slack_def prepare_kill_switch_def algebra_simps split: option.splits)
next
  case (Retry t1 t2)
  with assms show ?thesis
    by (auto simp: kills_inv_def slack_def should_retry_kill_switch_def split: option.splits)
qed (use assms in \<open>auto simp: kills_inv_def slack_def next_ack_def record_kill_switch_ack_def split: option.splits\<close>)

lemma kills_run:
  "0 \<le> m \<Longrightarrow> kills_inv ops (fst (delivery_run fa ops (new_delivery_service g m)))
     (snd (delivery_run fa ops (new_delivery_service g m)))"
  by (induction ops rule: rev_induct)
     (simp_all add: kills_step, simp add: kills_inv_def slack_def new_delivery_service_def)

section \<open>Properties\<close>

text \<open>for any sequence of pushes and drains, the consumer sees messages in the order they
  were pushed, each at most once and under its own number, and every pushed message is
  either delivered, still buffered or counted as dropped.\<close>

theorem event_buffer_accounting:
  assumes "0 < n"
  shows "case buffer_run n ops of (b, out) \<Rightarrow>
     int (length (pushes ops)) = int (length out) + tb_len b + tb_dropped b \<and>
     tb_len b \<le> int n \<and>
     sorted_wrt (<) (map be_seq (out @ tb_buf b)) \<and>
     map be_message (out @ tb_buf b) = map (\<lambda>k. pushes ops ! nat k) (map be_seq (out @ tb_buf b))"
  using buffer_run_inv[OF assms, of ops]
  by (auto simp: buffer_inv_def seqs_def tb_len_def split: prod.splits)

definition demo_envelope :: client_envelope where
  "demo_envelope = \<lparr> ce_session_id = ''s'', ce_captured_at = 1 \<rparr>"

definition demo_message :: "string \<Rightarrow> client_message" where
  "demo_message ev = TelemetryBrowserEvent demo_envelope \<lparr> tbp_event_type = ev, tbp_detail = [] \<rparr>"

theorem event_buffer_accounting_witness:
  "tb_dropped (fst (buffer_run 1 [Push 1 (demo_message ''blur''), Push 2 (demo_message ''copy''), Drain,
     Push 3 (demo_message ''focus'')])) = 1"
  using event_buffer_accounting[of 1 "[Push 1 (demo_message ''blur''), Push 2 (demo_message ''copy''), Drain,
     Push 3 (demo_message ''focus'')]"]
  by (simp add: buffer_run_def pushes_def tb_push_def tb_drain_def deque_append_def Let_def tb_len_def)

text \<open>the acknowledgement numbers a connection sends are consecutive from zero, whatever
  kill-switch traffic is interleaved.\<close>

theorem acks_consecutive:
  "ack_seqs (snd (delivery_run fa ops (new_delivery_service g m)))
     = map int [0..<length (ack_seqs (snd (delivery_run fa ops (new_delivery_service g m))))]"
  using delivery_acks[of fa ops "new_delivery_service g m"] by (simp add: new_delivery_service_def)

text \<open>a connection sends at most \<open>1 + max_retries\<close> kill-switch messages per preparation,
  under any clock and any float arithmetic.\<close>

theorem kill_switch_bounded:
  assumes "0 \<le> m"
  shows "int (length (kills (snd (delivery_run fa ops (new_delivery_service g m)))))
    \<le> int (length (filter is_prepare ops)) * (1 + m)"
  using kills_run[OF assms, of ops fa g] delivery_run_config[of fa ops "new_delivery_service g m"]
  by (simp add: kills_inv_def new_delivery_service_def)

theorem kill_switch_bounded_witness:
  "int (length (kills (snd (delivery_run exact_arith
      [Prepare 0 ''f'' ''r'', Retry 31 31, Retry 62 62, Retry 93 93, Retry 124 124, Retry 155 155]
      (new_delivery_service 30 3))))) \<le> 4"
  using kill_switch_bounded[of 3 exact_arith
      "[Prepare 0 ''f'' ''r'', Retry 31 31, Retry 62 62, Retry 93 93, Retry 124 124, Retry 155 155]" 30]
  by simp

text \<open>an acknowledgement is accepted exactly when a kill-switch with that flag has been
  registered, stops the retries, and lets the next one be prepared; while one is in flight a
  second preparation is refused and changes nothing.\<close>

theorem kill_switch_lifecycle:
  "(snd (record_kill_switch_ack fid s) \<longleftrightarrow>
      (\<exists>pk. ds_pending_kill s = Some pk \<and> pk_flag_id pk = fid))
   \<and> has_pending_kill_switch (fst (record_kill_switch_ack fid s))
      = (has_pending_kill_switch s \<and> \<not> snd (record_kill_switch_ack fid s))
   \<and> (if has_pending_kill_switch s
      then fst (prepare_kill_switch t fid' reason s) = s \<and> \<not> is_Inr (snd (prepare_kill_switch t fid' reason s))
      else has_pending_kill_switch (fst (prepare_kill_switch t fid' reason s))
         \<and> snd (should_retry_kill_switch fa t1 t2 s) = None)"
  by (auto simp: delivery_defs has_pending_kill_switch_def split: option.splits)

text \<open>an acknowledgement that repeats an accepted one is accepted again, although the method
  documents that a stale or replayed acknowledgement returns \<open>False\<close>.\<close>

theorem duplicate_ack_accepted:
  assumes "snd (record_kill_switch_ack fid s)"
  shows "record_kill_switch_ack fid (fst (record_kill_switch_ack fid s))
    = (fst (record_kill_switch_ack fid s), True)"
  using assms by (auto simp: record_kill_switch_ack_def split: option.splits if_splits)

theorem duplicate_ack_accepted_witness:
  "snd (record_kill_switch_ack ''f'' (fst (record_kill_switch_ack ''f''
     (fst (prepare_kill_switch 0 ''f'' ''r'' (new_delivery_service 30 3))))))"
  using duplicate_ack_accepted[of "''f''" "fst (prepare_kill_switch 0 ''f'' ''r'' (new_delivery_service 30 3))"]
  by (simp add: prepare_kill_switch_def record_kill_switch_ack_def new_delivery_service_def)

end
