(* ===== verification/Scheduler.thy ===== *)
theory Scheduler
  imports Prelude
begin

text \<open>
  The heavy-frame modality scheduler (\<^verbatim>\<open>preprocessing/scheduler.py\<close>): one period per
  modality, checked by the constructor, and a decision per frame number.
\<close>

datatype inference_modality = HEAD_POSE_GAZE | OBJECT_DETECTION | IDENTITY_MATCH | LIVENESS

fun inference_modality_value :: "inference_modality \<Rightarrow> string" where
  "inference_modality_value HEAD_POSE_GAZE = ''head_pose_gaze''"
| "inference_modality_value OBJECT_DETECTION = ''object_detection''"
| "inference_modality_value IDENTITY_MATCH = ''identity_match''"
| "inference_modality_value LIVENESS = ''liveness''"

datatype schedule_decision = RUN | SKIP

record modality_decision =
  md_modality :: inference_modality
  md_decision :: schedule_decision
  md_reason :: string

record inference_decision =
  id_frame_seq :: int
  id_decisions :: "modality_decision list"

definition modalities_to_run :: "inference_decision \<Rightarrow> inference_modality list" where
  "modalities_to_run d = map md_modality (filter (\<lambda>m. md_decision m = RUN) (id_decisions d))"

definition modalities_to_skip :: "inference_decision \<Rightarrow> inference_modality list" where
  "modalities_to_skip d = map md_modality (filter (\<lambda>m. md_decision m = SKIP) (id_decisions d))"

fun should_run_in :: "modality_decision list \<Rightarrow> inference_modality \<Rightarrow> bool" where
  "should_run_in [] m = False"
| "should_run_in (d # ds) m = (if md_modality d = m then md_decision d = RUN else should_run_in ds m)"

definition should_run :: "inference_decision \<Rightarrow> inference_modality \<Rightarrow> bool" where
  "should_run d m = should_run_in (id_decisions d) m"

record modality_scheduler =
  msch_head_pose_period :: int
  msch_object_detection_period :: int
  msch_identity_match_period :: int
  msch_liveness_period :: int

definition new_modality_scheduler :: "int \<Rightarrow> int \<Rightarrow> int \<Rightarrow> int \<Rightarrow> py_error + modality_scheduler" where
  "new_modality_scheduler head_pose object_detection identity_match liveness =
     (if head_pose \<le> 0 then Inl (ValueError ''head_pose_period must be a positive integer.'')
      else if object_detection \<le> 0 then Inl (ValueError ''object_detection_period must be a positive integer.'')
      else if identity_match \<le> 0 then Inl (ValueError ''identity_match_period must be a positive integer.'')
      else if liveness \<le> 0 then Inl (ValueError ''liveness_period must be a positive integer.'')
      else Inr \<lparr> msch_head_pose_period = head_pose, msch_object_detection_period = object_detection,
                 msch_identity_match_period = identity_match, msch_liveness_period = liveness \<rparr>)"

text \<open>The periods the constructor uses by default.\<close>

definition default_modality_scheduler :: modality_scheduler where
  "default_modality_scheduler =
     \<lparr> msch_head_pose_period = 1, msch_object_detection_period = 1,
       msch_identity_match_period = 5, msch_liveness_period = 5 \<rparr>"

fun period_for :: "modality_scheduler \<Rightarrow> inference_modality \<Rightarrow> int" where
  "period_for s HEAD_POSE_GAZE = msch_head_pose_period s"
| "period_for s OBJECT_DETECTION = msch_object_detection_period s"
| "period_for s IDENTITY_MATCH = msch_identity_match_period s"
| "period_for s LIVENESS = msch_liveness_period s"

definition periods :: "modality_scheduler \<Rightarrow> (inference_modality \<times> int) list" where
  "periods s = map (\<lambda>m. (m, period_for s m)) [HEAD_POSE_GAZE, OBJECT_DETECTION, IDENTITY_MATCH, LIVENESS]"

definition decide_modality :: "modality_scheduler \<Rightarrow> int \<Rightarrow> inference_modality \<Rightarrow> modality_decision" where
  "decide_modality s frame_seq m =
     (let period = period_for s m in
      if frame_seq mod period = 0
      then \<lparr> md_modality = m, md_decision = RUN,
             md_reason = ''frame_seq '' @ show_int frame_seq @ '' is a multiple of period '' @ show_int period \<rparr>
      else \<lparr> md_modality = m, md_decision = SKIP,
             md_reason = ''frame_seq '' @ show_int frame_seq @ '' is not a multiple of period '' @ show_int period \<rparr>)"

definition decide_for_frame :: "modality_scheduler \<Rightarrow> int \<Rightarrow> py_error + inference_decision" where
  "decide_for_frame s frame_seq =
     (if frame_seq < 0 then Inl (ValueError ''frame_seq must be non-negative.'')
      else Inr \<lparr> id_frame_seq = frame_seq,
                 id_decisions = map (decide_modality s frame_seq)
                   [HEAD_POSE_GAZE, OBJECT_DETECTION, IDENTITY_MATCH, LIVENESS] \<rparr>)"

section \<open>Properties\<close>

lemma decide_modality_sel [simp]:
  "md_modality (decide_modality s k m) = m"
  "md_decision (decide_modality s k m) = (if period_for s m dvd k then RUN else SKIP)"
  by (simp_all add: decide_modality_def Let_def dvd_eq_mod_eq_0)

lemma should_run_decide:
  "decide_for_frame s k = Inr d \<Longrightarrow> should_run d m \<longleftrightarrow> period_for s m dvd k"
  by (cases m) (auto simp: decide_for_frame_def should_run_def split: if_splits)

text \<open>How often a modality runs in the first \<open>n\<close> frames.\<close>

definition run_count :: "modality_scheduler \<Rightarrow> inference_modality \<Rightarrow> nat \<Rightarrow> nat" where
  "run_count s m n =
     length (filter (\<lambda>k. case decide_for_frame s (int k) of Inl _ \<Rightarrow> False | Inr d \<Rightarrow> should_run d m) [0..<n])"

lemma multiples_below:
  "0 < p \<Longrightarrow> length (filter (\<lambda>k. p dvd k) [0..<n]) = (n + p - 1) div (p::nat)"
proof (induction n)
  case (Suc n)
  show ?case
  proof (cases "p dvd n")
    case True
    then obtain j where j: "n = p * j" by blast
    then have "(n + p - 1) div p = j" "(Suc n + p - 1) div p = Suc j"
      using Suc.prems by (simp_all add: div_nat_eqI)
    with Suc True show ?thesis by simp
  next
    case False
    then have "n mod p \<noteq> 0" by (simp add: dvd_eq_mod_eq_0)
    then have "(n + p) div p = (n + p - 1) div p"
      using Suc.prems div_eq_dividend_iff
      by (metis (no_types, lifting) Suc_pred' add_gr_0 diff_Suc_1 div_Suc mod_add_self2)
    with Suc False show ?thesis by simp
  qed
qed simp

lemma decide_total: "decide_for_frame s (int k) =
    Inr \<lparr> id_frame_seq = int k,
          id_decisions = map (decide_modality s (int k)) [HEAD_POSE_GAZE, OBJECT_DETECTION, IDENTITY_MATCH, LIVENESS] \<rparr>"
  by (simp add: decide_for_frame_def)

text \<open>a scheduler the constructor accepts decides every frame number that is not negative:
  all four modalities, each exactly once, run exactly those whose period divides the number.\<close>

theorem schedule_exact:
  assumes "new_modality_scheduler hp od im lv = Inr s" "0 \<le> k"
  shows "\<exists>d. decide_for_frame s k = Inr d \<and>
     map md_modality (id_decisions d) = [HEAD_POSE_GAZE, OBJECT_DETECTION, IDENTITY_MATCH, LIVENESS] \<and>
     modalities_to_run d = filter (\<lambda>m. period_for s m dvd k) [HEAD_POSE_GAZE, OBJECT_DETECTION, IDENTITY_MATCH, LIVENESS] \<and>
     modalities_to_skip d = filter (\<lambda>m. \<not> period_for s m dvd k) [HEAD_POSE_GAZE, OBJECT_DETECTION, IDENTITY_MATCH, LIVENESS] \<and>
     (\<forall>m. should_run d m \<longleftrightarrow> List.member (modalities_to_run d) m)"
proof -
  obtain d where d: "decide_for_frame s k = Inr d"
    using assms(2) by (simp add: decide_for_frame_def)
  then have run: "modalities_to_run d =
      filter (\<lambda>m. period_for s m dvd k) [HEAD_POSE_GAZE, OBJECT_DETECTION, IDENTITY_MATCH, LIVENESS]"
    and rest: "map md_modality (id_decisions d) = [HEAD_POSE_GAZE, OBJECT_DETECTION, IDENTITY_MATCH, LIVENESS]"
      "modalities_to_skip d =
      filter (\<lambda>m. \<not> period_for s m dvd k) [HEAD_POSE_GAZE, OBJECT_DETECTION, IDENTITY_MATCH, LIVENESS]"
    using assms(2) by (auto simp: decide_for_frame_def modalities_to_run_def modalities_to_skip_def)
  have "should_run d m \<longleftrightarrow> List.member (modalities_to_run d) m" for m
    unfolding run should_run_decide[OF d] by (cases m) simp_all
  with d run rest show ?thesis by (intro exI[of _ d]) simp
qed

theorem schedule_exact_witness:
  "\<exists>d. decide_for_frame default_modality_scheduler 7 = Inr d \<and> modalities_to_run d = [HEAD_POSE_GAZE, OBJECT_DETECTION]"
proof -
  have "new_modality_scheduler 1 1 5 5 = Inr default_modality_scheduler"
    by (simp add: new_modality_scheduler_def default_modality_scheduler_def)
  from schedule_exact[OF this, of 7] show ?thesis by (auto simp: default_modality_scheduler_def)
qed

text \<open>over the first \<open>n\<close> frames a modality of period \<open>p\<close> runs \<open>\<lceil>n / p\<rceil>\<close> times.\<close>

theorem schedule_cadence:
  assumes "new_modality_scheduler hp od im lv = Inr s"
  shows "run_count s m n = (n + nat (period_for s m) - 1) div nat (period_for s m)"
proof -
  have p: "0 < period_for s m"
    using assms by (cases m) (auto simp: new_modality_scheduler_def split: if_splits)
  have eq: "(case decide_for_frame s (int k) of Inl _ \<Rightarrow> False | Inr d \<Rightarrow> should_run d m)
      \<longleftrightarrow> nat (period_for s m) dvd k" for k
    using p should_run_decide[OF decide_total[of s k], of m]
    by (simp add: decide_total) (metis int_dvd_int_iff int_nat_eq less_le)
  show ?thesis unfolding run_count_def eq by (rule multiples_below) (use p in simp)
qed

theorem schedule_cadence_witness: "run_count default_modality_scheduler IDENTITY_MATCH 11 = 3"
proof -
  have "new_modality_scheduler 1 1 5 5 = Inr default_modality_scheduler"
    by (simp add: new_modality_scheduler_def default_modality_scheduler_def)
  from schedule_cadence[OF this, of IDENTITY_MATCH 11] show ?thesis by (simp add: default_modality_scheduler_def)
qed

end
