(* ===== verification/RollingBuffer.thy ===== *)
theory RollingBuffer
  imports Prelude
begin

text \<open>
  The rolling frame buffer (\<^verbatim>\<open>preprocessing/rolling_buffer.py\<close>): its configuration and entry
  checks, the in-memory buffer whose \<open>append\<close> evicts from the front until both bounds hold,
  the null buffer, and the size estimate of a base64 payload.  \<^verbatim>\<open>isoformat\<close> of a timestamp is
  an argument.  The size estimate is computed exactly; the float division of the code is
  exact as well for payloads below \<open>2 ^ 51\<close> characters.
\<close>

section \<open>Configuration and entries\<close>

record rolling_buffer_config =
  rc_capture_interval_ms :: int
  rc_window_seconds :: int
  rc_max_bytes_per_entry :: int
  rc_max_entries :: int
  rc_max_total_bytes :: int

definition check_rolling_buffer_config :: "rolling_buffer_config \<Rightarrow> py_error + rolling_buffer_config" where
  "check_rolling_buffer_config c =
     (if \<not> (200 \<le> rc_capture_interval_ms c \<and> rc_capture_interval_ms c \<le> 500)
      then Inl (ValueError ''capture_interval_ms is outside the spec window [200, 500].'')
      else if \<not> (10 \<le> rc_window_seconds c \<and> rc_window_seconds c \<le> 15)
      then Inl (ValueError ''window_seconds is outside the spec window [10, 15].'')
      else if rc_max_entries c \<le> 0 then Inl (ValueError ''max_entries must be a positive integer.'')
      else if rc_max_bytes_per_entry c \<le> 0 then Inl (ValueError ''max_bytes_per_entry must be a positive integer.'')
      else if rc_max_total_bytes c \<le> 0 then Inl (ValueError ''max_total_bytes must be a positive integer.'')
      else Inr c)"

definition default_rolling_buffer_config :: rolling_buffer_config where
  "default_rolling_buffer_config =
     \<lparr> rc_capture_interval_ms = 300, rc_window_seconds = 15, rc_max_bytes_per_entry = 1500000,
       rc_max_entries = 60, rc_max_total_bytes = 60 * 1500000 \<rparr>"

datatype buffer_error = BufferFlushError string | BufferIndexError

record rolling_buffer_entry =
  re_captured_at :: timestamp
  re_encoded :: string
  re_encoding :: string
  re_resolution :: "int list"
  re_size_bytes :: int

definition check_rolling_buffer_entry :: "rolling_buffer_entry \<Rightarrow> buffer_error + rolling_buffer_entry" where
  "check_rolling_buffer_entry e =
     (if re_size_bytes e < 0 then Inl (BufferFlushError ''entry size_bytes cannot be negative.'')
      else if \<not> List.member [''jpeg'', ''png'', ''webp''] (re_encoding e)
      then Inl (BufferFlushError ''entry encoding is not supported.'')
      else if re_encoded e = [] then Inl (BufferFlushError ''entry encoded payload is empty.'')
      else if length (re_resolution e) \<noteq> 2
      then Inl (BufferFlushError ''resolution must be a (width, height) tuple.'')
      else Inr e)"

section \<open>Size estimate\<close>

definition approx_decoded_size :: "string \<Rightarrow> int" where
  "approx_decoded_size encoded =
     (if encoded = [] then 0
      else let pad = int (count_list encoded CHR ''='') in
           \<lceil>of_int ((int (length encoded) - pad) * 3) / (4 :: rat)\<rceil>)"

section \<open>The in-memory buffer\<close>

record rolling_buffer =
  rb_session_id :: string
  rb_config :: rolling_buffer_config
  rb_entries :: "rolling_buffer_entry list"

definition entries_bytes :: "rolling_buffer_entry list \<Rightarrow> int" where
  "entries_bytes es = sum_list (map re_size_bytes es)"

definition total_bytes :: "rolling_buffer \<Rightarrow> int" where
  "total_bytes b = entries_bytes (rb_entries b)"

definition over_bounds :: "rolling_buffer_config \<Rightarrow> rolling_buffer_entry list \<Rightarrow> bool" where
  "over_bounds c es \<longleftrightarrow> int (length es) > rc_max_entries c \<or> entries_bytes es > rc_max_total_bytes c"

text \<open>The \<^verbatim>\<open>while\<close> loop; \<^verbatim>\<open>pop(0)\<close> raises on an empty list.\<close>

fun evict :: "rolling_buffer_config \<Rightarrow> rolling_buffer_entry list \<Rightarrow> buffer_error + rolling_buffer_entry list" where
  "evict c [] = (if over_bounds c [] then Inl BufferIndexError else Inr [])"
| "evict c (e # es) = (if over_bounds c (e # es) then evict c es else Inr (e # es))"

definition rb_append :: "rolling_buffer_entry \<Rightarrow> rolling_buffer \<Rightarrow> buffer_error + rolling_buffer" where
  "rb_append entry b =
     (let approx_decoded = approx_decoded_size (re_encoded entry) in
      if approx_decoded > rc_max_bytes_per_entry (rb_config b)
      then Inl (BufferFlushError ''entry payload exceeds max_bytes_per_entry'')
      else (case evict (rb_config b) (rb_entries b @ [entry]) of
              Inl e \<Rightarrow> Inl e
            | Inr es \<Rightarrow> Inr (b\<lparr> rb_entries := es \<rparr>)))"

definition rb_len :: "rolling_buffer \<Rightarrow> int" where
  "rb_len b = int (length (rb_entries b))"

definition window_start :: "rolling_buffer \<Rightarrow> timestamp option" where
  "window_start b = (if rb_entries b = [] then None else Some (re_captured_at (hd (rb_entries b))))"

definition window_end :: "rolling_buffer \<Rightarrow> timestamp option" where
  "window_end b = (if rb_entries b = [] then None else Some (re_captured_at (last (rb_entries b))))"

definition opt_iso :: "(timestamp \<Rightarrow> string) \<Rightarrow> timestamp option \<Rightarrow> jval" where
  "opt_iso fmt t = (case t of None \<Rightarrow> JNull | Some x \<Rightarrow> JStr (fmt x))"

definition to_serializable :: "(timestamp \<Rightarrow> string) \<Rightarrow> rolling_buffer \<Rightarrow> jdict" where
  "to_serializable fmt b =
     [(''session_id'', JStr (rb_session_id b)),
      (''config'', JDict [(''capture_interval_ms'', JInt (rc_capture_interval_ms (rb_config b))),
                          (''window_seconds'', JInt (rc_window_seconds (rb_config b)))]),
      (''captured_window_start'', opt_iso fmt (window_start b)),
      (''captured_window_end'', opt_iso fmt (window_end b)),
      (''entries'', JList (map (\<lambda>e. JDict
         [(''captured_at'', JStr (fmt (re_captured_at e))),
          (''frame'', JStr (re_encoded e)),
          (''encoding'', JStr (re_encoding e)),
          (''resolution'', JList (map JInt (re_resolution e))),
          (''size_bytes'', JInt (re_size_bytes e))]) (rb_entries b)))]"

section \<open>The null buffer\<close>

definition null_append :: "rolling_buffer_entry \<Rightarrow> rolling_buffer \<Rightarrow> buffer_error + rolling_buffer" where
  "null_append entry b = Inr b"

definition null_to_serializable :: "rolling_buffer \<Rightarrow> jdict" where
  "null_to_serializable b =
     [(''session_id'', JStr (rb_session_id b)), (''captured_window_start'', JNull),
      (''captured_window_end'', JNull), (''entries'', JList [])]"

section \<open>Eviction\<close>

definition config_ok :: "rolling_buffer_config \<Rightarrow> bool" where
  "config_ok c \<longleftrightarrow> is_Inr (check_rolling_buffer_config c)"

lemma config_ok_pos: "config_ok c \<Longrightarrow> 0 < rc_max_entries c \<and> 0 < rc_max_total_bytes c"
  by (auto simp: config_ok_def check_rolling_buffer_config_def split: if_splits)

text \<open>Under an accepted configuration eviction ends, with the longest suffix within bounds.\<close>

lemma evict_longest:
  assumes "config_ok c"
  shows "\<exists>k\<le>length es. evict c es = Inr (drop k es) \<and> \<not> over_bounds c (drop k es)
    \<and> (\<forall>j<k. over_bounds c (drop j es))"
proof (induction es)
  case Nil
  show ?case using config_ok_pos[OF assms] by (simp add: over_bounds_def entries_bytes_def)
next
  case (Cons e es)
  show ?case
  proof (cases "over_bounds c (e # es)")
    case True
    from Cons obtain k where "k \<le> length es" "evict c es = Inr (drop k es)" "\<not> over_bounds c (drop k es)"
        "\<forall>j<k. over_bounds c (drop j es)" by blast
    with True show ?thesis by (intro exI[of _ "Suc k"]) (auto simp: less_Suc_eq_0_disj)
  qed (auto intro!: exI[of _ 0])
qed

text \<open>Storing an accepted entry keeps a suffix: the buffer is an instance of the interface.\<close>

definition rb_store :: "rolling_buffer \<Rightarrow> rolling_buffer_entry \<Rightarrow> rolling_buffer" where
  "rb_store b e = (case rb_append e b of Inl _ \<Rightarrow> b\<lparr> rb_entries := [] \<rparr> | Inr b' \<Rightarrow> b')"

definition fits :: "rolling_buffer_config \<Rightarrow> rolling_buffer_entry \<Rightarrow> bool" where
  "fits c e \<longleftrightarrow> approx_decoded_size (re_encoded e) \<le> rc_max_bytes_per_entry c"

lemma rb_append_fits:
  assumes "config_ok (rb_config b)" "fits (rb_config b) e"
  shows "\<exists>k\<le>Suc (length (rb_entries b)). rb_append e b = Inr (b\<lparr> rb_entries := drop k (rb_entries b @ [e]) \<rparr>)
     \<and> \<not> over_bounds (rb_config b) (drop k (rb_entries b @ [e]))
     \<and> (\<forall>j<k. over_bounds (rb_config b) (drop j (rb_entries b @ [e])))"
  using evict_longest[OF assms(1), of "rb_entries b @ [e]"] assms(2)
  by (auto simp: rb_append_def Let_def fits_def simp del: drop_append)

interpretation rb: suffix_buffer rb_store rb_entries "\<lambda>b. config_ok (rb_config b)"
proof
  fix b :: rolling_buffer and e
  show "config_ok (rb_config b) \<Longrightarrow> config_ok (rb_config (rb_store b e))"
    by (auto simp: rb_store_def rb_append_def Let_def split: sum.splits if_splits)
  show "config_ok (rb_config b) \<Longrightarrow> \<exists>k. rb_entries (rb_store b e) = drop k (rb_entries b @ [e])"
  proof (cases "fits (rb_config b) e")
    case True
    assume "config_ok (rb_config b)"
    from rb_append_fits[OF this True] show ?thesis by (auto simp: rb_store_def simp del: drop_append)
  next
    case False
    then have "rb_entries (rb_store b e) = drop (Suc (length (rb_entries b))) (rb_entries b @ [e])"
      by (simp add: rb_store_def rb_append_def fits_def Let_def)
    then show ?thesis by blast
  qed
qed

section \<open>Properties\<close>

text \<open>under an accepted configuration \<open>append\<close> never runs off the end of the list: it rejects
  an entry whose payload estimate is above the per-entry limit, and otherwise keeps the
  longest suffix of the entries, the new one included, that is within both bounds.\<close>

theorem append_keeps_longest_suffix:
  assumes "is_Inr (check_rolling_buffer_config (rb_config b))"
  shows "if approx_decoded_size (re_encoded e) > rc_max_bytes_per_entry (rb_config b)
    then \<exists>msg. rb_append e b = Inl (BufferFlushError msg)
    else \<exists>b' k. rb_append e b = Inr b' \<and> rb_entries b' = drop k (rb_entries b @ [e]) \<and>
           rb_len b' \<le> rc_max_entries (rb_config b) \<and> total_bytes b' \<le> rc_max_total_bytes (rb_config b) \<and>
           (\<forall>j<k. int (length (drop j (rb_entries b @ [e]))) > rc_max_entries (rb_config b) \<or>
                  sum_list (map re_size_bytes (drop j (rb_entries b @ [e]))) > rc_max_total_bytes (rb_config b))"
proof (cases "fits (rb_config b) e")
  case True
  from rb_append_fits[of b e] assms True obtain k where
    "rb_append e b = Inr (b\<lparr> rb_entries := drop k (rb_entries b @ [e]) \<rparr>)"
    "\<not> over_bounds (rb_config b) (drop k (rb_entries b @ [e]))"
    "\<forall>j<k. over_bounds (rb_config b) (drop j (rb_entries b @ [e]))"
    by (auto simp: config_ok_def simp del: drop_append)
  then have "rb_append e b = Inr (b\<lparr> rb_entries := drop k (rb_entries b @ [e]) \<rparr>)
      \<and> rb_len (b\<lparr> rb_entries := drop k (rb_entries b @ [e]) \<rparr>) \<le> rc_max_entries (rb_config b)
      \<and> total_bytes (b\<lparr> rb_entries := drop k (rb_entries b @ [e]) \<rparr>) \<le> rc_max_total_bytes (rb_config b)
      \<and> (\<forall>j<k. int (length (drop j (rb_entries b @ [e]))) > rc_max_entries (rb_config b) \<or>
            sum_list (map re_size_bytes (drop j (rb_entries b @ [e]))) > rc_max_total_bytes (rb_config b))"
    unfolding over_bounds_def rb_len_def total_bytes_def entries_bytes_def by (auto simp del: drop_append length_drop)
  with True show ?thesis unfolding fits_def by (auto simp del: drop_append length_drop)
next
  case False
  then show ?thesis by (simp add: fits_def rb_append_def Let_def)
qed

definition demo_entry :: "timestamp \<Rightarrow> int \<Rightarrow> rolling_buffer_entry" where
  "demo_entry t n = \<lparr> re_captured_at = t, re_encoded = ''AAAA'', re_encoding = ''jpeg'',
     re_resolution = [4, 3], re_size_bytes = n \<rparr>"

theorem append_keeps_longest_suffix_witness:
  "\<exists>b'. rb_append (demo_entry 3 60) \<lparr> rb_session_id = ''s'',
      rb_config = default_rolling_buffer_config\<lparr> rc_max_total_bytes := 100 \<rparr>,
      rb_entries = [demo_entry 1 50, demo_entry 2 40] \<rparr> = Inr b' \<and> total_bytes b' \<le> 100"
  (is "\<exists>b'. rb_append _ ?b = _ \<and> _")
proof -
  have "is_Inr (check_rolling_buffer_config (rb_config ?b))"
    by (simp add: check_rolling_buffer_config_def default_rolling_buffer_config_def)
  from append_keeps_longest_suffix[OF this, of "demo_entry 3 60"] show ?thesis
    by (auto simp: demo_entry_def approx_decoded_size_def default_rolling_buffer_config_def)
qed

text \<open>over any sequence of accepted entries the buffer holds a suffix of what it held and was
  given, in order: nothing is invented, reordered or dropped from the middle.\<close>

theorem buffer_is_history_suffix:
  assumes "is_Inr (check_rolling_buffer_config (rb_config b))"
  shows "\<exists>k. rb_entries (foldl rb_store b es) = drop k (rb_entries b @ es)"
  using rb.pushes_suffix[of b es] assms by (simp add: config_ok_def)

theorem buffer_is_history_suffix_witness:
  "\<exists>k. rb_entries (foldl rb_store \<lparr> rb_session_id = ''s'', rb_config = default_rolling_buffer_config, rb_entries = [] \<rparr>
        [demo_entry 1 50, demo_entry 2 40]) = drop k ([] @ [demo_entry 1 50, demo_entry 2 40])"
  using buffer_is_history_suffix[of "\<lparr> rb_session_id = ''s'', rb_config = default_rolling_buffer_config, rb_entries = [] \<rparr>"
      "[demo_entry 1 50, demo_entry 2 40]"]
  by (simp add: check_rolling_buffer_config_def default_rolling_buffer_config_def)

text \<open>for a well-formed base64 text (a multiple of four characters, at most two of them
  padding) the estimate is the decoded size when there is no padding and one byte above it
  otherwise, so the per-entry limit is never exceeded by the decoded frame.\<close>

theorem size_estimate:
  assumes "length s = 4 * q" "count_list s CHR ''='' = pad" "pad \<le> 2"
  shows "approx_decoded_size s = (3 * int q - int pad) + (if pad = 0 then 0 else 1)"
proof (cases "s = []")
  case True
  with assms show ?thesis by (simp add: approx_decoded_size_def)
next
  case False
  have "approx_decoded_size s = \<lceil>of_int ((4 * int q - int pad) * 3) / (4 :: rat)\<rceil>"
    using False assms by (simp add: approx_decoded_size_def)
  also have "\<dots> = (3 * int q - int pad) + (if pad = 0 then 0 else 1)"
  proof -
    consider "pad = 0" | "pad = 1" | "pad = 2" using assms(3) by linarith
    then show ?thesis by cases (rule ceiling_unique; simp add: field_simps)+
  qed
  finally show ?thesis .
qed

theorem size_estimate_witness: "approx_decoded_size ''QUI='' = 3"
  using size_estimate[of "''QUI=''" 1 1] by simp

end
