(* ===== verification/TableUpdates.thy ===== *)
theory TableUpdates
  imports DemoData
begin

text \<open>
  When appending a row keeps a consistent database consistent: for each table the services
  insert into, an equivalence between the consistency of the extended database and the
  conditions on the new row alone.
\<close>

lemma fk_simps [simp]:
  "fk col [] ks" "fk col (r # rs) ks \<longleftrightarrow> col r \<in> set ks \<and> fk col rs ks"
  "fk col (xs @ ys) ks \<longleftrightarrow> fk col xs ks \<and> fk col ys ks"
  by (simp_all add: fk_def)

lemma fk_opt_simps [simp]:
  "fk_opt col [] ks"
  "fk_opt col (r # rs) ks \<longleftrightarrow> (case col r of None \<Rightarrow> True | Some k \<Rightarrow> k \<in> set ks) \<and> fk_opt col rs ks"
  "fk_opt col (xs @ ys) ks \<longleftrightarrow> fk_opt col xs ks \<and> fk_opt col ys ks"
  by (simp_all add: fk_opt_def)

lemma fk_snoc_keys: "fk col rows ks \<Longrightarrow> fk col rows (ks @ ks')"
  by (auto simp: fk_def list_all_iff)

lemma fk_opt_snoc_keys: "fk_opt col rows ks \<Longrightarrow> fk_opt col rows (ks @ ks')"
  by (auto simp: fk_opt_def list_all_iff split: option.splits)

lemmas ok_parts = db_ok_def keys_ok_def refs_ok_def checks_ok_def Let_def

definition has_key :: "('r \<Rightarrow> 'k) \<Rightarrow> 'r list \<Rightarrow> 'k \<Rightarrow> bool" where
  "has_key key rows k = List.member (map key rows) k"

lemma has_key_iff: "has_key key rows k \<longleftrightarrow> k \<in> key ` set rows"
  by (simp add: has_key_def List.member_iff)

lemma get_row_has_key: "get_row key k rows \<noteq> None \<longleftrightarrow> has_key key rows k"
  using get_row_None[of key k rows] by (simp add: has_key_iff)

section \<open>Telemetry events\<close>

definition event_insertable :: "database \<Rightarrow> telemetry_event \<Rightarrow> bool" where
  "event_insertable d e \<longleftrightarrow> \<not> has_key te_id (db_telemetry_events d) (te_id e) \<and>
     has_key es_id (db_exam_sessions d) (te_exam_session_id e) \<and> telemetry_event_checks e"

lemma db_ok_add_event:
  assumes "db_ok d"
  shows "db_ok (d\<lparr> db_telemetry_events := db_telemetry_events d @ [e] \<rparr>) \<longleftrightarrow> event_insertable d e"
  using assms by (auto simp: ok_parts event_insertable_def has_key_iff fk_snoc_keys)

section \<open>Flags and their links\<close>

definition flag_insertable :: "database \<Rightarrow> flag \<Rightarrow> bool" where
  "flag_insertable d f \<longleftrightarrow> \<not> has_key fl_id (db_flags d) (fl_id f) \<and>
     has_key es_id (db_exam_sessions d) (fl_exam_session_id f) \<and>
     has_key pc_id (db_policy_configs d) (fl_policy_config_id f) \<and>
     (case fl_suppressed_by_exemption_id f of None \<Rightarrow> True
      | Some x \<Rightarrow> has_key ae_id (db_accommodation_exemptions d) x) \<and>
     flag_checks f"

lemma db_ok_add_flag:
  assumes "db_ok d"
  shows "db_ok (d\<lparr> db_flags := db_flags d @ [f] \<rparr>) \<longleftrightarrow> flag_insertable d f"
  using assms
  by (auto simp: ok_parts flag_insertable_def has_key_iff fk_snoc_keys fk_opt_snoc_keys split: option.splits)

definition link_key :: "flag_telemetry_event \<Rightarrow> uuid \<times> uuid" where
  "link_key l = (fte_flag_id l, fte_telemetry_event_id l)"

lemma db_ok_add_links:
  assumes "db_ok d"
  shows "db_ok (d\<lparr> db_flag_telemetry_events := db_flag_telemetry_events d @ ls \<rparr>) \<longleftrightarrow>
    distinct (map link_key (db_flag_telemetry_events d @ ls)) \<and>
    list_all (\<lambda>l. has_key fl_id (db_flags d) (fte_flag_id l)) ls \<and>
    list_all (\<lambda>l. has_key te_id (db_telemetry_events d) (fte_telemetry_event_id l)) ls \<and>
    list_all (\<lambda>l. fte_position l \<ge> 0) ls"
  using assms unfolding link_key_def
  by (auto simp: ok_parts has_key_iff fk_def list_all_iff)

section \<open>Termination records\<close>

definition termination_insertable :: "database \<Rightarrow> termination_record \<Rightarrow> bool" where
  "termination_insertable d t \<longleftrightarrow> \<not> has_key tr_id (db_termination_records d) (tr_id t) \<and>
     \<not> has_key tr_exam_session_id (db_termination_records d) (tr_exam_session_id t) \<and>
     has_key es_id (db_exam_sessions d) (tr_exam_session_id t) \<and>
     (case tr_triggering_flag_id t of None \<Rightarrow> True | Some k \<Rightarrow> has_key fl_id (db_flags d) k) \<and>
     termination_record_checks t"

lemma db_ok_add_termination:
  assumes "db_ok d"
  shows "db_ok (d\<lparr> db_termination_records := db_termination_records d @ [t] \<rparr>) \<longleftrightarrow> termination_insertable d t"
  using assms by (auto simp: ok_parts termination_insertable_def has_key_iff split: option.splits)

section \<open>Evidence artifacts\<close>

definition artifact_insertable :: "database \<Rightarrow> evidence_artifact \<Rightarrow> bool" where
  "artifact_insertable d a \<longleftrightarrow> \<not> has_key ea_id (db_evidence_artifacts d) (ea_id a) \<and>
     \<not> has_key ea_flag_id (db_evidence_artifacts d) (ea_flag_id a) \<and>
     \<not> has_key ea_storage_uri (db_evidence_artifacts d) (ea_storage_uri a) \<and>
     has_key fl_id (db_flags d) (ea_flag_id a) \<and> evidence_artifact_checks a"

lemma db_ok_add_artifact:
  assumes "db_ok d"
  shows "db_ok (d\<lparr> db_evidence_artifacts := db_evidence_artifacts d @ [a] \<rparr>) \<longleftrightarrow> artifact_insertable d a"
  using assms by (auto simp: ok_parts artifact_insertable_def has_key_iff)

lemma distinct_map_filter_keep: "distinct (map f xs) \<Longrightarrow> distinct (map f (filter P xs))"
  by (induction xs) auto

lemma fk_filter: "fk col rows ks \<Longrightarrow> fk col (filter P rows) ks"
  by (auto simp: fk_def list_all_iff)

lemma db_ok_remove_artifact:
  assumes "db_ok d"
  shows "db_ok (d\<lparr> db_evidence_artifacts := filter P (db_evidence_artifacts d) \<rparr>)"
  using assms by (auto simp: ok_parts distinct_map_filter_keep fk_filter list_all_iff)

section \<open>Policies, exemptions, reviews, overrides, role audits\<close>

lemma db_ok_add_review:
  assumes "db_ok d"
  shows "db_ok (d\<lparr> db_proctor_reviews := db_proctor_reviews d @ [r] \<rparr>) \<longleftrightarrow>
    \<not> has_key pr_id (db_proctor_reviews d) (pr_id r) \<and> has_key fl_id (db_flags d) (pr_flag_id r) \<and>
    (case pr_reviewer_admin_id r of None \<Rightarrow> True | Some k \<Rightarrow> has_key au_id (db_admin_users d) k)"
  using assms by (auto simp: ok_parts has_key_iff split: option.splits)

lemma db_ok_add_exemption:
  assumes "db_ok d"
  shows "db_ok (d\<lparr> db_accommodation_exemptions := db_accommodation_exemptions d @ [x] \<rparr>) \<longleftrightarrow>
    \<not> has_key ae_id (db_accommodation_exemptions d) (ae_id x) \<and>
    has_key pt_id (db_participants d) (ae_participant_id x) \<and>
    (case ae_approved_by_admin_id x of None \<Rightarrow> True | Some k \<Rightarrow> has_key au_id (db_admin_users d) k) \<and>
    accommodation_exemption_checks x"
  using assms by (auto simp: ok_parts has_key_iff fk_opt_snoc_keys split: option.splits)

lemma db_ok_add_override:
  assumes "db_ok d"
  shows "db_ok (d\<lparr> db_identity_overrides := db_identity_overrides d @ [r] \<rparr>) \<longleftrightarrow>
    \<not> has_key io_id (db_identity_overrides d) (io_id r) \<and>
    has_key es_id (db_exam_sessions d) (io_exam_session_id r) \<and>
    has_key au_id (db_admin_users d) (io_requested_by_admin_id r) \<and>
    (case io_approved_by_admin_id r of None \<Rightarrow> True | Some k \<Rightarrow> has_key au_id (db_admin_users d) k) \<and>
    identity_override_checks r"
  using assms by (auto simp: ok_parts has_key_iff split: option.splits)

lemma db_ok_add_policy:
  assumes "db_ok d"
  shows "db_ok (d\<lparr> db_policy_configs := db_policy_configs d @ [p] \<rparr>) \<longleftrightarrow>
    \<not> has_key pc_id (db_policy_configs d) (pc_id p) \<and>
    (policy_is_current p \<longrightarrow> \<not> has_key pc_name (filter policy_is_current (db_policy_configs d)) (pc_name p)) \<and>
    (case pc_created_by_id p of None \<Rightarrow> True | Some k \<Rightarrow> has_key au_id (db_admin_users d) k) \<and>
    policy_config_checks p"
  using assms by (auto simp: ok_parts has_key_iff fk_snoc_keys split: option.splits)

lemma db_ok_add_role_audit:
  assumes "db_ok d"
  shows "db_ok (d\<lparr> db_admin_role_audits := db_admin_role_audits d @ [a] \<rparr>) \<longleftrightarrow>
    \<not> has_key ara_id (db_admin_role_audits d) (ara_id a) \<and>
    has_key au_id (db_admin_users d) (ara_target_admin_id a) \<and>
    has_key au_id (db_admin_users d) (ara_changed_by_admin_id a)"
  using assms by (auto simp: ok_parts has_key_iff)

section \<open>Participants, administrators, sessions\<close>

definition participant_key :: "participant \<Rightarrow> string \<times> string" where
  "participant_key p = (pt_lti_issuer p, pt_lms_user_reference p)"

definition admin_key :: "admin_user \<Rightarrow> string \<times> string" where
  "admin_key a = (au_lti_issuer a, au_lms_user_reference a)"

lemma db_ok_add_participant:
  assumes "db_ok d"
  shows "db_ok (d\<lparr> db_participants := db_participants d @ [p] \<rparr>) \<longleftrightarrow>
    \<not> has_key pt_id (db_participants d) (pt_id p) \<and> \<not> has_key participant_key (db_participants d) (participant_key p)"
  using assms unfolding participant_key_def
  by (auto simp: ok_parts has_key_iff fk_snoc_keys)

lemma db_ok_add_admin:
  assumes "db_ok d"
  shows "db_ok (d\<lparr> db_admin_users := db_admin_users d @ [a] \<rparr>) \<longleftrightarrow>
    \<not> has_key au_id (db_admin_users d) (au_id a) \<and> \<not> has_key admin_key (db_admin_users d) (admin_key a)"
  using assms unfolding admin_key_def
  by (auto simp: ok_parts has_key_iff fk_snoc_keys fk_opt_snoc_keys)

lemma db_ok_add_session:
  assumes "db_ok d"
  shows "db_ok (d\<lparr> db_exam_sessions := db_exam_sessions d @ [s] \<rparr>) \<longleftrightarrow>
    \<not> has_key es_id (db_exam_sessions d) (es_id s) \<and>
    \<not> has_key es_attempt_reference (db_exam_sessions d) (es_attempt_reference s) \<and>
    has_key pt_id (db_participants d) (es_participant_id s) \<and>
    has_key pc_id (db_policy_configs d) (es_policy_config_id s) \<and> exam_session_checks s"
  using assms by (auto simp: ok_parts has_key_iff fk_snoc_keys)

lemma db_ok_update_participant:
  assumes "db_ok d" and f: "\<And>p. pt_id (f p) = pt_id p" "\<And>p. participant_key (f p) = participant_key p"
  shows "db_ok (d\<lparr> db_participants := update_row pt_id k f (db_participants d) \<rparr>)"
proof -
  have "(\<lambda>p. (pt_lti_issuer p, pt_lms_user_reference p)) = participant_key"
    by (simp add: participant_key_def fun_eq_iff)
  then show ?thesis using assms(1) by (simp add: ok_parts map_update_row f)
qed

lemma db_ok_update_admin:
  assumes "db_ok d" and f: "\<And>a. au_id (f a) = au_id a" "\<And>a. admin_key (f a) = admin_key a"
  shows "db_ok (d\<lparr> db_admin_users := update_row au_id k f (db_admin_users d) \<rparr>)"
proof -
  have "(\<lambda>a. (au_lti_issuer a, au_lms_user_reference a)) = admin_key"
    by (simp add: admin_key_def fun_eq_iff)
  then show ?thesis using assms(1) by (simp add: ok_parts map_update_row f)
qed

text \<open>A retirement takes rows out of the index over the current policies, never into it.\<close>

lemma current_names_shrink:
  assumes "\<And>p. pc_name (f p) = pc_name p" "\<And>p. policy_is_current (f p) \<Longrightarrow> policy_is_current p"
    and "distinct (map pc_name (filter policy_is_current ps))"
  shows "distinct (map pc_name (filter policy_is_current (update_row pc_id k f ps)))"
  using assms(3)
proof (induction ps)
  case (Cons p ps)
  have sub: "set (map pc_name (filter policy_is_current (update_row pc_id k f ps)))
      \<subseteq> set (map pc_name (filter policy_is_current ps))"
    using assms(1,2) by (fastforce simp: update_row_def)
  from Cons sub assms(1,2)[of p] show ?case
    by (auto simp: update_row_def split: if_splits)
qed (simp add: update_row_def)

lemma db_ok_update_policy:
  assumes "db_ok d" and f: "\<And>p. pc_id (f p) = pc_id p" "\<And>p. pc_name (f p) = pc_name p"
      "\<And>p. pc_created_by_id (f p) = pc_created_by_id p" "\<And>p. policy_is_current (f p) \<Longrightarrow> policy_is_current p"
      "\<And>p. policy_config_checks (f p) = policy_config_checks p"
  shows "db_ok (d\<lparr> db_policy_configs := update_row pc_id k f (db_policy_configs d) \<rparr>)"
  using assms(1)
  by (simp add: ok_parts map_update_row fk_opt_update_row list_all_update_row f current_names_shrink)

lemma db_ok_update_override:
  assumes "db_ok d" and f: "\<And>r. io_id (f r) = io_id r" "\<And>r. io_exam_session_id (f r) = io_exam_session_id r"
      "\<And>r. io_requested_by_admin_id (f r) = io_requested_by_admin_id r"
      "\<And>r. identity_override_checks (f r) = identity_override_checks r"
      "\<And>r. io_approved_by_admin_id (f r) = Some b" and b: "has_key au_id (db_admin_users d) b"
  shows "db_ok (d\<lparr> db_identity_overrides := update_row io_id k f (db_identity_overrides d) \<rparr>)"
proof -
  have "fk_opt io_approved_by_admin_id (update_row io_id k f rows) ks"
    if "fk_opt io_approved_by_admin_id rows ks" "b \<in> set ks" for rows ks
    using that by (induction rows) (auto simp: update_row_def f)
  then show ?thesis using assms(1) b
    by (auto simp: ok_parts map_update_row fk_update_row list_all_update_row f has_key_iff)
qed

end
