(* ===== verification/FlagPersistence.thy ===== *)
theory FlagPersistence
  imports TableUpdates FusionTypes
begin

text \<open>
  Writing a flag decision to the database (\<^verbatim>\<open>orchestration/_flag_persistence.py\<close>): the flag row,
  the ordered links to its telemetry events and the session's accumulated score, in one
  transaction.  The fresh primary key and the server's timestamp are arguments.  \<open>num\<close> is
  the column type \<^verbatim>\<open>Numeric(10, 4)\<close> of the accumulated score: the float read back after
  storing one.  Python's float addition is \<^term>\<open>f_add fa\<close>.
\<close>

section \<open>The operation\<close>

datatype persistence_error =
    FlagPersistenceError string
  | PersistRaised py_error
  | PersistDbError db_error
  | InvalidRequestError
  | MultipleResultsFound

definition to_severity :: "string \<Rightarrow> persistence_error + flag_severity" where
  "to_severity value =
     (case enum_of flag_severity_value flag_severity_members value of
        Inl _ \<Rightarrow> Inl (FlagPersistenceError ''unknown severity'')
      | Inr sev \<Rightarrow> Inr sev)"

definition confidence_valid :: "confidence_interval \<Rightarrow> persistence_error + unit" where
  "confidence_valid i =
     (if \<not> (0 \<le> ci_lower i \<and> ci_lower i \<le> ci_score i \<and> ci_score i \<le> ci_upper i \<and> ci_upper i \<le> 1)
      then Inl (FlagPersistenceError ''confidence interval out of bounds'')
      else Inr ())"

definition flag_row ::
  "uuid \<Rightarrow> timestamp \<Rightarrow> exam_session \<Rightarrow> string \<Rightarrow> flag_severity \<Rightarrow> flag_decision \<Rightarrow> flag" where
  "flag_row fid now es code sev d =
     \<lparr> fl_id = fid, fl_exam_session_id = es_id es, fl_policy_config_id = es_policy_config_id es,
       fl_rule_code = code, fl_severity = sev, fl_status = FST_RAISED,
       fl_confidence_score = ci_score (fd_confidence d), fl_confidence_lower = ci_lower (fd_confidence d),
       fl_confidence_upper = ci_upper (fd_confidence d),
       fl_triggered_termination = fd_triggered_termination d,
       fl_suppressed_by_exemption_id = fd_suppressed_by_exemption_id d,
       fl_detail = fd_detail d, fl_created_at = now, fl_resolved_at = None \<rparr>"

text \<open>The constructor's validators, in the order of the keyword arguments.\<close>

definition validate_flag_row :: "flag \<Rightarrow> py_error + flag" where
  "validate_flag_row f =
     bind_err (validate_flag_confidence (fl_confidence_score f)) (\<lambda>_.
     bind_err (validate_flag_confidence (fl_confidence_lower f)) (\<lambda>_.
     bind_err (validate_flag_confidence (fl_confidence_upper f)) (\<lambda>_. Inr f)))"

definition link_rows :: "uuid \<Rightarrow> uuid list \<Rightarrow> flag_telemetry_event list" where
  "link_rows fid ids =
     map (\<lambda>(position, tid). \<lparr> fte_flag_id = fid, fte_telemetry_event_id = tid, fte_position = int position \<rparr>)
       (enumerate 0 ids)"

definition add_score ::
  "float_arith \<Rightarrow> (rat \<Rightarrow> rat) \<Rightarrow> exam_session \<Rightarrow> rat \<Rightarrow> database \<Rightarrow> py_error + database" where
  "add_score fa num es delta d =
     (if delta > 0
      then bind_err (validate_accumulated_medium_score (f_add fa (es_accumulated_medium_score es) delta)) (\<lambda>v.
           Inr (d\<lparr> db_exam_sessions := update_row es_id (es_id es)
                   (\<lambda>s. s\<lparr> es_accumulated_medium_score := num v \<rparr>) (db_exam_sessions d) \<rparr>))
      else Inr d)"

definition decision_code :: "string option \<Rightarrow> flag_decision \<Rightarrow> string" where
  "decision_code rule_code d =
     (case rule_code of Some c \<Rightarrow> if c = [] then fd_rule_code d else c | None \<Rightarrow> fd_rule_code d)"

definition insert_flag :: "flag \<Rightarrow> db_session \<Rightarrow> db_session \<times> (persistence_error + unit)" where
  "insert_flag f db =
     (let db1 = db\<lparr> working := (working db)\<lparr> db_flags := db_flags (working db) @ [f] \<rparr> \<rparr> in
      case flush db1 of
        Inl _ \<Rightarrow> (rollback db1, Inl (FlagPersistenceError ''Flag insert violated an integrity constraint''))
      | Inr _ \<Rightarrow> (db1, Inr ()))"

definition insert_links :: "flag_telemetry_event list \<Rightarrow> db_session \<Rightarrow> db_session \<times> (persistence_error + unit)" where
  "insert_links ls db =
     (let db1 = db\<lparr> working := (working db)
                     \<lparr> db_flag_telemetry_events := db_flag_telemetry_events (working db) @ ls \<rparr> \<rparr> in
      case flush db1 of
        Inl _ \<Rightarrow> (rollback db1,
          Inl (FlagPersistenceError ''FlagTelemetryEvent link violated a uniqueness / FK constraint''))
      | Inr _ \<Rightarrow> (db1, Inr ()))"

definition finish_flag ::
  "float_arith \<Rightarrow> (rat \<Rightarrow> rat) \<Rightarrow> exam_session \<Rightarrow> flag_decision \<Rightarrow> flag \<Rightarrow> db_session
    \<Rightarrow> db_session \<times> (persistence_error + flag)" where
  "finish_flag fa num es d f db =
     (case add_score fa num es (fd_score_delta d) (working db) of
        Inl e \<Rightarrow> (db, Inl (PersistRaised e))
      | Inr w \<Rightarrow>
          (case commit (db\<lparr> working := w \<rparr>) of
             Inl e \<Rightarrow> (db\<lparr> working := w \<rparr>, Inl (PersistDbError e))
           | Inr db' \<Rightarrow> (db', Inr f)))"

definition persist_flag_decision ::
  "float_arith \<Rightarrow> (rat \<Rightarrow> rat) \<Rightarrow> uuid \<Rightarrow> timestamp \<Rightarrow> flag_decision \<Rightarrow> exam_session \<Rightarrow> string option
    \<Rightarrow> db_session \<Rightarrow> db_session \<times> (persistence_error + flag)" where
  "persist_flag_decision fa num fid now d es rule_code db =
     (case to_severity (fd_severity d) of
        Inl e \<Rightarrow> (db, Inl e)
      | Inr sev \<Rightarrow>
     (case confidence_valid (fd_confidence d) of
        Inl e \<Rightarrow> (db, Inl e)
      | Inr _ \<Rightarrow>
     (case validate_flag_row (flag_row fid now es (decision_code rule_code d) sev d) of
        Inl e \<Rightarrow> (db, Inl (PersistRaised e))
      | Inr f \<Rightarrow>
     (case insert_flag f db of
        (db1, Inl e) \<Rightarrow> (db1, Inl e)
      | (db1, Inr _) \<Rightarrow>
     (case insert_links (link_rows (fl_id f) (fd_contributing_event_ids d)) db1 of
        (db2, Inl e) \<Rightarrow> (db2, Inl e)
      | (db2, Inr _) \<Rightarrow> finish_flag fa num es d f db2)))))"

definition assert_flag_present :: "uuid \<Rightarrow> db_session \<Rightarrow> persistence_error + flag" where
  "assert_flag_present fid db =
     (case get_row fl_id fid (db_flags (working db)) of
        None \<Rightarrow> Inl (FlagPersistenceError ''Flag does not exist'')
      | Some f \<Rightarrow> Inr f)"

section \<open>Abstract description\<close>

text \<open>What the decision must satisfy to be written, on the database alone.\<close>

definition writable :: "uuid \<Rightarrow> flag_decision \<Rightarrow> database \<Rightarrow> bool" where
  "writable fid d w \<longleftrightarrow>
     List.member (map flag_severity_value flag_severity_members) (fd_severity d) \<and>
     0 \<le> ci_lower (fd_confidence d) \<and> ci_lower (fd_confidence d) \<le> ci_score (fd_confidence d) \<and>
     ci_score (fd_confidence d) \<le> ci_upper (fd_confidence d) \<and> ci_upper (fd_confidence d) \<le> 1 \<and>
     \<not> has_key fl_id (db_flags w) fid \<and>
     (case fd_suppressed_by_exemption_id d of None \<Rightarrow> True
      | Some x \<Rightarrow> has_key ae_id (db_accommodation_exemptions w) x) \<and>
     distinct (fd_contributing_event_ids d) \<and>
     list_all (has_key te_id (db_telemetry_events w)) (fd_contributing_event_ids d)"

definition severity_named :: "string \<Rightarrow> flag_severity" where
  "severity_named s = hd (filter (\<lambda>m. flag_severity_value m = s) flag_severity_members)"

text \<open>The database after the write.\<close>

definition written ::
  "float_arith \<Rightarrow> (rat \<Rightarrow> rat) \<Rightarrow> flag \<Rightarrow> flag_decision \<Rightarrow> exam_session \<Rightarrow> database \<Rightarrow> database" where
  "written fa num f d es w =
     w\<lparr> db_flags := db_flags w @ [f],
        db_flag_telemetry_events := db_flag_telemetry_events w @ link_rows (fl_id f) (fd_contributing_event_ids d),
        db_exam_sessions :=
          (if fd_score_delta d > 0
           then update_row es_id (es_id es)
                  (\<lambda>s. s\<lparr> es_accumulated_medium_score := num (f_add fa (es_accumulated_medium_score es) (fd_score_delta d)) \<rparr>)
                  (db_exam_sessions w)
           else db_exam_sessions w) \<rparr>"

text \<open>What is relied on of float addition and of the column type: the sum of the session's
  score and the delta is stored as a number that is not negative.\<close>

definition score_fits :: "float_arith \<Rightarrow> (rat \<Rightarrow> rat) \<Rightarrow> exam_session \<Rightarrow> flag_decision \<Rightarrow> bool" where
  "score_fits fa num es d \<longleftrightarrow>
     (fd_score_delta d > 0 \<longrightarrow>
        0 \<le> f_add fa (es_accumulated_medium_score es) (fd_score_delta d) \<and>
        0 \<le> num (f_add fa (es_accumulated_medium_score es) (fd_score_delta d)))"

section \<open>Step lemmas\<close>

lemma to_severity_cases:
  "to_severity s = (if List.member (map flag_severity_value flag_severity_members) s
     then Inr (severity_named s) else Inl (FlagPersistenceError ''unknown severity''))"
  by (simp add: to_severity_def flag_severity_members_def severity_named_def)

lemma validate_flag_row_ok:
  "confidence_valid (fd_confidence d) = Inr u \<Longrightarrow>
     validate_flag_row (flag_row fid now es code sev d) = Inr (flag_row fid now es code sev d)"
  by (auto simp: confidence_valid_def validate_flag_row_def validate_flag_confidence_def flag_row_def split: if_splits)

lemma insert_flag_ok:
  assumes "db_ok (working db)"
  shows "insert_flag f db =
     (if flag_insertable (working db) f
      then (db\<lparr> working := (working db)\<lparr> db_flags := db_flags (working db) @ [f] \<rparr> \<rparr>, Inr ())
      else (rollback db, Inl (FlagPersistenceError ''Flag insert violated an integrity constraint'')))"
  using db_ok_add_flag[OF assms, of f] by (simp add: insert_flag_def flush_def rollback_def Let_def)

lemma link_rows_sel [simp]:
  "map fte_telemetry_event_id (link_rows fid ids) = ids"
  "map link_key (link_rows fid ids) = map (Pair fid) ids"
  "map fte_position (link_rows fid ids) = map int [0..<length ids]"
proof -
  have "map fte_telemetry_event_id (link_rows fid ids) = map snd (enumerate 0 ids)"
    "map link_key (link_rows fid ids) = map (Pair fid) (map snd (enumerate 0 ids))"
    "map fte_position (link_rows fid ids) = map int (map fst (enumerate 0 ids))"
    by (simp_all only: link_rows_def map_map)
       (simp_all add: comp_def case_prod_unfold link_key_def)
  then show "map fte_telemetry_event_id (link_rows fid ids) = ids"
    "map link_key (link_rows fid ids) = map (Pair fid) ids"
    "map fte_position (link_rows fid ids) = map int [0..<length ids]"
    by (simp_all only: map_snd_enumerate map_fst_enumerate add_0)
qed

lemma list_all_link_rows:
  "list_all (\<lambda>l. P (fte_flag_id l)) (link_rows fid ids) \<longleftrightarrow> ids = [] \<or> P fid"
  "list_all (\<lambda>l. P' (fte_telemetry_event_id l)) (link_rows fid ids) \<longleftrightarrow> list_all P' ids"
  "list_all (\<lambda>l. fte_position l \<ge> 0) (link_rows fid ids)"
proof -
  have "list_all (\<lambda>l. P (fst (link_key l))) ls \<longleftrightarrow> list_all (\<lambda>k. P (fst k)) (map link_key ls)" for ls
    by (simp add: list_all_iff)
  from this[of "link_rows fid ids"] show "list_all (\<lambda>l. P (fte_flag_id l)) (link_rows fid ids) \<longleftrightarrow> ids = [] \<or> P fid"
    by (cases ids) (auto simp: link_key_def list_all_iff)
  have "list_all (\<lambda>l. P' (fte_telemetry_event_id l)) ls \<longleftrightarrow> list_all P' (map fte_telemetry_event_id ls)" for ls
    by (simp add: list_all_iff)
  from this[of "link_rows fid ids"]
  show "list_all (\<lambda>l. P' (fte_telemetry_event_id l)) (link_rows fid ids) \<longleftrightarrow> list_all P' ids"
    by (simp only: link_rows_sel)
  have "list_all (\<lambda>l. fte_position l \<ge> 0) ls \<longleftrightarrow> list_all (\<lambda>i. i \<ge> 0) (map fte_position ls)" for ls
    by (simp add: list_all_iff)
  from this[of "link_rows fid ids"] show "list_all (\<lambda>l. fte_position l \<ge> 0) (link_rows fid ids)"
    by (simp only: link_rows_sel) (simp add: list_all_iff)
qed

lemma insert_links_ok:
  assumes "db_ok (working db)" "db_flags (working db) = fs @ [f]" "fl_id f = fid"
    "list_all (\<lambda>l. fte_flag_id l \<noteq> fid) (db_flag_telemetry_events (working db))"
  shows "insert_links (link_rows fid ids) db =
     (if distinct ids \<and> list_all (has_key te_id (db_telemetry_events (working db))) ids
      then (db\<lparr> working := (working db)\<lparr> db_flag_telemetry_events :=
              db_flag_telemetry_events (working db) @ link_rows fid ids \<rparr> \<rparr>, Inr ())
      else (rollback db, Inl (FlagPersistenceError ''FlagTelemetryEvent link violated a uniqueness / FK constraint'')))"
proof -
  have "(fid, x) \<notin> link_key ` set (db_flag_telemetry_events (working db))" for x
    using assms(4) by (auto simp: link_key_def list_all_iff)
  then have "set (map link_key (db_flag_telemetry_events (working db))) \<inter> set (map (Pair fid) ids) = {}" by auto
  moreover have "distinct (map link_key (db_flag_telemetry_events (working db)))"
    using assms(1) by (simp add: ok_parts link_key_def[abs_def])
  ultimately have "distinct (map link_key (db_flag_telemetry_events (working db) @ link_rows fid ids)) \<longleftrightarrow> distinct ids"
    by (simp add: distinct_map inj_on_def)
  moreover have "has_key fl_id (db_flags (working db)) fid" using assms(2,3) by (simp add: has_key_iff)
  ultimately have "db_ok ((working db)\<lparr> db_flag_telemetry_events :=
        db_flag_telemetry_events (working db) @ link_rows fid ids \<rparr>) \<longleftrightarrow>
      distinct ids \<and> list_all (has_key te_id (db_telemetry_events (working db))) ids"
    using db_ok_add_links[OF assms(1), of "link_rows fid ids"]
      list_all_link_rows(1)[of "has_key fl_id (db_flags (working db))" fid ids]
      list_all_link_rows(2)[of "has_key te_id (db_telemetry_events (working db))" fid ids]
      list_all_link_rows(3)[of fid ids]
    by blast
  then show ?thesis by (simp add: insert_links_def flush_def rollback_def Let_def)
qed

lemma old_links_other_flag:
  assumes "db_ok w" "\<not> has_key fl_id (db_flags w) fid"
  shows "list_all (\<lambda>l. fte_flag_id l \<noteq> fid) (db_flag_telemetry_events w)"
  using assms by (auto simp: ok_parts fk_def list_all_iff has_key_iff)

lemma written_ok:
  assumes "db_ok w" "score_fits fa num es d"
  shows "db_ok (w\<lparr> db_exam_sessions :=
          (if fd_score_delta d > 0
           then update_row es_id (es_id es)
                  (\<lambda>s. s\<lparr> es_accumulated_medium_score := num (f_add fa (es_accumulated_medium_score es) (fd_score_delta d)) \<rparr>)
                  (db_exam_sessions w)
           else db_exam_sessions w) \<rparr>)"
  using assms by (auto simp: score_fits_def exam_session_checks_def intro!: db_ok_update_session)

lemma finish_flag_ok:
  assumes "db_ok (working db)" "score_fits fa num es d"
  shows "finish_flag fa num es d f db =
     (let w = (working db)\<lparr> db_exam_sessions :=
          (if fd_score_delta d > 0
           then update_row es_id (es_id es)
                  (\<lambda>s. s\<lparr> es_accumulated_medium_score := num (f_add fa (es_accumulated_medium_score es) (fd_score_delta d)) \<rparr>)
                  (db_exam_sessions (working db))
           else db_exam_sessions (working db)) \<rparr> in
      (\<lparr> committed = w, working = w \<rparr>, Inr f))"
  using assms(2) written_ok[OF assms] assms(1)
  by (cases "fd_score_delta d > 0")
     (simp_all add: finish_flag_def add_score_def score_fits_def validate_accumulated_medium_score_def commit_def Let_def)

text \<open>The parts of \<open>writable\<close> the database checks when the flag row is flushed.\<close>

lemma flag_row_insertable:
  assumes "db_ok w" "get_row es_id (es_id es) (db_exam_sessions w) = Some es"
    and "confidence_valid (fd_confidence d) = Inr ()"
  shows "flag_insertable w (flag_row fid now es code sev d) \<longleftrightarrow>
    \<not> has_key fl_id (db_flags w) fid \<and>
    (case fd_suppressed_by_exemption_id d of None \<Rightarrow> True | Some x \<Rightarrow> has_key ae_id (db_accommodation_exemptions w) x)"
proof -
  have es: "es \<in> set (db_exam_sessions w)" using get_row_Some[OF assms(2)] by simp
  with assms(1) have "has_key pc_id (db_policy_configs w) (es_policy_config_id es)"
    by (auto simp: ok_parts fk_def list_all_iff has_key_iff)
  moreover have "has_key es_id (db_exam_sessions w) (es_id es)" using es by (auto simp: has_key_iff)
  moreover have "flag_checks (flag_row fid now es code sev d)"
    using assms(3) by (auto simp: flag_checks_def flag_row_def confidence_valid_def split: if_splits)
  ultimately show ?thesis by (simp add: flag_insertable_def flag_row_def)
qed

lemma persist_flag_decision_outcome:
  assumes ok: "db_ok (working db)"
    and es: "get_row es_id (es_id es) (db_exam_sessions (working db)) = Some es"
    and fits: "score_fits fa num es d"
    and f_def: "f = flag_row fid now es (decision_code rule_code d) (severity_named (fd_severity d)) d"
  shows "if writable fid d (working db)
    then persist_flag_decision fa num fid now d es rule_code db =
      (\<lparr> committed = written fa num f d es (working db), working = written fa num f d es (working db) \<rparr>, Inr f)
      \<and> db_ok (written fa num f d es (working db))
    else \<exists>msg. snd (persist_flag_decision fa num fid now d es rule_code db) = Inl (FlagPersistenceError msg) \<and>
      committed (fst (persist_flag_decision fa num fid now d es rule_code db)) = committed db"
proof (cases "List.member (map flag_severity_value flag_severity_members) (fd_severity d)")
  case False
  then show ?thesis by (simp add: persist_flag_decision_def to_severity_cases writable_def)
next
  case sev: True
  show ?thesis
  proof (cases "confidence_valid (fd_confidence d)")
    case (Inl e)
    with sev show ?thesis
      by (auto simp: persist_flag_decision_def to_severity_cases writable_def confidence_valid_def split: if_splits)
  next
    case (Inr u)
    have conf: "confidence_valid (fd_confidence d) = Inr ()" using Inr by simp
    then have bounds: "0 \<le> ci_lower (fd_confidence d)" "ci_lower (fd_confidence d) \<le> ci_score (fd_confidence d)"
      "ci_score (fd_confidence d) \<le> ci_upper (fd_confidence d)" "ci_upper (fd_confidence d) \<le> 1"
      by (auto simp: confidence_valid_def split: if_splits)
    let ?w = "working db"
    let ?db1 = "db\<lparr> working := ?w\<lparr> db_flags := db_flags ?w @ [f] \<rparr> \<rparr>"
    have ins: "insert_flag f db = (if flag_insertable ?w f then (?db1, Inr ())
        else (rollback db, Inl (FlagPersistenceError ''Flag insert violated an integrity constraint'')))"
      by (rule insert_flag_ok[OF ok])
    have fid: "fl_id f = fid" by (simp add: f_def flag_row_def)
    have v: "validate_flag_row f = Inr f" unfolding f_def by (rule validate_flag_row_ok[OF conf])
    have unfold: "persist_flag_decision fa num fid now d es rule_code db =
       (case insert_flag f db of (db1, Inl e) \<Rightarrow> (db1, Inl e)
        | (db1, Inr _) \<Rightarrow> (case insert_links (link_rows fid (fd_contributing_event_ids d)) db1 of
            (db2, Inl e) \<Rightarrow> (db2, Inl e) | (db2, Inr _) \<Rightarrow> finish_flag fa num es d f db2))"
      using sev conf v by (simp add: persist_flag_decision_def to_severity_cases fid flip: f_def)
    show ?thesis
    proof (cases "flag_insertable ?w f")
      case False
      then have "\<not> writable fid d ?w"
        using flag_row_insertable[OF ok es conf] by (auto simp: f_def writable_def)
      with False show ?thesis by (simp add: unfold ins)
    next
      case True
      then have key: "\<not> has_key fl_id (db_flags ?w) fid"
        using flag_row_insertable[OF ok es conf] by (simp add: f_def)
      have ok1: "db_ok (working ?db1)" using db_ok_add_flag[OF ok, of f] True by simp
      have "list_all (\<lambda>l. fte_flag_id l \<noteq> fid) (db_flag_telemetry_events (working ?db1))"
        using old_links_other_flag[OF ok key] by simp
      note links = insert_links_ok[OF ok1 _ fid this, of "db_flags ?w" "fd_contributing_event_ids d", simplified]
      have wr: "writable fid d ?w \<longleftrightarrow> distinct (fd_contributing_event_ids d) \<and>
          list_all (has_key te_id (db_telemetry_events ?w)) (fd_contributing_event_ids d)"
        using sev bounds True flag_row_insertable[OF ok es conf] by (simp add: f_def writable_def)
      show ?thesis
      proof (cases "writable fid d ?w")
        case False
        with wr have "insert_links (link_rows fid (fd_contributing_event_ids d)) ?db1 = (rollback ?db1,
            Inl (FlagPersistenceError ''FlagTelemetryEvent link violated a uniqueness / FK constraint''))"
          by (simp add: links)
        with False True show ?thesis by (simp add: unfold ins)
      next
        case w: True
        let ?w2 = "?w\<lparr> db_flags := db_flags ?w @ [f], db_flag_telemetry_events :=
              db_flag_telemetry_events ?w @ link_rows fid (fd_contributing_event_ids d) \<rparr>"
        let ?db2 = "db\<lparr> working := ?w2 \<rparr>"
        have l: "insert_links (link_rows fid (fd_contributing_event_ids d)) ?db1 = (?db2, Inr ())"
          using w wr by (simp add: links)
        then have ok2: "db_ok (working ?db2)"
          by (auto simp: insert_links_def flush_def Let_def split: if_splits)
        show ?thesis
          using w True finish_flag_ok[OF ok2 fits, of f] written_ok[OF ok2 fits]
          by (simp add: unfold ins l written_def Let_def fid cong del: if_weak_cong)
      qed
    qed
  qed
qed

section \<open>Properties\<close>

text \<open>C25: on a consistent database a flag decision is written exactly when its severity is a
  known one, its interval is ordered inside the unit interval, its exemption exists and its
  event ids are distinct and stored.  Then the commit adds the flag row, its links numbered
  in the order of the decision, and the score delta, and nothing else; otherwise the call
  raises \<open>FlagPersistenceError\<close> and the committed database is what it was.\<close>

theorem flag_written_exactly:
  assumes "db_ok (working db)"
    and "get_row es_id (es_id es) (db_exam_sessions (working db)) = Some es"
    and "score_fits fa num es d"
  shows "if writable fid d (working db)
    then \<exists>f. snd (persist_flag_decision fa num fid now d es rule_code db) = Inr f \<and>
      fl_id f = fid \<and> fl_exam_session_id f = es_id es \<and> fl_status f = FST_RAISED \<and>
      flag_severity_value (fl_severity f) = fd_severity d \<and>
      fl_triggered_termination f = fd_triggered_termination d \<and>
      committed (fst (persist_flag_decision fa num fid now d es rule_code db)) = written fa num f d es (working db) \<and>
      db_ok (written fa num f d es (working db))
    else \<exists>msg. snd (persist_flag_decision fa num fid now d es rule_code db) = Inl (FlagPersistenceError msg) \<and>
      committed (fst (persist_flag_decision fa num fid now d es rule_code db)) = committed db"
proof (cases "writable fid d (working db)")
  case True
  then have "flag_severity_value (severity_named (fd_severity d)) = fd_severity d"
    by (auto simp: writable_def flag_severity_members_def severity_named_def)
  with True persist_flag_decision_outcome[OF assms refl, of fid now rule_code] show ?thesis
    by (simp add: flag_row_def)
next
  case False
  with persist_flag_decision_outcome[OF assms refl, of fid now rule_code] show ?thesis by simp
qed

definition demo_decision :: "uuid list \<Rightarrow> flag_decision" where
  "demo_decision ids = \<lparr> fd_rule_code = ''object_detected'', fd_severity = ''medium'', fd_confidence = certain,
     fd_triggered_termination = False, fd_suppressed_by_exemption_id = None, fd_detail = [],
     fd_contributing_event_ids = ids, fd_score_delta = 1 \<rparr>"

theorem flag_written_exactly_witness:
  "map es_accumulated_medium_score (db_exam_sessions (committed (fst
      (persist_flag_decision exact_arith id 41 14 (demo_decision [11, 10]) demo_session None (open_session demo_db))))) = [3]
   \<and> committed (fst (persist_flag_decision exact_arith id 41 14 (demo_decision [11, 99]) demo_session None
        (open_session demo_db))) = demo_db"
proof -
  have ok: "db_ok (working (open_session demo_db))" by (simp add: demo_db_ok)
  have es: "get_row es_id (es_id demo_session) (db_exam_sessions (working (open_session demo_db))) = Some demo_session"
    by (simp add: demo_db_def get_row_def)
  have fits: "score_fits exact_arith id demo_session (demo_decision ids)" for ids
    by (simp add: score_fits_def exact_arith_def demo_session_def demo_decision_def)
  have "writable 41 (demo_decision [11, 10]) (working (open_session demo_db))"
    by (simp add: writable_def demo_decision_def certain_def flag_severity_members_def has_key_def demo_db_def
        demo_flag_def demo_event_def)
  moreover have "\<not> writable 41 (demo_decision [11, 99]) (working (open_session demo_db))"
    by (simp add: writable_def demo_decision_def has_key_def demo_db_def demo_event_def)
  ultimately show ?thesis
    using flag_written_exactly[OF ok es fits, of 41 "[11, 10]" 14 None]
      flag_written_exactly[OF ok es fits, of 41 "[11, 99]" 14 None]
    by (auto simp: written_def demo_decision_def demo_db_def update_row_def demo_session_def exact_arith_def)
qed

end
