(* ===== verification/Uuid.thy ===== *)
theory Uuid
  imports Prelude
begin

text \<open>
  Hexadecimal text.  \<open>uuid_str\<close> is \<^verbatim>\<open>str(u)\<close> of Python's \<^verbatim>\<open>uuid.UUID\<close>: 32 lower-case digits in
  groups of 8, 4, 4, 4 and 12.  \<open>uuid_of_string\<close> is its constructor, which removes the
  decorations it tolerates and then reads 32 characters with \<^verbatim>\<open>int(hex, 16)\<close>.  \<open>py_int16\<close> is
  that conversion, on ASCII text: surrounding white space, a sign, a \<^verbatim>\<open>0x\<close> prefix and single
  underscores between digits are accepted.
\<close>

section \<open>Digits\<close>

definition hexdigit :: "nat \<Rightarrow> char" where
  "hexdigit n = (if n < 10 then char_of (48 + n) else char_of (87 + n))"

definition hexval :: "char \<Rightarrow> nat option" where
  "hexval c =
     (let k = of_char c :: nat in
      if 48 \<le> k \<and> k \<le> 57 then Some (k - 48)
      else if 97 \<le> k \<and> k \<le> 102 then Some (k - 87)
      else if 65 \<le> k \<and> k \<le> 70 then Some (k - 55)
      else None)"

lemma below_16: "n < 16 \<Longrightarrow> n \<in> {0,1,2,3,4,5,6,7,8,9,10,11,12,13,14,15::nat}"
  by simp presburger

lemma hexval_hexdigit [simp]: "n < 16 \<Longrightarrow> hexval (hexdigit n) = Some n"
  by (drule below_16) (auto simp: hexdigit_def hexval_def Let_def)

fun hex_digits :: "nat \<Rightarrow> nat \<Rightarrow> string" where
  "hex_digits 0 n = []"
| "hex_digits (Suc k) n = hex_digits k (n div 16) @ [hexdigit (n mod 16)]"

lemma length_hex_digits [simp]: "length (hex_digits k n) = k"
  by (induction k arbitrary: n) simp_all

section \<open>\<^verbatim>\<open>int(s, 16)\<close>\<close>

text \<open>Digits with single underscores between them; the boolean says whether an underscore may
  come next.\<close>

fun read_hex :: "nat \<Rightarrow> bool \<Rightarrow> string \<Rightarrow> nat option" where
  "read_hex acc after_digit [] = (if after_digit then Some acc else None)"
| "read_hex acc after_digit (c # cs) =
     (if c = CHR ''_'' then (if after_digit then read_hex acc False cs else None)
      else case hexval c of
             None \<Rightarrow> None
           | Some d \<Rightarrow> read_hex (acc * 16 + d) True cs)"

definition is_blank :: "char \<Rightarrow> bool" where
  "is_blank c \<longleftrightarrow> List.member [CHR '' '', CHR 0x09, CHR 0x0A, CHR 0x0B, CHR 0x0C, CHR 0x0D,
                              CHR 0x1C, CHR 0x1D, CHR 0x1E, CHR 0x1F] c"

definition strip_blank :: "string \<Rightarrow> string" where
  "strip_blank s = rev (dropWhile is_blank (rev (dropWhile is_blank s)))"

definition unsigned16 :: "string \<Rightarrow> nat option" where
  "unsigned16 s =
     (if length s \<ge> 2 \<and> s ! 0 = CHR ''0'' \<and> (s ! 1 = CHR ''x'' \<or> s ! 1 = CHR ''X'')
      then let cs = drop 2 s in
           read_hex 0 False (if cs \<noteq> [] \<and> hd cs = CHR ''_'' then tl cs else cs)
      else read_hex 0 False s)"

definition py_int16 :: "string \<Rightarrow> int option" where
  "py_int16 s =
     (let t = strip_blank s in
      if t \<noteq> [] \<and> hd t = CHR ''-'' then map_option (\<lambda>n. - int n) (unsigned16 (tl t))
      else if t \<noteq> [] \<and> hd t = CHR ''+'' then map_option int (unsigned16 (tl t))
      else map_option int (unsigned16 t))"

text \<open>Plain hexadecimal digits are read as their value.\<close>

definition hex_text :: "string \<Rightarrow> bool" where
  "hex_text s \<longleftrightarrow> list_all (\<lambda>c. hexval c \<noteq> None) s"

lemma hex_text_digits [simp]: "hex_text (hex_digits k n)"
  by (induction k arbitrary: n) (simp_all add: hex_text_def)

lemma hex_text_append [simp]: "hex_text (a @ b) \<longleftrightarrow> hex_text a \<and> hex_text b"
  by (simp add: hex_text_def)

lemma hexval_special [simp]:
  "hexval CHR ''_'' = None" "hexval CHR ''-'' = None" "hexval CHR ''+'' = None" "hexval CHR ''x'' = None"
  "hexval CHR ''X'' = None" "hexval CHR ''/'' = None" "hexval CHR ''.'' = None" "hexval CHR ''{'' = None"
  "hexval CHR ''}'' = None" "hexval CHR ''u'' = None"
  by (simp_all add: hexval_def Let_def)

lemma hexval_not_blank: "hexval c \<noteq> None \<Longrightarrow> \<not> is_blank c"
  by (auto simp: is_blank_def List.member_iff hexval_def Let_def)

definition hex_value :: "nat \<Rightarrow> string \<Rightarrow> nat" where
  "hex_value acc s = foldl (\<lambda>a c. a * 16 + the (hexval c)) acc s"

lemma read_hex_text: "hex_text s \<Longrightarrow> read_hex acc b s = (if s = [] \<and> \<not> b then None else Some (hex_value acc s))"
proof (induction s arbitrary: acc b)
  case (Cons c cs)
  then show ?case by (auto simp: hex_text_def hex_value_def)
qed (simp add: hex_value_def)

lemma hex_value_digits: "n < 16 ^ k \<Longrightarrow> hex_value acc (hex_digits k n) = acc * 16 ^ k + n"
proof (induction k arbitrary: n)
  case (Suc k)
  have "n div 16 < 16 ^ k" using Suc.prems by (simp add: less_mult_imp_div_less mult.commute)
  from Suc.IH[OF this] show ?case by (simp add: hex_value_def algebra_simps)
qed (simp add: hex_value_def)

lemma dropWhile_hex: "hex_text s \<Longrightarrow> dropWhile is_blank s = s"
  by (cases s) (auto simp: hex_text_def hexval_not_blank)

lemma strip_blank_hex: "hex_text s \<Longrightarrow> strip_blank s = s"
  by (simp add: strip_blank_def dropWhile_hex) (simp add: dropWhile_hex hex_text_def)

lemma hex_text_nth: "hex_text s \<Longrightarrow> i < length s \<Longrightarrow> hexval (s ! i) \<noteq> None"
  by (simp add: hex_text_def list_all_length)

lemma unsigned16_hex: "hex_text s \<Longrightarrow> s \<noteq> [] \<Longrightarrow> unsigned16 s = Some (hex_value 0 s)"
  using hex_text_nth[of s 1] by (auto simp: unsigned16_def read_hex_text)

lemma py_int16_hex:
  assumes "hex_text s" "s \<noteq> []"
  shows "py_int16 s = Some (int (hex_value 0 s))"
proof -
  have "hexval (hd s) \<noteq> None" using hex_text_nth[OF assms(1), of 0] assms(2) by (simp add: hd_conv_nth)
  then have "hd s \<noteq> CHR ''-''" "hd s \<noteq> CHR ''+''" by auto
  then show ?thesis using unsigned16_hex[OF assms]
    by (simp add: py_int16_def strip_blank_hex[OF assms(1)] Let_def)
qed

section \<open>UUID text\<close>

definition uuid_hex :: "uuid \<Rightarrow> string" where
  "uuid_hex u = hex_digits 32 (unat u)"

definition uuid_str :: "uuid \<Rightarrow> string" where
  "uuid_str u =
     (let h = uuid_hex u in
      take 8 h @ ''-'' @ take 4 (drop 8 h) @ ''-'' @ take 4 (drop 12 h) @ ''-'' @ take 4 (drop 16 h)
        @ ''-'' @ drop 20 h)"

text \<open>\<^verbatim>\<open>s.replace(pat, '')\<close> for a pattern that is not empty.\<close>

function remove_all :: "string \<Rightarrow> string \<Rightarrow> string" where
  "remove_all pat s =
     (if pat = [] then s
      else case s of
             [] \<Rightarrow> []
           | c # cs \<Rightarrow> if take (length pat) s = pat then remove_all pat (drop (length pat) s)
                      else c # remove_all pat cs)"
  by auto
termination by (relation "measure (\<lambda>(pat, s). length s)") auto

declare remove_all.simps [simp del]

definition strip_braces :: "string \<Rightarrow> string" where
  "strip_braces s =
     (let b = (\<lambda>c. c = CHR ''{'' \<or> c = CHR ''}'') in rev (dropWhile b (rev (dropWhile b s))))"

definition uuid_of_string :: "string \<Rightarrow> py_error + uuid" where
  "uuid_of_string s =
     (let h = remove_all ''-'' (strip_braces (remove_all ''uuid:'' (remove_all ''urn:'' s))) in
      if length h \<noteq> 32 then Inl (ValueError ''badly formed hexadecimal UUID string'')
      else case py_int16 h of
             None \<Rightarrow> Inl (ValueError ''invalid literal for int() with base 16'')
           | Some i \<Rightarrow> if 0 \<le> i \<and> i < 2 ^ 128 then Inr (word_of_int i)
                       else Inl (ValueError ''int is out of range (need a 128-bit value)''))"

lemma remove_all_no_head:
  "hd pat \<notin> set s \<Longrightarrow> remove_all pat s = s"
proof (induction s)
  case (Cons c cs)
  then show ?case by (subst remove_all.simps) (cases pat; auto)
qed (simp add: remove_all.simps)

lemma remove_dash_append: "remove_all ''-'' (a @ b) = remove_all ''-'' a @ remove_all ''-'' b"
proof (induction a)
  case Nil
  show ?case by (subst (2) remove_all.simps) simp
next
  case (Cons c cs)
  then show ?case by (subst (1 2) remove_all.simps) simp
qed

lemma remove_dash [simp]: "remove_all ''-'' ''-'' = []"
  by (subst remove_all.simps) (simp add: remove_all.simps)

lemma hex_text_no_dash: "hex_text s \<Longrightarrow> CHR ''-'' \<notin> set s"
  by (auto simp: hex_text_def list_all_iff)

lemma remove_dash_hex: "hex_text s \<Longrightarrow> remove_all ''-'' s = s"
  by (rule remove_all_no_head) (simp add: hex_text_no_dash)

lemma hex_text_take [simp]: "hex_text s \<Longrightarrow> hex_text (take n s)"
  by (metis append_take_drop_id hex_text_append)

lemma hex_text_drop [simp]: "hex_text s \<Longrightarrow> hex_text (drop n s)"
  by (metis append_take_drop_id hex_text_append)

lemma uuid_hex_text [simp]: "hex_text (uuid_hex u)" "length (uuid_hex u) = 32"
  by (simp_all add: uuid_hex_def)

text \<open>The characters of the printed form: hexadecimal digits and dashes.\<close>

lemma uuid_str_chars: "c \<in> set (uuid_str u) \<Longrightarrow> hexval c \<noteq> None \<or> c = CHR ''-''"
proof -
  have h: "list_all (\<lambda>c. hexval c \<noteq> None) (uuid_hex u)" using uuid_hex_text(1)[of u] by (simp add: hex_text_def)
  assume "c \<in> set (uuid_str u)"
  then have "c \<in> set (uuid_hex u) \<or> c = CHR ''-''"
    by (auto simp: uuid_str_def Let_def dest: in_set_takeD in_set_dropD)
  with h show ?thesis by (auto simp: list_all_iff)
qed

lemma uuid_str_avoids: "hexval c = None \<Longrightarrow> c \<noteq> CHR ''-'' \<Longrightarrow> c \<notin> set (uuid_str u)"
  using uuid_str_chars by blast

lemma strip_braces_none: "CHR ''{'' \<notin> set s \<Longrightarrow> CHR ''}'' \<notin> set s \<Longrightarrow> strip_braces s = s"
proof -
  assume a: "CHR ''{'' \<notin> set s" "CHR ''}'' \<notin> set s"
  have d: "dropWhile (\<lambda>c. c = CHR ''{'' \<or> c = CHR ''}'') xs = xs" if "CHR ''{'' \<notin> set xs" "CHR ''}'' \<notin> set xs" for xs
    using that by (cases xs) auto
  show ?thesis using a by (simp add: strip_braces_def d)
qed

lemma take_drop_join: "take n (drop m xs) @ drop (n + m) xs = drop m xs"
  by (metis append_take_drop_id drop_drop)

lemma uuid_str_undecorated: "remove_all ''-'' (uuid_str u) = uuid_hex u"
proof -
  let ?h = "uuid_hex u"
  have "remove_all ''-'' (uuid_str u)
      = take 8 ?h @ take 4 (drop 8 ?h) @ take 4 (drop 12 ?h) @ take 4 (drop 16 ?h) @ drop 20 ?h"
    unfolding uuid_str_def Let_def by (simp only: remove_dash_append remove_dash) (simp add: remove_dash_hex)
  also have "\<dots> = ?h"
    using take_drop_join[of 4 16 ?h] take_drop_join[of 4 12 ?h] take_drop_join[of 4 8 ?h] by simp
  finally show ?thesis .
qed

text \<open>Printing and reading back is the identity.\<close>

lemma uuid_of_uuid_str: "uuid_of_string (uuid_str u) = Inr u"
proof -
  have "remove_all ''urn:'' (uuid_str u) = uuid_str u" "remove_all ''uuid:'' (uuid_str u) = uuid_str u"
    by (rule remove_all_no_head, simp add: uuid_str_avoids)+
  moreover have "strip_braces (uuid_str u) = uuid_str u"
    by (rule strip_braces_none) (simp_all add: uuid_str_avoids)
  moreover have "py_int16 (uuid_hex u) = Some (int (unat u))"
  proof -
    have "unat u < 16 ^ 32" using unsigned_less[of u] by simp
    from hex_value_digits[OF this, of 0] have "hex_value 0 (uuid_hex u) = unat u" by (simp add: uuid_hex_def)
    moreover have "uuid_hex u \<noteq> []" by (metis list.size(3) uuid_hex_text(2) zero_neq_numeral)
    ultimately show ?thesis using py_int16_hex[OF uuid_hex_text(1)[of u]] by simp
  qed
  moreover have "int (unat u) < 2 ^ 128" using unsigned_less[of u] by simp
  ultimately show ?thesis by (simp add: uuid_of_string_def uuid_str_undecorated)
qed

lemma uuid_str_inj: "uuid_str u = uuid_str v \<longleftrightarrow> u = v"
  by (metis uuid_of_uuid_str sum.inject(2))

end
