(* ===== verification/FlagWorker.thy ===== *)
theory FlagWorker
  imports FlagPersistence WsServer Uuid
begin

text \<open>
  The worker that drains the dispatcher's flag queue
  (\<^verbatim>\<open>orchestration/_flag_persistence_worker.py\<close>): telemetry rows from buffered messages, one
  database session per queue item, the termination record and the kill-switch callback.

  Fresh keys and clocks come with each item as a \<open>stamp\<close>.  What SQLAlchemy does when
  \<^verbatim>\<open>expunge\<close> is called on a row whose savepoint flush has failed is the parameter
  \<open>expunge_raises\<close>: the failed flush has already removed the row from the session, and
  versions that check this raise \<^verbatim>\<open>InvalidRequestError\<close>.  The callback may raise; the worker
  swallows that, so the model only records that it was called.
\<close>

section \<open>Telemetry rows\<close>

record stamp =
  st_flag_id :: uuid
  st_termination_id :: uuid
  st_event_id :: uuid
  st_now :: timestamp

definition event_key :: "stamp \<Rightarrow> buffered_event \<Rightarrow> uuid" where
  "event_key st be = (case be_synthetic_id be of Some i \<Rightarrow> i | None \<Rightarrow> st_event_id st)"

definition telemetry_row ::
  "stamp \<Rightarrow> uuid \<Rightarrow> buffered_event \<Rightarrow> telemetry_modality \<Rightarrow> string \<Rightarrow> rat \<Rightarrow> jdict \<Rightarrow> jval list \<Rightarrow> telemetry_event" where
  "telemetry_row st sid be modality event_type confidence raw boxes =
     \<lparr> te_id = event_key st be, te_exam_session_id = sid, te_modality = modality, te_event_type = event_type,
       te_occurred_at = ce_captured_at (envelope (be_message be)), te_received_at = be_received_at be,
       te_confidence = confidence, te_raw_value = raw, te_bounding_boxes = boxes, te_correlation_id = None \<rparr>"

definition build_from_telemetry_light :: "stamp \<Rightarrow> uuid \<Rightarrow> buffered_event \<Rightarrow> telemetry_light_payload \<Rightarrow> telemetry_event" where
  "build_from_telemetry_light st sid be p =
     telemetry_row st sid be TM_FACE
       (if tlp_face_count p \<ge> 2 then ''second_person''
        else if tlp_face_count p = 0 then ''no_face'' else ''one_face'')
       (tlp_confidence p)
       (case tlp_bbox p of None \<Rightarrow> [] | Some b \<Rightarrow> [(''bbox'', JList (map JFloat b))])
       (case tlp_bbox p of None \<Rightarrow> [] | Some b \<Rightarrow> [JList (map JFloat b)])"

definition build_from_telemetry_heavy :: "stamp \<Rightarrow> uuid \<Rightarrow> buffered_event \<Rightarrow> telemetry_heavy_frame_payload \<Rightarrow> telemetry_event" where
  "build_from_telemetry_heavy st sid be p =
     telemetry_row st sid be TM_SYSTEM ''heavy_frame_received'' 1
       [(''resolution'', JList (map JInt (thp_resolution p))), (''encoding'', JStr (thp_encoding p))] []"

definition build_from_telemetry_audio :: "stamp \<Rightarrow> uuid \<Rightarrow> buffered_event \<Rightarrow> telemetry_audio_chunk_payload \<Rightarrow> telemetry_event" where
  "build_from_telemetry_audio st sid be p =
     telemetry_row st sid be TM_AUDIO ''audio_chunk_received'' 1
       [(''sample_rate_hz'', JInt (tap_sample_rate_hz p)), (''duration_ms'', JInt (tap_duration_ms p))] []"

definition build_from_telemetry_browser :: "stamp \<Rightarrow> uuid \<Rightarrow> buffered_event \<Rightarrow> telemetry_browser_event_payload \<Rightarrow> telemetry_event" where
  "build_from_telemetry_browser st sid be p =
     telemetry_row st sid be TM_BROWSER (tbp_event_type p) 1 [(''detail'', JDict (tbp_detail p))] []"

text \<open>The row is built with a placeholder session, which the caller overwrites with \<open>sid\<close>; the
  constructor runs the confidence validator.\<close>

definition build_telemetry_event_row :: "stamp \<Rightarrow> uuid \<Rightarrow> buffered_event \<Rightarrow> py_error + telemetry_event" where
  "build_telemetry_event_row st sid be =
     bind_err
       (case be_message be of
          TelemetryLight _ p \<Rightarrow> Inr (build_from_telemetry_light st sid be p)
        | TelemetryHeavyFrame _ p \<Rightarrow> Inr (build_from_telemetry_heavy st sid be p)
        | TelemetryAudioChunk _ p \<Rightarrow> Inr (build_from_telemetry_audio st sid be p)
        | TelemetryBrowserEvent _ p \<Rightarrow> Inr (build_from_telemetry_browser st sid be p)
        | KillSwitchAcknowledge _ _ \<Rightarrow> Inl (ValueError ''Cannot build TelemetryEvent''))
       (\<lambda>row. bind_err (validate_confidence (te_confidence row)) (\<lambda>_. Inr row))"

text \<open>Inside a savepoint: a failed flush restores the session to the state before it.\<close>

definition insert_telemetry_event ::
  "bool \<Rightarrow> stamp \<Rightarrow> uuid \<Rightarrow> buffered_event \<Rightarrow> db_session \<Rightarrow> db_session \<times> (persistence_error + unit)" where
  "insert_telemetry_event expunge_raises st sid be db =
     (case build_telemetry_event_row st sid be of
        Inl e \<Rightarrow> (db, Inl (PersistRaised e))
      | Inr row \<Rightarrow>
          (let db1 = db\<lparr> working := (working db)
                          \<lparr> db_telemetry_events := db_telemetry_events (working db) @ [row] \<rparr> \<rparr> in
           case flush db1 of
             Inr _ \<Rightarrow> (db1, Inr ())
           | Inl _ \<Rightarrow> (db, if expunge_raises then Inl InvalidRequestError else Inr ())))"

fun insert_events ::
  "bool \<Rightarrow> stamp \<Rightarrow> uuid \<Rightarrow> buffered_event list \<Rightarrow> db_session \<Rightarrow> db_session \<times> (persistence_error + unit)" where
  "insert_events er st sid [] db = (db, Inr ())"
| "insert_events er st sid (be # bes) db =
     (case insert_telemetry_event er st sid be db of
        (db1, Inl e) \<Rightarrow> (db1, Inl e)
      | (db1, Inr _) \<Rightarrow> insert_events er st sid bes db1)"

section \<open>One queue item\<close>

record persisted_flag =
  pf_decision :: flag_decision
  pf_contributing_events :: "buffered_event list"

type_synonym kill_call = "string \<times> string"

definition new_termination :: "stamp \<Rightarrow> uuid \<Rightarrow> flag \<Rightarrow> flag_decision \<Rightarrow> termination_record" where
  "new_termination st sid f d =
     \<lparr> tr_id = st_termination_id st, tr_exam_session_id = sid, tr_triggering_flag_id = Some (fl_id f),
       tr_reason = fd_rule_code d, tr_client_delivery_status = DS_PENDING, tr_client_command_sent_at = None,
       tr_client_acknowledged_at = None, tr_lms_delivery_status = DS_PENDING, tr_lms_callback_sent_at = None,
       tr_lms_callback_completed_at = None, tr_evidence_sealed_at = None, tr_created_at = st_now st \<rparr>"

text \<open>An assignment to an existing record is written by the commit, whose listener raises.\<close>

definition handle_kill_switch ::
  "bool \<Rightarrow> stamp \<Rightarrow> uuid \<Rightarrow> flag \<Rightarrow> flag_decision \<Rightarrow> db_session
    \<Rightarrow> db_session \<times> (persistence_error + unit) \<times> kill_call list" where
  "handle_kill_switch has_callback st sid f d db =
     (case filter (\<lambda>t. tr_exam_session_id t = sid) (db_termination_records (working db)) of
        [] \<Rightarrow>
          (let db1 = db\<lparr> working := (working db)\<lparr> db_termination_records :=
                           db_termination_records (working db) @ [new_termination st sid f d] \<rparr> \<rparr> in
           case commit db1 of
             Inl e \<Rightarrow> (db1, Inl (PersistDbError e), [])
           | Inr db2 \<Rightarrow> (db2, Inr (), if has_callback then [(uuid_str (fl_id f), fd_rule_code d)] else []))
      | [t] \<Rightarrow> (db, Inl (PersistDbError (reject_termination_record_update t)), [])
      | _ \<Rightarrow> (db, Inl MultipleResultsFound, []))"

text \<open>The result is the committed database after the session is closed (every exception rolls
  back), the outcome and the callbacks made.\<close>

definition persist_one ::
  "float_arith \<Rightarrow> (rat \<Rightarrow> rat) \<Rightarrow> bool \<Rightarrow> bool \<Rightarrow> uuid \<Rightarrow> stamp \<Rightarrow> persisted_flag \<Rightarrow> database
    \<Rightarrow> database \<times> (persistence_error + unit) \<times> kill_call list" where
  "persist_one fa num er has_callback sid st item d0 =
     (let db = open_session d0; d = pf_decision item in
      case get_row es_id sid (db_exam_sessions (working db)) of
        None \<Rightarrow> (d0, Inr (), [])
      | Some es \<Rightarrow>
     (case insert_events er st (es_id es) (pf_contributing_events item) db of
        (db1, Inl e) \<Rightarrow> (committed db1, Inl e, [])
      | (db1, Inr _) \<Rightarrow>
     (case persist_flag_decision fa num (st_flag_id st) (st_now st) d es None db1 of
        (db2, Inl e) \<Rightarrow> (committed db2, Inl e, [])
      | (db2, Inr f) \<Rightarrow>
     (case commit db2 of
        Inl e \<Rightarrow> (committed db2, Inl (PersistDbError e), [])
      | Inr db3 \<Rightarrow>
          if fd_triggered_termination d
          then (case handle_kill_switch has_callback st sid f d db3 of
                  (db4, r, calls) \<Rightarrow> (committed db4, r, calls))
          else (committed db3, Inr (), [])))))"

section \<open>The loop\<close>

record worker =
  w_db :: database
  w_persisted_count :: int
  w_error_count :: int
  w_calls :: "kill_call list"

definition worker_step ::
  "float_arith \<Rightarrow> (rat \<Rightarrow> rat) \<Rightarrow> bool \<Rightarrow> bool \<Rightarrow> uuid \<Rightarrow> worker \<Rightarrow> stamp \<times> persisted_flag \<Rightarrow> worker" where
  "worker_step fa num er has_callback sid w si =
     (case persist_one fa num er has_callback sid (fst si) (snd si) (w_db w) of
        (d, Inr _, calls) \<Rightarrow>
          w\<lparr> w_db := d, w_persisted_count := w_persisted_count w + 1, w_calls := w_calls w @ calls \<rparr>
      | (d, Inl _, calls) \<Rightarrow>
          w\<lparr> w_db := d, w_error_count := w_error_count w + 1, w_calls := w_calls w @ calls \<rparr>)"

definition new_worker :: "database \<Rightarrow> worker" where
  "new_worker d = \<lparr> w_db = d, w_persisted_count = 0, w_error_count = 0, w_calls = [] \<rparr>"

definition worker_run ::
  "float_arith \<Rightarrow> (rat \<Rightarrow> rat) \<Rightarrow> bool \<Rightarrow> bool \<Rightarrow> uuid \<Rightarrow> (stamp \<times> persisted_flag) list \<Rightarrow> worker \<Rightarrow> worker" where
  "worker_run fa num er has_callback sid items w = foldl (worker_step fa num er has_callback sid) w items"

section \<open>What a committed database keeps\<close>

text \<open>\<open>grows d d'\<close>: \<open>d'\<close> is consistent and its audit tables extend those of \<open>d\<close> at the end.\<close>

definition grows :: "database \<Rightarrow> database \<Rightarrow> bool" where
  "grows d d' \<longleftrightarrow> db_ok d' \<and>
     (\<exists>es. db_telemetry_events d' = db_telemetry_events d @ es) \<and>
     (\<exists>fs. db_flags d' = db_flags d @ fs) \<and>
     (\<exists>ls. db_flag_telemetry_events d' = db_flag_telemetry_events d @ ls) \<and>
     (\<exists>ts. db_termination_records d' = db_termination_records d @ ts)"

lemma grows_refl: "db_ok d \<Longrightarrow> grows d d"
  by (simp add: grows_def)

lemma grows_trans: "grows a b \<Longrightarrow> grows b c \<Longrightarrow> grows a c"
  by (auto simp: grows_def)

text \<open>The event phase changes only the working database, and only by appending event rows.\<close>

lemma insert_telemetry_event_cases:
  "fst (insert_telemetry_event er st sid be db) = db \<or>
   (\<exists>row. build_telemetry_event_row st sid be = Inr row \<and>
      fst (insert_telemetry_event er st sid be db)
        = db\<lparr> working := (working db)\<lparr> db_telemetry_events := db_telemetry_events (working db) @ [row] \<rparr> \<rparr> \<and>
      db_ok ((working db)\<lparr> db_telemetry_events := db_telemetry_events (working db) @ [row] \<rparr>))"
  by (auto simp: insert_telemetry_event_def flush_def Let_def split: sum.splits)

lemma insert_events_shape:
  "db_ok (working db) \<Longrightarrow> \<exists>rows. fst (insert_events er st sid bes db)
     = db\<lparr> working := (working db)\<lparr> db_telemetry_events := db_telemetry_events (working db) @ rows \<rparr> \<rparr> \<and>
     db_ok (working (fst (insert_events er st sid bes db)))"
proof (induction bes arbitrary: db)
  case Nil
  show ?case using Nil by (intro exI[of _ "[]"]) simp
next
  case (Cons be bes)
  obtain db1 r where r: "insert_telemetry_event er st sid be db = (db1, r)" by fastforce
  from insert_telemetry_event_cases[of er st sid be db] r Cons.prems
  obtain rows1 where db1: "db1 = db\<lparr> working := (working db)
      \<lparr> db_telemetry_events := db_telemetry_events (working db) @ rows1 \<rparr> \<rparr>" and ok1: "db_ok (working db1)"
    by (auto intro: that[of "[]"])
  show ?case
  proof (cases r)
    case (Inl e)
    with r db1 ok1 show ?thesis by auto
  next
    case (Inr u)
    from Cons.IH[OF ok1] obtain rows2 where
      "fst (insert_events er st sid bes db1) = db1\<lparr> working := (working db1)
         \<lparr> db_telemetry_events := db_telemetry_events (working db1) @ rows2 \<rparr> \<rparr>"
      "db_ok (working (fst (insert_events er st sid bes db1)))" by blast
    with r Inr db1 show ?thesis by (intro exI[of _ "rows1 @ rows2"]) simp
  qed
qed

text \<open>A flag write either commits the extended database or leaves the committed one.\<close>

lemma finish_flag_cases:
  "(finish_flag fa num es d f db = (db', r)) \<Longrightarrow>
     committed db' = committed db \<and> (\<exists>e. r = Inl e) \<or>
     (db_ok (committed db') \<and> working db' = committed db' \<and> r = Inr f \<and>
      (\<exists>ss. committed db' = (working db)\<lparr> db_exam_sessions := ss \<rparr>))"
proof -
  have same: "\<exists>ss. w = w\<lparr> db_exam_sessions := ss \<rparr>" for w :: database
    by (rule exI[of _ "db_exam_sessions w"]) simp
  assume "finish_flag fa num es d f db = (db', r)"
  then show ?thesis using same
    by (auto simp: finish_flag_def add_score_def commit_def bind_err_eq_Inr split: sum.splits if_splits)
qed

lemma persist_flag_decision_cases:
  assumes "persist_flag_decision fa num fid now d es rc db = (db', r)"
  shows "committed db' = committed db \<and> (\<exists>e. r = Inl e) \<or>
     db_ok (committed db') \<and> working db' = committed db' \<and>
     (\<exists>f ss. r = Inr f \<and> fl_id f = fid \<and> fl_triggered_termination f = fd_triggered_termination d \<and>
        fl_exam_session_id f = es_id es \<and>
        committed db' = (working db)\<lparr> db_flags := db_flags (working db) @ [f],
          db_flag_telemetry_events := db_flag_telemetry_events (working db)
            @ link_rows fid (fd_contributing_event_ids d), db_exam_sessions := ss \<rparr>)"
proof -
  let ?w = "\<lambda>f. (working db)\<lparr> db_flags := db_flags (working db) @ [f],
     db_flag_telemetry_events := db_flag_telemetry_events (working db) @ link_rows fid (fd_contributing_event_ids d) \<rparr>"
  have validated: "validate_flag_row f = Inr f' \<Longrightarrow> f' = f" for f f'
    by (auto simp: validate_flag_row_def bind_err_eq_Inr)
  have ins: "insert_flag f db = (db\<lparr> working := (working db)\<lparr> db_flags := db_flags (working db) @ [f] \<rparr> \<rparr>, Inr ())
      \<or> (\<exists>e. insert_flag f db = (rollback db, Inl e))" for f
    by (auto simp: insert_flag_def flush_def rollback_def Let_def)
  have lns: "insert_links ls db1 = (db1\<lparr> working := (working db1)\<lparr> db_flag_telemetry_events :=
        db_flag_telemetry_events (working db1) @ ls \<rparr> \<rparr>, Inr ())
      \<or> (\<exists>e. insert_links ls db1 = (rollback db1, Inl e))" for ls db1
    by (auto simp: insert_links_def flush_def rollback_def Let_def)
  consider (e) "\<exists>e. r = Inl e" "committed db' = committed db"
    | (ok) f where "fl_id f = fid" "fl_triggered_termination f = fd_triggered_termination d"
      "fl_exam_session_id f = es_id es" "finish_flag fa num es d f (db\<lparr> working := ?w f \<rparr>) = (db', r)"
  proof (cases "to_severity (fd_severity d)")
    case (Inl e)
    with assms e show ?thesis by (auto simp: persist_flag_decision_def)
  next
    case (Inr sev)
    define f where "f = flag_row fid now es (decision_code rc d) sev d"
    have f: "fl_id f = fid" "fl_triggered_termination f = fd_triggered_termination d" "fl_exam_session_id f = es_id es"
      by (simp_all add: f_def flag_row_def)
    note a = assms[unfolded persist_flag_decision_def Inr sum.case, folded f_def]
    show ?thesis
    proof (cases "confidence_valid (fd_confidence d)")
      case (Inl x)
      with a e show ?thesis by auto
    next
      case conf: (Inr x)
      show ?thesis
      proof (cases "validate_flag_row f")
        case (Inl x)
        with a conf e show ?thesis by auto
      next
        case (Inr f')
        with validated have "validate_flag_row f = Inr f" by simp
        with a conf ins[of f] lns[of "link_rows fid (fd_contributing_event_ids d)"
            "db\<lparr> working := (working db)\<lparr> db_flags := db_flags (working db) @ [f] \<rparr> \<rparr>"] e ok[of f] f
        show ?thesis by auto
      qed
    qed
  qed
  then show ?thesis
  proof cases
    case e
    then show ?thesis by blast
  next
    case (ok f)
    from finish_flag_cases[OF ok(4)] ok(1-3) show ?thesis by auto
  qed
qed

section \<open>One item\<close>

lemma handle_kill_switch_cases:
  assumes "handle_kill_switch cb st sid f d db = (db', r, calls)" "db_ok (committed db)" "working db = committed db"
  shows "(committed db' = committed db \<and> (\<exists>e. r = Inl e) \<and> calls = []) \<or>
     (r = Inr () \<and> \<not> has_key tr_exam_session_id (db_termination_records (committed db)) sid \<and>
      db_ok (committed db') \<and>
      committed db' = (committed db)\<lparr> db_termination_records :=
         db_termination_records (committed db) @ [new_termination st sid f d] \<rparr> \<and>
      calls = (if cb then [(uuid_str (fl_id f), fd_rule_code d)] else []))"
proof (cases "filter (\<lambda>t. tr_exam_session_id t = sid) (db_termination_records (working db))")
  case Nil
  then have "\<not> has_key tr_exam_session_id (db_termination_records (committed db)) sid"
    using assms(3) by (auto simp: has_key_iff filter_empty_conv)
  with Nil assms show ?thesis by (auto simp: handle_kill_switch_def commit_def Let_def split: if_splits)
next
  case (Cons t ts)
  with assms show ?thesis by (cases ts) (auto simp: handle_kill_switch_def)
qed

text \<open>Every run of \<open>persist_one\<close> commits nothing, or a flag, or a flag and a termination record
  with its callback.\<close>

definition flag_added :: "database \<Rightarrow> database \<Rightarrow> uuid \<Rightarrow> persisted_flag \<Rightarrow> flag \<Rightarrow> bool" where
  "flag_added d d' sid item f \<longleftrightarrow> grows d d' \<and> db_flags d' = db_flags d @ [f] \<and>
     fl_exam_session_id f = sid \<and> fl_triggered_termination f = fd_triggered_termination (pf_decision item) \<and>
     db_termination_records d' = db_termination_records d"

lemma persist_one_cases:
  assumes "persist_one fa num er cb sid st item d = (d', r, calls)" "db_ok d"
  obtains (kept) "d' = d" "calls = []" "(\<exists>e. r = Inl e) \<or> \<not> has_key es_id (db_exam_sessions d) sid"
  | (flagged) f where "flag_added d d' sid item f" "fl_id f = st_flag_id st" "calls = []"
      "if fd_triggered_termination (pf_decision item) then (\<exists>e. r = Inl e) else r = Inr ()"
  | (terminated) f d1 where "flag_added d d1 sid item f" "fl_id f = st_flag_id st" "r = Inr ()"
      "fd_triggered_termination (pf_decision item)"
      "\<not> has_key tr_exam_session_id (db_termination_records d1) sid" "db_ok d'"
      "d' = d1\<lparr> db_termination_records := db_termination_records d1 @ [new_termination st sid f (pf_decision item)] \<rparr>"
      "calls = (if cb then [(uuid_str (fl_id f), fd_rule_code (pf_decision item))] else [])"
proof (cases "get_row es_id sid (db_exam_sessions d)")
  case None
  then have "\<not> has_key es_id (db_exam_sessions d) sid" by (simp add: get_row_None has_key_iff)
  with None assms kept show ?thesis by (simp add: persist_one_def Let_def)
next
  case (Some es)
  then have es: "es_id es = sid" using get_row_Some by fastforce
  obtain db1 r1 where i: "insert_events er st sid (pf_contributing_events item) (open_session d) = (db1, r1)"
    by fastforce
  from insert_events_shape[of "open_session d" er st sid "pf_contributing_events item"] i assms(2)
  obtain rows where db1: "committed db1 = d" "working db1 = d\<lparr> db_telemetry_events := db_telemetry_events d @ rows \<rparr>"
    by auto
  show ?thesis
  proof (cases r1)
    case (Inl e)
    with i Some es assms db1 kept show ?thesis by (auto simp: persist_one_def Let_def)
  next
    case r1: (Inr u)
    obtain db2 r2 where p: "persist_flag_decision fa num (st_flag_id st) (st_now st) (pf_decision item) es None db1 = (db2, r2)"
      by fastforce
    from persist_flag_decision_cases[OF p] show ?thesis
    proof (elim disjE conjE exE)
      fix e assume "committed db2 = committed db1" "r2 = Inl e"
      with p i r1 Some es assms db1 kept show ?thesis by (auto simp: persist_one_def Let_def)
    next
      fix f ss assume ok: "db_ok (committed db2)" "working db2 = committed db2" and f: "r2 = Inr f"
        "fl_id f = st_flag_id st" "fl_triggered_termination f = fd_triggered_termination (pf_decision item)"
        "fl_exam_session_id f = es_id es"
        and c: "committed db2 = (working db1)\<lparr> db_flags := db_flags (working db1) @ [f],
          db_flag_telemetry_events := db_flag_telemetry_events (working db1)
            @ link_rows (st_flag_id st) (fd_contributing_event_ids (pf_decision item)), db_exam_sessions := ss \<rparr>"
      have added: "flag_added d (committed db2) sid item f"
        using ok f es by (simp add: flag_added_def grows_def c db1)
      obtain db3 where db3: "commit db2 = Inr db3" "committed db3 = committed db2" "working db3 = committed db3"
        using ok by (simp add: commit_def)
      show ?thesis
      proof (cases "fd_triggered_termination (pf_decision item)")
        case False
        with p i r1 Some es assms f db3 have "d' = committed db2" "r = Inr ()" "calls = []"
          by (auto simp: persist_one_def Let_def)
        with added f False flagged show ?thesis by simp
      next
        case True
        obtain db4 r4 c4 where h: "handle_kill_switch cb st sid f (pf_decision item) db3 = (db4, r4, c4)"
          by (metis prod_cases3)
        with True p i r1 Some es assms f db3 have d': "d' = committed db4" "r = r4" "calls = c4"
          by (auto simp: persist_one_def Let_def)
        from handle_kill_switch_cases[OF h _ db3(3)] ok db3 show ?thesis
          using d' added f True flagged terminated by auto
      qed
    qed
  qed
qed

lemma persist_one_grows:
  assumes "persist_one fa num er cb sid st item d = (d', r, calls)" "db_ok d"
  shows "grows d d'"
  using assms
proof (cases rule: persist_one_cases)
  case (terminated f d1)
  then show ?thesis by (auto simp: flag_added_def grows_def)
qed (auto simp: grows_refl assms flag_added_def)

section \<open>Runs\<close>

text \<open>The invariant of the loop: at most one callback, made for a committed flag that triggers
  termination and a committed record that names it.\<close>

definition call_recorded :: "uuid \<Rightarrow> database \<Rightarrow> kill_call \<Rightarrow> bool" where
  "call_recorded sid d c \<longleftrightarrow> (\<exists>f t. f \<in> set (db_flags d) \<and> t \<in> set (db_termination_records d) \<and>
     fl_triggered_termination f \<and> fl_exam_session_id f = sid \<and> tr_exam_session_id t = sid \<and>
     tr_triggering_flag_id t = Some (fl_id f) \<and> c = (uuid_str (fl_id f), tr_reason t))"

definition worker_inv :: "uuid \<Rightarrow> database \<Rightarrow> worker \<Rightarrow> bool" where
  "worker_inv sid d w \<longleftrightarrow> grows d (w_db w) \<and> length (w_calls w) \<le> 1 \<and>
     list_all (call_recorded sid (w_db w)) (w_calls w) \<and>
     (w_calls w \<noteq> [] \<longrightarrow> has_key tr_exam_session_id (db_termination_records (w_db w)) sid)"

lemma call_recorded_mono: "grows d d' \<Longrightarrow> call_recorded sid d c \<Longrightarrow> call_recorded sid d' c"
  unfolding call_recorded_def grows_def by (elim conjE exE) (metis in_set_conv_decomp append_assoc Un_iff set_append)

lemma worker_inv_step:
  assumes "worker_inv sid d w"
  shows "worker_inv sid d (worker_step fa num er cb sid w si)"
proof -
  obtain d' r calls where p: "persist_one fa num er cb sid (fst si) (snd si) (w_db w) = (d', r, calls)"
    by (metis prod_cases3)
  have ok: "db_ok (w_db w)" using assms by (simp add: worker_inv_def grows_def)
  have g: "grows (w_db w) d'" by (rule persist_one_grows[OF p ok])
  have sel: "w_db (worker_step fa num er cb sid w si) = d'"
    "w_calls (worker_step fa num er cb sid w si) = w_calls w @ calls"
    using p by (auto simp: worker_step_def split: sum.splits)
  have old: "list_all (call_recorded sid d') (w_calls w)"
    using assms call_recorded_mono[OF g] by (auto simp: worker_inv_def list_all_iff)
  have kept: "has_key tr_exam_session_id (db_termination_records (w_db w)) k
      \<Longrightarrow> has_key tr_exam_session_id (db_termination_records d') k" for k
    using g by (auto simp: grows_def has_key_iff)
  have gd: "grows d d'" using assms grows_trans[OF _ g] by (simp add: worker_inv_def)
  from p ok show ?thesis
  proof (cases rule: persist_one_cases)
    case (terminated f d1)
    then have "w_calls w = []" using assms
      by (auto simp: worker_inv_def flag_added_def)
    moreover have "call_recorded sid d' (uuid_str (fl_id f), fd_rule_code (pf_decision (snd si)))"
      unfolding call_recorded_def using terminated
      by (intro exI[of _ f] exI[of _ "new_termination (fst si) sid f (pf_decision (snd si))"])
         (simp add: new_termination_def flag_added_def)
    ultimately show ?thesis using terminated gd
      by (auto simp: worker_inv_def sel has_key_iff new_termination_def)
  qed (use assms old kept gd in \<open>auto simp: worker_inv_def sel\<close>)
qed

lemma worker_run_snoc [simp]:
  "worker_run fa num er cb sid [] w = w"
  "worker_run fa num er cb sid (items @ [si]) w = worker_step fa num er cb sid (worker_run fa num er cb sid items w) si"
  by (simp_all add: worker_run_def)

lemma worker_run_inv: "db_ok d \<Longrightarrow> worker_inv sid d (worker_run fa num er cb sid items (new_worker d))"
  by (induction items rule: rev_induct)
     (simp_all add: worker_inv_step, simp add: worker_inv_def new_worker_def grows_refl)

lemma worker_run_counts:
  "w_persisted_count (worker_run fa num er cb sid items w) + w_error_count (worker_run fa num er cb sid items w)
     = w_persisted_count w + w_error_count w + int (length items)"
  by (induction items rule: rev_induct) (auto simp: worker_step_def split: prod.splits sum.splits)

section \<open>Properties of the worker\<close>

text \<open>whatever the dispatcher queued, the worker keeps the database consistent and only ever
  extends the audit tables; it counts every item once; and in its whole life it fires the
  kill-switch at most once, for a committed terminating flag of the session and after the
  termination record naming that flag is committed.\<close>

theorem worker_audit:
  assumes "db_ok d"
  shows "case worker_run fa num er cb sid items (new_worker d) of w \<Rightarrow>
    grows d (w_db w) \<and>
    w_persisted_count w + w_error_count w = int (length items) \<and>
    length (w_calls w) \<le> 1 \<and>
    (\<forall>c\<in>set (w_calls w). \<exists>f t. f \<in> set (db_flags (w_db w)) \<and> t \<in> set (db_termination_records (w_db w)) \<and>
       fl_triggered_termination f \<and> fl_exam_session_id f = sid \<and> tr_exam_session_id t = sid \<and>
       tr_triggering_flag_id t = Some (fl_id f) \<and> c = (uuid_str (fl_id f), tr_reason t))"
  using worker_run_inv[OF assms, of sid fa num er cb items] worker_run_counts[of fa num er cb sid items "new_worker d"]
  by (simp add: worker_inv_def call_recorded_def list_all_iff new_worker_def)

definition demo_stamp :: "uuid \<Rightarrow> stamp" where
  "demo_stamp k = \<lparr> st_flag_id = 100 + k, st_termination_id = 200 + k, st_event_id = 300 + k, st_now = 50 \<rparr>"

definition demo_kill :: persisted_flag where
  "demo_kill = \<lparr> pf_decision = (demo_decision [10])\<lparr> fd_severity := ''critical'', fd_triggered_termination := True,
      fd_score_delta := 0, fd_rule_code := ''second_person'' \<rparr>, pf_contributing_events = [] \<rparr>"

theorem worker_audit_witness:
  "length (w_calls (worker_run exact_arith id True True 1
     [(demo_stamp 1, demo_kill), (demo_stamp 2, demo_kill)] (new_worker demo_db))) \<le> 1"
  using worker_audit[OF demo_db_ok, of exact_arith id True True 1
     "[(demo_stamp 1, demo_kill), (demo_stamp 2, demo_kill)]"] by simp

section \<open>The outcome of an item\<close>

text \<open>The rows of messages that can be written.\<close>

definition row_of :: "stamp \<Rightarrow> uuid \<Rightarrow> buffered_event \<Rightarrow> telemetry_event" where
  "row_of st sid be = (case build_telemetry_event_row st sid be of Inr row \<Rightarrow> row)"

definition buildable :: "stamp \<Rightarrow> uuid \<Rightarrow> buffered_event \<Rightarrow> bool" where
  "buildable st sid be = is_Inr (build_telemetry_event_row st sid be)"

lemma buildable_row:
  assumes "buildable st sid be"
  shows "build_telemetry_event_row st sid be = Inr (row_of st sid be)"
    "te_id (row_of st sid be) = event_key st be" "te_exam_session_id (row_of st sid be) = sid"
    "telemetry_event_checks (row_of st sid be)"
proof -
  obtain row where row: "build_telemetry_event_row st sid be = Inr row"
    using assms by (auto simp: buildable_def is_Inr_iff)
  then show "build_telemetry_event_row st sid be = Inr (row_of st sid be)" by (simp add: row_of_def)
  have "te_id row = event_key st be \<and> te_exam_session_id row = sid \<and> telemetry_event_checks row"
    using row
    by (auto simp: build_telemetry_event_row_def bind_err_eq_Inr build_from_telemetry_light_def
        build_from_telemetry_heavy_def build_from_telemetry_audio_def build_from_telemetry_browser_def
        telemetry_row_def validate_confidence_def telemetry_event_checks_def
        split: client_message.splits if_splits)
  then show "te_id (row_of st sid be) = event_key st be" "te_exam_session_id (row_of st sid be) = sid"
    "telemetry_event_checks (row_of st sid be)"
    using row by (simp_all add: row_of_def)
qed

text \<open>A message that was accepted by the parser is buildable unless it is an acknowledgement.\<close>

lemma accepted_buildable:
  "check_message (be_message be) \<Longrightarrow> message_type (be_message be) \<noteq> KILL_SWITCH_ACK \<Longrightarrow> buildable st sid be"
  by (cases "be_message be")
     (simp_all add: buildable_def build_telemetry_event_row_def build_from_telemetry_light_def
        build_from_telemetry_heavy_def build_from_telemetry_audio_def build_from_telemetry_browser_def
        telemetry_row_def validate_confidence_def check_telemetry_light_def)

lemma insert_telemetry_event_fresh:
  assumes "db_ok (working db)" "has_key es_id (db_exam_sessions (working db)) sid" "buildable st sid be"
  shows "insert_telemetry_event er st sid be db =
    (if has_key te_id (db_telemetry_events (working db)) (event_key st be)
     then (db, if er then Inl InvalidRequestError else Inr ())
     else (db\<lparr> working := (working db)
             \<lparr> db_telemetry_events := db_telemetry_events (working db) @ [row_of st sid be] \<rparr> \<rparr>, Inr ()))"
  using db_ok_add_event[OF assms(1), of "row_of st sid be"] assms(2) buildable_row[OF assms(3)]
  by (auto simp: insert_telemetry_event_def flush_def Let_def event_insertable_def)

lemma insert_events_fresh:
  assumes "db_ok (working db)" "has_key es_id (db_exam_sessions (working db)) sid"
    "list_all (buildable st sid) bes" "distinct (map te_id (db_telemetry_events (working db)) @ map (event_key st) bes)"
  shows "insert_events er st sid bes db =
    (db\<lparr> working := (working db)
           \<lparr> db_telemetry_events := db_telemetry_events (working db) @ map (row_of st sid) bes \<rparr> \<rparr>, Inr ())"
  using assms
proof (induction bes arbitrary: db)
  case (Cons be bes)
  let ?db1 = "db\<lparr> working := (working db)
             \<lparr> db_telemetry_events := db_telemetry_events (working db) @ [row_of st sid be] \<rparr> \<rparr>"
  have b: "buildable st sid be" using Cons.prems(3) by simp
  have new: "\<not> has_key te_id (db_telemetry_events (working db)) (event_key st be)"
    using Cons.prems(4) by (auto simp: has_key_iff)
  then have one: "insert_telemetry_event er st sid be db = (?db1, Inr ())"
    using insert_telemetry_event_fresh[OF Cons.prems(1,2) b] by simp
  have "db_ok (working ?db1)"
    using db_ok_add_event[OF Cons.prems(1), of "row_of st sid be"] new Cons.prems(2) buildable_row[OF b]
    by (simp add: event_insertable_def)
  from Cons.IH[OF this] Cons.prems one show ?case by (auto simp: buildable_row[OF b])
qed simp

lemma insert_events_stored:
  assumes "db_ok (working db)" "has_key es_id (db_exam_sessions (working db)) sid"
    "list_all (buildable st sid) bes" "list_all (\<lambda>be. has_key te_id (db_telemetry_events (working db)) (event_key st be)) bes"
  shows "insert_events er st sid bes db = (db, if er \<and> bes \<noteq> [] then Inl InvalidRequestError else Inr ())"
  using assms
  by (induction bes) (auto simp: insert_telemetry_event_fresh)

text \<open>The database once the events of an item are in, and the flag the decision becomes.\<close>

definition with_events :: "stamp \<Rightarrow> uuid \<Rightarrow> buffered_event list \<Rightarrow> database \<Rightarrow> database" where
  "with_events st sid bes d =
     d\<lparr> db_telemetry_events := db_telemetry_events d @ map (row_of st sid) bes \<rparr>"

definition flag_of :: "stamp \<Rightarrow> exam_session \<Rightarrow> flag_decision \<Rightarrow> flag" where
  "flag_of st es d = flag_row (st_flag_id st) (st_now st) es (fd_rule_code d) (severity_named (fd_severity d)) d"

lemma unique_filter: "distinct (map f xs) \<Longrightarrow> x \<in> set xs \<Longrightarrow> \<exists>y. filter (\<lambda>z. f z = f x) xs = [y]"
proof (induction xs)
  case (Cons a xs)
  then show ?case by (cases "f a = f x") (auto simp: filter_empty_conv image_iff)
qed simp

text \<open>The part of \<open>persist_one\<close> after the events: given what the event phase leaves in the
  session, the outcome depends on whether the decision is writable, terminates, and whether
  the session has a termination record.\<close>

lemma persist_one_after_events:
  assumes es: "get_row es_id sid (db_exam_sessions d) = Some es" and fits: "score_fits fa num es (pf_decision item)"
    and ev: "insert_events er st sid (pf_contributing_events item) (open_session d)
        = (\<lparr> committed = d, working = w \<rparr>, Inr ())"
    and ok: "db_ok w" and same: "db_exam_sessions w = db_exam_sessions d"
      "db_termination_records w = db_termination_records d"
  shows "if \<not> writable (st_flag_id st) (pf_decision item) w
    then \<exists>msg. persist_one fa num er cb sid st item d = (d, Inl (FlagPersistenceError msg), [])
    else if \<not> fd_triggered_termination (pf_decision item)
    then persist_one fa num er cb sid st item d
      = (written fa num (flag_of st es (pf_decision item)) (pf_decision item) es w, Inr (), [])
    else if has_key tr_exam_session_id (db_termination_records d) sid
    then persist_one fa num er cb sid st item d
      = (written fa num (flag_of st es (pf_decision item)) (pf_decision item) es w,
         Inl (PersistDbError (ImmutableRecordError ''termination records are immutable'')), [])
    else if has_key tr_id (db_termination_records d) (st_termination_id st)
    then persist_one fa num er cb sid st item d
      = (written fa num (flag_of st es (pf_decision item)) (pf_decision item) es w,
         Inl (PersistDbError IntegrityError), [])
    else persist_one fa num er cb sid st item d
      = ((written fa num (flag_of st es (pf_decision item)) (pf_decision item) es w)
           \<lparr> db_termination_records := db_termination_records d
               @ [new_termination st sid (flag_of st es (pf_decision item)) (pf_decision item)] \<rparr>,
         Inr (), if cb then [(uuid_str (st_flag_id st), fd_rule_code (pf_decision item))] else [])"
proof -
  let ?d = "pf_decision item" and ?db1 = "\<lparr> committed = d, working = w \<rparr>"
  let ?f = "flag_of st es ?d"
  have sid: "es_id es = sid" using get_row_Some[OF es] by simp
  have es1: "get_row es_id (es_id es) (db_exam_sessions (working ?db1)) = Some es" using es same sid by simp
  note out = persist_flag_decision_outcome[OF _ es1 fits refl, of "st_flag_id st" "st_now st" None,
      simplified decision_code_def option.case, folded flag_of_def]
  show ?thesis
  proof (cases "writable (st_flag_id st) ?d w")
    case False
    obtain db2 r where p: "persist_flag_decision fa num (st_flag_id st) (st_now st) ?d es None ?db1 = (db2, r)" by fastforce
    from out ok False p have "\<exists>msg. r = Inl (FlagPersistenceError msg)" "committed db2 = d" by auto
    with False es ev p sid show ?thesis by (auto simp: persist_one_def Let_def)
  next
    case True
    let ?w = "written fa num ?f ?d es w"
    have p: "persist_flag_decision fa num (st_flag_id st) (st_now st) ?d es None ?db1
        = (\<lparr> committed = ?w, working = ?w \<rparr>, Inr ?f)" and okw: "db_ok ?w"
      using out ok True by simp_all
    have one: "persist_one fa num er cb sid st item d =
       (if fd_triggered_termination ?d
        then (case handle_kill_switch cb st sid ?f ?d \<lparr> committed = ?w, working = ?w \<rparr> of
                (db4, r, calls) \<Rightarrow> (committed db4, r, calls))
        else (?w, Inr (), []))"
      using es ev p sid okw by (simp add: persist_one_def Let_def commit_def)
    have tr: "db_termination_records ?w = db_termination_records d" by (simp add: written_def same)
    have fid: "fl_id ?f = st_flag_id st" by (simp add: flag_of_def flag_row_def)
    show ?thesis
    proof (cases "has_key tr_exam_session_id (db_termination_records d) sid")
      case has: True
      then obtain x where x: "x \<in> set (db_termination_records d)" "tr_exam_session_id x = sid"
        by (auto simp: has_key_iff)
      have "distinct (map tr_exam_session_id (db_termination_records d))"
        using okw tr by (simp add: db_ok_def keys_ok_def)
      from unique_filter[OF this x(1)] x(2)
      obtain t where t: "filter (\<lambda>t. tr_exam_session_id t = sid) (db_termination_records d) = [t]" by auto
      show ?thesis using True has by (simp add: one handle_kill_switch_def tr t reject_termination_record_update_def)
    next
      case no: False
      then have t: "filter (\<lambda>t. tr_exam_session_id t = sid) (db_termination_records d) = []"
        by (auto simp: has_key_iff filter_empty_conv)
      have "map es_id (db_exam_sessions ?w) = map es_id (db_exam_sessions d)"
        by (simp add: written_def same map_update_row)
      then have "has_key es_id (db_exam_sessions ?w) sid"
        using get_row_Some[OF es] by (auto simp: has_key_def List.member_iff)
      moreover have "has_key fl_id (db_flags ?w) (st_flag_id st)" by (simp add: written_def has_key_iff fid)
      ultimately have "db_ok (?w\<lparr> db_termination_records := db_termination_records d @ [new_termination st sid ?f ?d] \<rparr>)
          \<longleftrightarrow> \<not> has_key tr_id (db_termination_records d) (st_termination_id st)"
        using db_ok_add_termination[OF okw, of "new_termination st sid ?f ?d"] no tr fid
        by (simp add: termination_insertable_def new_termination_def termination_record_checks_def after_opt_def)
      then show ?thesis using True no
        by (simp add: one handle_kill_switch_def tr t Let_def commit_def fid)
    qed
  qed
qed

text \<open>An item whose messages are new: what the four properties below share.\<close>

definition fresh_item :: "stamp \<Rightarrow> uuid \<Rightarrow> persisted_flag \<Rightarrow> database \<Rightarrow> bool" where
  "fresh_item st sid item d \<longleftrightarrow> list_all (buildable st sid) (pf_contributing_events item) \<and>
     distinct (map te_id (db_telemetry_events d) @ map (event_key st) (pf_contributing_events item))"

lemma with_events_sel [simp]:
  "db_exam_sessions (with_events st sid bes d) = db_exam_sessions d"
  "db_termination_records (with_events st sid bes d) = db_termination_records d"
  "db_flags (with_events st sid bes d) = db_flags d"
  "db_telemetry_events (with_events st sid bes d) = db_telemetry_events d @ map (row_of st sid) bes"
  by (simp_all add: with_events_def)

lemma fresh_item_inserted:
  assumes "db_ok d" "get_row es_id sid (db_exam_sessions d) = Some es" "fresh_item st sid item d"
  shows "insert_events er st sid (pf_contributing_events item) (open_session d)
       = (\<lparr> committed = d, working = with_events st sid (pf_contributing_events item) d \<rparr>, Inr ())"
    "db_ok (with_events st sid (pf_contributing_events item) d)"
proof -
  have s: "has_key es_id (db_exam_sessions (working (open_session d))) sid"
    using get_row_has_key[of es_id sid "db_exam_sessions d"] assms(2) by simp
  show i: "insert_events er st sid (pf_contributing_events item) (open_session d)
       = (\<lparr> committed = d, working = with_events st sid (pf_contributing_events item) d \<rparr>, Inr ())" for er
    using insert_events_fresh[OF _ s, of st "pf_contributing_events item" er] assms
    by (simp add: fresh_item_def with_events_def open_session_def)
  from insert_events_shape[of "open_session d" True st sid "pf_contributing_events item"] i[of True] assms(1)
  show "db_ok (with_events st sid (pf_contributing_events item) d)" by auto
qed

text \<open>for an item with new messages and a writable decision the worker commits the telemetry
  rows, the flag with its links and score, and, for a terminating decision in a session
  without a termination record, the record and then the callback; it reports success.\<close>

theorem worker_persists:
  assumes "db_ok d" "get_row es_id sid (db_exam_sessions d) = Some es" "fresh_item st sid item d"
    and "score_fits fa num es (pf_decision item)"
    and "writable (st_flag_id st) (pf_decision item) (with_events st sid (pf_contributing_events item) d)"
    and "\<not> has_key tr_exam_session_id (db_termination_records d) sid"
    and "\<not> has_key tr_id (db_termination_records d) (st_termination_id st)"
  shows "persist_one fa num er cb sid st item d =
    (let f = flag_of st es (pf_decision item);
         d1 = written fa num f (pf_decision item) es (with_events st sid (pf_contributing_events item) d) in
     if fd_triggered_termination (pf_decision item)
     then (d1\<lparr> db_termination_records := db_termination_records d @ [new_termination st sid f (pf_decision item)] \<rparr>,
           Inr (), if cb then [(uuid_str (st_flag_id st), fd_rule_code (pf_decision item))] else [])
     else (d1, Inr (), []))"
  using persist_one_after_events[OF assms(2,4) fresh_item_inserted[OF assms(1-3)], of er cb] assms(5-7)
  by (auto simp: Let_def)

text \<open>C28: a second terminating flag of a session is written, but the worker then tries to point
  the session's append-only termination record at it; the listener raises, so the item counts
  as an error, the record keeps the first flag and no kill-switch is sent.\<close>

theorem second_termination_fails:
  assumes "db_ok d" "get_row es_id sid (db_exam_sessions d) = Some es" "fresh_item st sid item d"
    and "score_fits fa num es (pf_decision item)"
    and "writable (st_flag_id st) (pf_decision item) (with_events st sid (pf_contributing_events item) d)"
    and "fd_triggered_termination (pf_decision item)"
    and "has_key tr_exam_session_id (db_termination_records d) sid"
  shows "\<exists>d'. persist_one fa num er cb sid st item d
      = (d', Inl (PersistDbError (ImmutableRecordError ''termination records are immutable'')), []) \<and>
    db_flags d' = db_flags d @ [flag_of st es (pf_decision item)] \<and>
    db_termination_records d' = db_termination_records d"
  using persist_one_after_events[OF assms(2,4) fresh_item_inserted[OF assms(1-3)], of er cb] assms(5-7)
  by (simp add: written_def)

text \<open>a decision that cites an event the worker has neither been handed nor finds stored is
  dropped whole: no flag, and the telemetry rows of the item are rolled back with it.\<close>

theorem missing_event_drops_flag:
  assumes "db_ok d" "get_row es_id sid (db_exam_sessions d) = Some es" "fresh_item st sid item d"
    and "score_fits fa num es (pf_decision item)"
    and "i \<in> set (fd_contributing_event_ids (pf_decision item))"
    and "i \<notin> te_id ` set (db_telemetry_events d)" "i \<notin> event_key st ` set (pf_contributing_events item)"
  shows "\<exists>msg. persist_one fa num er cb sid st item d = (d, Inl (FlagPersistenceError msg), [])"
proof -
  have "te_id (row_of st sid be) = event_key st be" if "be \<in> set (pf_contributing_events item)" for be
    using assms(3) that buildable_row(2) by (simp add: fresh_item_def list_all_iff)
  then have "te_id ` row_of st sid ` set (pf_contributing_events item) = event_key st ` set (pf_contributing_events item)"
    unfolding image_image by (rule image_cong[OF refl])
  then have "\<not> has_key te_id (db_telemetry_events (with_events st sid (pf_contributing_events item) d)) i"
    using assms(6,7) by (simp add: has_key_iff image_Un)
  then have "\<not> writable (st_flag_id st) (pf_decision item) (with_events st sid (pf_contributing_events item) d)"
    using assms(5) by (auto simp: writable_def list_all_iff)
  then show ?thesis
    using persist_one_after_events[OF assms(2,4) fresh_item_inserted[OF assms(1-3)], of er cb] by simp
qed

text \<open>an item whose messages are all stored already, as when it is retried: if SQLAlchemy
  refuses to expunge the rolled-back row the decision is dropped; otherwise the stored rows
  stay as they are and a writable decision that does not terminate is written.\<close>

theorem retried_item:
  assumes "db_ok d" "get_row es_id sid (db_exam_sessions d) = Some es"
    and "pf_contributing_events item \<noteq> []" "list_all (buildable st sid) (pf_contributing_events item)"
    and "list_all (\<lambda>be. has_key te_id (db_telemetry_events d) (event_key st be)) (pf_contributing_events item)"
    and "score_fits fa num es (pf_decision item)" "writable (st_flag_id st) (pf_decision item) d"
    and "\<not> fd_triggered_termination (pf_decision item)"
  shows "persist_one fa num er cb sid st item d =
    (if er then (d, Inl InvalidRequestError, [])
     else (written fa num (flag_of st es (pf_decision item)) (pf_decision item) es d, Inr (), []))"
proof -
  have s: "has_key es_id (db_exam_sessions (working (open_session d))) sid"
    using get_row_has_key[of es_id sid "db_exam_sessions d"] assms(2) by simp
  have i: "insert_events er st sid (pf_contributing_events item) (open_session d)
      = (open_session d, if er then Inl InvalidRequestError else Inr ())"
    using insert_events_stored[OF _ s, of st "pf_contributing_events item" er] assms by simp
  show ?thesis
  proof (cases er)
    case True
    with i assms(2) get_row_Some[OF assms(2)] show ?thesis by (simp add: persist_one_def Let_def)
  next
    case False
    with i have "insert_events er st sid (pf_contributing_events item) (open_session d)
        = (\<lparr> committed = d, working = d \<rparr>, Inr ())" by (simp add: open_session_def)
    from persist_one_after_events[OF assms(2,6) this assms(1) refl refl, of cb] assms False show ?thesis by simp
  qed
qed

section \<open>Witnesses\<close>

lemma demo_get_session: "get_row es_id 1 (db_exam_sessions demo_db) = Some demo_session"
  by (simp add: demo_db_def get_row_def demo_session_def)

definition demo_buffered :: "uuid \<Rightarrow> buffered_event" where
  "demo_buffered i = \<lparr> be_message = demo_message ''blur'', be_received_at = 3, be_seq = 0, be_synthetic_id = Some i \<rparr>"

definition demo_item :: "uuid list \<Rightarrow> uuid list \<Rightarrow> persisted_flag" where
  "demo_item ids evs = \<lparr> pf_decision = demo_decision ids, pf_contributing_events = map demo_buffered evs \<rparr>"

lemma demo_buildable: "buildable st sid (demo_buffered i)"
  by (simp add: buildable_def build_telemetry_event_row_def demo_buffered_def demo_message_def
      build_from_telemetry_browser_def telemetry_row_def validate_confidence_def)

lemma demo_event_key [simp]: "event_key st (demo_buffered i) = i"
  by (simp add: event_key_def demo_buffered_def)

lemma demo_fits: "score_fits exact_arith id demo_session (pf_decision (demo_item ids evs))"
  by (simp add: score_fits_def exact_arith_def demo_session_def demo_decision_def demo_item_def)

lemma demo_fresh: "fresh_item st sid (demo_item [55] [55]) demo_db" "fresh_item st sid (demo_item [77] [55]) demo_db"
  by (simp_all add: fresh_item_def demo_item_def demo_buildable demo_db_def demo_event_def)

lemma demo_writable:
  "writable 101 (pf_decision (demo_item [55] [55])) (with_events (demo_stamp 1) 1 (pf_contributing_events (demo_item [55] [55])) demo_db)"
  using buildable_row(2)[OF demo_buildable, of "demo_stamp 1" 1 55]
  by (simp add: writable_def demo_decision_def demo_item_def certain_def flag_severity_members_def has_key_def demo_db_def
      demo_flag_def demo_event_def)

theorem worker_persists_witness:
  "fst (snd (persist_one exact_arith id True True 1 (demo_stamp 1) (demo_item [55] [55]) demo_db)) = Inr ()
   \<and> map te_id (db_telemetry_events (fst (persist_one exact_arith id True True 1 (demo_stamp 1) (demo_item [55] [55]) demo_db)))
      = [10, 11, 12, 55]"
proof -
  have "\<not> has_key tr_exam_session_id (db_termination_records demo_db) 1"
    "\<not> has_key tr_id (db_termination_records demo_db) (st_termination_id (demo_stamp 1))"
    "writable (st_flag_id (demo_stamp 1)) (pf_decision (demo_item [55] [55]))
       (with_events (demo_stamp 1) 1 (pf_contributing_events (demo_item [55] [55])) demo_db)"
    using demo_writable by (simp_all add: demo_db_def empty_database_def has_key_def demo_stamp_def)
  from worker_persists[OF demo_db_ok demo_get_session demo_fresh(1) demo_fits this(3,1,2), of True True]
  show ?thesis
    using buildable_row(2)[OF demo_buildable, of "demo_stamp 1" 1 55]
    by (simp add: Let_def written_def demo_item_def demo_decision_def demo_db_def demo_event_def)
qed

definition demo_terminated_db :: database where
  "demo_terminated_db = demo_db\<lparr> db_termination_records := db_termination_records demo_db
     @ [new_termination (demo_stamp 9) 1 demo_flag (pf_decision demo_kill)] \<rparr>"

lemma demo_terminated_ok: "db_ok demo_terminated_db"
  unfolding demo_terminated_db_def
  by (subst db_ok_add_termination[OF demo_db_ok])
     (simp add: termination_insertable_def new_termination_def termination_record_checks_def after_opt_def
        has_key_def demo_db_def empty_database_def demo_session_def demo_flag_def)

theorem second_termination_fails_witness:
  "\<exists>d'. persist_one exact_arith id True True 1 (demo_stamp 1) demo_kill demo_terminated_db
      = (d', Inl (PersistDbError (ImmutableRecordError ''termination records are immutable'')), []) \<and>
    map fl_id (db_flags d') = [40, 101]"
proof -
  have a: "get_row es_id 1 (db_exam_sessions demo_terminated_db) = Some demo_session"
    using demo_get_session by (simp add: demo_terminated_db_def)
  have b: "fresh_item (demo_stamp 1) 1 demo_kill demo_terminated_db"
    by (simp add: fresh_item_def demo_kill_def demo_terminated_db_def demo_db_def demo_event_def)
  have c: "score_fits exact_arith id demo_session (pf_decision demo_kill)"
    by (simp add: score_fits_def demo_kill_def)
  have d: "writable (st_flag_id (demo_stamp 1)) (pf_decision demo_kill)
      (with_events (demo_stamp 1) 1 (pf_contributing_events demo_kill) demo_terminated_db)"
    by (simp add: writable_def demo_kill_def demo_decision_def certain_def flag_severity_members_def has_key_def
        demo_terminated_db_def demo_db_def demo_flag_def demo_event_def demo_stamp_def)
  have e: "fd_triggered_termination (pf_decision demo_kill)" by (simp add: demo_kill_def)
  have f: "has_key tr_exam_session_id (db_termination_records demo_terminated_db) 1"
    by (simp add: has_key_def demo_terminated_db_def new_termination_def)
  from second_termination_fails[OF demo_terminated_ok a b c d e f, of True True] show ?thesis
    by (auto simp: demo_terminated_db_def demo_db_def demo_flag_def flag_of_def flag_row_def demo_stamp_def)
qed

theorem missing_event_drops_flag_witness:
  "fst (persist_one exact_arith id True True 1 (demo_stamp 1) (demo_item [77] [55]) demo_db) = demo_db"
proof -
  have "(77::uuid) \<in> set (fd_contributing_event_ids (pf_decision (demo_item [77] [55])))"
    "(77::uuid) \<notin> te_id ` set (db_telemetry_events demo_db)"
    "(77::uuid) \<notin> event_key (demo_stamp 1) ` set (pf_contributing_events (demo_item [77] [55]))"
    by (simp_all add: demo_item_def demo_decision_def demo_db_def demo_event_def)
  from missing_event_drops_flag[OF demo_db_ok demo_get_session demo_fresh(2) demo_fits this, of True True]
  show ?thesis by auto
qed

theorem retried_item_witness:
  "persist_one exact_arith id True True 1 (demo_stamp 1) (demo_item [10] [10]) demo_db = (demo_db, Inl InvalidRequestError, [])"
proof -
  have "pf_contributing_events (demo_item [10] [10]) \<noteq> []"
    "list_all (buildable (demo_stamp 1) 1) (pf_contributing_events (demo_item [10] [10]))"
    "list_all (\<lambda>be. has_key te_id (db_telemetry_events demo_db) (event_key (demo_stamp 1) be))
       (pf_contributing_events (demo_item [10] [10]))"
    "writable (st_flag_id (demo_stamp 1)) (pf_decision (demo_item [10] [10])) demo_db"
    "\<not> fd_triggered_termination (pf_decision (demo_item [10] [10]))"
    by (simp_all add: demo_item_def demo_buildable has_key_def demo_db_def demo_event_def
         writable_def demo_decision_def certain_def flag_severity_members_def demo_stamp_def demo_flag_def)
  from retried_item[OF demo_db_ok demo_get_session this(1-3) demo_fits this(4,5), of True True] show ?thesis by simp
qed

end
