(* ===== verification/StorageKey.thy ===== *)
theory StorageKey
  imports Uuid
begin

text \<open>
  Storage keys and checksums of evidence blobs (\<^verbatim>\<open>evidence/_storage_key.py\<close>,
  \<^verbatim>\<open>evidence/_checksum.py\<close>).  A key is \<^verbatim>\<open>evidence/<session>/<flag>/<type>.<ext>\<close>.  The digest
  function of \<^verbatim>\<open>hashlib\<close> is the argument \<open>sha\<close>.
\<close>

type_synonym bytes = "8 word list"

section \<open>Keys\<close>

definition ARTIFACT_EXTENSIONS :: "(string \<times> string) list" where
  "ARTIFACT_EXTENSIONS =
     [(''frame'', ''jpg''), (''clip'', ''webm''), (''audio'', ''webm''), (''event_export'', ''json'')]"

definition build_storage_key :: "uuid \<Rightarrow> uuid \<Rightarrow> string \<Rightarrow> py_error + string" where
  "build_storage_key exam_session_id flag_id artifact_type =
     (case map_of ARTIFACT_EXTENSIONS artifact_type of
        None \<Rightarrow> Inl (ValueError ''Unknown artifact_type'')
      | Some ext \<Rightarrow> Inr (''evidence/'' @ uuid_str exam_session_id @ ''/'' @ uuid_str flag_id @ ''/''
                        @ artifact_type @ ''.'' @ ext))"

text \<open>\<^verbatim>\<open>s.split(c)\<close> and \<^verbatim>\<open>s.rsplit(c, 1)\<close> of a text that contains the separator.\<close>

fun split_on :: "char \<Rightarrow> string \<Rightarrow> string list" where
  "split_on c [] = [[]]"
| "split_on c (x # xs) =
     (if x = c then [] # split_on c xs
      else (case split_on c xs of [] \<Rightarrow> [[x]] | p # ps \<Rightarrow> (x # p) # ps))"

definition rsplit_once :: "char \<Rightarrow> string \<Rightarrow> string \<times> string" where
  "rsplit_once c s =
     (rev (tl (dropWhile (\<lambda>x. x \<noteq> c) (rev s))), rev (takeWhile (\<lambda>x. x \<noteq> c) (rev s)))"

definition parse_filename :: "string \<Rightarrow> py_error + string" where
  "parse_filename filename =
     (if \<not> List.member filename CHR ''.'' then Inl (ValueError ''Filename must contain a dot'')
      else case rsplit_once CHR ''.'' filename of
        (artifact_type, ext) \<Rightarrow>
          (case map_of ARTIFACT_EXTENSIONS artifact_type of
             None \<Rightarrow> Inl (ValueError ''Unknown artifact_type in filename'')
           | Some expected_ext \<Rightarrow>
               if ext \<noteq> expected_ext then Inl (ValueError ''Extension mismatch'') else Inr artifact_type))"

definition parse_storage_key :: "string \<Rightarrow> py_error + uuid \<times> uuid \<times> string" where
  "parse_storage_key key =
     (let parts = split_on CHR ''/'' key in
      if length parts \<noteq> 4 then Inl (ValueError ''Storage key must have 4 parts'')
      else if parts ! 0 \<noteq> ''evidence'' then Inl (ValueError ''Storage key must start with evidence/'')
      else case uuid_of_string (parts ! 1) of
             Inl _ \<Rightarrow> Inl (ValueError ''Invalid exam_session_id in key'')
           | Inr session_id \<Rightarrow>
          (case uuid_of_string (parts ! 2) of
             Inl _ \<Rightarrow> Inl (ValueError ''Invalid flag_id in key'')
           | Inr flag_id \<Rightarrow>
               bind_err (parse_filename (parts ! 3)) (\<lambda>artifact_type. Inr (session_id, flag_id, artifact_type))))"

definition get_artifact_extension :: "string \<Rightarrow> py_error + string" where
  "get_artifact_extension artifact_type =
     (case map_of ARTIFACT_EXTENSIONS artifact_type of
        None \<Rightarrow> Inl (ValueError ''Unknown artifact_type'')
      | Some ext \<Rightarrow> Inr ext)"

section \<open>Checksums\<close>

text \<open>\<^verbatim>\<open>s.lower()\<close> on ASCII.\<close>

definition lower_char :: "char \<Rightarrow> char" where
  "lower_char c = (let k = of_char c :: nat in if 65 \<le> k \<and> k \<le> 90 then char_of (k + 32) else c)"

definition lower :: "string \<Rightarrow> string" where
  "lower s = map lower_char s"

definition compute_sha256 :: "(bytes \<Rightarrow> string) \<Rightarrow> bytes \<Rightarrow> string" where
  "compute_sha256 sha data = sha data"

definition validate_sha256_hex :: "string \<Rightarrow> py_error + string" where
  "validate_sha256_hex value =
     (if length value \<noteq> 64 then Inl (ValueError ''SHA-256 hex digest must be exactly 64 characters'')
      else case py_int16 value of
             None \<Rightarrow> Inl (ValueError ''SHA-256 hex digest must be valid hex'')
           | Some _ \<Rightarrow> Inr (lower value))"

definition verify_checksum :: "(bytes \<Rightarrow> string) \<Rightarrow> bytes \<Rightarrow> string \<Rightarrow> bool" where
  "verify_checksum sha data expected \<longleftrightarrow> compute_sha256 sha data = lower expected"

text \<open>What \<^verbatim>\<open>hashlib\<close> documents of \<^verbatim>\<open>hexdigest\<close>: 64 lower-case hexadecimal digits.\<close>

definition is_digest_function :: "(bytes \<Rightarrow> string) \<Rightarrow> bool" where
  "is_digest_function sha \<longleftrightarrow> (\<forall>data. length (sha data) = 64 \<and> hex_text (sha data) \<and> lower (sha data) = sha data)"

section \<open>Splitting\<close>

lemma split_on_none: "c \<notin> set s \<Longrightarrow> split_on c s = [s]"
  by (induction s) auto

lemma split_on_ne [simp]: "split_on c s \<noteq> []"
  by (induction s) (auto split: list.splits)

lemma split_on_append: "c \<notin> set p \<Longrightarrow> split_on c (p @ c # s) = p # split_on c s"
  by (induction p) auto

lemma rsplit_once_append: "c \<notin> set ext \<Longrightarrow> rsplit_once c (t @ c # ext) = (t, ext)"
  by (simp add: rsplit_once_def dropWhile_append takeWhile_append)

lemma parse_filename_known:
  assumes "map_of ARTIFACT_EXTENSIONS t = Some ext"
  shows "parse_filename (t @ ''.'' @ ext) = Inr t" "CHR ''/'' \<notin> set (t @ ''.'' @ ext)"
proof -
  have "CHR ''.'' \<notin> set ext \<and> CHR ''/'' \<notin> set ext \<and> CHR ''/'' \<notin> set t"
    using assms by (auto simp: ARTIFACT_EXTENSIONS_def split: if_splits)
  then show "parse_filename (t @ ''.'' @ ext) = Inr t" "CHR ''/'' \<notin> set (t @ ''.'' @ ext)"
    using assms rsplit_once_append[of "CHR ''.''" ext t] by (simp_all add: parse_filename_def List.member_iff)
qed

lemma uuid_str_no_slash: "CHR ''/'' \<notin> set (uuid_str u)"
  by (rule uuid_str_avoids) simp_all

lemma split_key:
  assumes "CHR ''/'' \<notin> set fn"
  shows "split_on CHR ''/'' (''evidence/'' @ uuid_str s @ ''/'' @ uuid_str f @ ''/'' @ fn)
    = [''evidence'', uuid_str s, uuid_str f, fn]"
  using split_on_append[of "CHR ''/''" "''evidence''" "uuid_str s @ ''/'' @ uuid_str f @ ''/'' @ fn"]
    split_on_append[OF uuid_str_no_slash, of s "uuid_str f @ ''/'' @ fn"]
    split_on_append[OF uuid_str_no_slash, of f fn] split_on_none[OF assms]
  by simp

lemma parse_built_key:
  assumes "build_storage_key s f t = Inr key"
  shows "parse_storage_key key = Inr (s, f, t)"
proof -
  obtain ext where ext: "map_of ARTIFACT_EXTENSIONS t = Some ext"
    and key: "key = ''evidence/'' @ uuid_str s @ ''/'' @ uuid_str f @ ''/'' @ t @ ''.'' @ ext"
    using assms by (auto simp: build_storage_key_def split: option.splits)
  show ?thesis
    using split_key[OF parse_filename_known(2)[OF ext], of s f] parse_filename_known(1)[OF ext]
    by (simp add: parse_storage_key_def key uuid_of_uuid_str Let_def)
qed

lemma build_storage_key_inj:
  "build_storage_key s f t = Inr key \<Longrightarrow> build_storage_key s' f' t' = Inr key \<Longrightarrow> s' = s \<and> f' = f \<and> t' = t"
  by (drule parse_built_key, drule parse_built_key) simp

section \<open>Properties\<close>

text \<open>every recognised artifact type has a key, and parsing it gives back the session, the
  flag and the type, so keys of different artifacts never collide; an unknown type has no key
  and no file name with it is accepted.\<close>

theorem storage_key_roundtrip:
  "case get_artifact_extension t of
     Inr ext \<Rightarrow> (\<exists>key. build_storage_key s f t = Inr key \<and> parse_storage_key key = Inr (s, f, t) \<and>
                   (build_storage_key s' f' t' = Inr key) = (s' = s \<and> f' = f \<and> t' = t))
   | Inl e \<Rightarrow> build_storage_key s f t = Inl e"
proof (cases "map_of ARTIFACT_EXTENSIONS t")
  case None
  then show ?thesis by (simp add: get_artifact_extension_def build_storage_key_def)
next
  case (Some ext)
  then obtain key where key: "build_storage_key s f t = Inr key" by (simp add: build_storage_key_def)
  moreover have "(build_storage_key s' f' t' = Inr key) = (s' = s \<and> f' = f \<and> t' = t)"
    using key build_storage_key_inj[OF key, of s' f' t'] by metis
  ultimately show ?thesis using Some parse_built_key[OF key] by (simp add: get_artifact_extension_def)
qed

text \<open>The digest check accepts every digest, and also texts that are not one.\<close>

lemma digest_validates:
  assumes "is_digest_function sha"
  shows "validate_sha256_hex (compute_sha256 sha data) = Inr (compute_sha256 sha data)"
    "verify_checksum sha data (compute_sha256 sha data)"
proof -
  have d: "length (sha data) = 64" "hex_text (sha data)" "lower (sha data) = sha data"
    using assms by (simp_all add: is_digest_function_def)
  then have "sha data \<noteq> []" by auto
  from py_int16_hex[OF d(2) this] d
  show "validate_sha256_hex (compute_sha256 sha data) = Inr (compute_sha256 sha data)"
    "verify_checksum sha data (compute_sha256 sha data)"
    by (simp_all add: validate_sha256_hex_def compute_sha256_def verify_checksum_def)
qed

lemma validate_accepts_prefix:
  "validate_sha256_hex (''0x'' @ replicate 62 CHR ''0'') = Inr (''0x'' @ replicate 62 CHR ''0'')"
  by code_simp

end
