(* ===== verification/EvidenceStore.thy ===== *)
theory EvidenceStore
  imports StorageKey "HOL-Library.AList"
begin

text \<open>
  Blob storage (\<^verbatim>\<open>evidence/_protocol.py\<close>, \<^verbatim>\<open>evidence/_s3.py\<close>).  A store is a record of its
  operations over a state; \<open>memory_store\<close> is \<^verbatim>\<open>InMemoryEvidenceStore\<close>, whose state is the
  dictionary of blobs in insertion order, and \<open>s3_store\<close> is \<^verbatim>\<open>S3EvidenceStore\<close> over a client
  whose calls (those of boto3) are the argument \<open>client\<close>.

  The interface \<open>blob_store\<close> states what sealing and retention rely on: a call touches no
  other key than its own, a checksum is that of the stored blob, a deletion that succeeds or
  reports a missing blob leaves none, and no deletion creates one.  It does not promise that an upload stores what it was given.
\<close>

datatype store_error = EvidenceStoreError string | EvidenceNotFoundError string

record 's evidence_store =
  sto_upload :: "string \<Rightarrow> bytes \<Rightarrow> 's \<Rightarrow> 's \<times> (store_error + unit)"
  sto_download :: "string \<Rightarrow> 's \<Rightarrow> 's \<times> (store_error + bytes)"
  sto_delete :: "string \<Rightarrow> 's \<Rightarrow> 's \<times> (store_error + unit)"
  sto_exists :: "string \<Rightarrow> 's \<Rightarrow> 's \<times> (store_error + bool)"
  sto_compute_checksum :: "string \<Rightarrow> 's \<Rightarrow> 's \<times> (store_error + string)"

section \<open>In memory\<close>

type_synonym blobs = "(string \<times> bytes) list"

definition memory_upload :: "string \<Rightarrow> bytes \<Rightarrow> blobs \<Rightarrow> blobs \<times> (store_error + unit)" where
  "memory_upload key data b = (AList.update key data b, Inr ())"

definition memory_download :: "string \<Rightarrow> blobs \<Rightarrow> blobs \<times> (store_error + bytes)" where
  "memory_download key b =
     (b, case map_of b key of None \<Rightarrow> Inl (EvidenceNotFoundError key) | Some data \<Rightarrow> Inr data)"

definition memory_delete :: "string \<Rightarrow> blobs \<Rightarrow> blobs \<times> (store_error + unit)" where
  "memory_delete key b = (AList.delete key b, Inr ())"

definition memory_exists :: "string \<Rightarrow> blobs \<Rightarrow> blobs \<times> (store_error + bool)" where
  "memory_exists key b = (b, Inr (map_of b key \<noteq> None))"

definition memory_compute_checksum :: "(bytes \<Rightarrow> string) \<Rightarrow> string \<Rightarrow> blobs \<Rightarrow> blobs \<times> (store_error + string)" where
  "memory_compute_checksum sha key b =
     (case memory_download key b of
        (b', Inl e) \<Rightarrow> (b', Inl e)
      | (b', Inr data) \<Rightarrow> (b', Inr (compute_sha256 sha data)))"

definition memory_list_keys :: "blobs \<Rightarrow> string list" where
  "memory_list_keys b = map fst b"

definition memory_get_blob_count :: "blobs \<Rightarrow> int" where
  "memory_get_blob_count b = int (length b)"

definition memory_store :: "(bytes \<Rightarrow> string) \<Rightarrow> blobs evidence_store" where
  "memory_store sha = \<lparr> sto_upload = memory_upload, sto_download = memory_download,
     sto_delete = memory_delete, sto_exists = memory_exists,
     sto_compute_checksum = memory_compute_checksum sha \<rparr>"

section \<open>S3\<close>

text \<open>A \<^verbatim>\<open>ClientError\<close> carries the code of the response.\<close>

datatype s3_error = ClientError string | BotoCoreError

record 's s3_client =
  s3_head_bucket :: "string \<Rightarrow> 's \<Rightarrow> 's \<times> (s3_error + unit)"
  s3_create_bucket :: "string \<Rightarrow> 's \<Rightarrow> 's \<times> (s3_error + unit)"
  s3_put_object :: "string \<Rightarrow> string \<Rightarrow> bytes \<Rightarrow> 's \<Rightarrow> 's \<times> (s3_error + unit)"
  s3_get_object :: "string \<Rightarrow> string \<Rightarrow> 's \<Rightarrow> 's \<times> (s3_error + bytes)"
  s3_delete_object :: "string \<Rightarrow> string \<Rightarrow> 's \<Rightarrow> 's \<times> (s3_error + unit)"
  s3_head_object :: "string \<Rightarrow> string \<Rightarrow> 's \<Rightarrow> 's \<times> (s3_error + unit)"

definition ensure_bucket_exists :: "'s s3_client \<Rightarrow> string \<Rightarrow> 's \<Rightarrow> 's \<times> (store_error + unit)" where
  "ensure_bucket_exists client bucket s =
     (case s3_head_bucket client bucket s of
        (s1, Inr _) \<Rightarrow> (s1, Inr ())
      | (s1, Inl (ClientError code)) \<Rightarrow>
          if code = ''404''
          then (case s3_create_bucket client bucket s1 of
                  (s2, Inr _) \<Rightarrow> (s2, Inr ())
                | (s2, Inl _) \<Rightarrow> (s2, Inl (EvidenceStoreError ''Failed to create bucket'')))
          else (s1, Inl (EvidenceStoreError ''Failed to check bucket''))
      | (s1, Inl BotoCoreError) \<Rightarrow> (s1, Inl (EvidenceStoreError ''Failed to check bucket'')))"

definition s3_upload :: "'s s3_client \<Rightarrow> string \<Rightarrow> string \<Rightarrow> bytes \<Rightarrow> 's \<Rightarrow> 's \<times> (store_error + unit)" where
  "s3_upload client bucket key data s =
     (case s3_put_object client bucket key data s of
        (s1, Inr _) \<Rightarrow> (s1, Inr ())
      | (s1, Inl _) \<Rightarrow> (s1, Inl (EvidenceStoreError ''Failed to upload'')))"

definition s3_download :: "'s s3_client \<Rightarrow> string \<Rightarrow> string \<Rightarrow> 's \<Rightarrow> 's \<times> (store_error + bytes)" where
  "s3_download client bucket key s =
     (case s3_get_object client bucket key s of
        (s1, Inr body) \<Rightarrow> (s1, Inr body)
      | (s1, Inl (ClientError code)) \<Rightarrow>
          if List.member [''NoSuchKey'', ''404''] code then (s1, Inl (EvidenceNotFoundError key))
          else (s1, Inl (EvidenceStoreError ''Failed to download''))
      | (s1, Inl BotoCoreError) \<Rightarrow> (s1, Inl (EvidenceStoreError ''Failed to download'')))"

definition s3_delete :: "'s s3_client \<Rightarrow> string \<Rightarrow> string \<Rightarrow> 's \<Rightarrow> 's \<times> (store_error + unit)" where
  "s3_delete client bucket key s =
     (case s3_delete_object client bucket key s of
        (s1, Inr _) \<Rightarrow> (s1, Inr ())
      | (s1, Inl _) \<Rightarrow> (s1, Inl (EvidenceStoreError ''Failed to delete'')))"

definition s3_exists :: "'s s3_client \<Rightarrow> string \<Rightarrow> string \<Rightarrow> 's \<Rightarrow> 's \<times> (store_error + bool)" where
  "s3_exists client bucket key s =
     (case s3_head_object client bucket key s of
        (s1, Inr _) \<Rightarrow> (s1, Inr True)
      | (s1, Inl (ClientError code)) \<Rightarrow>
          if code = ''404'' then (s1, Inr False) else (s1, Inl (EvidenceStoreError ''Failed to check''))
      | (s1, Inl BotoCoreError) \<Rightarrow> (s1, Inl (EvidenceStoreError ''Failed to check'')))"

definition s3_compute_checksum ::
  "(bytes \<Rightarrow> string) \<Rightarrow> 's s3_client \<Rightarrow> string \<Rightarrow> string \<Rightarrow> 's \<Rightarrow> 's \<times> (store_error + string)" where
  "s3_compute_checksum sha client bucket key s =
     (case s3_download client bucket key s of
        (s1, Inl e) \<Rightarrow> (s1, Inl e)
      | (s1, Inr data) \<Rightarrow> (s1, Inr (compute_sha256 sha data)))"

definition s3_store :: "(bytes \<Rightarrow> string) \<Rightarrow> 's s3_client \<Rightarrow> string \<Rightarrow> 's evidence_store" where
  "s3_store sha client bucket = \<lparr> sto_upload = s3_upload client bucket, sto_download = s3_download client bucket,
     sto_delete = s3_delete client bucket, sto_exists = s3_exists client bucket,
     sto_compute_checksum = s3_compute_checksum sha client bucket \<rparr>"

section \<open>The interface\<close>

locale blob_store =
  fixes sto :: "'s evidence_store"
    and sha :: "bytes \<Rightarrow> string"
    and view :: "'s \<Rightarrow> string \<Rightarrow> bytes option"
  assumes upload_other: "sto_upload sto k data s = (s', r) \<Longrightarrow> k' \<noteq> k \<Longrightarrow> view s' k' = view s k'"
    and delete_other: "sto_delete sto k s = (s', r) \<Longrightarrow> k' \<noteq> k \<Longrightarrow> view s' k' = view s k'"
    and delete_gone: "sto_delete sto k s = (s', Inr u) \<Longrightarrow> view s' k = None"
    and delete_missing: "sto_delete sto k s = (s', Inl (EvidenceNotFoundError m)) \<Longrightarrow> view s' k = None"
    and delete_shrinks: "sto_delete sto k s = (s', r) \<Longrightarrow> view s' k = None \<or> view s' k = view s k"
    and checksum_keeps: "sto_compute_checksum sto k s = (s', rc) \<Longrightarrow> view s' = view s"
    and checksum_stored: "sto_compute_checksum sto k s = (s', Inr c) \<Longrightarrow> \<exists>d. view s k = Some d \<and> sha d = c"

interpretation mem: blob_store "memory_store sha" sha map_of
  for sha :: "bytes \<Rightarrow> string"
  by unfold_locales
     (auto simp: memory_store_def memory_upload_def memory_delete_def memory_compute_checksum_def
        memory_download_def compute_sha256_def update_conv' delete_conv' restrict_map_def split: option.splits)

text \<open>What the S3 client is relied on for: calls on one object leave the others alone, a
  successful read returns the stored body, a successful deletion removes it and no deletion
  creates an object.\<close>

definition s3_client_ok :: "'s s3_client \<Rightarrow> string \<Rightarrow> ('s \<Rightarrow> string \<Rightarrow> bytes option) \<Rightarrow> bool" where
  "s3_client_ok client bucket view \<longleftrightarrow>
     (\<forall>k data s k'. k' \<noteq> k \<longrightarrow> view (fst (s3_put_object client bucket k data s)) k' = view s k') \<and>
     (\<forall>k s k'. k' \<noteq> k \<longrightarrow> view (fst (s3_delete_object client bucket k s)) k' = view s k') \<and>
     (\<forall>k s u. snd (s3_delete_object client bucket k s) = Inr u \<longrightarrow>
        view (fst (s3_delete_object client bucket k s)) k = None) \<and>
     (\<forall>k s. view (fst (s3_delete_object client bucket k s)) k = None \<or>
        view (fst (s3_delete_object client bucket k s)) k = view s k) \<and>
     (\<forall>k s. view (fst (s3_get_object client bucket k s)) = view s) \<and>
     (\<forall>k s body. snd (s3_get_object client bucket k s) = Inr body \<longrightarrow> view s k = Some body)"

lemma s3_store_is_blob_store:
  assumes "s3_client_ok client bucket view"
  shows "blob_store (s3_store sha client bucket) sha view"
proof -
  have put: "k' \<noteq> k \<Longrightarrow> view (fst (s3_put_object client bucket k data s)) k' = view s k'"
    and del: "k' \<noteq> k \<Longrightarrow> view (fst (s3_delete_object client bucket k s)) k' = view s k'"
    and gone: "snd (s3_delete_object client bucket k s) = Inr u \<Longrightarrow>
        view (fst (s3_delete_object client bucket k s)) k = None"
    and shrink: "view (fst (s3_delete_object client bucket k s)) k = None \<or>
        view (fst (s3_delete_object client bucket k s)) k = view s k"
    and get: "view (fst (s3_get_object client bucket k s)) = view s"
    and body: "snd (s3_get_object client bucket k s) = Inr b \<Longrightarrow> view s k = Some b" for k k' data s u b
    using assms by (auto simp: s3_client_ok_def)
  have download: "s3_download client bucket k s = (s', r) \<Longrightarrow> view s' = view s \<and>
      (\<forall>d. r = Inr d \<longrightarrow> view s k = Some d)" for k s s' r
    using get[of k s] body[of k s]
    by (auto simp: s3_download_def split: prod.splits sum.splits s3_error.splits if_splits)
  show ?thesis
  proof
    fix k k' data s s' r
    assume "sto_upload (s3_store sha client bucket) k data s = (s', r)" "k' \<noteq> k"
    then show "view s' k' = view s k'"
      using put[of k' k data s] by (auto simp: s3_store_def s3_upload_def split: prod.splits sum.splits)
  next
    fix k k' s s' r
    assume "sto_delete (s3_store sha client bucket) k s = (s', r)" "k' \<noteq> k"
    then show "view s' k' = view s k'"
      using del[of k' k s] by (auto simp: s3_store_def s3_delete_def split: prod.splits sum.splits)
  next
    fix k s s' u
    assume "sto_delete (s3_store sha client bucket) k s = (s', Inr u)"
    then show "view s' k = None"
      using gone[of k s] by (auto simp: s3_store_def s3_delete_def split: prod.splits sum.splits)
  next
    fix k s s' m
    assume "sto_delete (s3_store sha client bucket) k s = (s', Inl (EvidenceNotFoundError m))"
    then show "view s' k = None" by (auto simp: s3_store_def s3_delete_def split: prod.splits sum.splits)
  next
    fix k s s' r
    assume "sto_delete (s3_store sha client bucket) k s = (s', r)"
    then show "view s' k = None \<or> view s' k = view s k"
      using shrink[of k s] by (auto simp: s3_store_def s3_delete_def split: prod.splits sum.splits)
  next
    fix k s s' r
    assume "sto_compute_checksum (s3_store sha client bucket) k s = (s', r)"
    then show "view s' = view s"
      by (auto simp: s3_store_def s3_compute_checksum_def dest!: download split: prod.splits sum.splits)
  next
    fix k s s' c
    assume "sto_compute_checksum (s3_store sha client bucket) k s = (s', Inr c)"
    then show "\<exists>d. view s k = Some d \<and> sha d = c"
      by (auto simp: s3_store_def s3_compute_checksum_def compute_sha256_def dest!: download split: prod.splits sum.splits)
  qed
qed

end
