(* ===== verification/EvidenceService.thy ===== *)
theory EvidenceService
  imports EvidenceStore TableUpdates
begin

text \<open>
  Sealing evidence: the storage half (\<^verbatim>\<open>evidence/service.py\<close>: upload, checksum round trip,
  clean-up) and the service that records the artifact (\<^verbatim>\<open>orchestration/_evidence_service.py\<close>).
  A session couples the database with the state of the store.  Instants are normalised to
  UTC.  The name of the violated constraint, which the database driver reports, is the
  argument \<open>diag\<close>; it only selects the message.
\<close>

section \<open>\<^verbatim>\<open>seal_evidence\<close>\<close>

record seal_request =
  sr_flag_id :: uuid
  sr_exam_session_id :: uuid
  sr_artifact_type :: string
  sr_media_type :: string
  sr_blob :: bytes
  sr_capture_started_at :: timestamp
  sr_capture_ended_at :: "timestamp option"
  sr_retention_expires_at :: "timestamp option"

record seal_result =
  srs_storage_key :: string
  srs_content_sha256 :: string
  srs_byte_size :: int
  srs_media_type :: string
  srs_capture_started_at :: timestamp
  srs_capture_ended_at :: "timestamp option"
  srs_retention_expires_at :: "timestamp option"
  srs_artifact_type :: string

datatype evidence_error =
    EvidenceSealError string
  | EvidenceBlobTooLargeError int
  | EvidenceAlreadySealedError string
  | EvidenceKeyError

definition artifact_type_to_kind :: "string \<Rightarrow> string" where
  "artifact_type_to_kind t =
     dict_get [(''frame'', ''frame''), (''clip'', ''clip''), (''audio'', ''audio''),
               (''event_export'', ''event_export'')] t t"

definition to_orm_kwargs :: "uuid \<Rightarrow> seal_result \<Rightarrow> jdict" where
  "to_orm_kwargs fid r =
     [(''flag_id'', JStr (uuid_str fid)),
      (''kind'', JStr (artifact_type_to_kind (srs_artifact_type r))),
      (''storage_uri'', JStr (''s3://'' @ srs_storage_key r)),
      (''content_sha256'', JStr (srs_content_sha256 r)),
      (''media_type'', JStr (srs_media_type r)),
      (''byte_size'', JInt (srs_byte_size r)),
      (''capture_started_at'', JInt (srs_capture_started_at r)),
      (''capture_ended_at'', case srs_capture_ended_at r of None \<Rightarrow> JNull | Some t \<Rightarrow> JInt t),
      (''retention_expires_at'', case srs_retention_expires_at r of None \<Rightarrow> JNull | Some t \<Rightarrow> JInt t)]"

definition sealed :: "(bytes \<Rightarrow> string) \<Rightarrow> seal_request \<Rightarrow> string \<Rightarrow> seal_result" where
  "sealed sha req key =
     \<lparr> srs_storage_key = key, srs_content_sha256 = compute_sha256 sha (sr_blob req),
       srs_byte_size = int (length (sr_blob req)), srs_media_type = sr_media_type req,
       srs_capture_started_at = sr_capture_started_at req, srs_capture_ended_at = sr_capture_ended_at req,
       srs_retention_expires_at = sr_retention_expires_at req, srs_artifact_type = sr_artifact_type req \<rparr>"

definition seal_evidence ::
  "(bytes \<Rightarrow> string) \<Rightarrow> 's evidence_store \<Rightarrow> seal_request \<Rightarrow> 's \<Rightarrow> 's \<times> (evidence_error + seal_result)" where
  "seal_evidence sha sto req s =
     (case build_storage_key (sr_exam_session_id req) (sr_flag_id req) (sr_artifact_type req) of
        Inl _ \<Rightarrow> (s, Inl (EvidenceSealError ''Invalid artifact_type''))
      | Inr key \<Rightarrow>
     (case sto_upload sto key (sr_blob req) s of
        (s1, Inl _) \<Rightarrow> (s1, Inl (EvidenceSealError ''Failed to upload evidence''))
      | (s1, Inr _) \<Rightarrow>
     (case sto_compute_checksum sto key s1 of
        (s2, Inl _) \<Rightarrow> (s2, Inl (EvidenceSealError ''Failed to verify upload''))
      | (s2, Inr remote_sha256) \<Rightarrow>
          if remote_sha256 \<noteq> compute_sha256 sha (sr_blob req)
          then (fst (sto_delete sto key s2), Inl (EvidenceSealError ''Checksum mismatch after upload''))
          else (s2, Inr (sealed sha req key)))))"

section \<open>\<^verbatim>\<open>seal_evidence_for_flag\<close>\<close>

definition MAX_BLOB_BYTES :: int where "MAX_BLOB_BYTES = 50 * 1024 * 1024"

definition artifact_type_to_enum :: "string \<Rightarrow> evidence_error + evidence_kind" where
  "artifact_type_to_enum v =
     (case map_of [(''frame'', EK_FRAME), (''clip'', EK_CLIP), (''audio'', EK_AUDIO),
                   (''event_export'', EK_EVENT_EXPORT)] v of
        None \<Rightarrow> Inl EvidenceKeyError
      | Some k \<Rightarrow> Inr k)"

definition contains_text :: "string \<Rightarrow> string \<Rightarrow> bool" where
  "contains_text pat s \<longleftrightarrow> list_ex (\<lambda>i. take (length pat) (drop i s) = pat) [0..<Suc (length s)]"

definition effective_request :: "int \<Rightarrow> timestamp \<Rightarrow> seal_request \<Rightarrow> seal_request" where
  "effective_request default_retention now req =
     req\<lparr> sr_retention_expires_at := Some (case sr_retention_expires_at req of
            Some r \<Rightarrow> r | None \<Rightarrow> now + default_retention) \<rparr>"

definition artifact_row ::
  "uuid \<Rightarrow> timestamp \<Rightarrow> seal_request \<Rightarrow> evidence_kind \<Rightarrow> seal_result \<Rightarrow> evidence_artifact" where
  "artifact_row aid created req kind seal =
     \<lparr> ea_id = aid, ea_flag_id = sr_flag_id req, ea_kind = kind,
       ea_storage_uri = ''s3://'' @ srs_storage_key seal, ea_content_sha256 = srs_content_sha256 seal,
       ea_media_type = srs_media_type seal, ea_byte_size = srs_byte_size seal,
       ea_capture_started_at = srs_capture_started_at seal, ea_capture_ended_at = srs_capture_ended_at seal,
       ea_retention_expires_at = the (srs_retention_expires_at seal), ea_encryption_key_reference = None,
       ea_sealed_at = None, ea_created_at = created \<rparr>"

definition record_artifact ::
  "string \<Rightarrow> evidence_artifact \<Rightarrow> seal_result \<Rightarrow> db_session
    \<Rightarrow> db_session \<times> (evidence_error + evidence_artifact \<times> seal_result)" where
  "record_artifact diag a seal db =
     (let db1 = db\<lparr> working := (working db)\<lparr> db_evidence_artifacts := db_evidence_artifacts (working db) @ [a] \<rparr> \<rparr> in
      case commit db1 of
        Inl _ \<Rightarrow> (rollback db1,
          Inl (EvidenceAlreadySealedError
            (if contains_text ''uq_evidence_artifacts_one_per_flag'' diag
             then ''flag already has an evidence artifact'' else ''flag not found or constraint violation'')))
      | Inr db2 \<Rightarrow> (db2, Inr (a, seal)))"

definition seal_evidence_for_flag ::
  "(bytes \<Rightarrow> string) \<Rightarrow> 's evidence_store \<Rightarrow> int \<Rightarrow> timestamp \<Rightarrow> uuid \<Rightarrow> string \<Rightarrow> seal_request
    \<Rightarrow> db_session \<times> 's \<Rightarrow> (db_session \<times> 's) \<times> (evidence_error + evidence_artifact \<times> seal_result)" where
  "seal_evidence_for_flag sha sto default_retention now aid diag req st =
     (case st of (db, s) \<Rightarrow>
      if int (length (sr_blob req)) > MAX_BLOB_BYTES
      then (st, Inl (EvidenceBlobTooLargeError (int (length (sr_blob req)))))
      else if get_row fl_id (sr_flag_id req) (db_flags (working db)) = None
      then (st, Inl (EvidenceAlreadySealedError ''flag does not exist''))
      else
     (case seal_evidence sha sto (effective_request default_retention now req) s of
        (s1, Inl e) \<Rightarrow> ((db, s1), Inl e)
      | (s1, Inr seal) \<Rightarrow>
     (case artifact_type_to_enum (sr_artifact_type req) of
        Inl e \<Rightarrow> ((db, s1), Inl e)
      | Inr kind \<Rightarrow>
     (case record_artifact diag (artifact_row aid now req kind seal) seal db of
        (db1, r) \<Rightarrow> ((db1, s1), r)))))"

text \<open>The relation between artifact rows and blobs that makes the evidence verifiable.\<close>

definition blobs_match ::
  "(bytes \<Rightarrow> string) \<Rightarrow> ('s \<Rightarrow> string \<Rightarrow> bytes option) \<Rightarrow> database \<Rightarrow> 's \<Rightarrow> bool" where
  "blobs_match sha view d s \<longleftrightarrow> (\<forall>a\<in>set (db_evidence_artifacts d). \<exists>key blob.
     ea_storage_uri a = ''s3://'' @ key \<and> view s key = Some blob \<and> verify_checksum sha blob (ea_content_sha256 a))"

section \<open>Sealing against any store that keeps the interface\<close>

context blob_store
begin

lemma seal_evidence_cases:
  assumes "seal_evidence sha sto req s = (s', r)"
  shows "(\<exists>msg. r = Inl (EvidenceSealError msg) \<and>
      (\<forall>k. build_storage_key (sr_exam_session_id req) (sr_flag_id req) (sr_artifact_type req) \<noteq> Inr k \<longrightarrow> view s' k = view s k)) \<or>
    (\<exists>key d. build_storage_key (sr_exam_session_id req) (sr_flag_id req) (sr_artifact_type req) = Inr key \<and>
      r = Inr (sealed sha req key) \<and> view s' key = Some d \<and> sha d = sha (sr_blob req) \<and>
      (\<forall>k. k \<noteq> key \<longrightarrow> view s' k = view s k))"
proof (cases "build_storage_key (sr_exam_session_id req) (sr_flag_id req) (sr_artifact_type req)")
  case (Inl e)
  with assms show ?thesis by (auto simp: seal_evidence_def)
next
  case (Inr key)
  obtain s1 r1 where up: "sto_upload sto key (sr_blob req) s = (s1, r1)" by fastforce
  note others = upload_other[OF up]
  show ?thesis
  proof (cases r1)
    case (Inl e)
    with Inr up assms others show ?thesis by (auto simp: seal_evidence_def)
  next
    case r1: (Inr u)
    obtain s2 r2 where ch: "sto_compute_checksum sto key s1 = (s2, r2)" by fastforce
    have keep: "view s2 = view s1" by (rule checksum_keeps[OF ch])
    show ?thesis
    proof (cases r2)
      case (Inl e)
      with Inr up r1 ch assms others keep show ?thesis by (auto simp: seal_evidence_def)
    next
      case r2: (Inr c)
      from checksum_stored[OF ch[unfolded r2]] obtain d where d: "view s1 key = Some d" "sha d = c" by blast
      obtain s3 r3 where del: "sto_delete sto key s2 = (s3, r3)" by fastforce
      note gone = delete_other[OF del]
      show ?thesis
      proof (cases "c = sha (sr_blob req)")
        case True
        with Inr up r1 ch r2 assms have "s' = s2" "r = Inr (sealed sha req key)"
          by (auto simp: seal_evidence_def compute_sha256_def)
        with True Inr d keep others show ?thesis by auto
      next
        case False
        with Inr up r1 ch r2 del assms have "s' = s3" "\<exists>msg. r = Inl (EvidenceSealError msg)"
          by (auto simp: seal_evidence_def compute_sha256_def)
        with Inr others keep gone show ?thesis by auto
      qed
    qed
  qed
qed

lemma blobs_match_other:
  assumes "blobs_match sha view d s" "\<not> has_key ea_storage_uri (db_evidence_artifacts d) (''s3://'' @ key)"
    and "\<And>k. k \<noteq> key \<Longrightarrow> view s' k = view s k"
  shows "blobs_match sha view d s'"
  unfolding blobs_match_def
proof
  fix a assume a: "a \<in> set (db_evidence_artifacts d)"
  with assms(1) obtain k blob where "ea_storage_uri a = ''s3://'' @ k" "view s k = Some blob"
    "verify_checksum sha blob (ea_content_sha256 a)" by (auto simp: blobs_match_def)
  moreover have "k \<noteq> key" using assms(2) a calculation(1) by (auto simp: has_key_iff image_iff)
  ultimately show "\<exists>key blob. ea_storage_uri a = ''s3://'' @ key \<and> view s' key = Some blob \<and>
      verify_checksum sha blob (ea_content_sha256 a)" using assms(3) by auto
qed

lemma seal_keeps_match:
  assumes lower: "is_digest_function sha"
    and match: "blobs_match sha view (committed db) s" and same: "working db = committed db"
    and unused: "\<And>key. build_storage_key (sr_exam_session_id req) (sr_flag_id req) (sr_artifact_type req) = Inr key \<Longrightarrow>
       \<not> has_key ea_storage_uri (db_evidence_artifacts (committed db)) (''s3://'' @ key)"
    and call: "seal_evidence_for_flag sha sto dr now aid diag req (db, s) = ((db', s'), r)"
  shows "blobs_match sha view (committed db') s'"
proof -
  let ?req = "effective_request dr now req"
  have sel: "sr_exam_session_id ?req = sr_exam_session_id req" "sr_flag_id ?req = sr_flag_id req"
    "sr_artifact_type ?req = sr_artifact_type req" "sr_blob ?req = sr_blob req"
    by (simp_all add: effective_request_def)
  obtain s1 r1 where se: "seal_evidence sha sto ?req s = (s1, r1)" by fastforce
  have m1: "blobs_match sha view (committed db) s1"
  proof (cases "build_storage_key (sr_exam_session_id req) (sr_flag_id req) (sr_artifact_type req)")
    case (Inl e)
    with seal_evidence_cases[OF se] sel have "view s1 = view s" by fastforce
    with match show ?thesis by (simp add: blobs_match_def)
  next
    case (Inr key)
    with seal_evidence_cases[OF se] sel have "k \<noteq> key \<Longrightarrow> view s1 k = view s k" for k by auto
    with blobs_match_other[OF match unused[OF Inr]] show ?thesis by blast
  qed
  show ?thesis
  proof (cases "int (length (sr_blob req)) > MAX_BLOB_BYTES \<or> get_row fl_id (sr_flag_id req) (db_flags (working db)) = None")
    case True
    with call have "db' = db" "s' = s" by (auto simp: seal_evidence_for_flag_def split: if_splits)
    with match show ?thesis by simp
  next
    case False
    show ?thesis
    proof (cases r1)
      case (Inl e)
      with call se False have "db' = db" "s' = s1" by (auto simp: seal_evidence_for_flag_def split: if_splits)
      with m1 show ?thesis by simp
    next
      case (Inr seal)
      from seal_evidence_cases[OF se] Inr sel obtain key d where key:
          "build_storage_key (sr_exam_session_id req) (sr_flag_id req) (sr_artifact_type req) = Inr key"
          and seal: "seal = sealed sha ?req key" "view s1 key = Some d" "sha d = sha (sr_blob req)" by auto
      have low: "lower (sha b) = sha b" for b using lower by (simp add: is_digest_function_def)
      show ?thesis
      proof (cases "artifact_type_to_enum (sr_artifact_type req)")
        case (Inl e)
        with call se False Inr have "db' = db" "s' = s1" by (auto simp: seal_evidence_for_flag_def split: if_splits)
        with m1 show ?thesis by simp
      next
        case kind: (Inr kind)
        have s': "s' = s1" and rec: "fst (record_artifact diag (artifact_row aid now req kind seal) seal db) = db'"
          using call se False Inr kind by (auto simp: seal_evidence_for_flag_def split: if_splits prod.splits)
        have "committed db' = committed db \<or>
            committed db' = (committed db)\<lparr> db_evidence_artifacts :=
              db_evidence_artifacts (committed db) @ [artifact_row aid now req kind seal] \<rparr>"
          using rec same by (auto simp: record_artifact_def commit_def Let_def split: if_splits)
        with m1 seal s' show ?thesis
          by (auto simp: blobs_match_def artifact_row_def sealed_def verify_checksum_def compute_sha256_def low sel)
      qed
    qed
  qed
qed

end

section \<open>Properties\<close>

text \<open>C38: over an S3 client that behaves as documented, sealing evidence under a key that no
  artifact uses keeps every recorded checksum verifiable against its stored blob, whatever
  the outcome of the call, even if the client corrupts an upload or a call fails.\<close>

theorem sealing_keeps_checksums:
  assumes "s3_client_ok client bucket view" "is_digest_function sha"
    and "blobs_match sha view (committed db) s" "working db = committed db"
    and "\<And>key. build_storage_key (sr_exam_session_id req) (sr_flag_id req) (sr_artifact_type req) = Inr key \<Longrightarrow>
       \<not> has_key ea_storage_uri (db_evidence_artifacts (committed db)) (''s3://'' @ key)"
  shows "case fst (seal_evidence_for_flag sha (s3_store sha client bucket) dr now aid diag req (db, s)) of
    (db', s') \<Rightarrow> blobs_match sha view (committed db') s'"
proof -
  obtain db' s' r where call: "seal_evidence_for_flag sha (s3_store sha client bucket) dr now aid diag req (db, s)
      = ((db', s'), r)" by (metis prod.exhaust)
  from blob_store.seal_keeps_match[OF s3_store_is_blob_store[OF assms(1)] assms(2-5) call] call
  show ?thesis by simp
qed

text \<open>Concrete instances: a client over a dictionary that ignores buckets, and a digest that
  prints the length of the data.\<close>

definition demo_client :: "blobs s3_client" where
  "demo_client = \<lparr> s3_head_bucket = \<lambda>_ s. (s, Inr ()), s3_create_bucket = \<lambda>_ s. (s, Inr ()),
     s3_put_object = \<lambda>_ k data s. (AList.update k data s, Inr ()),
     s3_get_object = \<lambda>_ k s. (s, case map_of s k of None \<Rightarrow> Inl (ClientError ''NoSuchKey'') | Some d \<Rightarrow> Inr d),
     s3_delete_object = \<lambda>_ k s. (AList.delete k s, Inr ()),
     s3_head_object = \<lambda>_ k s. (s, if map_of s k = None then Inl (ClientError ''404'') else Inr ()) \<rparr>"

lemma demo_client_ok: "s3_client_ok demo_client bucket map_of"
  by (auto simp: s3_client_ok_def demo_client_def update_conv' delete_conv' restrict_map_def split: option.splits)

definition demo_sha :: "bytes \<Rightarrow> string" where
  "demo_sha data = hex_digits 64 (length data)"

lemma lower_hex_digits: "lower (hex_digits k n) = hex_digits k n"
proof (induction k arbitrary: n)
  case (Suc k)
  have "lower_char (hexdigit m) = hexdigit m" if "m < 16" for m
    using below_16[OF that] by (auto simp: lower_char_def hexdigit_def Let_def)
  then show ?case using Suc by (simp add: lower_def)
qed (simp add: lower_def)

lemma demo_sha_ok: "is_digest_function demo_sha"
  by (simp add: is_digest_function_def demo_sha_def lower_hex_digits)

definition demo_request :: "bytes \<Rightarrow> seal_request" where
  "demo_request blob = \<lparr> sr_flag_id = 40, sr_exam_session_id = 1, sr_artifact_type = ''clip'',
     sr_media_type = ''video/webm'', sr_blob = blob, sr_capture_started_at = 20,
     sr_capture_ended_at = Some 30, sr_retention_expires_at = None \<rparr>"

theorem sealing_keeps_checksums_witness:
  "case fst (seal_evidence_for_flag demo_sha (s3_store demo_sha demo_client ''b'') 1000 50 70 []
      (demo_request [1, 2, 3]) (open_session demo_db, [])) of
   (db', s') \<Rightarrow> blobs_match demo_sha map_of (committed db') s'"
proof -
  have "db_evidence_artifacts demo_db = []" by (simp add: demo_db_def empty_database_def)
  then have "blobs_match demo_sha map_of (committed (open_session demo_db)) []" "\<And>k. \<not> has_key ea_storage_uri
      (db_evidence_artifacts (committed (open_session demo_db))) k"
    by (simp_all add: blobs_match_def has_key_def)
  from sealing_keeps_checksums[OF demo_client_ok demo_sha_ok this(1) _ this(2),
      where req = "demo_request [1, 2, 3]" and bucket = "''b''" and dr = 1000 and now = 50 and aid = 70 and diag = "[]"]
  show ?thesis by simp
qed

section \<open>Outcomes over the in-memory store\<close>

lemma seal_evidence_memory:
  assumes "build_storage_key (sr_exam_session_id req) (sr_flag_id req) (sr_artifact_type req) = Inr key"
  shows "seal_evidence sha (memory_store sha) req s = (AList.update key (sr_blob req) s, Inr (sealed sha req key))"
  using assms by (simp add: seal_evidence_def memory_store_def memory_upload_def memory_compute_checksum_def
      memory_download_def update_conv')

lemma artifact_type_enum_known:
  "build_storage_key s f t = Inr key \<Longrightarrow> \<exists>k. artifact_type_to_enum t = Inr k \<and> evidence_kind_value k = t"
  by (auto simp: build_storage_key_def artifact_type_to_enum_def ARTIFACT_EXTENSIONS_def split: if_splits)

lemma seal_memory_outcome:
  assumes ok: "db_ok (working db)" and size: "int (length (sr_blob req)) \<le> MAX_BLOB_BYTES"
    and flag: "has_key fl_id (db_flags (working db)) (sr_flag_id req)"
    and key: "build_storage_key (sr_exam_session_id req) (sr_flag_id req) (sr_artifact_type req) = Inr key"
    and k: "artifact_type_to_enum (sr_artifact_type req) = Inr kind"
  shows "let seal = sealed sha (effective_request dr now req) key; a = artifact_row aid now req kind seal in
    seal_evidence_for_flag sha (memory_store sha) dr now aid diag req (db, s)
     = (if artifact_insertable (working db) a
        then ((\<lparr> committed = (working db)\<lparr> db_evidence_artifacts := db_evidence_artifacts (working db) @ [a] \<rparr>,
                 working = (working db)\<lparr> db_evidence_artifacts := db_evidence_artifacts (working db) @ [a] \<rparr> \<rparr>,
               AList.update key (sr_blob req) s), Inr (a, seal))
        else ((rollback db, AList.update key (sr_blob req) s),
              Inl (EvidenceAlreadySealedError
            (if contains_text ''uq_evidence_artifacts_one_per_flag'' diag
             then ''flag already has an evidence artifact'' else ''flag not found or constraint violation''))))"
proof -
  have g: "get_row fl_id (sr_flag_id req) (db_flags (working db)) \<noteq> None"
    using flag get_row_has_key[of fl_id "sr_flag_id req" "db_flags (working db)"] by blast
  have e: "seal_evidence sha (memory_store sha) (effective_request dr now req) s
      = (AList.update key (sr_blob req) s, Inr (sealed sha (effective_request dr now req) key))"
    using seal_evidence_memory[of "effective_request dr now req" key sha s] key by (simp add: effective_request_def)
  show ?thesis
    using size g k db_ok_add_artifact[OF ok]
    by (simp add: seal_evidence_for_flag_def e record_artifact_def commit_def rollback_def Let_def)
qed

text \<open>sealing for a flag without an artifact commits exactly one row, whose checksum and size
  are those of the blob that the store then holds under the row's key.\<close>

theorem seal_records_blob:
  assumes "db_ok (working db)" "int (length (sr_blob req)) \<le> MAX_BLOB_BYTES"
    and "has_key fl_id (db_flags (working db)) (sr_flag_id req)"
    and "build_storage_key (sr_exam_session_id req) (sr_flag_id req) (sr_artifact_type req) = Inr key"
    and "\<not> has_key ea_id (db_evidence_artifacts (working db)) aid"
    and "\<not> has_key ea_flag_id (db_evidence_artifacts (working db)) (sr_flag_id req)"
    and "\<not> has_key ea_storage_uri (db_evidence_artifacts (working db)) (''s3://'' @ key)"
    and "after_opt (sr_capture_ended_at req) (Some (sr_capture_started_at req))"
    and "sr_capture_started_at req \<le> (case sr_retention_expires_at req of Some t \<Rightarrow> t | None \<Rightarrow> now + dr)"
  shows "\<exists>a seal db' s'.
    seal_evidence_for_flag sha (memory_store sha) dr now aid diag req (db, s) = ((db', s'), Inr (a, seal)) \<and>
    committed db' = (working db)\<lparr> db_evidence_artifacts := db_evidence_artifacts (working db) @ [a] \<rparr> \<and>
    db_ok (committed db') \<and> ea_flag_id a = sr_flag_id req \<and> ea_storage_uri a = ''s3://'' @ key \<and>
    evidence_kind_value (ea_kind a) = sr_artifact_type req \<and>
    map_of s' key = Some (sr_blob req) \<and> ea_content_sha256 a = sha (sr_blob req) \<and>
    ea_byte_size a = int (length (sr_blob req)) \<and>
    ea_retention_expires_at a = (case sr_retention_expires_at req of Some t \<Rightarrow> t | None \<Rightarrow> now + dr)"
proof -
  obtain kind where kind: "artifact_type_to_enum (sr_artifact_type req) = Inr kind" "evidence_kind_value kind = sr_artifact_type req"
    using artifact_type_enum_known[OF assms(4)] by blast
  let ?seal = "sealed sha (effective_request dr now req) key"
  let ?a = "artifact_row aid now req kind ?seal"
  have ins: "artifact_insertable (working db) ?a"
    using assms(3,5-9)
    by (simp add: artifact_insertable_def artifact_row_def sealed_def effective_request_def evidence_artifact_checks_def
        split: option.splits)
  show ?thesis
    using seal_memory_outcome[OF assms(1-4) kind(1), of sha dr now aid diag s] ins
      db_ok_add_artifact[OF assms(1), of ?a] kind(2)
    by (simp add: Let_def artifact_row_def sealed_def effective_request_def compute_sha256_def update_conv')
qed

theorem seal_records_blob_witness:
  "\<exists>a seal db' s'. seal_evidence_for_flag demo_sha (memory_store demo_sha) 1000 50 70 [] (demo_request [1, 2, 3])
      (open_session demo_db, []) = ((db', s'), Inr (a, seal)) \<and> ea_retention_expires_at a = 1050"
proof -
  have e: "db_evidence_artifacts demo_db = []" by (simp add: demo_db_def empty_database_def)
  obtain key where key: "build_storage_key (sr_exam_session_id (demo_request [1, 2, 3])) (sr_flag_id (demo_request [1, 2, 3]))
      (sr_artifact_type (demo_request [1, 2, 3])) = Inr key"
    by (simp add: build_storage_key_def demo_request_def ARTIFACT_EXTENSIONS_def)
  have ok: "db_ok (working (open_session demo_db))" by (simp add: demo_db_ok)
  have rest: "int (length (sr_blob (demo_request [1, 2, 3]))) \<le> MAX_BLOB_BYTES"
    "has_key fl_id (db_flags (working (open_session demo_db))) (sr_flag_id (demo_request [1, 2, 3]))"
    "after_opt (sr_capture_ended_at (demo_request [1, 2, 3])) (Some (sr_capture_started_at (demo_request [1, 2, 3])))"
    "sr_capture_started_at (demo_request [1, 2, 3]) \<le>
       (case sr_retention_expires_at (demo_request [1, 2, 3]) of Some t \<Rightarrow> t | None \<Rightarrow> 50 + 1000)"
    by (simp_all add: demo_request_def MAX_BLOB_BYTES_def has_key_def demo_db_def demo_flag_def after_opt_def)
  show ?thesis
    using seal_records_blob[OF ok rest(1,2) key _ _ _ rest(3,4), of 70 demo_sha "[]" "[]"]
    by (auto simp: e has_key_def demo_request_def)
qed

text \<open>C29: sealing a second artifact of the same type for a flag is refused, but only after the
  upload has replaced the first artifact's blob: the row still records the old checksum, so
  the sealed evidence no longer verifies unless the digests agree.\<close>

theorem reseal_destroys_evidence:
  assumes "db_ok (working db)" "working db = committed db" "int (length (sr_blob req)) \<le> MAX_BLOB_BYTES"
    and "has_key fl_id (db_flags (working db)) (sr_flag_id req)"
    and "build_storage_key (sr_exam_session_id req) (sr_flag_id req) (sr_artifact_type req) = Inr key"
    and "a \<in> set (db_evidence_artifacts (working db))" "ea_flag_id a = sr_flag_id req"
    and "ea_storage_uri a = ''s3://'' @ key"
  shows "\<exists>msg db' s'. seal_evidence_for_flag sha (memory_store sha) dr now aid diag req (db, s)
      = ((db', s'), Inl (EvidenceAlreadySealedError msg)) \<and> committed db' = committed db \<and>
    map_of s' key = Some (sr_blob req) \<and>
    (blobs_match sha map_of (committed db') s' \<longrightarrow> verify_checksum sha (sr_blob req) (ea_content_sha256 a))"
proof -
  obtain kind where kind: "artifact_type_to_enum (sr_artifact_type req) = Inr kind"
    using artifact_type_enum_known[OF assms(5)] by blast
  have "has_key ea_flag_id (db_evidence_artifacts (working db)) (sr_flag_id req)"
    unfolding has_key_iff using assms(6) by (rule rev_image_eqI) (simp add: assms(7))
  then have "\<not> artifact_insertable (working db) (artifact_row aid now req kind seal)" for seal
    by (simp add: artifact_insertable_def artifact_row_def)
  then have call: "\<exists>msg. seal_evidence_for_flag sha (memory_store sha) dr now aid diag req (db, s)
      = ((rollback db, AList.update key (sr_blob req) s), Inl (EvidenceAlreadySealedError msg))"
    using seal_memory_outcome[OF assms(1,3,4,5) kind, of sha dr now aid diag s] by (simp add: Let_def)
  have "blobs_match sha map_of (committed db) (AList.update key (sr_blob req) s)
      \<longrightarrow> verify_checksum sha (sr_blob req) (ea_content_sha256 a)"
    using assms(2,6,8) by (auto simp: blobs_match_def update_conv')
  with call show ?thesis by (auto simp: update_conv')
qed

text \<open>The database after a first sealing.\<close>

definition demo_sealed_db :: database where
  "demo_sealed_db = demo_db\<lparr> db_evidence_artifacts :=
     [artifact_row 70 50 (demo_request [1, 2, 3]) EK_CLIP
        (sealed demo_sha (effective_request 1000 50 (demo_request [1, 2, 3]))
           (case build_storage_key 1 40 ''clip'' of Inr key \<Rightarrow> key))] \<rparr>"

lemma demo_sealed_ok: "db_ok demo_sealed_db"
proof -
  have "db_evidence_artifacts demo_db = []" by (simp add: demo_db_def empty_database_def)
  then have eq: "demo_sealed_db = demo_db\<lparr> db_evidence_artifacts := db_evidence_artifacts demo_db @
     [artifact_row 70 50 (demo_request [1, 2, 3]) EK_CLIP
        (sealed demo_sha (effective_request 1000 50 (demo_request [1, 2, 3]))
           (case build_storage_key 1 40 ''clip'' of Inr key \<Rightarrow> key))] \<rparr>"
    by (simp add: demo_sealed_db_def)
  show ?thesis unfolding eq
    by (subst db_ok_add_artifact[OF demo_db_ok])
       (simp add: artifact_insertable_def artifact_row_def sealed_def effective_request_def demo_request_def
          evidence_artifact_checks_def after_opt_def has_key_def demo_db_def empty_database_def demo_flag_def)
qed

theorem reseal_destroys_evidence_witness:
  "\<exists>msg db' s'. seal_evidence_for_flag demo_sha (memory_store demo_sha) 1000 60 71 [] (demo_request [9])
      (open_session demo_sealed_db, [((case build_storage_key 1 40 ''clip'' of Inr key \<Rightarrow> key), [1, 2, 3])])
      = ((db', s'), Inl (EvidenceAlreadySealedError msg)) \<and> committed db' = demo_sealed_db \<and>
    map_of s' (case build_storage_key 1 40 ''clip'' of Inr key \<Rightarrow> key) = Some [9]"
proof -
  obtain key where key: "build_storage_key 1 40 ''clip'' = Inr key"
    by (simp add: build_storage_key_def ARTIFACT_EXTENSIONS_def)
  let ?a = "hd (db_evidence_artifacts demo_sealed_db)"
  have ok: "db_ok (working (open_session demo_sealed_db))" by (simp add: demo_sealed_ok)
  have f: "working (open_session demo_sealed_db) = committed (open_session demo_sealed_db)"
    "int (length (sr_blob (demo_request [9]))) \<le> MAX_BLOB_BYTES"
    "has_key fl_id (db_flags (working (open_session demo_sealed_db))) (sr_flag_id (demo_request [9]))"
    "build_storage_key (sr_exam_session_id (demo_request [9])) (sr_flag_id (demo_request [9]))
       (sr_artifact_type (demo_request [9])) = Inr key"
    "?a \<in> set (db_evidence_artifacts (working (open_session demo_sealed_db)))"
    "ea_flag_id ?a = sr_flag_id (demo_request [9])" "ea_storage_uri ?a = ''s3://'' @ key"
    using key by (simp_all add: demo_request_def MAX_BLOB_BYTES_def has_key_def demo_sealed_db_def demo_db_def demo_flag_def
        artifact_row_def sealed_def)
  show ?thesis
    using reseal_destroys_evidence[OF ok f, of demo_sha 1000 60 71 "[]" "[(key, [1, 2, 3])]"] key
    by (auto simp: demo_request_def)
qed

end
