(* ===== verification/Retention.thy ===== *)
theory Retention
  imports EvidenceService
begin

text \<open>
  The retention job (\<^verbatim>\<open>evidence/retention.py\<close>): expired artifact rows are taken in batches
  ordered by id; per row the blob is deleted first, then the row; rows that fail are set
  aside; each batch is committed.  Failures of the database that the schema does not explain
  (a lost connection, say) are the arguments \<open>row_fails\<close>, by row, and \<open>commit_fails\<close>, by batch.
\<close>

section \<open>The job\<close>

definition starts_with :: "string \<Rightarrow> string \<Rightarrow> bool" where
  "starts_with pat s \<longleftrightarrow> take (length pat) s = pat"

definition extract_storage_key :: "string \<Rightarrow> string option" where
  "extract_storage_key uri =
     (if starts_with ''s3://'' uri then Some (drop 5 uri)
      else if starts_with ''evidence/'' uri then Some uri
      else None)"

record 's retention_run =
  rt_db :: db_session
  rt_store :: 's
  rt_deleted :: int
  rt_errors :: int
  rt_failed :: "uuid list"
  rt_batch :: int

definition is_expired :: "timestamp \<Rightarrow> evidence_artifact \<Rightarrow> bool" where
  "is_expired now a \<longleftrightarrow> ea_retention_expires_at a < now"

definition select_batch :: "timestamp \<Rightarrow> nat \<Rightarrow> 's retention_run \<Rightarrow> evidence_artifact list" where
  "select_batch now batch_size st =
     take batch_size (sort_key ea_id
       (filter (\<lambda>a. is_expired now a \<and> \<not> List.member (rt_failed st) (ea_id a))
          (db_evidence_artifacts (working (rt_db st)))))"

definition remove_artifact :: "uuid \<Rightarrow> database \<Rightarrow> database" where
  "remove_artifact aid d = d\<lparr> db_evidence_artifacts := filter (\<lambda>a. ea_id a \<noteq> aid) (db_evidence_artifacts d) \<rparr>"

definition delete_row :: "(uuid \<Rightarrow> bool) \<Rightarrow> evidence_artifact \<Rightarrow> 's retention_run \<Rightarrow> 's retention_run" where
  "delete_row row_fails a st =
     (let db1 = (rt_db st)\<lparr> working := remove_artifact (ea_id a) (working (rt_db st)) \<rparr> in
      if row_fails (ea_id a) \<or> \<not> is_Inr (flush db1)
      then st\<lparr> rt_db := rollback db1, rt_failed := rt_failed st @ [ea_id a] \<rparr>
      else st\<lparr> rt_db := db1, rt_batch := rt_batch st + 1, rt_deleted := rt_deleted st + 1 \<rparr>)"

definition process_artifact ::
  "(uuid \<Rightarrow> bool) \<Rightarrow> 's evidence_store \<Rightarrow> evidence_artifact \<Rightarrow> 's retention_run \<Rightarrow> 's retention_run" where
  "process_artifact row_fails sto a st =
     (case extract_storage_key (ea_storage_uri a) of
        None \<Rightarrow> st\<lparr> rt_errors := rt_errors st + 1, rt_failed := rt_failed st @ [ea_id a] \<rparr>
      | Some key \<Rightarrow>
          (case sto_delete sto key (rt_store st) of
             (s1, Inl (EvidenceStoreError _)) \<Rightarrow>
               st\<lparr> rt_store := s1, rt_errors := rt_errors st + 1, rt_failed := rt_failed st @ [ea_id a] \<rparr>
           | (s1, _) \<Rightarrow> delete_row row_fails a (st\<lparr> rt_store := s1 \<rparr>)))"

definition process_batch ::
  "(uuid \<Rightarrow> bool) \<Rightarrow> 's evidence_store \<Rightarrow> evidence_artifact list \<Rightarrow> 's retention_run \<Rightarrow> 's retention_run" where
  "process_batch row_fails sto batch st = fold (process_artifact row_fails sto) batch (st\<lparr> rt_batch := 0 \<rparr>)"

text \<open>The end of an iteration: \<open>None\<close> stands for the \<^verbatim>\<open>break\<close> after a failed commit, with the
  state it leaves.\<close>

definition finish_batch :: "bool \<Rightarrow> 's retention_run \<Rightarrow> 's retention_run \<times> bool" where
  "finish_batch fails st =
     (if rt_batch st > 0
      then (case commit (rt_db st) of
              Inr db1 \<Rightarrow> if fails then (st\<lparr> rt_db := rollback (rt_db st), rt_deleted := rt_deleted st - rt_batch st \<rparr>, False)
                         else (st\<lparr> rt_db := db1 \<rparr>, True)
            | Inl _ \<Rightarrow> (st\<lparr> rt_db := rollback (rt_db st), rt_deleted := rt_deleted st - rt_batch st \<rparr>, False))
      else (st, True))"

section \<open>Progress\<close>

definition open_ids :: "timestamp \<Rightarrow> 's retention_run \<Rightarrow> uuid set" where
  "open_ids now st =
     ea_id ` {a \<in> set (db_evidence_artifacts (committed (rt_db st))) \<union> set (db_evidence_artifacts (working (rt_db st))).
              is_expired now a} - set (rt_failed st)"

lemma finite_open_ids [simp]: "finite (open_ids now st)"
  by (simp add: open_ids_def)

text \<open>What processing rows preserves, and that a row either fails or disappears.\<close>

definition evolves :: "'s retention_run \<Rightarrow> 's retention_run \<Rightarrow> bool" where
  "evolves st st' \<longleftrightarrow> committed (rt_db st') = committed (rt_db st) \<and> set (rt_failed st) \<subseteq> set (rt_failed st') \<and>
     set (db_evidence_artifacts (working (rt_db st'))) \<subseteq>
       set (db_evidence_artifacts (committed (rt_db st))) \<union> set (db_evidence_artifacts (working (rt_db st)))"

lemma evolves_refl [simp]: "evolves st st"
  by (simp add: evolves_def)

lemma evolves_trans: "evolves a b \<Longrightarrow> evolves b c \<Longrightarrow> evolves a c"
  by (auto simp: evolves_def)

text \<open>The three outcomes of a row.\<close>

lemma process_artifact_cases:
  obtains (skipped) s where "process_artifact rf sto a st
      = st\<lparr> rt_store := s, rt_errors := rt_errors st + 1, rt_failed := rt_failed st @ [ea_id a] \<rparr>"
  | (undone) s where "rf (ea_id a) \<or> \<not> db_ok (remove_artifact (ea_id a) (working (rt_db st)))"
      "process_artifact rf sto a st
      = st\<lparr> rt_store := s, rt_db := rollback (rt_db st), rt_failed := rt_failed st @ [ea_id a] \<rparr>"
  | (removed) s key r where "extract_storage_key (ea_storage_uri a) = Some key" "sto_delete sto key (rt_store st) = (s, r)"
      "(\<exists>m. r = Inl (EvidenceNotFoundError m)) \<or> r = Inr ()" "\<not> rf (ea_id a)"
      "db_ok (remove_artifact (ea_id a) (working (rt_db st)))"
      "process_artifact rf sto a st = st\<lparr> rt_store := s,
         rt_db := (rt_db st)\<lparr> working := remove_artifact (ea_id a) (working (rt_db st)) \<rparr>,
         rt_batch := rt_batch st + 1, rt_deleted := rt_deleted st + 1 \<rparr>"
proof (cases "extract_storage_key (ea_storage_uri a)")
  case None
  have "process_artifact rf sto a st
      = st\<lparr> rt_store := rt_store st, rt_errors := rt_errors st + 1, rt_failed := rt_failed st @ [ea_id a] \<rparr>"
    by (simp add: process_artifact_def None)
  then show ?thesis by (rule skipped)
next
  case (Some key)
  obtain s r where del: "sto_delete sto key (rt_store st) = (s, r)" by fastforce
  show ?thesis
  proof (cases "\<exists>m. r = Inl (EvidenceStoreError m)")
    case True
    then have "process_artifact rf sto a st
        = st\<lparr> rt_store := s, rt_errors := rt_errors st + 1, rt_failed := rt_failed st @ [ea_id a] \<rparr>"
      by (auto simp: process_artifact_def Some del)
    then show ?thesis by (rule skipped)
  next
    case False
    then have r: "(\<exists>m. r = Inl (EvidenceNotFoundError m)) \<or> r = Inr ()"
      by (cases r) (metis store_error.exhaust, simp)
    then have step: "process_artifact rf sto a st = delete_row rf a (st\<lparr> rt_store := s \<rparr>)"
      by (auto simp: process_artifact_def Some del)
    show ?thesis
    proof (cases "rf (ea_id a) \<or> \<not> db_ok (remove_artifact (ea_id a) (working (rt_db st)))")
      case True
      then have "process_artifact rf sto a st
          = st\<lparr> rt_store := s, rt_db := rollback (rt_db st), rt_failed := rt_failed st @ [ea_id a] \<rparr>"
        by (auto simp: step delete_row_def flush_def Let_def rollback_def)
      with True show ?thesis by (intro undone)
    next
      case ok: False
      then have "process_artifact rf sto a st = st\<lparr> rt_store := s,
         rt_db := (rt_db st)\<lparr> working := remove_artifact (ea_id a) (working (rt_db st)) \<rparr>,
         rt_batch := rt_batch st + 1, rt_deleted := rt_deleted st + 1 \<rparr>"
        by (simp add: step delete_row_def flush_def Let_def)
      with Some del r ok show ?thesis by (intro removed) auto
    qed
  qed
qed

lemma process_artifact_evolves: "evolves st (process_artifact rf sto a st)"
  by (cases rule: process_artifact_cases[of rf sto a st]) (auto simp: evolves_def remove_artifact_def)

lemma process_artifact_progress:
  "ea_id a \<in> set (rt_failed (process_artifact rf sto a st)) \<or>
   (rt_failed (process_artifact rf sto a st) = rt_failed st \<and> rt_batch (process_artifact rf sto a st) = rt_batch st + 1 \<and>
    db_evidence_artifacts (working (rt_db (process_artifact rf sto a st)))
      = filter (\<lambda>b. ea_id b \<noteq> ea_id a) (db_evidence_artifacts (working (rt_db st))))"
  by (cases rule: process_artifact_cases[of rf sto a st]) (simp_all add: remove_artifact_def)

lemma fold_evolves: "evolves st (fold (process_artifact rf sto) batch st)"
proof (induction batch arbitrary: st)
  case (Cons a batch)
  from evolves_trans[OF process_artifact_evolves Cons.IH] show ?case by simp
qed simp

lemma fold_progress:
  fixes f
  assumes f_def: "f = fold (process_artifact rf sto)"
  shows "(\<exists>a\<in>set batch. ea_id a \<in> set (rt_failed (f batch st))) \<or>
    (rt_failed (f batch st) = rt_failed st \<and> rt_batch (f batch st) = rt_batch st + int (length batch) \<and>
     db_evidence_artifacts (working (rt_db (f batch st)))
       = filter (\<lambda>b. ea_id b \<notin> ea_id ` set batch) (db_evidence_artifacts (working (rt_db st))))"
proof (induction batch arbitrary: st)
  case (Cons a batch)
  let ?st1 = "process_artifact rf sto a st"
  show ?case
  proof (cases "ea_id a \<in> set (rt_failed ?st1)")
    case True
    with fold_evolves[of ?st1 rf sto batch] show ?thesis by (auto simp: f_def evolves_def)
  next
    case False
    with process_artifact_progress[of a rf sto st] Cons.IH[of ?st1] show ?thesis
      by (auto simp: f_def)
  qed
qed (simp add: f_def)

lemma finish_batch_cases:
  "finish_batch fails st = (st', go) \<Longrightarrow>
     (st' = st \<and> go \<and> rt_batch st \<le> 0) \<or>
     (rt_batch st > 0 \<and> st' = st\<lparr> rt_db := rollback (rt_db st), rt_deleted := rt_deleted st - rt_batch st \<rparr> \<and> \<not> go) \<or>
     (rt_batch st > 0 \<and> go \<and> db_ok (working (rt_db st)) \<and>
      st' = st\<lparr> rt_db := \<lparr> committed = working (rt_db st), working = working (rt_db st) \<rparr> \<rparr>)"
  by (auto simp: finish_batch_def commit_def split: if_splits)

lemma batch_decreases:
  assumes "select_batch now n st \<noteq> []"
    and "finish_batch fails (process_batch rf sto (select_batch now n st) st) = (st', True)"
  shows "card (open_ids now st') < card (open_ids now st)"
proof -
  let ?batch = "select_batch now n st" and ?st0 = "st\<lparr> rt_batch := 0 \<rparr>"
  define st1 where "st1 = process_batch rf sto ?batch st"
  have st1: "st1 = fold (process_artifact rf sto) ?batch ?st0" by (simp add: st1_def process_batch_def)
  have ev: "committed (rt_db st1) = committed (rt_db st)" "set (rt_failed st) \<subseteq> set (rt_failed st1)"
    "set (db_evidence_artifacts (working (rt_db st1))) \<subseteq>
       set (db_evidence_artifacts (committed (rt_db st))) \<union> set (db_evidence_artifacts (working (rt_db st)))"
    using fold_evolves[of ?st0 rf sto ?batch] by (auto simp: st1 evolves_def)
  have fin: "(st' = st1 \<and> rt_batch st1 \<le> 0) \<or>
     (rt_batch st1 > 0 \<and> st' = st1\<lparr> rt_db := \<lparr> committed = working (rt_db st1), working = working (rt_db st1) \<rparr> \<rparr>)"
    using finish_batch_cases[OF assms(2)] by (auto simp: st1_def)
  have sub: "open_ids now st' \<subseteq> open_ids now st"
    using fin ev by (auto simp: open_ids_def)
  have batch: "ea_id a \<in> open_ids now st" if "a \<in> set ?batch" for a
    using that by (auto simp: select_batch_def open_ids_def List.member_iff dest!: in_set_takeD)
  obtain a where a: "a \<in> set ?batch" using assms(1) by (cases ?batch) auto
  have "\<exists>a\<in>set ?batch. ea_id a \<notin> open_ids now st'"
    using fold_progress[OF refl, of ?batch rf sto ?st0]
  proof (elim disjE)
    assume "\<exists>a\<in>set ?batch. ea_id a \<in> set (rt_failed (fold (process_artifact rf sto) ?batch ?st0))"
    then obtain b where "b \<in> set ?batch" "ea_id b \<in> set (rt_failed st1)" by (auto simp: st1)
    moreover have "rt_failed st' = rt_failed st1" using fin by auto
    ultimately show ?thesis by (auto simp: open_ids_def)
  next
    assume "rt_failed (fold (process_artifact rf sto) ?batch ?st0) = rt_failed ?st0 \<and>
      rt_batch (fold (process_artifact rf sto) ?batch ?st0) = rt_batch ?st0 + int (length ?batch) \<and>
      db_evidence_artifacts (working (rt_db (fold (process_artifact rf sto) ?batch ?st0)))
       = filter (\<lambda>b. ea_id b \<notin> ea_id ` set ?batch) (db_evidence_artifacts (working (rt_db ?st0)))"
    then have "rt_batch st1 > 0" "db_evidence_artifacts (working (rt_db st1))
       = filter (\<lambda>b. ea_id b \<notin> ea_id ` set ?batch) (db_evidence_artifacts (working (rt_db st)))"
      using a by (auto simp: st1)
    with fin imageI[OF a, of ea_id] show ?thesis by (intro bexI[OF _ a]) (auto simp: open_ids_def)
  qed
  then show ?thesis using sub batch by (intro psubset_card_mono) auto
qed

section \<open>The loop\<close>

function retention_loop ::
  "(uuid \<Rightarrow> bool) \<Rightarrow> (nat \<Rightarrow> bool) \<Rightarrow> 's evidence_store \<Rightarrow> timestamp \<Rightarrow> nat \<Rightarrow> nat \<Rightarrow> 's retention_run \<Rightarrow> 's retention_run" where
  "retention_loop row_fails commit_fails sto now batch_size i st =
     (let batch = select_batch now batch_size st in
      if batch = [] then st
      else case finish_batch (commit_fails i) (process_batch row_fails sto batch st) of
             (st', go) \<Rightarrow> if go then retention_loop row_fails commit_fails sto now batch_size (Suc i) st' else st')"
  by pat_completeness auto
termination
  by (relation "measure (\<lambda>(rf, cf, sto, now, n, i, st). card (open_ids now st))") (auto dest!: batch_decreases[OF _ sym])

declare retention_loop.simps [simp del]

lemma retention_loop_stop:
  "select_batch now n st = [] \<Longrightarrow> retention_loop rf cf sto now n i st = st"
  by (subst retention_loop.simps) simp

lemma retention_loop_next:
  "select_batch now n st \<noteq> [] \<Longrightarrow>
   finish_batch (cf i) (process_batch rf sto (select_batch now n st) st) = (st', go) \<Longrightarrow>
   retention_loop rf cf sto now n i st = (if go then retention_loop rf cf sto now n (Suc i) st' else st')"
  by (subst retention_loop.simps) simp

definition run_retention_deletion ::
  "(uuid \<Rightarrow> bool) \<Rightarrow> (nat \<Rightarrow> bool) \<Rightarrow> db_session \<Rightarrow> 's evidence_store \<Rightarrow> timestamp \<Rightarrow> nat \<Rightarrow> 's \<Rightarrow> 's retention_run" where
  "run_retention_deletion row_fails commit_fails db sto now batch_size s =
     retention_loop row_fails commit_fails sto now batch_size 0
       \<lparr> rt_db = db, rt_store = s, rt_deleted = 0, rt_errors = 0, rt_failed = [], rt_batch = 0 \<rparr>"

section \<open>What a run leaves\<close>

text \<open>\<open>purged\<close>: the database is the original one with some expired artifacts removed, none of
  whose blobs is in the store any more.\<close>

definition purged ::
  "('s \<Rightarrow> string \<Rightarrow> bytes option) \<Rightarrow> timestamp \<Rightarrow> database \<Rightarrow> database \<Rightarrow> 's \<Rightarrow> bool" where
  "purged view now d0 d s \<longleftrightarrow>
     (\<exists>P. d = d0\<lparr> db_evidence_artifacts := filter P (db_evidence_artifacts d0) \<rparr> \<and>
       (\<forall>a\<in>set (db_evidence_artifacts d0). \<not> P a \<longrightarrow>
          is_expired now a \<and> (\<exists>key. extract_storage_key (ea_storage_uri a) = Some key \<and> view s key = None)))"

lemma purged_refl: "purged view now d d s"
  unfolding purged_def by (rule exI[of _ "\<lambda>_. True"]) simp

lemma purged_store:
  assumes "purged view now d0 d s" "\<And>k. view s k = None \<Longrightarrow> view s' k = None"
  shows "purged view now d0 d s'"
  using assms unfolding purged_def by metis

lemma purged_rows: "purged view now d0 d s \<Longrightarrow> set (db_evidence_artifacts d) \<subseteq> set (db_evidence_artifacts d0)"
  by (auto simp: purged_def)

lemma purged_remove:
  assumes "purged view now d0 d s" "db_ok d0" "a \<in> set (db_evidence_artifacts d0)" "is_expired now a"
    and "extract_storage_key (ea_storage_uri a) = Some key" "view s key = None"
  shows "purged view now d0 (remove_artifact (ea_id a) d) s"
proof -
  obtain P where P: "d = d0\<lparr> db_evidence_artifacts := filter P (db_evidence_artifacts d0) \<rparr>"
    "\<forall>b\<in>set (db_evidence_artifacts d0). \<not> P b \<longrightarrow> is_expired now b \<and>
        (\<exists>key. extract_storage_key (ea_storage_uri b) = Some key \<and> view s key = None)"
    using assms(1) by (auto simp: purged_def)
  have "b = a" if "b \<in> set (db_evidence_artifacts d0)" "ea_id b = ea_id a" for b
    using that assms(2,3) by (auto simp: ok_parts distinct_map inj_on_def)
  with P(2) assms(4-6) have "\<forall>b\<in>set (db_evidence_artifacts d0). \<not> (P b \<and> ea_id b \<noteq> ea_id a) \<longrightarrow> is_expired now b \<and>
        (\<exists>key. extract_storage_key (ea_storage_uri b) = Some key \<and> view s key = None)" by blast
  moreover have "remove_artifact (ea_id a) d
      = d0\<lparr> db_evidence_artifacts := filter (\<lambda>b. P b \<and> ea_id b \<noteq> ea_id a) (db_evidence_artifacts d0) \<rparr>"
    by (simp add: P(1) remove_artifact_def conj_commute)
  ultimately show ?thesis unfolding purged_def by (intro exI[of _ "\<lambda>b. P b \<and> ea_id b \<noteq> ea_id a"]) simp
qed

definition both_purged ::
  "('s \<Rightarrow> string \<Rightarrow> bytes option) \<Rightarrow> timestamp \<Rightarrow> database \<Rightarrow> 's retention_run \<Rightarrow> bool" where
  "both_purged view now d0 st \<longleftrightarrow> purged view now d0 (committed (rt_db st)) (rt_store st) \<and>
     purged view now d0 (working (rt_db st)) (rt_store st)"

lemma select_batch_rows:
  assumes "a \<in> set (select_batch now n st)"
  shows "a \<in> set (db_evidence_artifacts (working (rt_db st)))" "is_expired now a" "ea_id a \<notin> set (rt_failed st)"
  using assms by (auto simp: select_batch_def List.member_iff dest!: in_set_takeD)

context blob_store
begin

lemma delete_keeps_gone: "sto_delete sto k s = (s', r) \<Longrightarrow> view s j = None \<Longrightarrow> view s' j = None"
  using delete_other[of k s s' r j] delete_shrinks[of k s s' r] by (cases "j = k") auto

lemma process_artifact_store:
  "view (rt_store st) j = None \<Longrightarrow> view (rt_store (process_artifact rf sto a st)) j = None"
  by (auto simp: process_artifact_def delete_row_def Let_def intro: delete_keeps_gone
      split: option.splits prod.splits sum.splits store_error.splits)

lemma process_artifact_purged:
  assumes "both_purged view now d0 st" "db_ok d0" "a \<in> set (db_evidence_artifacts d0)" "is_expired now a"
  shows "both_purged view now d0 (process_artifact rf sto a st)"
proof -
  let ?st1 = "process_artifact rf sto a st"
  have old: "purged view now d0 (committed (rt_db st)) (rt_store ?st1)" "purged view now d0 (working (rt_db st)) (rt_store ?st1)"
    using assms(1) purged_store[where view = view and s = "rt_store st" and s' = "rt_store ?st1"] process_artifact_store
    unfolding both_purged_def by blast+
  show ?thesis
  proof (cases rule: process_artifact_cases[of rf sto a st])
    case (removed s key r)
    then have "view (rt_store ?st1) key = None" using delete_gone delete_missing by auto
    from purged_remove[OF old(2) assms(2-4) removed(1) this] old(1) show ?thesis
      using removed by (simp add: both_purged_def)
  qed (use old in \<open>simp_all add: both_purged_def\<close>)
qed

lemma process_batch_purged:
  "both_purged view now d0 st \<Longrightarrow> db_ok d0 \<Longrightarrow> (\<And>a. a \<in> set batch \<Longrightarrow> a \<in> set (db_evidence_artifacts d0) \<and> is_expired now a)
   \<Longrightarrow> both_purged view now d0 (fold (process_artifact rf sto) batch st)"
  by (induction batch arbitrary: st) (simp_all add: process_artifact_purged)

lemma finish_batch_purged:
  "both_purged view now d0 st \<Longrightarrow> finish_batch b st = (st', go) \<Longrightarrow> both_purged view now d0 st'"
  by (drule finish_batch_cases) (auto simp: both_purged_def)

lemma retention_loop_purged:
  "both_purged view now d0 st \<Longrightarrow> db_ok d0 \<Longrightarrow> both_purged view now d0 (retention_loop rf cf sto now n i st)"
proof (induction "card (open_ids now st)" arbitrary: st i rule: less_induct)
  case less
  let ?batch = "select_batch now n st"
  show ?case
  proof (cases "?batch = []")
    case True
    with less.prems show ?thesis by (simp add: retention_loop_stop)
  next
    case False
    obtain st' go where f: "finish_batch (cf i) (process_batch rf sto ?batch st) = (st', go)" by fastforce
    have "both_purged view now d0 (st\<lparr> rt_batch := 0 \<rparr>)" using less.prems(1) by (simp add: both_purged_def)
    moreover have "a \<in> set (db_evidence_artifacts d0) \<and> is_expired now a" if "a \<in> set ?batch" for a
      using select_batch_rows[OF that] purged_rows[of view now d0 "working (rt_db st)" "rt_store st"] less.prems(1)
      by (auto simp: both_purged_def)
    ultimately have "both_purged view now d0 (process_batch rf sto ?batch st)"
      unfolding process_batch_def by (intro process_batch_purged less.prems(2))
    from finish_batch_purged[OF this f] have st': "both_purged view now d0 st'" .
    show ?thesis
    proof (cases go)
      case True
      with batch_decreases[OF False] f have "card (open_ids now st') < card (open_ids now st)" by auto
      from less.hyps[OF this st' less.prems(2)] True show ?thesis by (simp add: retention_loop_next[where cf = cf and i = i, OF False f])
    next
      case go: False
      with st' show ?thesis by (simp add: retention_loop_next[where cf = cf and i = i, OF False f])
    qed
  qed
qed

end

section \<open>Accounting without row failures\<close>

text \<open>The state inside a batch when the database deletes every row it is asked to.\<close>

definition accounts :: "timestamp \<Rightarrow> int \<Rightarrow> 's retention_run \<Rightarrow> bool" where
  "accounts now n0 st \<longleftrightarrow> db_ok (working (rt_db st)) \<and> 0 \<le> rt_batch st \<and>
     rt_deleted st + int (length (db_evidence_artifacts (working (rt_db st)))) = n0 \<and>
     rt_deleted st - rt_batch st + int (length (db_evidence_artifacts (committed (rt_db st)))) = n0 \<and>
     rt_errors st = int (length (rt_failed st)) \<and> distinct (rt_failed st) \<and>
     set (rt_failed st) \<subseteq> ea_id ` {a \<in> set (db_evidence_artifacts (working (rt_db st))). is_expired now a} \<and>
     (rt_batch st = 0 \<longrightarrow> working (rt_db st) = committed (rt_db st))"

lemma length_remove_one:
  "distinct (map ea_id xs) \<Longrightarrow> a \<in> set xs \<Longrightarrow> Suc (length (filter (\<lambda>b. ea_id b \<noteq> ea_id a) xs)) = length xs"
proof (induction xs)
  case (Cons x xs)
  show ?case
  proof (cases "a = x")
    case True
    with Cons.prems have "filter (\<lambda>b. ea_id b \<noteq> ea_id a) xs = xs" by (auto simp: filter_id_conv image_iff)
    with True show ?thesis by simp
  next
    case False
    with Cons.prems have "a \<in> set xs" "ea_id x \<noteq> ea_id a" by (auto simp: image_iff)
    with Cons show ?thesis by simp
  qed
qed simp

lemma remove_artifact_ok: "db_ok d \<Longrightarrow> db_ok (remove_artifact aid d)"
  unfolding remove_artifact_def by (rule db_ok_remove_artifact)

lemma process_artifact_accounts:
  assumes "accounts now n0 st" "a \<in> set (db_evidence_artifacts (working (rt_db st)))" "is_expired now a"
    "ea_id a \<notin> set (rt_failed st)"
  shows "accounts now n0 (process_artifact (\<lambda>_. False) sto a st) \<and>
    (\<forall>b. b \<in> set (db_evidence_artifacts (working (rt_db st))) \<longrightarrow> ea_id b \<noteq> ea_id a \<longrightarrow>
       b \<in> set (db_evidence_artifacts (working (rt_db (process_artifact (\<lambda>_. False) sto a st))))) \<and>
    set (rt_failed (process_artifact (\<lambda>_. False) sto a st)) \<subseteq> insert (ea_id a) (set (rt_failed st))"
proof (cases rule: process_artifact_cases[of "\<lambda>_. False" sto a st])
  case (skipped s)
  with assms show ?thesis by (auto simp: accounts_def)
next
  case (undone s)
  with assms(1) remove_artifact_ok show ?thesis by (auto simp: accounts_def)
next
  case (removed s key r)
  have dist: "distinct (map ea_id (db_evidence_artifacts (working (rt_db st))))"
    using assms(1) by (simp add: accounts_def ok_parts)
  let ?rows = "filter (\<lambda>b. ea_id b \<noteq> ea_id a) (db_evidence_artifacts (working (rt_db st)))"
  have "set (rt_failed st) \<subseteq> ea_id ` {b \<in> set ?rows. is_expired now b}"
  proof
    fix i assume i: "i \<in> set (rt_failed st)"
    then obtain b where "b \<in> set (db_evidence_artifacts (working (rt_db st)))" "is_expired now b" "ea_id b = i"
      using assms(1) by (auto simp: accounts_def)
    moreover have "i \<noteq> ea_id a" using i assms(4) by auto
    ultimately show "i \<in> ea_id ` {b \<in> set ?rows. is_expired now b}" by force
  qed
  moreover have "int (length ?rows) + 1 = int (length (db_evidence_artifacts (working (rt_db st))))"
    using length_remove_one[OF dist assms(2)] by simp
  ultimately have "accounts now n0 (process_artifact (\<lambda>_. False) sto a st)"
    using assms(1) removed(5) by (simp add: removed(6) accounts_def remove_artifact_def)
  then show ?thesis by (auto simp: removed(6) remove_artifact_def)
qed

lemma process_batch_accounts:
  assumes "accounts now n0 st" "distinct (map ea_id batch)"
    and "\<And>a. a \<in> set batch \<Longrightarrow> a \<in> set (db_evidence_artifacts (working (rt_db st))) \<and> is_expired now a \<and>
      ea_id a \<notin> set (rt_failed st)"
  shows "accounts now n0 (fold (process_artifact (\<lambda>_. False) sto) batch st)"
  using assms
proof (induction batch arbitrary: st)
  case (Cons a batch)
  from Cons.prems(3)[of a] process_artifact_accounts[OF Cons.prems(1), of a sto]
  have step: "accounts now n0 (process_artifact (\<lambda>_. False) sto a st)"
    "\<And>b. b \<in> set (db_evidence_artifacts (working (rt_db st))) \<Longrightarrow> ea_id b \<noteq> ea_id a \<Longrightarrow>
       b \<in> set (db_evidence_artifacts (working (rt_db (process_artifact (\<lambda>_. False) sto a st))))"
    "set (rt_failed (process_artifact (\<lambda>_. False) sto a st)) \<subseteq> insert (ea_id a) (set (rt_failed st))"
    by auto
  have "b \<in> set (db_evidence_artifacts (working (rt_db (process_artifact (\<lambda>_. False) sto a st)))) \<and> is_expired now b \<and>
      ea_id b \<notin> set (rt_failed (process_artifact (\<lambda>_. False) sto a st))" if "b \<in> set batch" for b
  proof -
    have "ea_id b \<noteq> ea_id a" using Cons.prems(2) that by (auto simp: image_iff)
    with step(2,3) Cons.prems(3)[of b] that show ?thesis by auto
  qed
  from Cons.IH[OF step(1) _ this] Cons.prems(2) show ?case by simp
qed simp

lemma select_batch_distinct:
  assumes "db_ok (working (rt_db st))"
  shows "distinct (map ea_id (select_batch now n st))"
proof -
  have "distinct (map ea_id (db_evidence_artifacts (working (rt_db st))))" using assms by (simp add: ok_parts)
  then have "distinct (map ea_id (sort_key ea_id (filter (\<lambda>a. is_expired now a \<and> \<not> List.member (rt_failed st) (ea_id a))
      (db_evidence_artifacts (working (rt_db st))))))"
    by (auto simp: distinct_map intro: inj_on_subset)
  then show ?thesis by (simp add: select_batch_def take_map flip: take_map)
qed

lemma finish_batch_accounts:
  assumes "accounts now n0 st" "finish_batch b st = (st', go)"
  shows "if go then accounts now n0 (st'\<lparr> rt_batch := 0 \<rparr>)
    else rt_deleted st' + int (length (db_evidence_artifacts (committed (rt_db st')))) = n0"
  using finish_batch_cases[OF assms(2)] assms(1) by (auto simp: accounts_def)

lemma finish_batch_go: "finish_batch False st = (st', go) \<Longrightarrow> db_ok (working (rt_db st)) \<Longrightarrow> go"
  by (auto simp: finish_batch_def commit_def split: if_splits)

lemma select_batch_Nil:
  assumes "select_batch now n st = []" "0 < n" "a \<in> set (db_evidence_artifacts (working (rt_db st)))" "is_expired now a"
  shows "ea_id a \<in> set (rt_failed st)"
proof -
  let ?rows = "filter (\<lambda>a. is_expired now a \<and> \<not> List.member (rt_failed st) (ea_id a)) (db_evidence_artifacts (working (rt_db st)))"
  from assms(1,2) have "sort_key ea_id ?rows = []" by (simp only: select_batch_def take_eq_Nil) simp
  then have "set ?rows = {}" by (metis set_sort list.set(1))
  with assms(3,4) show ?thesis by (auto simp: List.member_iff)
qed

text \<open>At the end every remaining expired row is one that failed.\<close>

lemma accounts_done:
  assumes "accounts now n0 st" "select_batch now n st = []" "0 < n"
  shows "rt_errors st = int (length (filter (is_expired now) (db_evidence_artifacts (working (rt_db st)))))"
proof -
  let ?rows = "filter (is_expired now) (db_evidence_artifacts (working (rt_db st)))"
  have "\<forall>a\<in>set ?rows. ea_id a \<in> set (rt_failed st)"
    using select_batch_Nil[OF assms(2,3)] by simp
  with assms(1) have "ea_id ` set ?rows = set (rt_failed st)" by (auto simp: accounts_def)
  moreover have "distinct (map ea_id ?rows)"
    using assms(1) by (simp add: accounts_def ok_parts distinct_map_filter_keep)
  moreover have "distinct (rt_failed st)" using assms(1) by (simp add: accounts_def)
  ultimately have "length (rt_failed st) = length (map ea_id ?rows)"
    by (metis distinct_card set_map)
  with assms(1) show ?thesis by (simp add: accounts_def)
qed

lemma retention_loop_accounts:
  assumes "accounts now n0 (st\<lparr> rt_batch := 0 \<rparr>)" "0 < n"
  shows "case retention_loop (\<lambda>_. False) cf sto now n i st of st' \<Rightarrow>
    rt_deleted st' + int (length (db_evidence_artifacts (committed (rt_db st')))) = n0 \<and>
    ((\<forall>i. \<not> cf i) \<longrightarrow> rt_errors st' = int (length (filter (is_expired now) (db_evidence_artifacts (committed (rt_db st'))))))"
  using assms
proof (induction "card (open_ids now st)" arbitrary: st i rule: less_induct)
  case less
  let ?batch = "select_batch now n st" and ?st0 = "st\<lparr> rt_batch := 0 \<rparr>"
  have sel: "select_batch now n ?st0 = ?batch" by (simp add: select_batch_def)
  show ?case
  proof (cases "?batch = []")
    case True
    have "accounts now n0 ?st0" by (rule less.prems(1))
    moreover from this have "working (rt_db st) = committed (rt_db st)" by (simp add: accounts_def)
    moreover have "rt_errors ?st0 = int (length (filter (is_expired now) (db_evidence_artifacts (working (rt_db ?st0)))))"
      using accounts_done[OF less.prems(1) _ less.prems(2)] sel True by simp
    ultimately show ?thesis by (simp add: retention_loop_stop[OF True] accounts_def)
  next
    case False
    obtain st' go where f: "finish_batch (cf i) (process_batch (\<lambda>_. False) sto ?batch st) = (st', go)" by fastforce
    have okw: "db_ok (working (rt_db st))"
      using less.prems(1)[unfolded accounts_def, THEN conjunct1] by simp
    have acc: "accounts now n0 (process_batch (\<lambda>_. False) sto ?batch st)"
      unfolding process_batch_def
    proof (rule process_batch_accounts[OF less.prems(1)])
      show "distinct (map ea_id ?batch)"
        by (rule select_batch_distinct) (rule okw)
    next
      fix a assume "a \<in> set ?batch"
      from select_batch_rows[OF this] show "a \<in> set (db_evidence_artifacts (working (rt_db ?st0))) \<and> is_expired now a \<and>
        ea_id a \<notin> set (rt_failed ?st0)" by simp
    qed
    note fin = finish_batch_accounts[OF acc f]
    show ?thesis
    proof (cases go)
      case True
      with batch_decreases[OF False] f have "card (open_ids now st') < card (open_ids now st)" by auto
      from less.hyps[OF this _ less.prems(2), of "Suc i"] True fin show ?thesis
        by (simp add: retention_loop_next[where cf = cf and i = i, OF False f])
    next
      case go: False
      have "cf i"
      proof (rule ccontr)
        assume "\<not> cf i"
        with f have "finish_batch False (process_batch (\<lambda>_. False) sto ?batch st) = (st', go)" by simp
        from finish_batch_go[OF this acc[unfolded accounts_def, THEN conjunct1]] go show False by simp
      qed
      with go fin show ?thesis by (auto simp: retention_loop_next[where cf = cf and i = i, OF False f])
    qed
  qed
qed

section \<open>Properties\<close>

text \<open>C39: whatever fails, in the store, per row or at a commit, the job ends; it removes only
  expired artifact rows, changes nothing else of the database, and leaves no blob in the
  object store for a row it removed.\<close>

theorem retention_safe:
  assumes "s3_client_ok client bucket view" "db_ok d"
  shows "case run_retention_deletion row_fails commit_fails (open_session d) (s3_store sha client bucket) now n s of r \<Rightarrow>
    purged view now d (committed (rt_db r)) (rt_store r)"
  using blob_store.retention_loop_purged[OF s3_store_is_blob_store[OF assms(1)] _ assms(2)]
  by (simp add: run_retention_deletion_def both_purged_def purged_refl)

text \<open>when the database deletes the rows it is asked to, the job reports exactly the number of
  rows it removed, also after a failed commit; and when no commit fails, the reported storage
  errors are exactly the expired rows that remain.\<close>

theorem retention_counts:
  assumes "db_ok d" "0 < n"
  shows "case run_retention_deletion (\<lambda>_. False) commit_fails (open_session d) sto now n s of r \<Rightarrow>
    rt_deleted r = int (length (db_evidence_artifacts d)) - int (length (db_evidence_artifacts (committed (rt_db r)))) \<and>
    ((\<forall>i. \<not> commit_fails i) \<longrightarrow>
       rt_errors r = int (length (filter (is_expired now) (db_evidence_artifacts (committed (rt_db r))))))"
proof -
  have "accounts now (int (length (db_evidence_artifacts d)))
     (\<lparr> rt_db = open_session d, rt_store = s, rt_deleted = 0, rt_errors = 0, rt_failed = [], rt_batch = 0 \<rparr>\<lparr> rt_batch := 0 \<rparr>)"
    using assms(1) by (simp add: accounts_def)
  from retention_loop_accounts[OF this assms(2), of commit_fails sto 0] show ?thesis
    by (simp add: run_retention_deletion_def)
qed

theorem retention_safe_witness:
  "case run_retention_deletion (\<lambda>_. False) (\<lambda>_. False) (open_session demo_sealed_db)
      (s3_store demo_sha demo_client ''b'') 2000 10 [] of r \<Rightarrow>
    purged map_of 2000 demo_sealed_db (committed (rt_db r)) (rt_store r)"
  by (rule retention_safe[OF demo_client_ok demo_sealed_ok])

theorem retention_counts_witness:
  "case run_retention_deletion (\<lambda>_. False) (\<lambda>_. False) (open_session demo_sealed_db) (memory_store demo_sha) 2000 10 [] of r \<Rightarrow>
    rt_deleted r = 1 - int (length (db_evidence_artifacts (committed (rt_db r))))"
  using retention_counts[OF demo_sealed_ok, of 10 "\<lambda>_. False" "memory_store demo_sha" 2000 "[]"]
  by (simp add: demo_sealed_db_def)

text \<open>Two expired rows of which the second cannot be deleted: the roll-back brings the first one
  back, the next batch deletes it again, and it is counted twice.\<close>

definition demo_expired :: "uuid \<Rightarrow> uuid \<Rightarrow> evidence_artifact" where
  "demo_expired aid fid = \<lparr> ea_id = aid, ea_flag_id = fid, ea_kind = EK_CLIP,
     ea_storage_uri = ''s3://evidence/'' @ show_nat (unat aid), ea_content_sha256 = [], ea_media_type = [],
     ea_byte_size = 0, ea_capture_started_at = 0, ea_capture_ended_at = None, ea_retention_expires_at = 5,
     ea_encryption_key_reference = None, ea_sealed_at = None, ea_created_at = 0 \<rparr>"

definition demo_expired_db :: database where
  "demo_expired_db = demo_db\<lparr> db_flags := [demo_flag, demo_flag\<lparr> fl_id := 41 \<rparr>],
     db_evidence_artifacts := [demo_expired 1 40, demo_expired 2 41] \<rparr>"

lemma demo_expired_ok: "db_ok demo_expired_db"
  by code_simp

lemma retention_overcounts:
  "case run_retention_deletion (\<lambda>i. i = 2) (\<lambda>_. False) (open_session demo_expired_db) (memory_store demo_sha) 10 100 [] of r \<Rightarrow>
    rt_deleted r = 2 \<and> map ea_id (db_evidence_artifacts (committed (rt_db r))) = [2]"
  by code_simp

end
