(* ===== verification/LaunchState.thy ===== *)
theory LaunchState
  imports Prelude "HOL-Library.AList"
begin

text \<open>
  The one-shot store of pending launches (\<^verbatim>\<open>lti/state.py\<close>), in memory and over Redis.

  Both stores are given as a \<open>launch_ops\<close> record of the three operations of the protocol.  An
  operation is passed the successive readings of the clock during the call; the memory store
  reads its monotonic clock, Redis the clock of its server.  The state of the memory store is
  the dictionary of entries.  The Redis client is the record \<open>redis_client\<close>, the two JSON
  implementations (Python's and the one inside the Lua interpreter) the record \<open>codecs\<close>, over
  any type of stored values.  The Lua script itself is modelled; a script runs as one step.
  Failures of the connection are outside the model.

  \<open>launch_store\<close> is the contract the launch route relies on: a state is held only after a
  registration, and a consumption that succeeds ends the holding.
\<close>

section \<open>Errors, generated values\<close>

datatype launch_state_error =
    LaunchStateMissing string
  | LaunchStateReplay string
  | LaunchStateExpired string
  | LaunchRaised py_error

record 's launch_ops =
  lo_register :: "(nat \<Rightarrow> rat) \<Rightarrow> string \<Rightarrow> string \<Rightarrow> string \<Rightarrow> string \<Rightarrow> 's \<Rightarrow> 's \<times> (launch_state_error + unit)"
  lo_consume :: "(nat \<Rightarrow> rat) \<Rightarrow> string \<Rightarrow> string \<Rightarrow> 's \<Rightarrow> 's \<times> (launch_state_error + string \<times> string)"
  lo_peek :: "(nat \<Rightarrow> rat) \<Rightarrow> string \<Rightarrow> 's \<Rightarrow> 's \<times> string option"

definition STATE_BYTES :: nat where "STATE_BYTES = 32"
definition NONCE_BYTES :: nat where "NONCE_BYTES = 32"

text \<open>\<open>token_urlsafe\<close> is that of \<^verbatim>\<open>secrets\<close>, a function of the number of random bytes.\<close>

definition generate_launch_state :: "(nat \<Rightarrow> string) \<Rightarrow> string" where
  "generate_launch_state token_urlsafe = token_urlsafe STATE_BYTES"

definition generate_launch_nonce :: "(nat \<Rightarrow> string) \<Rightarrow> string" where
  "generate_launch_nonce token_urlsafe = token_urlsafe NONCE_BYTES"

text \<open>The guards that both stores put in front of a registration.\<close>

definition check_registration :: "string \<Rightarrow> string \<Rightarrow> launch_state_error + unit" where
  "check_registration state nonce =
     (if state = [] then Inl (LaunchRaised (ValueError ''state must be a non-empty string''))
      else if nonce = [] then Inl (LaunchRaised (ValueError ''nonce must be a non-empty string''))
      else Inr ())"

section \<open>In memory\<close>

record launch_entry =
  le_nonce :: string
  le_redirect_uri :: string
  le_issuer :: string
  le_issued_at :: rat

type_synonym launch_entries = "(string \<times> launch_entry) list"

definition new_memory_launches :: "int \<Rightarrow> py_error + launch_entries" where
  "new_memory_launches ttl =
     (if ttl \<le> 0 then Inl (ValueError ''ttl_seconds must be positive'') else Inr [])"

definition aged :: "float_arith \<Rightarrow> int \<Rightarrow> rat \<Rightarrow> launch_entry \<Rightarrow> bool" where
  "aged fa ttl now e \<longleftrightarrow> f_sub fa now (le_issued_at e) > of_int ttl"

definition purge_expired :: "float_arith \<Rightarrow> int \<Rightarrow> rat \<Rightarrow> launch_entries \<Rightarrow> launch_entries \<times> int" where
  "purge_expired fa ttl now m =
     (let expired = map fst (filter (\<lambda>p. aged fa ttl now (snd p)) m) in
      (filter (\<lambda>p. fst p \<notin> set expired) m, int (length expired)))"

definition memory_register ::
  "float_arith \<Rightarrow> int \<Rightarrow> (nat \<Rightarrow> rat) \<Rightarrow> string \<Rightarrow> string \<Rightarrow> string \<Rightarrow> string \<Rightarrow> launch_entries
   \<Rightarrow> launch_entries \<times> (launch_state_error + unit)" where
  "memory_register fa ttl clock state nonce redirect_uri lti_issuer m =
     (case check_registration state nonce of
        Inl e \<Rightarrow> (m, Inl e)
      | Inr _ \<Rightarrow>
          (let entry = \<lparr> le_nonce = nonce, le_redirect_uri = redirect_uri, le_issuer = lti_issuer,
                         le_issued_at = clock 0 \<rparr> in
           (AList.update state entry (fst (purge_expired fa ttl (clock 1) m)), Inr ())))"

text \<open>\<^verbatim>\<open>secrets.compare_digest\<close> on strings raises unless both are ASCII.\<close>

definition is_ascii :: "string \<Rightarrow> bool" where
  "is_ascii s \<longleftrightarrow> list_all (\<lambda>c. (of_char c :: nat) < 128) s"

definition compare_digest :: "string \<Rightarrow> string \<Rightarrow> py_error + bool" where
  "compare_digest a b =
     (if is_ascii a \<and> is_ascii b then Inr (a = b)
      else Inl (TypeError ''comparing strings with non-ASCII characters is not supported''))"

definition memory_consume ::
  "float_arith \<Rightarrow> int \<Rightarrow> (nat \<Rightarrow> rat) \<Rightarrow> string \<Rightarrow> string \<Rightarrow> launch_entries
   \<Rightarrow> launch_entries \<times> (launch_state_error + string \<times> string)" where
  "memory_consume fa ttl clock state nonce m =
     (if state = [] then (m, Inl (LaunchStateMissing ''state is required''))
      else (let now = clock 0 in
       case map_of m state of
         None \<Rightarrow> (m, Inl (LaunchStateMissing ''state not found or already consumed''))
       | Some entry \<Rightarrow>
           if aged fa ttl now entry
           then (AList.delete state m, Inl (LaunchStateExpired ''state has aged past the TTL''))
           else (case compare_digest (le_nonce entry) nonce of
                   Inl e \<Rightarrow> (m, Inl (LaunchRaised e))
                 | Inr False \<Rightarrow> (m, Inl (LaunchRaised (ValueError ''nonce does not match the registered value'')))
                 | Inr True \<Rightarrow>
                     (AList.delete state m, Inr (le_redirect_uri entry, le_issuer entry)))))"

definition memory_peek ::
  "float_arith \<Rightarrow> int \<Rightarrow> (nat \<Rightarrow> rat) \<Rightarrow> string \<Rightarrow> launch_entries \<Rightarrow> launch_entries \<times> string option" where
  "memory_peek fa ttl clock state m =
     (let m' = fst (purge_expired fa ttl (clock 0) m) in
      (m', case map_of m' state of None \<Rightarrow> None | Some entry \<Rightarrow> Some (le_issuer entry)))"

definition memory_len :: "float_arith \<Rightarrow> int \<Rightarrow> (nat \<Rightarrow> rat) \<Rightarrow> launch_entries \<Rightarrow> launch_entries \<times> int" where
  "memory_len fa ttl clock m =
     (let m' = fst (purge_expired fa ttl (clock 0) m) in (m', int (length m')))"

definition memory_contains ::
  "float_arith \<Rightarrow> int \<Rightarrow> (nat \<Rightarrow> rat) \<Rightarrow> string \<Rightarrow> launch_entries \<Rightarrow> launch_entries \<times> bool" where
  "memory_contains fa ttl clock state m =
     (let m' = fst (purge_expired fa ttl (clock 0) m) in (m', map_of m' state \<noteq> None))"

definition memory_launches :: "float_arith \<Rightarrow> int \<Rightarrow> launch_entries launch_ops" where
  "memory_launches fa ttl = \<lparr> lo_register = memory_register fa ttl, lo_consume = memory_consume fa ttl,
     lo_peek = memory_peek fa ttl \<rparr>"

section \<open>Redis\<close>

text \<open>The commands of the client take the server's time; \<open>rd_exists\<close> counts keys and \<open>rd_scan\<close>
  lists the keys that match a pattern.  A codec that rejects its input returns \<open>None\<close>.\<close>

record ('s, 'v) redis_client =
  rd_set :: "rat \<Rightarrow> string \<Rightarrow> 'v \<Rightarrow> int \<Rightarrow> 's \<Rightarrow> 's"
  rd_get :: "rat \<Rightarrow> string \<Rightarrow> 's \<Rightarrow> 's \<times> 'v option"
  rd_del :: "rat \<Rightarrow> string \<Rightarrow> 's \<Rightarrow> 's"
  rd_exists :: "rat \<Rightarrow> string \<Rightarrow> 's \<Rightarrow> 's \<times> int"
  rd_scan :: "rat \<Rightarrow> string \<Rightarrow> 's \<Rightarrow> 's \<times> string list"

record 'v codecs =
  json_dumps :: "jdict \<Rightarrow> 'v"
  json_loads :: "'v \<Rightarrow> jdict option"
  cjson_encode :: "jdict \<Rightarrow> 'v"
  cjson_decode :: "'v \<Rightarrow> jdict option"

definition REDIS_KEY_PREFIX :: string where
  "REDIS_KEY_PREFIX = ''proctoring:lti:state''"

definition new_redis_launches :: "int \<Rightarrow> string \<Rightarrow> py_error + unit" where
  "new_redis_launches ttl key_prefix =
     (if ttl \<le> 0 then Inl (ValueError ''ttl_seconds must be positive'')
      else if key_prefix = [] then Inl (ValueError ''key_prefix must be a non-empty string'')
      else Inr ())"

definition redis_key :: "string \<Rightarrow> string \<Rightarrow> string" where
  "redis_key key_prefix state = key_prefix @ '':'' @ state"

definition redis_register ::
  "('s, 'v) redis_client \<Rightarrow> 'v codecs \<Rightarrow> int \<Rightarrow> string \<Rightarrow> (nat \<Rightarrow> rat) \<Rightarrow> string \<Rightarrow> string \<Rightarrow> string \<Rightarrow> string \<Rightarrow> 's
   \<Rightarrow> 's \<times> (launch_state_error + unit)" where
  "redis_register client js ttl key_prefix clock state nonce redirect_uri lti_issuer s =
     (case check_registration state nonce of
        Inl e \<Rightarrow> (s, Inl e)
      | Inr _ \<Rightarrow>
          (let payload = [(''nonce'', JStr nonce), (''redirect_uri'', JStr redirect_uri),
                          (''lti_issuer'', JStr lti_issuer)] in
           (rd_set client (clock 0) (redis_key key_prefix state) (json_dumps js payload) ttl s, Inr ())))"

text \<open>The Lua script.  A missing member of a table is \<open>JNull\<close>.\<close>

definition consume_script ::
  "('s, 'v) redis_client \<Rightarrow> 'v codecs \<Rightarrow> rat \<Rightarrow> string \<Rightarrow> string \<Rightarrow> 's \<Rightarrow> 's \<times> 'v option" where
  "consume_script client js t key expected s =
     (case rd_get client t key s of
        (s1, None) \<Rightarrow> (s1, None)
      | (s1, Some raw) \<Rightarrow>
          (case cjson_decode js raw of
             None \<Rightarrow> (s1, None)
           | Some parsed \<Rightarrow>
               if dict_get parsed ''nonce'' JNull \<noteq> JStr expected
               then (s1, Some (cjson_encode js [(''__nonce_mismatch__'', JBool True)]))
               else (let out = cjson_encode js
                        [(''redirect_uri'', dict_get parsed ''redirect_uri'' JNull),
                         (''lti_issuer'', dict_get parsed ''lti_issuer'' JNull),
                         (''nonce'', dict_get parsed ''nonce'' JNull)] in
                     (rd_del client t key s1, Some out))))"

text \<open>\<open>jtrue\<close> is the truth value of a payload entry, \<open>jstr\<close> the string in it.\<close>

fun jtrue :: "jval \<Rightarrow> bool" where
  "jtrue JNull = False"
| "jtrue (JBool b) = b"
| "jtrue (JInt i) = (i \<noteq> 0)"
| "jtrue (JFloat q) = (q \<noteq> 0)"
| "jtrue JNegInf = True"
| "jtrue (JStr s) = (s \<noteq> [])"
| "jtrue (JList xs) = (xs \<noteq> [])"
| "jtrue (JDict d) = (d \<noteq> [])"

fun jstr :: "jval option \<Rightarrow> py_error + string" where
  "jstr (Some (JStr s)) = Inr s"
| "jstr (Some _) = Inl (TypeError ''not a string'')"
| "jstr None = Inl KeyError"

definition redis_consume ::
  "('s, 'v) redis_client \<Rightarrow> 'v codecs \<Rightarrow> string \<Rightarrow> (nat \<Rightarrow> rat) \<Rightarrow> string \<Rightarrow> string \<Rightarrow> 's
   \<Rightarrow> 's \<times> (launch_state_error + string \<times> string)" where
  "redis_consume client js key_prefix clock state nonce s =
     (if state = [] then (s, Inl (LaunchStateMissing ''state is required''))
      else (case consume_script client js (clock 0) (redis_key key_prefix state) nonce s of
        (s1, None) \<Rightarrow> (s1, Inl (LaunchStateMissing ''state not found or already consumed''))
      | (s1, Some raw) \<Rightarrow>
          (s1, case json_loads js raw of
             None \<Rightarrow> Inl (LaunchRaised (ValueError ''JSONDecodeError''))
           | Some parsed \<Rightarrow>
               if jtrue (dict_get parsed ''__nonce_mismatch__'' JNull)
               then Inl (LaunchRaised (ValueError ''nonce does not match the registered value''))
               else (case (jstr (map_of parsed ''redirect_uri''), jstr (map_of parsed ''lti_issuer'')) of
                       (Inr uri, Inr iss) \<Rightarrow> Inr (uri, iss)
                     | (Inl e, _) \<Rightarrow> Inl (LaunchRaised e)
                     | (_, Inl e) \<Rightarrow> Inl (LaunchRaised e)))))"

definition redis_peek ::
  "('s, 'v) redis_client \<Rightarrow> 'v codecs \<Rightarrow> string \<Rightarrow> (nat \<Rightarrow> rat) \<Rightarrow> string \<Rightarrow> 's \<Rightarrow> 's \<times> string option" where
  "redis_peek client js key_prefix clock state s =
     (if state = [] then (s, None)
      else (case rd_get client (clock 0) (redis_key key_prefix state) s of
        (s1, None) \<Rightarrow> (s1, None)
      | (s1, Some raw) \<Rightarrow>
          (s1, case json_loads js raw of
             None \<Rightarrow> None
           | Some parsed \<Rightarrow> (case dict_get parsed ''lti_issuer'' JNull of JStr i \<Rightarrow> Some i | _ \<Rightarrow> None))))"

definition redis_purge_expired :: "'s \<Rightarrow> 's \<times> int" where
  "redis_purge_expired s = (s, 0)"

definition redis_len :: "('s, 'v) redis_client \<Rightarrow> string \<Rightarrow> (nat \<Rightarrow> rat) \<Rightarrow> 's \<Rightarrow> 's \<times> int" where
  "redis_len client key_prefix clock s =
     (case rd_scan client (clock 0) (key_prefix @ '':*'') s of (s1, ks) \<Rightarrow> (s1, int (length ks)))"

definition redis_contains :: "('s, 'v) redis_client \<Rightarrow> string \<Rightarrow> (nat \<Rightarrow> rat) \<Rightarrow> string \<Rightarrow> 's \<Rightarrow> 's \<times> bool" where
  "redis_contains client key_prefix clock state s =
     (if state = [] then (s, False)
      else (case rd_exists client (clock 0) (redis_key key_prefix state) s of (s1, n) \<Rightarrow> (s1, n > 0)))"

definition redis_launches ::
  "('s, 'v) redis_client \<Rightarrow> 'v codecs \<Rightarrow> int \<Rightarrow> string \<Rightarrow> 's launch_ops" where
  "redis_launches client js ttl key_prefix = \<lparr> lo_register = redis_register client js ttl key_prefix,
     lo_consume = redis_consume client js key_prefix, lo_peek = redis_peek client js key_prefix \<rparr>"

end
