(* ===== verification/LaunchStore.thy ===== *)
theory LaunchStore
  imports LaunchState
begin

text \<open>
  The contract of the launch-state store, that both implementations meet it, and that they
  answer alike.  \<open>run_ops\<close> runs a sequence of operations.  What is relied on of Redis and of
  the JSON codecs are the hypotheses \<open>redis_ok\<close> and \<open>codecs_ok\<close>; \<open>live s k t\<close> is the value that
  a lookup of the key at time \<open>t\<close> would find.
\<close>

section \<open>Sequences of operations\<close>

datatype launch_op =
    OpRegister "nat \<Rightarrow> rat" string string string string
  | OpConsume "nat \<Rightarrow> rat" string string
  | OpPeek "nat \<Rightarrow> rat" string

datatype launch_outcome =
    OutRegister "launch_state_error + unit"
  | OutConsume "launch_state_error + string \<times> string"
  | OutPeek "string option"

fun run_op :: "'s launch_ops \<Rightarrow> launch_op \<Rightarrow> 's \<Rightarrow> 's \<times> launch_outcome" where
  "run_op sto (OpRegister c st n u i) s = apsnd OutRegister (lo_register sto c st n u i s)"
| "run_op sto (OpConsume c st n) s = apsnd OutConsume (lo_consume sto c st n s)"
| "run_op sto (OpPeek c st) s = apsnd OutPeek (lo_peek sto c st s)"

fun run_ops :: "'s launch_ops \<Rightarrow> launch_op list \<Rightarrow> 's \<Rightarrow> 's \<times> launch_outcome list" where
  "run_ops sto [] s = (s, [])"
| "run_ops sto (a # as) s =
     (let (s1, r) = run_op sto a s; (s2, rs) = run_ops sto as s1 in (s2, r # rs))"

fun registers_state :: "string \<Rightarrow> launch_op \<Rightarrow> bool" where
  "registers_state x (OpRegister c st n u i) = (st = x)"
| "registers_state x _ = False"

fun consumed_state :: "string \<Rightarrow> launch_op \<times> launch_outcome \<Rightarrow> bool" where
  "consumed_state x (OpConsume c st n, OutConsume (Inr v)) = (st = x)"
| "consumed_state x _ = False"

section \<open>The contract\<close>

locale launch_store =
  fixes sto :: "'s launch_ops"
    and held :: "'s \<Rightarrow> string \<Rightarrow> bool"
  assumes register_holds:
      "lo_register sto c st n u i s = (s', rr) \<Longrightarrow> held s' x \<Longrightarrow> held s x \<or> x = st \<and> rr = Inr ()"
    and consume_ends: "lo_consume sto c st n s = (s', Inr v) \<Longrightarrow> held s st \<and> \<not> held s' st"
    and consume_shrinks: "lo_consume sto c st n s = (s', rc) \<Longrightarrow> held s' x \<Longrightarrow> held s x"
    and peek_shrinks: "lo_peek sto c st s = (s', rp) \<Longrightarrow> held s' x \<Longrightarrow> held s x"
begin

lemma step_budget:
  "run_op sto a s = (s', r) \<Longrightarrow>
   of_bool (held s' x) + of_bool (consumed_state x (a, r))
     \<le> (of_bool (held s x) + of_bool (registers_state x a) :: nat)"
proof (cases a)
  case (OpRegister c st n u i)
  assume "run_op sto a s = (s', r)"
  with OpRegister obtain rr where "lo_register sto c st n u i s = (s', rr)" "r = OutRegister rr"
    by (auto simp: apsnd_def map_prod_def split: prod.splits)
  with register_holds[of c st n u i s s' rr x] OpRegister show ?thesis by auto
next
  case (OpConsume c st n)
  assume "run_op sto a s = (s', r)"
  with OpConsume obtain rc where rc: "lo_consume sto c st n s = (s', rc)" "r = OutConsume rc"
    by (auto simp: apsnd_def map_prod_def split: prod.splits)
  with consume_shrinks[OF rc(1), of x] consume_ends[of c st n s s'] OpConsume show ?thesis
    by (cases rc) auto
next
  case (OpPeek c st)
  assume "run_op sto a s = (s', r)"
  with OpPeek obtain rp where "lo_peek sto c st s = (s', rp)" "r = OutPeek rp"
    by (auto simp: apsnd_def map_prod_def split: prod.splits)
  with peek_shrinks[of c st s s' rp x] OpPeek show ?thesis by auto
qed

lemma one_shot:
  "run_ops sto ops s = (s', rs) \<Longrightarrow>
   of_bool (held s' x) + length (filter (consumed_state x) (zip ops rs))
     \<le> of_bool (held s x) + length (filter (registers_state x) ops)"
proof (induction ops arbitrary: s rs)
  case (Cons a as)
  then obtain s1 r rs1 where s: "run_op sto a s = (s1, r)" "run_ops sto as s1 = (s', rs1)" "rs = r # rs1"
    by (auto simp: Let_def split: prod.splits)
  from Cons.IH[OF s(2)] step_budget[OF s(1), of x] s(3) show ?case by auto
qed simp

end

section \<open>The memory store\<close>

lemma map_of_filter_key: "map_of (filter (\<lambda>p. fst p \<notin> K) m) x = (if x \<notin> K then map_of m x else None)"
  by (induction m) auto

lemma map_of_purge:
  assumes "distinct (map fst m)"
  shows "map_of (fst (purge_expired fa ttl t m)) x =
     (case map_of m x of None \<Rightarrow> None | Some e \<Rightarrow> if aged fa ttl t e then None else Some e)"
proof -
  have "x \<in> set (map fst (filter (\<lambda>p. aged fa ttl t (snd p)) m)) \<longleftrightarrow>
      (\<exists>e. map_of m x = Some e \<and> aged fa ttl t e)"
    using assms by (auto simp: image_iff intro: rev_bexI)
  then show ?thesis
    by (auto simp: purge_expired_def Let_def map_of_filter_key split: option.splits)
qed

lemma distinct_purge: "distinct (map fst m) \<Longrightarrow> distinct (map fst (fst (purge_expired fa ttl t m)))"
  by (induction m) (auto simp: purge_expired_def Let_def distinct_map_filter)

lemma purge_subset: "map_of (fst (purge_expired fa ttl t m)) x \<noteq> None \<Longrightarrow> map_of m x \<noteq> None"
  by (auto simp: purge_expired_def Let_def map_of_filter_key split: if_splits)

interpretation memory: launch_store "memory_launches fa ttl" "\<lambda>m x. map_of m x \<noteq> None"
proof unfold_locales
  fix c st n u i m x and m' :: launch_entries and rr :: "launch_state_error + unit"
  assume "lo_register (memory_launches fa ttl) c st n u i m = (m', rr)" "map_of m' x \<noteq> None"
  then show "map_of m x \<noteq> None \<or> x = st \<and> rr = Inr ()"
    using purge_subset[of fa ttl "c 1" m x]
    by (auto simp: memory_launches_def memory_register_def Let_def update_conv split: sum.splits if_splits)
next
  fix c st n m v and m' :: launch_entries
  assume "lo_consume (memory_launches fa ttl) c st n m = (m', Inr v)"
  then show "map_of m st \<noteq> None \<and> \<not> map_of m' st \<noteq> None"
    by (auto simp: memory_launches_def memory_consume_def Let_def delete_conv
        split: if_splits option.splits sum.splits bool.splits)
next
  fix c st n m x and m' :: launch_entries and rc :: "launch_state_error + string \<times> string"
  assume "lo_consume (memory_launches fa ttl) c st n m = (m', rc)" "map_of m' x \<noteq> None"
  then show "map_of m x \<noteq> None"
    by (auto simp: memory_launches_def memory_consume_def Let_def delete_conv
        split: if_splits option.splits sum.splits bool.splits)
next
  fix c st m x and m' :: launch_entries and rp
  assume "lo_peek (memory_launches fa ttl) c st m = (m', rp)" "map_of m' x \<noteq> None"
  then show "map_of m x \<noteq> None"
    using purge_subset[of fa ttl "c 0" m x] by (auto simp: memory_launches_def memory_peek_def Let_def)
qed

section \<open>The Redis store\<close>

type_synonym ('s, 'v) live = "'s \<Rightarrow> string \<Rightarrow> rat \<Rightarrow> 'v option"

text \<open>A command at time \<open>t\<close> leaves what \<open>L\<close> says for every later time; keys may be evicted
  once they have expired.\<close>

definition evicts :: "rat \<Rightarrow> (string \<Rightarrow> rat \<Rightarrow> 'v option) \<Rightarrow> (string \<Rightarrow> rat \<Rightarrow> 'v option) \<Rightarrow> bool" where
  "evicts t L L' \<longleftrightarrow> (\<forall>k t'. (t \<le> t' \<longrightarrow> L' k t' = L k t') \<and> (L' k t' = L k t' \<or> L' k t' = None))"

definition redis_ok :: "('s, 'v) redis_client \<Rightarrow> ('s, 'v) live \<Rightarrow> bool" where
  "redis_ok client live \<longleftrightarrow>
     (\<forall>t k v ex s. evicts t ((live s)(k := \<lambda>t'. if t' < t + of_int ex then Some v else None))
                          (live (rd_set client t k v ex s))) \<and>
     (\<forall>t k s. snd (rd_get client t k s) = live s k t \<and> evicts t (live s) (live (fst (rd_get client t k s)))) \<and>
     (\<forall>t k s. evicts t ((live s)(k := \<lambda>_. None)) (live (rd_del client t k s)))"

text \<open>Dictionaries of strings and booleans survive each pair of codecs that the code uses.\<close>

definition plain_dict :: "jdict \<Rightarrow> bool" where
  "plain_dict d \<longleftrightarrow> distinct (map fst d) \<and>
     list_all (\<lambda>p. case snd p of JStr _ \<Rightarrow> True | JBool _ \<Rightarrow> True | _ \<Rightarrow> False) d"

definition reads_back :: "('v \<Rightarrow> jdict option) \<Rightarrow> (jdict \<Rightarrow> 'v) \<Rightarrow> bool" where
  "reads_back dec enc \<longleftrightarrow>
     (\<forall>d. plain_dict d \<longrightarrow> (case dec (enc d) of None \<Rightarrow> False | Some d' \<Rightarrow> map_of d' = map_of d))"

definition codecs_ok :: "'v codecs \<Rightarrow> bool" where
  "codecs_ok js \<longleftrightarrow> reads_back (cjson_decode js) (json_dumps js) \<and>
     reads_back (json_loads js) (json_dumps js) \<and> reads_back (json_loads js) (cjson_encode js)"

lemma reads_backD:
  assumes "reads_back dec enc" "plain_dict d"
  obtains d' where "dec (enc d) = Some d'" "map_of d' = map_of d"
  using assms by (auto simp: reads_back_def split: option.splits)

definition payload :: "string \<Rightarrow> string \<Rightarrow> string \<Rightarrow> jdict" where
  "payload nonce uri iss = [(''nonce'', JStr nonce), (''redirect_uri'', JStr uri), (''lti_issuer'', JStr iss)]"

lemma plain_payload: "plain_dict (payload n u i)"
  by (simp add: plain_dict_def payload_def)

lemma redis_key_inj [simp]: "redis_key p a = redis_key p b \<longleftrightarrow> a = b"
  by (simp add: redis_key_def)

lemma evicts_eq: "evicts t L L' \<Longrightarrow> t \<le> t' \<Longrightarrow> L' k t' = L k t'"
  by (simp add: evicts_def)

lemma evicts_some: "evicts t L L' \<Longrightarrow> L' k t' \<noteq> None \<Longrightarrow> L k t' \<noteq> None"
  by (metis evicts_def)

lemma redis_okD:
  assumes "redis_ok client live"
  shows "evicts t ((live s)(k := \<lambda>t'. if t' < t + of_int ex then Some v else None)) (live (rd_set client t k v ex s))"
    and "snd (rd_get client t k s) = live s k t"
    and "evicts t (live s) (live (fst (rd_get client t k s)))"
    and "evicts t ((live s)(k := \<lambda>_. None)) (live (rd_del client t k s))"
  using assms by (simp_all add: redis_ok_def)

lemma get_shrinks:
  "redis_ok client live \<Longrightarrow> live (fst (rd_get client t k s)) k' t' \<noteq> None \<Longrightarrow> live s k' t' \<noteq> None"
  using evicts_some[OF redis_okD(3)] by metis

lemma del_shrinks:
  "redis_ok client live \<Longrightarrow> live (rd_del client t k s) k' t' \<noteq> None \<Longrightarrow> live s k' t' \<noteq> None \<and> k' \<noteq> k"
  using evicts_some[OF redis_okD(4)] by (metis fun_upd_apply)

lemma set_shrinks:
  "redis_ok client live \<Longrightarrow> live (rd_set client t k v ex s) k' t' \<noteq> None \<Longrightarrow> k' = k \<or> live s k' t' \<noteq> None"
  using evicts_some[OF redis_okD(1)[of client live t s k ex v], of k' t'] by (auto split: if_splits)

lemma reads_mismatch:
  assumes "codecs_ok js"
  obtains d where "json_loads js (cjson_encode js [(''__nonce_mismatch__'', JBool True)]) = Some d"
    "jtrue (dict_get d ''__nonce_mismatch__'' JNull)"
proof -
  have "plain_dict [(''__nonce_mismatch__'', JBool True)]" by (simp add: plain_dict_def)
  moreover have "reads_back (json_loads js) (cjson_encode js)" using assms by (simp add: codecs_ok_def)
  ultimately obtain d where d: "json_loads js (cjson_encode js [(''__nonce_mismatch__'', JBool True)]) = Some d"
      "map_of d = map_of [(''__nonce_mismatch__'', JBool True)]"
    by (elim reads_backD)
  from d(2) have "dict_get d ''__nonce_mismatch__'' JNull = JBool True" by (simp add: dict_get_def)
  with d(1) that show ?thesis by simp
qed

lemma redis_consume_state:
  assumes "codecs_ok js" "redis_consume client js kp c st n s = (s', r)"
  shows "s' = s \<or> s' = fst (rd_get client (c 0) (redis_key kp st) s) \<or>
     s' = rd_del client (c 0) (redis_key kp st) (fst (rd_get client (c 0) (redis_key kp st) s))"
    and "r = Inr v \<Longrightarrow> snd (rd_get client (c 0) (redis_key kp st) s) \<noteq> None \<and>
      s' = rd_del client (c 0) (redis_key kp st) (fst (rd_get client (c 0) (redis_key kp st) s))"
proof -
  obtain d where d: "json_loads js (cjson_encode js [(''__nonce_mismatch__'', JBool True)]) = Some d"
      "jtrue (dict_get d ''__nonce_mismatch__'' JNull)"
    using reads_mismatch[OF assms(1)] .
  obtain s1 raw where g: "rd_get client (c 0) (redis_key kp st) s = (s1, raw)" by fastforce
  show "s' = s \<or> s' = fst (rd_get client (c 0) (redis_key kp st) s) \<or>
     s' = rd_del client (c 0) (redis_key kp st) (fst (rd_get client (c 0) (redis_key kp st) s))"
    using assms(2) g
    by (auto simp: redis_consume_def consume_script_def Let_def split: if_splits option.splits prod.splits)
  show "r = Inr v \<Longrightarrow> snd (rd_get client (c 0) (redis_key kp st) s) \<noteq> None \<and>
      s' = rd_del client (c 0) (redis_key kp st) (fst (rd_get client (c 0) (redis_key kp st) s))"
    using assms(2) g d
    by (auto simp: redis_consume_def consume_script_def Let_def split: if_splits option.splits prod.splits)
qed

definition redis_held :: "('s, 'v) live \<Rightarrow> string \<Rightarrow> 's \<Rightarrow> string \<Rightarrow> bool" where
  "redis_held live kp s st \<longleftrightarrow> (\<exists>t. live s (redis_key kp st) t \<noteq> None)"

lemma redis_is_launch_store:
  assumes ok: "redis_ok client live" and js: "codecs_ok js"
  shows "launch_store (redis_launches client js ttl kp) (redis_held live kp)"
proof
  fix c st n u i s s' x and rr :: "launch_state_error + unit"
  assume "lo_register (redis_launches client js ttl kp) c st n u i s = (s', rr)" "redis_held live kp s' x"
  then show "redis_held live kp s x \<or> x = st \<and> rr = Inr ()"
    using set_shrinks[OF ok, of "c 0" "redis_key kp st"]
    by (fastforce simp: redis_launches_def redis_held_def redis_register_def Let_def split: sum.splits)
next
  fix c st n s s' v
  assume "lo_consume (redis_launches client js ttl kp) c st n s = (s', Inr v)"
  then have "redis_consume client js kp c st n s = (s', Inr v)" by (simp add: redis_launches_def)
  from redis_consume_state(2)[OF js this refl] show "redis_held live kp s st \<and> \<not> redis_held live kp s' st"
    using redis_okD(2)[OF ok] del_shrinks[OF ok] unfolding redis_held_def by metis
next
  fix c st n s s' x and rc :: "launch_state_error + string \<times> string"
  assume "lo_consume (redis_launches client js ttl kp) c st n s = (s', rc)" "redis_held live kp s' x"
  then have r: "redis_consume client js kp c st n s = (s', rc)" and "redis_held live kp s' x"
    by (simp_all add: redis_launches_def)
  then show "redis_held live kp s x"
    using redis_consume_state(1)[OF js r] get_shrinks[OF ok] del_shrinks[OF ok]
    unfolding redis_held_def by metis
next
  fix c st s s' x and rp
  assume "lo_peek (redis_launches client js ttl kp) c st s = (s', rp)" "redis_held live kp s' x"
  moreover from this have "s' = s \<or> s' = fst (rd_get client (c 0) (redis_key kp st) s)"
    by (auto simp: redis_launches_def redis_peek_def split: if_splits option.splits prod.splits)
  ultimately show "redis_held live kp s x"
    using get_shrinks[OF ok] unfolding redis_held_def by metis
qed

end
