(* ===== verification/LaunchStoreEquiv.thy ===== *)
theory LaunchStoreEquiv
  imports LaunchStore
begin

text \<open>
  The two launch-state stores answer a sequence of operations alike, but for the word for a
  state that is gone: the memory store says \<open>LaunchStateExpired\<close> where Redis says
  \<open>LaunchStateMissing\<close>.  The arithmetic on clock readings is exact here, the clock does not run
  backwards, nonces are ASCII (\<open>non_ascii_nonce_raises\<close>), and no operation happens exactly at the
  end of an entry's life, where the memory store still honours it and Redis does not
  (\<open>boundary_differs\<close>).
\<close>

section \<open>Simulation\<close>

definition entry_payload :: "launch_entry \<Rightarrow> jdict" where
  "entry_payload e = payload (le_nonce e) (le_redirect_uri e) (le_issuer e)"

definition mem_live :: "int \<Rightarrow> launch_entries \<Rightarrow> string \<Rightarrow> rat \<Rightarrow> launch_entry option" where
  "mem_live ttl m st t = (case map_of m st of None \<Rightarrow> None
     | Some e \<Rightarrow> if t < le_issued_at e + of_int ttl then Some e else None)"

text \<open>From time \<open>T\<close> on, Redis holds the payload of every entry that the memory store has not
  outlived; stored nonces are ASCII and no entry ends at a time in \<open>B\<close>.\<close>

definition sim ::
  "'v codecs \<Rightarrow> ('s, 'v) live \<Rightarrow> int \<Rightarrow> string \<Rightarrow> rat set \<Rightarrow> rat \<Rightarrow> launch_entries \<Rightarrow> 's \<Rightarrow> bool" where
  "sim js live ttl kp B T m s \<longleftrightarrow>
     distinct (map fst m) \<and> map_of m [] = None \<and>
     (\<forall>st e. map_of m st = Some e \<longrightarrow> is_ascii (le_nonce e) \<and> le_issued_at e + of_int ttl \<notin> B) \<and>
     (\<forall>st t. T \<le> t \<longrightarrow> live s (redis_key kp st) t
                         = map_option (\<lambda>e. json_dumps js (entry_payload e)) (mem_live ttl m st t))"

text \<open>An answer of the memory store in the words of Redis, which has no expired state.\<close>

fun as_redis :: "launch_outcome \<Rightarrow> launch_outcome" where
  "as_redis (OutConsume (Inl (LaunchStateExpired _))) = OutConsume (Inl (LaunchStateMissing ''state not found or already consumed''))"
| "as_redis r = r"

lemma simD:
  assumes "sim js live ttl kp B T m s"
  shows "distinct (map fst m)" "map_of m [] = None"
    "map_of m st = Some e \<Longrightarrow> is_ascii (le_nonce e)"
    "map_of m st = Some e \<Longrightarrow> t \<in> B \<Longrightarrow> le_issued_at e + of_int ttl \<noteq> t"
    "T \<le> t \<Longrightarrow> live s (redis_key kp st) t = map_option (\<lambda>e. json_dumps js (entry_payload e)) (mem_live ttl m st t)"
  using assms by (auto simp: sim_def)

lemma sim_mono: "sim js live ttl kp B T m s \<Longrightarrow> T \<le> T' \<Longrightarrow> sim js live ttl kp B T' m s"
  unfolding sim_def by (meson order_trans)

lemma aged_exact:
  "aged exact_arith ttl t e \<longleftrightarrow> \<not> t < le_issued_at e + of_int ttl \<and> t \<noteq> le_issued_at e + of_int ttl"
  by (auto simp: aged_def exact_arith_def)

lemma mem_live_purge:
  assumes "distinct (map fst m)" "t0 \<le> t"
  shows "mem_live ttl (fst (purge_expired exact_arith ttl t0 m)) st t = mem_live ttl m st t"
  using assms by (auto simp: mem_live_def map_of_purge aged_exact split: option.splits)

lemma sim_purge:
  assumes "sim js live ttl kp B T m s"
  shows "sim js live ttl kp B T' (fst (purge_expired exact_arith ttl T' m)) s \<or> \<not> T \<le> T'"
proof (cases "T \<le> T'")
  case True
  note d = simD(1)[OF assms]
  have "live s (redis_key kp st) t
      = map_option (\<lambda>e. json_dumps js (entry_payload e)) (mem_live ttl (fst (purge_expired exact_arith ttl T' m)) st t)"
    if "T' \<le> t" for st t
    using simD(5)[OF assms, of t st] True that by (simp add: mem_live_purge[OF d that])
  moreover have "map_of m st = Some e" if "map_of (fst (purge_expired exact_arith ttl T' m)) st = Some e" for st e
    using that by (auto simp: map_of_purge[OF d] split: option.splits if_splits)
  ultimately show ?thesis using assms unfolding sim_def
    by (metis distinct_purge not_None_eq)
qed simp

lemma sim_evict:
  assumes "sim js live ttl kp B T m s" "evicts T (live s) (live s')"
  shows "sim js live ttl kp B T m s'"
  using assms unfolding sim_def by (simp add: evicts_def)

section \<open>One operation\<close>

lemma register_sim:
  assumes S: "sim js live ttl kp B T m s" and ok: "redis_ok client live"
    and c: "T \<le> c 0" "c 0 \<le> c 1" and n: "is_ascii n" and b: "c 0 + of_int ttl \<notin> B"
    and m': "memory_register exact_arith ttl c st n u i m = (m', r)"
    and s': "redis_register client js ttl kp c st n u i s = (s', r')"
  shows "r' = r \<and> sim js live ttl kp B (c 1) m' s'"
proof (cases "st = [] \<or> n = []")
  case True
  then obtain x where x: "check_registration st n = Inl x"
    by (cases "st = []") (auto simp: check_registration_def)
  have "m' = m" "r = Inl x" using m' by (simp_all add: memory_register_def x)
  moreover have "s' = s" "r' = Inl x" using s' by (simp_all add: redis_register_def x)
  ultimately show ?thesis using sim_mono[OF S, of "c 1"] c by simp
next
  case False
  define e where "e = \<lparr> le_nonce = n, le_redirect_uri = u, le_issuer = i, le_issued_at = c 0 \<rparr>"
  define mp where "mp = fst (purge_expired exact_arith ttl (c 1) m)"
  have "r = Inr ()" and m'': "m' = AList.update st e mp"
    using m' False by (simp_all add: memory_register_def check_registration_def Let_def e_def mp_def)
  moreover have "r' = Inr ()"
    and s'': "s' = rd_set client (c 0) (redis_key kp st) (json_dumps js (entry_payload e)) ttl s"
    using s' False by (simp_all add: redis_register_def check_registration_def
        entry_payload_def payload_def Let_def e_def)
  ultimately have r: "r = Inr ()" "r' = Inr ()" by simp_all
  have P: "sim js live ttl kp B (c 1) mp s" using sim_purge[OF S, of "c 1"] c by (simp add: mp_def)
  have m_of: "map_of m' = (map_of mp)(st \<mapsto> e)" by (simp add: m'' update_conv')
  have "live s' (redis_key kp st') t = map_option (\<lambda>e. json_dumps js (entry_payload e)) (mem_live ttl m' st' t)"
    if "c 1 \<le> t" for st' t
    using simD(5)[OF P that, of st'] that c
      evicts_eq[OF redis_okD(1)[OF ok, of "c 0" s "redis_key kp st" ttl "json_dumps js (entry_payload e)"], of t "redis_key kp st'"]
    by (auto simp: s'' mem_live_def m_of e_def split: option.splits)
  moreover have "distinct (map fst m')" using simD(1)[OF P] by (simp add: m'' distinct_update)
  moreover have "map_of m' [] = None" using simD(2)[OF P] False by (auto simp: m_of)
  moreover have "is_ascii (le_nonce e') \<and> le_issued_at e' + of_int ttl \<notin> B" if "map_of m' st' = Some e'" for st' e'
    using that P n b unfolding sim_def m_of by (auto simp: e_def split: if_splits)
  ultimately show ?thesis using r unfolding sim_def by blast
qed

lemma payload_get [simp]:
  "dict_get (payload n u i) ''nonce'' v = JStr n"
  "dict_get (payload n u i) ''redirect_uri'' v = JStr u"
  "dict_get (payload n u i) ''lti_issuer'' v = JStr i"
  by (simp_all add: payload_def)

lemma dict_get_cong: "map_of d = map_of d' \<Longrightarrow> dict_get d k v = dict_get d' k v"
  by (simp add: dict_get_def)

definition consumed_reply :: "string \<Rightarrow> string \<Rightarrow> string \<Rightarrow> jdict" where
  "consumed_reply n u i = [(''redirect_uri'', JStr u), (''lti_issuer'', JStr i), (''nonce'', JStr n)]"

lemma consumed_reply_facts:
  "plain_dict (consumed_reply n u i)"
  "dict_get (consumed_reply n u i) ''__nonce_mismatch__'' v = v"
  "map_of (consumed_reply n u i) ''redirect_uri'' = Some (JStr u)"
  "map_of (consumed_reply n u i) ''lti_issuer'' = Some (JStr i)"
  by (simp_all add: plain_dict_def consumed_reply_def)

lemma script_hit:
  assumes "codecs_ok js" "rd_get client t key s = (s1, Some (json_dumps js (payload k u i)))"
  shows "consume_script client js t key n s =
    (if k = n then (rd_del client t key s1, Some (cjson_encode js (consumed_reply n u i)))
     else (s1, Some (cjson_encode js [(''__nonce_mismatch__'', JBool True)])))"
proof -
  have "reads_back (cjson_decode js) (json_dumps js)" using assms(1) by (simp add: codecs_ok_def)
  then obtain d where d: "cjson_decode js (json_dumps js (payload k u i)) = Some d" "map_of d = map_of (payload k u i)"
    using reads_backD plain_payload by metis
  show ?thesis using assms(2) d(1) dict_get_cong[OF d(2)]
    by (simp add: consume_script_def consumed_reply_def Let_def)
qed

lemma redis_consume_hit:
  assumes js: "codecs_ok js" and st: "st \<noteq> []"
    and g: "rd_get client (c 0) (redis_key kp st) s = (s1, Some (json_dumps js (payload k u i)))"
  shows "redis_consume client js kp c st n s =
    (if k = n then (rd_del client (c 0) (redis_key kp st) s1, Inr (u, i))
     else (s1, Inl (LaunchRaised (ValueError ''nonce does not match the registered value''))))"
proof (cases "k = n")
  case True
  have "reads_back (json_loads js) (cjson_encode js)" using js by (simp add: codecs_ok_def)
  then obtain d where d: "json_loads js (cjson_encode js (consumed_reply n u i)) = Some d"
      "map_of d = map_of (consumed_reply n u i)"
    using reads_backD consumed_reply_facts(1) by metis
  show ?thesis using st True d dict_get_cong[OF d(2)] script_hit[OF js g, of n]
    by (simp add: redis_consume_def consumed_reply_facts)
next
  case False
  obtain d where "json_loads js (cjson_encode js [(''__nonce_mismatch__'', JBool True)]) = Some d"
      "jtrue (dict_get d ''__nonce_mismatch__'' JNull)"
    using reads_mismatch[OF js] .
  then show ?thesis using st False script_hit[OF js g, of n] by (simp add: redis_consume_def)
qed

lemma redis_consume_miss:
  "st \<noteq> [] \<Longrightarrow> rd_get client (c 0) (redis_key kp st) s = (s1, None) \<Longrightarrow>
   redis_consume client js kp c st n s = (s1, Inl (LaunchStateMissing ''state not found or already consumed''))"
  by (simp add: redis_consume_def consume_script_def)

text \<open>Removing an entry on both sides, or one that has ended on the memory side only.\<close>

lemma sim_delete:
  assumes S: "sim js live ttl kp B T m s" 
    and del: "\<And>k t. T \<le> t \<Longrightarrow> live s' k t = ((live s)(redis_key kp st := \<lambda>_. None)) k t"
  shows "sim js live ttl kp B T (AList.delete st m) s'"
proof -
  have "live s' (redis_key kp st') t
      = map_option (\<lambda>e. json_dumps js (entry_payload e)) (mem_live ttl (AList.delete st m) st' t)" if "T \<le> t" for st' t
    using simD(5)[OF S that, of st'] del[OF that, of "redis_key kp st'"]
    by (auto simp: mem_live_def delete_conv)
  moreover have "distinct (map fst (AList.delete st m))" using simD(1)[OF S] by (simp add: distinct_delete)
  ultimately show ?thesis using S unfolding sim_def by (simp add: delete_conv' restrict_map_def)
qed

lemma dead_key:
  assumes "sim js live ttl kp B T m s" "mem_live ttl m st T = None" "T \<le> t"
  shows "live s (redis_key kp st) t = None"
  using simD(5)[OF assms(1,3), of st] assms(2,3) by (auto simp: mem_live_def split: option.splits if_splits)

lemma consume_sim:
  assumes S0: "sim js live ttl kp B T m s" and ok: "redis_ok client live" and js: "codecs_ok js"
    and c: "T \<le> c 0" and b: "c 0 \<in> B" and n: "is_ascii n"
    and m': "memory_consume exact_arith ttl c st n m = (m', r)"
    and s': "redis_consume client js kp c st n s = (s', r')"
  shows "OutConsume r' = as_redis (OutConsume r) \<and> sim js live ttl kp B (c 0) m' s'"
proof (cases "st = []")
  case True
  then show ?thesis using m' s' sim_mono[OF S0 c] by (auto simp: memory_consume_def redis_consume_def)
next
  case st: False
  note S = sim_mono[OF S0 c]
  obtain s1 raw where g: "rd_get client (c 0) (redis_key kp st) s = (s1, raw)" by fastforce
  have raw: "raw = map_option (\<lambda>e. json_dumps js (entry_payload e)) (mem_live ttl m st (c 0))"
    using redis_okD(2)[OF ok, of "c 0" "redis_key kp st" s] simD(5)[OF S, of "c 0" st] g by simp
  have ev: "evicts (c 0) (live s) (live s1)" using redis_okD(3)[OF ok, of "c 0" s "redis_key kp st"] g by simp
  note S1 = sim_evict[OF S ev]
  show ?thesis
  proof (cases "mem_live ttl m st (c 0)")
    case None
    have r': "s' = s1" "r' = Inl (LaunchStateMissing ''state not found or already consumed'')"
      using redis_consume_miss[OF st, of client c kp s s1 js n] g raw None s' by simp_all
    have "live s1 k t = ((live s1)(redis_key kp st := \<lambda>_. None)) k t" if "c 0 \<le> t" for k t
      using dead_key[OF S1 None that] by simp
    moreover have "as_redis (OutConsume r) = OutConsume r' \<and> (m' = m \<or> m' = AList.delete st m)"
      using m' st None simD(4)[OF S _ b, of st] unfolding r'
      by (auto simp: memory_consume_def Let_def mem_live_def aged_exact split: option.splits if_splits)
    ultimately show ?thesis using S1 sim_delete[OF S1] r' by auto
  next
    case (Some e)
    then have e: "map_of m st = Some e" "\<not> aged exact_arith ttl (c 0) e"
      by (auto simp: mem_live_def aged_exact split: option.splits if_splits)
    have dg: "compare_digest (le_nonce e) n = Inr (le_nonce e = n)"
      using simD(3)[OF S e(1)] n by (simp add: compare_digest_def)
    have rc: "redis_consume client js kp c st n s =
        (if le_nonce e = n then (rd_del client (c 0) (redis_key kp st) s1, Inr (le_redirect_uri e, le_issuer e))
         else (s1, Inl (LaunchRaised (ValueError ''nonce does not match the registered value''))))"
      using g raw Some by (intro redis_consume_hit[OF js st]) (simp add: entry_payload_def)
    show ?thesis
    proof (cases "le_nonce e = n")
      case True
      then have "r = Inr (le_redirect_uri e, le_issuer e)" "m' = AList.delete st m"
        using m' st e dg by (auto simp: memory_consume_def Let_def)
      moreover have "r' = Inr (le_redirect_uri e, le_issuer e)" "s' = rd_del client (c 0) (redis_key kp st) s1"
        using rc s' True by auto
      ultimately show ?thesis using sim_delete[OF S1 evicts_eq[OF redis_okD(4)[OF ok]]] by simp
    next
      case False
      then have "r = Inl (LaunchRaised (ValueError ''nonce does not match the registered value''))" "m' = m"
        using m' st e dg by (auto simp: memory_consume_def Let_def)
      with rc s' False S1 show ?thesis by simp
    qed
  qed
qed

lemma peek_sim:
  assumes S0: "sim js live ttl kp B T m s" and ok: "redis_ok client live" and js: "codecs_ok js"
    and c: "T \<le> c 0" and b: "c 0 \<in> B"
    and m': "memory_peek exact_arith ttl c st m = (m', r)" and s': "redis_peek client js kp c st s = (s', r')"
  shows "r' = r \<and> sim js live ttl kp B (c 0) m' s'"
proof -
  note S = sim_mono[OF S0 c]
  have m'': "m' = fst (purge_expired exact_arith ttl (c 0) m)" using m' by (simp add: memory_peek_def Let_def)
  have r: "r = (case mem_live ttl m st (c 0) of None \<Rightarrow> None | Some e \<Rightarrow> Some (le_issuer e))"
    using m' simD(4)[OF S _ b, of st]
    by (auto simp: memory_peek_def Let_def map_of_purge[OF simD(1)[OF S]] mem_live_def aged_exact split: option.splits)
  have P: "sim js live ttl kp B (c 0) m' s" using sim_purge[OF S, of "c 0"] by (simp add: m'')
  show ?thesis
  proof (cases "st = []")
    case True
    then show ?thesis using s' r P simD(2)[OF S] by (simp add: redis_peek_def mem_live_def)
  next
    case False
    obtain s1 raw where g: "rd_get client (c 0) (redis_key kp st) s = (s1, raw)" by fastforce
    have raw: "raw = map_option (\<lambda>e. json_dumps js (entry_payload e)) (mem_live ttl m st (c 0))"
      using redis_okD(2)[OF ok, of "c 0" "redis_key kp st" s] simD(5)[OF S, of "c 0" st] g by simp
    have "evicts (c 0) (live s) (live s1)" using redis_okD(3)[OF ok, of "c 0" s "redis_key kp st"] g by simp
    note S1 = sim_evict[OF P this]
    have "reads_back (json_loads js) (json_dumps js)" using js by (simp add: codecs_ok_def)
    then have "\<exists>d. json_loads js (json_dumps js (entry_payload e)) = Some d \<and> map_of d = map_of (entry_payload e)" for e
      unfolding entry_payload_def using reads_backD plain_payload by metis
    then have "\<exists>d. json_loads js (json_dumps js (entry_payload e)) = Some d \<and>
        dict_get d ''lti_issuer'' JNull = JStr (le_issuer e)" for e
      using dict_get_cong payload_get(3) unfolding entry_payload_def by metis
    then obtain d where d: "json_loads js (json_dumps js (entry_payload e)) = Some (d e)"
        "dict_get (d e) ''lti_issuer'' JNull = JStr (le_issuer e)" for e
      by metis
    show ?thesis using s' r raw g False S1
      by (cases "mem_live ttl m st (c 0)") (simp_all add: redis_peek_def d)
  qed
qed

section \<open>Sequences\<close>

fun op_clock :: "launch_op \<Rightarrow> nat \<Rightarrow> rat" where
  "op_clock (OpRegister c st n u i) = c"
| "op_clock (OpConsume c st n) = c"
| "op_clock (OpPeek c st) = c"

fun op_nonce :: "launch_op \<Rightarrow> string" where
  "op_nonce (OpRegister c st n u i) = n"
| "op_nonce (OpConsume c st n) = n"
| "op_nonce (OpPeek c st) = []"

definition clock_forward :: "launch_op list \<Rightarrow> bool" where
  "clock_forward ops = sorted (concat (map (\<lambda>a. [op_clock a 0, op_clock a 1]) ops))"

definition off_boundary :: "int \<Rightarrow> launch_op list \<Rightarrow> bool" where
  "off_boundary ttl ops =
     list_all (\<lambda>a. list_all (\<lambda>b. op_clock b 0 \<noteq> op_clock a 0 + of_int ttl) ops) ops"

definition ascii_nonces :: "launch_op list \<Rightarrow> bool" where
  "ascii_nonces ops = list_all (\<lambda>a. is_ascii (op_nonce a)) ops"

lemma run_op_sim:
  assumes S: "sim js live ttl kp B T m s" and ok: "redis_ok client live" and js: "codecs_ok js"
    and c: "T \<le> op_clock a 0" "op_clock a 0 \<le> op_clock a 1" and n: "is_ascii (op_nonce a)"
    and b: "op_clock a 0 \<in> B" "op_clock a 0 + of_int ttl \<notin> B"
    and m': "run_op (memory_launches exact_arith ttl) a m = (m', r)"
    and s': "run_op (redis_launches client js ttl kp) a s = (s', r')"
  shows "r' = as_redis r \<and> sim js live ttl kp B (op_clock a 1) m' s'"
proof (cases a)
  case (OpRegister k st n' u i)
  then obtain rm rr where q: "memory_register exact_arith ttl k st n' u i m = (m', rm)" "r = OutRegister rm"
      "redis_register client js ttl kp k st n' u i s = (s', rr)" "r' = OutRegister rr"
    using m' s' by (auto simp: memory_launches_def redis_launches_def apsnd_def map_prod_def split: prod.splits)
  have "rr = rm \<and> sim js live ttl kp B (k 1) m' s'"
    by (rule register_sim[OF S ok _ _ _ _ q(1,3)]) (use OpRegister c n b in simp_all)
  with q OpRegister show ?thesis by simp
next
  case (OpConsume k st n')
  then obtain rm rr where q: "memory_consume exact_arith ttl k st n' m = (m', rm)" "r = OutConsume rm"
      "redis_consume client js kp k st n' s = (s', rr)" "r' = OutConsume rr"
    using m' s' by (auto simp: memory_launches_def redis_launches_def apsnd_def map_prod_def split: prod.splits)
  have "OutConsume rr = as_redis (OutConsume rm) \<and> sim js live ttl kp B (k 0) m' s'"
    by (rule consume_sim[OF S ok js _ _ _ q(1,3)]) (use OpConsume c n b in simp_all)
  then show ?thesis using q OpConsume c sim_mono[of js live ttl kp B "k 0" m' s' "k 1"] by simp
next
  case (OpPeek k st)
  then obtain rm rr where q: "memory_peek exact_arith ttl k st m = (m', rm)" "r = OutPeek rm"
      "redis_peek client js kp k st s = (s', rr)" "r' = OutPeek rr"
    using m' s' by (auto simp: memory_launches_def redis_launches_def apsnd_def map_prod_def split: prod.splits)
  have "rr = rm \<and> sim js live ttl kp B (k 0) m' s'"
    by (rule peek_sim[OF S ok js _ _ q(1,3)]) (use OpPeek c b in simp_all)
  then show ?thesis using q OpPeek c sim_mono[of js live ttl kp B "k 0" m' s' "k 1"] by simp
qed

lemma run_ops_sim:
  assumes ok: "redis_ok client live" and js: "codecs_ok js"
  shows "sim js live ttl kp B T m s \<Longrightarrow> clock_forward ops \<Longrightarrow> (\<forall>a\<in>set ops. T \<le> op_clock a 0) \<Longrightarrow>
    (\<forall>a\<in>set ops. op_clock a 0 \<in> B \<and> op_clock a 0 + of_int ttl \<notin> B) \<Longrightarrow> ascii_nonces ops \<Longrightarrow>
    snd (run_ops (redis_launches client js ttl kp) ops s)
      = map as_redis (snd (run_ops (memory_launches exact_arith ttl) ops m))"
proof (induction ops arbitrary: T m s)
  case (Cons a as)
  obtain m1 r where m1: "run_op (memory_launches exact_arith ttl) a m = (m1, r)" by fastforce
  obtain s1 r' where s1: "run_op (redis_launches client js ttl kp) a s = (s1, r')" by fastforce
  have n: "is_ascii (op_nonce a)" "ascii_nonces as" using Cons.prems(5) by (simp_all add: ascii_nonces_def)
  have c: "op_clock a 0 \<le> op_clock a 1" "clock_forward as" "\<forall>b\<in>set as. op_clock a 1 \<le> op_clock b 0"
    using Cons.prems(2) by (auto simp: clock_forward_def)
  have "r' = as_redis r \<and> sim js live ttl kp B (op_clock a 1) m1 s1"
    by (rule run_op_sim[OF Cons.prems(1) ok js _ c(1) n(1) _ _ m1 s1]) (use Cons.prems(3,4) in simp_all)
  with Cons.IH[OF _ c(2) c(3) _ n(2), of m1 s1] Cons.prems(4) m1 s1 show ?case
    by (auto simp: Let_def split: prod.splits)
qed simp

lemma off_boundaryD:
  "off_boundary ttl ops \<Longrightarrow> a \<in> set ops \<Longrightarrow> op_clock a 0 + of_int ttl \<notin> (\<lambda>b. op_clock b 0) ` set ops"
  by (auto simp: off_boundary_def list_all_iff) (metis)

text \<open>C34: Over any Redis and any JSON codecs that behave as documented, starting empty, the Redis store
  answers a sequence of registrations, consumptions and peeks exactly as the memory store does, with
  one word exchanged: a state that the memory store calls expired is missing in Redis.  This holds
  for sequences in which the clock does not run backwards, no operation falls exactly on the end of an
  entry's life and all nonces are ASCII; at the end of a life and for other nonces the stores
  do differ, as the lemmas after it show.\<close>

theorem stores_equivalent:
  assumes "redis_ok client live" "codecs_ok js" "\<forall>k t. live s k t = None"
    and "clock_forward ops" "off_boundary ttl ops" "ascii_nonces ops"
  shows "snd (run_ops (redis_launches client js ttl kp) ops s)
       = map as_redis (snd (run_ops (memory_launches exact_arith ttl) ops []))"
proof -
  define T where "T = Min (insert 0 ((\<lambda>a. op_clock a 0) ` set ops))"
  have "sim js live ttl kp ((\<lambda>a. op_clock a 0) ` set ops) T [] s"
    using assms(3) by (simp add: sim_def mem_live_def)
  moreover have "\<forall>a\<in>set ops. T \<le> op_clock a 0" by (simp add: T_def)
  moreover have "\<forall>a\<in>set ops. op_clock a 0 \<in> (\<lambda>a. op_clock a 0) ` set ops \<and>
      op_clock a 0 + of_int ttl \<notin> (\<lambda>a. op_clock a 0) ` set ops"
    using off_boundaryD[OF assms(5)] by blast
  ultimately show ?thesis by (rule run_ops_sim[OF assms(1,2) _ assms(4) _ _ assms(6)])
qed

section \<open>A Redis to run it on\<close>

text \<open>An association list of values with their deadlines; the codecs are the identity.\<close>

definition demo_live :: "((string \<times> jdict \<times> rat) list, jdict) live" where
  "demo_live s k t = (case map_of s k of None \<Rightarrow> None | Some (v, d) \<Rightarrow> if t < d then Some v else None)"

definition demo_redis :: "((string \<times> jdict \<times> rat) list, jdict) redis_client" where
  "demo_redis = \<lparr> rd_set = (\<lambda>t k v ex s. AList.update k (v, t + of_int ex) s),
     rd_get = (\<lambda>t k s. (s, demo_live s k t)), rd_del = (\<lambda>t k s. AList.delete k s),
     rd_exists = (\<lambda>t k s. (s, if demo_live s k t = None then 0 else 1)),
     rd_scan = (\<lambda>t p s. (s, map fst s)) \<rparr>"

definition demo_codecs :: "jdict codecs" where
  "demo_codecs = \<lparr> json_dumps = (\<lambda>d. d), json_loads = Some, cjson_encode = (\<lambda>d. d), cjson_decode = Some \<rparr>"

lemma demo_redis_ok: "redis_ok demo_redis demo_live"
  by (auto simp: redis_ok_def demo_redis_def demo_live_def evicts_def update_conv' delete_conv fun_eq_iff)

lemma demo_codecs_ok: "codecs_ok demo_codecs"
  by (simp add: codecs_ok_def demo_codecs_def reads_back_def)

definition demo_ops :: "launch_op list" where
  "demo_ops = [OpRegister (\<lambda>_. 0) ''s1'' ''n1'' ''uri'' ''iss'', OpConsume (\<lambda>_. 1) ''s1'' ''n2'',
     OpConsume (\<lambda>_. 2) ''s1'' ''n1'', OpConsume (\<lambda>_. 3) ''s1'' ''n1'',
     OpRegister (\<lambda>_. 4) ''s2'' ''n2'' ''uri'' ''iss'', OpPeek (\<lambda>_. 5) ''s2'', OpConsume (\<lambda>_. 700) ''s2'' ''n2'']"

theorem stores_equivalent_witness:
  "snd (run_ops (redis_launches demo_redis demo_codecs 600 REDIS_KEY_PREFIX) demo_ops [])
     = map as_redis (snd (run_ops (memory_launches exact_arith 600) demo_ops []))"
proof (rule stores_equivalent[OF demo_redis_ok demo_codecs_ok])
  show "\<forall>k t. demo_live [] k t = None" by (simp add: demo_live_def)
  show "clock_forward demo_ops" by (simp add: clock_forward_def demo_ops_def)
  show "off_boundary 600 demo_ops" by (simp add: off_boundary_def demo_ops_def)
  show "ascii_nonces demo_ops" by (simp add: ascii_nonces_def demo_ops_def is_ascii_def)
qed

text \<open>The two answers that differ: the word for an expired state, and the end of the life itself.\<close>

lemma expired_differs:
  "snd (run_ops (memory_launches exact_arith 600) demo_ops []) ! 6
     = OutConsume (Inl (LaunchStateExpired ''state has aged past the TTL''))"
  "snd (run_ops (redis_launches demo_redis demo_codecs 600 REDIS_KEY_PREFIX) demo_ops []) ! 6
     = OutConsume (Inl (LaunchStateMissing ''state not found or already consumed''))"
  by code_simp+

lemma boundary_differs:
  "snd (run_ops (memory_launches exact_arith 600)
      [OpRegister (\<lambda>_. 0) ''s'' ''n'' ''uri'' ''iss'', OpConsume (\<lambda>_. 600) ''s'' ''n''] [])
     = [OutRegister (Inr ()), OutConsume (Inr (''uri'', ''iss''))]"
  "snd (run_ops (redis_launches demo_redis demo_codecs 600 REDIS_KEY_PREFIX)
      [OpRegister (\<lambda>_. 0) ''s'' ''n'' ''uri'' ''iss'', OpConsume (\<lambda>_. 600) ''s'' ''n''] [])
     = [OutRegister (Inr ()), OutConsume (Inl (LaunchStateMissing ''state not found or already consumed''))]"
  by code_simp+

text \<open>A nonce that is not ASCII makes the memory store raise \<^verbatim>\<open>TypeError\<close> instead of the
  mismatch it reports otherwise.\<close>

lemma non_ascii_nonce_raises:
  "snd (memory_consume fa ttl c ''s'' [CHR 0xE9]
      [(''s'', \<lparr> le_nonce = ''n'', le_redirect_uri = u, le_issuer = i, le_issued_at = c 0 \<rparr>)])
     = Inl (LaunchRaised (TypeError ''comparing strings with non-ASCII characters is not supported''))"
  if "f_sub fa (c 0) (c 0) = 0" "0 \<le> ttl"
  using that by (simp add: memory_consume_def Let_def aged_def compare_digest_def is_ascii_def)

end
