(* ===== verification/AppStartup.thy ===== *)
theory AppStartup
  imports Settings DataModel
begin

text \<open>
  Startup of the application (\<^verbatim>\<open>api.py\<close>, \<^verbatim>\<open>database.py\<close>): which routers the lifespan mounts for
  which settings, where they get their database sessions from, and the engine.
  The parts of the surroundings that startup consults are a \<open>surroundings\<close> record: the
  environment, \<^verbatim>\<open>float\<close>, whether \<^verbatim>\<open>redis\<close> can be imported, whether its client accepts a URL,
  whether the S3 store can be constructed, and whether \<^verbatim>\<open>client-dist\<close> is a directory.
\<close>

datatype state_backend = MemoryBackend int | RedisBackend "string option" int

section \<open>Engine and sessions\<close>

record engine_spec =
  en_url :: string
  en_pool_pre_ping :: bool
  en_check_same_thread :: "bool option"

definition build_engine :: "env \<Rightarrow> string option \<Rightarrow> engine_spec" where
  "build_engine env database_url =
     (let url = (case database_url of
                   Some u \<Rightarrow> if u = [] then as_database_url (get_settings env) else u
                 | None \<Rightarrow> as_database_url (get_settings env)) in
      \<lparr> en_url = url, en_pool_pre_ping = True,
        en_check_same_thread = (if take 6 url = ''sqlite'' then Some False else None) \<rparr>)"

text \<open>The statements that make termination records immutable in the database itself.\<close>

datatype ddl = CreateTables | CreateGuardFunction | CreateGuardTrigger

definition install_postgres_immutability :: "string \<Rightarrow> ddl list" where
  "install_postgres_immutability dialect =
     (if dialect \<noteq> ''postgresql'' then [] else [CreateGuardFunction, CreateGuardTrigger])"

definition initialize_schema :: "string \<Rightarrow> ddl list" where
  "initialize_schema dialect = CreateTables # install_postgres_immutability dialect"

text \<open>Where the routes get their sessions from.\<close>

datatype session_factory = UnconfiguredFactory | InstalledFactory

definition db_session_of :: "session_factory \<Rightarrow> database \<Rightarrow> py_error + db_session" where
  "db_session_of f d =
     (case f of
        UnconfiguredFactory \<Rightarrow> Inl (RuntimeError ''DB session factory is not configured'')
      | InstalledFactory \<Rightarrow> Inr (open_session d))"

section \<open>Routers\<close>

text \<open>A router holds the factory that was installed when it was built.\<close>

datatype router =
    LtiRouter state_backend session_factory
  | WsRouter session_factory
  | OrchestrationRouter session_factory
  | ClientBundle

datatype store_seam = StoreUnconfigured | StoreMemory | StoreS3 evidence_store_settings

record surroundings =
  su_env :: env
  su_to_float :: "string \<Rightarrow> rat option"
  su_redis_importable :: bool
  su_redis_url_ok :: "string option \<Rightarrow> bool"
  su_s3_constructs :: "evidence_store_settings \<Rightarrow> bool"
  su_client_dist :: bool

record process =
  pr_lti :: "lti_settings cell"
  pr_orchestration :: "orchestration_settings cell"
  pr_evidence_store :: store_seam
  pr_db_session_factory :: session_factory

definition fresh_process :: process where
  "fresh_process = \<lparr> pr_lti = fresh_lti, pr_orchestration = fresh_orchestration,
     pr_evidence_store = StoreUnconfigured, pr_db_session_factory = UnconfiguredFactory \<rparr>"

definition install_db_session_factory :: "session_factory \<Rightarrow> process \<Rightarrow> process" where
  "install_db_session_factory f p = p\<lparr> pr_db_session_factory := f \<rparr>"

definition install_evidence_store :: "store_seam \<Rightarrow> process \<Rightarrow> process" where
  "install_evidence_store s p = p\<lparr> pr_evidence_store := s \<rparr>"

text \<open>Only \<^verbatim>\<open>ValueError\<close> is caught around the getters.\<close>

fun is_value_error :: "py_error \<Rightarrow> bool" where
  "is_value_error (ValueError _) = True"
| "is_value_error _ = False"

definition wire_state_store :: "surroundings \<Rightarrow> lti_settings cell \<Rightarrow> py_error + state_backend" where
  "wire_state_store su s =
     bind_err (attr ''state_store_backend'' ls_state_store_backend s) (\<lambda>backend.
       if backend = ''redis''
       then if \<not> su_redis_importable su
            then Inl (RuntimeError ''redis.asyncio is required for the redis launch-state backend'')
            else bind_err (attr ''redis_url'' ls_redis_url s) (\<lambda>url.
                 if \<not> su_redis_url_ok su url then Inl (ValueError ''Redis URL'')
                 else bind_err (attr ''state_store_ttl_seconds'' ls_state_store_ttl_seconds s) (\<lambda>ttl.
                      bind_err (new_redis_launches ttl REDIS_KEY_PREFIX) (\<lambda>_. Inr (RedisBackend url ttl))))
       else bind_err (attr ''state_store_ttl_seconds'' ls_state_store_ttl_seconds s) (\<lambda>ttl.
            bind_err (new_memory_launches ttl) (\<lambda>_. Inr (MemoryBackend ttl))))"

definition wire_lti :: "surroundings \<Rightarrow> process \<Rightarrow> process \<times> (py_error + router list)" where
  "wire_lti su p =
     (case get_lti_settings (su_to_float su) (su_env su) (pr_lti p) of
        (c, Inl e) \<Rightarrow> (p\<lparr> pr_lti := c \<rparr>, if is_value_error e then Inr [] else Inl e)
      | (c, Inr s) \<Rightarrow> (p\<lparr> pr_lti := c \<rparr>,
          bind_err (wire_state_store su s) (\<lambda>store.
          bind_err (attr ''oidc_http_timeout_seconds'' ls_oidc_http_timeout_seconds s) (\<lambda>_.
          Inr [LtiRouter store (pr_db_session_factory p), WsRouter (pr_db_session_factory p)]))))"

definition wire_evidence_store :: "surroundings \<Rightarrow> process \<Rightarrow> process" where
  "wire_evidence_store su p =
     (let p1 = (case get_evidence_store_settings (su_to_float su) (su_env su) of
                  Inl _ \<Rightarrow> p
                | Inr s \<Rightarrow> install_evidence_store (if su_s3_constructs su s then StoreS3 s else StoreMemory) p) in
      if pr_evidence_store p1 = StoreUnconfigured then install_evidence_store StoreMemory p1 else p1)"

definition wire_orchestration :: "surroundings \<Rightarrow> process \<Rightarrow> process \<times> (py_error + router list)" where
  "wire_orchestration su p =
     (case get_orchestration_settings (su_env su) (pr_orchestration p) of
        (c, Inl e) \<Rightarrow> (p\<lparr> pr_orchestration := c \<rparr>, if is_value_error e then Inr [] else Inl e)
      | (c, Inr _) \<Rightarrow>
          (case get_lti_settings (su_to_float su) (su_env su) (pr_lti p) of
             (l, Inl e) \<Rightarrow> (p\<lparr> pr_orchestration := c, pr_lti := l \<rparr>, if is_value_error e then Inr [] else Inl e)
           | (l, Inr _) \<Rightarrow> (p\<lparr> pr_orchestration := c, pr_lti := l \<rparr>, Inr [OrchestrationRouter (pr_db_session_factory p)])))"

definition lifespan :: "surroundings \<Rightarrow> process \<Rightarrow> process \<times> (py_error + router list)" where
  "lifespan su p =
     (case wire_lti su p of
        (p1, Inl e) \<Rightarrow> (p1, Inl e)
      | (p1, Inr lti) \<Rightarrow>
          (case wire_orchestration su (wire_evidence_store su p1) of
             (p2, Inl e) \<Rightarrow> (p2, Inl e)
           | (p2, Inr orch) \<Rightarrow>
               (p2, Inr (lti @ orch @ (if su_client_dist su then [ClientBundle] else [])))))"

section \<open>Startup of a fresh process\<close>

lemma fresh_getters:
  "get_lti_settings to_float env fresh_lti = (fresh_lti, Inr CellField)"
  "get_orchestration_settings env fresh_orchestration = (fresh_orchestration, Inr CellField)"
  by (simp_all add: get_lti_settings_def get_orchestration_settings_def get_cached_def fresh_lti_def
      fresh_orchestration_def)

text \<open>A process whose settings caches have the value they are declared with cannot start: whatever
  the environment holds, the first access returns the declared placeholder instead of loading
  the settings, and reading the state-store backend from it raises.\<close>

theorem fresh_process_cannot_start:
  "snd (lifespan su fresh_process) = Inl (AttributeError ''state_store_backend'')"
  by (simp add: lifespan_def wire_lti_def wire_state_store_def fresh_process_def fresh_getters attr_def)

section \<open>Startup after a reset\<close>

definition reset_process :: "session_factory \<Rightarrow> process" where
  "reset_process f = \<lparr> pr_lti = reset_lti_settings, pr_orchestration = reset_orchestration_settings,
     pr_evidence_store = StoreUnconfigured, pr_db_session_factory = f \<rparr>"

definition backend_of :: "lti_settings \<Rightarrow> state_backend" where
  "backend_of s = (if ls_state_store_backend s = ''redis''
     then RedisBackend (ls_redis_url s) (ls_state_store_ttl_seconds s)
     else MemoryBackend (ls_state_store_ttl_seconds s))"

text \<open>What the module's documentation promises: the launch and WebSocket routers with the LTI
  settings, the orchestration router with both, the client bundle with its directory.\<close>

definition documented_mounts :: "session_factory \<Rightarrow> surroundings \<Rightarrow> router list" where
  "documented_mounts f su =
     (let lti = load_lti_settings (su_to_float su) (su_env su) in
      (case lti of Inl _ \<Rightarrow> [] | Inr s \<Rightarrow> [LtiRouter (backend_of s) f, WsRouter f]) @
      (if is_Inr lti \<and> is_Inr (load_orchestration_settings (su_env su)) then [OrchestrationRouter f] else []) @
      (if su_client_dist su then [ClientBundle] else []))"

lemma bind_ValueError:
  assumes "\<And>e. r = Inl e \<Longrightarrow> is_value_error e" "\<And>a e. f a = Inl e \<Longrightarrow> is_value_error e"
  shows "bind_err r f = Inl e \<Longrightarrow> is_value_error e"
  using assms by (cases r) auto

lemma env_value_errors:
  "env_int env k d = Inl e \<Longrightarrow> is_value_error e"
  "env_float tf env k q = Inl e \<Longrightarrow> is_value_error e"
  "check_lti_settings s = Inl e \<Longrightarrow> is_value_error e"
  "check_orchestration_settings os = Inl e \<Longrightarrow> is_value_error e"
  by (auto simp: env_int_def env_float_def check_lti_settings_def check_orchestration_settings_def
      split: option.splits if_splits)

lemma load_value_errors:
  "load_lti_settings tf env = Inl e \<Longrightarrow> is_value_error e"
  "load_orchestration_settings env = Inl e \<Longrightarrow> is_value_error e"
  unfolding load_lti_settings_def load_orchestration_settings_def Let_def
  by (auto split: if_splits elim!: bind_ValueError[rotated 2] dest: env_value_errors)

lemma load_lti_positive: "load_lti_settings tf env = Inr s \<Longrightarrow> 0 < ls_state_store_ttl_seconds s"
  by (auto simp: load_lti_settings_def Let_def bind_err_eq_Inr check_lti_settings_def split: if_splits)

lemma get_reset:
  "get_lti_settings tf env CellNone = (case load_lti_settings tf env of
     Inl e \<Rightarrow> (CellNone, Inl e) | Inr s \<Rightarrow> (CellHeld s, Inr (CellHeld s)))"
  "get_lti_settings tf env (CellHeld s) = (CellHeld s, Inr (CellHeld s))"
  "get_orchestration_settings env CellNone = (case load_orchestration_settings env of
     Inl e \<Rightarrow> (CellNone, Inl e) | Inr s \<Rightarrow> (CellHeld s, Inr (CellHeld s)))"
  by (simp_all add: get_lti_settings_def get_orchestration_settings_def get_cached_def)

lemma wire_state_store_held:
  "0 < ls_state_store_ttl_seconds s \<Longrightarrow> wire_state_store su (CellHeld s) = Inr b \<Longrightarrow> b = backend_of s"
  by (auto simp: wire_state_store_def attr_def backend_of_def new_memory_launches_def new_redis_launches_def
      REDIS_KEY_PREFIX_def split: if_splits)

lemma wire_evidence_keeps:
  "pr_lti (wire_evidence_store su p) = pr_lti p"
  "pr_orchestration (wire_evidence_store su p) = pr_orchestration p"
  "pr_db_session_factory (wire_evidence_store su p) = pr_db_session_factory p"
  by (auto simp: wire_evidence_store_def install_evidence_store_def Let_def split: sum.splits)

text \<open>Once the caches have been reset, a process that starts mounts exactly the routers that
  the documentation promises for its environment.\<close>

theorem reset_process_mounts:
  assumes "snd (lifespan su (reset_process f)) = Inr ms"
  shows "ms = documented_mounts f su"
proof (cases "load_lti_settings (su_to_float su) (su_env su)")
  case (Inl e)
  note v = load_value_errors(1)[OF Inl]
  show ?thesis using assms load_value_errors(2)
    by (cases "load_orchestration_settings (su_env su)")
      (auto simp: lifespan_def wire_lti_def wire_orchestration_def wire_evidence_keeps reset_process_def
        reset_lti_settings_def reset_orchestration_settings_def get_reset Inl v documented_mounts_def Let_def)
next
  case (Inr s)
  note t = load_lti_positive[OF Inr]
  show ?thesis using assms load_value_errors(2) wire_state_store_held[OF t]
    by (cases "load_orchestration_settings (su_env su)"; cases "wire_state_store su (CellHeld s)")
      (auto simp: lifespan_def wire_lti_def wire_orchestration_def wire_evidence_keeps reset_process_def
        reset_lti_settings_def reset_orchestration_settings_def get_reset Inr documented_mounts_def Let_def attr_def)
qed

text \<open>The lifespan installs no session factory, whatever its documentation says: with the module's own
  default every mounted route that asks for a session raises.\<close>

fun factory_of :: "router \<Rightarrow> session_factory option" where
  "factory_of (LtiRouter _ f) = Some f"
| "factory_of (WsRouter f) = Some f"
| "factory_of (OrchestrationRouter f) = Some f"
| "factory_of ClientBundle = None"

definition starts_without_database :: "surroundings \<Rightarrow> bool" where
  "starts_without_database su \<longleftrightarrow>
     (\<forall>ms r f d. snd (lifespan su (reset_process UnconfiguredFactory)) = Inr ms \<longrightarrow> r \<in> set ms \<longrightarrow> factory_of r = Some f \<longrightarrow>
        \<not> is_Inr (db_session_of f d))"

lemma mounted_factory: "r \<in> set (documented_mounts f su) \<Longrightarrow> factory_of r = None \<or> factory_of r = Some f"
  by (auto simp: documented_mounts_def Let_def split: sum.splits if_splits)

lemma no_database_at_startup: "starts_without_database su"
  unfolding starts_without_database_def
  using reset_process_mounts mounted_factory by (fastforce simp: db_session_of_def)

section \<open>Health check\<close>

definition healthcheck :: "env \<Rightarrow> jdict" where
  "healthcheck env = [(''status'', JStr ''ok''), (''environment'', JStr (as_app_env (get_settings env)))]"

definition demo_env :: env where
  "demo_env = map_of [(''LTI_TOOL_CLIENT_ID'', ''tool''), (''LTI_LAUNCH_URL'', ''https://tool/launch''),
     (''SESSION_TOKEN_SECRET'', ''0123456789abcdef0123456789abcdef''), (''SESSION_TOKEN_TTL_SECONDS'', '' 3_600 '')]"

definition demo_surroundings :: surroundings where
  "demo_surroundings = \<lparr> su_env = demo_env, su_to_float = (\<lambda>_. None), su_redis_importable = False,
     su_redis_url_ok = (\<lambda>_. False), su_s3_constructs = (\<lambda>_. False), su_client_dist = True \<rparr>"

theorem reset_process_mounts_witness:
  "documented_mounts InstalledFactory demo_surroundings
   = [LtiRouter (MemoryBackend 600) InstalledFactory, WsRouter InstalledFactory, ClientBundle]"
  by (rule reset_process_mounts[symmetric]) code_simp

end
