(* ===== verification/LtiClaims.thy ===== *)
theory LtiClaims
  imports Prelude
begin

text \<open>
  The claims of an LTI 1.3 launch (\<^verbatim>\<open>lti/claims.py\<close>).  The models are records and their \<^verbatim>\<open>Field\<close>
  bounds the \<open>check_\<close> predicates; what pydantic does besides (required fields, aliases, types
  and coercions, forbidden extra fields) is the parameter \<open>decode\<close>, which reads a payload as an
  \<open>lti_id_token\<close> or fails.
\<close>

definition CLAIM_ROLES :: string where
  "CLAIM_ROLES = ''https://purl.imsglobal.org/spec/lti/claim/roles''"

definition LTI_MESSAGE_TYPE_RESOURCE_LINK :: string where
  "LTI_MESSAGE_TYPE_RESOURCE_LINK = ''LtiResourceLinkRequest''"

definition LTI_MESSAGE_TYPE_DEEP_LINKING :: string where
  "LTI_MESSAGE_TYPE_DEEP_LINKING = ''LtiDeepLinkingRequest''"

definition LTI_VERSION_1_3 :: string where "LTI_VERSION_1_3 = ''1.3.0''"

definition CUSTOM_POLICY_CONFIG_NAME :: string where "CUSTOM_POLICY_CONFIG_NAME = ''policy_config_name''"

datatype claims_error = LtiClaimsError string

section \<open>Models\<close>

text \<open>Bounds on a required and on an optional string.\<close>

definition str_between :: "nat \<Rightarrow> nat \<Rightarrow> string \<Rightarrow> bool" where
  "str_between lo hi s \<longleftrightarrow> lo \<le> length s \<and> length s \<le> hi"

definition opt_at_most :: "nat \<Rightarrow> string option \<Rightarrow> bool" where
  "opt_at_most hi o' = (case o' of None \<Rightarrow> True | Some s \<Rightarrow> length s \<le> hi)"

record lti_context =
  lc_id :: string
  lc_label :: "string option"
  lc_title :: "string option"
  lc_type :: "string list option"

definition check_context :: "lti_context \<Rightarrow> bool" where
  "check_context c \<longleftrightarrow> str_between 1 512 (lc_id c) \<and> opt_at_most 512 (lc_label c) \<and> opt_at_most 512 (lc_title c)"

record lti_resource_link =
  rl_id :: string
  rl_title :: "string option"
  rl_description :: "string option"
  rl_url :: "string option"

definition check_resource_link :: "lti_resource_link \<Rightarrow> bool" where
  "check_resource_link r \<longleftrightarrow> str_between 1 512 (rl_id r) \<and> opt_at_most 512 (rl_title r)"

record lti_tool_platform =
  tp_guid :: string
  tp_name :: string
  tp_product_family_code :: string
  tp_version :: "string option"
  tp_url :: "string option"

definition check_tool_platform :: "lti_tool_platform \<Rightarrow> bool" where
  "check_tool_platform p \<longleftrightarrow> str_between 1 512 (tp_guid p) \<and> str_between 1 512 (tp_name p) \<and>
     str_between 1 128 (tp_product_family_code p)"

record lti_custom_claims =
  cu_policy_config_name :: "string option"
  cu_extra :: jdict

definition check_custom_claims :: "lti_custom_claims \<Rightarrow> bool" where
  "check_custom_claims c \<longleftrightarrow> opt_at_most 128 (cu_policy_config_name c)"

record lti_id_token =
  it_issuer :: string
  it_subject :: string
  it_audience :: string
  it_expires_at :: int
  it_issued_at :: int
  it_nonce :: string
  it_message_type :: string
  it_version :: string
  it_deployment_id :: string
  it_roles :: "string list"
  it_context :: lti_context
  it_resource_link :: lti_resource_link
  it_tool_platform :: lti_tool_platform
  it_target_link_uri :: string
  it_custom :: lti_custom_claims
  it_name :: "string option"
  it_email :: "string option"
  it_preferred_username :: "string option"

definition check_id_token :: "lti_id_token \<Rightarrow> bool" where
  "check_id_token t \<longleftrightarrow>
     str_between 1 2048 (it_issuer t) \<and> str_between 1 2048 (it_subject t) \<and>
     str_between 1 2048 (it_audience t) \<and> str_between 1 2048 (it_nonce t) \<and>
     str_between 1 512 (it_deployment_id t) \<and> length (it_roles t) \<ge> 1 \<and>
     check_context (it_context t) \<and> check_resource_link (it_resource_link t) \<and>
     check_tool_platform (it_tool_platform t) \<and> str_between 1 2048 (it_target_link_uri t) \<and>
     check_custom_claims (it_custom t) \<and>
     opt_at_most 512 (it_name t) \<and> opt_at_most 512 (it_email t) \<and> opt_at_most 512 (it_preferred_username t)"

section \<open>Parsing\<close>

definition require_resource_link_request :: "lti_id_token \<Rightarrow> claims_error + unit" where
  "require_resource_link_request t =
     (if it_message_type t = LTI_MESSAGE_TYPE_RESOURCE_LINK then Inr ()
      else if it_message_type t = LTI_MESSAGE_TYPE_DEEP_LINKING
      then Inl (LtiClaimsError ''LtiDeepLinkingRequest is not supported in v1'')
      else Inl (LtiClaimsError ''unsupported LTI message_type''))"

definition require_lti_version_1_3 :: "lti_id_token \<Rightarrow> claims_error + unit" where
  "require_lti_version_1_3 t =
     (if it_version t \<noteq> LTI_VERSION_1_3 then Inl (LtiClaimsError ''LTI version must be 1.3.0'') else Inr ())"

definition from_jwt_payload ::
  "(jdict \<Rightarrow> lti_id_token option) \<Rightarrow> jval \<Rightarrow> claims_error + lti_id_token" where
  "from_jwt_payload decode payload =
     (case payload of
        JDict d \<Rightarrow>
          (case decode d of
             None \<Rightarrow> Inl (LtiClaimsError ''LTI id_token claims are invalid'')
           | Some t \<Rightarrow>
               if \<not> check_id_token t then Inl (LtiClaimsError ''LTI id_token claims are invalid'')
               else bind_err (require_lti_version_1_3 t) (\<lambda>_.
                    bind_err (require_resource_link_request t) (\<lambda>_. Inr t)))
      | _ \<Rightarrow> Inl (LtiClaimsError ''id_token payload is not a JSON object''))"

definition require_policy_config_name :: "lti_id_token \<Rightarrow> claims_error + string" where
  "require_policy_config_name t =
     (case cu_policy_config_name (it_custom t) of
        None \<Rightarrow> Inl (LtiClaimsError ''custom claim policy_config_name is required and must be non-empty'')
      | Some nm \<Rightarrow>
          if nm = [] then Inl (LtiClaimsError ''custom claim policy_config_name is required and must be non-empty'')
          else Inr nm)"

definition combined_context_id :: "lti_id_token \<Rightarrow> string" where
  "combined_context_id t = lc_id (it_context t) @ '':'' @ rl_id (it_resource_link t)"

lemma from_jwt_payload_Inr:
  "from_jwt_payload decode p = Inr t \<longleftrightarrow>
     (\<exists>d. p = JDict d \<and> decode d = Some t) \<and> check_id_token t \<and> it_version t = LTI_VERSION_1_3 \<and>
     it_message_type t = LTI_MESSAGE_TYPE_RESOURCE_LINK"
  by (cases p) (auto simp: from_jwt_payload_def require_lti_version_1_3_def require_resource_link_request_def
      split: option.splits if_splits)

lemma require_policy_config_name_Inr:
  "require_policy_config_name t = Inr nm \<longleftrightarrow> cu_policy_config_name (it_custom t) = Some nm \<and> nm \<noteq> []"
  by (auto simp: require_policy_config_name_def split: option.splits)

text \<open>The combined identifier does not determine its parts: either may contain a colon.\<close>

lemma combined_context_id_ambiguous:
  "combined_context_id (t\<lparr> it_context := (it_context t)\<lparr> lc_id := ''a:b'' \<rparr>,
                           it_resource_link := (it_resource_link t)\<lparr> rl_id := ''c'' \<rparr> \<rparr>)
   = combined_context_id (t\<lparr> it_context := (it_context t)\<lparr> lc_id := ''a'' \<rparr>,
                           it_resource_link := (it_resource_link t)\<lparr> rl_id := ''b:c'' \<rparr> \<rparr>)"
  by (simp add: combined_context_id_def)

end
