(* ===== verification/LtiRoles.thy ===== *)
theory LtiRoles
  imports Enums
begin

text \<open>
  Role mapping of an LTI launch (\<^verbatim>\<open>lti/roles.py\<close>): the vocabulary of role URIs, the table to
  application roles and the reduction of a launch's roles to the most privileged one.
\<close>

section \<open>Vocabulary\<close>

definition LTI_SYSTEM_ROLES :: "string list" where
  "LTI_SYSTEM_ROLES =
     [''http://purl.imsglobal.org/vocab/lis/v2/system/person#Administrator'',
      ''http://purl.imsglobal.org/vocab/lis/v2/system/person#SysAdmin'',
      ''http://purl.imsglobal.org/vocab/lis/v2/system/person#SysSupport'',
      ''http://purl.imsglobal.org/vocab/lis/v2/system/person#None'']"

definition LTI_INSTITUTION_ROLES :: "string list" where
  "LTI_INSTITUTION_ROLES =
     [''http://purl.imsglobal.org/vocab/lis/v2/institution/person#Faculty'',
      ''http://purl.imsglobal.org/vocab/lis/v2/institution/person#Instructor'',
      ''http://purl.imsglobal.org/vocab/lis/v2/institution/person#TeachingAssistant'',
      ''http://purl.imsglobal.org/vocab/lis/v2/institution/person#ContentDeveloper'',
      ''http://purl.imsglobal.org/vocab/lis/v2/institution/person#Member'',
      ''http://purl.imsglobal.org/vocab/lis/v2/institution/person#Learner'',
      ''http://purl.imsglobal.org/vocab/lis/v2/institution/person#Student'',
      ''http://purl.imsglobal.org/vocab/lis/v2/institution/person#Staff'',
      ''http://purl.imsglobal.org/vocab/lis/v2/institution/person#Alumni'',
      ''http://purl.imsglobal.org/vocab/lis/v2/institution/person#ProspectiveStudent'',
      ''http://purl.imsglobal.org/vocab/lis/v2/institution/person#Guest'',
      ''http://purl.imsglobal.org/vocab/lis/v2/institution/person#Other'']"

definition LTI_CONTEXT_ROLES :: "string list" where
  "LTI_CONTEXT_ROLES =
     [''http://purl.imsglobal.org/vocab/lis/v2/membership#Administrator'',
      ''http://purl.imsglobal.org/vocab/lis/v2/membership#Instructor'',
      ''http://purl.imsglobal.org/vocab/lis/v2/membership#TeachingAssistant'',
      ''http://purl.imsglobal.org/vocab/lis/v2/membership#ContentDeveloper'',
      ''http://purl.imsglobal.org/vocab/lis/v2/membership#Learner'',
      ''http://purl.imsglobal.org/vocab/lis/v2/membership#Member'']"

definition LTI_PROCTOR_ROLES :: "string list" where
  "LTI_PROCTOR_ROLES = [''http://purl.imsglobal.org/vocab/lti/role/proctor#Proctor'']"

definition KNOWN_ROLES :: "string list" where
  "KNOWN_ROLES = LTI_SYSTEM_ROLES @ LTI_INSTITUTION_ROLES @ LTI_CONTEXT_ROLES @ LTI_PROCTOR_ROLES"

datatype app_role = APP_LEARNER | APP_INSTRUCTOR | APP_ADMIN | APP_PROCTOR

fun app_role_value :: "app_role \<Rightarrow> string" where
  "app_role_value APP_LEARNER = ''learner''"
| "app_role_value APP_INSTRUCTOR = ''instructor''"
| "app_role_value APP_ADMIN = ''admin''"
| "app_role_value APP_PROCTOR = ''proctor''"

definition app_role_members :: "app_role list" where
  "app_role_members = [APP_LEARNER, APP_INSTRUCTOR, APP_ADMIN, APP_PROCTOR]"

definition ROLE_TO_APP :: "(string \<times> app_role) list" where
  "ROLE_TO_APP =
     [(''http://purl.imsglobal.org/vocab/lis/v2/system/person#Administrator'', APP_ADMIN),
      (''http://purl.imsglobal.org/vocab/lis/v2/system/person#SysAdmin'', APP_ADMIN),
      (''http://purl.imsglobal.org/vocab/lis/v2/system/person#SysSupport'', APP_ADMIN),
      (''http://purl.imsglobal.org/vocab/lis/v2/membership#Administrator'', APP_ADMIN),
      (''http://purl.imsglobal.org/vocab/lti/role/proctor#Proctor'', APP_PROCTOR),
      (''http://purl.imsglobal.org/vocab/lis/v2/institution/person#Faculty'', APP_INSTRUCTOR),
      (''http://purl.imsglobal.org/vocab/lis/v2/institution/person#Instructor'', APP_INSTRUCTOR),
      (''http://purl.imsglobal.org/vocab/lis/v2/institution/person#TeachingAssistant'', APP_INSTRUCTOR),
      (''http://purl.imsglobal.org/vocab/lis/v2/institution/person#ContentDeveloper'', APP_INSTRUCTOR),
      (''http://purl.imsglobal.org/vocab/lis/v2/membership#Instructor'', APP_INSTRUCTOR),
      (''http://purl.imsglobal.org/vocab/lis/v2/membership#TeachingAssistant'', APP_INSTRUCTOR),
      (''http://purl.imsglobal.org/vocab/lis/v2/membership#ContentDeveloper'', APP_INSTRUCTOR),
      (''http://purl.imsglobal.org/vocab/lis/v2/institution/person#Learner'', APP_LEARNER),
      (''http://purl.imsglobal.org/vocab/lis/v2/institution/person#Student'', APP_LEARNER),
      (''http://purl.imsglobal.org/vocab/lis/v2/membership#Learner'', APP_LEARNER),
      (''http://purl.imsglobal.org/vocab/lis/v2/membership#Member'', APP_LEARNER),
      (''http://purl.imsglobal.org/vocab/lis/v2/institution/person#Member'', APP_LEARNER),
      (''http://purl.imsglobal.org/vocab/lis/v2/institution/person#Staff'', APP_LEARNER),
      (''http://purl.imsglobal.org/vocab/lis/v2/institution/person#Alumni'', APP_LEARNER),
      (''http://purl.imsglobal.org/vocab/lis/v2/institution/person#ProspectiveStudent'', APP_LEARNER),
      (''http://purl.imsglobal.org/vocab/lis/v2/institution/person#Guest'', APP_LEARNER),
      (''http://purl.imsglobal.org/vocab/lis/v2/institution/person#Other'', APP_LEARNER),
      (''http://purl.imsglobal.org/vocab/lis/v2/system/person#None'', APP_LEARNER)]"

fun PRIVILEGE :: "app_role \<Rightarrow> int" where
  "PRIVILEGE APP_LEARNER = 0"
| "PRIVILEGE APP_INSTRUCTOR = 1"
| "PRIVILEGE APP_PROCTOR = 2"
| "PRIVILEGE APP_ADMIN = 3"

section \<open>Mapping\<close>

text \<open>\<^verbatim>\<open>[_ROLE_TO_APP[uri] for uri in uris]\<close>; a missing key raises.\<close>

fun lookup_roles :: "string list \<Rightarrow> py_error + app_role list" where
  "lookup_roles [] = Inr []"
| "lookup_roles (u # us) =
     (case map_of ROLE_TO_APP u of
        None \<Rightarrow> Inl KeyError
      | Some r \<Rightarrow> bind_err (lookup_roles us) (\<lambda>rs. Inr (r # rs)))"

text \<open>\<^verbatim>\<open>max(mapped, key=...)\<close>: the first of the elements with the greatest key.\<close>

definition max_role :: "app_role list \<Rightarrow> py_error + app_role" where
  "max_role rs = (case rs of
      [] \<Rightarrow> Inl (ValueError ''max() arg is an empty sequence'')
    | r # rest \<Rightarrow> Inr (foldl (\<lambda>best x. if PRIVILEGE best < PRIVILEGE x then x else best) r rest))"

definition map_roles :: "string list \<Rightarrow> py_error + app_role" where
  "map_roles uris =
     (if uris = [] then Inl (ValueError ''LTI roles claim must contain at least one URI'')
      else if filter (\<lambda>u. \<not> List.member KNOWN_ROLES u) uris \<noteq> []
      then Inl (ValueError ''unrecognized LTI role URI(s)'')
      else bind_err (lookup_roles uris) max_role)"

definition is_admin_route :: "app_role \<Rightarrow> bool" where
  "is_admin_route role = List.member [APP_ADMIN, APP_INSTRUCTOR, APP_PROCTOR] role"

section \<open>The table covers the vocabulary\<close>

lemma table_covers_vocabulary: "list_all (\<lambda>u. map_of ROLE_TO_APP u \<noteq> None) KNOWN_ROLES"
  by code_simp

lemma lookup_roles_known:
  assumes "\<forall>u\<in>set us. u \<in> set KNOWN_ROLES"
  shows "\<exists>rs. lookup_roles us = Inr rs \<and> map Some rs = map (map_of ROLE_TO_APP) us"
  using assms
proof (induction us)
  case (Cons u us)
  then obtain rs where "lookup_roles us = Inr rs" "map Some rs = map (map_of ROLE_TO_APP) us"
    by auto
  moreover obtain r where "map_of ROLE_TO_APP u = Some r"
    using table_covers_vocabulary Cons.prems unfolding list_all_iff by (meson list.set_intros(1) not_Some_eq)
  ultimately show ?case by (intro exI[of _ "r # rs"]) simp
qed simp

lemma PRIVILEGE_inj: "PRIVILEGE a = PRIVILEGE b \<longleftrightarrow> a = b"
  by (cases a; cases b) simp_all

lemma foldl_best:
  "foldl (\<lambda>best x. if PRIVILEGE best < PRIVILEGE x then x else best) r rs \<in> set (r # rs) \<and>
   (\<forall>x\<in>set (r # rs). PRIVILEGE x \<le> PRIVILEGE (foldl (\<lambda>best x. if PRIVILEGE best < PRIVILEGE x then x else best) r rs))"
proof (induction rs arbitrary: r)
  case (Cons a rs)
  from Cons.IH[of "if PRIVILEGE r < PRIVILEGE a then a else r"] show ?case
    by (auto split: if_splits)
qed simp

lemma max_role_greatest:
  assumes "rs \<noteq> []"
  shows "max_role rs = Inr r \<longleftrightarrow> r \<in> set rs \<and> (\<forall>x\<in>set rs. PRIVILEGE x \<le> PRIVILEGE r)"
proof -
  obtain a as where "rs = a # as" using assms by (cases rs) auto
  define b where "b = foldl (\<lambda>best x. if PRIVILEGE best < PRIVILEGE x then x else best) a as"
  have b: "b \<in> set rs" "\<forall>x\<in>set rs. PRIVILEGE x \<le> PRIVILEGE b"
    using foldl_best[of a as] \<open>rs = a # as\<close> by (simp_all add: b_def)
  have "max_role rs = Inr b" by (simp add: max_role_def \<open>rs = a # as\<close> b_def)
  then have "max_role rs = Inr r \<longleftrightarrow> b = r" by simp
  moreover have "r = b" if "r \<in> set rs" "\<forall>x\<in>set rs. PRIVILEGE x \<le> PRIVILEGE r"
    using that b by (metis PRIVILEGE_inj antisym)
  ultimately show ?thesis using b by metis
qed

lemma map_Some_set: "map Some rs = map f us \<Longrightarrow> Some ` set rs = f ` set us"
  by (metis list.set_map)

text \<open>A launch is mapped to a role exactly when it carries at least one role and every role
  is of the recognised vocabulary, and the result is then the most privileged of the mapped
  roles.  In particular the table lookup never raises.\<close>

theorem map_roles_exact:
  "map_roles us = Inr r \<longleftrightarrow>
     us \<noteq> [] \<and> (\<forall>u\<in>set us. u \<in> set KNOWN_ROLES) \<and>
     Some r \<in> map_of ROLE_TO_APP ` set us \<and>
     (\<forall>u\<in>set us. \<forall>x. map_of ROLE_TO_APP u = Some x \<longrightarrow> PRIVILEGE x \<le> PRIVILEGE r)"
proof (cases "us \<noteq> [] \<and> (\<forall>u\<in>set us. u \<in> set KNOWN_ROLES)")
  case True
  then obtain rs where rs: "lookup_roles us = Inr rs" "map Some rs = map (map_of ROLE_TO_APP) us"
    using lookup_roles_known by blast
  have img: "Some ` set rs = map_of ROLE_TO_APP ` set us" by (rule map_Some_set[OF rs(2)])
  have "rs \<noteq> []" using rs(2) True by auto
  have "map_roles us = max_role rs"
    using True rs(1) by (simp add: map_roles_def List.member_iff filter_empty_conv)
  also have "max_role rs = Inr r \<longleftrightarrow> r \<in> set rs \<and> (\<forall>x\<in>set rs. PRIVILEGE x \<le> PRIVILEGE r)"
    by (rule max_role_greatest[OF \<open>rs \<noteq> []\<close>])
  also have "r \<in> set rs \<longleftrightarrow> Some r \<in> map_of ROLE_TO_APP ` set us"
    unfolding img[symmetric] by auto
  also have "(\<forall>x\<in>set rs. PRIVILEGE x \<le> PRIVILEGE r) \<longleftrightarrow>
      (\<forall>u\<in>set us. \<forall>x. map_of ROLE_TO_APP u = Some x \<longrightarrow> PRIVILEGE x \<le> PRIVILEGE r)"
    using img by (metis (no_types, opaque_lifting) image_iff option.inject)
  finally show ?thesis using True by simp
next
  case False
  then show ?thesis by (auto simp: map_roles_def List.member_iff filter_empty_conv)
qed

theorem map_roles_exact_witness:
  "map_roles [''http://purl.imsglobal.org/vocab/lis/v2/membership#Learner'',
              ''http://purl.imsglobal.org/vocab/lis/v2/membership#Instructor''] = Inr APP_INSTRUCTOR"
proof (subst map_roles_exact, intro conjI)
  show "\<forall>u\<in>set [''http://purl.imsglobal.org/vocab/lis/v2/membership#Learner'',
      ''http://purl.imsglobal.org/vocab/lis/v2/membership#Instructor'']. u \<in> set KNOWN_ROLES"
    by (simp add: KNOWN_ROLES_def LTI_CONTEXT_ROLES_def)
qed (simp_all add: ROLE_TO_APP_def)

end
