(* ===== verification/SessionToken.thy ===== *)
theory SessionToken
  imports Settings LtiRoles
begin

text \<open>
  The session token (\<^verbatim>\<open>lti/session_token.py\<close>).  Signing, verification and the checks of the
  registered claims are those of the library \<open>jwt_lib\<close>; \<open>jwt_ok\<close> states what is relied on for
  HS256.  Instants are microseconds since the epoch.  \<open>str_of\<close> is \<^verbatim>\<open>str(v)\<close> of a payload value
  that is not a string.
\<close>

datatype jwt_error = ExpiredSignatureError | InvalidAudienceError | InvalidIssuerError | InvalidTokenError

text \<open>\<open>jw_verify\<close> takes the key, the algorithms, the audience, the issuer, the required claims and
  the current time in seconds.\<close>

record 'k jwt_lib =
  jw_encode :: "jdict \<Rightarrow> string \<Rightarrow> string"
  jw_decode :: "string \<Rightarrow> string \<Rightarrow> string list \<Rightarrow> string \<Rightarrow> string \<Rightarrow> string list \<Rightarrow> int \<Rightarrow> jwt_error + jdict"
  jw_header :: "string \<Rightarrow> jwt_error + jdict"
  jw_unverified :: "string \<Rightarrow> jwt_error + jdict"
  jw_verify :: "string \<Rightarrow> 'k \<Rightarrow> string list \<Rightarrow> string \<Rightarrow> string \<Rightarrow> string list \<Rightarrow> int \<Rightarrow> jwt_error + jdict"

datatype session_token_error =
    SessionTokenInvalid string
  | SessionTokenExpired string
  | SessionTokenRaised py_error
  | SessionTokenOverflow

record session_claims =
  sc_subject :: string
  sc_session_id :: string
  sc_role :: app_role
  sc_issuer :: string
  sc_audience :: string
  sc_issued_at :: timestamp
  sc_expires_at :: timestamp
  sc_jti :: string

section \<open>Issuing\<close>

definition unix_seconds :: "timestamp \<Rightarrow> int" where
  "unix_seconds t = (if 0 \<le> t then t div 1000000 else - (- t div 1000000))"

definition session_token_payload ::
  "lti_settings \<Rightarrow> uuid \<Rightarrow> uuid \<Rightarrow> app_role \<Rightarrow> timestamp \<Rightarrow> uuid \<Rightarrow> jdict" where
  "session_token_payload cfg participant_id exam_session_id role issued_at jti =
     (let expires_at = issued_at + ls_session_token_ttl_seconds cfg * 1000000 in
      [(''sub'', JStr (uuid_str participant_id)),
       (''sid'', JStr (uuid_str exam_session_id)),
       (''role'', JStr (app_role_value role)),
       (''iss'', JStr (ls_session_token_issuer cfg)),
       (''aud'', JStr (ls_session_token_audience cfg)),
       (''iat'', JInt (unix_seconds issued_at)),
       (''exp'', JInt (unix_seconds expires_at)),
       (''jti'', JStr (uuid_str jti))])"

definition issue_session_token ::
  "'k jwt_lib \<Rightarrow> lti_settings \<Rightarrow> uuid \<Rightarrow> uuid \<Rightarrow> app_role \<Rightarrow> timestamp \<Rightarrow> uuid \<Rightarrow> string" where
  "issue_session_token jw cfg participant_id exam_session_id role issued_at jti =
     jw_encode jw (session_token_payload cfg participant_id exam_session_id role issued_at jti)
       (ls_session_token_secret cfg)"

section \<open>Decoding\<close>

definition app_role_of_value :: "string \<Rightarrow> app_role option" where
  "app_role_of_value s = find (\<lambda>r. app_role_value r = s) app_role_members"

definition py_str :: "(jval \<Rightarrow> string) \<Rightarrow> jval \<Rightarrow> string" where
  "py_str str_of v = (case v of JStr s \<Rightarrow> s | _ \<Rightarrow> str_of v)"

text \<open>\<^verbatim>\<open>int(v)\<close> of a payload value.\<close>

fun py_int :: "jval \<Rightarrow> py_error + int" where
  "py_int (JInt i) = Inr i"
| "py_int (JBool b) = Inr (of_bool b)"
| "py_int (JFloat q) = Inr (if 0 \<le> q then \<lfloor>q\<rfloor> else \<lceil>q\<rceil>)"
| "py_int (JStr s) = (case py_int10 s of None \<Rightarrow> Inl (ValueError ''invalid literal for int()'') | Some i \<Rightarrow> Inr i)"
| "py_int _ = Inl (TypeError ''int() argument must be a string or a real number'')"

text \<open>\<^verbatim>\<open>datetime.fromtimestamp(n, tz=utc)\<close>: the years 1 to 9999; a number that does not fit the
  platform's 64-bit time overflows instead.\<close>

definition from_timestamp :: "int \<Rightarrow> session_token_error + timestamp" where
  "from_timestamp n =
     (if n < - (2 ^ 63) \<or> 2 ^ 63 \<le> n then Inl SessionTokenOverflow
      else if n < - 62135596800 \<or> 253402300799 < n
      then Inl (SessionTokenInvalid ''session token iat/exp are not valid unix timestamps'')
      else Inr (n * 1000000))"

definition timestamp_claim :: "jdict \<Rightarrow> string \<Rightarrow> session_token_error + timestamp" where
  "timestamp_claim payload k =
     (case map_of payload k of
        None \<Rightarrow> Inl (SessionTokenInvalid ''session token iat/exp are not valid unix timestamps'')
      | Some v \<Rightarrow>
          (case py_int v of
             Inl (ValueError _) \<Rightarrow> Inl (SessionTokenInvalid ''session token iat/exp are not valid unix timestamps'')
           | Inl e \<Rightarrow> Inl (SessionTokenRaised e)
           | Inr n \<Rightarrow> from_timestamp n))"

definition str_claim :: "(jval \<Rightarrow> string) \<Rightarrow> jdict \<Rightarrow> string \<Rightarrow> session_token_error \<Rightarrow> session_token_error + string" where
  "str_claim str_of payload k missing =
     (case map_of payload k of None \<Rightarrow> Inl missing | Some v \<Rightarrow> Inr (py_str str_of v))"

definition claims_from_payload :: "(jval \<Rightarrow> string) \<Rightarrow> jdict \<Rightarrow> session_token_error + session_claims" where
  "claims_from_payload str_of payload =
     (let malformed = SessionTokenInvalid ''session token is missing or has malformed claims'' in
      bind_err (str_claim str_of payload ''sub'' malformed) (\<lambda>subject.
      bind_err (str_claim str_of payload ''sid'' malformed) (\<lambda>session_id.
      bind_err (str_claim str_of payload ''role'' malformed) (\<lambda>role_value.
      bind_err (case app_role_of_value role_value of None \<Rightarrow> Inl malformed | Some r \<Rightarrow> Inr r) (\<lambda>role.
      bind_err (timestamp_claim payload ''iat'') (\<lambda>issued_at.
      bind_err (timestamp_claim payload ''exp'') (\<lambda>expires_at.
      bind_err (str_claim str_of payload ''iss'' (SessionTokenRaised KeyError)) (\<lambda>issuer.
      bind_err (str_claim str_of payload ''aud'' (SessionTokenRaised KeyError)) (\<lambda>audience.
      bind_err (str_claim str_of payload ''jti'' (SessionTokenRaised KeyError)) (\<lambda>jti.
      Inr \<lparr> sc_subject = subject, sc_session_id = session_id, sc_role = role, sc_issuer = issuer,
            sc_audience = audience, sc_issued_at = issued_at, sc_expires_at = expires_at, sc_jti = jti \<rparr>))))))))))"

definition SESSION_TOKEN_CLAIMS :: "string list" where
  "SESSION_TOKEN_CLAIMS = [''exp'', ''iat'', ''iss'', ''aud'', ''sub'', ''sid'', ''role'', ''jti'']"

definition decode_session_token ::
  "'k jwt_lib \<Rightarrow> (jval \<Rightarrow> string) \<Rightarrow> lti_settings \<Rightarrow> int \<Rightarrow> string \<Rightarrow> session_token_error + session_claims" where
  "decode_session_token jw str_of cfg now token =
     (case jw_decode jw token (ls_session_token_secret cfg) [''HS256''] (ls_session_token_audience cfg)
             (ls_session_token_issuer cfg) SESSION_TOKEN_CLAIMS now of
        Inl ExpiredSignatureError \<Rightarrow> Inl (SessionTokenExpired ''session token has expired'')
      | Inl _ \<Rightarrow> Inl (SessionTokenInvalid ''session token is invalid'')
      | Inr payload \<Rightarrow> claims_from_payload str_of payload)"

section \<open>What is relied on of the library\<close>

text \<open>A payload of strings and integers that was encoded is decoded under the same secret when all required claims are
  there, audience and issuer are those asked for, it was not issued in the future and has not
  expired.  Once it has expired the error says so.\<close>

definition flat_payload :: "jdict \<Rightarrow> bool" where
  "flat_payload p = list_all (\<lambda>kv. case snd kv of JStr _ \<Rightarrow> True | JInt _ \<Rightarrow> True | _ \<Rightarrow> False) p"

definition jwt_ok :: "'k jwt_lib \<Rightarrow> bool" where
  "jwt_ok jw \<longleftrightarrow> (\<forall>p secret aud iss req now iat exp.
     flat_payload p \<and> list_all (\<lambda>k. map_of p k \<noteq> None) req \<and>
     map_of p ''aud'' = Some (JStr aud) \<and> map_of p ''iss'' = Some (JStr iss) \<and>
     map_of p ''iat'' = Some (JInt iat) \<and> map_of p ''exp'' = Some (JInt exp) \<and> iat \<le> now \<longrightarrow>
     jw_decode jw (jw_encode jw p secret) secret [''HS256''] aud iss req now
       = (if exp \<le> now then Inl ExpiredSignatureError else Inr p))"

lemma app_role_roundtrip [simp]: "app_role_of_value (app_role_value r) = Some r"
  by (cases r) (simp_all add: app_role_of_value_def app_role_members_def)

text \<open>The claims that a token carries.\<close>

definition issued_claims :: "lti_settings \<Rightarrow> uuid \<Rightarrow> uuid \<Rightarrow> app_role \<Rightarrow> timestamp \<Rightarrow> uuid \<Rightarrow> session_claims" where
  "issued_claims cfg p s role issued_at jti =
     \<lparr> sc_subject = uuid_str p, sc_session_id = uuid_str s, sc_role = role,
       sc_issuer = ls_session_token_issuer cfg, sc_audience = ls_session_token_audience cfg,
       sc_issued_at = unix_seconds issued_at * 1000000,
       sc_expires_at = unix_seconds (issued_at + ls_session_token_ttl_seconds cfg * 1000000) * 1000000,
       sc_jti = uuid_str jti \<rparr>"

lemma claims_from_issued:
  assumes "- 62135596800 \<le> unix_seconds i" "unix_seconds i \<le> 253402300799"
    and "- 62135596800 \<le> unix_seconds (i + ls_session_token_ttl_seconds cfg * 1000000)"
    and "unix_seconds (i + ls_session_token_ttl_seconds cfg * 1000000) \<le> 253402300799"
  shows "claims_from_payload str_of (session_token_payload cfg p s role i jti) = Inr (issued_claims cfg p s role i jti)"
  using assms
  by (simp add: claims_from_payload_def session_token_payload_def str_claim_def timestamp_claim_def py_str_def
      from_timestamp_def issued_claims_def Let_def)

lemma decode_issue:
  assumes "jwt_ok jw" "0 \<le> i" "0 < ls_session_token_ttl_seconds cfg"
    and "unix_seconds i + ls_session_token_ttl_seconds cfg \<le> 253402300799" "unix_seconds i \<le> now"
  shows "decode_session_token jw str_of cfg now (issue_session_token jw cfg p s role i jti) =
    (if now < unix_seconds i + ls_session_token_ttl_seconds cfg then Inr (issued_claims cfg p s role i jti)
     else Inl (SessionTokenExpired ''session token has expired''))"
proof -
  have u: "unix_seconds (i + ls_session_token_ttl_seconds cfg * 1000000)
      = unix_seconds i + ls_session_token_ttl_seconds cfg"
    using assms(2,3) by (simp add: unix_seconds_def)
  have "0 \<le> unix_seconds i" using assms(2) by (simp add: unix_seconds_def)
  then have c: "claims_from_payload str_of (session_token_payload cfg p s role i jti)
      = Inr (issued_claims cfg p s role i jti)"
    using assms(3,4) by (intro claims_from_issued) (simp_all add: u)
  have "jw_decode jw (jw_encode jw (session_token_payload cfg p s role i jti) (ls_session_token_secret cfg))
      (ls_session_token_secret cfg) [''HS256''] (ls_session_token_audience cfg) (ls_session_token_issuer cfg)
      SESSION_TOKEN_CLAIMS now
    = (if unix_seconds i + ls_session_token_ttl_seconds cfg \<le> now then Inl ExpiredSignatureError
       else Inr (session_token_payload cfg p s role i jti))"
    using assms(1,5) u
    unfolding jwt_ok_def by (simp add: session_token_payload_def flat_payload_def SESSION_TOKEN_CLAIMS_def Let_def)
  then show ?thesis by (simp add: decode_session_token_def issue_session_token_def c)
qed

text \<open>C37: A session token is accepted from the second it is issued until the last second of its life
  with exactly the identities, role and times it was issued with, and is reported as expired
  afterwards.\<close>

theorem session_token_roundtrip:
  assumes "jwt_ok jw" "0 \<le> i" "0 < ls_session_token_ttl_seconds cfg"
    and "unix_seconds i + ls_session_token_ttl_seconds cfg \<le> 253402300799" "unix_seconds i \<le> now"
  shows "decode_session_token jw str_of cfg now (issue_session_token jw cfg p s role i jti) =
    (if now < unix_seconds i + ls_session_token_ttl_seconds cfg then Inr (issued_claims cfg p s role i jti)
     else Inl (SessionTokenExpired ''session token has expired''))"
  using assms by (rule decode_issue)

section \<open>A library to run it with\<close>

text \<open>A payload of strings and integers as self-delimiting text; a token is the secret followed by
  the payload.  It signs nothing, it only has the behaviour that \<open>jwt_ok\<close> asks for.\<close>

definition enc_str :: "string \<Rightarrow> string" where
  "enc_str s = replicate (length s) CHR ''1'' @ CHR ''0'' # s"

definition dec_str :: "string \<Rightarrow> string \<times> string" where
  "dec_str t = (let n = length (takeWhile (\<lambda>c. c = CHR ''1'') t); r = drop (Suc n) t in (take n r, drop n r))"

definition enc_val :: "jval \<Rightarrow> string" where
  "enc_val v = (case v of
      JStr s \<Rightarrow> CHR ''s'' # enc_str s
    | JInt i \<Rightarrow> (if i < 0 then CHR ''m'' else CHR ''p'') # enc_str (replicate (nat \<bar>i\<bar>) CHR ''x'')
    | _ \<Rightarrow> ''n'')"

definition dec_val :: "string \<Rightarrow> jval \<times> string" where
  "dec_val t = (let (s, r) = dec_str (tl t) in
     ((if hd t = CHR ''s'' then JStr s else JInt (if hd t = CHR ''m'' then - int (length s) else int (length s))), r))"

fun enc_payload :: "jdict \<Rightarrow> string" where
  "enc_payload [] = []"
| "enc_payload ((k, v) # p) = enc_str k @ enc_val v @ enc_payload p"

fun dec_payload :: "nat \<Rightarrow> string \<Rightarrow> jdict" where
  "dec_payload 0 t = []"
| "dec_payload (Suc n) t =
     (if t = [] then []
      else let (k, r) = dec_str t; (v, r') = dec_val r in (k, v) # dec_payload n r')"

lemma dec_enc_str [simp]: "dec_str (enc_str s @ t) = (s, t)"
proof -
  have "takeWhile (\<lambda>c. c = CHR ''1'') (replicate n CHR ''1'' @ CHR ''0'' # u) = replicate n CHR ''1''" for n u
    by (induction n) simp_all
  then show ?thesis by (simp add: dec_str_def enc_str_def Let_def)
qed

lemma dec_enc_val: "flat_payload [(k, v)] \<Longrightarrow> dec_val (enc_val v @ t) = (v, t)"
  by (cases v) (auto simp: flat_payload_def dec_val_def enc_val_def)

lemma dec_enc_payload: "flat_payload p \<Longrightarrow> length p \<le> n \<Longrightarrow> dec_payload n (enc_payload p) = p"
proof (induction p arbitrary: n)
  case Nil
  then show ?case by (cases n) simp_all
next
  case (Cons kv p)
  obtain k v where kv: "kv = (k, v)" by force
  obtain m where n: "n = Suc m" using Cons.prems(2) by (cases n) simp_all
  have "dec_val (enc_val v @ enc_payload p) = (v, enc_payload p)"
    using Cons.prems(1) by (intro dec_enc_val) (simp add: flat_payload_def kv)
  moreover have "dec_payload m (enc_payload p) = p"
    using Cons.prems n by (intro Cons.IH) (simp_all add: flat_payload_def)
  moreover have "enc_str k @ x \<noteq> []" for x by (simp add: enc_str_def)
  ultimately show ?case by (simp add: kv n)
qed

lemma length_enc_payload: "length p \<le> length (enc_payload p)"
  by (induction p rule: enc_payload.induct) (simp_all add: enc_str_def)

definition demo_check :: "jdict \<Rightarrow> string \<Rightarrow> string \<Rightarrow> string list \<Rightarrow> int \<Rightarrow> jwt_error + jdict" where
  "demo_check p aud iss req now =
     (if \<not> list_all (\<lambda>k. map_of p k \<noteq> None) req then Inl InvalidTokenError
      else case (map_of p ''iat'', map_of p ''exp'') of
        (Some (JInt iat), Some (JInt ends)) \<Rightarrow>
          if now < iat then Inl InvalidTokenError
          else if ends \<le> now then Inl ExpiredSignatureError
          else if map_of p ''aud'' \<noteq> Some (JStr aud) then Inl InvalidAudienceError
          else if map_of p ''iss'' \<noteq> Some (JStr iss) then Inl InvalidIssuerError
          else Inr p
      | _ \<Rightarrow> Inl InvalidTokenError)"

definition demo_payload :: "string \<Rightarrow> jdict" where
  "demo_payload token = (let r = snd (dec_str token) in dec_payload (length r) r)"

definition demo_jwt :: "string jwt_lib" where
  "demo_jwt = \<lparr> jw_encode = (\<lambda>p secret. enc_str secret @ enc_payload p),
     jw_decode = (\<lambda>token secret algs aud iss req now.
       if fst (dec_str token) \<noteq> secret then Inl InvalidTokenError
       else demo_check (demo_payload token) aud iss req now),
     jw_header = (\<lambda>token. Inr [(''kid'', JStr ''k1'')]),
     jw_unverified = (\<lambda>token. Inr (demo_payload token)),
     jw_verify = (\<lambda>token key algs aud iss req now.
       if fst (dec_str token) \<noteq> key then Inl InvalidTokenError
       else demo_check (demo_payload token) aud iss req now) \<rparr>"

lemma demo_payload_encoded: "flat_payload p \<Longrightarrow> demo_payload (enc_str secret @ enc_payload p) = p"
  by (simp add: demo_payload_def Let_def dec_enc_payload length_enc_payload)

lemma demo_jwt_ok: "jwt_ok demo_jwt"
  by (auto simp: jwt_ok_def demo_jwt_def demo_payload_encoded demo_check_def)

definition demo_lti_settings :: lti_settings where
  "demo_lti_settings = \<lparr> ls_tool_client_id = ''tool'', ls_launch_url = ''https://tool/launch'',
     ls_session_token_secret = ''0123456789abcdef0123456789abcdef'', ls_oidc_discovery_url = None,
     ls_oidc_jwks_url = None, ls_audience_override = None, ls_state_store_ttl_seconds = 600,
     ls_session_token_ttl_seconds = 14400, ls_session_token_issuer = ''proctoring-engine'',
     ls_session_token_audience = ''proctoring-client'', ls_deep_link_url = None,
     ls_exam_client_url = ''https://client/exam'', ls_admin_surface_url = ''https://client/admin'',
     ls_oidc_http_timeout_seconds = 5, ls_state_store_backend = ''memory'', ls_redis_url = None \<rparr>"

theorem session_token_roundtrip_witness:
  "decode_session_token demo_jwt (\<lambda>_. []) demo_lti_settings 1700014399
     (issue_session_token demo_jwt demo_lti_settings 2 1 APP_LEARNER 1700000000500000 7)
   = Inr (issued_claims demo_lti_settings 2 1 APP_LEARNER 1700000000500000 7)"
  using session_token_roundtrip[OF demo_jwt_ok, of 1700000000500000 demo_lti_settings 1700014399]
  by (simp add: unix_seconds_def demo_lti_settings_def)

end
