(* ===== verification/LtiService.thy ===== *)
theory LtiService
  imports TableUpdates LtiClaims SessionToken
begin

text \<open>
  The persistence side of a launch (\<^verbatim>\<open>lti/service.py\<close>).  Generated identifiers and the server's
  timestamp are a \<open>launch_ids\<close> record; the database session is threaded through the steps.
  \<^verbatim>\<open>scalar_one_or_none\<close> raises when there is more than one row.
\<close>

record launch_ids =
  li_participant :: uuid
  li_session :: uuid
  li_attempt :: uuid
  li_admin :: uuid
  li_jti :: uuid
  li_created_at :: timestamp

datatype lti_launch_error_code = POLICY_NOT_FOUND

fun lti_launch_error_code_value :: "lti_launch_error_code \<Rightarrow> string" where
  "lti_launch_error_code_value POLICY_NOT_FOUND = ''policy_not_found''"

datatype launch_failure =
    LtiLaunchError lti_launch_error_code
  | LaunchClaimsFailure claims_error
  | LaunchDbFailure db_error
  | MultipleResultsFound

record launch_result =
  lr_participant :: participant
  lr_exam_session :: exam_session
  lr_session_token :: string
  lr_role :: app_role
  lr_redirect_url :: string

definition scalar_one_or_none :: "'r list \<Rightarrow> launch_failure + 'r option" where
  "scalar_one_or_none rows = (case rows of
      [] \<Rightarrow> Inr None
    | [r] \<Rightarrow> Inr (Some r)
    | _ \<Rightarrow> Inl MultipleResultsFound)"

definition flushed :: "db_session \<Rightarrow> 'a \<Rightarrow> db_session \<times> (launch_failure + 'a)" where
  "flushed s r = (case flush s of Inl e \<Rightarrow> (s, Inl (LaunchDbFailure e)) | Inr _ \<Rightarrow> (s, Inr r))"

section \<open>Roles of administrators\<close>

fun admin_role_privilege :: "admin_role \<Rightarrow> int" where
  "admin_role_privilege AR_INSTRUCTOR = 1"
| "admin_role_privilege AR_PROCTOR = 2"
| "admin_role_privilege AR_ADMIN = 3"
| "admin_role_privilege AR_HEAD = 4"

definition admin_role_for :: "app_role \<Rightarrow> admin_role" where
  "admin_role_for role =
     (if role = APP_ADMIN then AR_ADMIN
      else if role = APP_PROCTOR then AR_PROCTOR
      else AR_INSTRUCTOR)"

section \<open>Steps\<close>

text \<open>\<open>renamed old new\<close>: the display name after a launch that provides \<open>new\<close>.\<close>

definition renamed :: "string option \<Rightarrow> string option \<Rightarrow> string option" where
  "renamed old new = (case new of None \<Rightarrow> old | Some nm \<Rightarrow> if nm \<noteq> [] \<and> new \<noteq> old then new else old)"

definition named_by_launch :: "lti_id_token \<Rightarrow> participant \<Rightarrow> participant" where
  "named_by_launch claims p = p\<lparr> pt_display_name := renamed (pt_display_name p) (it_name claims) \<rparr>"

definition promoted :: "lti_id_token \<Rightarrow> admin_role \<Rightarrow> admin_user \<Rightarrow> admin_user" where
  "promoted claims admin_role a =
     a\<lparr> au_role := if admin_role_privilege admin_role > admin_role_privilege (au_role a) then admin_role else au_role a,
        au_display_name := renamed (au_display_name a) (it_name claims) \<rparr>"

definition resolve_policy :: "string \<Rightarrow> database \<Rightarrow> launch_failure + policy_config" where
  "resolve_policy policy_name d =
     (case scalar_one_or_none
            (filter (\<lambda>p. pc_name p = policy_name \<and> pc_is_active p \<and> pc_retired_at p = None) (db_policy_configs d)) of
        Inl e \<Rightarrow> Inl e
      | Inr None \<Rightarrow> Inl (LtiLaunchError POLICY_NOT_FOUND)
      | Inr (Some p) \<Rightarrow> Inr p)"

definition upsert_participant ::
  "launch_ids \<Rightarrow> lti_id_token \<Rightarrow> db_session \<Rightarrow> db_session \<times> (launch_failure + participant)" where
  "upsert_participant ids claims s =
     (let d = working s in
      case scalar_one_or_none
             (filter (\<lambda>p. pt_lti_issuer p = it_issuer claims \<and> pt_lms_user_reference p = it_subject claims)
                (db_participants d)) of
        Inl e \<Rightarrow> (s, Inl e)
      | Inr None \<Rightarrow>
          (let p = \<lparr> pt_id = li_participant ids, pt_lti_issuer = it_issuer claims,
                     pt_lms_user_reference = it_subject claims, pt_display_name = it_name claims,
                     pt_consent_recorded_at = None, pt_consent_notice_version = None,
                     pt_created_at = li_created_at ids \<rparr> in
           flushed (s\<lparr> working := d\<lparr> db_participants := db_participants d @ [p] \<rparr> \<rparr>) p)
      | Inr (Some p) \<Rightarrow>
          (s\<lparr> working := d\<lparr> db_participants :=
               update_row pt_id (pt_id p) (named_by_launch claims) (db_participants d) \<rparr> \<rparr>,
           Inr (named_by_launch claims p)))"

definition launched_session ::
  "launch_ids \<Rightarrow> lti_id_token \<Rightarrow> timestamp \<Rightarrow> uuid \<Rightarrow> uuid \<Rightarrow> exam_session" where
  "launched_session ids claims consent_at participant_id policy_id =
     \<lparr> es_id = li_session ids, es_participant_id = participant_id, es_policy_config_id = policy_id,
       es_lti_issuer = it_issuer claims, es_lti_context_id = combined_context_id claims,
       es_exam_reference = rl_id (it_resource_link claims), es_attempt_reference = uuid_str (li_attempt ids),
       es_status = SS_PENDING, es_allowed_reference_materials = CLOSED_BOOK,
       es_permitted_material_details = [], es_consent_recorded_at = Some consent_at,
       es_retention_expires_at = None, es_accumulated_medium_score = 0,
       es_identity_verification_status = IV_PENDING_CHECK, es_started_at = Some consent_at,
       es_ended_at = None, es_created_at = li_created_at ids \<rparr>"

definition create_session :: "exam_session \<Rightarrow> db_session \<Rightarrow> db_session \<times> (launch_failure + exam_session)" where
  "create_session es s =
     flushed (s\<lparr> working := (working s)\<lparr> db_exam_sessions := db_exam_sessions (working s) @ [es] \<rparr> \<rparr>) es"

definition upsert_admin ::
  "launch_ids \<Rightarrow> lti_id_token \<Rightarrow> app_role \<Rightarrow> db_session \<Rightarrow> db_session \<times> (launch_failure + unit)" where
  "upsert_admin ids claims role s =
     (let d = working s; admin_role = admin_role_for role in
      case scalar_one_or_none
             (filter (\<lambda>a. au_lti_issuer a = it_issuer claims \<and> au_lms_user_reference a = it_subject claims)
                (db_admin_users d)) of
        Inl e \<Rightarrow> (s, Inl e)
      | Inr None \<Rightarrow>
          (let a = \<lparr> au_id = li_admin ids, au_lti_issuer = it_issuer claims,
                     au_lms_user_reference = it_subject claims, au_display_name = it_name claims,
                     au_role = admin_role, au_department = None, au_created_at = li_created_at ids,
                     au_retired_at = None \<rparr> in
           (s\<lparr> working := d\<lparr> db_admin_users := db_admin_users d @ [a] \<rparr> \<rparr>, Inr ()))
      | Inr (Some a) \<Rightarrow>
          (s\<lparr> working := d\<lparr> db_admin_users :=
               update_row au_id (au_id a) (promoted claims admin_role) (db_admin_users d) \<rparr> \<rparr>, Inr ()))"

definition redirect_url :: "lti_settings \<Rightarrow> app_role \<Rightarrow> string \<Rightarrow> uuid \<Rightarrow> string" where
  "redirect_url cfg role token session_id =
     (if role = APP_LEARNER then ls_exam_client_url cfg else ls_admin_surface_url cfg)
       @ ''#session_token='' @ token @ ''&session_id='' @ uuid_str session_id"

definition process_launch ::
  "'k jwt_lib \<Rightarrow> lti_settings \<Rightarrow> timestamp \<Rightarrow> launch_ids \<Rightarrow> lti_id_token \<Rightarrow> app_role \<Rightarrow> db_session
   \<Rightarrow> db_session \<times> (launch_failure + launch_result)" where
  "process_launch jw cfg consent_at ids claims role s =
     (case require_policy_config_name claims of
        Inl e \<Rightarrow> (s, Inl (LaunchClaimsFailure e))
      | Inr policy_name \<Rightarrow>
     (case resolve_policy policy_name (working s) of
        Inl e \<Rightarrow> (s, Inl e)
      | Inr policy \<Rightarrow>
     (case upsert_participant ids claims s of
        (s1, Inl e) \<Rightarrow> (s1, Inl e)
      | (s1, Inr participant) \<Rightarrow>
     (case create_session (launched_session ids claims consent_at (pt_id participant) (pc_id policy)) s1 of
        (s2, Inl e) \<Rightarrow> (s2, Inl e)
      | (s2, Inr exam_session) \<Rightarrow>
     (case (if is_admin_route role then upsert_admin ids claims role s2 else (s2, Inr ())) of
        (s3, Inl e) \<Rightarrow> (s3, Inl e)
      | (s3, Inr _) \<Rightarrow>
          (let token = issue_session_token jw cfg (pt_id participant) (es_id exam_session) role consent_at (li_jti ids) in
           (s3, Inr \<lparr> lr_participant = participant, lr_exam_session = exam_session, lr_session_token = token,
                      lr_role = role, lr_redirect_url = redirect_url cfg role token (es_id exam_session) \<rparr>)))))))"

section \<open>What the steps do to the database\<close>

lemma flushed_Inr: "flushed s r = (s', Inr x) \<longleftrightarrow> s' = s \<and> x = r \<and> db_ok (working s)"
  by (auto simp: flushed_def flush_def split: sum.splits if_splits)

lemma flushed_committed: "committed (fst (flushed s r)) = committed s"
  by (simp add: flushed_def flush_def)

lemma scalar_one_or_none_Some: "scalar_one_or_none rows = Inr (Some r) \<longleftrightarrow> rows = [r]"
  by (cases rows; cases "tl rows") (auto simp: scalar_one_or_none_def)

lemma scalar_one_or_none_None: "scalar_one_or_none rows = Inr None \<longleftrightarrow> rows = []"
  by (cases rows; cases "tl rows") (auto simp: scalar_one_or_none_def)

lemma scalar_Some:
  assumes "scalar_one_or_none (filter P xs) = Inr (Some r)"
  shows "r \<in> set xs \<and> P r"
proof -
  have "r \<in> set (filter P xs)" using assms by (simp add: scalar_one_or_none_Some)
  then show ?thesis by simp
qed

lemma scalar_None: "scalar_one_or_none (filter P xs) = Inr None \<Longrightarrow> x \<in> set xs \<Longrightarrow> \<not> P x"
  by (auto simp: scalar_one_or_none_None filter_empty_conv)

lemma scalar_unique:
  assumes "distinct (map f xs)" "\<And>x y. P x \<Longrightarrow> P y \<Longrightarrow> f x = f y"
  shows "scalar_one_or_none (filter P xs) \<noteq> Inl e"
proof -
  have d: "distinct (map f (filter P xs))" using assms(1) by (rule distinct_map_filter)
  show ?thesis
  proof (cases "filter P xs")
    case (Cons x ys)
    have "P x" using Cons by (metis filter_eq_ConsD)
    have "ys = []"
    proof (cases ys)
      case (Cons y zs)
      then have "y \<in> set (filter P xs)" using \<open>filter P xs = x # ys\<close> by simp
      then have "P y" by simp
      with \<open>P x\<close> assms(2) have "f x = f y" by blast
      with d \<open>filter P xs = x # ys\<close> Cons show ?thesis by simp
    qed
    with Cons show ?thesis by (simp add: scalar_one_or_none_def)
  qed (simp add: scalar_one_or_none_def)
qed

text \<open>\<open>same_but_launch d d'\<close>: only participants, sessions and administrators differ.\<close>

definition same_but_launch :: "database \<Rightarrow> database \<Rightarrow> bool" where
  "same_but_launch d d' \<longleftrightarrow>
     d'\<lparr> db_participants := db_participants d, db_exam_sessions := db_exam_sessions d,
         db_admin_users := db_admin_users d \<rparr> = d"

lemma upsert_participant_Inr:
  assumes "upsert_participant ids claims s = (s', Inr p)" "db_ok (working s)"
  shows "db_ok (working s') \<and> committed s' = committed s \<and> p \<in> set (db_participants (working s')) \<and>
    participant_key p = (it_issuer claims, it_subject claims) \<and>
    working s' = (working s)\<lparr> db_participants := db_participants (working s') \<rparr> \<and>
    pt_id ` set (db_participants (working s)) \<subseteq> pt_id ` set (db_participants (working s'))"
proof (cases "scalar_one_or_none (filter (\<lambda>p. pt_lti_issuer p = it_issuer claims \<and>
    pt_lms_user_reference p = it_subject claims) (db_participants (working s)))")
  case (Inr po)
  show ?thesis
  proof (cases po)
    case None
    with assms(1) Inr show ?thesis
      by (auto simp: upsert_participant_def Let_def flushed_Inr participant_key_def)
  next
    case (Some q)
    note f_def = named_by_launch_def
    have s': "s' = s\<lparr> working := (working s)\<lparr> db_participants :=
        update_row pt_id (pt_id q) (named_by_launch claims) (db_participants (working s)) \<rparr> \<rparr>"
        "p = named_by_launch claims q"
      using assms(1) Inr Some by (auto simp: upsert_participant_def Let_def)
    have q: "q \<in> set (db_participants (working s))" "participant_key q = (it_issuer claims, it_subject claims)"
      using scalar_Some[OF Inr[unfolded Some]] by (auto simp: participant_key_def)
    have "db_ok (working s')" using assms(2) unfolding s'
      by (simp add: db_ok_update_participant f_def participant_key_def)
    moreover have "p \<in> set (db_participants (working s'))" using q by (auto simp: s' update_row_def)
    moreover have "pt_id ` set (db_participants (working s')) = pt_id ` set (db_participants (working s))"
      using map_update_row[of pt_id "named_by_launch claims" pt_id "pt_id q" "db_participants (working s)"]
      unfolding s' by (simp add: f_def flip: set_map)
    ultimately show ?thesis using q by (simp add: s' f_def participant_key_def)
  qed
qed (use assms(1) in \<open>auto simp: upsert_participant_def Let_def\<close>)

lemma create_session_Inr:
  "create_session es s = (s', Inr x) \<Longrightarrow>
     x = es \<and> db_ok (working s') \<and> committed s' = committed s \<and>
     working s' = (working s)\<lparr> db_exam_sessions := db_exam_sessions (working s) @ [es] \<rparr>"
  by (auto simp: create_session_def flushed_Inr)

text \<open>An administrator's row is kept with at least the privilege it had.\<close>

definition not_demoted :: "admin_user list \<Rightarrow> admin_user list \<Rightarrow> bool" where
  "not_demoted as bs \<longleftrightarrow> list_all (\<lambda>a. list_ex (\<lambda>b. au_id b = au_id a \<and> admin_key b = admin_key a \<and>
     au_department b = au_department a \<and> au_retired_at b = au_retired_at a \<and>
     admin_role_privilege (au_role b) \<ge> admin_role_privilege (au_role a)) bs) as"

lemma not_demoted_refl: "not_demoted as as"
  by (auto simp: not_demoted_def list_all_iff list_ex_iff)

lemma update_row_member: "x \<in> set rows \<Longrightarrow> (if key x = k then f x else x) \<in> set (update_row key k f rows)"
  by (auto simp: update_row_def)

lemma not_demoted_update:
  assumes "\<And>x. au_id (f x) = au_id x" "\<And>x. admin_key (f x) = admin_key x" "\<And>x. au_department (f x) = au_department x"
    "\<And>x. au_retired_at (f x) = au_retired_at x" "\<And>x. admin_role_privilege (au_role (f x)) \<ge> admin_role_privilege (au_role x)"
  shows "not_demoted rows (update_row au_id k f rows)"
  unfolding not_demoted_def list_all_iff list_ex_iff
proof
  fix x assume "x \<in> set rows"
  from update_row_member[OF this, of au_id k f] assms
  show "\<exists>b\<in>set (update_row au_id k f rows). au_id b = au_id x \<and> admin_key b = admin_key x \<and>
      au_department b = au_department x \<and> au_retired_at b = au_retired_at x \<and>
      admin_role_privilege (au_role b) \<ge> admin_role_privilege (au_role x)"
    by (intro bexI[of _ "if au_id x = k then f x else x"]) auto
qed

lemma upsert_admin_Inr:
  assumes "upsert_admin ids claims role s = (s', Inr u)"
  shows "committed s' = committed s \<and>
    working s' = (working s)\<lparr> db_admin_users := db_admin_users (working s') \<rparr> \<and>
    not_demoted (db_admin_users (working s)) (db_admin_users (working s')) \<and>
    list_ex (\<lambda>a. admin_key a = (it_issuer claims, it_subject claims) \<and>
      admin_role_privilege (au_role a) \<ge> admin_role_privilege (admin_role_for role)) (db_admin_users (working s'))"
proof (cases "scalar_one_or_none (filter (\<lambda>a. au_lti_issuer a = it_issuer claims \<and>
    au_lms_user_reference a = it_subject claims) (db_admin_users (working s)))")
  case (Inr ao)
  show ?thesis
  proof (cases ao)
    case None
    with assms Inr show ?thesis
      by (auto simp: upsert_admin_def Let_def admin_key_def not_demoted_def list_all_iff list_ex_iff)
  next
    case (Some a)
    let ?f = "promoted claims (admin_role_for role)"
    have s': "s' = s\<lparr> working := (working s)\<lparr> db_admin_users :=
        update_row au_id (au_id a) ?f (db_admin_users (working s)) \<rparr> \<rparr>"
      using assms Inr Some by (auto simp: upsert_admin_def Let_def)
    have a: "a \<in> set (db_admin_users (working s))" "admin_key a = (it_issuer claims, it_subject claims)"
      using scalar_Some[OF Inr[unfolded Some]] by (auto simp: admin_key_def)
    have f: "au_id (?f x) = au_id x" "admin_key (?f x) = admin_key x" "au_department (?f x) = au_department x"
      "au_retired_at (?f x) = au_retired_at x" "admin_role_privilege (au_role (?f x)) \<ge> admin_role_privilege (au_role x)"
      "admin_role_privilege (au_role (?f x)) \<ge> admin_role_privilege (admin_role_for role)" for x
      by (simp_all add: promoted_def admin_key_def)
    have "not_demoted (db_admin_users (working s)) (update_row au_id (au_id a) ?f (db_admin_users (working s)))"
      by (intro not_demoted_update) (simp_all add: f)
    moreover have "?f a \<in> set (update_row au_id (au_id a) ?f (db_admin_users (working s)))"
      using a by (auto simp: update_row_def)
    ultimately show ?thesis using a f by (auto simp: s' list_ex_iff intro!: bexI[of _ "?f a"])
  qed
qed (use assms in \<open>auto simp: upsert_admin_def Let_def\<close>)

end
