(* ===== verification/AdminService.thy ===== *)
theory AdminService
  imports LtiService StateMachine
begin

text \<open>
  The administrative services (\<^verbatim>\<open>orchestration/_admin_service.py\<close>) with their request models
  (\<^verbatim>\<open>orchestration/_schemas.py\<close>).  Each service is a function over a database session; the
  identifier and the server timestamp of a row it inserts are its arguments.  \<open>order_by\<close> is the
  ordering of a query, a stable sort by a comparison; the collation of strings is a parameter.
\<close>

section \<open>Requests and errors\<close>

datatype admin_service_error =
    PolicyVersioningError string
  | ExemptionValidationError string
  | FlagNotFoundError string
  | ReviewTransitionError transition_error
  | OverrideNotFoundError
  | AdminUserNotFoundError
  | SelfApprovalOrRoleError string
  | AdminDbError db_error
  | AdminMultipleRows

record create_policy_request =
  cp_name :: string
  cp_termination_severity :: flag_severity
  cp_terminate_on_second_face :: bool
  cp_second_face_confirmation_frames :: int
  cp_gaze_min_duration_ms :: int
  cp_gaze_window_seconds :: int
  cp_gaze_warning_limit :: int
  cp_gaze_termination_limit :: int
  cp_medium_score_termination_threshold :: rat
  cp_medium_score_action :: medium_score_action
  cp_liveness_check_enabled :: bool
  cp_liveness_check_action :: "liveness_action option"
  cp_liveness_score_threshold :: rat
  cp_liveness_confirmation_frames :: int
  cp_identity_similarity_threshold :: rat
  cp_identity_confirmation_frames :: int
  cp_audio_noise_floor_dbfs :: rat
  cp_audio_speech_ratio_threshold :: rat
  cp_extra_rules :: jdict
  cp_is_active :: bool
  cp_retire_previous :: bool

definition between :: "'a::linorder \<Rightarrow> 'a \<Rightarrow> 'a \<Rightarrow> bool" where
  "between lo hi x \<longleftrightarrow> lo \<le> x \<and> x \<le> hi"

definition check_policy_request :: "create_policy_request \<Rightarrow> bool" where
  "check_policy_request r \<longleftrightarrow>
     between 1 128 (length (cp_name r)) \<and>
     between 1 100 (cp_second_face_confirmation_frames r) \<and>
     between 0 86400000 (cp_gaze_min_duration_ms r) \<and>
     between 1 86400 (cp_gaze_window_seconds r) \<and>
     between 0 1000 (cp_gaze_warning_limit r) \<and>
     between 1 1000 (cp_gaze_termination_limit r) \<and>
     0 \<le> cp_medium_score_termination_threshold r \<and>
     between 0 1 (cp_liveness_score_threshold r) \<and>
     between 1 100 (cp_liveness_confirmation_frames r) \<and>
     between 0 1 (cp_identity_similarity_threshold r) \<and>
     between 1 100 (cp_identity_confirmation_frames r) \<and>
     between 0 1 (cp_audio_speech_ratio_threshold r)"

record create_exemption_request =
  ce_participant_id :: uuid
  ce_exam_reference :: string
  ce_object_class :: string
  ce_approval_reason :: string
  ce_effective_at :: timestamp
  ce_expires_at :: "timestamp option"

definition check_exemption_request :: "create_exemption_request \<Rightarrow> bool" where
  "check_exemption_request r \<longleftrightarrow> between 1 512 (length (ce_exam_reference r)) \<and>
     between 1 128 (length (ce_object_class r)) \<and> 1 \<le> length (ce_approval_reason r)"

record create_override_request =
  co_exam_session_id :: uuid
  co_department :: string
  co_reason :: string
  co_valid_from :: timestamp
  co_valid_until :: timestamp

definition check_override_request :: "create_override_request \<Rightarrow> bool" where
  "check_override_request r \<longleftrightarrow> between 1 512 (length (co_department r)) \<and> between 1 5000 (length (co_reason r))"

section \<open>Common steps\<close>

text \<open>\<^verbatim>\<open>try: db.commit() except IntegrityError: db.rollback(); raise ...\<close>, and a bare commit.\<close>

definition commit_or :: "admin_service_error \<Rightarrow> 'a \<Rightarrow> db_session \<Rightarrow> db_session \<times> (admin_service_error + 'a)" where
  "commit_or err r s = (case commit s of Inl _ \<Rightarrow> (rollback s, Inl err) | Inr s1 \<Rightarrow> (s1, Inr r))"

definition commit_bare :: "'a \<Rightarrow> db_session \<Rightarrow> db_session \<times> (admin_service_error + 'a)" where
  "commit_bare r s = (case commit s of Inl e \<Rightarrow> (s, Inl (AdminDbError e)) | Inr s1 \<Rightarrow> (s1, Inr r))"

definition insort_by :: "('r \<Rightarrow> 'r \<Rightarrow> bool) \<Rightarrow> 'r \<Rightarrow> 'r list \<Rightarrow> 'r list" where
  "insort_by le x ys = takeWhile (\<lambda>y. \<not> le x y) ys @ x # dropWhile (\<lambda>y. \<not> le x y) ys"

definition order_by :: "('r \<Rightarrow> 'r \<Rightarrow> bool) \<Rightarrow> 'r list \<Rightarrow> 'r list" where
  "order_by le rows = foldr (insort_by le) rows []"

section \<open>Policies\<close>

definition validate_policy_request :: "create_policy_request \<Rightarrow> admin_service_error + unit" where
  "validate_policy_request r =
     (if cp_gaze_warning_limit r > cp_gaze_termination_limit r
      then Inl (PolicyVersioningError ''gaze_warning_limit must be <= gaze_termination_limit'')
      else if cp_gaze_min_duration_ms r > cp_gaze_window_seconds r * 1000
      then Inl (PolicyVersioningError ''gaze_min_duration_ms must be <= gaze_window_seconds * 1000'')
      else if cp_medium_score_termination_threshold r < 0
      then Inl (PolicyVersioningError ''medium_score_termination_threshold must be >= 0'')
      else if cp_liveness_check_enabled r \<and> cp_liveness_check_action r = None
      then Inl (PolicyVersioningError ''liveness_check_action must be set when liveness_check_enabled is true'')
      else if \<not> between 0 1 (cp_liveness_score_threshold r)
      then Inl (PolicyVersioningError ''liveness_score_threshold must be in [0, 1]'')
      else if \<not> between 0 1 (cp_identity_similarity_threshold r)
      then Inl (PolicyVersioningError ''identity_similarity_threshold must be in [0, 1]'')
      else if \<not> between 0 1 (cp_audio_speech_ratio_threshold r)
      then Inl (PolicyVersioningError ''audio_speech_ratio_threshold must be in [0, 1]'')
      else Inr ())"

definition resolve_previous_active :: "string \<Rightarrow> database \<Rightarrow> admin_service_error + policy_config option" where
  "resolve_previous_active name d =
     (case scalar_one_or_none
            (filter (\<lambda>p. pc_name p = name \<and> pc_is_active p \<and> pc_retired_at p = None) (db_policy_configs d)) of
        Inl _ \<Rightarrow> Inl AdminMultipleRows
      | Inr po \<Rightarrow> Inr po)"

definition resolve_max_version :: "string \<Rightarrow> database \<Rightarrow> int" where
  "resolve_max_version name d =
     (let rows = order_by (\<lambda>a b. b \<le> a) (map pc_version (filter (\<lambda>p. pc_name p = name) (db_policy_configs d))) in
      if rows = [] then 0 else hd rows)"

definition new_policy_row ::
  "create_policy_request \<Rightarrow> int \<Rightarrow> uuid \<Rightarrow> uuid \<Rightarrow> timestamp \<Rightarrow> policy_config" where
  "new_policy_row r version created_by new_id created_at =
     \<lparr> pc_id = new_id, pc_name = cp_name r, pc_version = version, pc_is_active = cp_is_active r,
       pc_termination_severity = cp_termination_severity r,
       pc_terminate_on_second_face = cp_terminate_on_second_face r,
       pc_second_face_confirmation_frames = cp_second_face_confirmation_frames r,
       pc_gaze_min_duration_ms = cp_gaze_min_duration_ms r, pc_gaze_window_seconds = cp_gaze_window_seconds r,
       pc_gaze_warning_limit = cp_gaze_warning_limit r, pc_gaze_termination_limit = cp_gaze_termination_limit r,
       pc_medium_score_termination_threshold = cp_medium_score_termination_threshold r,
       pc_medium_score_action = cp_medium_score_action r,
       pc_liveness_check_enabled = cp_liveness_check_enabled r,
       pc_liveness_check_action = cp_liveness_check_action r,
       pc_liveness_score_threshold = cp_liveness_score_threshold r,
       pc_liveness_confirmation_frames = cp_liveness_confirmation_frames r,
       pc_identity_similarity_threshold = cp_identity_similarity_threshold r,
       pc_identity_confirmation_frames = cp_identity_confirmation_frames r,
       pc_audio_noise_floor_dbfs = cp_audio_noise_floor_dbfs r,
       pc_audio_speech_ratio_threshold = cp_audio_speech_ratio_threshold r,
       pc_extra_rules = cp_extra_rules r, pc_created_at = created_at, pc_retired_at = None,
       pc_created_by_id = Some created_by \<rparr>"

record policy_version_result =
  pvr_new_policy :: policy_config
  pvr_superseded_previous_id :: "uuid option"

definition retire_row :: "timestamp \<Rightarrow> uuid \<Rightarrow> database \<Rightarrow> database" where
  "retire_row now k d =
     d\<lparr> db_policy_configs := update_row pc_id k (\<lambda>p. p\<lparr> pc_retired_at := Some now \<rparr>) (db_policy_configs d) \<rparr>"

definition create_policy_version ::
  "create_policy_request \<Rightarrow> admin_user \<Rightarrow> timestamp \<Rightarrow> uuid \<Rightarrow> timestamp \<Rightarrow> db_session
   \<Rightarrow> db_session \<times> (admin_service_error + policy_version_result)" where
  "create_policy_version r created_by now new_id created_at s =
     (case validate_policy_request r of
        Inl e \<Rightarrow> (s, Inl e)
      | Inr _ \<Rightarrow>
     (case resolve_previous_active (cp_name r) (working s) of
        Inl e \<Rightarrow> (s, Inl e)
      | Inr previous \<Rightarrow>
          if previous \<noteq> None \<and> \<not> cp_retire_previous r
          then (s, Inl (PolicyVersioningError ''a policy of this name is already active; pass retire_previous=true to supersede it''))
          else
            (let superseded_id = map_option pc_id previous;
                 d1 = (case superseded_id of None \<Rightarrow> working s | Some k \<Rightarrow> retire_row now k (working s));
                 next_version = resolve_max_version (cp_name r) d1 + 1;
                 new_row = new_policy_row r next_version (au_id created_by) new_id created_at in
             commit_or (PolicyVersioningError ''PolicyConfig insert violated a constraint'')
               \<lparr> pvr_new_policy = new_row, pvr_superseded_previous_id = superseded_id \<rparr>
               (s\<lparr> working := d1\<lparr> db_policy_configs := db_policy_configs d1 @ [new_row] \<rparr> \<rparr>))))"

definition list_policy_configs ::
  "(string \<Rightarrow> string \<Rightarrow> bool) \<Rightarrow> bool option \<Rightarrow> database \<Rightarrow> policy_config list" where
  "list_policy_configs name_le is_active d =
     order_by (\<lambda>a b. name_le (pc_name a) (pc_name b) \<and>
                     (name_le (pc_name b) (pc_name a) \<longrightarrow> pc_version b \<le> pc_version a))
       (filter (\<lambda>p. case is_active of None \<Rightarrow> True | Some v \<Rightarrow> pc_is_active p = v) (db_policy_configs d))"

section \<open>Exemptions\<close>

definition validate_exemption_request :: "create_exemption_request \<Rightarrow> admin_service_error + unit" where
  "validate_exemption_request r =
     (case ce_expires_at r of
        None \<Rightarrow> Inr ()
      | Some x \<Rightarrow> if x \<le> ce_effective_at r
                  then Inl (ExemptionValidationError ''expires_at must be strictly after effective_at'')
                  else Inr ())"

definition create_exemption ::
  "create_exemption_request \<Rightarrow> admin_user \<Rightarrow> uuid \<Rightarrow> timestamp \<Rightarrow> db_session
   \<Rightarrow> db_session \<times> (admin_service_error + accommodation_exemption)" where
  "create_exemption r approver new_id created_at s =
     (case validate_exemption_request r of
        Inl e \<Rightarrow> (s, Inl e)
      | Inr _ \<Rightarrow>
          (let x = \<lparr> ae_id = new_id, ae_participant_id = ce_participant_id r,
                     ae_exam_reference = ce_exam_reference r, ae_object_class = ce_object_class r,
                     ae_approved_by = au_lms_user_reference approver, ae_approved_by_admin_id = Some (au_id approver),
                     ae_approval_reason = ce_approval_reason r, ae_effective_at = ce_effective_at r,
                     ae_expires_at = ce_expires_at r, ae_created_at = created_at \<rparr> in
           commit_or (ExemptionValidationError ''AccommodationExemption insert violated a constraint'') x
             (s\<lparr> working := (working s)\<lparr> db_accommodation_exemptions := db_accommodation_exemptions (working s) @ [x] \<rparr> \<rparr>)))"

definition list_exemptions ::
  "uuid option \<Rightarrow> string option \<Rightarrow> database \<Rightarrow> accommodation_exemption list" where
  "list_exemptions participant_id object_class d =
     order_by (\<lambda>a b. ae_created_at b \<le> ae_created_at a)
       (filter (\<lambda>x. (case participant_id of None \<Rightarrow> True | Some p \<Rightarrow> ae_participant_id x = p) \<and>
                    (case object_class of None \<Rightarrow> True | Some c \<Rightarrow> ae_object_class x = c))
          (db_accommodation_exemptions d))"

section \<open>Flags and reviews\<close>

definition list_flags_for_session :: "uuid \<Rightarrow> bool \<Rightarrow> database \<Rightarrow> flag list \<times> int" where
  "list_flags_for_session sid include_suppressed d =
     (let rows = order_by (\<lambda>a b. fl_created_at a \<le> fl_created_at b)
                   (filter (\<lambda>f. fl_exam_session_id f = sid) (db_flags d));
          omit = (\<lambda>f. fl_suppressed_by_exemption_id f \<noteq> None \<and> \<not> include_suppressed) in
      (filter (\<lambda>f. \<not> omit f) rows, int (length (filter omit rows))))"

definition assert_session_exists :: "uuid \<Rightarrow> database \<Rightarrow> admin_service_error + exam_session" where
  "assert_session_exists sid d =
     (case get_row es_id sid (db_exam_sessions d) of
        None \<Rightarrow> Inl (FlagNotFoundError ''session does not exist'')
      | Some s \<Rightarrow> Inr s)"

record review_result =
  rr_review :: proctor_review
  rr_session_status :: session_status

text \<open>The move that a decision asks for.\<close>

definition review_target :: "review_decision \<Rightarrow> session_status \<Rightarrow> session_status option" where
  "review_target decision st =
     (if review_decision_value decision = ''upheld'' \<and> List.member [SS_ACTIVE, SS_TERMINATED, SS_COMPLETED] st
      then Some SS_UNDER_REVIEW
      else if review_decision_value decision = ''overturned'' \<and> st = SS_TERMINATED
      then Some SS_REINSTATED
      else None)"

definition record_proctor_review ::
  "uuid \<Rightarrow> review_decision \<Rightarrow> string option \<Rightarrow> admin_user \<Rightarrow> uuid \<Rightarrow> timestamp \<Rightarrow> db_session
   \<Rightarrow> db_session \<times> (admin_service_error + review_result)" where
  "record_proctor_review flag_id decision notes reviewer new_id created_at s =
     (case get_row fl_id flag_id (db_flags (working s)) of
        None \<Rightarrow> (s, Inl (FlagNotFoundError ''flag does not exist''))
      | Some flag \<Rightarrow>
          (let review = \<lparr> pr_id = new_id, pr_flag_id = flag_id, pr_reviewer_reference = au_lms_user_reference reviewer,
                          pr_reviewer_admin_id = Some (au_id reviewer), pr_decision = decision, pr_notes = notes,
                          pr_created_at = created_at \<rparr>;
               s1 = s\<lparr> working := (working s)\<lparr> db_proctor_reviews := db_proctor_reviews (working s) @ [review] \<rparr> \<rparr> in
           case flush s1 of
             Inl e \<Rightarrow> (s1, Inl (AdminDbError e))
           | Inr _ \<Rightarrow>
          (case get_row es_id (fl_exam_session_id flag) (db_exam_sessions (working s1)) of
             None \<Rightarrow> (s1, Inl (FlagNotFoundError ''session does not exist''))
           | Some session \<Rightarrow>
          (case review_target decision (es_status session) of
             None \<Rightarrow> commit_bare \<lparr> rr_review = review, rr_session_status = es_status session \<rparr> s1
           | Some target \<Rightarrow>
          (case assert_transition (es_status session) target of
             Inl e \<Rightarrow> (s1, Inl (ReviewTransitionError e))
           | Inr _ \<Rightarrow>
               commit_bare \<lparr> rr_review = review, rr_session_status = target \<rparr>
                 (s1\<lparr> working := set_status (es_id session) target (working s1) \<rparr>))))))"

section \<open>Identity overrides\<close>

definition create_identity_override_request ::
  "create_override_request \<Rightarrow> admin_user \<Rightarrow> uuid \<Rightarrow> timestamp \<Rightarrow> db_session
   \<Rightarrow> db_session \<times> (admin_service_error + identity_override)" where
  "create_identity_override_request r admin new_id created_at s =
     (case assert_session_exists (co_exam_session_id r) (working s) of
        Inl e \<Rightarrow> (s, Inl e)
      | Inr _ \<Rightarrow>
          if co_valid_until r \<le> co_valid_from r
          then (s, Inl (ExemptionValidationError ''valid_until must be after valid_from''))
          else
            (let x = \<lparr> io_id = new_id, io_exam_session_id = co_exam_session_id r,
                       io_requested_by_admin_id = au_id admin, io_department = co_department r,
                       io_reason = co_reason r, io_status = OR_PENDING, io_approved_by_admin_id = None,
                       io_valid_from = co_valid_from r, io_valid_until = co_valid_until r,
                       io_decided_at = None, io_created_at = created_at \<rparr> in
             commit_bare x
               (s\<lparr> working := (working s)\<lparr> db_identity_overrides := db_identity_overrides (working s) @ [x] \<rparr> \<rparr>)))"

definition list_identity_override_requests ::
  "uuid option \<Rightarrow> string option \<Rightarrow> override_request_status option \<Rightarrow> database \<Rightarrow> identity_override list" where
  "list_identity_override_requests sid department st d =
     order_by (\<lambda>a b. io_created_at b \<le> io_created_at a)
       (filter (\<lambda>x. (case sid of None \<Rightarrow> True | Some k \<Rightarrow> io_exam_session_id x = k) \<and>
                    (case department of None \<Rightarrow> True | Some dep \<Rightarrow> io_department x = dep) \<and>
                    (case st of None \<Rightarrow> True | Some v \<Rightarrow> io_status x = v))
          (db_identity_overrides d))"

text \<open>The assignments of a decision on an override.\<close>

definition decided :: "override_request_status \<Rightarrow> uuid \<Rightarrow> timestamp \<Rightarrow> identity_override \<Rightarrow> identity_override" where
  "decided st admin_id now x =
     x\<lparr> io_status := st, io_approved_by_admin_id := Some admin_id, io_decided_at := Some now \<rparr>"

definition decide_override ::
  "override_request_status \<Rightarrow> uuid \<Rightarrow> timestamp \<Rightarrow> identity_override \<Rightarrow> db_session
   \<Rightarrow> db_session \<times> (admin_service_error + identity_override)" where
  "decide_override st admin_id now x s =
     commit_bare (decided st admin_id now x)
       (s\<lparr> working := (working s)\<lparr> db_identity_overrides :=
            update_row io_id (io_id x) (decided st admin_id now) (db_identity_overrides (working s)) \<rparr> \<rparr>)"

definition approve_identity_override_request ::
  "uuid \<Rightarrow> admin_user \<Rightarrow> timestamp \<Rightarrow> db_session \<Rightarrow> db_session \<times> (admin_service_error + identity_override)" where
  "approve_identity_override_request override_id admin now s =
     (case scalar_one_or_none (filter (\<lambda>x. io_id x = override_id) (db_identity_overrides (working s))) of
        Inl _ \<Rightarrow> (s, Inl AdminMultipleRows)
      | Inr None \<Rightarrow> (s, Inl OverrideNotFoundError)
      | Inr (Some x) \<Rightarrow>
          if au_role admin \<noteq> AR_HEAD
          then (s, Inl (SelfApprovalOrRoleError ''HEAD role required to approve identity override requests.''))
          else if au_id admin = io_requested_by_admin_id x
          then (s, Inl (SelfApprovalOrRoleError ''Admin cannot approve their own override request.''))
          else decide_override OR_APPROVED (au_id admin) now x s)"

definition reject_identity_override_request ::
  "uuid \<Rightarrow> admin_user \<Rightarrow> timestamp \<Rightarrow> db_session \<Rightarrow> db_session \<times> (admin_service_error + identity_override)" where
  "reject_identity_override_request override_id admin now s =
     (case scalar_one_or_none (filter (\<lambda>x. io_id x = override_id) (db_identity_overrides (working s))) of
        Inl _ \<Rightarrow> (s, Inl AdminMultipleRows)
      | Inr None \<Rightarrow> (s, Inl OverrideNotFoundError)
      | Inr (Some x) \<Rightarrow> decide_override OR_REJECTED (au_id admin) now x s)"

section \<open>Roles\<close>

definition update_admin_user_role ::
  "uuid \<Rightarrow> admin_role \<Rightarrow> admin_user \<Rightarrow> string option \<Rightarrow> uuid \<Rightarrow> timestamp \<Rightarrow> db_session
   \<Rightarrow> db_session \<times> (admin_service_error + admin_user)" where
  "update_admin_user_role target_admin_id new_role caller reason new_id created_at s =
     (if au_id caller = target_admin_id
      then (s, Inl (SelfApprovalOrRoleError ''Cannot modify your own admin role.''))
      else if new_role = AR_HEAD \<and> au_role caller \<noteq> AR_HEAD
      then (s, Inl (SelfApprovalOrRoleError ''HEAD role required to grant HEAD role.''))
      else if \<not> List.member [AR_ADMIN, AR_HEAD] (au_role caller)
      then (s, Inl (SelfApprovalOrRoleError ''ADMIN or HEAD role required to update admin roles.''))
      else (case get_row au_id target_admin_id (db_admin_users (working s)) of
          None \<Rightarrow> (s, Inl AdminUserNotFoundError)
        | Some target \<Rightarrow>
            (let audit = \<lparr> ara_id = new_id, ara_target_admin_id = target_admin_id,
                           ara_changed_by_admin_id = au_id caller, ara_previous_role = au_role target,
                           ara_new_role = new_role, ara_reason = reason, ara_created_at = created_at \<rparr>;
                 d = working s in
             commit_bare (target\<lparr> au_role := new_role \<rparr>)
               (s\<lparr> working := d\<lparr>
                    db_admin_users := update_row au_id target_admin_id (\<lambda>a. a\<lparr> au_role := new_role \<rparr>) (db_admin_users d),
                    db_admin_role_audits := db_admin_role_audits d @ [audit] \<rparr> \<rparr>))))"

end
