(* ===== verification/OrchestrationSchemas.thy ===== *)
theory OrchestrationSchemas
  imports AdminService
begin

text \<open>
  The response models of the orchestration layer (\<^verbatim>\<open>orchestration/_schemas.py\<close>) and the closed
  error codes (\<^verbatim>\<open>orchestration/_errors.py\<close>).  A response is the record of its fields; \<open>*_from_orm\<close>
  builds it from rows.  The relationships that the ORM loads are navigations over foreign keys.
\<close>

section \<open>Error codes\<close>

definition ERROR_HTTP :: "(string \<times> int) list" where
  "ERROR_HTTP =
     [(''internal_token_required'', 401), (''internal_token_invalid'', 403), (''session_token_required'', 401),
      (''session_token_invalid'', 401), (''session_token_expired'', 401), (''not_authorized'', 403),
      (''session_not_found'', 404), (''flag_not_found'', 404), (''policy_not_found'', 404),
      (''policy_already_retired'', 409), (''invalid_session_transition'', 409),
      (''policy_versioning_error'', 422), (''exemption_validation_error'', 422),
      (''review_transition_error'', 409), (''evidence_already_sealed'', 409),
      (''evidence_blob_too_large'', 413), (''evidence_seal_failed'', 500),
      (''identity_override_not_found'', 404), (''admin_user_not_found'', 404),
      (''self_approval_rejected'', 403), (''role_unauthorized'', 403)]"

text \<open>What a request fails with: a closed error, or an exception that nothing catches (an internal
  server error).\<close>

datatype api_failure =
    HttpFailure int string
  | Unhandled

definition auth_error :: "string \<Rightarrow> api_failure" where
  "auth_error code = HttpFailure (case map_of ERROR_HTTP code of None \<Rightarrow> 400 | Some n \<Rightarrow> n) code"

section \<open>Sessions\<close>

record session_status_response =
  ssr_session_id :: uuid
  ssr_status :: string
  ssr_consent_recorded :: bool
  ssr_started_at :: "timestamp option"
  ssr_ended_at :: "timestamp option"
  ssr_retention_expires_at :: "timestamp option"
  ssr_accumulated_medium_score :: rat

definition check_session_status_response :: "session_status_response \<Rightarrow> bool" where
  "check_session_status_response r \<longleftrightarrow> 1 \<le> length (ssr_status r) \<and> 0 \<le> ssr_accumulated_medium_score r"

record terminate_request =
  trq_triggering_flag_id :: uuid
  trq_reason :: string

definition check_terminate_request :: "terminate_request \<Rightarrow> bool" where
  "check_terminate_request r \<longleftrightarrow> between 1 512 (length (trq_reason r))"

record terminate_response =
  trs_session_id :: uuid
  trs_new_status :: string
  trs_termination_record_id :: uuid
  trs_triggering_flag_id :: uuid

section \<open>Policies and exemptions\<close>

record policy_config_response =
  pcr_id :: uuid
  pcr_name :: string
  pcr_version :: int
  pcr_is_active :: bool
  pcr_retired_at :: "timestamp option"
  pcr_termination_severity :: flag_severity
  pcr_terminate_on_second_face :: bool
  pcr_second_face_confirmation_frames :: int
  pcr_gaze_min_duration_ms :: int
  pcr_gaze_window_seconds :: int
  pcr_gaze_warning_limit :: int
  pcr_gaze_termination_limit :: int
  pcr_medium_score_termination_threshold :: rat
  pcr_medium_score_action :: medium_score_action
  pcr_liveness_check_enabled :: bool
  pcr_liveness_check_action :: "liveness_action option"
  pcr_liveness_score_threshold :: rat
  pcr_liveness_confirmation_frames :: int
  pcr_identity_similarity_threshold :: rat
  pcr_identity_confirmation_frames :: int
  pcr_audio_noise_floor_dbfs :: rat
  pcr_audio_speech_ratio_threshold :: rat
  pcr_created_by_id :: "uuid option"
  pcr_created_at :: timestamp

definition policy_from_orm :: "policy_config \<Rightarrow> policy_config_response" where
  "policy_from_orm p =
     \<lparr> pcr_id = pc_id p, pcr_name = pc_name p, pcr_version = pc_version p, pcr_is_active = pc_is_active p,
       pcr_retired_at = pc_retired_at p, pcr_termination_severity = pc_termination_severity p,
       pcr_terminate_on_second_face = pc_terminate_on_second_face p,
       pcr_second_face_confirmation_frames = pc_second_face_confirmation_frames p,
       pcr_gaze_min_duration_ms = pc_gaze_min_duration_ms p, pcr_gaze_window_seconds = pc_gaze_window_seconds p,
       pcr_gaze_warning_limit = pc_gaze_warning_limit p, pcr_gaze_termination_limit = pc_gaze_termination_limit p,
       pcr_medium_score_termination_threshold = pc_medium_score_termination_threshold p,
       pcr_medium_score_action = pc_medium_score_action p,
       pcr_liveness_check_enabled = pc_liveness_check_enabled p,
       pcr_liveness_check_action = pc_liveness_check_action p,
       pcr_liveness_score_threshold = pc_liveness_score_threshold p,
       pcr_liveness_confirmation_frames = pc_liveness_confirmation_frames p,
       pcr_identity_similarity_threshold = pc_identity_similarity_threshold p,
       pcr_identity_confirmation_frames = pc_identity_confirmation_frames p,
       pcr_audio_noise_floor_dbfs = pc_audio_noise_floor_dbfs p,
       pcr_audio_speech_ratio_threshold = pc_audio_speech_ratio_threshold p,
       pcr_created_by_id = pc_created_by_id p, pcr_created_at = pc_created_at p \<rparr>"

record exemption_response =
  exr_id :: uuid
  exr_participant_id :: uuid
  exr_exam_reference :: string
  exr_object_class :: string
  exr_approved_by :: string
  exr_approved_by_admin_id :: "uuid option"
  exr_approval_reason :: string
  exr_effective_at :: timestamp
  exr_expires_at :: "timestamp option"
  exr_created_at :: timestamp

definition exemption_from_orm :: "accommodation_exemption \<Rightarrow> exemption_response" where
  "exemption_from_orm x =
     \<lparr> exr_id = ae_id x, exr_participant_id = ae_participant_id x, exr_exam_reference = ae_exam_reference x,
       exr_object_class = ae_object_class x, exr_approved_by = ae_approved_by x,
       exr_approved_by_admin_id = ae_approved_by_admin_id x, exr_approval_reason = ae_approval_reason x,
       exr_effective_at = ae_effective_at x, exr_expires_at = ae_expires_at x, exr_created_at = ae_created_at x \<rparr>"

section \<open>Flags and reviews\<close>

record evidence_artifact_response =
  ear_id :: uuid
  ear_kind :: evidence_kind
  ear_storage_uri :: string
  ear_content_sha256 :: string
  ear_media_type :: string
  ear_byte_size :: int
  ear_capture_started_at :: timestamp
  ear_capture_ended_at :: "timestamp option"
  ear_retention_expires_at :: timestamp

definition artifact_from_orm :: "evidence_artifact \<Rightarrow> evidence_artifact_response" where
  "artifact_from_orm a =
     \<lparr> ear_id = ea_id a, ear_kind = ea_kind a, ear_storage_uri = ea_storage_uri a,
       ear_content_sha256 = ea_content_sha256 a, ear_media_type = ea_media_type a, ear_byte_size = ea_byte_size a,
       ear_capture_started_at = ea_capture_started_at a, ear_capture_ended_at = ea_capture_ended_at a,
       ear_retention_expires_at = ea_retention_expires_at a \<rparr>"

record proctor_review_response =
  prr_id :: uuid
  prr_reviewer_reference :: string
  prr_reviewer_admin_id :: "uuid option"
  prr_decision :: review_decision
  prr_notes :: "string option"
  prr_created_at :: timestamp

definition review_from_orm :: "proctor_review \<Rightarrow> proctor_review_response" where
  "review_from_orm r =
     \<lparr> prr_id = pr_id r, prr_reviewer_reference = pr_reviewer_reference r,
       prr_reviewer_admin_id = pr_reviewer_admin_id r, prr_decision = pr_decision r, prr_notes = pr_notes r,
       prr_created_at = pr_created_at r \<rparr>"

record flag_review_response =
  frr_id :: uuid
  frr_exam_session_id :: uuid
  frr_policy_config_id :: uuid
  frr_rule_code :: string
  frr_severity :: flag_severity
  frr_status :: string
  frr_confidence_score :: rat
  frr_confidence_lower :: rat
  frr_confidence_upper :: rat
  frr_triggered_termination :: bool
  frr_suppressed_by_exemption_id :: "uuid option"
  frr_detail :: jdict
  frr_created_at :: timestamp
  frr_resolved_at :: "timestamp option"
  frr_evidence_artifacts :: "evidence_artifact_response list"
  frr_reviews :: "proctor_review_response list"

definition flag_from_orm :: "database \<Rightarrow> bool \<Rightarrow> flag \<Rightarrow> flag_review_response option" where
  "flag_from_orm d include_suppressed f =
     (if fl_suppressed_by_exemption_id f \<noteq> None \<and> \<not> include_suppressed then None
      else Some
        \<lparr> frr_id = fl_id f, frr_exam_session_id = fl_exam_session_id f, frr_policy_config_id = fl_policy_config_id f,
          frr_rule_code = fl_rule_code f, frr_severity = fl_severity f, frr_status = flag_status_value (fl_status f),
          frr_confidence_score = fl_confidence_score f, frr_confidence_lower = fl_confidence_lower f,
          frr_confidence_upper = fl_confidence_upper f, frr_triggered_termination = fl_triggered_termination f,
          frr_suppressed_by_exemption_id = fl_suppressed_by_exemption_id f, frr_detail = fl_detail f,
          frr_created_at = fl_created_at f, frr_resolved_at = fl_resolved_at f,
          frr_evidence_artifacts = map artifact_from_orm (filter (\<lambda>a. ea_flag_id a = fl_id f) (db_evidence_artifacts d)),
          frr_reviews = map review_from_orm (filter (\<lambda>r. pr_flag_id r = fl_id f) (db_proctor_reviews d)) \<rparr>)"

record flag_list_response =
  flr_session_id :: uuid
  flr_flags :: "flag_review_response list"
  flr_omitted_suppressed_count :: int

record review_request =
  rq_decision :: review_decision
  rq_notes :: "string option"

definition check_review_request :: "review_request \<Rightarrow> bool" where
  "check_review_request r = (case rq_notes r of None \<Rightarrow> True | Some s \<Rightarrow> length s \<le> 10000)"

record review_created_response =
  rcr_id :: uuid
  rcr_flag_id :: uuid
  rcr_decision :: review_decision
  rcr_session_status :: string

section \<open>Overrides, administrators, evidence\<close>

record override_response =
  ovr_id :: uuid
  ovr_exam_session_id :: uuid
  ovr_requested_by_admin_id :: uuid
  ovr_department :: string
  ovr_reason :: string
  ovr_status :: string
  ovr_approved_by_admin_id :: "uuid option"
  ovr_valid_from :: timestamp
  ovr_valid_until :: timestamp
  ovr_decided_at :: "timestamp option"
  ovr_created_at :: timestamp

definition override_from_orm :: "identity_override \<Rightarrow> override_response" where
  "override_from_orm x =
     \<lparr> ovr_id = io_id x, ovr_exam_session_id = io_exam_session_id x,
       ovr_requested_by_admin_id = io_requested_by_admin_id x, ovr_department = io_department x,
       ovr_reason = io_reason x, ovr_status = override_request_status_value (io_status x),
       ovr_approved_by_admin_id = io_approved_by_admin_id x, ovr_valid_from = io_valid_from x,
       ovr_valid_until = io_valid_until x, ovr_decided_at = io_decided_at x, ovr_created_at = io_created_at x \<rparr>"

record update_role_request =
  urr_role :: string
  urr_reason :: "string option"

definition check_update_role_request :: "update_role_request \<Rightarrow> bool" where
  "check_update_role_request r \<longleftrightarrow> List.member [''instructor'', ''proctor'', ''admin'', ''head''] (urr_role r)"

record admin_user_response =
  aur_id :: uuid
  aur_lti_issuer :: string
  aur_lms_user_reference :: string
  aur_display_name :: "string option"
  aur_role :: string

definition admin_from_orm :: "admin_user \<Rightarrow> admin_user_response" where
  "admin_from_orm a =
     \<lparr> aur_id = au_id a, aur_lti_issuer = au_lti_issuer a, aur_lms_user_reference = au_lms_user_reference a,
       aur_display_name = au_display_name a, aur_role = admin_role_value (au_role a) \<rparr>"

record seal_api_request =
  sar_artifact_type :: string
  sar_media_type :: string
  sar_capture_started_at :: timestamp
  sar_capture_ended_at :: "timestamp option"
  sar_retention_expires_at :: "timestamp option"

definition check_seal_api_request :: "seal_api_request \<Rightarrow> bool" where
  "check_seal_api_request r \<longleftrightarrow>
     List.member [''frame'', ''clip'', ''audio'', ''event_export''] (sar_artifact_type r) \<and>
     between 1 128 (length (sar_media_type r))"

record seal_api_response =
  sap_evidence_artifact_id :: uuid
  sap_flag_id :: uuid
  sap_storage_uri :: string
  sap_content_sha256 :: string
  sap_byte_size :: int
  sap_media_type :: string

end
