(* ===== verification/OrchestrationRoutes.thy ===== *)
theory OrchestrationRoutes
  imports OrchestrationSchemas SessionToken FlagPersistence EvidenceService
begin

text \<open>
  Authentication (\<^verbatim>\<open>orchestration/_auth.py\<close>) and the routes (\<^verbatim>\<open>orchestration/_routes.py\<close>).
  A route is a function over the committed database: every handler works in a session of its
  own, and what that session has not committed when the handler ends is lost.  The framework
  resolves the authentication dependency first and only then validates path, query and body; an
  input that it cannot convert to the declared type is \<open>None\<close>.
\<close>

section \<open>What the router is built with\<close>

record ('k, 's) orchestration_deps =
  oc_settings :: orchestration_settings
  oc_lti :: lti_settings
  oc_jwt :: "'k jwt_lib"
  oc_str_of :: "jval \<Rightarrow> string"
  oc_sha :: "bytes \<Rightarrow> string"
  oc_store :: "'s evidence_store"

text \<open>The clock readings of a request and the identifier of the row that it inserts.\<close>

record call_env =
  cx_seconds :: int
  cx_now :: timestamp
  cx_new_id :: uuid
  cx_created_at :: timestamp

section \<open>Credentials\<close>

definition split_first_space :: "string \<Rightarrow> (string \<times> string) option" where
  "split_first_space s =
     (if List.member s CHR '' ''
      then Some (takeWhile (\<lambda>c. c \<noteq> CHR '' '') s, tl (dropWhile (\<lambda>c. c \<noteq> CHR '' '') s))
      else None)"

definition parse_bearer :: "string option \<Rightarrow> string option" where
  "parse_bearer authorization =
     (case authorization of
        None \<Rightarrow> None
      | Some h \<Rightarrow>
     (case split_first_space h of
        None \<Rightarrow> None
      | Some (scheme, rest) \<Rightarrow>
          if lower scheme \<noteq> lower ''Bearer'' then None
          else if strip rest = [] then None
          else Some (strip rest)))"

definition require_internal_terminate_token :: "orchestration_settings \<Rightarrow> string option \<Rightarrow> api_failure + unit" where
  "require_internal_terminate_token cfg authorization =
     (case parse_bearer authorization of
        None \<Rightarrow> Inl (auth_error ''internal_token_required'')
      | Some token \<Rightarrow>
          if token \<noteq> os_internal_terminate_token cfg then Inl (auth_error ''internal_token_invalid'')
          else Inr ())"

definition ADMIN_ROLES :: "app_role list" where
  "ADMIN_ROLES = [APP_ADMIN, APP_INSTRUCTOR, APP_PROCTOR]"

definition decode_or_raise ::
  "('k, 's) orchestration_deps \<Rightarrow> int \<Rightarrow> string option \<Rightarrow> api_failure + session_claims" where
  "decode_or_raise deps now authorization =
     (if authorization = None then Inl (auth_error ''session_token_required'')
      else (case parse_bearer authorization of
        None \<Rightarrow> Inl (auth_error ''session_token_required'')
      | Some token \<Rightarrow>
     (case decode_session_token (oc_jwt deps) (oc_str_of deps) (oc_lti deps) now token of
        Inl (SessionTokenExpired _) \<Rightarrow> Inl (auth_error ''session_token_expired'')
      | Inl (SessionTokenInvalid _) \<Rightarrow> Inl (auth_error ''session_token_invalid'')
      | Inl _ \<Rightarrow> Inl Unhandled
      | Inr claims \<Rightarrow> Inr claims)))"

definition load_admin_user :: "database \<Rightarrow> session_claims \<Rightarrow> api_failure + admin_user" where
  "load_admin_user d claims =
     (case uuid_of_string (sc_subject claims) of
        Inl _ \<Rightarrow> Inl (auth_error ''not_authorized'')
      | Inr pid \<Rightarrow>
     (case get_row pt_id pid (db_participants d) of
        None \<Rightarrow> Inl (auth_error ''not_authorized'')
      | Some p \<Rightarrow>
     (case scalar_one_or_none
            (filter (\<lambda>a. au_lti_issuer a = pt_lti_issuer p \<and> au_lms_user_reference a = pt_lms_user_reference p)
              (db_admin_users d)) of
        Inl _ \<Rightarrow> Inl Unhandled
      | Inr None \<Rightarrow> Inl (auth_error ''not_authorized'')
      | Inr (Some a) \<Rightarrow> Inr a)))"

definition require_admin_role ::
  "('k, 's) orchestration_deps \<Rightarrow> int \<Rightarrow> string option \<Rightarrow> database \<Rightarrow> api_failure + admin_user" where
  "require_admin_role deps now authorization d =
     (case decode_or_raise deps now authorization of
        Inl e \<Rightarrow> Inl e
      | Inr claims \<Rightarrow>
          if \<not> List.member ADMIN_ROLES (sc_role claims) then Inl (auth_error ''not_authorized'')
          else load_admin_user d claims)"

definition require_session_owner_or_admin ::
  "('k, 's) orchestration_deps \<Rightarrow> int \<Rightarrow> string \<Rightarrow> string option \<Rightarrow> database
   \<Rightarrow> api_failure + session_claims \<times> exam_session" where
  "require_session_owner_or_admin deps now session_id authorization d =
     (case decode_or_raise deps now authorization of
        Inl e \<Rightarrow> Inl e
      | Inr claims \<Rightarrow>
     (case uuid_of_string session_id of
        Inl _ \<Rightarrow> Inl (auth_error ''session_not_found'')
      | Inr sid \<Rightarrow>
     (case get_row es_id sid (db_exam_sessions d) of
        None \<Rightarrow> Inl (auth_error ''session_not_found'')
      | Some session \<Rightarrow>
          if List.member ADMIN_ROLES (sc_role claims) then Inr (claims, session)
          else if sc_role claims = APP_LEARNER \<and> uuid_str (es_participant_id session) = sc_subject claims
          then Inr (claims, session)
          else Inl (auth_error ''not_authorized''))))"

section \<open>Common steps of the routes\<close>

definition ROUTES_ERROR_HTTP :: "(string \<times> int) list" where
  "ROUTES_ERROR_HTTP =
     [(''internal_token_required'', 401), (''internal_token_invalid'', 403), (''session_token_required'', 401),
      (''session_token_invalid'', 401), (''session_token_expired'', 401), (''not_authorized'', 403),
      (''session_not_found'', 404), (''flag_not_found'', 404), (''policy_not_found'', 404),
      (''policy_already_retired'', 409), (''invalid_session_transition'', 409),
      (''policy_versioning_error'', 422), (''exemption_validation_error'', 422),
      (''review_transition_error'', 409), (''evidence_already_sealed'', 409),
      (''evidence_blob_too_large'', 413), (''evidence_seal_failed'', 500),
      (''identity_override_not_found'', 404), (''self_approval_rejected'', 403), (''role_unauthorized'', 403)]"

definition route_error :: "string \<Rightarrow> api_failure" where
  "route_error code = HttpFailure (case map_of ROUTES_ERROR_HTTP code of None \<Rightarrow> 400 | Some n \<Rightarrow> n) code"

definition valid_body :: "('r \<Rightarrow> bool) \<Rightarrow> 'r option \<Rightarrow> bool" where
  "valid_body check r = (case r of None \<Rightarrow> False | Some x \<Rightarrow> check x)"

text \<open>A route behind the administrators' dependency: who is asking, then the request's inputs,
  then the handler.\<close>

definition admin_route ::
  "('k, 's) orchestration_deps \<Rightarrow> call_env \<Rightarrow> string option \<Rightarrow> bool
   \<Rightarrow> (admin_user \<Rightarrow> database \<times> (api_failure + 'a)) \<Rightarrow> database \<Rightarrow> database \<times> (api_failure + 'a)" where
  "admin_route deps env authorization valid handler d =
     (case require_admin_role deps (cx_seconds env) authorization d of
        Inl e \<Rightarrow> (d, Inl e)
      | Inr admin \<Rightarrow> if \<not> valid then (d, Inl (HttpFailure 422 ''validation'')) else handler admin)"

text \<open>The end of a handler that called a service: the session is dropped, an exception is
  translated.\<close>

definition reply ::
  "(admin_service_error \<Rightarrow> api_failure) \<Rightarrow> ('r \<Rightarrow> 'a) \<Rightarrow> db_session \<times> (admin_service_error + 'r)
   \<Rightarrow> database \<times> (api_failure + 'a)" where
  "reply handle body res =
     (case res of
        (s, Inl e) \<Rightarrow> (committed s, Inl (handle e))
      | (s, Inr r) \<Rightarrow> (committed s, Inr (body r)))"

definition refusal_code :: "string \<Rightarrow> string" where
  "refusal_code msg =
     (if contains_text ''self'' (lower msg) \<or> contains_text ''own'' (lower msg)
      then ''self_approval_rejected'' else ''role_unauthorized'')"

section \<open>Sessions\<close>

definition get_session_status ::
  "('k, 's) orchestration_deps \<Rightarrow> call_env \<Rightarrow> string option \<Rightarrow> string \<Rightarrow> database
   \<Rightarrow> api_failure + session_status_response" where
  "get_session_status deps env authorization session_id d =
     (case require_session_owner_or_admin deps (cx_seconds env) session_id authorization d of
        Inl e \<Rightarrow> Inl e
      | Inr (_, es) \<Rightarrow>
          Inr \<lparr> ssr_session_id = es_id es, ssr_status = session_status_value (es_status es),
                ssr_consent_recorded = es_consent_recorded_at es \<noteq> None, ssr_started_at = es_started_at es,
                ssr_ended_at = es_ended_at es, ssr_retention_expires_at = es_retention_expires_at es,
                ssr_accumulated_medium_score = es_accumulated_medium_score es \<rparr>)"

definition route_termination :: "uuid \<Rightarrow> timestamp \<Rightarrow> uuid \<Rightarrow> uuid \<Rightarrow> string \<Rightarrow> termination_record" where
  "route_termination new_id created_at sid flag_id reason =
     \<lparr> tr_id = new_id, tr_exam_session_id = sid, tr_triggering_flag_id = Some flag_id, tr_reason = reason,
       tr_client_delivery_status = DS_PENDING, tr_client_command_sent_at = None,
       tr_client_acknowledged_at = None, tr_lms_delivery_status = DS_PENDING,
       tr_lms_callback_sent_at = None, tr_lms_callback_completed_at = None,
       tr_evidence_sealed_at = None, tr_created_at = created_at \<rparr>"

definition terminated_at :: "timestamp \<Rightarrow> exam_session \<Rightarrow> exam_session" where
  "terminated_at now es = es\<lparr> es_status := SS_TERMINATED, es_ended_at := Some now \<rparr>"

definition terminate_in :: "timestamp \<Rightarrow> uuid \<Rightarrow> termination_record \<Rightarrow> database \<Rightarrow> database" where
  "terminate_in now sid rec d =
     d\<lparr> db_exam_sessions := update_row es_id sid (terminated_at now) (db_exam_sessions d),
        db_termination_records := db_termination_records d @ [rec] \<rparr>"

definition post_terminate ::
  "('k, 's) orchestration_deps \<Rightarrow> call_env \<Rightarrow> string option \<Rightarrow> string \<Rightarrow> terminate_request option \<Rightarrow> database
   \<Rightarrow> database \<times> (api_failure + terminate_response)" where
  "post_terminate deps env authorization session_id request d =
     (case require_internal_terminate_token (oc_settings deps) authorization of
        Inl e \<Rightarrow> (d, Inl e)
      | Inr _ \<Rightarrow>
     (case request of
        None \<Rightarrow> (d, Inl (HttpFailure 422 ''validation''))
      | Some rq \<Rightarrow>
          if \<not> check_terminate_request rq then (d, Inl (HttpFailure 422 ''validation''))
          else (case uuid_of_string session_id of
             Inl _ \<Rightarrow> (d, Inl (route_error ''session_not_found''))
           | Inr sid \<Rightarrow>
          (let db = open_session d; flag_id = trq_triggering_flag_id rq in
           case get_row es_id sid (db_exam_sessions (working db)) of
             None \<Rightarrow> (committed db, Inl (route_error ''session_not_found''))
           | Some session \<Rightarrow>
          (case assert_flag_present flag_id db of
             Inl _ \<Rightarrow> (committed db, Inl (route_error ''flag_not_found''))
           | Inr _ \<Rightarrow>
          (case assert_transition (es_status session) SS_TERMINATED of
             Inl _ \<Rightarrow> (committed db, Inl (route_error ''invalid_session_transition''))
           | Inr _ \<Rightarrow>
          (let termination = route_termination (cx_new_id env) (cx_created_at env) (es_id session) flag_id (trq_reason rq);
               db1 = db\<lparr> working := terminate_in (cx_now env) (es_id session) termination (working db) \<rparr> in
           case commit db1 of
             Inl _ \<Rightarrow> (committed (rollback db1), Inl (route_error ''evidence_seal_failed''))
           | Inr db2 \<Rightarrow>
               (committed db2,
                Inr \<lparr> trs_session_id = es_id session, trs_new_status = session_status_value SS_TERMINATED,
                      trs_termination_record_id = tr_id termination, trs_triggering_flag_id = flag_id \<rparr>))))))))"

section \<open>Policies and exemptions\<close>

definition policy_failure :: "admin_service_error \<Rightarrow> api_failure" where
  "policy_failure e = (case e of PolicyVersioningError _ \<Rightarrow> route_error ''policy_versioning_error'' | _ \<Rightarrow> Unhandled)"

definition post_policy_config ::
  "('k, 's) orchestration_deps \<Rightarrow> call_env \<Rightarrow> string option \<Rightarrow> create_policy_request option \<Rightarrow> database
   \<Rightarrow> database \<times> (api_failure + policy_config_response)" where
  "post_policy_config deps env authorization request d =
     admin_route deps env authorization (valid_body check_policy_request request)
       (\<lambda>admin. reply policy_failure (\<lambda>r. policy_from_orm (pvr_new_policy r))
          (create_policy_version (the request) admin (cx_now env) (cx_new_id env) (cx_created_at env) (open_session d))) d"

definition get_policy_config ::
  "('k, 's) orchestration_deps \<Rightarrow> (string \<Rightarrow> string \<Rightarrow> bool) \<Rightarrow> call_env \<Rightarrow> string option \<Rightarrow> bool option \<Rightarrow> database
   \<Rightarrow> api_failure + policy_config_response list" where
  "get_policy_config deps name_le env authorization is_active d =
     snd (admin_route deps env authorization True
       (\<lambda>_. (d, Inr (map policy_from_orm (list_policy_configs name_le is_active d)))) d)"

definition exemption_failure :: "admin_service_error \<Rightarrow> api_failure" where
  "exemption_failure e =
     (case e of ExemptionValidationError _ \<Rightarrow> route_error ''exemption_validation_error'' | _ \<Rightarrow> Unhandled)"

definition post_exemption ::
  "('k, 's) orchestration_deps \<Rightarrow> call_env \<Rightarrow> string option \<Rightarrow> create_exemption_request option \<Rightarrow> database
   \<Rightarrow> database \<times> (api_failure + exemption_response)" where
  "post_exemption deps env authorization request d =
     admin_route deps env authorization (valid_body check_exemption_request request)
       (\<lambda>admin. reply exemption_failure exemption_from_orm
          (create_exemption (the request) admin (cx_new_id env) (cx_created_at env) (open_session d))) d"

definition get_exemptions ::
  "('k, 's) orchestration_deps \<Rightarrow> call_env \<Rightarrow> string option \<Rightarrow> uuid option \<Rightarrow> string option \<Rightarrow> database
   \<Rightarrow> api_failure + exemption_response list" where
  "get_exemptions deps env authorization participant_id object_class d =
     snd (admin_route deps env authorization (object_class \<noteq> Some [])
       (\<lambda>_. (d, Inr (map exemption_from_orm (list_exemptions participant_id object_class d)))) d)"

section \<open>Flags and reviews\<close>

definition get_flags ::
  "('k, 's) orchestration_deps \<Rightarrow> call_env \<Rightarrow> string option \<Rightarrow> uuid option \<Rightarrow> bool \<Rightarrow> database
   \<Rightarrow> api_failure + flag_list_response" where
  "get_flags deps env authorization session_id include_suppressed d =
     snd (admin_route deps env authorization (session_id \<noteq> None)
       (\<lambda>_. (d, case assert_session_exists (the session_id) d of
            Inl _ \<Rightarrow> Inl (route_error ''session_not_found'')
          | Inr _ \<Rightarrow>
              (case list_flags_for_session (the session_id) include_suppressed d of
                 (flags, omitted) \<Rightarrow>
                   Inr \<lparr> flr_session_id = the session_id,
                         flr_flags = List.map_filter (flag_from_orm d include_suppressed) flags,
                         flr_omitted_suppressed_count = omitted \<rparr>))) d)"

definition review_failure :: "admin_service_error \<Rightarrow> api_failure" where
  "review_failure e =
     (case e of
        FlagNotFoundError _ \<Rightarrow> route_error ''flag_not_found''
      | ReviewTransitionError _ \<Rightarrow> route_error ''review_transition_error''
      | _ \<Rightarrow> Unhandled)"

definition post_review ::
  "('k, 's) orchestration_deps \<Rightarrow> call_env \<Rightarrow> string option \<Rightarrow> uuid option \<Rightarrow> review_request option \<Rightarrow> database
   \<Rightarrow> database \<times> (api_failure + review_created_response)" where
  "post_review deps env authorization flag_id request d =
     admin_route deps env authorization (flag_id \<noteq> None \<and> valid_body check_review_request request)
       (\<lambda>admin. reply review_failure
          (\<lambda>r. \<lparr> rcr_id = pr_id (rr_review r), rcr_flag_id = the flag_id, rcr_decision = rq_decision (the request),
                 rcr_session_status = session_status_value (rr_session_status r) \<rparr>)
          (record_proctor_review (the flag_id) (rq_decision (the request)) (rq_notes (the request)) admin
             (cx_new_id env) (cx_created_at env) (open_session d))) d"

section \<open>Identity overrides\<close>

definition post_create_identity_override_request ::
  "('k, 's) orchestration_deps \<Rightarrow> call_env \<Rightarrow> string option \<Rightarrow> create_override_request option \<Rightarrow> database
   \<Rightarrow> database \<times> (api_failure + override_response)" where
  "post_create_identity_override_request deps env authorization request d =
     admin_route deps env authorization (valid_body check_override_request request)
       (\<lambda>admin. reply exemption_failure override_from_orm
          (create_identity_override_request (the request) admin (cx_new_id env) (cx_created_at env) (open_session d))) d"

definition override_request_status_of_value :: "string \<Rightarrow> override_request_status option" where
  "override_request_status_of_value s = find (\<lambda>v. override_request_status_value v = s) [OR_PENDING, OR_APPROVED, OR_REJECTED]"

definition get_list_identity_override_requests ::
  "('k, 's) orchestration_deps \<Rightarrow> call_env \<Rightarrow> string option \<Rightarrow> uuid option \<Rightarrow> string option \<Rightarrow> string option \<Rightarrow> database
   \<Rightarrow> api_failure + override_response list" where
  "get_list_identity_override_requests deps env authorization sid department status_filter d =
     snd (admin_route deps env authorization True
       (\<lambda>_. (d, let status_enum = (case status_filter of None \<Rightarrow> None | Some v \<Rightarrow> override_request_status_of_value v) in
            Inr (map override_from_orm (list_identity_override_requests sid department status_enum d)))) d)"

definition override_failure :: "admin_service_error \<Rightarrow> api_failure" where
  "override_failure e =
     (case e of
        OverrideNotFoundError \<Rightarrow> route_error ''identity_override_not_found''
      | SelfApprovalOrRoleError msg \<Rightarrow> route_error (refusal_code msg)
      | _ \<Rightarrow> Unhandled)"

definition post_approve_identity_override_request ::
  "('k, 's) orchestration_deps \<Rightarrow> call_env \<Rightarrow> string option \<Rightarrow> uuid option \<Rightarrow> database
   \<Rightarrow> database \<times> (api_failure + override_response)" where
  "post_approve_identity_override_request deps env authorization override_id d =
     admin_route deps env authorization (override_id \<noteq> None)
       (\<lambda>admin. reply override_failure override_from_orm
          (approve_identity_override_request (the override_id) admin (cx_now env) (open_session d))) d"

definition reject_failure :: "admin_service_error \<Rightarrow> api_failure" where
  "reject_failure e = (case e of OverrideNotFoundError \<Rightarrow> route_error ''identity_override_not_found'' | _ \<Rightarrow> Unhandled)"

text \<open>The handler has no \<^verbatim>\<open>return\<close>: its \<^verbatim>\<open>None\<close> does not pass the declared response model.\<close>

definition post_reject_identity_override_request ::
  "('k, 's) orchestration_deps \<Rightarrow> call_env \<Rightarrow> string option \<Rightarrow> uuid option \<Rightarrow> database
   \<Rightarrow> database \<times> (api_failure + override_response)" where
  "post_reject_identity_override_request deps env authorization override_id d =
     admin_route deps env authorization (override_id \<noteq> None)
       (\<lambda>admin. case reply reject_failure id
            (reject_identity_override_request (the override_id) admin (cx_now env) (open_session d)) of
          (d', Inl e) \<Rightarrow> (d', Inl e)
        | (d', Inr _) \<Rightarrow> (d', Inl Unhandled)) d"

section \<open>Administrators\<close>

definition admin_role_of_value :: "string \<Rightarrow> admin_role option" where
  "admin_role_of_value s = find (\<lambda>r. admin_role_value r = s) admin_role_members"

definition role_failure :: "admin_service_error \<Rightarrow> api_failure" where
  "role_failure e =
     (case e of
        AdminUserNotFoundError \<Rightarrow> route_error ''admin_user_not_found''
      | SelfApprovalOrRoleError msg \<Rightarrow> route_error (refusal_code msg)
      | _ \<Rightarrow> Unhandled)"

definition post_update_admin_role ::
  "('k, 's) orchestration_deps \<Rightarrow> call_env \<Rightarrow> string option \<Rightarrow> uuid option \<Rightarrow> update_role_request option \<Rightarrow> database
   \<Rightarrow> database \<times> (api_failure + admin_user_response)" where
  "post_update_admin_role deps env authorization admin_user_id request d =
     admin_route deps env authorization (admin_user_id \<noteq> None \<and> valid_body check_update_role_request request)
       (\<lambda>admin. case admin_role_of_value (urr_role (the request)) of
          None \<Rightarrow> (d, Inl (route_error ''role_unauthorized''))
        | Some target_role \<Rightarrow>
            reply role_failure admin_from_orm
              (update_admin_user_role (the admin_user_id) target_role admin (urr_reason (the request))
                 (cx_new_id env) (cx_created_at env) (open_session d))) d"

section \<open>Evidence\<close>

definition seal_failure :: "evidence_error \<Rightarrow> api_failure" where
  "seal_failure e =
     (case e of
        EvidenceAlreadySealedError _ \<Rightarrow> route_error ''evidence_already_sealed''
      | EvidenceBlobTooLargeError _ \<Rightarrow> route_error ''evidence_blob_too_large''
      | _ \<Rightarrow> Unhandled)"

definition seal_request_of :: "uuid \<Rightarrow> uuid \<Rightarrow> seal_api_request \<Rightarrow> bytes \<Rightarrow> timestamp \<Rightarrow> seal_request" where
  "seal_request_of session_id flag_id r blob now =
     \<lparr> sr_flag_id = flag_id, sr_exam_session_id = session_id, sr_artifact_type = sar_artifact_type r,
       sr_media_type = sar_media_type r, sr_blob = blob, sr_capture_started_at = sar_capture_started_at r,
       sr_capture_ended_at = sar_capture_ended_at r,
       sr_retention_expires_at = Some (case sar_retention_expires_at r of None \<Rightarrow> now | Some t \<Rightarrow> t) \<rparr>"

text \<open>This route has no authentication dependency.  \<open>cx_now\<close> stands for both readings of the
  clock.\<close>

definition post_seal_evidence ::
  "('k, 's) orchestration_deps \<Rightarrow> call_env \<Rightarrow> string \<Rightarrow> uuid option \<Rightarrow> uuid option \<Rightarrow> seal_api_request option
   \<Rightarrow> bytes \<Rightarrow> database \<times> 's \<Rightarrow> (database \<times> 's) \<times> (api_failure + seal_api_response)" where
  "post_seal_evidence deps env diag session_id flag_id request blob st =
     (if session_id = None \<or> flag_id = None \<or> \<not> valid_body check_seal_api_request request
      then (st, Inl (HttpFailure 422 ''validation_error''))
      else (case st of (d, s) \<Rightarrow>
        (case seal_evidence_for_flag (oc_sha deps) (oc_store deps)
                (os_retention_default_seconds (oc_settings deps) * 1000000) (cx_now env) (cx_new_id env) diag
                (seal_request_of (the session_id) (the flag_id) (the request) blob (cx_now env)) (open_session d, s) of
           ((db, s'), Inl e) \<Rightarrow> ((committed db, s'), Inl (seal_failure e))
         | ((db, s'), Inr (a, _)) \<Rightarrow>
             ((committed db, s'),
              Inr \<lparr> sap_evidence_artifact_id = ea_id a, sap_flag_id = the flag_id, sap_storage_uri = ea_storage_uri a,
                    sap_content_sha256 = ea_content_sha256 a, sap_byte_size = ea_byte_size a,
                    sap_media_type = ea_media_type a \<rparr>))))"

end
