(* ===== verification/AdminChanges.thy ===== *)
theory AdminChanges
  imports OrchestrationRoutes
begin

text \<open>
  What a request can do to the database.  \<open>api_change\<close> is the abstract specification: the list of
  the changes that the orchestration layer may make, one rule per kind, each with the authority
  and the guards it needs.  \<open>api_step\<close> runs a request through the routes; it makes at most one of
  these changes.
\<close>

section \<open>The permitted changes\<close>

definition add_policy :: "timestamp \<Rightarrow> uuid option \<Rightarrow> policy_config \<Rightarrow> database \<Rightarrow> database" where
  "add_policy now prev p d =
     (let d1 = (case prev of None \<Rightarrow> d | Some k \<Rightarrow> retire_row now k d) in
      d1\<lparr> db_policy_configs := db_policy_configs d1 @ [p] \<rparr>)"

definition add_review :: "proctor_review \<Rightarrow> database \<Rightarrow> database" where
  "add_review r d = d\<lparr> db_proctor_reviews := db_proctor_reviews d @ [r] \<rparr>"

definition decide_in :: "override_request_status \<Rightarrow> uuid \<Rightarrow> timestamp \<Rightarrow> uuid \<Rightarrow> database \<Rightarrow> database" where
  "decide_in st admin_id now k d =
     d\<lparr> db_identity_overrides := update_row io_id k (decided st admin_id now) (db_identity_overrides d) \<rparr>"

definition with_role :: "admin_role \<Rightarrow> admin_user \<Rightarrow> admin_user" where
  "with_role role a = a\<lparr> au_role := role \<rparr>"

definition change_role_in :: "admin_role_audit \<Rightarrow> database \<Rightarrow> database" where
  "change_role_in audit d =
     d\<lparr> db_admin_users := update_row au_id (ara_target_admin_id audit) (with_role (ara_new_role audit)) (db_admin_users d),
        db_admin_role_audits := db_admin_role_audits d @ [audit] \<rparr>"

definition staff :: "database \<Rightarrow> admin_user \<Rightarrow> bool" where
  "staff d a \<longleftrightarrow> a \<in> set (db_admin_users d)"

inductive api_change :: "database \<Rightarrow> database \<Rightarrow> bool" where
  policy: "staff d a \<Longrightarrow> pc_created_by_id p = Some (au_id a) \<Longrightarrow> pc_retired_at p = None \<Longrightarrow>
     (\<forall>q\<in>set (db_policy_configs d). pc_name q = pc_name p \<longrightarrow> pc_version q < pc_version p) \<Longrightarrow>
     (\<forall>q\<in>set (db_policy_configs d). pc_name q = pc_name p \<and> policy_is_current q \<longleftrightarrow> prev = Some (pc_id q)) \<Longrightarrow>
     api_change d (add_policy now prev p d)"
| exemption: "staff d a \<Longrightarrow> ae_approved_by_admin_id x = Some (au_id a) \<Longrightarrow>
     api_change d (d\<lparr> db_accommodation_exemptions := db_accommodation_exemptions d @ [x] \<rparr>)"
| review: "staff d a \<Longrightarrow> pr_reviewer_admin_id r = Some (au_id a) \<Longrightarrow> api_change d (add_review r d)"
| review_moves: "staff d a \<Longrightarrow> pr_reviewer_admin_id r = Some (au_id a) \<Longrightarrow>
     f \<in> set (db_flags d) \<Longrightarrow> fl_id f = pr_flag_id r \<Longrightarrow> es \<in> set (db_exam_sessions d) \<Longrightarrow>
     es_id es = fl_exam_session_id f \<Longrightarrow> review_target (pr_decision r) (es_status es) = Some target \<Longrightarrow>
     moves (es_status es) target \<Longrightarrow> api_change d (set_status (es_id es) target (add_review r d))"
| override_requested: "staff d a \<Longrightarrow> io_requested_by_admin_id x = au_id a \<Longrightarrow> io_status x = OR_PENDING \<Longrightarrow>
     io_approved_by_admin_id x = None \<Longrightarrow>
     api_change d (d\<lparr> db_identity_overrides := db_identity_overrides d @ [x] \<rparr>)"
| override_approved: "staff d a \<Longrightarrow> au_role a = AR_HEAD \<Longrightarrow> x \<in> set (db_identity_overrides d) \<Longrightarrow>
     io_requested_by_admin_id x \<noteq> au_id a \<Longrightarrow> api_change d (decide_in OR_APPROVED (au_id a) now (io_id x) d)"
| override_rejected: "staff d a \<Longrightarrow> x \<in> set (db_identity_overrides d) \<Longrightarrow>
     api_change d (decide_in OR_REJECTED (au_id a) now (io_id x) d)"
| role_changed: "staff d a \<Longrightarrow> List.member [AR_ADMIN, AR_HEAD] (au_role a) \<Longrightarrow> t \<in> set (db_admin_users d) \<Longrightarrow>
     ara_target_admin_id u = au_id t \<Longrightarrow> ara_changed_by_admin_id u = au_id a \<Longrightarrow> au_id a \<noteq> au_id t \<Longrightarrow>
     ara_previous_role u = au_role t \<Longrightarrow> (ara_new_role u = AR_HEAD \<longrightarrow> au_role a = AR_HEAD) \<Longrightarrow>
     api_change d (change_role_in u d)"
| terminated: "es \<in> set (db_exam_sessions d) \<Longrightarrow> moves (es_status es) SS_TERMINATED \<Longrightarrow>
     tr_exam_session_id r = es_id es \<Longrightarrow> tr_triggering_flag_id r = Some (fl_id f) \<Longrightarrow> f \<in> set (db_flags d) \<Longrightarrow>
     api_change d (terminate_in now (es_id es) r d)"
| evidence: "ea_flag_id x \<in> fl_id ` set (db_flags d) \<Longrightarrow>
     api_change d (d\<lparr> db_evidence_artifacts := db_evidence_artifacts d @ [x] \<rparr>)"

text \<open>What a request does: nothing, or one permitted change that keeps the schema.\<close>

definition permitted :: "database \<Rightarrow> database \<Rightarrow> bool" where
  "permitted d d' \<longleftrightarrow> d' = d \<or> db_ok d' \<and> api_change d d'"

lemma permitted_refl [simp]: "permitted d d"
  by (simp add: permitted_def)

section \<open>The services\<close>

lemma commit_or_cases:
  "committed (fst (commit_or err r s)) = committed s \<or>
   db_ok (working s) \<and> committed (fst (commit_or err r s)) = working s"
  by (auto simp: commit_or_def commit_def)

lemma commit_bare_cases:
  "committed (fst (commit_bare r s)) = committed s \<or>
   db_ok (working s) \<and> committed (fst (commit_bare r s)) = working s"
  by (auto simp: commit_bare_def commit_def)

lemma commit_or_permitted:
  "committed s = d \<Longrightarrow> api_change d (working s) \<Longrightarrow> permitted d (committed (fst (commit_or err r s)))"
  using commit_or_cases[of err r s] by (auto simp: permitted_def)

lemma commit_bare_permitted:
  "committed s = d \<Longrightarrow> api_change d (working s) \<Longrightarrow> permitted d (committed (fst (commit_bare r s)))"
  using commit_bare_cases[of r s] by (auto simp: permitted_def)

lemma scalar_one: "scalar_one_or_none (filter P xs) = Inr (Some x) \<Longrightarrow> x \<in> set xs \<and> P x \<and> (\<forall>y\<in>set xs. P y \<longrightarrow> y = x)"
proof -
  assume "scalar_one_or_none (filter P xs) = Inr (Some x)"
  then have "set (filter P xs) = {x}" by (simp add: scalar_one_or_none_Some)
  then show ?thesis by auto
qed

lemma set_insort_by [simp]: "set (insort_by le x ys) = insert x (set ys)"
proof -
  have "set ys = set (takeWhile (\<lambda>y. \<not> le x y) ys @ dropWhile (\<lambda>y. \<not> le x y) ys)" by simp
  then show ?thesis unfolding insort_by_def by (simp only: set_append list.set) blast
qed

lemma set_order_by [simp]: "set (order_by le xs) = set xs"
  by (induction xs) (simp_all add: order_by_def)

lemma order_by_Nil [simp]: "order_by le xs = [] \<longleftrightarrow> xs = []"
  using set_order_by[of le xs] by (metis set_empty)

lemma order_by_empty [simp]: "order_by le [] = []"
  by simp

lemma order_by_max:
  fixes y :: int
  shows "y \<in> set xs \<Longrightarrow> y \<le> hd (order_by (\<lambda>a b. b \<le> a) xs)"
proof (induction xs arbitrary: y)
  case (Cons x xs)
  let ?o = "order_by (\<lambda>a b. b \<le> a) xs"
  have o: "order_by (\<lambda>a b. b \<le> a) (x # xs) = insort_by (\<lambda>a b. b \<le> a) x ?o" by (simp add: order_by_def)
  show ?case
  proof (cases "?o = [] \<or> hd ?o \<le> x")
    case True
    then have "hd (order_by (\<lambda>a b. b \<le> a) (x # xs)) = x"
      unfolding o insort_by_def by (cases ?o) auto
    moreover have "y \<le> x"
    proof (cases "y = x")
      case False
      with Cons.prems have y: "y \<in> set xs" by simp
      then have "?o \<noteq> []" using set_order_by[of "\<lambda>a b. b \<le> a" xs] by force
      with True have "hd ?o \<le> x" by blast
      with Cons.IH[OF y] show ?thesis by (rule order_trans)
    qed simp
    ultimately show ?thesis by simp
  next
    case False
    then have "hd (order_by (\<lambda>a b. b \<le> a) (x # xs)) = hd ?o"
      unfolding o insort_by_def by (cases ?o) auto
    moreover have "y \<le> hd ?o" using Cons.prems Cons.IH[of y] False by auto
    ultimately show ?thesis by simp
  qed
qed simp

lemma resolve_max_version_bound:
  "q \<in> set (db_policy_configs d) \<Longrightarrow> pc_name q = nm \<Longrightarrow> pc_version q \<le> resolve_max_version nm d"
  using order_by_max[of "pc_version q" "map pc_version (filter (\<lambda>p. pc_name p = nm) (db_policy_configs d))"]
  by (auto simp: resolve_max_version_def Let_def filter_empty_conv)

definition retired :: "timestamp \<Rightarrow> policy_config \<Rightarrow> policy_config" where
  "retired now p = p\<lparr> pc_retired_at := Some now \<rparr>"

lemma retired_keeps [simp]: "pc_name (retired now p) = pc_name p" "pc_id (retired now p) = pc_id p"
  "pc_version (retired now p) = pc_version p"
  by (simp_all add: retired_def)

lemma retire_row_eq: "retire_row now k d = d\<lparr> db_policy_configs := update_row pc_id k (retired now) (db_policy_configs d) \<rparr>"
  by (simp add: retire_row_def retired_def[abs_def])

lemma max_version_retire: "resolve_max_version nm (retire_row now k d) = resolve_max_version nm d"
proof -
  have "map pc_version (filter (\<lambda>p. pc_name p = nm) (update_row pc_id k (retired now) ps))
      = map pc_version (filter (\<lambda>p. pc_name p = nm) ps)" for ps
    by (induction ps) (auto simp: update_row_def)
  then show ?thesis by (simp add: resolve_max_version_def retire_row_eq)
qed

lemma resolve_previous_iff:
  assumes "resolve_previous_active nm d = Inr prev" "distinct (map pc_id (db_policy_configs d))"
    and "q \<in> set (db_policy_configs d)"
  shows "pc_name q = nm \<and> policy_is_current q \<longleftrightarrow> map_option pc_id prev = Some (pc_id q)"
proof -
  let ?P = "\<lambda>p. pc_name p = nm \<and> pc_is_active p \<and> pc_retired_at p = None"
  from assms(1) have s: "scalar_one_or_none (filter ?P (db_policy_configs d)) = Inr prev"
    by (auto simp: resolve_previous_active_def split: sum.splits)
  show ?thesis
  proof (cases prev)
    case None
    with s scalar_None[of ?P "db_policy_configs d" q] assms(3) show ?thesis by (auto simp: policy_is_current_def)
  next
    case (Some p)
    with scalar_one[OF s[unfolded Some]] assms(2,3) show ?thesis
      by (auto simp: policy_is_current_def distinct_map inj_on_def)
  qed
qed

lemma create_policy_permitted:
  assumes "db_ok d" "staff d a"
  shows "permitted d (committed (fst (create_policy_version r a now k t (open_session d))))"
proof (cases "validate_policy_request r")
  case (Inl e)
  then show ?thesis by (simp add: create_policy_version_def)
next
  case (Inr u)
  note v = Inr
  show ?thesis
  proof (cases "resolve_previous_active (cp_name r) d")
    case (Inl e)
    with v show ?thesis by (simp add: create_policy_version_def)
  next
    case (Inr prev)
    have "distinct (map pc_id (db_policy_configs d))" using assms(1) by (simp add: db_ok_def keys_ok_def)
    note iff = resolve_previous_iff[OF Inr this]
    define p where "p = new_policy_row r (resolve_max_version (cp_name r) d + 1) (au_id a) k t"
    have mv: "resolve_max_version (cp_name r) (case map_option pc_id prev of None \<Rightarrow> d | Some k \<Rightarrow> retire_row now k d)
        = resolve_max_version (cp_name r) d"
      by (simp add: max_version_retire split: option.splits)
    have "api_change d (add_policy now (map_option pc_id prev) p d)"
    proof (rule api_change.policy[OF assms(2)])
      show "pc_created_by_id p = Some (au_id a)" "pc_retired_at p = None"
        by (simp_all add: p_def new_policy_row_def)
      show "\<forall>q\<in>set (db_policy_configs d). pc_name q = pc_name p \<longrightarrow> pc_version q < pc_version p"
        using resolve_max_version_bound[of _ d "cp_name r"] by (fastforce simp: p_def new_policy_row_def)
      show "\<forall>q\<in>set (db_policy_configs d). pc_name q = pc_name p \<and> policy_is_current q \<longleftrightarrow> map_option pc_id prev = Some (pc_id q)"
        using iff by (simp add: p_def new_policy_row_def)
    qed
    then show ?thesis
      using v Inr mv
      by (cases prev) (auto simp: create_policy_version_def Let_def add_policy_def p_def intro!: commit_or_permitted)
  qed
qed

lemma create_exemption_permitted:
  assumes "staff d a"
  shows "permitted d (committed (fst (create_exemption r a k t (open_session d))))"
  by (cases "validate_exemption_request r")
    (auto simp: create_exemption_def Let_def intro!: commit_or_permitted api_change.exemption[OF assms])

lemma review_permitted:
  assumes "staff d a"
  shows "permitted d (committed (fst (record_proctor_review fid dec notes a k t (open_session d))))"
proof -
  define r where "r = \<lparr> pr_id = k, pr_flag_id = fid, pr_reviewer_reference = au_lms_user_reference a,
    pr_reviewer_admin_id = Some (au_id a), pr_decision = dec, pr_notes = notes, pr_created_at = t \<rparr>"
  have r: "pr_reviewer_admin_id r = Some (au_id a)" "pr_flag_id r = fid" "pr_decision r = dec"
    by (simp_all add: r_def)
  show ?thesis
    using api_change.review[OF assms r(1)] api_change.review_moves[OF assms r(1)] r(2,3)
    by (auto simp: record_proctor_review_def Let_def add_review_def assert_transition_moves
        split: option.splits sum.splits dest!: get_row_Some intro!: commit_bare_permitted simp flip: r_def)
qed

lemma create_override_permitted:
  assumes "staff d a"
  shows "permitted d (committed (fst (create_identity_override_request r a k t (open_session d))))"
  by (auto simp: create_identity_override_request_def Let_def split: sum.splits
      intro!: commit_bare_permitted api_change.override_requested[OF assms])

lemma approve_permitted:
  assumes "staff d a"
  shows "permitted d (committed (fst (approve_identity_override_request k a now (open_session d))))"
  using api_change.override_approved[OF assms]
  by (auto simp: approve_identity_override_request_def decide_override_def decide_in_def
      split: sum.splits option.splits dest!: scalar_one intro!: commit_bare_permitted)

lemma reject_permitted:
  assumes "staff d a"
  shows "permitted d (committed (fst (reject_identity_override_request k a now (open_session d))))"
  using api_change.override_rejected[OF assms]
  by (auto simp: reject_identity_override_request_def decide_override_def decide_in_def
      split: sum.splits option.splits dest!: scalar_one intro!: commit_bare_permitted)

lemma update_role_permitted:
  assumes "staff d a"
  shows "permitted d (committed (fst (update_admin_user_role k role a reason i t (open_session d))))"
proof (cases "get_row au_id k (db_admin_users d)")
  case None
  then show ?thesis by (simp add: update_admin_user_role_def)
next
  case (Some x)
  define u where "u = \<lparr> ara_id = i, ara_target_admin_id = k, ara_changed_by_admin_id = au_id a,
    ara_previous_role = au_role x, ara_new_role = role, ara_reason = reason, ara_created_at = t \<rparr>"
  show ?thesis
  proof (cases "au_id a = k \<or> (role = AR_HEAD \<and> au_role a \<noteq> AR_HEAD) \<or> \<not> List.member [AR_ADMIN, AR_HEAD] (au_role a)")
    case True
    then have "fst (update_admin_user_role k role a reason i t (open_session d)) = open_session d"
      by (auto simp: update_admin_user_role_def)
    then show ?thesis by simp
  next
    case False
    have "api_change d (change_role_in u d)"
      using False get_row_Some[OF Some] by (intro api_change.role_changed[OF assms]) (auto simp: u_def)
    then have "permitted d (committed (fst (commit_bare r (open_session d\<lparr> working := change_role_in u d \<rparr>))))"
      for r :: admin_user
      by (intro commit_bare_permitted) simp_all
    moreover have "update_admin_user_role k role a reason i t (open_session d)
        = commit_bare (x\<lparr> au_role := role \<rparr>) (open_session d\<lparr> working := change_role_in u d \<rparr>)"
      using False Some
      by (auto simp: update_admin_user_role_def Let_def change_role_in_def with_role_def[abs_def] u_def)
    ultimately show ?thesis by simp
  qed
qed

section \<open>The routes\<close>

lemma reply_db: "fst (reply handle body res) = committed (fst res)"
  by (auto simp: reply_def split: prod.splits sum.splits)

lemma unreturned_db:
  "fst (case reply handle body res of (d, Inl e) \<Rightarrow> (d, Inl (f e)) | (d, Inr r) \<Rightarrow> (d, Inl (g r))) = committed (fst res)"
  by (auto simp: reply_def split: prod.splits sum.splits)

lemma load_admin_staff: "load_admin_user d claims = Inr a \<Longrightarrow> staff d a"
  by (auto simp: load_admin_user_def staff_def split: sum.splits option.splits dest!: scalar_one)

lemma require_admin_staff:
  "require_admin_role deps now authorization d = Inr a \<Longrightarrow> staff d a"
  by (auto simp: require_admin_role_def load_admin_staff split: sum.splits if_splits)

lemma admin_route_permitted:
  "(\<And>a. staff d a \<Longrightarrow> permitted d (fst (handler a))) \<Longrightarrow>
   permitted d (fst (admin_route deps env authorization valid handler d))"
  by (auto simp: admin_route_def split: sum.splits dest: require_admin_staff)

lemma permittedI: "db_ok d' \<Longrightarrow> api_change d d' \<Longrightarrow> permitted d d'"
  by (simp add: permitted_def)

lemma route_termination_sel [simp]:
  "tr_exam_session_id (route_termination k t sid fid reason) = sid"
  "tr_triggering_flag_id (route_termination k t sid fid reason) = Some fid"
  "tr_id (route_termination k t sid fid reason) = k"
  by (simp_all add: route_termination_def)

lemma post_terminate_permitted: "permitted d (fst (post_terminate deps env authorization sid rq d))"
  by (auto simp: post_terminate_def Let_def assert_flag_present_def assert_transition_moves commit_def
      split: sum.splits option.splits dest!: get_row_Some intro!: permittedI api_change.terminated)

lemma seal_for_flag_permitted:
  assumes "seal_evidence_for_flag sha sto dr now aid diag req (open_session d, s) = ((db', s'), r)"
  shows "permitted d (committed db')"
proof -
  let ?a = "\<lambda>kind seal. artifact_row aid now req kind seal"
  have "sr_flag_id req \<in> fl_id ` set (db_flags d) \<Longrightarrow>
      api_change d (d\<lparr> db_evidence_artifacts := db_evidence_artifacts d @ [?a kind seal] \<rparr>)" for kind seal
    by (intro api_change.evidence) (simp add: artifact_row_def)
  with assms show ?thesis
    by (auto simp: seal_evidence_for_flag_def record_artifact_def commit_def Let_def get_row_None permitted_def
        split: if_splits sum.splits prod.splits)
qed

section \<open>Requests\<close>

datatype api_call =
    Terminate string "terminate_request option"
  | NewPolicy "create_policy_request option"
  | NewExemption "create_exemption_request option"
  | Review "uuid option" "review_request option"
  | NewOverride "create_override_request option"
  | ApproveOverride "uuid option"
  | RejectOverride "uuid option"
  | ChangeRole "uuid option" "update_role_request option"
  | SealEvidence string "uuid option" "uuid option" "seal_api_request option" bytes

fun api_step ::
  "('k, 's) orchestration_deps \<Rightarrow> call_env \<Rightarrow> string option \<Rightarrow> api_call \<Rightarrow> database \<times> 's \<Rightarrow> database \<times> 's" where
  "api_step deps env auth (Terminate sid rq) (d, s) = (fst (post_terminate deps env auth sid rq d), s)"
| "api_step deps env auth (NewPolicy rq) (d, s) = (fst (post_policy_config deps env auth rq d), s)"
| "api_step deps env auth (NewExemption rq) (d, s) = (fst (post_exemption deps env auth rq d), s)"
| "api_step deps env auth (Review fid rq) (d, s) = (fst (post_review deps env auth fid rq d), s)"
| "api_step deps env auth (NewOverride rq) (d, s) = (fst (post_create_identity_override_request deps env auth rq d), s)"
| "api_step deps env auth (ApproveOverride k) (d, s) = (fst (post_approve_identity_override_request deps env auth k d), s)"
| "api_step deps env auth (RejectOverride k) (d, s) = (fst (post_reject_identity_override_request deps env auth k d), s)"
| "api_step deps env auth (ChangeRole k rq) (d, s) = (fst (post_update_admin_role deps env auth k rq d), s)"
| "api_step deps env auth (SealEvidence diag sid fid rq blob) st = fst (post_seal_evidence deps env diag sid fid rq blob st)"

lemma api_step_permitted:
  assumes "db_ok d"
  shows "permitted d (fst (api_step deps env auth call (d, s)))"
proof (cases call)
  case (Terminate sid rq)
  then show ?thesis by (simp add: post_terminate_permitted)
next
  case (NewPolicy rq)
  then show ?thesis
    by (auto simp: post_policy_config_def reply_db intro!: admin_route_permitted create_policy_permitted assms)
next
  case (NewExemption rq)
  then show ?thesis
    by (auto simp: post_exemption_def reply_db intro!: admin_route_permitted create_exemption_permitted)
next
  case (Review fid rq)
  then show ?thesis by (auto simp: post_review_def reply_db intro!: admin_route_permitted review_permitted)
next
  case (NewOverride rq)
  then show ?thesis
    by (auto simp: post_create_identity_override_request_def reply_db intro!: admin_route_permitted create_override_permitted)
next
  case (ApproveOverride k)
  then show ?thesis
    by (auto simp: post_approve_identity_override_request_def reply_db intro!: admin_route_permitted approve_permitted)
next
  case (RejectOverride k)
  have "permitted d (fst (post_reject_identity_override_request deps env auth k d))"
    unfolding post_reject_identity_override_request_def
    by (intro admin_route_permitted) (simp add: unreturned_db reject_permitted)
  with RejectOverride show ?thesis by simp
next
  case (ChangeRole k rq)
  then show ?thesis
    by (auto simp: post_update_admin_role_def reply_db split: option.splits
        intro!: admin_route_permitted update_role_permitted)
next
  case (SealEvidence diag sid fid rq blob)
  then show ?thesis
    by (auto simp: post_seal_evidence_def split: prod.splits sum.splits dest: seal_for_flag_permitted)
qed

end
