(* ===== verification/LtiKeys.thy ===== *)
theory LtiKeys
  imports Prelude "HOL-Library.AList"
begin

text \<open>
  The discovery documents and key sets of LTI platforms (\<^verbatim>\<open>lti/discovery.py\<close>, \<^verbatim>\<open>lti/jwks.py\<close>),
  each with its cache.  An HTTP request is a function on the state of the network: it fails,
  or yields a status and the body as JSON where it is JSON.  \<open>urljoin\<close> and the key constructor
  \<^verbatim>\<open>PyJWK\<close> are parameters.
\<close>

record http_response =
  hr_status :: int
  hr_json :: "jval option"

type_synonym 'w http_get = "string \<Rightarrow> 'w \<Rightarrow> 'w \<times> (unit + http_response)"

section \<open>Discovery\<close>

datatype oidc_discovery_error = OidcDiscoveryError string

record oidc_discovery =
  od_issuer :: string
  od_authorization_endpoint :: string
  od_jwks_uri :: string
  od_token_endpoint :: "string option"

type_synonym discovery_cache = "(string \<times> oidc_discovery) list"

definition default_discovery_url :: "(string \<Rightarrow> string \<Rightarrow> string) \<Rightarrow> string \<Rightarrow> string" where
  "default_discovery_url urljoin issuer =
     (let base = (if issuer \<noteq> [] \<and> last issuer = CHR ''/'' then issuer else issuer @ ''/'') in
      urljoin base ''.well-known/openid-configuration'')"

text \<open>A member that is a non-empty string.\<close>

definition text_member :: "jdict \<Rightarrow> string \<Rightarrow> string option" where
  "text_member d k = (case map_of d k of Some (JStr s) \<Rightarrow> if s = [] then None else Some s | _ \<Rightarrow> None)"

definition build_discovery :: "string \<Rightarrow> jdict \<Rightarrow> oidc_discovery_error + oidc_discovery" where
  "build_discovery issuer payload =
     (case text_member payload ''issuer'' of
        None \<Rightarrow> Inl (OidcDiscoveryError ''OIDC discovery document is missing the issuer field'')
      | Some document_issuer \<Rightarrow>
          if document_issuer \<noteq> issuer
          then Inl (OidcDiscoveryError ''OIDC discovery issuer does not match the requested issuer'')
          else (case text_member payload ''authorization_endpoint'' of
             None \<Rightarrow> Inl (OidcDiscoveryError ''OIDC discovery document is missing authorization_endpoint'')
           | Some authz \<Rightarrow>
               (case text_member payload ''jwks_uri'' of
                  None \<Rightarrow> Inl (OidcDiscoveryError ''OIDC discovery document is missing jwks_uri'')
                | Some jwks_uri \<Rightarrow>
                    Inr \<lparr> od_issuer = document_issuer, od_authorization_endpoint = authz,
                          od_jwks_uri = jwks_uri, od_token_endpoint = text_member payload ''token_endpoint'' \<rparr>)))"

definition fetch_document ::
  "(string \<Rightarrow> string \<Rightarrow> string) \<Rightarrow> 'w http_get \<Rightarrow> string option \<Rightarrow> string \<Rightarrow> 'w
   \<Rightarrow> 'w \<times> (oidc_discovery_error + oidc_discovery)" where
  "fetch_document urljoin http override_url issuer w =
     (let url = (case override_url of
                   None \<Rightarrow> default_discovery_url urljoin issuer
                 | Some u \<Rightarrow> if u = [] then default_discovery_url urljoin issuer else u) in
      case http url w of
        (w1, Inl _) \<Rightarrow> (w1, Inl (OidcDiscoveryError ''failed to fetch OIDC discovery document''))
      | (w1, Inr resp) \<Rightarrow> (w1,
          if hr_status resp \<noteq> 200 then Inl (OidcDiscoveryError ''OIDC discovery document returned HTTP error'')
          else (case hr_json resp of
             None \<Rightarrow> Inl (OidcDiscoveryError ''OIDC discovery document is not valid JSON'')
           | Some (JDict payload) \<Rightarrow> build_discovery issuer payload
           | Some _ \<Rightarrow> Inl (OidcDiscoveryError ''OIDC discovery document is not a JSON object''))))"

definition discovery_fetch ::
  "(string \<Rightarrow> string \<Rightarrow> string) \<Rightarrow> 'w http_get \<Rightarrow> string option \<Rightarrow> string \<Rightarrow> discovery_cache \<times> 'w
   \<Rightarrow> (discovery_cache \<times> 'w) \<times> (oidc_discovery_error + oidc_discovery)" where
  "discovery_fetch urljoin http override_url issuer = (\<lambda>(cache, w).
     if issuer = [] then ((cache, w), Inl (OidcDiscoveryError ''issuer is required''))
     else (case map_of cache issuer of
        Some d \<Rightarrow> ((cache, w), Inr d)
      | None \<Rightarrow>
          (case fetch_document urljoin http override_url issuer w of
             (w1, Inl e) \<Rightarrow> ((cache, w1), Inl e)
           | (w1, Inr d) \<Rightarrow> ((AList.update issuer d cache, w1), Inr d))))"

text \<open>Every document that the cache hands out names the issuer it was asked for.\<close>

definition cache_names_issuer :: "discovery_cache \<Rightarrow> bool" where
  "cache_names_issuer cache = list_all (\<lambda>(i, d). od_issuer d = i) cache"

lemma build_discovery_issuer: "build_discovery issuer p = Inr d \<Longrightarrow> od_issuer d = issuer"
  by (auto simp: build_discovery_def split: option.splits if_splits)

lemma fetch_document_issuer: "snd (fetch_document urljoin http u issuer w) = Inr d \<Longrightarrow> od_issuer d = issuer"
  by (auto simp: fetch_document_def Let_def dest: build_discovery_issuer
      split: prod.splits sum.splits option.splits jval.splits if_splits)

lemma discovery_fetch_issuer:
  assumes "cache_names_issuer cache"
  shows "snd (discovery_fetch urljoin http u issuer (cache, w)) = Inr d \<Longrightarrow> od_issuer d = issuer"
    and "cache_names_issuer (fst (fst (discovery_fetch urljoin http u issuer (cache, w))))"
proof -
  have c: "map_of cache issuer = Some d \<Longrightarrow> od_issuer d = issuer" for d
    using assms by (auto simp: cache_names_issuer_def list_all_iff dest: map_of_SomeD)
  show "snd (discovery_fetch urljoin http u issuer (cache, w)) = Inr d \<Longrightarrow> od_issuer d = issuer"
    using c fetch_document_issuer[of urljoin http u issuer w]
    by (auto simp: discovery_fetch_def split: if_splits option.splits prod.splits sum.splits)
  have "od_issuer d = issuer \<Longrightarrow> cache_names_issuer (AList.update issuer d cache)" for d
    using assms by (induction cache) (auto simp: cache_names_issuer_def)
  then show "cache_names_issuer (fst (fst (discovery_fetch urljoin http u issuer (cache, w))))"
    using assms fetch_document_issuer[of urljoin http u issuer w]
    by (auto simp: discovery_fetch_def split: option.splits prod.splits sum.splits)
qed

section \<open>Key sets\<close>

datatype jwks_error = JwksError string

record 'k jwks_entry =
  je_jwks_uri :: string
  je_keys_by_kid :: "(string \<times> 'k) list"
  je_fetched_at :: rat
  je_ttl_seconds :: rat

type_synonym 'k jwks_cache = "(string \<times> 'k jwks_entry) list"

definition is_fresh :: "float_arith \<Rightarrow> rat \<Rightarrow> 'k jwks_entry \<Rightarrow> bool" where
  "is_fresh fa now e \<longleftrightarrow> f_sub fa now (je_fetched_at e) < je_ttl_seconds e"

definition new_jwks_cache :: "rat \<Rightarrow> py_error + 'k jwks_cache" where
  "new_jwks_cache ttl = (if ttl \<le> 0 then Inl (ValueError ''ttl_seconds must be positive'') else Inr [])"

text \<open>The loop over the \<^verbatim>\<open>keys\<close> array.\<close>

fun collect_keys :: "(jdict \<Rightarrow> 'k option) \<Rightarrow> jval list \<Rightarrow> (string \<times> 'k) list \<Rightarrow> jwks_error + (string \<times> 'k) list" where
  "collect_keys jwk_of [] acc = Inr acc"
| "collect_keys jwk_of (x # xs) acc =
     (case x of
        JDict d \<Rightarrow>
          (case text_member d ''kid'' of
             None \<Rightarrow> collect_keys jwk_of xs acc
           | Some kid \<Rightarrow>
               (case jwk_of d of
                  None \<Rightarrow> Inl (JwksError ''JWKS contains a malformed key'')
                | Some k \<Rightarrow> collect_keys jwk_of xs (AList.update kid k acc)))
      | _ \<Rightarrow> Inl (JwksError ''JWKS contains a non-object key entry''))"

definition jwks_refresh ::
  "rat \<Rightarrow> (jdict \<Rightarrow> 'k option) \<Rightarrow> 'w http_get \<Rightarrow> rat \<Rightarrow> string \<Rightarrow> 'k jwks_cache \<times> 'w
   \<Rightarrow> ('k jwks_cache \<times> 'w) \<times> (jwks_error + unit)" where
  "jwks_refresh ttl jwk_of http now jwks_uri = (\<lambda>(cache, w).
     case http jwks_uri w of
       (w1, Inl _) \<Rightarrow> ((cache, w1), Inl (JwksError ''failed to fetch JWKS''))
     | (w1, Inr resp) \<Rightarrow>
         if hr_status resp \<noteq> 200 then ((cache, w1), Inl (JwksError ''JWKS returned HTTP error''))
         else (case hr_json resp of
            None \<Rightarrow> ((cache, w1), Inl (JwksError ''JWKS is not valid JSON''))
          | Some (JDict payload) \<Rightarrow>
              (case map_of payload ''keys'' of
                 Some (JList xs) \<Rightarrow>
                   (case collect_keys jwk_of xs [] of
                      Inl e \<Rightarrow> ((cache, w1), Inl e)
                    | Inr keys \<Rightarrow>
                        ((AList.update jwks_uri \<lparr> je_jwks_uri = jwks_uri, je_keys_by_kid = keys,
                            je_fetched_at = now, je_ttl_seconds = ttl \<rparr> cache, w1), Inr ()))
               | _ \<Rightarrow> ((cache, w1), Inl (JwksError ''JWKS is missing the keys array'')))
          | Some _ \<Rightarrow> ((cache, w1), Inl (JwksError ''JWKS is not a JSON object''))))"

definition jwks_invalidate :: "string \<Rightarrow> 'k jwks_cache \<Rightarrow> 'k jwks_cache" where
  "jwks_invalidate jwks_uri cache = AList.delete jwks_uri cache"

definition cached_key :: "string \<Rightarrow> string \<Rightarrow> 'k jwks_cache \<Rightarrow> 'k option" where
  "cached_key jwks_uri kid cache =
     (case map_of cache jwks_uri of None \<Rightarrow> None | Some e \<Rightarrow> map_of (je_keys_by_kid e) kid)"

definition fresh_key :: "float_arith \<Rightarrow> rat \<Rightarrow> string \<Rightarrow> string \<Rightarrow> 'k jwks_cache \<Rightarrow> 'k option" where
  "fresh_key fa now jwks_uri kid cache =
     (case map_of cache jwks_uri of None \<Rightarrow> None
      | Some e \<Rightarrow> if is_fresh fa now e then map_of (je_keys_by_kid e) kid else None)"

text \<open>The readings of the clock are that of the freshness test and those of the two fetches.\<close>

definition jwks_get_key ::
  "float_arith \<Rightarrow> rat \<Rightarrow> (jdict \<Rightarrow> 'k option) \<Rightarrow> 'w http_get \<Rightarrow> (nat \<Rightarrow> rat) \<Rightarrow> string \<Rightarrow> string \<Rightarrow> 'k jwks_cache \<times> 'w
   \<Rightarrow> ('k jwks_cache \<times> 'w) \<times> (jwks_error + 'k)" where
  "jwks_get_key fa ttl jwk_of http clock jwks_uri kid s =
     (case fresh_key fa (clock 0) jwks_uri kid (fst s) of
        Some k \<Rightarrow> (s, Inr k)
      | None \<Rightarrow>
          (case jwks_refresh ttl jwk_of http (clock 1) jwks_uri s of
             (s1, Inl e) \<Rightarrow> (s1, Inl e)
           | (s1, Inr _) \<Rightarrow>
               (case cached_key jwks_uri kid (fst s1) of
                  Some k \<Rightarrow> (s1, Inr k)
                | None \<Rightarrow>
                    (case jwks_refresh ttl jwk_of http (clock 2) jwks_uri s1 of
                       (s2, Inl e) \<Rightarrow> (s2, Inl e)
                     | (s2, Inr _) \<Rightarrow>
                         (case cached_key jwks_uri kid (fst s2) of
                            Some k \<Rightarrow> (s2, Inr k)
                          | None \<Rightarrow> (s2, Inl (JwksError ''JWKS does not contain a key with this kid'')))))))"

text \<open>A network that keeps the list of requests.\<close>

definition logged :: "'w http_get \<Rightarrow> ('w \<times> string list) http_get" where
  "logged http url wl = (case http url (fst wl) of (w1, r) \<Rightarrow> ((w1, snd wl @ [url]), r))"

lemma refresh_logs:
  "snd (snd (fst (jwks_refresh ttl jwk_of (logged http) t uri s))) = snd (snd s) @ [uri]"
  by (cases s) (auto simp: jwks_refresh_def logged_def split: prod.splits sum.splits option.splits jval.splits)

lemma refresh_success_entry:
  "snd (jwks_refresh ttl jwk_of http t uri s) = Inr u \<Longrightarrow>
   \<exists>e. map_of (fst (fst (jwks_refresh ttl jwk_of http t uri s))) uri = Some e \<and> je_fetched_at e = t \<and> je_ttl_seconds e = ttl"
  by (cases s) (auto simp: jwks_refresh_def update_conv' split: prod.splits sum.splits option.splits jval.splits if_splits)

text \<open>Looking up a key makes at most two requests, all to the key set's address, and none when a
  fresh cached set has the key; a key that is returned is the one that the cache then holds
  under that name.\<close>

theorem jwks_lookup_bounded:
  assumes "jwks_get_key fa ttl jwk_of (logged http) c uri kid (cache, w, reqs) = ((cache', w', reqs'), r)"
  shows "\<exists>n\<le>2. reqs' = reqs @ replicate n uri \<and> (n = 0 \<longleftrightarrow> fresh_key fa (c 0) uri kid cache \<noteq> None) \<and>
           (\<forall>k. r = Inr k \<longrightarrow> cached_key uri kid cache' = Some k)"
proof (cases "fresh_key fa (c 0) uri kid cache")
  case (Some k)
  then have "cached_key uri kid cache = Some k"
    by (auto simp: fresh_key_def cached_key_def split: option.splits if_splits)
  with Some assms show ?thesis by (intro exI[of _ 0]) (auto simp: jwks_get_key_def)
next
  case None
  obtain c1 w1 l1 r1 where s1: "jwks_refresh ttl jwk_of (logged http) (c 1) uri (cache, w, reqs) = ((c1, w1, l1), r1)"
    by (metis surj_pair)
  obtain c2 w2 l2 r2 where s2: "jwks_refresh ttl jwk_of (logged http) (c 2) uri (c1, w1, l1) = ((c2, w2, l2), r2)"
    by (metis surj_pair)
  have l: "l1 = reqs @ [uri]" "l2 = l1 @ [uri]"
    using refresh_logs[of ttl jwk_of http "c 1" uri "(cache, w, reqs)"]
      refresh_logs[of ttl jwk_of http "c 2" uri "(c1, w1, l1)"] s1 s2 by simp_all
  have "(cache', w', reqs') = (c1, w1, l1) \<and> (\<forall>k. r = Inr k \<longrightarrow> cached_key uri kid c1 = Some k) \<or>
        (cache', w', reqs') = (c2, w2, l2) \<and> (\<forall>k. r = Inr k \<longrightarrow> cached_key uri kid c2 = Some k)"
    using assms None s1 s2 by (auto simp: jwks_get_key_def split: sum.splits option.splits)
  then show ?thesis
  proof
    assume "(cache', w', reqs') = (c1, w1, l1) \<and> (\<forall>k. r = Inr k \<longrightarrow> cached_key uri kid c1 = Some k)"
    then show ?thesis using l None by (intro exI[of _ 1]) simp
  next
    assume "(cache', w', reqs') = (c2, w2, l2) \<and> (\<forall>k. r = Inr k \<longrightarrow> cached_key uri kid c2 = Some k)"
    then show ?thesis using l None by (intro exI[of _ 2]) (simp add: numeral_2_eq_2)
  qed
qed

text \<open>A platform whose first answer lacks the key and whose second has it.\<close>

definition rotating_http :: "nat http_get" where
  "rotating_http url n = (Suc n, Inr \<lparr> hr_status = 200,
     hr_json = Some (JDict [(''keys'', JList (if n = 0 then [] else [JDict [(''kid'', JStr ''k1'')]]))]) \<rparr>)"

theorem jwks_lookup_bounded_witness:
  "\<exists>n\<le>2. [''uri'', ''uri''] = [] @ replicate n ''uri'' \<and>
     (n = 0 \<longleftrightarrow> fresh_key exact_arith 0 ''uri'' ''k1'' ([] :: nat jwks_cache) \<noteq> None) \<and>
     (\<forall>k. Inr (5 :: nat) = (Inr k :: jwks_error + nat) \<longrightarrow> cached_key ''uri'' ''k1''
        [(''uri'', \<lparr> je_jwks_uri = ''uri'', je_keys_by_kid = [(''k1'', 5 :: nat)], je_fetched_at = 0, je_ttl_seconds = 600 \<rparr>)]
        = Some k)"
  by (rule jwks_lookup_bounded[of exact_arith 600 "\<lambda>_. Some 5" rotating_http "\<lambda>_. 0" "''uri''" "''k1''" "[]" 0 "[]" _ 2])
    (simp add: jwks_get_key_def jwks_refresh_def logged_def rotating_http_def fresh_key_def cached_key_def
      text_member_def)

end
