(* ===== verification/LtiRoutes.thy ===== *)
theory LtiRoutes
  imports LtiService LtiKeys LaunchStore DemoData
begin

text \<open>
  The two endpoints of the launch flow (\<^verbatim>\<open>lti/routes.py\<close>).  \<open>router_deps\<close> holds what the router is
  built with, together with the third-party functions that the handlers call; \<open>launch_world\<close> is
  the state they work on: the launch-state store, the two caches, the network and the committed
  database.  A request is handled in one step; the random values, identifiers and clock readings
  it draws are its arguments.  An exception that no handler catches is the response \<open>Raised\<close>.
\<close>

section \<open>State and responses\<close>

record ('s, 'k, 'w) router_deps =
  dp_settings :: lti_settings
  dp_store :: "'s launch_ops"
  dp_http :: "'w http_get"
  dp_urljoin :: "string \<Rightarrow> string \<Rightarrow> string"
  dp_urlencode :: "(string \<times> string) list \<Rightarrow> string"
  dp_jwk_of :: "jdict \<Rightarrow> 'k option"
  dp_algorithm_name :: "'k \<Rightarrow> string option"
  dp_jwks_ttl :: rat
  dp_arith :: float_arith
  dp_jwt :: "'k jwt_lib"
  dp_decode :: "jdict \<Rightarrow> lti_id_token option"

record ('s, 'k, 'w) launch_world =
  lw_store :: 's
  lw_discovery :: discovery_cache
  lw_jwks :: "'k jwks_cache"
  lw_net :: 'w
  lw_db :: database

datatype lti_response =
    Found string
  | HttpError int string
  | Raised

fun is_found :: "lti_response \<Rightarrow> bool" where
  "is_found (Found _) = True"
| "is_found _ = False"

record launch_times =
  lt_peek :: "nat \<Rightarrow> rat"
  lt_consume :: "nat \<Rightarrow> rat"
  lt_keys :: "nat \<Rightarrow> rat"
  lt_seconds :: int
  lt_now :: timestamp

definition LAUNCH_ERROR_HTTP :: "(string \<times> int) list" where
  "LAUNCH_ERROR_HTTP =
     [(''signature_invalid'', 400), (''claims_invalid'', 400), (''policy_not_found'', 400),
      (''state_unknown'', 400), (''state_expired'', 400), (''nonce_mismatch'', 400),
      (''audience_invalid'', 400), (''issuer_invalid'', 400), (''discovery_error'', 502)]"

definition http_error :: "string \<Rightarrow> lti_response" where
  "http_error code = HttpError (case map_of LAUNCH_ERROR_HTTP code of None \<Rightarrow> 400 | Some n \<Rightarrow> n) code"

definition or_default :: "string option \<Rightarrow> string \<Rightarrow> string" where
  "or_default o' d = (case o' of None \<Rightarrow> d | Some s \<Rightarrow> if s = [] then d else s)"

section \<open>Login\<close>

definition login_params ::
  "lti_settings \<Rightarrow> string option \<Rightarrow> string \<Rightarrow> string \<Rightarrow> string \<Rightarrow> string \<Rightarrow> (string \<times> string) list" where
  "login_params cfg client_id login_hint lti_message_hint state nonce =
     [(''scope'', ''openid''), (''response_type'', ''id_token''), (''response_mode'', ''form_post''),
      (''prompt'', ''none''), (''client_id'', or_default client_id (ls_tool_client_id cfg)),
      (''redirect_uri'', ls_launch_url cfg), (''login_hint'', login_hint), (''state'', state),
      (''nonce'', nonce), (''lti_message_hint'', lti_message_hint)]"

record login_query =
  lq_iss :: string
  lq_login_hint :: string
  lq_target_link_uri :: string
  lq_lti_message_hint :: string
  lq_client_id :: "string option"

definition lti_login ::
  "('s, 'k, 'w) router_deps \<Rightarrow> login_query \<Rightarrow> (nat \<Rightarrow> rat) \<Rightarrow> string \<Rightarrow> string \<Rightarrow> ('s, 'k, 'w) launch_world
   \<Rightarrow> ('s, 'k, 'w) launch_world \<times> lti_response" where
  "lti_login deps q clock state nonce w =
     (let cfg = dp_settings deps in
      if lq_iss q = [] \<or> lq_login_hint q = [] \<or> lq_target_link_uri q = [] \<or> lq_lti_message_hint q = []
      then (w, HttpError 422 ''validation'')
      else if lq_target_link_uri q \<noteq> ls_launch_url cfg then (w, http_error ''claims_invalid'')
      else (case discovery_fetch (dp_urljoin deps) (dp_http deps) (ls_oidc_discovery_url cfg) (lq_iss q)
                   (lw_discovery w, lw_net w) of
        ((dc, net), Inl _) \<Rightarrow> (w\<lparr> lw_discovery := dc, lw_net := net \<rparr>, http_error ''discovery_error'')
      | ((dc, net), Inr discovery) \<Rightarrow>
          (let w1 = w\<lparr> lw_discovery := dc, lw_net := net \<rparr> in
           case lo_register (dp_store deps) clock state nonce (ls_launch_url cfg) (lq_iss q) (lw_store w1) of
             (st, Inl _) \<Rightarrow> (w1\<lparr> lw_store := st \<rparr>, Raised)
           | (st, Inr _) \<Rightarrow>
               (w1\<lparr> lw_store := st \<rparr>,
                Found (od_authorization_endpoint discovery @ ''?'' @
                  dp_urlencode deps (login_params cfg (lq_client_id q) (lq_login_hint q)
                    (lq_lti_message_hint q) state nonce))))))"

section \<open>Launch\<close>

text \<open>Steps 1 and 2: the key identifier, the unverified payload and its issuer.\<close>

definition launch_header :: "'k jwt_lib \<Rightarrow> string \<Rightarrow> lti_response + string \<times> jdict \<times> string" where
  "launch_header jw id_token =
     (case jw_header jw id_token of
        Inl _ \<Rightarrow> Inl (http_error ''claims_invalid'')
      | Inr header \<Rightarrow>
          (case text_member header ''kid'' of
             None \<Rightarrow> Inl (http_error ''claims_invalid'')
           | Some kid \<Rightarrow>
               (case jw_unverified jw id_token of
                  Inl _ \<Rightarrow> Inl (http_error ''claims_invalid'')
                | Inr unverified \<Rightarrow>
                    (case text_member unverified ''iss'' of
                       None \<Rightarrow> Inl (http_error ''claims_invalid'')
                     | Some issuer \<Rightarrow> Inr (kid, unverified, issuer)))))"

text \<open>Step 2a: the issuer that the state was registered for.\<close>

definition launch_peek ::
  "('s, 'k, 'w) router_deps \<Rightarrow> launch_times \<Rightarrow> jdict \<Rightarrow> string \<Rightarrow> ('s, 'k, 'w) launch_world
   \<Rightarrow> ('s, 'k, 'w) launch_world \<times> (lti_response + unit)" where
  "launch_peek deps tm unverified issuer w =
     (case text_member unverified ''state'' of
        None \<Rightarrow> (w, Inr ())
      | Some state \<Rightarrow>
          (case lo_peek (dp_store deps) (lt_peek tm) state (lw_store w) of
             (st, registered) \<Rightarrow>
               (w\<lparr> lw_store := st \<rparr>,
                if registered \<noteq> None \<and> registered \<noteq> Some issuer then Inl (http_error ''issuer_invalid'')
                else Inr ())))"

text \<open>Step 3: the platform's key.\<close>

definition launch_key ::
  "('s, 'k, 'w) router_deps \<Rightarrow> launch_times \<Rightarrow> string \<Rightarrow> string \<Rightarrow> ('s, 'k, 'w) launch_world
   \<Rightarrow> ('s, 'k, 'w) launch_world \<times> (lti_response + 'k)" where
  "launch_key deps tm issuer kid w =
     (case discovery_fetch (dp_urljoin deps) (dp_http deps) (ls_oidc_discovery_url (dp_settings deps)) issuer
             (lw_discovery w, lw_net w) of
        ((dc, net), Inl _) \<Rightarrow> (w\<lparr> lw_discovery := dc, lw_net := net \<rparr>, Inl (http_error ''discovery_error''))
      | ((dc, net), Inr discovery) \<Rightarrow>
          (case jwks_get_key (dp_arith deps) (dp_jwks_ttl deps) (dp_jwk_of deps) (dp_http deps) (lt_keys tm)
                  (od_jwks_uri discovery) kid (lw_jwks w, net) of
             ((jc, net'), Inl _) \<Rightarrow>
               (w\<lparr> lw_discovery := dc, lw_jwks := jc, lw_net := net' \<rparr>, Inl (http_error ''signature_invalid''))
           | ((jc, net'), Inr k) \<Rightarrow> (w\<lparr> lw_discovery := dc, lw_jwks := jc, lw_net := net' \<rparr>, Inr k)))"

text \<open>Steps 4 to 6: the signature and the standard claims, the typed claims, the role.\<close>

definition launch_claims ::
  "('s, 'k, 'w) router_deps \<Rightarrow> launch_times \<Rightarrow> string \<Rightarrow> string \<Rightarrow> 'k \<Rightarrow> lti_response + lti_id_token \<times> app_role" where
  "launch_claims deps tm id_token issuer k =
     (let expected_aud = or_default (ls_audience_override (dp_settings deps)) (ls_tool_client_id (dp_settings deps)) in
      case jw_verify (dp_jwt deps) id_token k [or_default (dp_algorithm_name deps k) ''RS256''] expected_aud issuer
             [''exp'', ''iat'', ''iss'', ''aud'', ''sub'', ''nonce''] (lt_seconds tm) of
        Inl ExpiredSignatureError \<Rightarrow> Inl (http_error ''claims_invalid'')
      | Inl InvalidAudienceError \<Rightarrow> Inl (http_error ''audience_invalid'')
      | Inl InvalidIssuerError \<Rightarrow> Inl (http_error ''issuer_invalid'')
      | Inl InvalidTokenError \<Rightarrow> Inl (http_error ''signature_invalid'')
      | Inr verified \<Rightarrow>
          (case from_jwt_payload (dp_decode deps) (JDict (AList.delete ''state'' verified)) of
             Inl _ \<Rightarrow> Inl (http_error ''claims_invalid'')
           | Inr claims \<Rightarrow>
               (case require_policy_config_name claims of
                  Inl _ \<Rightarrow> Inl (http_error ''claims_invalid'')
                | Inr _ \<Rightarrow>
                    (case map_roles (it_roles claims) of
                       Inl _ \<Rightarrow> Inl (http_error ''claims_invalid'')
                     | Inr role \<Rightarrow> Inr (claims, role)))))"

text \<open>Step 7: the one-shot state.\<close>

definition launch_consume ::
  "('s, 'k, 'w) router_deps \<Rightarrow> launch_times \<Rightarrow> jdict \<Rightarrow> string \<Rightarrow> ('s, 'k, 'w) launch_world
   \<Rightarrow> ('s, 'k, 'w) launch_world \<times> (lti_response + unit)" where
  "launch_consume deps tm unverified nonce w =
     (case text_member unverified ''state'' of
        None \<Rightarrow> (w, Inl (http_error ''claims_invalid''))
      | Some state \<Rightarrow>
          (case lo_consume (dp_store deps) (lt_consume tm) state nonce (lw_store w) of
             (st, r) \<Rightarrow>
               (w\<lparr> lw_store := st \<rparr>,
                case r of
                  Inr _ \<Rightarrow> Inr ()
                | Inl (LaunchStateMissing _) \<Rightarrow> Inl (http_error ''state_unknown'')
                | Inl (LaunchStateExpired _) \<Rightarrow> Inl (http_error ''state_expired'')
                | Inl (LaunchRaised (ValueError _)) \<Rightarrow> Inl (http_error ''nonce_mismatch'')
                | Inl _ \<Rightarrow> Inl Raised)))"

text \<open>Step 8: one transaction.\<close>

definition launch_persist ::
  "('s, 'k, 'w) router_deps \<Rightarrow> launch_times \<Rightarrow> launch_ids \<Rightarrow> lti_id_token \<Rightarrow> app_role \<Rightarrow> database
   \<Rightarrow> database \<times> lti_response" where
  "launch_persist deps tm ids claims role d =
     (case process_launch (dp_jwt deps) (dp_settings deps) (lt_now tm) ids claims role (open_session d) of
        (db, Inr result) \<Rightarrow>
          (case commit db of
             Inl _ \<Rightarrow> (committed (rollback db), Raised)
           | Inr db1 \<Rightarrow> (committed db1, Found (lr_redirect_url result)))
      | (db, Inl (LtiLaunchError code)) \<Rightarrow>
          (committed (rollback db), http_error (lti_launch_error_code_value code))
      | (db, Inl _) \<Rightarrow> (committed (rollback db), Raised))"

definition lti_launch ::
  "('s, 'k, 'w) router_deps \<Rightarrow> launch_times \<Rightarrow> launch_ids \<Rightarrow> string \<Rightarrow> ('s, 'k, 'w) launch_world
   \<Rightarrow> ('s, 'k, 'w) launch_world \<times> lti_response" where
  "lti_launch deps tm ids id_token w =
     (case launch_header (dp_jwt deps) id_token of
        Inl e \<Rightarrow> (w, e)
      | Inr (kid, unverified, issuer) \<Rightarrow>
     (case launch_peek deps tm unverified issuer w of
        (w1, Inl e) \<Rightarrow> (w1, e)
      | (w1, Inr _) \<Rightarrow>
     (case launch_key deps tm issuer kid w1 of
        (w2, Inl e) \<Rightarrow> (w2, e)
      | (w2, Inr k) \<Rightarrow>
     (case launch_claims deps tm id_token issuer k of
        Inl e \<Rightarrow> (w2, e)
      | Inr (claims, role) \<Rightarrow>
     (case launch_consume deps tm unverified (it_nonce claims) w2 of
        (w3, Inl e) \<Rightarrow> (w3, e)
      | (w3, Inr _) \<Rightarrow>
          (case launch_persist deps tm ids claims role (lw_db w3) of
             (d, resp) \<Rightarrow> (w3\<lparr> lw_db := d \<rparr>, resp)))))))"

end
