(* ===== verification/LtiProps.thy ===== *)
theory LtiProps
  imports LtiRoutes
begin

text \<open>
  Properties of the launch flow: what a launch does to the database, which registered login a
  successful launch belongs to, and that a login is good for at most one launch.
\<close>

section \<open>The transaction\<close>

text \<open>What a successful launch of \<open>claims\<close> as \<open>role\<close> has done: one new pending session, bound to a
  current policy of the claimed name and to the participant of the claimed issuer and subject,
  whose consent is its start; for the administrative roles an administrator of the same identity
  with at least that privilege; nobody demoted and no other table touched.\<close>

definition new_session_ok :: "lti_id_token \<Rightarrow> timestamp \<Rightarrow> database \<Rightarrow> exam_session \<Rightarrow> bool" where
  "new_session_ok claims now d es \<longleftrightarrow>
     es_status es = SS_PENDING \<and> es_lti_issuer es = it_issuer claims \<and>
     es_exam_reference es = rl_id (it_resource_link claims) \<and>
     es_consent_recorded_at es = Some now \<and> es_started_at es = Some now \<and> es_ended_at es = None \<and>
     list_ex (\<lambda>p. pc_id p = es_policy_config_id es \<and> policy_is_current p \<and>
       Some (pc_name p) = cu_policy_config_name (it_custom claims)) (db_policy_configs d) \<and>
     list_ex (\<lambda>p. pt_id p = es_participant_id es \<and> participant_key p = (it_issuer claims, it_subject claims))
       (db_participants d)"

definition admin_ok :: "lti_id_token \<Rightarrow> app_role \<Rightarrow> database \<Rightarrow> database \<Rightarrow> bool" where
  "admin_ok claims role d d' \<longleftrightarrow>
     (if role = APP_LEARNER then db_admin_users d' = db_admin_users d
      else not_demoted (db_admin_users d) (db_admin_users d') \<and>
           list_ex (\<lambda>a. admin_key a = (it_issuer claims, it_subject claims) \<and>
             admin_role_privilege (au_role a) \<ge> admin_role_privilege (admin_role_for role)) (db_admin_users d'))"

definition launch_effect :: "lti_id_token \<Rightarrow> app_role \<Rightarrow> timestamp \<Rightarrow> database \<Rightarrow> database \<Rightarrow> bool" where
  "launch_effect claims role now d d' \<longleftrightarrow>
     same_but_launch d d' \<and> admin_ok claims role d d' \<and>
     length (db_exam_sessions d') = Suc (length (db_exam_sessions d)) \<and>
     take (length (db_exam_sessions d)) (db_exam_sessions d') = db_exam_sessions d \<and>
     new_session_ok claims now d' (last (db_exam_sessions d'))"

lemma resolve_policy_Inr:
  "resolve_policy nm d = Inr p \<Longrightarrow> p \<in> set (db_policy_configs d) \<and> pc_name p = nm \<and> policy_is_current p"
  by (auto simp: resolve_policy_def policy_is_current_def split: sum.splits option.splits dest!: scalar_Some)

lemma process_launch_effect:
  assumes "process_launch jw cfg now ids claims role (open_session d) = (s', Inr res)" "db_ok d"
  shows "launch_effect claims role now d (working s') \<and> committed s' = d"
proof -
  from assms(1) obtain nm where nm: "require_policy_config_name claims = Inr nm"
    by (auto simp: process_launch_def split: sum.splits)
  from assms(1) nm obtain policy where pol: "resolve_policy nm d = Inr policy"
    by (auto simp: process_launch_def split: sum.splits)
  from assms(1) nm pol obtain s1 p where s1: "upsert_participant ids claims (open_session d) = (s1, Inr p)"
    by (auto simp: process_launch_def split: sum.splits prod.splits)
  define es where "es = launched_session ids claims now (pt_id p) (pc_id policy)"
  from assms(1) nm pol s1 obtain s2 es' where s2': "create_session es s1 = (s2, Inr es')"
    by (auto simp: process_launch_def es_def split: sum.splits prod.splits)
  then have s2: "create_session es s1 = (s2, Inr es)" using create_session_Inr by blast
  from assms(1) nm pol s1 s2 have s3: "(if is_admin_route role then upsert_admin ids claims role s2 else (s2, Inr ())) = (s', Inr ())"
    by (auto simp: process_launch_def es_def Let_def split: sum.splits prod.splits if_splits)
  have P: "db_ok (working s1)" "committed s1 = d" "p \<in> set (db_participants (working s1))"
      "participant_key p = (it_issuer claims, it_subject claims)"
      "working s1 = d\<lparr> db_participants := db_participants (working s1) \<rparr>"
    using upsert_participant_Inr[OF s1] assms(2) by simp_all
  have S: "committed s2 = d" "working s2 = (working s1)\<lparr> db_exam_sessions := db_exam_sessions (working s1) @ [es] \<rparr>"
    using create_session_Inr[OF s2] P(2) by auto
  have A: "committed s' = d" "working s' = (working s2)\<lparr> db_admin_users := db_admin_users (working s') \<rparr>"
      "admin_ok claims role (working s2) (working s')"
    using s3 upsert_admin_Inr[of ids claims role s2 s' "()"] S(1)
    by (auto simp: is_admin_route_def admin_ok_def List.member_iff split: if_splits intro: app_role.exhaust[of role])
  define ps where "ps = db_participants (working s1)"
  define as where "as = db_admin_users (working s')"
  have w: "working s' = d\<lparr> db_participants := ps, db_exam_sessions := db_exam_sessions d @ [es], db_admin_users := as \<rparr>"
    by (subst A(2), subst S(2), subst P(5)) (simp add: ps_def as_def, subst P(5), simp)
  have "db_admin_users (working s2) = db_admin_users d" by (subst S(2), subst P(5)) simp
  then have "admin_ok claims role d (working s')" using A(3) by (auto simp: admin_ok_def split: if_splits)
  moreover have "new_session_ok claims now (working s') es"
    using resolve_policy_Inr[OF pol] P(3,4) nm[unfolded require_policy_config_name_Inr]
    by (auto simp: new_session_ok_def es_def launched_session_def w list_ex_iff ps_def)
  ultimately show ?thesis using A(1) by (simp add: launch_effect_def same_but_launch_def w)
qed

lemma process_launch_committed:
  "process_launch jw cfg now ids claims role s = (s', r) \<Longrightarrow> committed s' = committed s"
  by (auto simp: process_launch_def upsert_participant_def create_session_def upsert_admin_def flushed_def flush_def Let_def
      split: sum.splits prod.splits option.splits if_splits)

lemma launch_persist_effect:
  assumes "launch_persist deps tm ids claims role d = (d', resp)" "db_ok d"
  shows "db_ok d' \<and> (if is_found resp then launch_effect claims role (lt_now tm) d d' else d' = d)"
proof (cases "process_launch (dp_jwt deps) (dp_settings deps) (lt_now tm) ids claims role (open_session d)")
  case (Pair s1 r)
  have c: "committed s1 = d" using process_launch_committed[OF Pair] by simp
  show ?thesis
  proof (cases r)
    case (Inl e)
    with assms Pair c show ?thesis
      by (cases e) (auto simp: launch_persist_def http_error_def)
  next
    case (Inr res)
    note eff = process_launch_effect[OF Pair[unfolded Inr] assms(2)]
    show ?thesis
    proof (cases "commit s1")
      case (Inl e)
      with assms Pair \<open>r = Inr res\<close> c show ?thesis by (auto simp: launch_persist_def)
    next
      case (Inr s2)
      with assms Pair \<open>r = Inr res\<close> have "d' = committed s2" "is_found resp" by (auto simp: launch_persist_def)
      with commit_Inr[OF Inr] eff show ?thesis by auto
    qed
  qed
qed

section \<open>A whole launch\<close>

lemma launch_peek_keeps:
  "launch_peek deps tm unv issuer w = (w1, r) \<Longrightarrow>
     lw_db w1 = lw_db w \<and> lw_discovery w1 = lw_discovery w \<and> lw_jwks w1 = lw_jwks w \<and> lw_net w1 = lw_net w"
  by (auto simp: launch_peek_def split: option.splits prod.splits)

lemma launch_key_keeps:
  "launch_key deps tm issuer kid w = (w1, r) \<Longrightarrow> lw_db w1 = lw_db w \<and> lw_store w1 = lw_store w"
  by (auto simp: launch_key_def split: sum.splits prod.splits)

lemma launch_consume_keeps:
  "launch_consume deps tm unv nonce w = (w1, r) \<Longrightarrow> lw_db w1 = lw_db w"
  by (auto simp: launch_consume_def split: option.splits prod.splits)

lemma error_not_found [simp]: "\<not> is_found (http_error c)"
  by (simp add: http_error_def)

lemma launch_stage_errors:
  "launch_header jw tok = Inl e \<Longrightarrow> \<not> is_found e"
  "launch_peek deps tm unv issuer w = (w1, Inl e) \<Longrightarrow> \<not> is_found e"
  "launch_key deps tm issuer kid w = (w1, Inl e) \<Longrightarrow> \<not> is_found e"
  "launch_claims deps tm tok issuer k = Inl e \<Longrightarrow> \<not> is_found e"
  "launch_consume deps tm unv nonce w = (w1, Inl e) \<Longrightarrow> \<not> is_found e"
  by (auto simp: launch_header_def launch_peek_def launch_key_def launch_claims_def launch_consume_def Let_def
      split: sum.splits option.splits prod.splits if_splits jwt_error.splits launch_state_error.splits py_error.splits)

text \<open>A launch stops at one of the first five stages, or reaches the transaction.\<close>

lemma lti_launch_cases:
  assumes "lti_launch deps tm ids tok w = (w', resp)"
  obtains (stopped) "\<not> is_found resp" "lw_db w' = lw_db w"
  | (persisted) kid unv issuer w1 w2 k claims role w3 d where
    "launch_header (dp_jwt deps) tok = Inr (kid, unv, issuer)"
    "launch_peek deps tm unv issuer w = (w1, Inr ())"
    "launch_key deps tm issuer kid w1 = (w2, Inr k)"
    "launch_claims deps tm tok issuer k = Inr (claims, role)"
    "launch_consume deps tm unv (it_nonce claims) w2 = (w3, Inr ())"
    "launch_persist deps tm ids claims role (lw_db w) = (d, resp)" "w' = w3\<lparr> lw_db := d \<rparr>"
proof (cases "launch_header (dp_jwt deps) tok")
  case (Inl e)
  with assms launch_stage_errors(1)[OF Inl] stopped show ?thesis by (auto simp: lti_launch_def)
next
  case (Inr h)
  obtain kid unv issuer where h: "launch_header (dp_jwt deps) tok = Inr (kid, unv, issuer)"
    using Inr by (cases h) auto
  obtain w1 r1 where p: "launch_peek deps tm unv issuer w = (w1, r1)" by fastforce
  note kp = launch_peek_keeps[OF p]
  show ?thesis
  proof (cases r1)
    case (Inl e)
    with assms h p kp launch_stage_errors(2)[OF p[unfolded Inl]] stopped show ?thesis by (auto simp: lti_launch_def)
  next
    case r1: (Inr u)
    obtain w2 r2 where k: "launch_key deps tm issuer kid w1 = (w2, r2)" by fastforce
    note kk = launch_key_keeps[OF k]
    show ?thesis
    proof (cases r2)
      case (Inl e)
      with assms h p k kp kk r1 launch_stage_errors(3)[OF k[unfolded Inl]] stopped show ?thesis
        by (auto simp: lti_launch_def)
    next
      case r2: (Inr key)
      show ?thesis
      proof (cases "launch_claims deps tm tok issuer key")
        case (Inl e)
        with assms h p k kp kk r1 r2 launch_stage_errors(4)[OF Inl] stopped show ?thesis
          by (auto simp: lti_launch_def)
      next
        case (Inr cr)
        obtain claims role where c: "launch_claims deps tm tok issuer key = Inr (claims, role)"
          using Inr by (cases cr) auto
        obtain w3 r3 where s: "launch_consume deps tm unv (it_nonce claims) w2 = (w3, r3)" by fastforce
        note ks = launch_consume_keeps[OF s]
        show ?thesis
        proof (cases r3)
          case (Inl e)
          with assms h p k c s kp kk ks r1 r2 launch_stage_errors(5)[OF s[unfolded Inl]] stopped show ?thesis
            by (auto simp: lti_launch_def)
        next
          case r3: (Inr u')
          obtain d r where d: "launch_persist deps tm ids claims role (lw_db w) = (d, r)" by fastforce
          have "w' = w3\<lparr> lw_db := d \<rparr>" "resp = r"
            using assms h p k c s d kp kk ks r1 r2 r3 by (auto simp: lti_launch_def)
          with persisted h p k c s d r1 r2 r3 show ?thesis by simp
        qed
      qed
    qed
  qed
qed

text \<open>C21: A launch is one transaction.  Whatever the token, the platform's answers, the clocks and the
  generated identifiers, a launch that is not answered with the redirect leaves the database as
  it was; one that is has added exactly one pending session of the verified claims, bound to a
  current policy and the right participant, demoted no administrator and touched no other
  table.  The database stays consistent.\<close>

theorem launch_atomic:
  assumes "lti_launch deps tm ids tok w = (w', resp)" "db_ok (lw_db w)"
  shows "db_ok (lw_db w') \<and>
    (if is_found resp
     then \<exists>issuer k claims role. launch_claims deps tm tok issuer k = Inr (claims, role) \<and>
            launch_effect claims role (lt_now tm) (lw_db w) (lw_db w')
     else lw_db w' = lw_db w)"
  using assms(1)
proof (cases rule: lti_launch_cases)
  case stopped
  with assms(2) show ?thesis by simp
next
  case (persisted kid unv issuer w1 w2 k claims role w3 d)
  with launch_persist_effect[OF persisted(6) assms(2)] show ?thesis by (auto split: if_splits)
qed

section \<open>One launch per login\<close>

datatype lti_event =
    Login login_query "nat \<Rightarrow> rat" string string
  | Launch launch_times launch_ids string

fun run_event ::
  "('s, 'k, 'w) router_deps \<Rightarrow> lti_event \<Rightarrow> ('s, 'k, 'w) launch_world \<Rightarrow> ('s, 'k, 'w) launch_world \<times> lti_response" where
  "run_event deps (Login q clock state nonce) w = lti_login deps q clock state nonce w"
| "run_event deps (Launch tm ids tok) w = lti_launch deps tm ids tok w"

fun run_events ::
  "('s, 'k, 'w) router_deps \<Rightarrow> lti_event list \<Rightarrow> ('s, 'k, 'w) launch_world
   \<Rightarrow> ('s, 'k, 'w) launch_world \<times> lti_response list" where
  "run_events deps [] w = (w, [])"
| "run_events deps (e # es) w =
     (let (w1, r) = run_event deps e w; (w2, rs) = run_events deps es w1 in (w2, r # rs))"

text \<open>The state in a token, and the events that issue and use it.\<close>

definition token_state :: "'k jwt_lib \<Rightarrow> string \<Rightarrow> string option" where
  "token_state jw tok = (case jw_unverified jw tok of Inl _ \<Rightarrow> None | Inr unv \<Rightarrow> text_member unv ''state'')"

fun issues_state :: "string \<Rightarrow> lti_event \<Rightarrow> bool" where
  "issues_state x (Login q clock state nonce) = (state = x)"
| "issues_state x _ = False"

fun launched_with :: "'k jwt_lib \<Rightarrow> string \<Rightarrow> lti_event \<times> lti_response \<Rightarrow> bool" where
  "launched_with jw x (Launch tm ids tok, Found url) = (token_state jw tok = Some x)"
| "launched_with jw x _ = False"

context launch_store
begin

lemma login_budget:
  assumes "dp_store deps = sto" "lti_login deps q clock state nonce w = (w', r)"
  shows "of_bool (held (lw_store w') x) \<le> (of_bool (held (lw_store w) x) + of_bool (state = x) :: nat)"
proof -
  have "held (lw_store w) x \<or> x = state" if "held (lw_store w') x"
    using that assms(2) register_holds
    by (auto simp: lti_login_def Let_def assms(1) split: if_splits prod.splits sum.splits) blast+
  then show ?thesis by (auto simp: of_bool_def)
qed

lemma launch_peek_shrinks:
  assumes sto: "dp_store deps = sto" and "launch_peek deps tm unv issuer w = (w1, r)" "held (lw_store w1) x"
  shows "held (lw_store w) x"
  using assms(2,3) by (auto simp: launch_peek_def sto split: option.splits prod.splits dest: peek_shrinks)

lemma launch_consume_shrinks:
  assumes sto: "dp_store deps = sto" and "launch_consume deps tm unv nonce w = (w1, r)" "held (lw_store w1) x"
  shows "held (lw_store w) x"
  using assms(2,3) by (auto simp: launch_consume_def sto split: option.splits prod.splits dest: consume_shrinks)

lemma launch_consume_ends:
  assumes sto: "dp_store deps = sto" and "launch_consume deps tm unv nonce w = (w1, Inr u)"
  obtains x where "text_member unv ''state'' = Some x" "held (lw_store w) x" "\<not> held (lw_store w1) x"
  using assms(2)
  by (auto simp: launch_consume_def sto split: option.splits prod.splits sum.splits launch_state_error.splits
      py_error.splits dest: consume_ends)

lemma lti_launch_shrinks:
  assumes "dp_store deps = sto" "lti_launch deps tm ids tok w = (w', r)" "held (lw_store w') x"
  shows "held (lw_store w) x"
  using assms launch_peek_shrinks[OF assms(1)] launch_consume_shrinks[OF assms(1)] launch_key_keeps[of deps tm]
  by (auto simp: lti_launch_def split: sum.splits prod.splits) (metis)+

lemma launch_budget:
  assumes sto: "dp_store deps = sto" and l: "lti_launch deps tm ids tok w = (w', r)"
  shows "of_bool (held (lw_store w') x) + of_bool (launched_with (dp_jwt deps) x (Launch tm ids tok, r))
    \<le> (of_bool (held (lw_store w) x) :: nat)"
proof (cases "launched_with (dp_jwt deps) x (Launch tm ids tok, r)")
  case False
  then show ?thesis using lti_launch_shrinks[OF sto l, of x] by (auto simp: of_bool_def)
next
  case True
  then have f: "is_found r" "token_state (dp_jwt deps) tok = Some x" by (cases r; simp)+
  from l show ?thesis
  proof (cases rule: lti_launch_cases)
    case (persisted kid unv issuer w1 w2 k claims role w3 d)
    obtain y where y: "text_member unv ''state'' = Some y" "held (lw_store w2) y" "\<not> held (lw_store w3) y"
      using launch_consume_ends[OF sto persisted(5)] .
    have "y = x" using y(1) f(2) persisted(1)
      by (auto simp: launch_header_def token_state_def split: sum.splits option.splits)
    with y persisted launch_key_keeps[OF persisted(3)] launch_peek_shrinks[OF sto persisted(2)] True show ?thesis
      by auto
  qed (use f in simp)
qed

lemma launches_bounded:
  assumes "dp_store deps = sto"
  shows "run_events deps es w = (w', rs) \<Longrightarrow>
    of_bool (held (lw_store w') x) + length (filter (launched_with (dp_jwt deps) x) (zip es rs))
      \<le> of_bool (held (lw_store w) x) + length (filter (issues_state x) es)"
proof (induction es arbitrary: w rs)
  case (Cons e es)
  then obtain w1 r rs1 where s: "run_event deps e w = (w1, r)" "run_events deps es w1 = (w', rs1)" "rs = r # rs1"
    by (auto simp: Let_def split: prod.splits)
  have "of_bool (held (lw_store w1) x) + of_bool (launched_with (dp_jwt deps) x (e, r))
      \<le> (of_bool (held (lw_store w) x) + of_bool (issues_state x e) :: nat)"
  proof (cases e)
    case (Login q clock state nonce)
    with login_budget[OF assms, of q clock state nonce w w1 r x] s(1) show ?thesis by simp
  next
    case (Launch tm ids tok)
    with launch_budget[OF assms, of tm ids tok w w1 r x] s(1) show ?thesis by simp
  qed
  with Cons.IH[OF s(2)] s(3) show ?case by auto
qed simp

end

text \<open>C19: With the memory store, over any sequence of logins and launches, the launches that succeed
  with a given state are at most as many as the logins that issued it; states are random, so
  a token is good for one launch.\<close>

theorem one_launch_per_login:
  assumes "dp_store deps = memory_launches fa ttl" "map_of (lw_store w) x = None"
    and "run_events deps es w = (w', rs)"
  shows "length (filter (launched_with (dp_jwt deps) x) (zip es rs)) \<le> length (filter (issues_state x) es)"
  using memory.launches_bounded[OF assms(1,3), of x] assms(2) by simp

text \<open>The same over Redis.\<close>

lemma one_launch_per_login_redis:
  assumes "redis_ok client live" "codecs_ok js" "dp_store deps = redis_launches client js ttl kp"
    and "\<not> redis_held live kp (lw_store w) x" "run_events deps es w = (w', rs)"
  shows "length (filter (launched_with (dp_jwt deps) x) (zip es rs)) \<le> length (filter (issues_state x) es)"
  using launch_store.launches_bounded[OF redis_is_launch_store[OF assms(1,2)] assms(3,5), where x = x] assms(4) by simp

text \<open>With the memory store, a successful launch consumes a pending login of the same issuer and
  with the nonce of the verified claims, whose life had not ended.\<close>

theorem launch_belongs_to_login:
  assumes "dp_store deps = memory_launches fa ttl" "distinct (map fst (lw_store w))"
    and "lti_launch deps tm ids tok w = (w', Found url)"
  shows "\<exists>kid unv issuer k claims role state entry.
    launch_header (dp_jwt deps) tok = Inr (kid, unv, issuer) \<and>
    launch_claims deps tm tok issuer k = Inr (claims, role) \<and>
    text_member unv ''state'' = Some state \<and> map_of (lw_store w) state = Some entry \<and>
    le_issuer entry = issuer \<and> le_nonce entry = it_nonce claims \<and>
    \<not> aged fa ttl (lt_consume tm 0) entry \<and> map_of (lw_store w') state = None"
  using assms(3)
proof (cases rule: lti_launch_cases)
  case (persisted kid unv issuer w1 w2 k claims role w3 d)
  obtain state where st: "text_member unv ''state'' = Some state"
    using persisted(5) by (auto simp: launch_consume_def split: option.splits)
  have w1: "lw_store w1 = fst (purge_expired fa ttl (lt_peek tm 0) (lw_store w))"
    using persisted(2) st by (auto simp: launch_peek_def assms(1) memory_launches_def memory_peek_def Let_def
        split: prod.splits)
  have w2: "lw_store w2 = lw_store w1" using launch_key_keeps[OF persisted(3)] by simp
  obtain st3 v where c: "memory_consume fa ttl (lt_consume tm) state (it_nonce claims) (lw_store w2) = (st3, Inr v)"
      and w3: "lw_store w3 = st3"
    using persisted(5) st
    by (auto simp: launch_consume_def assms(1) memory_launches_def
        split: prod.splits sum.splits launch_state_error.splits py_error.splits)
  then obtain entry where e: "map_of (lw_store w2) state = Some entry" "\<not> aged fa ttl (lt_consume tm 0) entry"
      "le_nonce entry = it_nonce claims" "st3 = AList.delete state (lw_store w2)"
    by (auto simp: memory_consume_def Let_def compare_digest_def
        split: if_splits option.splits sum.splits bool.splits)
  have e0: "map_of (lw_store w) state = Some entry"
    using e(1) unfolding w2 w1 map_of_purge[OF assms(2)] by (auto split: option.splits if_splits)
  have "le_issuer entry = issuer"
    using persisted(2) st e(1) unfolding w2 w1
    by (auto simp: launch_peek_def assms(1) memory_launches_def memory_peek_def Let_def split: prod.splits if_splits)
  moreover have "map_of (lw_store w') state = None"
    using persisted(7) w3 e(4) by (simp add: delete_conv)
  ultimately show ?thesis using persisted(1,4) st e0 e(2,3) by blast
qed simp

section \<open>A platform to launch from\<close>

definition demo_claims :: lti_id_token where
  "demo_claims = \<lparr> it_issuer = ''https://lms'', it_subject = ''student'', it_audience = ''tool'',
     it_expires_at = 50, it_issued_at = 10, it_nonce = ''n1'', it_message_type = ''LtiResourceLinkRequest'',
     it_version = ''1.3.0'', it_deployment_id = ''dep'',
     it_roles = [''http://purl.imsglobal.org/vocab/lis/v2/membership#Instructor''],
     it_context = \<lparr> lc_id = ''course'', lc_label = None, lc_title = None, lc_type = None \<rparr>,
     it_resource_link = \<lparr> rl_id = ''exam'', rl_title = None, rl_description = None, rl_url = None \<rparr>,
     it_tool_platform = \<lparr> tp_guid = ''guid'', tp_name = ''lms'', tp_product_family_code = ''lms'',
       tp_version = None, tp_url = None \<rparr>,
     it_target_link_uri = ''https://tool/launch'',
     it_custom = \<lparr> cu_policy_config_name = Some ''default'', cu_extra = [] \<rparr>,
     it_name = Some ''Ada'', it_email = None, it_preferred_username = None \<rparr>"

definition demo_id_token :: string where
  "demo_id_token = enc_str ''key'' @ enc_payload
     [(''iss'', JStr ''https://lms''), (''sub'', JStr ''student''), (''aud'', JStr ''tool''),
      (''iat'', JInt 10), (''exp'', JInt 50), (''nonce'', JStr ''n1''), (''state'', JStr ''s1'')]"

definition demo_http :: "unit http_get" where
  "demo_http url w = (w, Inr \<lparr> hr_status = 200, hr_json = Some (JDict
     (if url = ''https://lms/keys'' then [(''keys'', JList [JDict [(''kid'', JStr ''k1'')]])]
      else [(''issuer'', JStr ''https://lms''), (''authorization_endpoint'', JStr ''https://lms/auth''),
            (''jwks_uri'', JStr ''https://lms/keys'')])) \<rparr>)"

definition demo_deps :: "(launch_entries, string, unit) router_deps" where
  "demo_deps = \<lparr> dp_settings = demo_lti_settings\<lparr> ls_session_token_ttl_seconds := 60 \<rparr>,
     dp_store = memory_launches exact_arith 600, dp_http = demo_http, dp_urljoin = (\<lambda>b p. b @ p),
     dp_urlencode = (\<lambda>ps. concat (map snd ps)), dp_jwk_of = (\<lambda>_. Some ''key''), dp_algorithm_name = (\<lambda>_. None),
     dp_jwks_ttl = 600, dp_arith = exact_arith, dp_jwt = demo_jwt, dp_decode = (\<lambda>_. Some demo_claims) \<rparr>"

definition demo_world :: "(launch_entries, string, unit) launch_world" where
  "demo_world = \<lparr> lw_store = [], lw_discovery = [], lw_jwks = [], lw_net = (), lw_db = demo_db \<rparr>"

definition demo_times :: launch_times where
  "demo_times = \<lparr> lt_peek = (\<lambda>_. 20), lt_consume = (\<lambda>_. 20), lt_keys = (\<lambda>_. 20), lt_seconds = 20, lt_now = 20000000 \<rparr>"

definition demo_ids :: launch_ids where
  "demo_ids = \<lparr> li_participant = 50, li_session = 51, li_attempt = 52, li_admin = 53, li_jti = 54, li_created_at = 20 \<rparr>"

definition demo_login :: lti_event where
  "demo_login = Login \<lparr> lq_iss = ''https://lms'', lq_login_hint = ''h'', lq_target_link_uri = ''https://tool/launch'',
     lq_lti_message_hint = ''m'', lq_client_id = None \<rparr> (\<lambda>_. 5) ''s1'' ''n1''"

definition demo_pending :: "(launch_entries, string, unit) launch_world" where
  "demo_pending = fst (run_event demo_deps demo_login demo_world)"

lemma demo_launch_found: "is_found (snd (lti_launch demo_deps demo_times demo_ids demo_id_token demo_pending))"
  by code_simp

theorem launch_atomic_witness:
  "let (w', resp) = lti_launch demo_deps demo_times demo_ids demo_id_token demo_pending in
   is_found resp \<and> db_ok (lw_db w') \<and>
   (\<exists>issuer k claims role. launch_claims demo_deps demo_times demo_id_token issuer k = Inr (claims, role) \<and>
     launch_effect claims role 20000000 (lw_db demo_pending) (lw_db w'))"
proof -
  obtain w' resp where r: "lti_launch demo_deps demo_times demo_ids demo_id_token demo_pending = (w', resp)" by fastforce
  have "db_ok (lw_db demo_pending)" by code_simp
  from launch_atomic[OF r this] demo_launch_found r show ?thesis by (simp add: demo_times_def)
qed

theorem launch_belongs_to_login_witness:
  "\<exists>kid unv issuer k claims role state entry.
    launch_header (dp_jwt demo_deps) demo_id_token = Inr (kid, unv, issuer) \<and>
    launch_claims demo_deps demo_times demo_id_token issuer k = Inr (claims, role) \<and>
    text_member unv ''state'' = Some state \<and> map_of (lw_store demo_pending) state = Some entry \<and>
    le_issuer entry = issuer \<and> le_nonce entry = it_nonce claims \<and>
    \<not> aged exact_arith 600 (lt_consume demo_times 0) entry \<and>
    map_of (lw_store (fst (lti_launch demo_deps demo_times demo_ids demo_id_token demo_pending))) state = None"
proof -
  obtain w' url where r: "lti_launch demo_deps demo_times demo_ids demo_id_token demo_pending = (w', Found url)"
    using demo_launch_found by (metis is_found.elims(2) prod.collapse)
  have "distinct (map fst (lw_store demo_pending))" by code_simp
  from launch_belongs_to_login[OF _ this r, of exact_arith 600] r show ?thesis by (simp add: demo_deps_def)
qed

text \<open>Replaying the token is refused.\<close>

definition replay_events :: "lti_event list" where
  "replay_events = [demo_login, Launch demo_times demo_ids demo_id_token, Launch demo_times demo_ids demo_id_token]"

theorem one_launch_per_login_witness:
  "length (filter (launched_with (dp_jwt demo_deps) ''s1'') (zip replay_events (snd (run_events demo_deps replay_events demo_world))))
     \<le> length (filter (issues_state ''s1'') replay_events)"
proof -
  obtain w' rs where r: "run_events demo_deps replay_events demo_world = (w', rs)" by fastforce
  have "dp_store demo_deps = memory_launches exact_arith 600" by (simp add: demo_deps_def)
  from one_launch_per_login[OF this _ r, of "''s1''"] r show ?thesis by (simp add: demo_world_def)
qed

lemma replay_refused:
  "snd (run_events demo_deps replay_events demo_world) ! 2 = HttpError 400 ''state_unknown''"
  by code_simp

end
