(* ===== verification/SystemProps.thy ===== *)
theory SystemProps
  imports AdminChanges LtiProps "HOL-Library.Sublist"
begin

text \<open>
  The launch flow and the orchestration layer on one database: a run is any sequence of logins,
  launches and requests with arbitrary credentials, clocks and generated identifiers.  The
  invariants are proved once for the permitted changes and lifted to runs by \<open>run_invariant\<close>.
\<close>

section \<open>Runs\<close>

datatype system_event =
    Api call_env "string option" api_call
  | Lti lti_event

fun system_step ::
  "('k, 's) orchestration_deps \<Rightarrow> ('l, 'k, 'w) router_deps \<Rightarrow> system_event \<Rightarrow> ('l, 'k, 'w) launch_world \<times> 's
   \<Rightarrow> ('l, 'k, 'w) launch_world \<times> 's" where
  "system_step deps ldeps (Api env auth call) (w, s) =
     (case api_step deps env auth call (lw_db w, s) of (d, s') \<Rightarrow> (w\<lparr> lw_db := d \<rparr>, s'))"
| "system_step deps ldeps (Lti e) (w, s) = (fst (run_event ldeps e w), s)"

definition system_run ::
  "('k, 's) orchestration_deps \<Rightarrow> ('l, 'k, 'w) router_deps \<Rightarrow> system_event list \<Rightarrow> ('l, 'k, 'w) launch_world \<times> 's
   \<Rightarrow> ('l, 'k, 'w) launch_world \<times> 's" where
  "system_run deps ldeps es st = fold (system_step deps ldeps) es st"

text \<open>What a launch does, as a change of the database.\<close>

definition no_new_head :: "admin_user list \<Rightarrow> admin_user list \<Rightarrow> bool" where
  "no_new_head as bs \<longleftrightarrow> (\<forall>b\<in>set bs. au_role b = AR_HEAD \<longrightarrow> (\<exists>a\<in>set as. au_id a = au_id b \<and> au_role a = AR_HEAD))"

definition launch_change :: "database \<Rightarrow> database \<Rightarrow> bool" where
  "launch_change d d' \<longleftrightarrow> same_but_launch d d' \<and> not_demoted (db_admin_users d) (db_admin_users d') \<and>
     no_new_head (db_admin_users d) (db_admin_users d') \<and>
     (\<exists>es. db_exam_sessions d' = db_exam_sessions d @ [es] \<and> es_status es = SS_PENDING)"

lemma no_new_head_refl [simp]: "no_new_head as as"
  by (auto simp: no_new_head_def)

lemma admin_role_for_not_head: "admin_role_for role \<noteq> AR_HEAD"
  by (simp add: admin_role_for_def)

lemma promoted_head: "au_role (promoted claims (admin_role_for role) a) = AR_HEAD \<longleftrightarrow> au_role a = AR_HEAD"
  using admin_role_for_not_head[of role] by (cases "au_role a"; cases "admin_role_for role") (auto simp: promoted_def)

lemma no_new_head_update:
  assumes "\<And>a. au_id (f a) = au_id a" "\<And>a. au_role (f a) = AR_HEAD \<longleftrightarrow> au_role a = AR_HEAD"
  shows "no_new_head as (update_row au_id k f as)"
  unfolding no_new_head_def update_row_def using assms by auto

lemma no_new_head_promoted: "no_new_head as (update_row au_id k (promoted claims (admin_role_for role)) as)"
  by (rule no_new_head_update) (simp_all only: promoted_head, simp add: promoted_def)

lemma no_new_head_snoc: "au_role a \<noteq> AR_HEAD \<Longrightarrow> no_new_head as (as @ [a])"
  by (auto simp: no_new_head_def)

lemma upsert_admin_head:
  "upsert_admin ids claims role s = (s', Inr u) \<Longrightarrow> no_new_head (db_admin_users (working s)) (db_admin_users (working s'))"
  by (auto simp: upsert_admin_def Let_def admin_role_for_not_head split: sum.splits option.splits
      intro!: no_new_head_promoted no_new_head_snoc)

lemma step_admins:
  assumes "create_session es s1 = (s2, Inr es')" "upsert_participant ids claims s = (s1, Inr p)" "db_ok (working s)"
  shows "db_admin_users (working s2) = db_admin_users (working s)"
  using create_session_Inr[OF assms(1)] upsert_participant_Inr[OF assms(2) assms(3)]
  by (metis (no_types, lifting) database.select_convs(1) database.surjective database.update_convs(3,5))

lemma process_launch_head:
  assumes "process_launch jw cfg now ids claims role s = (s', Inr res)" "db_ok (working s)"
  shows "no_new_head (db_admin_users (working s)) (db_admin_users (working s'))"
  using assms(1) step_admins[OF _ _ assms(2)] upsert_admin_head[of ids claims role]
  by (auto simp: process_launch_def Let_def split: sum.splits prod.splits if_splits) metis+

lemma launch_persist_change:
  assumes "launch_persist deps tm ids claims role d = (d', resp)" "db_ok d"
  shows "db_ok d' \<and> (d' = d \<or> launch_change d d')"
proof (cases "is_found resp")
  case False
  with launch_persist_effect[OF assms] assms(2) show ?thesis by auto
next
  case True
  have ok: "db_ok d'" and eff: "launch_effect claims role (lt_now tm) d d'"
    using launch_persist_effect[OF assms] True by simp_all
  from assms(1) True obtain s1 res where p: "process_launch (dp_jwt deps) (dp_settings deps) (lt_now tm) ids claims role
      (open_session d) = (s1, Inr res)" "d' = working s1"
    by (cases resp) (auto simp: launch_persist_def commit_def http_error_def split: prod.splits sum.splits launch_failure.splits if_splits)
  then have "no_new_head (db_admin_users d) (db_admin_users d')"
    using process_launch_head[OF p(1)] assms(2) by simp
  moreover have "\<exists>es. db_exam_sessions d' = db_exam_sessions d @ [es] \<and> es_status es = SS_PENDING"
  proof -
    from eff have l: "length (db_exam_sessions d') = Suc (length (db_exam_sessions d))"
      "take (length (db_exam_sessions d)) (db_exam_sessions d') = db_exam_sessions d"
      "es_status (last (db_exam_sessions d')) = SS_PENDING"
      by (auto simp: launch_effect_def new_session_ok_def)
    then have "db_exam_sessions d' = db_exam_sessions d @ [last (db_exam_sessions d')]"
      by (metis append_butlast_last_id butlast_conv_take diff_Suc_1 length_0_conv nat.simps(3))
    with l(3) show ?thesis by blast
  qed
  moreover have "not_demoted (db_admin_users d) (db_admin_users d')"
    using eff by (auto simp: launch_effect_def admin_ok_def not_demoted_refl split: if_splits)
  ultimately show ?thesis using ok eff by (auto simp: launch_change_def launch_effect_def)
qed

lemma lti_launch_change:
  assumes "lti_launch deps tm ids tok w = (w', resp)" "db_ok (lw_db w)"
  shows "db_ok (lw_db w') \<and> (lw_db w' = lw_db w \<or> launch_change (lw_db w) (lw_db w'))"
  using assms(1)
proof (cases rule: lti_launch_cases)
  case stopped
  with assms(2) show ?thesis by simp
next
  case (persisted kid unv issuer w1 w2 k claims role w3 d)
  with launch_persist_change[OF persisted(6) assms(2)] show ?thesis by simp
qed

lemma lti_login_db: "lw_db (fst (lti_login deps q clock state nonce w)) = lw_db w"
  by (auto simp: lti_login_def Let_def split: sum.splits prod.splits)

lemma system_step_change:
  assumes "db_ok (lw_db (fst st))"
  shows "db_ok (lw_db (fst (system_step deps ldeps e st))) \<and>
    (lw_db (fst (system_step deps ldeps e st)) = lw_db (fst st) \<or>
     api_change (lw_db (fst st)) (lw_db (fst (system_step deps ldeps e st))) \<or>
     launch_change (lw_db (fst st)) (lw_db (fst (system_step deps ldeps e st))))"
proof (cases st)
  case (Pair w s)
  show ?thesis
  proof (cases e)
    case (Api env auth call)
    with api_step_permitted[of "lw_db w" deps env auth call s] assms Pair show ?thesis
      by (auto simp: permitted_def split: prod.splits)
  next
    case (Lti l)
    show ?thesis
    proof (cases l)
      case (Login q clock state nonce)
      with Lti Pair assms show ?thesis by (simp add: lti_login_db)
    next
      case (Launch tm ids tok)
      obtain w' r where "lti_launch ldeps tm ids tok w = (w', r)" by fastforce
      with lti_launch_change[OF this] Launch Lti Pair assms show ?thesis by auto
    qed
  qed
qed

lemma run_invariant:
  assumes ok: "db_ok (lw_db (fst st))" and start: "P (lw_db (fst st))"
    and api: "\<And>d d'. db_ok d \<Longrightarrow> db_ok d' \<Longrightarrow> P d \<Longrightarrow> api_change d d' \<Longrightarrow> P d'"
    and launch: "\<And>d d'. db_ok d \<Longrightarrow> db_ok d' \<Longrightarrow> P d \<Longrightarrow> launch_change d d' \<Longrightarrow> P d'"
  shows "db_ok (lw_db (fst (system_run deps ldeps es st))) \<and> P (lw_db (fst (system_run deps ldeps es st)))"
  using ok start
proof (induction es arbitrary: st)
  case Nil
  then show ?case by (simp add: system_run_def)
next
  case (Cons e es)
  let ?st = "system_step deps ldeps e st"
  have "db_ok (lw_db (fst ?st)) \<and> P (lw_db (fst ?st))"
    using system_step_change[OF Cons.prems(1), of deps ldeps e] Cons.prems api launch by metis
  then show ?case using Cons.IH[of ?st] by (simp add: system_run_def)
qed

section \<open>Heads of department\<close>

definition headless :: "database \<Rightarrow> bool" where
  "headless d \<longleftrightarrow> \<not> list_ex (\<lambda>a. au_role a = AR_HEAD) (db_admin_users d)"

text \<open>An approved override was approved by somebody other than who asked for it.\<close>

definition four_eyes :: "identity_override \<Rightarrow> bool" where
  "four_eyes x \<longleftrightarrow> io_status x = OR_APPROVED \<longrightarrow>
     (case io_approved_by_admin_id x of None \<Rightarrow> False | Some k \<Rightarrow> k \<noteq> io_requested_by_admin_id x)"

inductive_cases api_changeE: "api_change d d'"

text \<open>The tables that each change leaves alone.\<close>

lemma launch_keeps_tables:
  assumes "launch_change d d'"
  shows "db_identity_overrides d' = db_identity_overrides d" "db_admin_role_audits d' = db_admin_role_audits d"
    "db_proctor_reviews d' = db_proctor_reviews d" "db_termination_records d' = db_termination_records d"
    "db_flags d' = db_flags d" "db_policy_configs d' = db_policy_configs d"
    "db_accommodation_exemptions d' = db_accommodation_exemptions d" "db_evidence_artifacts d' = db_evidence_artifacts d"
proof -
  from assms have "d'\<lparr> db_participants := db_participants d, db_exam_sessions := db_exam_sessions d,
      db_admin_users := db_admin_users d \<rparr> = d"
    by (simp add: launch_change_def same_but_launch_def)
  then show "db_identity_overrides d' = db_identity_overrides d" "db_admin_role_audits d' = db_admin_role_audits d"
    "db_proctor_reviews d' = db_proctor_reviews d" "db_termination_records d' = db_termination_records d"
    "db_flags d' = db_flags d" "db_policy_configs d' = db_policy_configs d"
    "db_accommodation_exemptions d' = db_accommodation_exemptions d" "db_evidence_artifacts d' = db_evidence_artifacts d"
    by (cases d; cases d'; simp)+
qed

lemma add_policy_tables [simp]:
  "db_admin_users (add_policy now prev p d) = db_admin_users d"
  "db_admin_role_audits (add_policy now prev p d) = db_admin_role_audits d"
  "db_proctor_reviews (add_policy now prev p d) = db_proctor_reviews d"
  "db_termination_records (add_policy now prev p d) = db_termination_records d"
  "db_exam_sessions (add_policy now prev p d) = db_exam_sessions d"
  "db_flags (add_policy now prev p d) = db_flags d"
  "db_identity_overrides (add_policy now prev p d) = db_identity_overrides d"
  "db_evidence_artifacts (add_policy now prev p d) = db_evidence_artifacts d"
  "db_accommodation_exemptions (add_policy now prev p d) = db_accommodation_exemptions d"
  by (simp_all add: add_policy_def retire_row_def Let_def split: option.splits)

lemmas change_tables = add_review_def set_status_def terminate_in_def change_role_in_def decide_in_def

lemma update_row_unique:
  assumes "distinct (map key rows)" "x \<in> set rows" "y \<in> set (update_row key (key x) f rows)"
  shows "y \<in> set rows \<and> key y \<noteq> key x \<or> y = f x"
  using assms by (auto simp: update_row_def distinct_map inj_on_def)

lemma change_keeps_four_eyes:
  assumes "api_change d d'" "db_ok d" "list_all four_eyes (db_identity_overrides d)"
  shows "list_all four_eyes (db_identity_overrides d')"
proof -
  have u: "distinct (map io_id (db_identity_overrides d))" using assms(2) by (simp add: db_ok_def keys_ok_def)
  have dec: "list_all four_eyes (db_identity_overrides (decide_in st k now (io_id x) d))"
    if "x \<in> set (db_identity_overrides d)" "four_eyes (decided st k now x)" for st k now x
    using update_row_unique[OF u that(1)] assms(3) that(2)
    by (fastforce simp: decide_in_def list_all_iff)
  from assms(1) show ?thesis
  proof cases
    case (override_approved a x now)
    then show ?thesis by (auto intro!: dec simp: four_eyes_def decided_def)
  next
    case (override_rejected a x now)
    then show ?thesis by (auto intro!: dec simp: four_eyes_def decided_def)
  next
    case (override_requested a x)
    with assms(3) show ?thesis by (simp add: four_eyes_def)
  qed (use assms(3) in \<open>simp_all add: change_tables\<close>)
qed

lemma change_keeps_headless:
  assumes "api_change d d'" "headless d"
  shows "headless d'"
  using assms(1)
proof cases
  case (role_changed a t u)
  with assms(2) show ?thesis
    by (auto simp: headless_def change_role_in_def update_row_def with_role_def staff_def list_ex_iff split: if_splits)
qed (use assms(2) in \<open>simp_all add: headless_def change_tables\<close>)

lemma headless_approves_nothing:
  assumes "api_change d d'" "headless d" "x \<in> set (db_identity_overrides d')" "io_status x = OR_APPROVED"
  shows "x \<in> set (db_identity_overrides d)"
  using assms(1)
proof cases
  case (override_approved a x now)
  with assms(2) show ?thesis by (auto simp: headless_def staff_def list_ex_iff)
next
  case (override_rejected a y now)
  with assms(3,4) show ?thesis by (auto simp: decide_in_def update_row_def decided_def split: if_splits)
qed (use assms(3,4) in \<open>auto simp: change_tables\<close>)

lemma launch_keeps_headless: "launch_change d d' \<Longrightarrow> headless d \<Longrightarrow> headless d'"
  by (auto simp: launch_change_def no_new_head_def headless_def list_ex_iff)

text \<open>C23: No sequence of logins, launches and requests, with any credentials, ever produces a head of
  department in a database that has none, and then no identity override is ever approved beyond
  those that already were.\<close>

theorem head_cannot_arise:
  assumes "db_ok (lw_db (fst st))" "headless (lw_db (fst st))"
  shows "headless (lw_db (fst (system_run deps ldeps es st))) \<and>
    list_all (\<lambda>x. io_status x = OR_APPROVED \<longrightarrow> x \<in> set (db_identity_overrides (lw_db (fst st))))
      (db_identity_overrides (lw_db (fst (system_run deps ldeps es st))))"
proof -
  let ?P = "\<lambda>d. headless d \<and> list_all (\<lambda>x. io_status x = OR_APPROVED \<longrightarrow> x \<in> set (db_identity_overrides (lw_db (fst st))))
      (db_identity_overrides d)"
  have "?P (lw_db (fst st))" using assms(2) by (simp add: list_all_iff)
  from run_invariant[of st ?P deps ldeps es, OF assms(1) this] show ?thesis
    using change_keeps_headless headless_approves_nothing launch_keeps_headless launch_keeps_tables(1)
    by (fastforce simp: list_all_iff)
qed

text \<open>C22: Four eyes: in every database that a run reaches from one where it holds, whoever approved an
  identity override is not the administrator who requested it.\<close>

theorem override_four_eyes:
  assumes "db_ok (lw_db (fst st))" "list_all four_eyes (db_identity_overrides (lw_db (fst st)))"
  shows "list_all four_eyes (db_identity_overrides (lw_db (fst (system_run deps ldeps es st))))"
  using run_invariant[of st "\<lambda>d. list_all four_eyes (db_identity_overrides d)" deps ldeps es, OF assms]
    change_keeps_four_eyes launch_keeps_tables(1) by fastforce

section \<open>Histories\<close>

definition same_binding :: "exam_session \<Rightarrow> exam_session \<Rightarrow> bool" where
  "same_binding s t \<longleftrightarrow> es_id t = es_id s \<and> es_participant_id t = es_participant_id s \<and>
     es_policy_config_id t = es_policy_config_id s \<and> es_exam_reference t = es_exam_reference s \<and>
     es_attempt_reference t = es_attempt_reference s \<and> es_consent_recorded_at t = es_consent_recorded_at s \<and>
     es_started_at t = es_started_at s \<and> moves\<^sup>*\<^sup>* (es_status s) (es_status t)"

text \<open>What later databases keep of an earlier one: the trails only grow, flags never change, and a
  session keeps its identity while its status follows the transition table.\<close>

definition history_kept :: "database \<Rightarrow> database \<Rightarrow> bool" where
  "history_kept d d' \<longleftrightarrow>
     prefix (db_admin_role_audits d) (db_admin_role_audits d') \<and>
     prefix (db_proctor_reviews d) (db_proctor_reviews d') \<and>
     prefix (db_termination_records d) (db_termination_records d') \<and>
     prefix (db_accommodation_exemptions d) (db_accommodation_exemptions d') \<and>
     prefix (db_evidence_artifacts d) (db_evidence_artifacts d') \<and>
     db_flags d' = db_flags d \<and>
     length (db_exam_sessions d) \<le> length (db_exam_sessions d') \<and>
     list_all2 same_binding (db_exam_sessions d) (take (length (db_exam_sessions d)) (db_exam_sessions d'))"

lemma same_binding_refl [simp]: "same_binding s s"
  by (simp add: same_binding_def)

lemma same_binding_trans: "same_binding s t \<Longrightarrow> same_binding t u \<Longrightarrow> same_binding s u"
  by (auto simp: same_binding_def intro: rtranclp_trans)

lemma list_all2_refl_binding [simp]: "list_all2 same_binding ss ss"
  by (simp add: list_all2_refl)

lemma history_kept_trans:
  assumes "history_kept d1 d2" "history_kept d2 d3"
  shows "history_kept d1 d3"
proof -
  let ?n = "length (db_exam_sessions d1)"
  from assms have "?n \<le> length (db_exam_sessions d2)" "length (db_exam_sessions d2) \<le> length (db_exam_sessions d3)"
    by (simp_all add: history_kept_def)
  moreover from assms(2) have "list_all2 same_binding (take ?n (db_exam_sessions d2))
      (take ?n (take (length (db_exam_sessions d2)) (db_exam_sessions d3)))"
    unfolding history_kept_def by (blast intro: list_all2_takeI)
  ultimately have b: "list_all2 same_binding (take ?n (db_exam_sessions d2)) (take ?n (db_exam_sessions d3))"
    by (simp add: min_absorb1)
  have a: "list_all2 same_binding (db_exam_sessions d1) (take ?n (db_exam_sessions d2))"
    using assms(1) by (simp add: history_kept_def)
  have "list_all2 same_binding (db_exam_sessions d1) (take ?n (db_exam_sessions d3))"
    by (rule list_all2_trans[OF _ a b]) (rule same_binding_trans)
  with assms show ?thesis by (auto simp: history_kept_def intro: prefix_order.trans)
qed

lemma update_session_binding:
  assumes "distinct (map es_id ss)" "es \<in> set ss" "same_binding es (f es)"
  shows "list_all2 same_binding ss (update_row es_id (es_id es) f ss)"
  using assms by (auto simp: update_row_def list_all2_conv_all_nth distinct_map inj_on_def)

lemma api_change_history:
  assumes "api_change d d'" "db_ok d"
  shows "history_kept d d'"
proof -
  have u: "distinct (map es_id (db_exam_sessions d))" using assms(2) by (simp add: db_ok_def keys_ok_def)
  from assms(1) show ?thesis
  proof cases
    case (review_moves a r f es target)
    have "same_binding es ((\<lambda>s. s\<lparr> es_status := target \<rparr>) es)" using review_moves by (auto simp: same_binding_def)
    from update_session_binding[of _ es "\<lambda>s. s\<lparr> es_status := target \<rparr>", OF u _ this] review_moves show ?thesis by (simp add: history_kept_def change_tables)
  next
    case (terminated es r f now)
    have "same_binding es (terminated_at now es)" using terminated by (auto simp: same_binding_def terminated_at_def)
    from update_session_binding[of _ es "terminated_at now", OF u _ this] terminated show ?thesis by (simp add: history_kept_def change_tables)
  qed (simp_all add: history_kept_def change_tables)
qed

lemma launch_change_history: "launch_change d d' \<Longrightarrow> history_kept d d'"
  using launch_keeps_tables[of d d'] by (auto simp: history_kept_def launch_change_def)

text \<open>C26: The record of an exam is append-only: over any run the trails of reviews, terminations, role
  changes, exemptions and evidence only grow, flags are never altered, and every session keeps its
  participant, policy, attempt and consent while its status only makes moves of the transition
  table.\<close>

theorem history_append_only:
  assumes "db_ok (lw_db (fst st))"
  shows "history_kept (lw_db (fst st)) (lw_db (fst (system_run deps ldeps es st)))"
proof -
  have "history_kept (lw_db (fst st)) (lw_db (fst st))" by (simp add: history_kept_def)
  from run_invariant[of st "history_kept (lw_db (fst st))" deps ldeps es, OF assms this] show ?thesis
    using history_kept_trans api_change_history launch_change_history by blast
qed

section \<open>Demotions leave a trace\<close>

definition privilege_of :: "uuid \<Rightarrow> database \<Rightarrow> int option" where
  "privilege_of k d = map_option (\<lambda>a. admin_role_privilege (au_role a)) (get_row au_id k (db_admin_users d))"

definition audited_since :: "nat \<Rightarrow> uuid \<Rightarrow> admin_role_audit list \<Rightarrow> bool" where
  "audited_since n k us = list_ex (\<lambda>u. ara_target_admin_id u = k \<and> ara_changed_by_admin_id u \<noteq> k) (drop n us)"

definition demotion_audited :: "database \<Rightarrow> database \<Rightarrow> bool" where
  "demotion_audited d d' \<longleftrightarrow> prefix (db_admin_role_audits d) (db_admin_role_audits d') \<and>
     (\<forall>k p. privilege_of k d = Some p \<longrightarrow> (\<exists>p'. privilege_of k d' = Some p' \<and>
        (p \<le> p' \<or> audited_since (length (db_admin_role_audits d)) k (db_admin_role_audits d'))))"

lemma audited_since_prefix:
  "prefix xs ys \<Longrightarrow> prefix ys zs \<Longrightarrow>
     audited_since (length xs) k ys \<or> audited_since (length ys) k zs \<Longrightarrow> audited_since (length xs) k zs"
  by (auto simp: audited_since_def prefix_def list_ex_iff)

lemma demotion_audited_trans:
  assumes "demotion_audited d1 d2" "demotion_audited d2 d3"
  shows "demotion_audited d1 d3"
  unfolding demotion_audited_def
proof (intro conjI allI impI)
  show "prefix (db_admin_role_audits d1) (db_admin_role_audits d3)"
    using assms by (auto simp: demotion_audited_def intro: prefix_order.trans)
next
  fix k p assume "privilege_of k d1 = Some p"
  then obtain p2 where p2: "privilege_of k d2 = Some p2"
    "p \<le> p2 \<or> audited_since (length (db_admin_role_audits d1)) k (db_admin_role_audits d2)"
    using assms(1) unfolding demotion_audited_def by blast
  obtain p3 where p3: "privilege_of k d3 = Some p3"
    "p2 \<le> p3 \<or> audited_since (length (db_admin_role_audits d2)) k (db_admin_role_audits d3)"
    using assms(2) p2(1) unfolding demotion_audited_def by blast
  have pre: "prefix (db_admin_role_audits d1) (db_admin_role_audits d2)"
    "prefix (db_admin_role_audits d2) (db_admin_role_audits d3)"
    using assms by (simp_all add: demotion_audited_def)
  have "p \<le> p3 \<or> audited_since (length (db_admin_role_audits d1)) k (db_admin_role_audits d3)"
    using p2(2) p3(2) audited_since_prefix[OF pre, of k] by auto
  with p3(1) show "\<exists>p'. privilege_of k d3 = Some p' \<and>
      (p \<le> p' \<or> audited_since (length (db_admin_role_audits d1)) k (db_admin_role_audits d3))"
    by blast
qed

lemma demotion_audited_same:
  "db_admin_users d' = db_admin_users d \<Longrightarrow> db_admin_role_audits d' = db_admin_role_audits d \<Longrightarrow> demotion_audited d d'"
  by (auto simp: demotion_audited_def privilege_of_def)

lemma api_change_audited:
  assumes "api_change d d'"
  shows "demotion_audited d d'"
  using assms
proof cases
  case (role_changed a t u)
  have k: "au_id (with_role r x) = au_id x" for r x by (simp add: with_role_def)
  from role_changed show ?thesis
    by (auto simp: demotion_audited_def change_role_in_def privilege_of_def get_row_update k audited_since_def)
qed (simp_all add: demotion_audited_same change_tables)

lemma get_row_unique: "distinct (map key rows) \<Longrightarrow> r \<in> set rows \<Longrightarrow> get_row key (key r) rows = Some r"
  by (induction rows) (auto simp: get_row_def)

lemma launch_change_audited:
  assumes "launch_change d d'" "db_ok d'"
  shows "demotion_audited d d'"
proof -
  have u: "distinct (map au_id (db_admin_users d'))" using assms(2) by (simp add: db_ok_def keys_ok_def)
  have "\<exists>p'. privilege_of k d' = Some p' \<and> p \<le> p'" if "privilege_of k d = Some p" for k p
  proof -
    from that obtain a where a: "a \<in> set (db_admin_users d)" "au_id a = k" "p = admin_role_privilege (au_role a)"
      by (auto simp: privilege_of_def dest!: get_row_Some)
    with assms(1) obtain b where b: "b \<in> set (db_admin_users d')" "au_id b = k" "p \<le> admin_role_privilege (au_role b)"
      by (auto simp: launch_change_def not_demoted_def list_all_iff list_ex_iff)
    then show ?thesis using get_row_unique[OF u b(1)] by (simp add: privilege_of_def)
  qed
  then show ?thesis using launch_keeps_tables(2)[OF assms(1)] by (fastforce simp: demotion_audited_def)
qed

text \<open>C30: Nobody loses privilege silently: over any run every administrator stays, with at least the
  privilege they had unless the role-change trail has a new entry about them, written by somebody
  else.\<close>

theorem demotions_are_audited:
  assumes "db_ok (lw_db (fst st))"
  shows "demotion_audited (lw_db (fst st)) (lw_db (fst (system_run deps ldeps es st)))"
proof -
  have "demotion_audited (lw_db (fst st)) (lw_db (fst st))" by (simp add: demotion_audited_same)
  from run_invariant[of st "demotion_audited (lw_db (fst st))" deps ldeps es, OF assms this] show ?thesis
    using demotion_audited_trans api_change_audited launch_change_audited by blast
qed

end
