(* ===== verification/AdminProps.thy ===== *)
theory AdminProps
  imports SystemProps Retention
begin

text \<open>
  Properties of single requests, and an office to run the system with.
\<close>

section \<open>Policies\<close>

lemma commit_or_Inr:
  "commit_or err r s = (s', Inr x) \<Longrightarrow> x = r \<and> committed s' = working s \<and> db_ok (working s)"
  by (auto simp: commit_or_def commit_def split: if_splits)

lemma create_policy_Inr:
  assumes "create_policy_version r a now k t (open_session d) = (s', Inr res)" "db_ok d"
  obtains prev where
    "committed s' = add_policy now prev (new_policy_row r (resolve_max_version (cp_name r) d + 1) (au_id a) k t) d"
    "pvr_new_policy res = new_policy_row r (resolve_max_version (cp_name r) d + 1) (au_id a) k t"
    "pvr_superseded_previous_id res = prev"
    "\<And>q. q \<in> set (db_policy_configs d) \<Longrightarrow> pc_name q = cp_name r \<and> policy_is_current q \<longleftrightarrow> prev = Some (pc_id q)"
proof -
  from assms(1) obtain p where p: "resolve_previous_active (cp_name r) d = Inr p"
    by (auto simp: create_policy_version_def split: sum.splits)
  have u: "distinct (map pc_id (db_policy_configs d))" using assms(2) by (simp add: db_ok_def keys_ok_def)
  show ?thesis
  proof (rule that[of "map_option pc_id p"])
    show "\<And>q. q \<in> set (db_policy_configs d) \<Longrightarrow>
        pc_name q = cp_name r \<and> policy_is_current q \<longleftrightarrow> map_option pc_id p = Some (pc_id q)"
      using resolve_previous_iff[OF p u] .
  qed (use assms(1) p in \<open>cases p; auto simp: create_policy_version_def Let_def add_policy_def max_version_retire
      split: sum.splits if_splits dest!: commit_or_Inr\<close>)+
qed

definition current_of :: "string \<Rightarrow> database \<Rightarrow> policy_config list" where
  "current_of nm d = filter (\<lambda>p. pc_name p = nm \<and> policy_is_current p) (db_policy_configs d)"

lemma retired_not_current: "\<not> policy_is_current (retired now p)"
  by (simp add: policy_is_current_def retired_def)

lemma current_of_add:
  assumes "\<And>q. q \<in> set (db_policy_configs d) \<Longrightarrow> pc_name q = nm \<and> policy_is_current q \<longleftrightarrow> prev = Some (pc_id q)"
    and "pc_name p = nm"
  shows "current_of nm (add_policy now prev p d) = (if policy_is_current p then [p] else [])"
proof (cases prev)
  case None
  with assms show ?thesis by (auto simp: current_of_def add_policy_def filter_empty_conv)
next
  case (Some k)
  have "filter (\<lambda>p. pc_name p = nm \<and> policy_is_current p) (update_row pc_id k (retired now) (db_policy_configs d)) = []"
    using assms(1) Some retired_not_current
    by (auto simp: filter_empty_conv update_row_def split: if_splits)
  with Some assms(2) show ?thesis by (simp add: current_of_def add_policy_def retire_row_eq)
qed

lemma other_rows_add:
  assumes "\<And>q. q \<in> set (db_policy_configs d) \<Longrightarrow> prev = Some (pc_id q) \<Longrightarrow> pc_name q = nm" "pc_name p = nm"
  shows "filter (\<lambda>q. pc_name q \<noteq> nm) (db_policy_configs (add_policy now prev p d))
    = filter (\<lambda>q. pc_name q \<noteq> nm) (db_policy_configs d)"
proof (cases prev)
  case (Some k)
  have "filter (\<lambda>q. pc_name q \<noteq> nm) (update_row pc_id k (retired now) ps) = filter (\<lambda>q. pc_name q \<noteq> nm) ps"
    if "\<And>q. q \<in> set ps \<Longrightarrow> pc_id q = k \<Longrightarrow> pc_name q = nm" for ps
    using that by (induction ps) (auto simp: update_row_def)
  with Some assms show ?thesis by (auto simp: add_policy_def retire_row_eq)
qed (use assms in \<open>simp add: add_policy_def\<close>)

text \<open>A policy version that was created has a version number above all earlier ones of its name, is
  the only current policy of that name exactly when it was created active (created inactive, it
  leaves none), and no policy of another name is touched.\<close>

theorem policy_version_created:
  assumes "post_policy_config deps env auth (Some rq) d = (d', Inr resp)" "db_ok d"
  shows "db_ok d' \<and> pcr_name resp = cp_name rq \<and>
    list_all (\<lambda>q. pc_name q = cp_name rq \<longrightarrow> pc_version q < pcr_version resp) (db_policy_configs d) \<and>
    map pc_id (current_of (cp_name rq) d') = (if cp_is_active rq then [pcr_id resp] else []) \<and>
    filter (\<lambda>q. pc_name q \<noteq> cp_name rq) (db_policy_configs d') = filter (\<lambda>q. pc_name q \<noteq> cp_name rq) (db_policy_configs d)"
proof -
  from assms(1) obtain a where a: "require_admin_role deps (cx_seconds env) auth d = Inr a"
    by (auto simp: post_policy_config_def admin_route_def split: sum.splits if_splits)
  obtain s' r' where c: "create_policy_version rq a (cx_now env) (cx_new_id env) (cx_created_at env) (open_session d) = (s', r')"
    by fastforce
  with assms(1) a obtain res where res: "r' = Inr res" "d' = committed s'" "resp = policy_from_orm (pvr_new_policy res)"
    by (auto simp: post_policy_config_def admin_route_def reply_def split: sum.splits if_splits)
  define p where "p = new_policy_row rq (resolve_max_version (cp_name rq) d + 1) (au_id a) (cx_new_id env) (cx_created_at env)"
  have p: "pc_name p = cp_name rq" "pc_id p = cx_new_id env" "pc_version p = resolve_max_version (cp_name rq) d + 1"
    "policy_is_current p = cp_is_active rq"
    by (simp_all add: p_def new_policy_row_def policy_is_current_def)
  obtain prev where e: "d' = add_policy (cx_now env) prev p d" "pvr_new_policy res = p"
    "\<And>q. q \<in> set (db_policy_configs d) \<Longrightarrow> pc_name q = cp_name rq \<and> policy_is_current q \<longleftrightarrow> prev = Some (pc_id q)"
    using create_policy_Inr[OF c[unfolded res(1)] assms(2)] res(2) unfolding p_def by metis
  have "db_ok d'"
    using create_policy_permitted[OF assms(2) require_admin_staff[OF a], of rq "cx_now env" "cx_new_id env" "cx_created_at env"]
      c res(2) assms(2) by (auto simp: permitted_def)
  moreover have "pcr_name resp = cp_name rq" "pcr_id resp = cx_new_id env"
    "pcr_version resp = resolve_max_version (cp_name rq) d + 1"
    using res(3) e(2) p by (simp_all add: policy_from_orm_def)
  moreover have "map pc_id (current_of (cp_name rq) d') = (if cp_is_active rq then [cx_new_id env] else [])"
    using current_of_add[OF e(3) p(1)] p by (simp add: e(1))
  moreover have "filter (\<lambda>q. pc_name q \<noteq> cp_name rq) (db_policy_configs d') = filter (\<lambda>q. pc_name q \<noteq> cp_name rq) (db_policy_configs d)"
    unfolding e(1) by (rule other_rows_add) (use e(3) p(1) in auto)
  ultimately show ?thesis
    using resolve_max_version_bound[of _ d "cp_name rq"] by (fastforce simp: list_all_iff)
qed

section \<open>Reviews\<close>

definition status_after_review :: "review_decision \<Rightarrow> session_status \<Rightarrow> session_status" where
  "status_after_review decision st =
     (case review_target decision st of None \<Rightarrow> st | Some t \<Rightarrow> t)"

lemma review_target_moves: "review_target dec st = Some t \<Longrightarrow> moves st t"
  by (cases st) (auto simp: review_target_def split: if_splits intro: moves.intros)

lemma commit_bare_Inr: "db_ok (working s) \<Longrightarrow> commit_bare r s = (\<lparr> committed = working s, working = working s \<rparr>, Inr r)"
  by (simp add: commit_bare_def commit_def)

text \<open>Reviewing a flag always succeeds for a known flag: exactly one review is recorded, the flag and
  all other tables stay as they are, and the session is under review, reinstated or unchanged as the
  decision and its status say; no review is refused because of the session's status.\<close>

theorem review_outcome:
  assumes "db_ok d" "staff d a" "\<not> has_key pr_id (db_proctor_reviews d) k"
    and "record_proctor_review fid dec notes a k t (open_session d) = (s', r)"
  shows "case get_row fl_id fid (db_flags d) of
      None \<Rightarrow> r = Inl (FlagNotFoundError ''flag does not exist'') \<and> committed s' = d
    | Some f \<Rightarrow> (\<exists>rev es. pr_id rev = k \<and> pr_flag_id rev = fid \<and> pr_decision rev = dec \<and>
        pr_reviewer_admin_id rev = Some (au_id a) \<and> get_row es_id (fl_exam_session_id f) (db_exam_sessions d) = Some es \<and>
        r = Inr \<lparr> rr_review = rev, rr_session_status = status_after_review dec (es_status es) \<rparr> \<and>
        committed s' = set_status (es_id es) (status_after_review dec (es_status es)) (add_review rev d))"
proof (cases "get_row fl_id fid (db_flags d)")
  case None
  with assms(4) show ?thesis by (auto simp: record_proctor_review_def)
next
  case (Some f)
  note f = get_row_Some[OF Some]
  have "fl_exam_session_id f \<in> es_id ` set (db_exam_sessions d)"
    using assms(1) f by (auto simp: db_ok_def refs_ok_def fk_def Let_def list_all_iff)
  then obtain es where es: "get_row es_id (fl_exam_session_id f) (db_exam_sessions d) = Some es"
    by (metis get_row_None not_Some_eq)
  define rev where "rev = \<lparr> pr_id = k, pr_flag_id = fid, pr_reviewer_reference = au_lms_user_reference a,
    pr_reviewer_admin_id = Some (au_id a), pr_decision = dec, pr_notes = notes, pr_created_at = t \<rparr>"
  have ok: "db_ok (add_review rev d)"
    unfolding add_review_def db_ok_add_review[OF assms(1)]
    using assms(2,3) f by (auto simp: rev_def has_key_iff staff_def)
  have same: "set_status (es_id es) (es_status es) (add_review rev d) = add_review rev d"
  proof -
    have "distinct (map es_id (db_exam_sessions d))" using assms(1) by (simp add: db_ok_def keys_ok_def)
    then have "update_row es_id (es_id es) (\<lambda>s. s\<lparr> es_status := es_status es \<rparr>) (db_exam_sessions d) = db_exam_sessions d"
      using get_row_Some[OF es] by (auto simp: update_row_def distinct_map inj_on_def intro!: map_idI)
    then show ?thesis by (simp add: set_status_def add_review_def)
  qed
  have step: "record_proctor_review fid dec notes a k t (open_session d)
      = (case review_target dec (es_status es) of
           None \<Rightarrow> commit_bare \<lparr> rr_review = rev, rr_session_status = es_status es \<rparr> (open_session d\<lparr> working := add_review rev d \<rparr>)
         | Some target \<Rightarrow> commit_bare \<lparr> rr_review = rev, rr_session_status = target \<rparr>
             (open_session d\<lparr> working := set_status (es_id es) target (add_review rev d) \<rparr>))"
    using Some es ok
    by (auto simp: record_proctor_review_def Let_def flush_def assert_transition_moves rev_def add_review_def
        split: option.splits dest: review_target_moves)
  have "r = Inr \<lparr> rr_review = rev, rr_session_status = status_after_review dec (es_status es) \<rparr> \<and>
      committed s' = set_status (es_id es) (status_after_review dec (es_status es)) (add_review rev d)"
    using assms(4) step ok set_status_ok[OF ok] same
    by (auto simp: status_after_review_def commit_bare_Inr split: option.splits)
  with Some es show ?thesis by (auto simp: rev_def intro!: exI[of _ rev])
qed

section \<open>Rejections\<close>

lemma filter_key_unique: "distinct (map key rows) \<Longrightarrow> x \<in> set rows \<Longrightarrow> filter (\<lambda>y. key y = key x) rows = [x]"
  by (induction rows) (auto simp: filter_empty_conv image_iff)

text \<open>Rejecting an override works but is answered with an internal server error: whenever an
  administrator rejects an existing request, however it was decided before, the rejection is
  committed under their name and the reply is the failure.\<close>

theorem reject_commits_but_fails:
  assumes "db_ok d" "require_admin_role deps (cx_seconds env) auth d = Inr a" "x \<in> set (db_identity_overrides d)"
  shows "post_reject_identity_override_request deps env auth (Some (io_id x)) d
    = (decide_in OR_REJECTED (au_id a) (cx_now env) (io_id x) d, Inl Unhandled)"
proof -
  have u: "distinct (map io_id (db_identity_overrides d))" using assms(1) by (simp add: db_ok_def keys_ok_def)
  have sc: "scalar_one_or_none (filter (\<lambda>y. io_id y = io_id x) (db_identity_overrides d)) = Inr (Some x)"
    using filter_key_unique[OF u assms(3)] by (simp add: scalar_one_or_none_def)
  have "has_key au_id (db_admin_users d) (au_id a)"
    using require_admin_staff[OF assms(2)] by (simp add: staff_def has_key_iff)
  then have ok: "db_ok (decide_in OR_REJECTED (au_id a) (cx_now env) (io_id x) d)"
    unfolding decide_in_def
    by (intro db_ok_update_override[OF assms(1)]) (auto simp: decided_def identity_override_checks_def has_key_iff)
  then have "reject_identity_override_request (io_id x) a (cx_now env) (open_session d)
      = (\<lparr> committed = decide_in OR_REJECTED (au_id a) (cx_now env) (io_id x) d,
           working = decide_in OR_REJECTED (au_id a) (cx_now env) (io_id x) d \<rparr>,
         Inr (decided OR_REJECTED (au_id a) (cx_now env) x))"
    using sc by (simp add: reject_identity_override_request_def decide_override_def commit_bare_def commit_def decide_in_def)
  then show ?thesis
    using assms(2) by (simp add: post_reject_identity_override_request_def admin_route_def reply_def)
qed

section \<open>Reading a session\<close>

text \<open>A token that survives the header: the JSON Web Token alphabet has no white space.\<close>

definition header_safe :: "string \<Rightarrow> bool" where
  "header_safe tok \<longleftrightarrow> tok \<noteq> [] \<and> strip tok = tok"

definition bearer :: "string \<Rightarrow> string" where
  "bearer tok = ''Bearer '' @ tok"

lemma parse_bearer_header: "header_safe tok \<Longrightarrow> parse_bearer (Some (bearer tok)) = Some tok"
  by (simp add: bearer_def parse_bearer_def split_first_space_def header_safe_def lower_def List.member_iff)

lemma decode_issued:
  assumes "jwt_ok (oc_jwt deps)" "0 \<le> i" "0 < ls_session_token_ttl_seconds (oc_lti deps)"
    and "unix_seconds i + ls_session_token_ttl_seconds (oc_lti deps) \<le> 253402300799" "unix_seconds i \<le> now"
    and "tok = issue_session_token (oc_jwt deps) (oc_lti deps) p s role i jti" "header_safe tok"
  shows "decode_or_raise deps now (Some (bearer tok)) =
    (if now < unix_seconds i + ls_session_token_ttl_seconds (oc_lti deps)
     then Inr (issued_claims (oc_lti deps) p s role i jti) else Inl (auth_error ''session_token_expired''))"
  using decode_issue[OF assms(1-5), of "oc_str_of deps" p s role jti, folded assms(6)]
  by (simp add: decode_or_raise_def parse_bearer_header[OF assms(7)])

definition status_body :: "exam_session \<Rightarrow> session_status_response" where
  "status_body es =
     \<lparr> ssr_session_id = es_id es, ssr_status = session_status_value (es_status es),
       ssr_consent_recorded = es_consent_recorded_at es \<noteq> None, ssr_started_at = es_started_at es,
       ssr_ended_at = es_ended_at es, ssr_retention_expires_at = es_retention_expires_at es,
       ssr_accumulated_medium_score = es_accumulated_medium_score es \<rparr>"

text \<open>Who can read a session's status: with a token that a launch issued, a learner sees exactly the
  sessions of the participant the token was issued for, the administrative roles see every session,
  all others are refused with 403, an unknown session is 404 and an expired token 401.\<close>

theorem session_status_access:
  assumes "jwt_ok (oc_jwt deps)" "0 \<le> i" "0 < ls_session_token_ttl_seconds (oc_lti deps)"
    and "unix_seconds i + ls_session_token_ttl_seconds (oc_lti deps) \<le> 253402300799" "unix_seconds i \<le> cx_seconds env"
    and "tok = issue_session_token (oc_jwt deps) (oc_lti deps) p s role i jti" "header_safe tok"
  shows "get_session_status deps env (Some (bearer tok)) (uuid_str k) d =
    (if unix_seconds i + ls_session_token_ttl_seconds (oc_lti deps) \<le> cx_seconds env
     then Inl (HttpFailure 401 ''session_token_expired'')
     else case get_row es_id k (db_exam_sessions d) of
       None \<Rightarrow> Inl (HttpFailure 404 ''session_not_found'')
     | Some es \<Rightarrow> if role \<noteq> APP_LEARNER \<or> es_participant_id es = p then Inr (status_body es)
                  else Inl (HttpFailure 403 ''not_authorized''))"
proof -
  have "List.member ADMIN_ROLES role \<longleftrightarrow> role \<noteq> APP_LEARNER"
    by (cases role) (simp_all add: ADMIN_ROLES_def List.member_iff)
  then show ?thesis
    by (simp add: get_session_status_def require_session_owner_or_admin_def uuid_of_uuid_str uuid_str_inj
        auth_error_def ERROR_HTTP_def status_body_def decode_issued[OF assms] issued_claims_def split: option.splits)
qed

section \<open>Termination\<close>

lemma list_all_update_unique:
  assumes "distinct (map key rows)" "x \<in> set rows" "list_all P rows"
  shows "list_all P (update_row key (key x) f rows) \<longleftrightarrow> P (f x)"
proof
  assume "list_all P (update_row key (key x) f rows)"
  moreover have "f x \<in> set (update_row key (key x) f rows)" using assms(2) by (auto simp: update_row_def)
  ultimately show "P (f x)" by (simp add: list_all_iff)
next
  assume "P (f x)"
  then show "list_all P (update_row key (key x) f rows)"
    using update_row_unique[OF assms(1,2)] assms(3) by (auto simp: list_all_iff)
qed

lemma terminate_in_ok:
  assumes ok: "db_ok d" and es: "get_row es_id sid (db_exam_sessions d) = Some es"
    and flag: "has_key fl_id (db_flags d) fid" and new: "\<not> has_key tr_id (db_termination_records d) k"
  shows "db_ok (terminate_in now sid (route_termination k t sid fid reason) d) \<longleftrightarrow>
    after_opt (Some now) (es_started_at es) \<and> \<not> has_key tr_exam_session_id (db_termination_records d) sid"
proof -
  let ?r = "route_termination k t sid fid reason"
  have f: "es_id (terminated_at now s) = es_id s" "es_participant_id (terminated_at now s) = es_participant_id s"
    "es_policy_config_id (terminated_at now s) = es_policy_config_id s"
    "es_attempt_reference (terminated_at now s) = es_attempt_reference s" for s
    by (simp_all add: terminated_at_def)
  have e: "es \<in> set (db_exam_sessions d)" "es_id es = sid" using get_row_Some[OF es] by simp_all
  have u: "distinct (map es_id (db_exam_sessions d))" and c: "list_all exam_session_checks (db_exam_sessions d)"
    using ok by (simp_all add: ok_parts)
  have "exam_session_checks es" using c e(1) by (simp add: list_all_iff)
  then have "exam_session_checks (terminated_at now es) \<longleftrightarrow> after_opt (Some now) (es_started_at es)"
    by (simp add: exam_session_checks_def terminated_at_def)
  then have ch: "list_all exam_session_checks (update_row es_id sid (terminated_at now) (db_exam_sessions d))
      \<longleftrightarrow> after_opt (Some now) (es_started_at es)"
    using list_all_update_unique[OF u e(1) c, of "terminated_at now"] e(2) by simp
  have tc: "termination_record_checks ?r" by (simp add: termination_record_checks_def route_termination_def after_opt_def)
  show ?thesis
    using ok flag new e tc ch
    by (auto simp: ok_parts terminate_in_def map_update_row fk_update_row f has_key_iff)
qed

lemma terminate_commits:
  assumes ok: "db_ok d" and es: "get_row es_id sid (db_exam_sessions d) = Some es" and flag: "has_key fl_id (db_flags d) fid"
  shows "db_ok (terminate_in now sid (route_termination k t sid fid reason) d) \<longleftrightarrow>
    \<not> (has_key tr_id (db_termination_records d) k \<or> has_key tr_exam_session_id (db_termination_records d) sid \<or>
       \<not> after_opt (Some now) (es_started_at es))"
proof (cases "has_key tr_id (db_termination_records d) k")
  case True
  then have "\<not> distinct (map tr_id (db_termination_records (terminate_in now sid (route_termination k t sid fid reason) d)))"
    by (auto simp: terminate_in_def route_termination_def has_key_iff)
  then show ?thesis using True by (auto simp: db_ok_def keys_ok_def)
next
  case False
  then show ?thesis using terminate_in_ok[OF ok es flag False] by blast
qed

text \<open>C35: The internal termination route answers every request in exactly one way.  Without a bearer token it
  is 401, with another than the internal one 403, with a missing or invalid body 422, for a session that is not
  an identifier or not known 404, for an unknown flag 404, for a session that is neither pending nor active
  409, and 500 if the record cannot be stored: its identifier is taken, the session has a
  record already, or it started in the future.  None of these changes anything.  Otherwise the
  session is terminated together with its record, nothing else changes, and the answer names both and
  the flag.\<close>

theorem terminate_route_exact:
  assumes "db_ok d"
  shows "post_terminate deps env authorization session_id request d =
    (case parse_bearer authorization of
       None \<Rightarrow> (d, Inl (HttpFailure 401 ''internal_token_required''))
     | Some tok \<Rightarrow>
    if tok \<noteq> os_internal_terminate_token (oc_settings deps) then (d, Inl (HttpFailure 403 ''internal_token_invalid''))
    else if \<not> valid_body check_terminate_request request then (d, Inl (HttpFailure 422 ''validation''))
    else case uuid_of_string session_id of
       Inl _ \<Rightarrow> (d, Inl (HttpFailure 404 ''session_not_found''))
     | Inr sid \<Rightarrow>
    case get_row es_id sid (db_exam_sessions d) of
       None \<Rightarrow> (d, Inl (HttpFailure 404 ''session_not_found''))
     | Some es \<Rightarrow>
    let fid = trq_triggering_flag_id (the request) in
    if \<not> has_key fl_id (db_flags d) fid then (d, Inl (HttpFailure 404 ''flag_not_found''))
    else if es_status es \<noteq> SS_PENDING \<and> es_status es \<noteq> SS_ACTIVE then (d, Inl (HttpFailure 409 ''invalid_session_transition''))
    else if has_key tr_id (db_termination_records d) (cx_new_id env) \<or>
            has_key tr_exam_session_id (db_termination_records d) sid \<or> \<not> after_opt (Some (cx_now env)) (es_started_at es)
    then (d, Inl (HttpFailure 500 ''evidence_seal_failed''))
    else (terminate_in (cx_now env) sid
            (route_termination (cx_new_id env) (cx_created_at env) sid fid (trq_reason (the request))) d,
          Inr \<lparr> trs_session_id = sid, trs_new_status = ''terminated'', trs_termination_record_id = cx_new_id env,
                trs_triggering_flag_id = fid \<rparr>)) \<and>
    parse_bearer None = None \<and> (header_safe tok \<longrightarrow> parse_bearer (Some (bearer tok)) = Some tok)"
proof -
  have mv: "moves s SS_TERMINATED \<longleftrightarrow> s = SS_PENDING \<or> s = SS_ACTIVE" for s
    by (cases s) (auto intro: moves.intros elim: moves.cases)
  have flag: "assert_flag_present fid (open_session d) = Inl e \<Longrightarrow> \<not> has_key fl_id (db_flags d) fid"
    "assert_flag_present fid (open_session d) = Inr f \<Longrightarrow> has_key fl_id (db_flags d) fid" for fid e f
    using get_row_has_key[of fl_id fid "db_flags d"] by (auto simp: assert_flag_present_def split: option.splits)
  have codes: "auth_error ''internal_token_invalid'' = HttpFailure 403 ''internal_token_invalid''"
    "auth_error ''internal_token_required'' = HttpFailure 401 ''internal_token_required''"
    "route_error ''session_not_found'' = HttpFailure 404 ''session_not_found''"
    "route_error ''flag_not_found'' = HttpFailure 404 ''flag_not_found''"
    "route_error ''invalid_session_transition'' = HttpFailure 409 ''invalid_session_transition''"
    "route_error ''evidence_seal_failed'' = HttpFailure 500 ''evidence_seal_failed''"
    by (simp_all add: auth_error_def ERROR_HTTP_def route_error_def ROUTES_ERROR_HTTP_def)
  note unfold = post_terminate_def require_internal_terminate_token_def codes valid_body_def Let_def assert_transition_moves mv
    commit_def
  have "parse_bearer None = None" by (simp add: parse_bearer_def)
  note ends = this parse_bearer_header
  have id_kept: "tr_id (route_termination k t sid fid reason) = k" for k t sid fid reason
    by (simp add: route_termination_def)
  show ?thesis
  proof (cases "\<exists>tok. parse_bearer authorization = Some tok \<and> tok = os_internal_terminate_token (oc_settings deps) \<and>
      valid_body check_terminate_request request")
    case False
    then show ?thesis using ends by (auto simp: unfold split: option.splits)
  next
    case True
    then obtain rq where t: "parse_bearer authorization = Some (os_internal_terminate_token (oc_settings deps))"
        "request = Some rq" "check_terminate_request rq" by (auto simp: valid_body_def split: option.splits)
    let ?fid = "trq_triggering_flag_id rq"
    show ?thesis
    proof (cases "\<exists>sid es. uuid_of_string session_id = Inr sid \<and> get_row es_id sid (db_exam_sessions d) = Some es")
      case False
      then show ?thesis using ends by (auto simp: unfold t split: option.splits sum.splits)
    next
      case True
      then obtain sid es where s: "uuid_of_string session_id = Inr sid" "get_row es_id sid (db_exam_sessions d) = Some es" by blast
      have id: "es_id es = sid" using get_row_Some[OF s(2)] by simp
      show ?thesis
      proof (cases "assert_flag_present ?fid (open_session d)")
        case (Inl e)
        with flag(1)[OF this] ends show ?thesis by (simp add: unfold t s)
      next
        case (Inr f)
        note fl = flag(2)[OF this]
        with Inr ends id terminate_commits[OF assms s(2) fl] show ?thesis
          by (auto simp: unfold t s id_kept)
      qed
    qed
  qed
qed

section \<open>Evidence without a retention date\<close>

text \<open>Evidence that is sealed through the route without a retention date is kept for no time at all:
  the artifact expires at the moment of the request, whatever the configured default retention, so
  every later retention run selects it for deletion.\<close>

theorem route_sealed_evidence_expires:
  assumes "post_seal_evidence deps env diag (Some sid) (Some fid) (Some rq) blob (d, s) = ((d', s'), Inr resp)"
    and "sar_retention_expires_at rq = None"
  shows "\<exists>a\<in>set (db_evidence_artifacts d'). ea_id a = sap_evidence_artifact_id resp \<and>
    (\<forall>later > cx_now env. is_expired later a)"
proof -
  let ?req = "seal_request_of sid fid rq blob (cx_now env)"
  let ?dr = "os_retention_default_seconds (oc_settings deps) * 1000000"
  obtain db1 s1 r1 where c: "seal_evidence_for_flag (oc_sha deps) (oc_store deps) ?dr (cx_now env) (cx_new_id env) diag ?req
      (open_session d, s) = ((db1, s1), r1)" by (metis prod.exhaust_sel)
  have v: "valid_body check_seal_api_request (Some rq)"
    using assms(1) by (auto simp: post_seal_evidence_def split: if_splits)
  obtain a seal where a: "r1 = Inr (a, seal)" "d' = committed db1" "sap_evidence_artifact_id resp = ea_id a"
    using assms(1) c v by (auto simp: post_seal_evidence_def split: sum.splits)
  have "a \<in> set (db_evidence_artifacts (committed db1)) \<and> ea_retention_expires_at a = the (srs_retention_expires_at seal)
      \<and> srs_retention_expires_at seal = sr_retention_expires_at (effective_request ?dr (cx_now env) ?req)"
    using c[unfolded a(1)]
    by (auto simp: seal_evidence_for_flag_def record_artifact_def Let_def commit_def seal_evidence_def sealed_def
        artifact_row_def split: if_splits sum.splits prod.splits)
  then have "a \<in> set (db_evidence_artifacts d')" "ea_retention_expires_at a = cx_now env"
    using a(2) assms(2) by (simp_all add: effective_request_def seal_request_of_def)
  then show ?thesis using a(3) by (auto simp: is_expired_def)
qed

section \<open>An office to run the system with\<close>

definition demo_person :: "uuid \<Rightarrow> string \<Rightarrow> participant" where
  "demo_person i ref = demo_participant\<lparr> pt_id := i, pt_lms_user_reference := ref \<rparr>"

definition demo_override :: identity_override where
  "demo_override = \<lparr> io_id = 70, io_exam_session_id = 1, io_requested_by_admin_id = 20, io_department = ''cs'',
     io_reason = ''badge'', io_status = OR_PENDING, io_approved_by_admin_id = None, io_valid_from = 1,
     io_valid_until = 2, io_decided_at = None, io_created_at = 1 \<rparr>"

definition demo_office :: database where
  "demo_office = demo_db\<lparr>
     db_participants := [demo_participant, demo_person 60 ''admin'', demo_person 61 ''head'', demo_person 62 ''proctor''],
     db_identity_overrides := [demo_override] \<rparr>"

definition demo_headless :: database where
  "demo_headless = demo_office\<lparr> db_admin_users := [demo_admin 20 ''admin'' AR_ADMIN, demo_admin 22 ''proctor'' AR_PROCTOR],
     db_accommodation_exemptions := [] \<rparr>"

definition demo_short_settings :: lti_settings where
  "demo_short_settings = demo_lti_settings\<lparr> ls_session_token_ttl_seconds := 60 \<rparr>"

definition demo_orch_deps :: "(string, blobs) orchestration_deps" where
  "demo_orch_deps = \<lparr> oc_settings = \<lparr> os_internal_terminate_token = ''internal-token-of-32-bytes-or-so'',
       os_retention_default_seconds = 7776000 \<rparr>,
     oc_lti = demo_short_settings, oc_jwt = demo_jwt, oc_str_of = (\<lambda>_. []), oc_sha = demo_sha,
     oc_store = memory_store demo_sha \<rparr>"

definition demo_auth :: "uuid \<Rightarrow> app_role \<Rightarrow> string option" where
  "demo_auth p role = Some (bearer (issue_session_token demo_jwt demo_short_settings p 1 role 0 7))"

definition demo_call :: "uuid \<Rightarrow> call_env" where
  "demo_call k = \<lparr> cx_seconds = 30, cx_now = 30000000, cx_new_id = k, cx_created_at = 30000000 \<rparr>"

definition demo_policy_request :: create_policy_request where
  "demo_policy_request = \<lparr> cp_name = ''default'', cp_termination_severity = FS_CRITICAL,
     cp_terminate_on_second_face = True, cp_second_face_confirmation_frames = 3, cp_gaze_min_duration_ms = 800,
     cp_gaze_window_seconds = 300, cp_gaze_warning_limit = 3, cp_gaze_termination_limit = 8,
     cp_medium_score_termination_threshold = 10, cp_medium_score_action = AUTO_TERMINATE,
     cp_liveness_check_enabled = False, cp_liveness_check_action = None, cp_liveness_score_threshold = 1/2,
     cp_liveness_confirmation_frames = 3, cp_identity_similarity_threshold = 3/5,
     cp_identity_confirmation_frames = 3, cp_audio_noise_floor_dbfs = - 30, cp_audio_speech_ratio_threshold = 3/10,
     cp_extra_rules = [], cp_is_active = True, cp_retire_previous = True \<rparr>"

text \<open>The head promotes the proctor, both of the others try to approve the override of the
  administrator, the administrator demotes the proctor again, a review is written and an instructor
  launches.\<close>

definition demo_day :: "system_event list" where
  "demo_day =
     [Api (demo_call 80) (demo_auth 61 APP_ADMIN) (ChangeRole (Some 22) (Some \<lparr> urr_role = ''head'', urr_reason = None \<rparr>)),
      Api (demo_call 81) (demo_auth 60 APP_ADMIN) (ApproveOverride (Some 70)),
      Api (demo_call 82) (demo_auth 61 APP_ADMIN) (ApproveOverride (Some 70)),
      Api (demo_call 83) (demo_auth 60 APP_ADMIN) (ChangeRole (Some 22) (Some \<lparr> urr_role = ''instructor'', urr_reason = None \<rparr>)),
      Api (demo_call 84) (demo_auth 62 APP_PROCTOR) (Review (Some 40) (Some \<lparr> rq_decision = RD_UPHELD, rq_notes = None \<rparr>)),
      Lti demo_login, Lti (Launch demo_times demo_ids demo_id_token)]"

definition demo_after :: "database \<Rightarrow> database" where
  "demo_after d = lw_db (fst (system_run demo_orch_deps demo_deps demo_day (demo_world\<lparr> lw_db := d \<rparr>, [])))"

lemma demo_office_ok: "db_ok demo_office" "db_ok demo_headless"
  by code_simp+

theorem head_cannot_arise_witness: "headless (demo_after demo_headless)"
  using head_cannot_arise[of "(demo_world\<lparr> lw_db := demo_headless \<rparr>, [])" demo_orch_deps demo_deps demo_day]
  by (simp add: demo_after_def demo_office_ok) (simp add: headless_def demo_headless_def demo_admin_def)

theorem override_four_eyes_witness: "list_all four_eyes (db_identity_overrides (demo_after demo_office))"
  using override_four_eyes[of "(demo_world\<lparr> lw_db := demo_office \<rparr>, [])" demo_orch_deps demo_deps demo_day]
  by (simp add: demo_after_def demo_office_ok) (simp add: demo_office_def demo_override_def four_eyes_def)

theorem history_append_only_witness: "history_kept demo_office (demo_after demo_office)"
  using history_append_only[of "(demo_world\<lparr> lw_db := demo_office \<rparr>, [])" demo_orch_deps demo_deps demo_day]
  by (simp add: demo_after_def demo_office_ok)

theorem demotions_are_audited_witness: "demotion_audited demo_office (demo_after demo_office)"
  using demotions_are_audited[of "(demo_world\<lparr> lw_db := demo_office \<rparr>, [])" demo_orch_deps demo_deps demo_day]
  by (simp add: demo_after_def demo_office_ok)

lemma demo_admin_asks:
  "require_admin_role demo_orch_deps 30 (demo_auth 60 APP_ADMIN) demo_office = Inr (demo_admin 20 ''admin'' AR_ADMIN)"
  by code_simp

lemma demo_admin_route:
  "admin_route demo_orch_deps (demo_call k) (demo_auth 60 APP_ADMIN) valid handler demo_office
   = (if \<not> valid then (demo_office, Inl (HttpFailure 422 ''validation'')) else handler (demo_admin 20 ''admin'' AR_ADMIN))"
  by (simp add: admin_route_def demo_call_def demo_admin_asks)

theorem reject_commits_but_fails_witness:
  "post_reject_identity_override_request demo_orch_deps (demo_call 81) (demo_auth 60 APP_ADMIN) (Some 70) demo_office
   = (decide_in OR_REJECTED 20 30000000 70 demo_office, Inl Unhandled)"
proof -
  have m: "demo_override \<in> set (db_identity_overrides demo_office)" by (simp add: demo_office_def)
  have sel: "io_id demo_override = 70" "au_id (demo_admin 20 ''admin'' AR_ADMIN) = 20" "cx_now (demo_call 81) = 30000000"
    "cx_seconds (demo_call 81) = 30"
    by (simp_all add: demo_override_def demo_admin_def demo_call_def)
  show ?thesis
    by (rule reject_commits_but_fails[OF demo_office_ok(1) _ m, of demo_orch_deps "demo_call 81", unfolded sel,
          OF demo_admin_asks, unfolded sel])
qed

theorem review_outcome_witness:
  "\<exists>rev. snd (record_proctor_review 40 RD_UPHELD None (demo_admin 20 ''admin'' AR_ADMIN) 80 9 (open_session demo_office))
    = Inr \<lparr> rr_review = rev, rr_session_status = SS_UNDER_REVIEW \<rparr>"
proof -
  obtain s' r where c: "record_proctor_review 40 RD_UPHELD None (demo_admin 20 ''admin'' AR_ADMIN) 80 9
      (open_session demo_office) = (s', r)" by fastforce
  have f: "get_row fl_id 40 (db_flags demo_office) = Some demo_flag"
    "get_row es_id (fl_exam_session_id demo_flag) (db_exam_sessions demo_office) = Some demo_session"
    "status_after_review RD_UPHELD (es_status demo_session) = SS_UNDER_REVIEW"
    "staff demo_office (demo_admin 20 ''admin'' AR_ADMIN)"
    "\<not> has_key pr_id (db_proctor_reviews demo_office) 80"
    by (code_simp, code_simp, code_simp, simp add: staff_def demo_office_def demo_db_def, code_simp)
  from review_outcome[OF demo_office_ok(1) f(4,5) c] f(1-3) c show ?thesis by auto
qed

lemma demo_policy_posted:
  "is_Inr (snd (post_policy_config demo_orch_deps (demo_call 80) (demo_auth 60 APP_ADMIN) (Some demo_policy_request) demo_office))"
  unfolding post_policy_config_def demo_admin_route by code_simp

theorem policy_version_created_witness:
  "length (current_of ''default'' (fst (post_policy_config demo_orch_deps (demo_call 80) (demo_auth 60 APP_ADMIN)
     (Some demo_policy_request) demo_office))) = 1"
proof -
  obtain d' resp where c: "post_policy_config demo_orch_deps (demo_call 80) (demo_auth 60 APP_ADMIN)
      (Some demo_policy_request) demo_office = (d', Inr resp)"
    using demo_policy_posted by (metis is_Inr_iff prod.collapse)
  have "map pc_id (current_of ''default'' d') = [pcr_id resp]"
    using policy_version_created[OF c demo_office_ok(1)] by (simp add: demo_policy_request_def)
  then have "length (map pc_id (current_of ''default'' d')) = 1" by simp
  with c show ?thesis by simp
qed

definition demo_learner_token :: string where
  "demo_learner_token = issue_session_token demo_jwt demo_short_settings 2 1 APP_LEARNER 0 7"

theorem session_status_access_witness:
  "get_session_status demo_orch_deps (demo_call 80) (Some (bearer demo_learner_token)) (uuid_str 1) demo_office
   = Inr (status_body demo_session)"
proof -
  have "header_safe demo_learner_token" by code_simp
  moreover have "get_row es_id 1 (db_exam_sessions demo_office) = Some demo_session" by code_simp
  moreover have "oc_jwt demo_orch_deps = demo_jwt" "oc_lti demo_orch_deps = demo_short_settings"
    "ls_session_token_ttl_seconds demo_short_settings = 60" "cx_seconds (demo_call 80) = 30" "unix_seconds 0 = 0"
    "es_participant_id demo_session = 2"
    by (simp_all add: demo_orch_deps_def demo_short_settings_def demo_call_def unix_seconds_def demo_session_def)
  ultimately have h: "jwt_ok (oc_jwt demo_orch_deps)" "0 < ls_session_token_ttl_seconds (oc_lti demo_orch_deps)"
    "unix_seconds 0 + ls_session_token_ttl_seconds (oc_lti demo_orch_deps) \<le> 253402300799"
    "unix_seconds 0 \<le> cx_seconds (demo_call 80)"
    "demo_learner_token = issue_session_token (oc_jwt demo_orch_deps) (oc_lti demo_orch_deps) 2 1 APP_LEARNER 0 7"
    and safe: "header_safe demo_learner_token"
    and es: "get_row es_id 1 (db_exam_sessions demo_office) = Some demo_session" "es_participant_id demo_session = 2"
    and live: "\<not> unix_seconds 0 + ls_session_token_ttl_seconds (oc_lti demo_orch_deps) \<le> cx_seconds (demo_call 80)"
    by (simp_all add: demo_jwt_ok demo_learner_token_def)
  show ?thesis
    unfolding session_status_access[OF h(1) order_refl h(2-5) safe] if_not_P[OF live] es option.case
    by (rule if_P) simp
qed

theorem terminate_route_exact_witness:
  "post_terminate demo_orch_deps (demo_call 80) (Some (bearer ''internal-token-of-32-bytes-or-so'')) (uuid_str 1)
     (Some \<lparr> trq_triggering_flag_id = 40, trq_reason = ''phone'' \<rparr>) demo_office
   = (terminate_in 30000000 1 (route_termination 80 30000000 1 40 ''phone'') demo_office,
      Inr \<lparr> trs_session_id = 1, trs_new_status = ''terminated'', trs_termination_record_id = 80, trs_triggering_flag_id = 40 \<rparr>)"
proof -
  have h: "check_terminate_request \<lparr> trq_triggering_flag_id = 40, trq_reason = ''phone'' \<rparr>"
    "\<not> has_key tr_id (db_termination_records demo_office) (cx_new_id (demo_call 80))"
    "header_safe ''internal-token-of-32-bytes-or-so''" "get_row es_id 1 (db_exam_sessions demo_office) = Some demo_session"
    "has_key fl_id (db_flags demo_office) 40" "\<not> has_key tr_exam_session_id (db_termination_records demo_office) 1"
    "es_status demo_session = SS_ACTIVE" "after_opt (Some (cx_now (demo_call 80))) (es_started_at demo_session)"
    "os_internal_terminate_token (oc_settings demo_orch_deps) = ''internal-token-of-32-bytes-or-so''"
    by code_simp+
  have c: "cx_now (demo_call 80) = 30000000" "cx_new_id (demo_call 80) = 80" "cx_created_at (demo_call 80) = 30000000"
    by (simp_all add: demo_call_def)
  have r: "uuid_of_string (uuid_str 1) = Inr 1" by (rule uuid_of_uuid_str)
  from terminate_route_exact[OF demo_office_ok(1), of demo_orch_deps "demo_call 80"
      "Some (bearer ''internal-token-of-32-bytes-or-so'')" "uuid_str 1"
      "Some \<lparr> trq_triggering_flag_id = 40, trq_reason = ''phone'' \<rparr>" "''internal-token-of-32-bytes-or-so''"] h c
  show ?thesis by (simp add: r valid_body_def)
qed

definition demo_upload :: seal_api_request where
  "demo_upload = \<lparr> sar_artifact_type = ''frame'', sar_media_type = ''image/jpeg'', sar_capture_started_at = 5,
     sar_capture_ended_at = None, sar_retention_expires_at = None \<rparr>"

theorem route_sealed_evidence_expires_witness:
  "\<exists>a\<in>set (db_evidence_artifacts (fst (fst (post_seal_evidence demo_orch_deps (demo_call 80) [] (Some 1) (Some 40)
     (Some demo_upload) [1, 2] (demo_office, []))))). is_expired 30000001 a"
proof -
  let ?c = "post_seal_evidence demo_orch_deps (demo_call 80) [] (Some 1) (Some 40) (Some demo_upload) [1, 2] (demo_office, [])"
  let ?req = "seal_request_of 1 40 demo_upload [1, 2] 30000000"
  obtain key where key: "build_storage_key (sr_exam_session_id ?req) (sr_flag_id ?req) (sr_artifact_type ?req) = Inr key"
    by (simp add: build_storage_key_def seal_request_of_def demo_upload_def ARTIFACT_EXTENSIONS_def)
  have kind: "artifact_type_to_enum (sr_artifact_type ?req) = Inr EK_FRAME"
    by (simp add: seal_request_of_def demo_upload_def artifact_type_to_enum_def)
  have ok: "db_ok (working (open_session demo_office))" by (simp add: demo_office_ok)
  have rest: "int (length (sr_blob ?req)) \<le> MAX_BLOB_BYTES"
    "has_key fl_id (db_flags (working (open_session demo_office))) (sr_flag_id ?req)"
    by (simp_all add: seal_request_of_def MAX_BLOB_BYTES_def has_key_def demo_office_def demo_db_def demo_flag_def)
  have e: "db_evidence_artifacts demo_office = []" by (simp add: demo_office_def demo_db_def empty_database_def)
  have ins: "artifact_insertable demo_office (artifact_row aid now ?req EK_FRAME (sealed demo_sha (effective_request dr now ?req) key))"
    for aid now dr
    using rest(2) by (simp add: artifact_insertable_def artifact_row_def sealed_def effective_request_def has_key_def e
        seal_request_of_def demo_upload_def evidence_artifact_checks_def after_opt_def)
  have v: "check_seal_api_request demo_upload" by code_simp
  have c: "oc_sha demo_orch_deps = demo_sha" "oc_store demo_orch_deps = memory_store demo_sha" "cx_now (demo_call 80) = 30000000"
    by (simp_all add: demo_orch_deps_def demo_call_def)
  have "is_Inr (snd ?c)"
    using seal_memory_outcome[OF ok rest key kind, of demo_sha "os_retention_default_seconds (oc_settings demo_orch_deps) * 1000000"
        30000000 "cx_new_id (demo_call 80)" "[]" "[]"] ins
    by (simp add: post_seal_evidence_def valid_body_def v c Let_def)
  then obtain d' s' resp where c: "?c = ((d', s'), Inr resp)" by (metis is_Inr_iff prod.collapse)
  have "sar_retention_expires_at demo_upload = None" "cx_now (demo_call 80) < 30000001"
    by (simp_all add: demo_upload_def demo_call_def)
  from route_sealed_evidence_expires[OF c this(1)] this(2) c show ?thesis by auto
qed

section \<open>Every request is a permitted change\<close>

text \<open>C17: The routes implement their specification: whatever the request, its credentials, its body, the
  clock and the store do, the database afterwards is the one before, or it has made exactly one of
  the changes of \<open>api_change\<close>, under the authority and the guards of that rule, and is consistent.\<close>

theorem requests_refine_changes:
  assumes "db_ok d"
  shows "fst (api_step deps env auth call (d, s)) = d \<or>
    db_ok (fst (api_step deps env auth call (d, s))) \<and> api_change d (fst (api_step deps env auth call (d, s)))"
  using api_step_permitted[OF assms] by (simp add: permitted_def)

theorem requests_refine_changes_witness:
  "let d' = fst (api_step demo_orch_deps (demo_call 80) (demo_auth 61 APP_ADMIN) (ApproveOverride (Some 70)) (demo_office, []))
   in d' = demo_office \<or> db_ok d' \<and> api_change demo_office d'"
  unfolding Let_def by (rule requests_refine_changes[OF demo_office_ok(1)])

text \<open>What the guards leave open: an administrator may demote the head of department, and the flag that
  justifies a termination may belong to another session.\<close>

lemma admin_demotes_head:
  "snd (post_update_admin_role demo_orch_deps (demo_call 80) (demo_auth 60 APP_ADMIN) (Some 21)
     (Some \<lparr> urr_role = ''instructor'', urr_reason = None \<rparr>) demo_office)
   = Inr (admin_from_orm (demo_admin 21 ''head'' AR_INSTRUCTOR))"
  unfolding post_update_admin_role_def demo_admin_route by code_simp

lemma unknown_admin_is_400:
  "role_failure AdminUserNotFoundError = HttpFailure 400 ''admin_user_not_found''
   \<and> auth_error ''admin_user_not_found'' = HttpFailure 404 ''admin_user_not_found''"
  by code_simp

end
