(* ===== verification/Preprocessing.thy ===== *)
theory Preprocessing
  imports DataModel StorageKey ClientMessages
begin

text \<open>
  Decoding of media (\<^verbatim>\<open>preprocessing/audio.py\<close>, \<^verbatim>\<open>preprocessing/frames.py\<close>): base64, PCM samples,
  frames for voice detection, the level of a chunk, images.  Samples are 16-bit words read as
  signed; a level is \<open>None\<close> for minus infinity.  The routines of numpy and OpenCV that compute
  rather than move data are the parameters \<open>num_lib\<close> and \<open>img_lib\<close>.
\<close>

section \<open>Base64\<close>

text \<open>\<^verbatim>\<open>base64.b64decode(s, validate=True)\<close>: the strict scanner of \<^verbatim>\<open>binascii\<close>.  Whether padding after a
  complete group is tolerated depends on the release of the interpreter, hence \<open>lenient\<close>.\<close>

definition b64_alphabet :: string where
  "b64_alphabet = ''ABCDEFGHIJKLMNOPQRSTUVWXYZabcdefghijklmnopqrstuvwxyz0123456789+/''"

definition b64_value :: "char \<Rightarrow> nat option" where
  "b64_value c = find (\<lambda>i. b64_alphabet ! i = c) [0..<64]"

fun b64_scan :: "bool \<Rightarrow> string \<Rightarrow> nat \<Rightarrow> nat \<Rightarrow> bool \<Rightarrow> nat \<Rightarrow> bytes \<Rightarrow> bytes option" where
  "b64_scan lenient [] q pads padding left out = (if q = 0 then Some out else None)"
| "b64_scan lenient (c # cs) q pads padding left out =
     (if c = CHR ''='' then
        (if q = 0 \<and> \<not> lenient then None
         else if q \<ge> 2 \<and> q + Suc pads \<ge> 4 then (if cs \<noteq> [] then None else Some out)
         else b64_scan lenient cs q (if q \<ge> 2 then Suc pads else pads) True left out)
      else (case b64_value c of
          None \<Rightarrow> None
        | Some v \<Rightarrow>
            if padding then None
            else if q = 0 then b64_scan lenient cs 1 0 False v out
            else if q = 1 then b64_scan lenient cs 2 0 False (v mod 16) (out @ [of_nat (left * 4 + v div 16)])
            else if q = 2 then b64_scan lenient cs 3 0 False (v mod 4) (out @ [of_nat (left * 16 + v div 4)])
            else b64_scan lenient cs 0 0 False 0 (out @ [of_nat (left * 64 + v)])))"

definition b64decode :: "bool \<Rightarrow> string \<Rightarrow> bytes option" where
  "b64decode lenient s =
     (if s \<noteq> [] \<and> hd s = CHR ''='' then None else b64_scan lenient s 0 0 False 0 [])"

section \<open>PCM audio\<close>

definition VAD_SAMPLE_RATES :: "int list" where "VAD_SAMPLE_RATES = [8000, 16000, 32000, 48000]"
definition VAD_FRAME_DURATIONS :: "int list" where "VAD_FRAME_DURATIONS = [10, 20, 30]"

datatype audio_error = AudioDecodeError string | DecoderUnknownEncoding string

datatype audio_encoding = PCM_16_LE | PCM_16_BE | OPUS | UNKNOWN_ENCODING

definition coerce_encoding :: "string option \<Rightarrow> audio_encoding" where
  "coerce_encoding value =
     (case value of
        None \<Rightarrow> UNKNOWN_ENCODING
      | Some v \<Rightarrow>
          (let norm = map (\<lambda>c. if c = CHR ''-'' then CHR ''_'' else c) (lower (strip v)) in
           if List.member [''pcm16_le'', ''pcm_le'', ''s16_le'', ''signed16_le''] norm then PCM_16_LE
           else if List.member [''pcm16_be'', ''pcm_be'', ''s16_be'', ''signed16_be''] norm then PCM_16_BE
           else if List.member [''opus'', ''ogg_opus''] norm then OPUS
           else UNKNOWN_ENCODING))"

text \<open>\<^verbatim>\<open>np.frombuffer(raw, dtype="<i2")\<close> and \<^verbatim>\<open>">i2"\<close>.\<close>

fun samples_le :: "bytes \<Rightarrow> 16 word list" where
  "samples_le (a # b # r) = of_nat (unat a + 256 * unat b) # samples_le r"
| "samples_le _ = []"

fun samples_be :: "bytes \<Rightarrow> 16 word list" where
  "samples_be (a # b # r) = of_nat (256 * unat a + unat b) # samples_be r"
| "samples_be _ = []"

text \<open>\<^verbatim>\<open>samples.astype("<i2").tobytes()\<close>.\<close>

definition le_bytes :: "16 word \<Rightarrow> bytes" where
  "le_bytes s = [of_nat (unat s mod 256), of_nat (unat s div 256)]"

definition DecoderPcm16Le :: "bool \<Rightarrow> string \<Rightarrow> audio_error + 16 word list" where
  "DecoderPcm16Le lenient encoded =
     (case b64decode lenient encoded of
        None \<Rightarrow> Inl (AudioDecodeError ''chunk payload is not valid base64'')
      | Some raw \<Rightarrow>
          if length raw mod 2 \<noteq> 0 then Inl (AudioDecodeError ''PCM-16-LE chunk has an odd byte count'')
          else Inr (samples_le raw))"

definition DecoderPcm16Be :: "bool \<Rightarrow> string \<Rightarrow> audio_error + 16 word list" where
  "DecoderPcm16Be lenient encoded =
     (case b64decode lenient encoded of
        None \<Rightarrow> Inl (AudioDecodeError ''chunk payload is not valid base64'')
      | Some raw \<Rightarrow>
          if length raw mod 2 \<noteq> 0 then Inl (AudioDecodeError ''PCM-16-BE chunk has an odd byte count'')
          else Inr (samples_be raw))"

record audio_frame =
  af_samples :: "16 word list"
  af_sample_rate_hz :: int
  af_duration_ms :: int
  af_captured_at_ms :: int

definition decode_pcm_audio_chunk ::
  "bool \<Rightarrow> string \<Rightarrow> string option \<Rightarrow> int option \<Rightarrow> audio_error + 16 word list" where
  "decode_pcm_audio_chunk lenient encoded encoding sample_rate_hz =
     (let check = (\<lambda>r. bind_err r (\<lambda>samples.
            if sample_rate_hz \<noteq> None \<and> \<not> List.member VAD_SAMPLE_RATES (the sample_rate_hz)
            then Inl (AudioDecodeError ''sample_rate_hz is not a VAD rate'') else Inr samples)) in
      case coerce_encoding encoding of
        OPUS \<Rightarrow> Inl (DecoderUnknownEncoding ''Opus decoding is not supported in v1'')
      | UNKNOWN_ENCODING \<Rightarrow> Inl (DecoderUnknownEncoding ''Unknown audio encoding'')
      | PCM_16_LE \<Rightarrow> check (DecoderPcm16Le lenient encoded)
      | PCM_16_BE \<Rightarrow> check (DecoderPcm16Be lenient encoded))"

section \<open>Numerics\<close>

text \<open>\<open>nl_rms\<close> is \<^verbatim>\<open>sqrt(mean(x ** 2))\<close>, \<open>nl_norm\<close> the Euclidean norm and \<open>nl_dot\<close> the inner product.\<close>

record num_lib =
  nl_rms :: "int list \<Rightarrow> rat"
  nl_log10 :: "rat \<Rightarrow> rat"
  nl_linspace :: "rat \<Rightarrow> rat \<Rightarrow> nat \<Rightarrow> rat list"
  nl_interp :: "rat list \<Rightarrow> rat list \<Rightarrow> rat list \<Rightarrow> rat list"
  nl_norm :: "rat list \<Rightarrow> rat"
  nl_dot :: "rat list \<Rightarrow> rat list \<Rightarrow> rat"
  nl_mean :: "rat list \<Rightarrow> rat"
  nl_sqrt :: "rat \<Rightarrow> rat"
  nl_atan2 :: "rat \<Rightarrow> rat \<Rightarrow> rat"
  nl_degrees :: "rat \<Rightarrow> rat"

definition trunc_int :: "rat \<Rightarrow> int" where
  "trunc_int q = (if 0 \<le> q then \<lfloor>q\<rfloor> else \<lceil>q\<rceil>)"

definition clip16 :: "rat \<Rightarrow> 16 word" where
  "clip16 q = of_int (trunc_int (max (- 32768) (min 32767 q)))"

definition resample_to_vad_rate ::
  "float_arith \<Rightarrow> num_lib \<Rightarrow> 16 word list \<Rightarrow> int \<Rightarrow> int \<Rightarrow> audio_error + 16 word list" where
  "resample_to_vad_rate fa nl samples from_rate to_rate =
     (if \<not> List.member VAD_SAMPLE_RATES from_rate then Inl (AudioDecodeError ''resample: from_rate is not a VAD-supported rate.'')
      else if \<not> List.member VAD_SAMPLE_RATES to_rate then Inl (AudioDecodeError ''resample: to_rate is not a VAD-supported rate.'')
      else if from_rate = to_rate then Inr samples
      else (let ratio = f_div fa (of_int to_rate) (of_int from_rate);
                src_len = length samples;
                dst_len = nat (round_half_even (f_mul fa (of_nat src_len) ratio)) in
            if dst_len = 0 then Inr []
            else if src_len = 1 then Inr (replicate dst_len (samples ! 0))
            else Inr (map clip16 (nl_interp nl (nl_linspace nl 0 (of_nat (src_len - 1)) dst_len)
                        (map of_nat [0..<src_len]) (map (\<lambda>s. of_int (sint s)) samples)))))"

section \<open>Frames for voice detection\<close>

definition split_into_vad_frames ::
  "16 word list \<Rightarrow> int \<Rightarrow> int \<Rightarrow> int \<Rightarrow> audio_error + audio_frame list" where
  "split_into_vad_frames samples sample_rate_hz duration_ms offset =
     (if \<not> List.member VAD_SAMPLE_RATES sample_rate_hz then Inl (AudioDecodeError ''split: sample_rate_hz is not VAD-supported.'')
      else if \<not> List.member VAD_FRAME_DURATIONS duration_ms then Inl (AudioDecodeError ''split: duration_ms is not VAD-supported'')
      else (let spf = nat (sample_rate_hz * duration_ms div 1000) in
        if spf = 0 then Inl (AudioDecodeError ''split: rate/duration combination produced a 0-sample frame.'')
        else if samples = [] then Inr []
        else (let n_full = length samples div spf; tail = length samples mod spf;
                  frame = (\<lambda>i chunk. \<lparr> af_samples = chunk, af_sample_rate_hz = sample_rate_hz,
                      af_duration_ms = duration_ms, af_captured_at_ms = offset + int i * duration_ms \<rparr>) in
          Inr (map (\<lambda>i. frame i (take spf (drop (i * spf) samples))) [0..<n_full]
               @ (if tail \<noteq> 0 then [frame n_full (drop (n_full * spf) samples @ replicate (spf - tail) 0)] else [])))))"

definition compute_rms_db :: "float_arith \<Rightarrow> num_lib \<Rightarrow> 16 word list \<Rightarrow> rat option" where
  "compute_rms_db fa nl samples =
     (if samples = [] then None
      else (let rms = nl_rms nl (map sint samples) in
            if rms \<le> 0 then None else Some (f_mul fa 20 (nl_log10 nl (f_div fa rms 32768)))))"

text \<open>\<^verbatim>\<open>min(candidates, key=...)\<close>: the first candidate whose key is smallest.\<close>

definition nearest_vad_rate :: "int \<Rightarrow> int" where
  "nearest_vad_rate rate =
     (let better = (\<lambda>a b. \<bar>a - rate\<bar> < \<bar>b - rate\<bar> \<or> \<bar>a - rate\<bar> = \<bar>b - rate\<bar> \<and> - a < - b) in
      foldl (\<lambda>best r. if better r best then r else best) (hd VAD_SAMPLE_RATES) (tl VAD_SAMPLE_RATES))"

definition preprocess_audio_chunk ::
  "bool \<Rightarrow> float_arith \<Rightarrow> num_lib \<Rightarrow> string \<Rightarrow> string option \<Rightarrow> int \<Rightarrow> int
   \<Rightarrow> audio_error + audio_frame list \<times> rat option" where
  "preprocess_audio_chunk lenient fa nl encoded encoding sample_rate_hz frame_duration_ms =
     (if \<not> List.member VAD_FRAME_DURATIONS frame_duration_ms
      then Inl (AudioDecodeError ''frame_duration_ms is not VAD-supported.'')
      else bind_err (decode_pcm_audio_chunk lenient encoded encoding (Some sample_rate_hz)) (\<lambda>samples0.
        let known = List.member VAD_SAMPLE_RATES sample_rate_hz;
            rate = (if known then sample_rate_hz else nearest_vad_rate sample_rate_hz) in
        bind_err (if known then Inr samples0 else resample_to_vad_rate fa nl samples0 sample_rate_hz rate) (\<lambda>samples.
        bind_err (split_into_vad_frames samples rate frame_duration_ms 0) (\<lambda>frames.
        Inr (frames, compute_rms_db fa nl samples)))))"

section \<open>Images\<close>

record 'i img_lib =
  il_imdecode :: "bytes \<Rightarrow> 'i option"
  il_shape :: "'i \<Rightarrow> nat list"
  il_bgr2rgb :: "'i \<Rightarrow> 'i"
  il_bgra2bgr :: "'i \<Rightarrow> 'i"
  il_crop :: "'i \<Rightarrow> int \<Rightarrow> int \<Rightarrow> int \<Rightarrow> int \<Rightarrow> 'i"

datatype frame_decode_error = FrameDecodeError string "string option"

definition ACCEPTED_ENCODINGS :: "string list" where "ACCEPTED_ENCODINGS = [''jpeg'', ''png'', ''webp'']"

record 'i decoded_frame =
  df_array :: 'i
  df_width :: nat
  df_height :: nat
  df_channels :: nat
  df_encoding :: string

definition decode_base64_to_bytes :: "bool \<Rightarrow> string \<Rightarrow> string \<Rightarrow> frame_decode_error + bytes" where
  "decode_base64_to_bytes lenient encoded encoding =
     (if \<not> List.member ACCEPTED_ENCODINGS encoding
      then Inl (FrameDecodeError ''encoding is not supported'' (Some encoding))
      else if encoded = [] \<or> strip encoded = []
      then Inl (FrameDecodeError ''frame payload is empty'' (Some encoding))
      else (case b64decode lenient encoded of
              None \<Rightarrow> Inl (FrameDecodeError ''frame payload is not valid base64'' (Some encoding))
            | Some raw \<Rightarrow> Inr raw))"

definition decode_jpeg_frame ::
  "bool \<Rightarrow> ('i, 'z) img_lib_scheme \<Rightarrow> string \<Rightarrow> string \<Rightarrow> frame_decode_error + 'i decoded_frame" where
  "decode_jpeg_frame lenient il encoded encoding =
     bind_err (decode_base64_to_bytes lenient encoded encoding) (\<lambda>raw.
       case il_imdecode il raw of
         None \<Rightarrow> Inl (FrameDecodeError ''cv2.imdecode returned None for the supplied image'' (Some encoding))
       | Some arr \<Rightarrow>
           (let shape = il_shape il arr in
            if length shape \<noteq> 3 \<or> \<not> List.member [3, 4] (shape ! 2)
            then Inl (FrameDecodeError ''decoded frame has unexpected shape'' (Some encoding))
            else Inr \<lparr> df_array = arr, df_width = shape ! 1, df_height = shape ! 0, df_channels = shape ! 2,
                       df_encoding = encoding \<rparr>))"

definition normalize_for_mediapipe :: "('i, 'z) img_lib_scheme \<Rightarrow> 'i decoded_frame \<Rightarrow> 'i decoded_frame" where
  "normalize_for_mediapipe il frame =
     (let src = df_array frame;
          src' = (if il_shape il src ! 2 = 4 then il_bgra2bgr il src else src) in
      \<lparr> df_array = il_bgr2rgb il src', df_width = df_width frame, df_height = df_height frame,
        df_channels = 3, df_encoding = ''rgb'' \<rparr>)"

definition normalize_for_yolov8 :: "'i decoded_frame \<Rightarrow> 'i decoded_frame" where
  "normalize_for_yolov8 frame = frame"

end
