(* ===== verification/PreprocessingProps.thy ===== *)
theory PreprocessingProps
  imports Preprocessing
begin

text \<open>
  Properties of the media decoding: a chunk that a client encodes by the book arrives sample for
  sample, and the frames for voice detection are a partition of it.
\<close>

section \<open>Encoding by the book\<close>

fun b64encode :: "bytes \<Rightarrow> string" where
  "b64encode (a # b # c # r) =
     map ((!) b64_alphabet)
       [unat a div 4, unat a mod 4 * 16 + unat b div 16, unat b mod 16 * 4 + unat c div 64, unat c mod 64] @ b64encode r"
| "b64encode [a, b] =
     map ((!) b64_alphabet) [unat a div 4, unat a mod 4 * 16 + unat b div 16, unat b mod 16 * 4] @ ''=''"
| "b64encode [a] = map ((!) b64_alphabet) [unat a div 4, unat a mod 4 * 16] @ ''==''"
| "b64encode [] = []"

lemma b64_alphabet_known: "list_all (\<lambda>i. b64_value (b64_alphabet ! i) = Some i \<and> b64_alphabet ! i \<noteq> CHR ''='') [0..<64]"
  by code_simp

lemma b64_value_alphabet: "i < 64 \<Longrightarrow> b64_value (b64_alphabet ! i) = Some i"
  using b64_alphabet_known by (simp add: list_all_iff)

lemma b64_alphabet_no_pad: "i < 64 \<Longrightarrow> b64_alphabet ! i \<noteq> CHR ''=''"
  using b64_alphabet_known by (simp add: list_all_iff)

lemma b64_scan_char:
  "v < 64 \<Longrightarrow> b64_scan e (b64_alphabet ! v # cs) q p False l out =
     (if q = 0 then b64_scan e cs 1 0 False v out
      else if q = 1 then b64_scan e cs 2 0 False (v mod 16) (out @ [of_nat (l * 4 + v div 16)])
      else if q = 2 then b64_scan e cs 3 0 False (v mod 4) (out @ [of_nat (l * 16 + v div 4)])
      else b64_scan e cs 0 0 False 0 (out @ [of_nat (l * 64 + v)]))"
  by (simp add: b64_value_alphabet b64_alphabet_no_pad)

lemma byte_lt: "unat (a :: 8 word) < 256"
  using unsigned_less[of a] by simp

lemma byte_reduce: "unat (a :: 8 word) div 4 < 64" "unat a div 16 mod 16 = unat a div 16" "unat a div 64 mod 4 = unat a div 64"
  using byte_lt[of a] by auto

lemma split_byte: "x div m * m + x mod m = (x :: nat)"
  by simp

lemma b64_scan_encode: "b64_scan e (b64encode bs) 0 0 False 0 out = Some (out @ bs)"
proof (induction bs arbitrary: out rule: b64encode.induct)
  case (1 a b c r)
  have v: "unat a div 4 < 64" "unat a mod 4 * 16 + unat b div 16 < 64" "unat b mod 16 * 4 + unat c div 64 < 64"
    "unat c mod 64 < 64"
    using byte_lt[of a] byte_lt[of b] byte_lt[of c] by auto
  have e: "(unat a mod 4 * 16 + unat b div 16) div 16 = unat a mod 4"
    "(unat a mod 4 * 16 + unat b div 16) mod 16 = unat b div 16"
    "(unat b mod 16 * 4 + unat c div 64) div 4 = unat b mod 16"
    "(unat b mod 16 * 4 + unat c div 64) mod 4 = unat c div 64"
    using byte_lt[of b] byte_lt[of c] by auto
  show ?case
    by (simp add: b64_scan_char[OF v(1)] b64_scan_char[OF v(2)] b64_scan_char[OF v(3)] b64_scan_char[OF v(4)]
        e byte_reduce 1 del: b64_scan.simps(2) of_nat_add of_nat_mult)
next
  case (2 a b)
  have v: "unat a div 4 < 64" "unat a mod 4 * 16 + unat b div 16 < 64" "unat b mod 16 * 4 < 64"
    using byte_lt[of a] byte_lt[of b] by auto
  have e: "(unat a mod 4 * 16 + unat b div 16) div 16 = unat a mod 4"
    "(unat a mod 4 * 16 + unat b div 16) mod 16 = unat b div 16"
    using byte_lt[of b] by auto
  have pad: "b64_scan e ''='' 3 0 False l o' = Some o'" for l o' by simp
  show ?case
    by (simp add: b64_scan_char[OF v(1)] b64_scan_char[OF v(2)] b64_scan_char[OF v(3)] e byte_reduce pad
        del: b64_scan.simps(2) of_nat_add of_nat_mult)
next
  case (3 a)
  have v: "unat a div 4 < 64" "unat a mod 4 * 16 < 64"
    using byte_lt[of a] by auto
  have pad: "b64_scan e ''=='' 2 0 False l o' = Some o'" for l o' by simp
  show ?case
    by (simp add: b64_scan_char[OF v(1)] b64_scan_char[OF v(2)] pad del: b64_scan.simps(2) of_nat_add of_nat_mult)
next
  case 4
  then show ?case by simp
qed

lemma b64encode_head: "b64encode bs \<noteq> [] \<Longrightarrow> hd (b64encode bs) \<noteq> CHR ''=''"
  by (cases bs rule: b64encode.cases) (simp_all add: b64_alphabet_no_pad byte_reduce)

lemma b64_roundtrip: "b64decode e (b64encode bs) = Some bs"
  using b64_scan_encode[of e bs "[]"] b64encode_head[of bs] unfolding b64decode_def by auto

lemma samples_le_bytes: "samples_le (concat (map le_bytes ss)) = ss"
proof (induction ss)
  case (Cons s ss)
  have "unat s < 65536" using unsigned_less[of s] by simp
  then have "unat (of_nat (unat s mod 256) :: 8 word) + 256 * unat (of_nat (unat s div 256) :: 8 word) = unat s"
    by (simp add: unat_of_nat)
  then have "of_nat (unat (of_nat (unat s mod 256) :: 8 word) + 256 * unat (of_nat (unat s div 256) :: 8 word)) = s"
    by (simp only: unat_of_nat word_unat_eq_iff) simp
  with Cons show ?case by (simp add: le_bytes_def del: of_nat_add of_nat_mult)
qed simp

lemma length_le_bytes: "length (concat (map le_bytes ss)) = 2 * length ss"
  by (induction ss) (simp_all add: le_bytes_def)

section \<open>Decoding a chunk\<close>

text \<open>A chunk that a client sends as little-endian 16-bit PCM in base64 at one of the supported rates
  is decoded to exactly its samples, including the empty chunk and every sample value; at any other
  rate it is refused.\<close>

theorem pcm_roundtrip:
  "decode_pcm_audio_chunk lenient (b64encode (concat (map le_bytes ss))) (Some ''pcm16_le'') (Some rate)
   = (if List.member VAD_SAMPLE_RATES rate then Inr ss
      else Inl (AudioDecodeError ''sample_rate_hz is not a VAD rate''))"
proof -
  have "coerce_encoding (Some ''pcm16_le'') = PCM_16_LE" by code_simp
  then show ?thesis
    by (simp add: decode_pcm_audio_chunk_def DecoderPcm16Le_def b64_roundtrip length_le_bytes samples_le_bytes)
qed

section \<open>Splitting a chunk\<close>

lemma concat_chunks: "n * k \<le> length xs \<Longrightarrow> concat (map (\<lambda>i. take k (drop (i * k) xs)) [0..<n]) = take (n * k) xs"
proof (induction n)
  case (Suc n)
  then have "concat (map (\<lambda>i. take k (drop (i * k) xs)) [0..<Suc n]) = take (n * k) xs @ take k (drop (n * k) xs)"
    by simp
  also have "\<dots> = take (n * k + k) xs" by (simp add: take_add)
  finally show ?case by (simp add: add.commute)
qed simp

definition frames_partition :: "16 word list \<Rightarrow> nat \<Rightarrow> int \<Rightarrow> audio_frame list \<Rightarrow> bool" where
  "frames_partition samples spf duration frames \<longleftrightarrow>
     (\<exists>silence. concat (map af_samples frames) = samples @ replicate silence 0 \<and> silence < spf) \<and>
     list_all (\<lambda>f. length (af_samples f) = spf) frames \<and>
     map af_captured_at_ms frames = map (\<lambda>i. int i * duration) [0..<length frames]"

text \<open>The frames cut from a chunk are the chunk: concatenated they give its samples followed by less
  than one frame of silence, each has exactly the length that the detector expects, and they start
  at consecutive multiples of the frame duration.\<close>

theorem frames_partition_chunk:
  assumes "split_into_vad_frames samples rate duration 0 = Inr frames"
  shows "frames_partition samples (nat (rate * duration div 1000)) duration frames"
proof -
  define k where "k = nat (rate * duration div 1000)"
  define n where "n = length samples div k"
  define t where "t = length samples mod k"
  define fr where "fr i chunk = \<lparr> af_samples = chunk, af_sample_rate_hz = rate, af_duration_ms = duration,
    af_captured_at_ms = int i * duration \<rparr>" for i chunk
  have k: "0 < k" using assms by (auto simp: split_into_vad_frames_def Let_def k_def split: if_splits)
  have nk: "n * k + t = length samples" "t < k" using k by (simp_all add: n_def t_def)
  show ?thesis
  proof (cases "samples = []")
    case True
    with assms k have "frames = []" by (auto simp: split_into_vad_frames_def Let_def k_def split: if_splits)
    with True k show ?thesis by (simp add: frames_partition_def k_def)
  next
    case False
    have f: "frames = map (\<lambda>i. fr i (take k (drop (i * k) samples))) [0..<n]
        @ (if t \<noteq> 0 then [fr n (drop (n * k) samples @ replicate (k - t) 0)] else [])"
      using assms False
      by (auto simp: split_into_vad_frames_def Let_def fr_def[abs_def] split: if_splits simp flip: k_def n_def t_def)
    have c: "concat (map (\<lambda>i. take k (drop (i * k) samples)) [0..<n]) = take (n * k) samples"
      by (rule concat_chunks) (use nk in simp)
    have full: "length (take k (drop (i * k) samples)) = k" if "i < n" for i
    proof -
      have "i * k + k \<le> n * k" using that by (metis Suc_leI add.commute mult_Suc mult_le_mono1)
      then show ?thesis using nk by simp
    qed
    have tail: "length (drop (n * k) samples) = t" using nk by simp
    have "map af_captured_at_ms frames = map (\<lambda>i. int i * duration) [0..<length frames]"
      by (simp add: f fr_def comp_def)
    moreover have "list_all (\<lambda>f. length (af_samples f) = k) frames"
      using full tail nk(2) by (auto simp: f fr_def list_all_iff)
    moreover have "\<exists>silence. concat (map af_samples frames) = samples @ replicate silence 0 \<and> silence < k"
    proof (cases "t = 0")
      case True
      with nk have "take (n * k) samples = samples" by simp
      with True c k show ?thesis by (auto simp: f fr_def comp_def intro!: exI[of _ 0])
    next
      case False
      have "concat (map af_samples frames) = samples @ replicate (k - t) 0"
        using False c by (simp add: f fr_def comp_def)
      with False nk(2) show ?thesis by (intro exI[of _ "k - t"]) simp
    qed
    ultimately show ?thesis by (simp add: frames_partition_def k_def)
  qed
qed

theorem frames_partition_chunk_witness:
  "frames_partition (replicate 100 1) 80 10
     [\<lparr> af_samples = replicate 80 1, af_sample_rate_hz = 8000, af_duration_ms = 10, af_captured_at_ms = 0 \<rparr>,
      \<lparr> af_samples = replicate 20 1 @ replicate 60 0, af_sample_rate_hz = 8000, af_duration_ms = 10, af_captured_at_ms = 10 \<rparr>]"
proof -
  have "split_into_vad_frames (replicate 100 1) 8000 10 0 = Inr
     [\<lparr> af_samples = replicate 80 1, af_sample_rate_hz = 8000, af_duration_ms = 10, af_captured_at_ms = 0 \<rparr>,
      \<lparr> af_samples = replicate 20 1 @ replicate 60 0, af_sample_rate_hz = 8000, af_duration_ms = 10, af_captured_at_ms = 10 \<rparr>]"
    by code_simp
  from frames_partition_chunk[OF this] show ?thesis by simp
qed

text \<open>The documented safety net is out of reach: a chunk at another rate is refused before it could be
  resampled, and the resampler itself only accepts the supported rates.\<close>

lemma preprocess_never_resamples:
  "\<not> List.member VAD_SAMPLE_RATES rate \<Longrightarrow> \<not> is_Inr (preprocess_audio_chunk lenient fa nl encoded encoding rate duration)
   \<and> \<not> is_Inr (resample_to_vad_rate fa nl samples rate to_rate)"
  by (auto simp: preprocess_audio_chunk_def decode_pcm_audio_chunk_def resample_to_vad_rate_def Let_def is_Inr_iff
      bind_err_eq_Inr split: audio_encoding.splits if_splits)

end
