(* ===== verification/InferenceModules.thy ===== *)
theory InferenceModules
  imports Preprocessing InferenceTypes Settings
begin

text \<open>
  The inference modules (\<^verbatim>\<open>inference/\<close>): browser events, voice activity, face presence, head pose
  and gaze, objects, identity, liveness.  The models themselves (MediaPipe, YOLO, dlib, uniface,
  webrtcvad) and the geometry that OpenCV computes are the parameter \<open>vision_lib\<close>; everything the
  modules make of their outputs is written out.  Each module returns the error it raises; an
  error that a library raises is a value of the library's result.
\<close>

section \<open>Libraries\<close>

type_synonym landmark = "rat \<times> rat \<times> rat"

record detection =
  dt_origin_x :: int
  dt_origin_y :: int
  dt_width :: int
  dt_height :: int
  dt_scores :: "rat list"

record yolo_box =
  yb_cls :: int
  yb_conf :: rat
  yb_xyxyn :: "rat \<times> rat \<times> rat \<times> rat"

record 'i vision_lib = "'i img_lib" +
  vl_face_detect :: "rat \<Rightarrow> 'i \<Rightarrow> py_error + detection list"
  vl_face_landmarks :: "'i \<Rightarrow> py_error + landmark list list"
  vl_solve_pnp :: "landmark list \<Rightarrow> (rat \<times> rat) list \<Rightarrow> rat list list \<Rightarrow> py_error + rat list option"
  vl_rodrigues :: "rat list \<Rightarrow> rat list list"
  vl_yolo :: "rat \<Rightarrow> 'i \<Rightarrow> py_error + yolo_box list option"
  vl_yolo_names :: "int \<Rightarrow> string option"
  vl_is_speech :: "int \<Rightarrow> bytes \<Rightarrow> int \<Rightarrow> py_error + bool"
  vl_face_encodings :: "'i \<Rightarrow> py_error + rat list list"
  vl_spoof :: "'i \<Rightarrow> int list \<Rightarrow> py_error + bool \<times> rat"

text \<open>The first failure of a sequence of calls.\<close>

fun map_err :: "('a \<Rightarrow> 'e + 'b) \<Rightarrow> 'a list \<Rightarrow> 'e + 'b list" where
  "map_err f [] = Inr []"
| "map_err f (x # xs) = bind_err (f x) (\<lambda>y. bind_err (map_err f xs) (\<lambda>ys. Inr (y # ys)))"

text \<open>Model files: the argument, else the environment; \<open>load\<close> is the library's constructor.\<close>

datatype model_error = EnvironmentError string | FileNotFoundError string | ModelRaised py_error

definition model_file ::
  "env \<Rightarrow> (string \<Rightarrow> bool) \<Rightarrow> string \<Rightarrow> string option \<Rightarrow> model_error + string" where
  "model_file environ isfile var given =
     (case (case given of None \<Rightarrow> environ var | Some p \<Rightarrow> Some p) of
        None \<Rightarrow> Inl (EnvironmentError var)
      | Some path \<Rightarrow> if \<not> isfile path then Inl (FileNotFoundError path) else Inr path)"

section \<open>Browser events\<close>

definition classify_browser_event :: "string \<Rightarrow> jdict option \<Rightarrow> py_error + browser_event_result" where
  "classify_browser_event event_type detail =
     (if \<not> List.member VALID_BROWSER_EVENTS event_type
      then Inl (ValueError ''Unrecognised browser event type'')
      else (let d = (case detail of None \<Rightarrow> [] | Some x \<Rightarrow> x) in
        Inr \<lparr> ir_modality = ''browser'', ir_event_type = event_type, ir_confidence = certain,
              ir_bounding_boxes = [],
              ir_raw_value = [(''event_type'', JStr event_type), (''detail'', JDict d)], be_detail = d \<rparr>))"

section \<open>Voice activity\<close>

definition EVENT_SILENCE :: string where "EVENT_SILENCE = ''silence''"
definition EVENT_SPEECH_DETECTED :: string where "EVENT_SPEECH_DETECTED = ''speech_detected''"
definition EVENT_ELEVATED_RMS :: string where "EVENT_ELEVATED_RMS = ''elevated_rms''"

record audio_vad_runner =
  vr_aggressiveness :: int
  vr_noise_floor :: rat
  vr_speech_ratio_threshold :: rat

definition new_audio_vad_runner :: "int \<Rightarrow> rat \<Rightarrow> rat \<Rightarrow> py_error + audio_vad_runner" where
  "new_audio_vad_runner aggressiveness noise_floor_dbfs speech_ratio_threshold =
     (if \<not> List.member [0, 1, 2, 3] aggressiveness then Inl (ValueError ''aggressiveness must be one of 0 to 3'')
      else if \<not> in_unit speech_ratio_threshold then Inl (ValueError ''speech_ratio_threshold must be in [0, 1]'')
      else Inr \<lparr> vr_aggressiveness = aggressiveness, vr_noise_floor = noise_floor_dbfs,
                 vr_speech_ratio_threshold = speech_ratio_threshold \<rparr>)"

definition rms_value :: "rat option \<Rightarrow> jval" where
  "rms_value rms_db = (case rms_db of None \<Rightarrow> JNegInf | Some v \<Rightarrow> JFloat v)"

definition exceeds :: "rat option \<Rightarrow> rat \<Rightarrow> bool" where
  "exceeds rms_db noise_floor = (case rms_db of None \<Rightarrow> False | Some v \<Rightarrow> v > noise_floor)"

definition speech_frame :: "'i vision_lib \<Rightarrow> audio_vad_runner \<Rightarrow> audio_frame \<Rightarrow> bool" where
  "speech_frame lib vr af =
     (case vl_is_speech lib (vr_aggressiveness vr) (concat (map le_bytes (af_samples af))) (af_sample_rate_hz af) of
        Inl _ \<Rightarrow> False
      | Inr b \<Rightarrow> b)"

definition vad_event :: "audio_vad_runner \<Rightarrow> rat \<Rightarrow> rat option \<Rightarrow> string" where
  "vad_event vr speech_ratio rms_db =
     (if speech_ratio \<ge> vr_speech_ratio_threshold vr then EVENT_SPEECH_DETECTED
      else if exceeds rms_db (vr_noise_floor vr) then EVENT_ELEVATED_RMS
      else EVENT_SILENCE)"

definition vad_result :: "string \<Rightarrow> confidence_interval \<Rightarrow> rat \<Rightarrow> rat option \<Rightarrow> int \<Rightarrow> int \<Rightarrow> audio_vad_result" where
  "vad_result event_type confidence ratio rms_db speech n_frames =
     \<lparr> ir_modality = ''audio'', ir_event_type = event_type, ir_confidence = confidence, ir_bounding_boxes = [],
       ir_raw_value = [(''speech_frames'', JInt speech), (''total_frames'', JInt n_frames), (''rms_db'', rms_value rms_db)],
       av_speech_ratio = ratio, av_rms_db = rms_value rms_db, av_speech_frames = speech, av_total_frames = n_frames \<rparr>"

definition run_vad ::
  "float_arith \<Rightarrow> 'i vision_lib \<Rightarrow> audio_vad_runner \<Rightarrow> audio_frame list \<Rightarrow> rat option \<Rightarrow> py_error + audio_vad_result" where
  "run_vad fa lib vr frames rms_db =
     (let n_frames = length frames in
      if n_frames = 0 then bind_err (mk_point_interval 0) (\<lambda>c. Inr (vad_result EVENT_SILENCE c 0 rms_db 0 0))
      else
        let speech_count = length (filter (speech_frame lib vr) frames);
            speech_ratio = f_div fa (of_nat speech_count) (of_nat n_frames) in
        bind_err (mk_point_interval speech_ratio) (\<lambda>c.
          Inr (vad_result (vad_event vr speech_ratio rms_db) c speech_ratio rms_db (int speech_count) (int n_frames))))"

section \<open>Face presence\<close>

record face_detector_runner =
  fr_min_confidence :: rat

definition new_face_detector_runner ::
  "env \<Rightarrow> (string \<Rightarrow> bool) \<Rightarrow> (string \<Rightarrow> py_error + unit) \<Rightarrow> string option \<Rightarrow> rat \<Rightarrow> model_error + face_detector_runner" where
  "new_face_detector_runner environ isfile load path min_confidence =
     bind_err (model_file environ isfile ''MP_FACE_DETECTOR_BUNDLE'' path) (\<lambda>p.
       case load p of Inl e \<Rightarrow> Inl (ModelRaised e) | Inr _ \<Rightarrow> Inr \<lparr> fr_min_confidence = min_confidence \<rparr>)"

definition detection_box :: "float_arith \<Rightarrow> 'i decoded_frame \<Rightarrow> detection \<Rightarrow> py_error + bounding_box" where
  "detection_box fa frame d =
     (let along = (\<lambda>v extent. if extent > 0 then f_div fa (of_int v) (of_nat extent) else 0) in
      mk_bounding_box (along (dt_origin_x d) (df_width frame)) (along (dt_origin_y d) (df_height frame))
        (along (dt_width d) (df_width frame)) (along (dt_height d) (df_height frame)))"

definition run_face_detector ::
  "float_arith \<Rightarrow> 'i vision_lib \<Rightarrow> face_detector_runner \<Rightarrow> 'i decoded_frame \<Rightarrow> py_error + face_presence_result" where
  "run_face_detector fa lib fr frame =
     bind_err (vl_face_detect lib (fr_min_confidence fr) (df_array frame)) (\<lambda>detections.
     bind_err (map_err (detection_box fa frame) detections) (\<lambda>boxes.
       let face_count = length detections;
           confidences = concat (map (\<lambda>d. case dt_scores d of [] \<Rightarrow> [] | s # _ \<Rightarrow> [s]) detections);
           event_type = (if face_count = 0 then ''no_face'' else if face_count = 1 then ''one_face'' else ''second_person'');
           score = (if face_count = 0 then 0
                    else if face_count = 1 then (if confidences \<noteq> [] then confidences ! 0 else fr_min_confidence fr)
                    else (if confidences \<noteq> [] then foldl min (hd confidences) (tl confidences) else fr_min_confidence fr)) in
       bind_err (mk_point_interval score) (\<lambda>c.
         Inr \<lparr> ir_modality = ''face'', ir_event_type = event_type, ir_confidence = c, ir_bounding_boxes = boxes,
               ir_raw_value = [(''face_count'', JInt (int face_count)), (''per_face_confidence'', JList (map JFloat confidences))],
               fp_face_count = int face_count \<rparr>)))"

section \<open>Head pose and gaze\<close>

definition SOLVEPNP_LANDMARK_IDS :: "nat list" where "SOLVEPNP_LANDMARK_IDS = [1, 152, 33, 263, 61, 291]"
definition FACE_3D_MODEL :: "landmark list" where
  "FACE_3D_MODEL = [(0, 0, 0), (0, -330, -65), (-225, 170, -135), (225, 170, -135), (-150, -150, -125), (150, -150, -125)]"
definition LEFT_EYE_IDS :: "nat list" where "LEFT_EYE_IDS = [33, 133, 160, 144, 158, 153]"
definition RIGHT_EYE_IDS :: "nat list" where "RIGHT_EYE_IDS = [362, 263, 387, 373, 385, 380]"
definition LEFT_IRIS_IDS :: "nat list" where "LEFT_IRIS_IDS = [468, 469, 470, 471]"
definition RIGHT_IRIS_IDS :: "nat list" where "RIGHT_IRIS_IDS = [473, 474, 475, 476]"

definition landmark_at :: "landmark list \<Rightarrow> nat \<Rightarrow> py_error + landmark" where
  "landmark_at landmarks i = (if i < length landmarks then Inr (landmarks ! i) else Inl IndexError)"

text \<open>The distance of two points of the image plane, \<^verbatim>\<open>np.linalg.norm(p - q)\<close>.\<close>

definition plane_distance :: "float_arith \<Rightarrow> num_lib \<Rightarrow> rat \<times> rat \<Rightarrow> rat \<times> rat \<Rightarrow> rat" where
  "plane_distance fa nl p q = nl_norm nl [f_sub fa (fst p) (fst q), f_sub fa (snd p) (snd q)]"

definition plane :: "landmark \<Rightarrow> rat \<times> rat" where "plane l = (fst l, fst (snd l))"

definition compute_ear :: "float_arith \<Rightarrow> num_lib \<Rightarrow> landmark list \<Rightarrow> nat list \<Rightarrow> py_error + rat" where
  "compute_ear fa nl landmarks eye_ids =
     bind_err (map_err (landmark_at landmarks) eye_ids) (\<lambda>ls.
       let p = (\<lambda>i. plane (ls ! i));
           vertical_1 = plane_distance fa nl (p 2) (p 3);
           vertical_2 = plane_distance fa nl (p 4) (p 5);
           horizontal = plane_distance fa nl (p 0) (p 1) in
       if horizontal = 0 then Inr 0
       else Inr (f_div fa (f_add fa vertical_1 vertical_2) (f_mul fa 2 horizontal)))"

definition compute_iris_offset ::
  "float_arith \<Rightarrow> num_lib \<Rightarrow> landmark list \<Rightarrow> nat list \<Rightarrow> nat \<Rightarrow> nat \<Rightarrow> py_error + rat" where
  "compute_iris_offset fa nl landmarks iris_ids eye_outer_id eye_inner_id =
     bind_err (map_err (landmark_at landmarks) iris_ids) (\<lambda>ls.
     bind_err (landmark_at landmarks eye_outer_id) (\<lambda>lo.
     bind_err (landmark_at landmarks eye_inner_id) (\<lambda>li.
       let centroid = (nl_mean nl (map (fst \<circ> plane) ls), nl_mean nl (map (snd \<circ> plane) ls));
           outer = plane lo; inner = plane li;
           midpoint = (f_div fa (f_add fa (fst outer) (fst inner)) 2, f_div fa (f_add fa (snd outer) (snd inner)) 2);
           eye_width = plane_distance fa nl outer inner in
       if eye_width = 0 then Inr 0
       else Inr (f_div fa (plane_distance fa nl centroid midpoint) eye_width))))"

definition compute_head_pose ::
  "float_arith \<Rightarrow> num_lib \<Rightarrow> 'i vision_lib \<Rightarrow> landmark list \<Rightarrow> nat \<Rightarrow> nat \<Rightarrow> py_error + rat \<times> rat \<times> rat" where
  "compute_head_pose fa nl lib landmarks image_width image_height =
     bind_err (map_err (landmark_at landmarks) SOLVEPNP_LANDMARK_IDS) (\<lambda>ls.
       let image_points = map (\<lambda>l. (f_mul fa (fst (plane l)) (of_nat image_width),
                                     f_mul fa (snd (plane l)) (of_nat image_height))) ls;
           focal_length = of_nat image_width;
           camera_matrix = [[focal_length, 0, f_div fa (of_nat image_width) 2],
                            [0, focal_length, f_div fa (of_nat image_height) 2], [0, 0, 1]] in
       bind_err (vl_solve_pnp lib FACE_3D_MODEL image_points camera_matrix) (\<lambda>r.
         case r of
           None \<Rightarrow> Inr (0, 0, 0)
         | Some rotation_vec \<Rightarrow>
             (let rot = (\<lambda>i j. vl_rodrigues lib rotation_vec ! i ! j);
                  sy = nl_sqrt nl (f_add fa (f_mul fa (rot 0 0) (rot 0 0)) (f_mul fa (rot 1 0) (rot 1 0)));
                  singular = sy < 4722366482869645 / 4722366482869645213696;
                  pitch = (if \<not> singular then nl_atan2 nl (rot 2 1) (rot 2 2) else nl_atan2 nl (- rot 1 2) (rot 1 1));
                  yaw = nl_atan2 nl (- rot 2 0) sy;
                  roll = (if \<not> singular then nl_atan2 nl (rot 1 0) (rot 0 0) else 0) in
              Inr (nl_degrees nl yaw, nl_degrees nl pitch, nl_degrees nl roll))))"

record face_landmarker_runner =
  lr_yaw_threshold :: rat
  lr_high_yaw_bypass :: rat
  lr_iris_threshold :: rat
  lr_ear_threshold :: rat

text \<open>The defaults: 30, 45, 0.35 and 0.20.\<close>

definition default_face_landmarker :: face_landmarker_runner where
  "default_face_landmarker =
     \<lparr> lr_yaw_threshold = 30, lr_high_yaw_bypass = 45, lr_iris_threshold = 3152519739159347 / 9007199254740992,
       lr_ear_threshold = 3602879701896397 / 18014398509481984 \<rparr>"

definition new_face_landmarker_runner ::
  "env \<Rightarrow> (string \<Rightarrow> bool) \<Rightarrow> (string \<Rightarrow> py_error + unit) \<Rightarrow> string option \<Rightarrow> face_landmarker_runner
   \<Rightarrow> model_error + face_landmarker_runner" where
  "new_face_landmarker_runner environ isfile load path thresholds =
     bind_err (model_file environ isfile ''MP_FACE_LANDMARKER_BUNDLE'' path) (\<lambda>p.
       case load p of Inl e \<Rightarrow> Inl (ModelRaised e) | Inr _ \<Rightarrow> Inr thresholds)"

definition gaze_off_screen :: "face_landmarker_runner \<Rightarrow> rat \<Rightarrow> rat \<Rightarrow> rat \<Rightarrow> bool" where
  "gaze_off_screen lr yaw ear iris_offset =
     (let eyes_open = ear \<ge> lr_ear_threshold lr;
          yaw_off = \<bar>yaw\<bar> > lr_yaw_threshold lr;
          iris_off = iris_offset > lr_iris_threshold lr;
          high_yaw_bypass = \<bar>yaw\<bar> > lr_high_yaw_bypass lr in
      if high_yaw_bypass then True else eyes_open \<and> (yaw_off \<or> iris_off))"

definition gaze_confidence :: "float_arith \<Rightarrow> face_landmarker_runner \<Rightarrow> bool \<Rightarrow> rat \<Rightarrow> rat \<Rightarrow> rat" where
  "gaze_confidence fa lr off_screen yaw iris_offset =
     (let yaw_ratio = min (f_div fa \<bar>yaw\<bar> (max (lr_yaw_threshold lr) 1)) 1;
          score = (if off_screen
                   then max yaw_ratio (min (f_div fa iris_offset
                          (max (lr_iris_threshold lr) (5764607523034235 / 576460752303423488))) 1)
                   else f_sub fa 1 yaw_ratio) in
      max 0 (min 1 score))"

definition landmark_value :: "landmark \<Rightarrow> jval" where
  "landmark_value l = (case l of (x, y, z) \<Rightarrow> JList [JFloat x, JFloat y, JFloat z])"

definition no_landmarks_result :: head_pose_gaze_result where
  "no_landmarks_result =
     \<lparr> ir_modality = ''gaze'', ir_event_type = ''no_landmarks'', ir_confidence = certain, ir_bounding_boxes = [],
       ir_raw_value = [(''reason'', JStr ''no_landmarks'')],
       hp_off_screen = None, hp_yaw = 0, hp_pitch = 0, hp_roll = 0, hp_ear = 0, hp_iris_offset = 0 \<rparr>"

definition gaze_result ::
  "float_arith \<Rightarrow> face_landmarker_runner \<Rightarrow> landmark list \<Rightarrow> rat \<times> rat \<times> rat \<Rightarrow> rat \<Rightarrow> rat \<Rightarrow> py_error + head_pose_gaze_result" where
  "gaze_result fa lr landmarks pose ear iris_offset =
     (case pose of (yaw, pitch, roll) \<Rightarrow>
       (let off_screen = gaze_off_screen lr yaw ear iris_offset in
        bind_err (mk_point_interval (gaze_confidence fa lr off_screen yaw iris_offset)) (\<lambda>c.
          Inr \<lparr> ir_modality = ''gaze'', ir_event_type = (if off_screen then ''off_screen'' else ''on_screen''),
                ir_confidence = c, ir_bounding_boxes = [],
                ir_raw_value =
                  [(''yaw'', JFloat yaw), (''pitch'', JFloat pitch), (''roll'', JFloat roll), (''ear'', JFloat ear),
                   (''iris_offset'', JFloat iris_offset), (''yaw_threshold'', JFloat (lr_yaw_threshold lr)),
                   (''iris_threshold'', JFloat (lr_iris_threshold lr)), (''ear_threshold'', JFloat (lr_ear_threshold lr)),
                   (''landmarks'', JList (map landmark_value landmarks))],
                hp_off_screen = Some off_screen, hp_yaw = yaw, hp_pitch = pitch, hp_roll = roll, hp_ear = ear,
                hp_iris_offset = iris_offset \<rparr>)))"

definition run_face_landmarker ::
  "float_arith \<Rightarrow> num_lib \<Rightarrow> 'i vision_lib \<Rightarrow> face_landmarker_runner \<Rightarrow> 'i decoded_frame
   \<Rightarrow> py_error + head_pose_gaze_result" where
  "run_face_landmarker fa nl lib lr frame =
     bind_err (vl_face_landmarks lib (df_array frame)) (\<lambda>faces.
       case faces of
         [] \<Rightarrow> Inr no_landmarks_result
       | landmarks # _ \<Rightarrow>
           bind_err (compute_head_pose fa nl lib landmarks (df_width frame) (df_height frame)) (\<lambda>pose.
           bind_err (compute_ear fa nl landmarks LEFT_EYE_IDS) (\<lambda>ear_left.
           bind_err (compute_ear fa nl landmarks RIGHT_EYE_IDS) (\<lambda>ear_right.
           bind_err (compute_iris_offset fa nl landmarks LEFT_IRIS_IDS (LEFT_EYE_IDS ! 0) (LEFT_EYE_IDS ! 1)) (\<lambda>offset_left.
           bind_err (compute_iris_offset fa nl landmarks RIGHT_IRIS_IDS (RIGHT_EYE_IDS ! 0) (RIGHT_EYE_IDS ! 1)) (\<lambda>offset_right.
             gaze_result fa lr landmarks pose (f_div fa (f_add fa ear_left ear_right) 2)
               (f_div fa (f_add fa offset_left offset_right) 2)))))))"

section \<open>Objects\<close>

definition COCO_DENYLIST_IDS :: "(int \<times> string) list" where
  "COCO_DENYLIST_IDS = [(62, ''tv''), (63, ''laptop''), (67, ''cell phone''), (73, ''book'')]"

definition DENYLIST_CLASSES :: "string list" where
  "DENYLIST_CLASSES = map snd COCO_DENYLIST_IDS"

record denylist_hit =
  dh_class_name :: string
  dh_confidence :: rat
  dh_x :: rat
  dh_y :: rat
  dh_w :: rat
  dh_h :: rat

definition clamp01 :: "rat \<Rightarrow> rat" where "clamp01 v = max 0 (min 1 v)"

definition filter_denylist_detections ::
  "float_arith \<Rightarrow> yolo_box list option \<Rightarrow> (int \<Rightarrow> string option) \<Rightarrow> string list \<Rightarrow> denylist_hit list" where
  "filter_denylist_detections fa boxes class_names denylist =
     (case boxes of
        None \<Rightarrow> []
      | Some bs \<Rightarrow>
          concat (map (\<lambda>b.
            (let cls_name = (case class_names (yb_cls b) of None \<Rightarrow> [] | Some n \<Rightarrow> n) in
             if \<not> List.member denylist cls_name then []
             else (case yb_xyxyn b of (a1, b1, a2, b2) \<Rightarrow>
               (let x1 = clamp01 a1; y1 = clamp01 b1; x2 = clamp01 a2; y2 = clamp01 b2 in
                [\<lparr> dh_class_name = cls_name, dh_confidence = yb_conf b, dh_x = x1, dh_y = y1,
                   dh_w = f_sub fa x2 x1, dh_h = f_sub fa y2 y1 \<rparr>])))) bs))"

record object_detector_runner =
  or_confidence_threshold :: rat

definition new_object_detector_runner ::
  "env \<Rightarrow> (string \<Rightarrow> bool) \<Rightarrow> (string \<Rightarrow> py_error + unit) \<Rightarrow> string option \<Rightarrow> rat \<Rightarrow> model_error + object_detector_runner" where
  "new_object_detector_runner environ isfile load path threshold =
     bind_err (model_file environ isfile ''YOLO_WEIGHTS_PATH'' path) (\<lambda>p.
       case load p of Inl e \<Rightarrow> Inl (ModelRaised e) | Inr _ \<Rightarrow> Inr \<lparr> or_confidence_threshold = threshold \<rparr>)"

definition object_result :: "denylist_hit \<Rightarrow> py_error + object_detection_result" where
  "object_result d =
     bind_err (mk_bounding_box (dh_x d) (dh_y d) (dh_w d) (dh_h d)) (\<lambda>box.
     bind_err (mk_point_interval (dh_confidence d)) (\<lambda>c.
       Inr \<lparr> ir_modality = ''object'', ir_event_type = dh_class_name d, ir_confidence = c, ir_bounding_boxes = [box],
             ir_raw_value = [(''detected_class'', JStr (dh_class_name d)), (''yolo_confidence'', JFloat (dh_confidence d))],
             od_detected_class = dh_class_name d \<rparr>))"

definition run_object_detector ::
  "float_arith \<Rightarrow> 'i vision_lib \<Rightarrow> object_detector_runner \<Rightarrow> 'i decoded_frame \<Rightarrow> py_error + object_detection_result list" where
  "run_object_detector fa lib orn frame =
     bind_err (vl_yolo lib (or_confidence_threshold orn) (df_array frame)) (\<lambda>boxes.
       map_err object_result (filter_denylist_detections fa boxes (vl_yolo_names lib) DENYLIST_CLASSES))"

section \<open>Identity\<close>

definition compute_cosine_similarity :: "float_arith \<Rightarrow> num_lib \<Rightarrow> rat list \<Rightarrow> rat list \<Rightarrow> py_error + rat" where
  "compute_cosine_similarity fa nl a b =
     (if length a \<noteq> length b then Inl (ValueError ''Vectors must have equal length'')
      else if a = [] then Inl (ValueError ''Vectors must be non-empty.'')
      else (let dot = nl_dot nl a b; norm_a = nl_norm nl a; norm_b = nl_norm nl b in
        if norm_a = 0 \<or> norm_b = 0 then Inr 0
        else Inr (max 0 (min 1 (f_div fa dot (f_mul fa norm_a norm_b))))))"

record 'i identity_backend =
  ib_embed :: "'i \<Rightarrow> py_error + rat list"
  ib_embedding_dim :: int
  ib_model_name :: string

definition rgb_shaped :: "'i vision_lib \<Rightarrow> 'i \<Rightarrow> bool" where
  "rgb_shaped lib arr \<longleftrightarrow> length (il_shape lib arr) = 3 \<and> il_shape lib arr ! 2 = 3"

definition FaceRecognitionBackend :: "'i vision_lib \<Rightarrow> 'i identity_backend" where
  "FaceRecognitionBackend lib =
     \<lparr> ib_embed = (\<lambda>face_rgb.
         if \<not> rgb_shaped lib face_rgb then Inl (ValueError ''Expected an RGB (H, W, 3) array'')
         else bind_err (vl_face_encodings lib face_rgb) (\<lambda>encodings.
           case encodings of
             [] \<Rightarrow> Inl (ValueError ''No face found in the provided crop; cannot compute embedding.'')
           | e # _ \<Rightarrow> Inr e)),
       ib_embedding_dim = 128, ib_model_name = ''dlib_resnet_v1'' \<rparr>"

definition identity_result ::
  "'i identity_backend \<Rightarrow> rat \<Rightarrow> rat \<Rightarrow> py_error + identity_match_result" where
  "identity_result backend similarity_threshold similarity =
     bind_err (mk_point_interval similarity) (\<lambda>c.
       Inr \<lparr> ir_modality = ''identity'',
             ir_event_type = (if similarity \<ge> similarity_threshold then ''identity_match'' else ''identity_mismatch''),
             ir_confidence = c, ir_bounding_boxes = [],
             ir_raw_value = [(''similarity'', JFloat similarity), (''threshold'', JFloat similarity_threshold),
               (''embedding_dim'', JInt (ib_embedding_dim backend)), (''model_name'', JStr (ib_model_name backend))],
             im_similarity = similarity \<rparr>)"

definition run_identity_match ::
  "float_arith \<Rightarrow> num_lib \<Rightarrow> 'i identity_backend \<Rightarrow> 'i \<Rightarrow> rat list \<Rightarrow> rat \<Rightarrow> py_error + identity_match_result" where
  "run_identity_match fa nl backend face_rgb enrollment_embedding similarity_threshold =
     (if \<not> in_unit similarity_threshold then Inl (ValueError ''similarity_threshold must be in [0, 1]'')
      else bind_err (ib_embed backend face_rgb) (\<lambda>current.
           bind_err (compute_cosine_similarity fa nl current enrollment_embedding)
             (identity_result backend similarity_threshold)))"

section \<open>Liveness\<close>

definition compute_liveness_confidence :: "rat \<Rightarrow> py_error + confidence_interval" where
  "compute_liveness_confidence score = mk_point_interval (max 0 (min 1 score))"

record 'i liveness_backend =
  lb_predict :: "'i \<Rightarrow> int list \<Rightarrow> py_error + bool \<times> rat"
  lb_model_name :: string

definition UnifaceBackend :: "'i vision_lib \<Rightarrow> 'i liveness_backend" where
  "UnifaceBackend lib =
     \<lparr> lb_predict = (\<lambda>frame_bgr bbox_xyxy.
         if \<not> rgb_shaped lib frame_bgr then Inl (ValueError ''Expected a (H, W, 3) BGR array'')
         else if length bbox_xyxy \<noteq> 4 then Inl (ValueError ''Expected bbox_xyxy of length 4'')
         else vl_spoof lib frame_bgr bbox_xyxy),
       lb_model_name = ''MiniFASNetV2'' \<rparr>"

definition liveness_verdict ::
  "'i liveness_backend \<Rightarrow> rat \<Rightarrow> bool \<Rightarrow> rat \<Rightarrow> py_error + liveness_result" where
  "liveness_verdict backend confidence_threshold model_is_real raw_confidence =
     (let is_real = (model_is_real \<and> raw_confidence \<ge> confidence_threshold) in
      bind_err (compute_liveness_confidence raw_confidence) (\<lambda>c.
        Inr \<lparr> ir_modality = ''liveness'', ir_event_type = (if is_real then ''liveness_real'' else ''liveness_spoof''),
              ir_confidence = c, ir_bounding_boxes = [],
              ir_raw_value = [(''model_is_real'', JBool model_is_real), (''raw_confidence'', JFloat raw_confidence),
                (''threshold'', JFloat confidence_threshold), (''model_name'', JStr (lb_model_name backend))],
              lv_is_real = is_real \<rparr>))"

definition run_liveness ::
  "'i liveness_backend \<Rightarrow> 'i \<Rightarrow> int list \<Rightarrow> rat \<Rightarrow> py_error + liveness_result" where
  "run_liveness backend frame_bgr bbox_xyxy confidence_threshold =
     (if \<not> in_unit confidence_threshold then Inl (ValueError ''confidence_threshold must be in [0, 1]'')
      else bind_err (lb_predict backend frame_bgr bbox_xyxy) (\<lambda>(model_is_real, raw_confidence).
             liveness_verdict backend confidence_threshold model_is_real raw_confidence))"

section \<open>What the results satisfy\<close>

lemma point_in_unit: "mk_point_interval v = Inr c \<Longrightarrow> ci_score c = v \<and> ci_ok c"
  by (auto simp: mk_point_interval_def mk_confidence_interval_iff)

lemma clamped_in_unit: "in_unit (max 0 (min 1 v))"
  by (simp add: in_unit_def)

lemma cosine_in_unit: "compute_cosine_similarity fa nl a b = Inr s \<Longrightarrow> in_unit s"
  by (auto simp: compute_cosine_similarity_def Let_def in_unit_def split: if_splits)

lemma identity_in_unit: "run_identity_match fa nl backend face enrolled t = Inr r \<Longrightarrow> in_unit (im_similarity r)"
  using cosine_in_unit
  by (fastforce simp: run_identity_match_def identity_result_def bind_err_eq_Inr split: if_splits)

lemma liveness_in_unit: "run_liveness backend frame box t = Inr r \<Longrightarrow> in_unit (ci_score (ir_confidence r))"
  using clamped_in_unit
  by (fastforce simp: run_liveness_def liveness_verdict_def compute_liveness_confidence_def bind_err_eq_Inr Let_def
      dest: point_in_unit split: if_splits)

lemma denylist_hits_known:
  "d \<in> set (filter_denylist_detections fa boxes names denylist) \<Longrightarrow> List.member denylist (dh_class_name d)"
  by (auto simp: filter_denylist_detections_def Let_def split: option.splits if_splits prod.splits)

end
