(* ===== verification/FrameDispatcher.thy ===== *)
theory FrameDispatcher
  imports InferenceModules Scheduler FlagWorker AggregatorProps
begin

text \<open>
  The frame dispatcher (\<^verbatim>\<open>orchestration/_frame_dispatcher.py\<close>): it drains the telemetry buffer, runs the
  inference modules that the scheduler asks for and hands their results to the aggregator; each
  decision is queued with the buffered events it names.  \<open>frame_dispatcher\<close> has the attributes of
  the class.  The libraries and the process environment are \<open>dispatch_deps\<close>; fresh identifiers and
  clock readings come with each event.  An exception that leaves a handler is the left side of its
  result; it is counted by the loop.  Instants are microseconds since the epoch.
\<close>

section \<open>State\<close>

datatype import_outcome = Imported | NotInstalled | ImportRaised py_error

record 'i dispatch_deps =
  dd_lenient :: bool
  dd_fa :: float_arith
  dd_nl :: num_lib
  dd_lib :: "'i vision_lib"
  dd_environ :: env
  dd_isfile :: "string \<Rightarrow> bool"
  dd_load_landmarker :: "string \<Rightarrow> py_error + unit"
  dd_load_yolo :: "string \<Rightarrow> py_error + unit"
  dd_import_vad :: "py_error + unit"
  dd_face_recognition :: import_outcome
  dd_uniface :: "py_error + unit"

record frame_dispatcher_config =
  fc_policy_snapshot :: policy_snapshot
  fc_context :: session_context
  fc_head_pose_period :: int
  fc_object_detection_period :: int
  fc_identity_match_period :: int
  fc_liveness_period :: int
  fc_enrollment_embedding :: "rat list option"
  fc_identity_backend_unavailable :: bool

record 'i frame_dispatcher =
  dsp_config :: frame_dispatcher_config
  dsp_aggregator :: session_aggregator
  dsp_scheduler :: modality_scheduler
  dsp_heavy_frame_seq :: int
  dsp_identity_backend :: "'i identity_backend"
  dsp_face_landmarker :: "face_landmarker_runner option"
  dsp_object_detector :: "object_detector_runner option"
  dsp_audio_vad :: "audio_vad_runner option"
  dsp_liveness_runner :: "'i liveness_backend option"
  dsp_event_map :: "uuid \<Rightarrow> buffered_event option"
  dsp_flag_decisions :: "persisted_flag list"
  dsp_stop :: bool
  dsp_thread :: bool
  dsp_processed :: int
  dsp_errors :: int

definition AlwaysZeroBackend :: "'i identity_backend" where
  "AlwaysZeroBackend =
     \<lparr> ib_embed = (\<lambda>face_rgb. Inr (replicate 128 0)), ib_embedding_dim = 128,
       ib_model_name = ''always-zero-fallback'' \<rparr>"

definition choose_identity_backend :: "'i dispatch_deps \<Rightarrow> model_error + 'i identity_backend" where
  "choose_identity_backend dd =
     (case dd_face_recognition dd of
        Imported \<Rightarrow> Inr (FaceRecognitionBackend (dd_lib dd))
      | NotInstalled \<Rightarrow> Inr AlwaysZeroBackend
      | ImportRaised e \<Rightarrow> Inl (ModelRaised e))"

definition choose_liveness_runner :: "'i dispatch_deps \<Rightarrow> policy_snapshot \<Rightarrow> 'i liveness_backend option" where
  "choose_liveness_runner dd p =
     (if ps_liveness_check_enabled p
      then (case dd_uniface dd of Inl _ \<Rightarrow> None | Inr _ \<Rightarrow> Some (UnifaceBackend (dd_lib dd)))
      else None)"

definition new_frame_dispatcher ::
  "'i dispatch_deps \<Rightarrow> frame_dispatcher_config \<Rightarrow> model_error + 'i frame_dispatcher" where
  "new_frame_dispatcher dd config =
     (case new_modality_scheduler (fc_head_pose_period config) (fc_object_detection_period config)
             (fc_identity_match_period config) (fc_liveness_period config) of
        Inl e \<Rightarrow> Inl (ModelRaised e)
      | Inr scheduler \<Rightarrow>
          bind_err (choose_identity_backend dd) (\<lambda>backend.
            Inr \<lparr> dsp_config = config,
                  dsp_aggregator = new_session_aggregator (fc_policy_snapshot config) (fc_context config),
                  dsp_scheduler = scheduler, dsp_heavy_frame_seq = 0, dsp_identity_backend = backend,
                  dsp_face_landmarker = None, dsp_object_detector = None, dsp_audio_vad = None,
                  dsp_liveness_runner = choose_liveness_runner dd (fc_policy_snapshot config),
                  dsp_event_map = (\<lambda>_. None), dsp_flag_decisions = [], dsp_stop = False, dsp_thread = False,
                  dsp_processed = 0, dsp_errors = 0 \<rparr>))"

section \<open>Emitting decisions\<close>

text \<open>The lookup that removes what it finds.\<close>

fun take_events :: "uuid list \<Rightarrow> (uuid \<Rightarrow> buffered_event option) \<Rightarrow> buffered_event list \<times> (uuid \<Rightarrow> buffered_event option)" where
  "take_events [] mp = ([], mp)"
| "take_events (eid # eids) mp =
     (case mp eid of
        None \<Rightarrow> take_events eids mp
      | Some ev \<Rightarrow> (case take_events eids (mp(eid := None)) of (evs, mp') \<Rightarrow> (ev # evs, mp')))"

definition emit_one :: "flag_decision \<Rightarrow> 'i frame_dispatcher \<Rightarrow> 'i frame_dispatcher" where
  "emit_one d st =
     (case take_events (fd_contributing_event_ids d) (dsp_event_map st) of
        (evs, mp) \<Rightarrow>
          st\<lparr> dsp_event_map := mp,
              dsp_flag_decisions := dsp_flag_decisions st @ [\<lparr> pf_decision = d, pf_contributing_events = evs \<rparr>] \<rparr>)"

fun emit :: "flag_decision list \<Rightarrow> 'i frame_dispatcher \<Rightarrow> 'i frame_dispatcher" where
  "emit [] st = st"
| "emit (d # ds) st = emit ds (emit_one d st)"

type_synonym 'i handled = "'i frame_dispatcher \<times> (model_error + unit)"

text \<open>A call of the aggregator followed by \<open>emit\<close>; a call that raises emits nothing.\<close>

definition aggregate :: "'i dispatch_deps \<Rightarrow> agg_event \<Rightarrow> 'i frame_dispatcher \<Rightarrow> 'i handled" where
  "aggregate dd ev st =
     (case agg_step (dd_fa dd) ev (dsp_aggregator st) of
        (agg, Inl e) \<Rightarrow> (st\<lparr> dsp_aggregator := agg \<rparr>, Inl (ModelRaised e))
      | (agg, Inr ds) \<Rightarrow> (emit ds (st\<lparr> dsp_aggregator := agg \<rparr>), Inr ()))"

definition count_error :: "'i frame_dispatcher \<Rightarrow> 'i frame_dispatcher" where
  "count_error st = st\<lparr> dsp_errors := dsp_errors st + 1 \<rparr>"

section \<open>Lazy runners\<close>

definition ensure_face_landmarker ::
  "'i dispatch_deps \<Rightarrow> 'i frame_dispatcher \<Rightarrow> 'i frame_dispatcher \<times> (model_error + face_landmarker_runner)" where
  "ensure_face_landmarker dd st =
     (case dsp_face_landmarker st of
        Some r \<Rightarrow> (st, Inr r)
      | None \<Rightarrow>
          (case new_face_landmarker_runner (dd_environ dd) (dd_isfile dd) (dd_load_landmarker dd) None
                  default_face_landmarker of
             Inl e \<Rightarrow> (st, Inl e)
           | Inr r \<Rightarrow> (st\<lparr> dsp_face_landmarker := Some r \<rparr>, Inr r)))"

text \<open>The default confidence threshold is 0.4.\<close>

definition ensure_object_detector ::
  "'i dispatch_deps \<Rightarrow> 'i frame_dispatcher \<Rightarrow> 'i frame_dispatcher \<times> (model_error + object_detector_runner)" where
  "ensure_object_detector dd st =
     (case dsp_object_detector st of
        Some r \<Rightarrow> (st, Inr r)
      | None \<Rightarrow>
          (case new_object_detector_runner (dd_environ dd) (dd_isfile dd) (dd_load_yolo dd) None
                  (3602879701896397 / 9007199254740992) of
             Inl e \<Rightarrow> (st, Inl e)
           | Inr r \<Rightarrow> (st\<lparr> dsp_object_detector := Some r \<rparr>, Inr r)))"

definition ensure_audio_vad ::
  "'i dispatch_deps \<Rightarrow> 'i frame_dispatcher \<Rightarrow> 'i frame_dispatcher \<times> (py_error + audio_vad_runner)" where
  "ensure_audio_vad dd st =
     (case dsp_audio_vad st of
        Some r \<Rightarrow> (st, Inr r)
      | None \<Rightarrow>
          (let p = fc_policy_snapshot (dsp_config st) in
           case bind_err (new_audio_vad_runner 2 (ps_audio_noise_floor_dbfs p) (ps_audio_speech_ratio_threshold p))
                  (\<lambda>r. bind_err (dd_import_vad dd) (\<lambda>_. Inr r)) of
             Inl e \<Rightarrow> (st, Inl e)
           | Inr r \<Rightarrow> (st\<lparr> dsp_audio_vad := Some r \<rparr>, Inr r)))"

section \<open>Helpers\<close>

text \<open>\<^verbatim>\<open>int(ts.timestamp() * 1000)\<close>.\<close>

definition captured_at_ms :: "float_arith \<Rightarrow> client_message \<Rightarrow> int" where
  "captured_at_ms fa msg =
     trunc_int (f_mul fa (f_div fa (of_int (ce_captured_at (envelope msg))) 1000000) 1000)"

definition decode_pcm :: "bool \<Rightarrow> telemetry_audio_chunk_payload \<Rightarrow> audio_error + 16 word list" where
  "decode_pcm lenient p = decode_pcm_audio_chunk lenient (tap_audio p) (Some ''pcm16_le'') (Some (tap_sample_rate_hz p))"

definition chunk_rms_db :: "float_arith \<Rightarrow> num_lib \<Rightarrow> 16 word list \<Rightarrow> rat option" where
  "chunk_rms_db fa nl samples =
     (if length samples = 0 then None
      else (let rms = nl_rms nl (map sint samples) in
            if rms \<le> 0 then None
            else Some (f_mul fa 20 (nl_log10 nl (f_div fa rms 32768)))))"

definition coordinate :: "nat \<Rightarrow> jval \<Rightarrow> rat option" where
  "coordinate i v =
     (case v of
        JList xs \<Rightarrow> (if i < length xs then (case xs ! i of JFloat q \<Rightarrow> Some q | _ \<Rightarrow> None) else None)
      | _ \<Rightarrow> None)"

definition list_min :: "rat list \<Rightarrow> rat" where "list_min xs = foldl min (hd xs) (tl xs)"
definition list_max :: "rat list \<Rightarrow> rat" where "list_max xs = foldl max (hd xs) (tl xs)"

text \<open>Padding is 0.3 of the extent.\<close>

definition padded_span :: "float_arith \<Rightarrow> int \<Rightarrow> rat list \<Rightarrow> int \<times> int" where
  "padded_span fa extent cs =
     (let lo = max 0 (list_min cs); hi = min 1 (list_max cs);
          a = trunc_int (f_mul fa lo (of_int extent)); b = trunc_int (f_mul fa hi (of_int extent));
          pad = max 1 (trunc_int (f_mul fa (of_int (b - a)) (5404319552844595 / 18014398509481984))) in
      (max 0 (a - pad), min extent (b + pad)))"

definition box_of_landmarks :: "float_arith \<Rightarrow> int \<Rightarrow> int \<Rightarrow> jval list \<Rightarrow> int list option" where
  "box_of_landmarks fa h w landmarks =
     (let xs = map (coordinate 0) landmarks; ys = map (coordinate 1) landmarks in
      if None \<in> set xs \<or> None \<in> set ys then None
      else
        let (x1, x2) = padded_span fa w (map the xs); (y1, y2) = padded_span fa h (map the ys) in
        if x2 \<le> x1 \<or> y2 \<le> y1 then None else Some [x1, y1, x2, y2])"

definition extract_face_bbox ::
  "float_arith \<Rightarrow> ('i, 'z) img_lib_scheme \<Rightarrow> 'i decoded_frame \<Rightarrow> head_pose_gaze_result option \<Rightarrow> int list option" where
  "extract_face_bbox fa lib frame r =
     (case r of
        None \<Rightarrow> None
      | Some res \<Rightarrow>
          (case dict_get (ir_raw_value res) ''landmarks'' JNull of
             JList landmarks \<Rightarrow>
               (if landmarks = [] then None
                else box_of_landmarks fa (int (il_shape lib (df_array frame) ! 0))
                       (int (il_shape lib (df_array frame) ! 1)) landmarks)
           | _ \<Rightarrow> None))"

definition extract_face_crop ::
  "float_arith \<Rightarrow> ('i, 'z) img_lib_scheme \<Rightarrow> 'i decoded_frame \<Rightarrow> head_pose_gaze_result option \<Rightarrow> 'i option" where
  "extract_face_crop fa lib frame r =
     (case extract_face_bbox fa lib frame r of
        None \<Rightarrow> None
      | Some bbox \<Rightarrow> Some (il_bgr2rgb lib (il_crop lib (df_array frame) (bbox ! 0) (bbox ! 1) (bbox ! 2) (bbox ! 3))))"

section \<open>Handlers\<close>

definition light_event_type :: "int \<Rightarrow> string" where
  "light_event_type face_count =
     (if face_count \<ge> 2 then ''second_person'' else if face_count = 0 then ''no_face'' else ''one_face'')"

definition light_result :: "telemetry_light_payload \<Rightarrow> confidence_interval \<Rightarrow> face_presence_result" where
  "light_result p c =
     \<lparr> ir_modality = ''face'', ir_event_type = light_event_type (tlp_face_count p), ir_confidence = c,
       ir_bounding_boxes = [], ir_raw_value = [], fp_face_count = tlp_face_count p \<rparr>"

definition dispatch_light ::
  "'i dispatch_deps \<Rightarrow> telemetry_light_payload \<Rightarrow> uuid \<Rightarrow> 'i frame_dispatcher \<Rightarrow> 'i handled" where
  "dispatch_light dd p eid st =
     (case mk_point_interval (tlp_confidence p) of
        Inl e \<Rightarrow> (st, Inl (ModelRaised e))
      | Inr c \<Rightarrow> aggregate dd (FaceEv (light_result p c) eid) st)"

text \<open>Each stage of a heavy frame says whether the handler goes on (\<open>Inr True\<close>), has returned
  (\<open>Inr False\<close>) or has raised.\<close>

definition landmark_stage ::
  "'i dispatch_deps \<Rightarrow> inference_decision \<Rightarrow> 'i decoded_frame \<Rightarrow> 'i frame_dispatcher
   \<Rightarrow> 'i frame_dispatcher \<times> (model_error + head_pose_gaze_result option)" where
  "landmark_stage dd decision frame st =
     (if should_run decision HEAD_POSE_GAZE \<or> should_run decision IDENTITY_MATCH \<or> should_run decision LIVENESS
      then (case ensure_face_landmarker dd st of
              (st1, Inl e) \<Rightarrow> (st1, Inl e)
            | (st1, Inr lr) \<Rightarrow>
                (case run_face_landmarker (dd_fa dd) (dd_nl dd) (dd_lib dd) lr frame of
                   Inl _ \<Rightarrow> (count_error st1, Inr None)
                 | Inr r \<Rightarrow> (st1, Inr (Some r))))
      else (st, Inr None))"

definition gaze_stage ::
  "'i dispatch_deps \<Rightarrow> inference_decision \<Rightarrow> client_message \<Rightarrow> uuid \<Rightarrow> head_pose_gaze_result option
   \<Rightarrow> 'i frame_dispatcher \<Rightarrow> 'i handled" where
  "gaze_stage dd decision msg eid res st =
     (if should_run decision HEAD_POSE_GAZE \<and> res \<noteq> None
      then aggregate dd (GazeEv (the res) eid (captured_at_ms (dd_fa dd) msg)) st
      else (st, Inr ()))"

fun feed_detections ::
  "'i dispatch_deps \<Rightarrow> uuid \<Rightarrow> (nat \<Rightarrow> timestamp) \<Rightarrow> nat \<Rightarrow> object_detection_result list \<Rightarrow> 'i frame_dispatcher \<Rightarrow> 'i handled" where
  "feed_detections dd eid clock i [] st = (st, Inr ())"
| "feed_detections dd eid clock i (r # rs) st =
     (case aggregate dd (ObjectEv r eid (clock i)) st of
        (st1, Inl e) \<Rightarrow> (st1, Inl e)
      | (st1, Inr _) \<Rightarrow> feed_detections dd eid clock (Suc i) rs st1)"

definition object_stage ::
  "'i dispatch_deps \<Rightarrow> inference_decision \<Rightarrow> 'i decoded_frame \<Rightarrow> uuid \<Rightarrow> (nat \<Rightarrow> timestamp)
   \<Rightarrow> 'i frame_dispatcher \<Rightarrow> 'i handled" where
  "object_stage dd decision frame eid clock st =
     (if should_run decision OBJECT_DETECTION
      then (case ensure_object_detector dd st of
              (st1, Inl e) \<Rightarrow> (st1, Inl e)
            | (st1, Inr orn) \<Rightarrow>
                (case run_object_detector (dd_fa dd) (dd_lib dd) orn frame of
                   Inl _ \<Rightarrow> feed_detections dd eid clock 0 [] (count_error st1)
                 | Inr detections \<Rightarrow> feed_detections dd eid clock 0 detections st1))
      else (st, Inr ()))"

definition go_on :: "'i handled \<Rightarrow> 'i frame_dispatcher \<times> (model_error + bool)" where
  "go_on r = (case r of (st, Inl e) \<Rightarrow> (st, Inl e) | (st, Inr _) \<Rightarrow> (st, Inr True))"

definition identity_stage ::
  "'i dispatch_deps \<Rightarrow> inference_decision \<Rightarrow> 'i decoded_frame \<Rightarrow> uuid \<Rightarrow> head_pose_gaze_result option
   \<Rightarrow> 'i frame_dispatcher \<Rightarrow> 'i frame_dispatcher \<times> (model_error + bool)" where
  "identity_stage dd decision frame eid res st =
     (if should_run decision IDENTITY_MATCH
      then (case (res, fc_enrollment_embedding (dsp_config st)) of
              (Some _, Some enrolled) \<Rightarrow>
                (case extract_face_crop (dd_fa dd) (dd_lib dd) frame res of
                   None \<Rightarrow> (st, Inr False)
                 | Some face_rgb \<Rightarrow>
                     (case run_identity_match (dd_fa dd) (dd_nl dd) (dsp_identity_backend st) face_rgb enrolled
                             (ps_identity_similarity_threshold (fc_policy_snapshot (dsp_config st))) of
                        Inl _ \<Rightarrow> (count_error st, Inr False)
                      | Inr r \<Rightarrow> go_on (aggregate dd (IdentityEv r eid) st)))
            | _ \<Rightarrow> (st, Inr False))
      else (st, Inr True))"

definition liveness_stage ::
  "'i dispatch_deps \<Rightarrow> inference_decision \<Rightarrow> 'i decoded_frame \<Rightarrow> uuid \<Rightarrow> head_pose_gaze_result option
   \<Rightarrow> 'i frame_dispatcher \<Rightarrow> 'i handled" where
  "liveness_stage dd decision frame eid res st =
     (case (should_run decision LIVENESS, dsp_liveness_runner st) of
        (True, Some backend) \<Rightarrow>
          (case extract_face_bbox (dd_fa dd) (dd_lib dd) frame res of
             None \<Rightarrow> (st, Inr ())
           | Some bbox \<Rightarrow>
               (case run_liveness backend (df_array frame) bbox
                       (ps_liveness_score_threshold (fc_policy_snapshot (dsp_config st))) of
                  Inl _ \<Rightarrow> (count_error st, Inr ())
                | Inr r \<Rightarrow> aggregate dd (LivenessEv r eid) st))
      | _ \<Rightarrow> (st, Inr ()))"

text \<open>The stages in order.\<close>

definition run_stages ::
  "'i dispatch_deps \<Rightarrow> client_message \<Rightarrow> uuid \<Rightarrow> (nat \<Rightarrow> timestamp) \<Rightarrow> inference_decision \<Rightarrow> 'i decoded_frame
   \<Rightarrow> 'i frame_dispatcher \<Rightarrow> 'i handled" where
  "run_stages dd msg eid clock decision frame st =
     (case landmark_stage dd decision frame st of
        (st1, Inl e) \<Rightarrow> (st1, Inl e)
      | (st1, Inr res) \<Rightarrow>
     (case gaze_stage dd decision msg eid res st1 of
        (st2, Inl e) \<Rightarrow> (st2, Inl e)
      | (st2, Inr _) \<Rightarrow>
     (case object_stage dd decision frame eid clock st2 of
        (st3, Inl e) \<Rightarrow> (st3, Inl e)
      | (st3, Inr _) \<Rightarrow>
     (case identity_stage dd decision frame eid res st3 of
        (st4, Inl e) \<Rightarrow> (st4, Inl e)
      | (st4, Inr False) \<Rightarrow> (st4, Inr ())
      | (st4, Inr True) \<Rightarrow> liveness_stage dd decision frame eid res st4))))"

definition dispatch_heavy_frame ::
  "'i dispatch_deps \<Rightarrow> client_message \<Rightarrow> telemetry_heavy_frame_payload \<Rightarrow> uuid \<Rightarrow> (nat \<Rightarrow> timestamp)
   \<Rightarrow> 'i frame_dispatcher \<Rightarrow> 'i handled" where
  "dispatch_heavy_frame dd msg p eid clock st =
     (case decode_jpeg_frame (dd_lenient dd) (dd_lib dd) (thp_frame p) (thp_encoding p) of
        Inl _ \<Rightarrow> (count_error st, Inr ())
      | Inr frame \<Rightarrow>
          (let st1 = st\<lparr> dsp_heavy_frame_seq := dsp_heavy_frame_seq st + 1 \<rparr> in
           case decide_for_frame (dsp_scheduler st) (dsp_heavy_frame_seq st) of
             Inl e \<Rightarrow> (st1, Inl (ModelRaised e))
           | Inr decision \<Rightarrow> run_stages dd msg eid clock decision frame st1))"

definition dispatch_audio_chunk ::
  "'i dispatch_deps \<Rightarrow> telemetry_audio_chunk_payload \<Rightarrow> uuid \<Rightarrow> 'i frame_dispatcher \<Rightarrow> 'i handled" where
  "dispatch_audio_chunk dd p eid st =
     (case decode_pcm (dd_lenient dd) p of
        Inl _ \<Rightarrow> (count_error st, Inr ())
      | Inr samples \<Rightarrow>
     (case split_into_vad_frames samples (tap_sample_rate_hz p) (tap_duration_ms p) 0 of
        Inl _ \<Rightarrow> (count_error st, Inr ())
      | Inr frames \<Rightarrow>
     (case ensure_audio_vad dd st of
        (st1, Inl _) \<Rightarrow> (count_error st1, Inr ())
      | (st1, Inr vr) \<Rightarrow>
     (case run_vad (dd_fa dd) (dd_lib dd) vr frames (chunk_rms_db (dd_fa dd) (dd_nl dd) samples) of
        Inl _ \<Rightarrow> (count_error st1, Inr ())
      | Inr r \<Rightarrow>
          if ir_event_type r = EVENT_SILENCE then (st1, Inr ())
          else aggregate dd (AudioEv r eid) st1))))"

definition dispatch_browser_event ::
  "'i dispatch_deps \<Rightarrow> telemetry_browser_event_payload \<Rightarrow> uuid \<Rightarrow> 'i frame_dispatcher \<Rightarrow> 'i handled" where
  "dispatch_browser_event dd p eid st =
     (case classify_browser_event (tbp_event_type p) (Some (tbp_detail p)) of
        Inl _ \<Rightarrow> (count_error st, Inr ())
      | Inr r \<Rightarrow> aggregate dd (BrowserEv r eid) st)"

definition dispatch_event ::
  "'i dispatch_deps \<Rightarrow> uuid \<Rightarrow> (nat \<Rightarrow> timestamp) \<Rightarrow> buffered_event \<Rightarrow> 'i frame_dispatcher \<Rightarrow> 'i handled" where
  "dispatch_event dd eid clock event st =
     (let st1 = st\<lparr> dsp_event_map := (dsp_event_map st)(eid \<mapsto> event\<lparr> be_synthetic_id := Some eid \<rparr>) \<rparr> in
      case be_message event of
        TelemetryLight _ p \<Rightarrow> dispatch_light dd p eid st1
      | TelemetryHeavyFrame _ p \<Rightarrow> dispatch_heavy_frame dd (be_message event) p eid clock st1
      | TelemetryAudioChunk _ p \<Rightarrow> dispatch_audio_chunk dd p eid st1
      | TelemetryBrowserEvent _ p \<Rightarrow> dispatch_browser_event dd p eid st1
      | KillSwitchAcknowledge _ _ \<Rightarrow> (st1, Inr ()))"

section \<open>Loop and lifecycle\<close>

text \<open>An event with the identifier minted for it and the clock readings of its handler.\<close>

type_synonym keyed_event = "uuid \<times> (nat \<Rightarrow> timestamp) \<times> buffered_event"

definition dispatch_counted :: "'i dispatch_deps \<Rightarrow> keyed_event \<Rightarrow> 'i frame_dispatcher \<Rightarrow> 'i frame_dispatcher" where
  "dispatch_counted dd k st =
     (case k of (eid, clock, event) \<Rightarrow>
       (case dispatch_event dd eid clock event st of
          (st1, Inr _) \<Rightarrow> st1\<lparr> dsp_processed := dsp_processed st1 + 1 \<rparr>
        | (st1, Inl _) \<Rightarrow> count_error st1))"

text \<open>One iteration of the loop.  \<open>stop_after\<close> is how many events of the batch are handled before the
  stop flag is seen, when another thread sets it meanwhile; the rest of the batch is lost.\<close>

definition loop_iteration ::
  "'i dispatch_deps \<Rightarrow> (nat \<Rightarrow> uuid) \<Rightarrow> (nat \<Rightarrow> nat \<Rightarrow> timestamp) \<Rightarrow> nat option
   \<Rightarrow> telemetry_event_buffer \<times> 'i frame_dispatcher \<Rightarrow> telemetry_event_buffer \<times> 'i frame_dispatcher" where
  "loop_iteration dd keys clocks stop_after s =
     (case s of (b, st) \<Rightarrow>
       if dsp_stop st then (b, st)
       else (let (b1, batch) = tb_drain b;
                 keyed = map (\<lambda>(i, ev). (keys i, clocks i, ev)) (enumerate 0 batch);
                 handled = (case stop_after of None \<Rightarrow> keyed | Some n \<Rightarrow> take n keyed);
                 st1 = foldl (\<lambda>a k. dispatch_counted dd k a) st handled in
             (b1, st1\<lparr> dsp_stop := dsp_stop st1 \<or> stop_after \<noteq> None \<rparr>)))"

definition emit_identity_unavailable_flag :: "'i frame_dispatcher \<Rightarrow> 'i handled" where
  "emit_identity_unavailable_flag st =
     (st, Inl (ModelRaised (AttributeError ''FrameDispatcher object has no attribute _decision_queue'')))"

definition start_dispatcher :: "'i frame_dispatcher \<Rightarrow> 'i handled" where
  "start_dispatcher st =
     (if dsp_thread st then (st, Inr ())
      else (let st1 = st\<lparr> dsp_stop := False, dsp_thread := True \<rparr> in
            if fc_identity_backend_unavailable (dsp_config st) then emit_identity_unavailable_flag st1
            else (st1, Inr ())))"

definition stop_dispatcher :: "'i frame_dispatcher \<Rightarrow> 'i frame_dispatcher" where
  "stop_dispatcher st = st\<lparr> dsp_stop := True, dsp_thread := False \<rparr>"

end
