(* ===== verification/WsRoutes.thy ===== *)
theory WsRoutes
  imports FrameDispatcher OrchestrationRoutes
begin

text \<open>
  The telemetry endpoint (\<^verbatim>\<open>websocket/routes.py\<close>): the handshake with its close codes, the setting
  up of the dispatcher, the message loop, the kill-switch drain and the heartbeat.  What the server
  puts on the wire is a list of \<open>ws_out\<close>.  \<open>json.loads\<close> is the parameter \<open>loads\<close>; clock readings,
  fresh identifiers and whether a send succeeds come with each step.
\<close>

section \<open>Close codes and the subprotocol\<close>

definition WS_CLOSE_AUTH_FAILED :: int where "WS_CLOSE_AUTH_FAILED = 4001"
definition WS_CLOSE_AUTH_EXPIRED :: int where "WS_CLOSE_AUTH_EXPIRED = 4002"
definition WS_CLOSE_SESSION_INVALID :: int where "WS_CLOSE_SESSION_INVALID = 4003"
definition WS_CLOSE_SESSION_MISMATCH :: int where "WS_CLOSE_SESSION_MISMATCH = 4004"
definition WS_CLOSE_NOT_LEARNER :: int where "WS_CLOSE_NOT_LEARNER = 4005"
definition WS_CLOSE_PROTOCOL_ERROR :: int where "WS_CLOSE_PROTOCOL_ERROR = 4006"
definition WS_CLOSE_HEARTBEAT_TIMEOUT :: int where "WS_CLOSE_HEARTBEAT_TIMEOUT = 4007"
definition WS_CLOSE_IDENTITY_BACKEND_UNAVAILABLE :: int where "WS_CLOSE_IDENTITY_BACKEND_UNAVAILABLE = 4008"
definition WS_CLOSE_CONSENT_REQUIRED :: int where "WS_CLOSE_CONSENT_REQUIRED = 4009"

lemmas close_codes =
  WS_CLOSE_AUTH_FAILED_def WS_CLOSE_AUTH_EXPIRED_def WS_CLOSE_SESSION_INVALID_def WS_CLOSE_SESSION_MISMATCH_def
  WS_CLOSE_NOT_LEARNER_def WS_CLOSE_PROTOCOL_ERROR_def WS_CLOSE_HEARTBEAT_TIMEOUT_def
  WS_CLOSE_IDENTITY_BACKEND_UNAVAILABLE_def WS_CLOSE_CONSENT_REQUIRED_def

datatype ws_out = Accepted "string option" | CloseFrame int string | SendJson jdict

definition SUBPROTOCOL_PREFIX :: string where "SUBPROTOCOL_PREFIX = ''proctoring-v1.''"

definition has_prefix :: "string \<Rightarrow> string \<Rightarrow> bool" where
  "has_prefix pre s \<longleftrightarrow> take (length pre) s = pre"

definition matching_subprotocols :: "string \<Rightarrow> string list" where
  "matching_subprotocols raw =
     (let offered = map strip (filter (\<lambda>seg. strip seg \<noteq> []) (split_on CHR '','' raw)) in
      filter (has_prefix SUBPROTOCOL_PREFIX) offered)"

definition extract_token_from_subprotocol :: "string option \<Rightarrow> string option" where
  "extract_token_from_subprotocol header =
     (case header of
        None \<Rightarrow> None
      | Some raw \<Rightarrow>
          if raw = [] then None
          else if length (matching_subprotocols raw) \<noteq> 1 then None
          else Some (drop (length SUBPROTOCOL_PREFIX) (matching_subprotocols raw ! 0)))"

definition echo_subprotocol :: "string option \<Rightarrow> string option" where
  "echo_subprotocol header =
     (case header of
        None \<Rightarrow> None
      | Some raw \<Rightarrow>
          if raw = [] then None
          else if length (matching_subprotocols raw) = 1 then Some (matching_subprotocols raw ! 0)
          else None)"

section \<open>Session lookup\<close>

definition CONNECTABLE_STATUSES :: "session_status list" where
  "CONNECTABLE_STATUSES = [SS_PENDING, SS_ACTIVE]"

definition lookup_session :: "database \<Rightarrow> string \<Rightarrow> exam_session option" where
  "lookup_session d session_id =
     (case uuid_of_string session_id of
        Inl _ \<Rightarrow> None
      | Inr sid \<Rightarrow> find (\<lambda>s. es_id s = sid \<and> List.member CONNECTABLE_STATUSES (es_status s)) (db_exam_sessions d))"

definition set_active :: "exam_session \<Rightarrow> exam_session" where
  "set_active s = s\<lparr> es_status := SS_ACTIVE \<rparr>"

definition set_unverifiable :: "exam_session \<Rightarrow> exam_session" where
  "set_unverifiable s = s\<lparr> es_identity_verification_status := IV_UNAVAILABLE \<rparr>"

definition set_blocked :: "exam_session \<Rightarrow> exam_session" where
  "set_blocked s = s\<lparr> es_status := SS_TERMINATED \<rparr>"

definition change_session :: "(exam_session \<Rightarrow> exam_session) \<Rightarrow> uuid \<Rightarrow> db_session \<Rightarrow> db_session" where
  "change_session f sid db =
     db\<lparr> working := (working db)\<lparr> db_exam_sessions := update_row es_id sid f (db_exam_sessions (working db)) \<rparr> \<rparr>"

definition activate_session :: "exam_session \<Rightarrow> db_session \<Rightarrow> db_error + db_session" where
  "activate_session es db =
     (if es_status es = SS_PENDING then commit (change_session set_active (es_id es) db) else Inr db)"

section \<open>Handshake\<close>

record 'k ws_router_deps =
  wd_jwt :: "'k jwt_lib"
  wd_str_of :: "jval \<Rightarrow> string"
  wd_settings :: lti_settings
  wd_heartbeat_timeout_seconds :: rat

text \<open>The clock of the token check in seconds, the database's clock, a fresh identifier.\<close>

record ws_env =
  we_now_seconds :: int
  we_now :: timestamp
  we_termination_id :: uuid

datatype handshake =
    Rejected
  | Admitted session_claims exam_session bool
  | HandshakeRaised

definition valid_overrides :: "timestamp \<Rightarrow> uuid \<Rightarrow> database \<Rightarrow> identity_override list" where
  "valid_overrides now sid d =
     filter (\<lambda>o'. io_exam_session_id o' = sid \<and> io_status o' = OR_APPROVED \<and> io_valid_from o' \<le> now \<and> now \<le> io_valid_until o')
       (db_identity_overrides d)"

definition blocked_record :: "uuid \<Rightarrow> timestamp \<Rightarrow> uuid \<Rightarrow> termination_record" where
  "blocked_record new_id created_at sid =
     \<lparr> tr_id = new_id, tr_exam_session_id = sid, tr_triggering_flag_id = None,
       tr_reason = ''identity_backend_unavailable_no_override'',
       tr_client_delivery_status = DS_SENT, tr_client_command_sent_at = None,
       tr_client_acknowledged_at = None, tr_lms_delivery_status = DS_SENT,
       tr_lms_callback_sent_at = None, tr_lms_callback_completed_at = None,
       tr_evidence_sealed_at = None, tr_created_at = created_at \<rparr>"

definition block_session :: "ws_env \<Rightarrow> uuid \<Rightarrow> db_session \<Rightarrow> db_error + db_session" where
  "block_session env sid db =
     (let db1 = change_session set_blocked sid db in
      commit (db1\<lparr> working := (working db1)
                    \<lparr> db_termination_records := db_termination_records (working db1)
                        @ [blocked_record (we_termination_id env) (we_now env) sid] \<rparr> \<rparr>))"

type_synonym handshake_result = "db_session \<times> ws_out list \<times> handshake"

definition reject :: "int \<Rightarrow> string \<Rightarrow> db_session \<Rightarrow> handshake_result" where
  "reject code reason db = (db, [CloseFrame code reason], Rejected)"

text \<open>The three cases of the identity backend, after the session was found and consent checked.\<close>

definition identity_gate ::
  "ws_env \<Rightarrow> import_outcome \<Rightarrow> session_claims \<Rightarrow> exam_session \<Rightarrow> db_session \<Rightarrow> handshake_result" where
  "identity_gate env backend claims es db =
     (case backend of
        ImportRaised _ \<Rightarrow> (db, [], HandshakeRaised)
      | Imported \<Rightarrow>
          (case activate_session es db of
             Inl _ \<Rightarrow> (db, [], HandshakeRaised)
           | Inr db1 \<Rightarrow> (db1, [], Admitted claims es False))
      | NotInstalled \<Rightarrow>
          (let overrides = valid_overrides (we_now env) (es_id es) (working db) in
           if length overrides > 1 then (db, [], HandshakeRaised)
           else if overrides \<noteq> [] then
             (let db1 = change_session set_unverifiable (es_id es) db in
              case activate_session es db1 of
                Inl _ \<Rightarrow> (db1, [], HandshakeRaised)
              | Inr db2 \<Rightarrow> (db2, [], Admitted claims es True))
           else
             (case block_session env (es_id es) db of
                Inl _ \<Rightarrow> (db, [], HandshakeRaised)
              | Inr db1 \<Rightarrow>
                  reject WS_CLOSE_IDENTITY_BACKEND_UNAVAILABLE
                    ''Identity backend unavailable and no valid override exists.'' db1)))"

definition authenticated ::
  "ws_env \<Rightarrow> import_outcome \<Rightarrow> session_claims \<Rightarrow> db_session \<Rightarrow> handshake_result" where
  "authenticated env backend claims db =
     (if sc_role claims \<noteq> APP_LEARNER
      then reject WS_CLOSE_NOT_LEARNER ''Only learner-role tokens may open a telemetry connection.'' db
      else (case lookup_session (working db) (sc_session_id claims) of
              None \<Rightarrow> reject WS_CLOSE_SESSION_INVALID ''Session not found or in terminal state.'' db
            | Some es \<Rightarrow>
                if es_consent_recorded_at es = None
                then reject WS_CLOSE_CONSENT_REQUIRED ''Consent has not been recorded for this session.'' db
                else identity_gate env backend claims es db))"

definition after_accept ::
  "'k ws_router_deps \<Rightarrow> ws_env \<Rightarrow> import_outcome \<Rightarrow> string option \<Rightarrow> db_session \<Rightarrow> handshake_result" where
  "after_accept deps env backend header db =
     (case extract_token_from_subprotocol header of
        None \<Rightarrow> reject WS_CLOSE_AUTH_FAILED ''Missing or malformed Sec-WebSocket-Protocol token.'' db
      | Some token \<Rightarrow>
          (case decode_session_token (wd_jwt deps) (wd_str_of deps) (wd_settings deps) (we_now_seconds env) token of
             Inl (SessionTokenExpired _) \<Rightarrow> reject WS_CLOSE_AUTH_EXPIRED ''Token expired.'' db
           | Inl (SessionTokenInvalid _) \<Rightarrow> reject WS_CLOSE_AUTH_FAILED ''Invalid token.'' db
           | Inl _ \<Rightarrow> (db, [], HandshakeRaised)
           | Inr claims \<Rightarrow> authenticated env backend claims db))"

definition ws_handshake ::
  "'k ws_router_deps \<Rightarrow> ws_env \<Rightarrow> import_outcome \<Rightarrow> string option \<Rightarrow> db_session \<Rightarrow> handshake_result" where
  "ws_handshake deps env backend header db =
     (case after_accept deps env backend header db of
        (db1, outs, h) \<Rightarrow> (db1, Accepted (echo_subprotocol header) # outs, h))"

section \<open>Setting up the session\<close>

definition routes_policy_snapshot :: policy_snapshot where
  "routes_policy_snapshot =
     \<lparr> ps_terminate_on_second_face = True,
       ps_second_face_confirmation_frames = 3,
       ps_gaze_min_duration_ms = 800,
       ps_gaze_window_seconds = 300,
       ps_gaze_warning_limit = 3,
       ps_gaze_termination_limit = 8,
       ps_medium_score_termination_threshold = 10,
       ps_medium_score_action = AUTO_TERMINATE,
       ps_liveness_check_enabled = False,
       ps_liveness_check_action = None,
       ps_liveness_score_threshold = 1 / 2,
       ps_liveness_confirmation_frames = 3,
       ps_identity_similarity_threshold = 5404319552844595 / 9007199254740992,
       ps_identity_confirmation_frames = 3,
       ps_audio_noise_floor_dbfs = - 30,
       ps_audio_speech_ratio_threshold = 5404319552844595 / 18014398509481984,
       ps_score_weights = [] \<rparr>"

definition session_context_of :: "exam_session \<Rightarrow> uuid \<Rightarrow> session_context" where
  "session_context_of es sid =
     \<lparr> cx_exam_session_id = sid, cx_participant_id = es_participant_id es, cx_exam_reference = es_exam_reference es,
       cx_policy_config_id = es_policy_config_id es, cx_allowed_reference_materials = ''closed_book'',
       cx_permitted_material_details = [], cx_exemptions = [] \<rparr>"

definition dispatcher_config_of :: "exam_session \<Rightarrow> uuid \<Rightarrow> bool \<Rightarrow> frame_dispatcher_config" where
  "dispatcher_config_of es sid unavailable =
     \<lparr> fc_policy_snapshot = routes_policy_snapshot, fc_context = session_context_of es sid,
       fc_head_pose_period = 1, fc_object_detection_period = 1, fc_identity_match_period = 5, fc_liveness_period = 5,
       fc_enrollment_embedding = None, fc_identity_backend_unavailable = unavailable \<rparr>"

text \<open>\<open>Inl\<close> is an exception that leaves the endpoint; the dispatcher it comes with has been started and
  nobody stops it.\<close>

definition set_up_session ::
  "'i dispatch_deps \<Rightarrow> 'k ws_router_deps \<Rightarrow> session_claims \<Rightarrow> exam_session \<Rightarrow> bool
   \<Rightarrow> ('i frame_dispatcher option \<times> model_error) + ('i frame_dispatcher \<times> delivery_service)" where
  "set_up_session dd deps claims es unavailable =
     (case uuid_of_string (sc_session_id claims) of
        Inl e \<Rightarrow> Inl (None, ModelRaised e)
      | Inr sid \<Rightarrow>
     (case new_frame_dispatcher dd (dispatcher_config_of es sid unavailable) of
        Inl e \<Rightarrow> Inl (None, e)
      | Inr dispatcher \<Rightarrow>
     (case start_dispatcher dispatcher of
        (d1, Inl e) \<Rightarrow> Inl (Some d1, e)
      | (d1, Inr _) \<Rightarrow> Inr (d1, new_delivery_service (wd_heartbeat_timeout_seconds deps) 3))))"

section \<open>The connection\<close>

text \<open>\<open>NoRecv\<close> when the loop has returned.  The buffer is shared with the other connections.\<close>

datatype loop_status = Receiving | NoRecv | LoopRaised | Disconnected

record ws_conn =
  wc_claims :: session_claims
  wc_delivery :: delivery_service
  wc_buffer :: telemetry_event_buffer
  wc_sent :: "ws_out list"
  wc_status :: loop_status
  wc_heartbeat :: bool

definition send_out :: "ws_out \<Rightarrow> ws_conn \<Rightarrow> ws_conn" where
  "send_out o' c = c\<lparr> wc_sent := wc_sent c @ [o'] \<rparr>"

definition close_loop :: "int \<Rightarrow> string \<Rightarrow> ws_conn \<Rightarrow> ws_conn" where
  "close_loop code reason c = (send_out (CloseFrame code reason) c)\<lparr> wc_status := NoRecv \<rparr>"

text \<open>\<^verbatim>\<open>delivery.next_ack()\<close> and the send; a failed send raises out of the loop.\<close>

definition acknowledge :: "timestamp \<Rightarrow> bool \<Rightarrow> ws_conn \<Rightarrow> ws_conn" where
  "acknowledge now send_ok c =
     (case next_ack now (wc_delivery c) of
        (d, ack) \<Rightarrow>
          (let c1 = c\<lparr> wc_delivery := d \<rparr> in
           if send_ok then send_out (SendJson (to_json_dict ack)) c1
           else c1\<lparr> wc_status := Disconnected \<rparr>))"

definition handle_message :: "timestamp \<Rightarrow> timestamp \<Rightarrow> bool \<Rightarrow> client_message \<Rightarrow> ws_conn \<Rightarrow> ws_conn" where
  "handle_message now1 now2 send_ok msg c =
     (if ce_session_id (envelope msg) \<noteq> sc_session_id (wc_claims c)
      then close_loop WS_CLOSE_SESSION_MISMATCH ''session_id in message does not match token.'' c
      else (case msg of
              KillSwitchAcknowledge _ p \<Rightarrow>
                acknowledge now2 send_ok
                  (c\<lparr> wc_delivery := fst (record_kill_switch_ack (kap_flag_id p) (wc_delivery c)) \<rparr>)
            | _ \<Rightarrow> acknowledge now2 send_ok (c\<lparr> wc_buffer := fst (tb_push now1 msg (wc_buffer c)) \<rparr>)))"

definition receive_text ::
  "(string \<Rightarrow> jval option) \<Rightarrow> (client_message_type \<Rightarrow> jdict \<Rightarrow> client_message option)
   \<Rightarrow> string \<Rightarrow> timestamp \<Rightarrow> timestamp \<Rightarrow> bool \<Rightarrow> ws_conn \<Rightarrow> ws_conn" where
  "receive_text loads decode raw_text now1 now2 send_ok c =
     (case loads raw_text of
        None \<Rightarrow> close_loop WS_CLOSE_PROTOCOL_ERROR ''Invalid JSON.'' c
      | Some (JDict raw) \<Rightarrow>
          if dict_get raw ''type'' JNull = JStr ''pong'' then c
          else (case parse_client_message decode raw of
                  Inl (EnvelopeValidationError reason) \<Rightarrow> close_loop WS_CLOSE_PROTOCOL_ERROR (take 120 reason) c
                | Inl UnhashableType \<Rightarrow> c\<lparr> wc_status := LoopRaised \<rparr>
                | Inr msg \<Rightarrow> handle_message now1 now2 send_ok msg c)
      | Some _ \<Rightarrow> c\<lparr> wc_status := LoopRaised \<rparr>)"

text \<open>One turn of the drain task; a kill-switch that cannot be prepared is dropped.\<close>

definition drain_kill_switch :: "rat \<Rightarrow> bool \<Rightarrow> string \<Rightarrow> string \<Rightarrow> ws_conn \<Rightarrow> ws_conn" where
  "drain_kill_switch monotonic send_ok flag_id reason c =
     (case prepare_kill_switch monotonic flag_id reason (wc_delivery c) of
        (d, Inl _) \<Rightarrow> c\<lparr> wc_delivery := d \<rparr>
      | (d, Inr msg) \<Rightarrow>
          (let c1 = c\<lparr> wc_delivery := d \<rparr> in
           if send_ok then send_out (SendJson (to_json_dict msg)) c1 else c1))"

datatype ping_outcome = PingSent | PingTimeout | PingFailed

definition heartbeat_tick :: "ping_outcome \<Rightarrow> ws_conn \<Rightarrow> ws_conn" where
  "heartbeat_tick outcome c =
     (if \<not> wc_heartbeat c then c
      else (case outcome of
              PingSent \<Rightarrow> send_out (SendJson [(''type'', JStr ''ping'')]) c
            | PingTimeout \<Rightarrow>
                (send_out (CloseFrame WS_CLOSE_HEARTBEAT_TIMEOUT ''Heartbeat timeout.'') c)\<lparr> wc_heartbeat := False \<rparr>
            | PingFailed \<Rightarrow> c\<lparr> wc_heartbeat := False \<rparr>))"

text \<open>What can happen to a connection.  \<open>Shared\<close> is an operation on the shared buffer by another
  connection or by a dispatcher.\<close>

datatype ws_event =
    TextFrame string timestamp timestamp bool
  | ClientGone
  | KillSwitchDue rat bool string string
  | HeartbeatDue ping_outcome
  | Shared buffer_op

fun ws_step ::
  "(string \<Rightarrow> jval option) \<Rightarrow> (client_message_type \<Rightarrow> jdict \<Rightarrow> client_message option) \<Rightarrow> ws_event \<Rightarrow> ws_conn \<Rightarrow> ws_conn" where
  "ws_step loads decode (TextFrame raw_text now1 now2 send_ok) c =
     (if wc_status c = Receiving then receive_text loads decode raw_text now1 now2 send_ok c else c)"
| "ws_step loads decode ClientGone c =
     (if wc_status c = Receiving then c\<lparr> wc_status := Disconnected \<rparr> else c)"
| "ws_step loads decode (KillSwitchDue monotonic send_ok flag_id reason) c =
     (if wc_status c = Receiving then drain_kill_switch monotonic send_ok flag_id reason c else c)"
| "ws_step loads decode (HeartbeatDue outcome) c =
     (if wc_status c = Receiving then heartbeat_tick outcome c else c)"
| "ws_step loads decode (Shared op) c = c\<lparr> wc_buffer := fst (buffer_step op (wc_buffer c, [])) \<rparr>"

definition ws_run ::
  "(string \<Rightarrow> jval option) \<Rightarrow> (client_message_type \<Rightarrow> jdict \<Rightarrow> client_message option) \<Rightarrow> ws_event list \<Rightarrow> ws_conn \<Rightarrow> ws_conn" where
  "ws_run loads decode evs c = foldl (\<lambda>a ev. ws_step loads decode ev a) c evs"

definition new_ws_conn :: "session_claims \<Rightarrow> delivery_service \<Rightarrow> telemetry_event_buffer \<Rightarrow> ws_out list \<Rightarrow> ws_conn" where
  "new_ws_conn claims delivery buffer outs =
     \<lparr> wc_claims = claims, wc_delivery = delivery, wc_buffer = buffer, wc_sent = outs, wc_status = Receiving,
       wc_heartbeat = True \<rparr>"

end
