(* ===== verification/DispatcherTrace.thy ===== *)
theory DispatcherTrace
  imports FrameDispatcher FusionProperties
begin

text \<open>
  What the dispatcher does to its aggregator and its queue.  \<open>works dd st tr st'\<close> says that \<open>st'\<close> is
  reached from \<open>st\<close> by the calls \<open>tr\<close> of the aggregator, each followed by \<open>emit\<close>, and by changes that
  touch neither; \<open>justified\<close> says what message stands behind a call.  Every handler is shown to work
  by justified calls.
\<close>

section \<open>Quiet changes and calls\<close>

definition quiet :: "'i frame_dispatcher \<Rightarrow> 'i frame_dispatcher \<Rightarrow> bool" where
  "quiet st st' \<longleftrightarrow>
     dsp_aggregator st' = dsp_aggregator st \<and> dsp_flag_decisions st' = dsp_flag_decisions st \<and>
     dsp_event_map st' = dsp_event_map st \<and> dsp_config st' = dsp_config st \<and>
     dsp_scheduler st' = dsp_scheduler st \<and> dsp_liveness_runner st' = dsp_liveness_runner st \<and>
     dsp_stop st' = dsp_stop st"

inductive works :: "'i dispatch_deps \<Rightarrow> 'i frame_dispatcher \<Rightarrow> agg_event list \<Rightarrow> 'i frame_dispatcher \<Rightarrow> bool"
  for dd where
  works_nil: "works dd st [] st"
| works_quiet: "works dd st tr st1 \<Longrightarrow> quiet st1 st2 \<Longrightarrow> works dd st tr st2"
| works_call: "works dd st tr st1 \<Longrightarrow> works dd st (tr @ [ev]) (fst (aggregate dd ev st1))"

lemma works_trans: "works dd st1 tr2 st2 \<Longrightarrow> works dd st tr1 st1 \<Longrightarrow> works dd st (tr1 @ tr2) st2"
  by (induction rule: works.induct) (auto intro: works.intros simp flip: append_assoc)

lemma emit_one_sel [simp]:
  "dsp_aggregator (emit_one d st) = dsp_aggregator st" "dsp_config (emit_one d st) = dsp_config st"
  "dsp_scheduler (emit_one d st) = dsp_scheduler st" "dsp_liveness_runner (emit_one d st) = dsp_liveness_runner st"
  "dsp_stop (emit_one d st) = dsp_stop st"
  "map pf_decision (dsp_flag_decisions (emit_one d st)) = map pf_decision (dsp_flag_decisions st) @ [d]"
  by (simp_all add: emit_one_def split: prod.splits)

lemma emit_sel [simp]:
  "dsp_aggregator (emit ds st) = dsp_aggregator st" "dsp_config (emit ds st) = dsp_config st"
  "dsp_scheduler (emit ds st) = dsp_scheduler st" "dsp_liveness_runner (emit ds st) = dsp_liveness_runner st"
  "dsp_stop (emit ds st) = dsp_stop st"
  "map pf_decision (dsp_flag_decisions (emit ds st)) = map pf_decision (dsp_flag_decisions st) @ ds"
  by (induction ds arbitrary: st) simp_all

lemma aggregate_sel [simp]:
  "dsp_aggregator (fst (aggregate dd ev st)) = fst (agg_step (dd_fa dd) ev (dsp_aggregator st))"
  "dsp_config (fst (aggregate dd ev st)) = dsp_config st"
  "dsp_scheduler (fst (aggregate dd ev st)) = dsp_scheduler st"
  "dsp_liveness_runner (fst (aggregate dd ev st)) = dsp_liveness_runner st"
  "dsp_stop (fst (aggregate dd ev st)) = dsp_stop st"
  "map pf_decision (dsp_flag_decisions (fst (aggregate dd ev st))) =
     map pf_decision (dsp_flag_decisions st) @ decisions_of (snd (agg_step (dd_fa dd) ev (dsp_aggregator st)))"
  by (simp_all add: aggregate_def split: prod.splits sum.splits)

lemma agg_run_append:
  "agg_run fa (xs @ ys) st =
     (fst (agg_run fa ys (fst (agg_run fa xs st))),
      snd (agg_run fa xs st) @ snd (agg_run fa ys (fst (agg_run fa xs st))))"
  by (induction ys rule: rev_induct) (simp_all flip: append_assoc)

text \<open>What the calls did.\<close>

lemma works_refines:
  "works dd st tr st' \<Longrightarrow>
     dsp_aggregator st' = fst (agg_run (dd_fa dd) tr (dsp_aggregator st)) \<and>
     map pf_decision (dsp_flag_decisions st') =
       map pf_decision (dsp_flag_decisions st) @ snd (agg_run (dd_fa dd) tr (dsp_aggregator st)) \<and>
     dsp_config st' = dsp_config st \<and> dsp_scheduler st' = dsp_scheduler st \<and>
     dsp_liveness_runner st' = dsp_liveness_runner st \<and> dsp_stop st' = dsp_stop st"
  by (induction rule: works.induct) (simp_all add: quiet_def)

section \<open>Justified calls\<close>

fun call_id :: "agg_event \<Rightarrow> uuid" where
  "call_id (FaceEv _ e) = e"
| "call_id (LivenessEv _ e) = e"
| "call_id (GazeEv _ e _) = e"
| "call_id (IdentityEv _ e) = e"
| "call_id (IdentityUnavailableEv e) = e"
| "call_id (ObjectEv _ e _) = e"
| "call_id (BrowserEv _ e) = e"
| "call_id (AudioEv _ e) = e"

definition is_heavy :: "client_message \<Rightarrow> bool" where
  "is_heavy msg \<longleftrightarrow> message_type msg = TELEMETRY_HEAVY_FRAME"

definition face_counts :: "client_message \<Rightarrow> int list" where
  "face_counts msg = (case msg of TelemetryLight _ p \<Rightarrow> [tlp_face_count p] | _ \<Rightarrow> [])"

definition identity_before_liveness :: "frame_dispatcher_config \<Rightarrow> bool" where
  "identity_before_liveness cfg \<longleftrightarrow>
     fc_enrollment_embedding cfg = None \<and> fc_identity_match_period cfg dvd fc_liveness_period cfg"

definition justified :: "'i dispatch_deps \<Rightarrow> frame_dispatcher_config \<Rightarrow> client_message \<Rightarrow> agg_event \<Rightarrow> bool" where
  "justified dd cfg msg ev \<longleftrightarrow> input_ok ev \<and>
     (case ev of
        FaceEv r _ \<Rightarrow> face_counts msg = [fp_face_count r]
      | GazeEv r _ ts \<Rightarrow> is_heavy msg \<and> ts = captured_at_ms (dd_fa dd) msg
      | ObjectEv r _ _ \<Rightarrow> is_heavy msg \<and> List.member DENYLIST_CLASSES (od_detected_class r)
      | IdentityEv _ _ \<Rightarrow> is_heavy msg \<and> fc_enrollment_embedding cfg \<noteq> None
      | LivenessEv _ _ \<Rightarrow> is_heavy msg \<and> ps_liveness_check_enabled (fc_policy_snapshot cfg) \<and> \<not> identity_before_liveness cfg
      | BrowserEv r _ \<Rightarrow> (\<exists>e p. msg = TelemetryBrowserEvent e p \<and> ir_event_type r = tbp_event_type p \<and>
                               List.member VALID_BROWSER_EVENTS (tbp_event_type p))
      | AudioEv r _ \<Rightarrow> message_type msg = AUDIO_CHUNK \<and> ir_event_type r \<noteq> EVENT_SILENCE
      | IdentityUnavailableEv _ \<Rightarrow> False)"

text \<open>The state fits its configuration.\<close>

definition configured :: "'i dispatch_deps \<Rightarrow> 'i frame_dispatcher \<Rightarrow> bool" where
  "configured dd st \<longleftrightarrow>
     dsp_liveness_runner st = choose_liveness_runner dd (fc_policy_snapshot (dsp_config st)) \<and>
     new_modality_scheduler (fc_head_pose_period (dsp_config st)) (fc_object_detection_period (dsp_config st))
       (fc_identity_match_period (dsp_config st)) (fc_liveness_period (dsp_config st)) = Inr (dsp_scheduler st)"

lemma new_configured: "new_frame_dispatcher dd cfg = Inr st \<Longrightarrow> configured dd st \<and> dsp_config st = cfg"
  by (auto simp: new_frame_dispatcher_def configured_def bind_err_eq_Inr split: sum.splits)

definition does ::
  "'i dispatch_deps \<Rightarrow> client_message \<Rightarrow> uuid \<Rightarrow> 'i frame_dispatcher \<Rightarrow> 'i frame_dispatcher \<Rightarrow> bool" where
  "does dd msg eid st st' \<longleftrightarrow>
     (\<exists>tr. works dd st tr st' \<and> list_all (\<lambda>ev. call_id ev = eid \<and> justified dd (dsp_config st) msg ev) tr)"

lemma does_refl [simp]: "does dd msg eid st st"
  by (auto simp: does_def intro: works_nil exI[of _ "[]"])

lemma does_quiet: "quiet st st' \<Longrightarrow> does dd msg eid st st'"
  using works_quiet[OF works_nil] by (auto simp: does_def intro!: exI[of _ "[]"])

lemma does_call: "call_id ev = eid \<Longrightarrow> justified dd (dsp_config st) msg ev \<Longrightarrow> does dd msg eid st (fst (aggregate dd ev st))"
  using works_call[OF works_nil[of dd st], of ev] by (auto simp: does_def intro!: exI[of _ "[ev]"])

lemma does_trans: "does dd msg eid st st1 \<Longrightarrow> does dd msg eid st1 st2 \<Longrightarrow> does dd msg eid st st2"
proof -
  assume "does dd msg eid st st1" "does dd msg eid st1 st2"
  then obtain tr1 tr2 where t: "works dd st tr1 st1" "works dd st1 tr2 st2"
    "list_all (\<lambda>ev. call_id ev = eid \<and> justified dd (dsp_config st) msg ev) tr1"
    "list_all (\<lambda>ev. call_id ev = eid \<and> justified dd (dsp_config st1) msg ev) tr2"
    unfolding does_def by blast
  have "dsp_config st1 = dsp_config st" using works_refines[OF t(1)] by blast
  with t(3,4) have "list_all (\<lambda>ev. call_id ev = eid \<and> justified dd (dsp_config st) msg ev) (tr1 @ tr2)" by simp
  with works_trans[OF t(2,1)] show ?thesis unfolding does_def by blast
qed

lemma does_keeps: "does dd msg eid st st' \<Longrightarrow> dsp_config st' = dsp_config st \<and> dsp_scheduler st' = dsp_scheduler st
    \<and> dsp_liveness_runner st' = dsp_liveness_runner st \<and> dsp_stop st' = dsp_stop st"
  unfolding does_def by (blast dest: works_refines)

lemma quiet_count_error [simp]: "quiet st (count_error st)"
  by (simp add: quiet_def count_error_def)

section \<open>The handlers\<close>

lemma ensure_quiet:
  "quiet st (fst (ensure_face_landmarker dd st))" "quiet st (fst (ensure_object_detector dd st))"
  "quiet st (fst (ensure_audio_vad dd st))"
  by (simp_all add: ensure_face_landmarker_def ensure_object_detector_def ensure_audio_vad_def quiet_def Let_def
      split: option.splits sum.splits)

lemma quiet_trans: "quiet st st1 \<Longrightarrow> quiet st1 st2 \<Longrightarrow> quiet st st2"
  by (simp add: quiet_def)

lemma landmark_stage_quiet: "quiet st (fst (landmark_stage dd decision frame st))"
  using ensure_quiet(1)[of st dd] quiet_count_error quiet_trans
  by (auto simp: landmark_stage_def quiet_def count_error_def split: prod.splits sum.splits)

lemma gaze_stage_does: "is_heavy msg \<Longrightarrow> does dd msg eid st (fst (gaze_stage dd decision msg eid res st))"
  by (auto simp: gaze_stage_def justified_def input_ok_def intro: does_call)

lemma feed_detections_does:
  "is_heavy msg \<Longrightarrow> list_all (\<lambda>r. List.member DENYLIST_CLASSES (od_detected_class r)) rs \<Longrightarrow>
   does dd msg eid st (fst (feed_detections dd eid clock i rs st))"
proof (induction rs arbitrary: i st)
  case (Cons r rs)
  have call: "does dd msg eid st (fst (aggregate dd (ObjectEv r eid (clock i)) st))"
    using Cons.prems by (intro does_call) (auto simp: justified_def input_ok_def)
  show ?case
  proof (cases "aggregate dd (ObjectEv r eid (clock i)) st")
    case (Pair st1 out)
    with Cons.IH[of st1 "Suc i"] Cons.prems call does_trans show ?thesis
      by (cases out) fastforce+
  qed
qed simp

lemma map_err_list_all:
  "map_err f xs = Inr ys \<Longrightarrow> (\<And>x y. x \<in> set xs \<Longrightarrow> f x = Inr y \<Longrightarrow> P y) \<Longrightarrow> list_all P ys"
proof (induction xs arbitrary: ys)
  case (Cons x xs)
  then obtain y zs where yz: "f x = Inr y" "map_err f xs = Inr zs" "ys = y # zs"
    by (auto simp: bind_err_eq_Inr)
  with Cons.IH[OF yz(2)] Cons.prems(2) show ?case by auto
qed simp

lemma detections_denylisted:
  assumes "run_object_detector fa lib orn frame = Inr rs"
  shows "list_all (\<lambda>r. List.member DENYLIST_CLASSES (od_detected_class r)) rs"
proof -
  from assms obtain boxes where
    "map_err object_result (filter_denylist_detections fa boxes (vl_yolo_names lib) DENYLIST_CLASSES) = Inr rs"
    by (auto simp: run_object_detector_def bind_err_eq_Inr)
  then show ?thesis
    by (rule map_err_list_all) (auto simp: object_result_def bind_err_eq_Inr dest: denylist_hits_known)
qed

lemma object_stage_does:
  assumes "is_heavy msg"
  shows "does dd msg eid st (fst (object_stage dd decision frame eid clock st))"
proof (cases "should_run decision OBJECT_DETECTION")
  case True
  obtain st1 r where e: "ensure_object_detector dd st = (st1, r)" by fastforce
  with ensure_quiet(2)[of st dd] have q: "does dd msg eid st st1" by (simp add: does_quiet)
  show ?thesis
  proof (cases r)
    case (Inr orn)
    show ?thesis
    proof (cases "run_object_detector (dd_fa dd) (dd_lib dd) orn frame")
      case (Inr rs)
      with True e \<open>r = Inr orn\<close> q show ?thesis
        using does_trans[OF q feed_detections_does[OF assms detections_denylisted[OF Inr]]]
        by (simp add: object_stage_def)
    next
      case (Inl x)
      with True e \<open>r = Inr orn\<close> show ?thesis
        using does_trans[OF q does_quiet[OF quiet_count_error]] by (simp add: object_stage_def)
    qed
  qed (use True e q in \<open>simp add: object_stage_def\<close>)
qed (simp add: object_stage_def)

lemma identity_stage_does:
  assumes "is_heavy msg"
  shows "does dd msg eid st (fst (identity_stage dd decision frame eid res st))"
proof -
  have call: "run_identity_match fa nl backend face enrolled t = Inr r \<Longrightarrow>
      fc_enrollment_embedding (dsp_config st) = Some enrolled \<Longrightarrow>
      does dd msg eid st (fst (aggregate dd (IdentityEv r eid) st))" for fa nl backend face enrolled t r
    using assms identity_in_unit by (intro does_call) (auto simp: justified_def input_ok_def)
  show ?thesis
  proof (cases "should_run decision IDENTITY_MATCH \<and> res \<noteq> None \<and> fc_enrollment_embedding (dsp_config st) \<noteq> None")
    case True
    then obtain r0 enrolled where r: "res = Some r0" "fc_enrollment_embedding (dsp_config st) = Some enrolled" by auto
    show ?thesis
    proof (cases "extract_face_crop (dd_fa dd) (dd_lib dd) frame res")
      case (Some face)
      have go: "fst (go_on h) = fst h" for h :: "'a handled" by (simp add: go_on_def split: prod.splits sum.splits)
      show ?thesis
      proof (cases "run_identity_match (dd_fa dd) (dd_nl dd) (dsp_identity_backend st) face enrolled
          (ps_identity_similarity_threshold (fc_policy_snapshot (dsp_config st)))")
        case (Inr m)
        with call[OF Inr r(2)] True r Some show ?thesis by (simp add: identity_stage_def go)
      next
        case (Inl x)
        with True r Some show ?thesis by (simp add: identity_stage_def does_quiet)
      qed
    qed (use True r in \<open>simp add: identity_stage_def\<close>)
  qed (auto simp: identity_stage_def split: option.splits)
qed

lemma identity_stage_stops:
  "should_run decision IDENTITY_MATCH \<Longrightarrow> fc_enrollment_embedding (dsp_config st) = None \<Longrightarrow>
   identity_stage dd decision frame eid res st = (st, Inr False)"
  by (simp add: identity_stage_def split: option.splits)

lemma identity_stage_skips:
  "\<not> should_run decision IDENTITY_MATCH \<Longrightarrow> identity_stage dd decision frame eid res st = (st, Inr True)"
  by (simp add: identity_stage_def)

lemma liveness_stage_does:
  assumes "is_heavy msg" "configured dd st" "should_run decision LIVENESS \<Longrightarrow> \<not> identity_before_liveness (dsp_config st)"
  shows "does dd msg eid st (fst (liveness_stage dd decision frame eid res st))"
proof -
  have call: "run_liveness backend arr box t = Inr r \<Longrightarrow> should_run decision LIVENESS \<Longrightarrow> dsp_liveness_runner st = Some backend \<Longrightarrow>
      does dd msg eid st (fst (aggregate dd (LivenessEv r eid) st))" for backend arr box t r
    using assms liveness_in_unit
    by (intro does_call) (auto simp: justified_def input_ok_def configured_def choose_liveness_runner_def split: if_splits)
  show ?thesis
    using does_quiet[OF quiet_count_error] call
    by (auto simp: liveness_stage_def split: option.splits sum.splits bool.splits)
qed

lemma heavy_frame_does:
  assumes "is_heavy msg" "configured dd st"
  shows "does dd msg eid st (fst (dispatch_heavy_frame dd msg p eid clock st))"
proof (cases "decode_jpeg_frame (dd_lenient dd) (dd_lib dd) (thp_frame p) (thp_encoding p)")
  case (Inl x)
  then show ?thesis by (simp add: dispatch_heavy_frame_def does_quiet)
next
  case frame: (Inr frame)
  define st1 where "st1 = st\<lparr> dsp_heavy_frame_seq := dsp_heavy_frame_seq st + 1 \<rparr>"
  have q1: "does dd msg eid st st1" by (rule does_quiet) (simp add: quiet_def st1_def)
  show ?thesis
  proof (cases "decide_for_frame (dsp_scheduler st) (dsp_heavy_frame_seq st)")
    case (Inl x)
    with frame q1 show ?thesis by (simp add: dispatch_heavy_frame_def Let_def st1_def)
  next
    case (Inr decision)
    have due: "should_run decision m \<longleftrightarrow> period_for (dsp_scheduler st) m dvd dsp_heavy_frame_seq st" for m
      by (rule should_run_decide[OF Inr])
    have blocked: "should_run decision LIVENESS \<Longrightarrow> identity_before_liveness (dsp_config st) \<Longrightarrow> should_run decision IDENTITY_MATCH"
      using assms(2) unfolding due identity_before_liveness_def configured_def
      by (auto simp: new_modality_scheduler_def split: if_splits) (metis dvd_trans modality_scheduler.select_convs(3,4))
    obtain s2 r2 where l: "landmark_stage dd decision frame st1 = (s2, r2)" by fastforce
    with landmark_stage_quiet[of st1 dd decision frame] q1 have d2: "does dd msg eid st s2"
      by (auto intro: does_trans does_quiet)
    show ?thesis
    proof (cases r2)
      case (Inl x)
      with frame \<open>decide_for_frame _ _ = Inr decision\<close> l d2 show ?thesis
        by (simp add: dispatch_heavy_frame_def Let_def run_stages_def st1_def)
    next
      case res: (Inr res)
      obtain s3 r3 where g: "gaze_stage dd decision msg eid res s2 = (s3, r3)" by fastforce
      with gaze_stage_does[OF assms(1), of dd eid s2 decision res] d2 have d3: "does dd msg eid st s3"
        by (auto intro: does_trans)
      obtain s4 r4 where ob: "object_stage dd decision frame eid clock s3 = (s4, r4)" by fastforce
      with object_stage_does[OF assms(1), of dd eid s3 decision frame clock] d3 have d4: "does dd msg eid st s4"
        by (auto intro: does_trans)
      obtain s5 r5 where i: "identity_stage dd decision frame eid res s4 = (s5, r5)" by fastforce
      with identity_stage_does[OF assms(1), of dd eid s4 decision frame res] d4 have d5: "does dd msg eid st s5"
        by (auto intro: does_trans)
      have c5: "configured dd s5" using does_keeps[OF d5] assms(2) by (simp add: configured_def)
      have "r5 = Inr True \<Longrightarrow> should_run decision LIVENESS \<Longrightarrow> \<not> identity_before_liveness (dsp_config s5)"
        using blocked does_keeps[OF d5] does_keeps[OF d4] i identity_stage_stops[of decision s4 dd frame eid res]
        by (auto simp: identity_before_liveness_def)
      then have d6: "r5 = Inr True \<Longrightarrow> does dd msg eid st (fst (liveness_stage dd decision frame eid res s5))"
        using does_trans[OF d5 liveness_stage_does[OF assms(1) c5]] by blast
      show ?thesis
        using frame \<open>decide_for_frame _ _ = Inr decision\<close> l res g ob i d3 d4 d5 d6
        by (auto simp: dispatch_heavy_frame_def Let_def run_stages_def simp flip: st1_def split: sum.splits bool.splits)
    qed
  qed
qed

lemma audio_chunk_does:
  assumes "message_type msg = AUDIO_CHUNK"
  shows "does dd msg eid st (fst (dispatch_audio_chunk dd p eid st))"
proof -
  obtain s1 r1 where e: "ensure_audio_vad dd st = (s1, r1)" by fastforce
  with ensure_quiet(3)[of st dd] have q: "does dd msg eid st s1" by (simp add: does_quiet)
  have call: "ir_event_type r \<noteq> EVENT_SILENCE \<Longrightarrow> does dd msg eid st (fst (aggregate dd (AudioEv r eid) s1))" for r
    using assms by (intro does_trans[OF q] does_call) (simp_all add: justified_def input_ok_def)
  have err: "does dd msg eid st (count_error s1)" by (rule does_trans[OF q does_quiet]) simp
  show ?thesis
    using e q call err does_quiet[OF quiet_count_error, of dd msg eid st]
    by (auto simp: dispatch_audio_chunk_def split: sum.splits)
qed

lemma browser_event_does:
  "does dd (TelemetryBrowserEvent env p) eid st (fst (dispatch_browser_event dd p eid st))"
  using does_quiet[OF quiet_count_error, of dd "TelemetryBrowserEvent env p" eid st]
  by (auto simp: dispatch_browser_event_def classify_browser_event_def Let_def justified_def input_ok_def
      split: sum.splits if_splits intro!: does_call)

lemma light_does: "does dd (TelemetryLight env p) eid st (fst (dispatch_light dd p eid st))"
  by (auto simp: dispatch_light_def light_result_def justified_def input_ok_def face_counts_def
      split: sum.splits intro!: does_call)

end
