(* ===== verification/DispatcherProps.thy ===== *)
theory DispatcherProps
  imports DispatcherTrace
begin

text \<open>
  Properties of the dispatcher over any sequence of events: its decisions are those of the aggregator
  on calls that messages justify, repeated faces reach the queue, no event is attached twice, the
  face box stays in the frame.
\<close>

section \<open>One event\<close>

definition remember :: "uuid \<Rightarrow> buffered_event \<Rightarrow> 'i frame_dispatcher \<Rightarrow> 'i frame_dispatcher" where
  "remember eid event st =
     st\<lparr> dsp_event_map := (dsp_event_map st)(eid \<mapsto> event\<lparr> be_synthetic_id := Some eid \<rparr>) \<rparr>"

lemma remember_sel [simp]:
  "dsp_aggregator (remember eid event st) = dsp_aggregator st" "dsp_config (remember eid event st) = dsp_config st"
  "dsp_scheduler (remember eid event st) = dsp_scheduler st"
  "dsp_liveness_runner (remember eid event st) = dsp_liveness_runner st"
  "dsp_flag_decisions (remember eid event st) = dsp_flag_decisions st" "dsp_stop (remember eid event st) = dsp_stop st"
  by (simp_all add: remember_def)

lemma dispatch_event_does:
  assumes "configured dd st"
  shows "does dd (be_message event) eid (remember eid event st) (fst (dispatch_event dd eid clock event st))"
proof -
  have c: "configured dd (remember eid event st)" using assms by (simp add: configured_def)
  show ?thesis
  proof (cases "be_message event")
    case (TelemetryHeavyFrame env p)
    then have "is_heavy (be_message event)" by (simp add: is_heavy_def)
    from heavy_frame_does[OF this c] TelemetryHeavyFrame show ?thesis
      by (simp add: dispatch_event_def Let_def flip: remember_def)
  qed (simp_all add: dispatch_event_def Let_def audio_chunk_does browser_event_does light_does flip: remember_def)
qed

definition counted :: "'i handled \<Rightarrow> 'i frame_dispatcher" where
  "counted r = (case r of (st1, Inr _) \<Rightarrow> st1\<lparr> dsp_processed := dsp_processed st1 + 1 \<rparr> | (st1, Inl _) \<Rightarrow> count_error st1)"

lemma dispatch_counted_alt: "dispatch_counted dd (eid, clock, event) st = counted (dispatch_event dd eid clock event st)"
  by (simp add: dispatch_counted_def counted_def)

lemma counted_quiet: "quiet (fst r) (counted r)"
  by (auto simp: counted_def quiet_def count_error_def split: prod.splits sum.splits)

lemma counted_does:
  assumes "configured dd st"
  shows "does dd (be_message event) eid (remember eid event st) (dispatch_counted dd (eid, clock, event) st)"
  unfolding dispatch_counted_alt
  by (rule does_trans[OF dispatch_event_does[OF assms] does_quiet[OF counted_quiet]])

text \<open>The readings of faces that a message contributes.\<close>

lemma justified_faces:
  "list_all (\<lambda>ev. call_id ev = eid \<and> justified dd cfg msg ev) tr \<Longrightarrow> face_counts msg = [] \<Longrightarrow> faces_of tr = []"
  by (induction tr rule: rev_induct) (auto simp: justified_def faces_of_def split: agg_event.splits)

lemma light_counted:
  assumes "check_message (TelemetryLight env p)" "be_message event = TelemetryLight env p"
  shows "\<exists>r. fp_face_count r = tlp_face_count p \<and>
     works dd (remember eid event st) [FaceEv r eid] (dispatch_counted dd (eid, clock, event) st)"
proof -
  have "in_unit (tlp_confidence p)" using assms(1) by (simp add: check_telemetry_light_def in_unit_def)
  then obtain c where c: "mk_point_interval (tlp_confidence p) = Inr c" by (simp add: mk_point_interval_total)
  have "works dd (remember eid event st) ([] @ [FaceEv (light_result p c) eid])
      (fst (aggregate dd (FaceEv (light_result p c) eid) (remember eid event st)))"
    by (rule works_call[OF works_nil])
  then have "works dd (remember eid event st) [FaceEv (light_result p c) eid]
      (fst (dispatch_event dd eid clock event st))"
    using assms(2) c by (simp add: dispatch_event_def dispatch_light_def Let_def flip: remember_def)
  from works_quiet[OF this counted_quiet] show ?thesis
    unfolding dispatch_counted_alt by (intro exI[of _ "light_result p c"]) (simp add: light_result_def)
qed

lemma counted_trace:
  assumes "configured dd st" "check_message (be_message event)"
  shows "\<exists>tr. works dd (remember eid event st) tr (dispatch_counted dd (eid, clock, event) st) \<and>
     list_all (\<lambda>ev. call_id ev = eid \<and> justified dd (dsp_config st) (be_message event) ev) tr \<and>
     map (\<lambda>x. fp_face_count (fst x)) (faces_of tr) = face_counts (be_message event)"
proof (cases "face_counts (be_message event) = []")
  case True
  with counted_does[OF assms(1), of event eid clock] justified_faces show ?thesis
    unfolding does_def by fastforce
next
  case False
  then obtain env p where m: "be_message event = TelemetryLight env p" by (cases "be_message event") (auto simp: face_counts_def)
  from light_counted[OF _ m] assms(2) m obtain r where r: "fp_face_count r = tlp_face_count p"
    "works dd (remember eid event st) [FaceEv r eid] (dispatch_counted dd (eid, clock, event) st)" by metis
  then show ?thesis using m
    by (intro exI[of _ "[FaceEv r eid]"]) (simp add: justified_def input_ok_def face_counts_def faces_of_def)
qed

section \<open>Any sequence of events\<close>

definition dispatch_all :: "'i dispatch_deps \<Rightarrow> keyed_event list \<Rightarrow> 'i frame_dispatcher \<Rightarrow> 'i frame_dispatcher" where
  "dispatch_all dd ks st = foldl (\<lambda>a k. dispatch_counted dd k a) st ks"

lemma dispatch_all_simps [simp]:
  "dispatch_all dd [] st = st"
  "dispatch_all dd (k # ks) st = dispatch_all dd ks (dispatch_counted dd k st)"
  "dispatch_all dd (ks @ ks') st = dispatch_all dd ks' (dispatch_all dd ks st)"
  by (simp_all add: dispatch_all_def)

definition message_of :: "keyed_event \<Rightarrow> client_message" where
  "message_of k = be_message (snd (snd k))"

definition calls_justified :: "'i dispatch_deps \<Rightarrow> frame_dispatcher_config \<Rightarrow> keyed_event \<Rightarrow> agg_event list \<Rightarrow> bool" where
  "calls_justified dd cfg k tr \<longleftrightarrow> list_all (\<lambda>ev. call_id ev = fst k \<and> justified dd cfg (message_of k) ev) tr"

text \<open>The decisions queued are those of the aggregator on a trace.\<close>

definition queue_is :: "'i dispatch_deps \<Rightarrow> frame_dispatcher_config \<Rightarrow> agg_event list \<Rightarrow> 'i frame_dispatcher \<Rightarrow> bool" where
  "queue_is dd cfg tr st \<longleftrightarrow>
     (dsp_aggregator st, map pf_decision (dsp_flag_decisions st)) =
       agg_run (dd_fa dd) tr (new_session_aggregator (fc_policy_snapshot cfg) (fc_context cfg))"

lemma queue_is_works:
  "works dd st tr' st' \<Longrightarrow> queue_is dd cfg tr st \<Longrightarrow> queue_is dd cfg (tr @ tr') st'"
  using works_refines[of dd st tr' st'] by (auto simp: queue_is_def agg_run_append prod_eq_iff)

lemma queue_is_remember [simp]: "queue_is dd cfg tr (remember eid event st) = queue_is dd cfg tr st"
  by (simp add: queue_is_def)

lemma configured_does: "does dd msg eid st st' \<Longrightarrow> configured dd st \<Longrightarrow> configured dd st' \<and> dsp_config st' = dsp_config st"
  using does_keeps by (fastforce simp: configured_def)

lemma counted_keeps:
  assumes "configured dd st"
  shows "configured dd (dispatch_counted dd k st) \<and> dsp_config (dispatch_counted dd k st) = dsp_config st
    \<and> dsp_stop (dispatch_counted dd k st) = dsp_stop st"
proof -
  obtain eid clock event where k: "k = (eid, clock, event)" by (metis prod_cases3)
  have c: "configured dd (remember eid event st)" using assms by (simp add: configured_def)
  from counted_does[OF assms, of event eid clock] show ?thesis
    unfolding k using configured_does[OF _ c] does_keeps by fastforce
qed

lemma new_queue: "new_frame_dispatcher dd cfg = Inr st \<Longrightarrow> queue_is dd cfg [] st \<and> \<not> dsp_stop st \<and> dsp_event_map st = (\<lambda>_. None)
   \<and> dsp_flag_decisions st = []"
  by (auto simp: new_frame_dispatcher_def queue_is_def bind_err_eq_Inr split: sum.splits)

lemma dispatch_all_keeps:
  assumes "new_frame_dispatcher dd cfg = Inr st0"
  shows "configured dd (dispatch_all dd ks st0) \<and> dsp_config (dispatch_all dd ks st0) = cfg \<and> \<not> dsp_stop (dispatch_all dd ks st0)"
proof (induction ks rule: rev_induct)
  case Nil
  show ?case using new_configured[OF assms] new_queue[OF assms] by simp
next
  case (snoc k ks)
  then show ?case using counted_keeps[of dd "dispatch_all dd ks st0" k] by simp
qed

lemma dispatch_all_trace:
  assumes "new_frame_dispatcher dd cfg = Inr st0"
  shows "\<exists>trs. list_all2 (calls_justified dd cfg) ks trs \<and> queue_is dd cfg (concat trs) (dispatch_all dd ks st0)"
proof (induction ks rule: rev_induct)
  case Nil
  show ?case using new_queue[OF assms] by (auto intro: exI[of _ "[]"])
next
  case (snoc k ks)
  then obtain trs where trs: "list_all2 (calls_justified dd cfg) ks trs" "queue_is dd cfg (concat trs) (dispatch_all dd ks st0)"
    by blast
  obtain eid clock event where k: "k = (eid, clock, event)" by (metis prod_cases3)
  have c: "configured dd (dispatch_all dd ks st0)" "dsp_config (dispatch_all dd ks st0) = cfg"
    using dispatch_all_keeps[OF assms] by auto
  from counted_does[OF c(1), of event eid clock] obtain tr where
    tr: "works dd (remember eid event (dispatch_all dd ks st0)) tr (dispatch_counted dd k (dispatch_all dd ks st0))"
      "list_all (\<lambda>ev. call_id ev = eid \<and> justified dd cfg (be_message event) ev) tr"
    unfolding does_def k by (auto simp: c(2))
  have "queue_is dd cfg (concat (trs @ [tr])) (dispatch_all dd (ks @ [k]) st0)"
    using queue_is_works[OF tr(1)] trs(2) by simp
  moreover have "list_all2 (calls_justified dd cfg) (ks @ [k]) (trs @ [tr])"
    using trs(1) tr(2) by (simp add: list_all2_appendI calls_justified_def message_of_def k)
  ultimately show ?case by blast
qed

lemma dispatch_all_faces:
  assumes "new_frame_dispatcher dd cfg = Inr st0" "list_all (\<lambda>k. check_message (message_of k)) ks"
  shows "\<exists>tr. queue_is dd cfg tr (dispatch_all dd ks st0) \<and>
    map (\<lambda>x. fp_face_count (fst x)) (faces_of tr) = concat (map (\<lambda>k. face_counts (message_of k)) ks)"
  using assms(2)
proof (induction ks rule: rev_induct)
  case Nil
  show ?case using new_queue[OF assms(1)] by (auto intro: exI[of _ "[]"])
next
  case (snoc k ks)
  then obtain tr where tr: "queue_is dd cfg tr (dispatch_all dd ks st0)"
    "map (\<lambda>x. fp_face_count (fst x)) (faces_of tr) = concat (map (\<lambda>k. face_counts (message_of k)) ks)"
    by auto
  obtain eid clock event where k: "k = (eid, clock, event)" by (metis prod_cases3)
  have c: "configured dd (dispatch_all dd ks st0)" using dispatch_all_keeps[OF assms(1)] by auto
  from counted_trace[OF c, of event eid clock] snoc.prems k obtain tr' where
    tr': "works dd (remember eid event (dispatch_all dd ks st0)) tr' (dispatch_counted dd k (dispatch_all dd ks st0))"
      "map (\<lambda>x. fp_face_count (fst x)) (faces_of tr') = face_counts (message_of k)"
    by (auto simp: message_of_def)
  have "faces_of (tr @ tr') = faces_of tr @ faces_of tr'" by (simp add: faces_of_def)
  with tr tr' queue_is_works[OF tr'(1)] show ?case by (intro exI[of _ "tr @ tr'"]) simp
qed

section \<open>Events and decisions\<close>

text \<open>\<open>K eid ev\<close>: the event \<open>ev\<close> was dispatched under the identifier \<open>eid\<close>.\<close>

definition attached :: "'i frame_dispatcher \<Rightarrow> uuid option list" where
  "attached st = concat (map (\<lambda>pf. map be_synthetic_id (pf_contributing_events pf)) (dsp_flag_decisions st))"

definition event_inv :: "(uuid \<Rightarrow> buffered_event \<Rightarrow> bool) \<Rightarrow> 'i frame_dispatcher \<Rightarrow> bool" where
  "event_inv K st \<longleftrightarrow>
     (\<forall>eid ev. dsp_event_map st eid = Some ev \<longrightarrow> be_synthetic_id ev = Some eid \<and> K eid ev) \<and>
     distinct (attached st) \<and>
     (\<forall>pf\<in>set (dsp_flag_decisions st). \<forall>ev\<in>set (pf_contributing_events pf).
        \<exists>eid. be_synthetic_id ev = Some eid \<and> K eid ev \<and> dsp_event_map st eid = None \<and>
          eid \<in> set (fd_contributing_event_ids (pf_decision pf)))"

lemma take_events_sound:
  assumes "take_events eids mp = (evs, mp')" "\<And>eid ev. mp eid = Some ev \<Longrightarrow> be_synthetic_id ev = Some eid"
  shows "distinct (map be_synthetic_id evs) \<and>
    (\<forall>ev\<in>set evs. \<exists>eid\<in>set eids. mp eid = Some ev \<and> mp' eid = None) \<and>
    (\<forall>eid. mp' eid = mp eid \<or> mp' eid = None)"
  using assms
proof (induction eids arbitrary: mp evs)
  case (Cons eid eids)
  show ?case
  proof (cases "mp eid")
    case None
    with Cons.prems Cons.IH[of mp evs] show ?thesis by auto
  next
    case (Some ev)
    with Cons.prems(1) obtain evs1 where t: "take_events eids (mp(eid := None)) = (evs1, mp')" "evs = ev # evs1"
      by (auto split: prod.splits)
    have "be_synthetic_id e = Some i" if "(mp(eid := None)) i = Some e" for i e
      using that Cons.prems(2) by (auto split: if_splits)
    note ih' = Cons.IH[OF t(1) this]
    note ih = conjunct1[OF ih'] conjunct1[OF conjunct2[OF ih']] conjunct2[OF conjunct2[OF ih']]
    have "mp' eid = None" using ih(3) by (metis fun_upd_same)
    moreover have "be_synthetic_id e \<noteq> be_synthetic_id ev" if "e \<in> set evs1" for e
      using ih(2) that Some Cons.prems(2) by (fastforce split: if_splits)
    moreover have "mp' i = mp i \<or> mp' i = None" for i
      using spec[OF ih(3), of i] \<open>mp' eid = None\<close> by (cases "i = eid") auto
    ultimately show ?thesis using ih(1,2) Some t(2) by (fastforce split: if_splits)
  qed
qed simp

lemma emit_one_inv:
  assumes "event_inv K st"
  shows "event_inv K (emit_one d st)"
proof -
  obtain evs mp where t: "take_events (fd_contributing_event_ids d) (dsp_event_map st) = (evs, mp)" by fastforce
  note snd' = take_events_sound[OF t]
  have m: "\<And>eid ev. dsp_event_map st eid = Some ev \<Longrightarrow> be_synthetic_id ev = Some eid \<and> K eid ev"
    using assms by (auto simp: event_inv_def)
  have d: "distinct (map be_synthetic_id evs)" and
    e: "\<And>ev. ev \<in> set evs \<Longrightarrow> \<exists>eid\<in>set (fd_contributing_event_ids d). dsp_event_map st eid = Some ev \<and> mp eid = None" and
    u: "\<And>eid. mp eid = dsp_event_map st eid \<or> mp eid = None"
    using snd' m by auto
  have a: "attached (emit_one d st) = attached st @ map be_synthetic_id evs"
    by (simp add: attached_def emit_one_def t)
  have "set (attached st) \<inter> set (map be_synthetic_id evs) = {}"
  proof -
    have "\<exists>eid. i = Some eid \<and> dsp_event_map st eid = None" if "i \<in> set (attached st)" for i
      using assms that unfolding attached_def event_inv_def by force
    moreover have "\<exists>eid. i = Some eid \<and> dsp_event_map st eid \<noteq> None" if "i \<in> set (map be_synthetic_id evs)" for i
      using that e m by fastforce
    ultimately show ?thesis by fastforce
  qed
  with d assms have "distinct (attached (emit_one d st))" by (simp add: a event_inv_def)
  moreover have "dsp_event_map (emit_one d st) = mp" "dsp_flag_decisions (emit_one d st) =
      dsp_flag_decisions st @ [\<lparr> pf_decision = d, pf_contributing_events = evs \<rparr>]"
    by (simp_all add: emit_one_def t)
  moreover have "\<exists>eid. be_synthetic_id ev = Some eid \<and> K eid ev \<and> mp eid = None \<and> eid \<in> set (fd_contributing_event_ids d)"
    if "ev \<in> set evs" for ev using e[OF that] m by blast
  moreover have "be_synthetic_id ev = Some eid \<and> K eid ev" if "mp eid = Some ev" for eid ev using u[of eid] m that by auto
  moreover have "dsp_event_map st eid = None \<Longrightarrow> mp eid = None" for eid using u[of eid] by auto
  ultimately show ?thesis using assms unfolding event_inv_def by (simp add: ball_Un) blast
qed

lemma emit_inv: "event_inv K st \<Longrightarrow> event_inv K (emit ds st)"
  by (induction ds arbitrary: st) (simp_all add: emit_one_inv)

lemma event_inv_cong:
  "dsp_event_map st' = dsp_event_map st \<Longrightarrow> dsp_flag_decisions st' = dsp_flag_decisions st \<Longrightarrow> event_inv K st' = event_inv K st"
  by (simp add: event_inv_def attached_def)

lemma works_event_inv: "works dd st tr st' \<Longrightarrow> event_inv K st \<Longrightarrow> event_inv K st'"
proof (induction rule: works.induct)
  case (works_quiet st tr st1 st2)
  then show ?case using event_inv_cong[of st2 st1 K] by (simp add: quiet_def)
next
  case (works_call st tr st1 ev)
  obtain agg r where a: "agg_step (dd_fa dd) ev (dsp_aggregator st1) = (agg, r)" by fastforce
  have "event_inv K (st1\<lparr> dsp_aggregator := agg \<rparr>)"
    using works_call event_inv_cong[of "st1\<lparr> dsp_aggregator := agg \<rparr>" st1 K] by simp
  then show ?case by (cases r) (simp_all add: aggregate_def a emit_inv)
qed

definition dispatched_as :: "keyed_event list \<Rightarrow> uuid \<Rightarrow> buffered_event \<Rightarrow> bool" where
  "dispatched_as ks eid ev \<longleftrightarrow> (\<exists>clock event. (eid, clock, event) \<in> set ks \<and> ev = event\<lparr> be_synthetic_id := Some eid \<rparr>)"

lemma remember_inv:
  assumes "event_inv (dispatched_as ks) st" "eid \<notin> fst ` set ks"
  shows "event_inv (dispatched_as (ks @ [(eid, clock, event)])) (remember eid event st)"
proof -
  have mono: "dispatched_as ks i ev \<Longrightarrow> dispatched_as (ks @ [(eid, clock, event)]) i ev" for i ev
    by (auto simp: dispatched_as_def)
  have fresh: "dispatched_as ks i ev \<Longrightarrow> i \<noteq> eid" for i ev
    using assms(2) by (force simp: dispatched_as_def)
  have new: "dispatched_as (ks @ [(eid, clock, event)]) eid (event\<lparr> be_synthetic_id := Some eid \<rparr>)"
    by (auto simp: dispatched_as_def)
  have "attached (remember eid event st) = attached st" by (simp add: attached_def)
  then show ?thesis
    using assms(1) mono fresh new unfolding event_inv_def
    by (auto simp: remember_def) (metis (no_types, lifting))
qed

lemma dispatch_all_events:
  assumes "new_frame_dispatcher dd cfg = Inr st0" "distinct (map fst ks)"
  shows "event_inv (dispatched_as ks) (dispatch_all dd ks st0)"
  using assms(2)
proof (induction ks rule: rev_induct)
  case Nil
  show ?case using new_queue[OF assms(1)] by (simp add: event_inv_def attached_def)
next
  case (snoc k ks)
  obtain eid clock event where k: "k = (eid, clock, event)" by (metis prod_cases3)
  have c: "configured dd (dispatch_all dd ks st0)" using dispatch_all_keeps[OF assms(1)] by auto
  have "event_inv (dispatched_as (ks @ [k])) (remember eid event (dispatch_all dd ks st0))"
    unfolding k by (rule remember_inv) (use snoc k in auto)
  with counted_does[OF c, of event eid clock] show ?case
    unfolding does_def k by (auto intro: works_event_inv)
qed

section \<open>Rules that never fire\<close>

lemma agg_run_no_rule:
  "list_all (\<lambda>ev. c \<notin> set (event_rules ev)) tr \<Longrightarrow> of_rule c (snd (agg_run fa tr st)) = []"
  by (induction tr rule: rev_induct) (simp_all add: of_rule_other)

lemma blocked_rules:
  assumes "calls_justified dd cfg k tr" "identity_before_liveness cfg"
    "c = RULE_LIVENESS_CHECK_FAILED \<or> c = RULE_IDENTITY_MISMATCH"
  shows "list_all (\<lambda>ev. c \<notin> set (event_rules ev)) tr"
  using assms(1) unfolding calls_justified_def
proof (rule list.pred_mono_strong)
  fix ev assume "call_id ev = fst k \<and> justified dd cfg (message_of k) ev"
  then show "c \<notin> set (event_rules ev)"
    using assms(2,3) by (cases ev) (auto simp: justified_def identity_before_liveness_def rule_codes)
qed

lemma blocked_run:
  "list_all2 (calls_justified dd cfg) ks trs \<Longrightarrow> identity_before_liveness cfg \<Longrightarrow>
   c = RULE_LIVENESS_CHECK_FAILED \<or> c = RULE_IDENTITY_MISMATCH \<Longrightarrow>
   list_all (\<lambda>ev. c \<notin> set (event_rules ev)) (concat trs)"
  by (induction rule: list_all2_induct) (simp_all add: blocked_rules)

section \<open>The face box\<close>

text \<open>What is relied on of float multiplication: exact on 0 and 1, monotone.\<close>

definition mul_monotone :: "float_arith \<Rightarrow> bool" where
  "mul_monotone fa \<longleftrightarrow> (\<forall>m. f_mul fa 0 m = 0 \<and> f_mul fa 1 m = m) \<and>
     (\<forall>a b m. 0 \<le> a \<longrightarrow> a \<le> b \<longrightarrow> 0 \<le> m \<longrightarrow> f_mul fa a m \<le> f_mul fa b m)"

lemma trunc_mono: "a \<le> b \<Longrightarrow> trunc_int a \<le> trunc_int b"
proof (cases "0 \<le> a \<or> b < 0")
  case True
  then show "a \<le> b \<Longrightarrow> trunc_int a \<le> trunc_int b"
    by (auto simp: trunc_int_def intro: floor_mono ceiling_mono)
next
  case False
  then have "trunc_int a \<le> 0" "0 \<le> trunc_int b" by (simp_all add: trunc_int_def ceiling_le_iff)
  then show "a \<le> b \<Longrightarrow> trunc_int a \<le> trunc_int b" by simp
qed

lemma padded_span_sound:
  assumes "mul_monotone fa" "0 < extent" "cs \<noteq> []" "list_all in_unit cs" "padded_span fa extent cs = (lo, hi)"
  shows "0 \<le> lo \<and> lo < hi \<and> hi \<le> extent \<and>
    (\<forall>c\<in>set cs. lo \<le> trunc_int (f_mul fa c (of_int extent)) \<and> trunc_int (f_mul fa c (of_int extent)) \<le> hi)"
proof -
  obtain x xs where xs: "cs = x # xs" using assms(3) by (cases cs) auto
  define l where "l = max 0 (list_min cs)"
  define h where "h = min 1 (list_max cs)"
  define a where "a = trunc_int (f_mul fa l (of_int extent))"
  define b where "b = trunc_int (f_mul fa h (of_int extent))"
  define pad where "pad = max 1 (trunc_int (f_mul fa (of_int (b - a)) (5404319552844595 / 18014398509481984)))"
  have lh: "lo = max 0 (a - pad)" "hi = min extent (b + pad)"
    using assms(5) by (simp_all add: padded_span_def Let_def l_def h_def a_def b_def pad_def)
  have mono: "0 \<le> u \<Longrightarrow> u \<le> v \<Longrightarrow> trunc_int (f_mul fa u (of_int extent)) \<le> trunc_int (f_mul fa v (of_int extent))" for u v
    using assms(1,2) by (intro trunc_mono) (auto simp: mul_monotone_def)
  have unit: "0 \<le> c \<and> c \<le> 1" if "c \<in> set cs" for c
    using assms(4) that by (auto simp: list_all_iff in_unit_def)
  have lo_c: "l \<le> c" and c_hi: "c \<le> h" if "c \<in> set cs" for c
    using that unit[OF that] foldl_min_le[of x xs] foldl_max_ge[of x xs]
    by (auto simp: l_def h_def list_min_def list_max_def xs)
  have x: "x \<in> set cs" by (simp add: xs)
  have l0: "0 \<le> l" by (simp add: l_def)
  have h1: "h \<le> 1" by (simp add: h_def)
  have "trunc_int (f_mul fa 1 (of_int extent)) = extent" "trunc_int (f_mul fa 0 (of_int extent)) = 0"
    using assms(1,2) by (simp_all add: mul_monotone_def trunc_int_def)
  then have ab: "0 \<le> a" "a \<le> b" "b \<le> extent"
    using mono[of 0 l] mono[of l h] mono[of h 1] l0 h1 lo_c[OF x] c_hi[OF x] by (simp_all add: a_def b_def)
  have "1 \<le> pad" by (simp add: pad_def)
  moreover have "a \<le> trunc_int (f_mul fa c (of_int extent)) \<and> trunc_int (f_mul fa c (of_int extent)) \<le> b"
    if "c \<in> set cs" for c
    using mono[OF l0 lo_c[OF that]] mono[of c h] unit[OF that] c_hi[OF that] by (simp add: a_def b_def)
  ultimately show ?thesis using ab assms(2) unfolding lh by fastforce
qed

lemma box_of_landmarks_sound:
  assumes "mul_monotone fa" "0 < h" "0 < w" "ls \<noteq> []" "list_all (\<lambda>(x, y, z). in_unit x \<and> in_unit y) ls"
  shows "\<exists>x1 y1 x2 y2. box_of_landmarks fa h w (map landmark_value ls) = Some [x1, y1, x2, y2] \<and>
    0 \<le> x1 \<and> x1 < x2 \<and> x2 \<le> w \<and> 0 \<le> y1 \<and> y1 < y2 \<and> y2 \<le> h \<and>
    list_all (\<lambda>(x, y, z). x1 \<le> trunc_int (f_mul fa x (of_int w)) \<and> trunc_int (f_mul fa x (of_int w)) \<le> x2 \<and>
                          y1 \<le> trunc_int (f_mul fa y (of_int h)) \<and> trunc_int (f_mul fa y (of_int h)) \<le> y2) ls"
proof -
  have xs: "map (coordinate 0) (map landmark_value ls) = map Some (map fst ls)"
    and ys: "map (coordinate 1) (map landmark_value ls) = map Some (map (fst \<circ> snd) ls)"
    by (auto simp: coordinate_def landmark_value_def split: prod.splits)
  obtain x1 x2 where px: "padded_span fa w (map fst ls) = (x1, x2)" by fastforce
  obtain y1 y2 where py: "padded_span fa h (map (fst \<circ> snd) ls) = (y1, y2)" by fastforce
  have ux: "list_all in_unit (map fst ls)" and uy: "list_all in_unit (map (fst \<circ> snd) ls)"
    using assms(5) by (auto simp: list_all_iff)
  have ne: "map fst ls \<noteq> []" "map (fst \<circ> snd) ls \<noteq> []" using assms(4) by simp_all
  note sx = padded_span_sound[OF assms(1,3) ne(1) ux px] and sy = padded_span_sound[OF assms(1,2) ne(2) uy py]
  have the_some: "map the (map Some zs) = zs" "None \<notin> set (map Some zs)" for zs :: "rat list" by (auto simp: comp_def)
  have "box_of_landmarks fa h w (map landmark_value ls) = Some [x1, y1, x2, y2]"
    unfolding box_of_landmarks_def xs ys Let_def the_some px py prod.case using sx sy by (simp add: image_iff)
  moreover have "list_all (\<lambda>(x, y, z). x1 \<le> trunc_int (f_mul fa x (of_int w)) \<and> trunc_int (f_mul fa x (of_int w)) \<le> x2 \<and>
                          y1 \<le> trunc_int (f_mul fa y (of_int h)) \<and> trunc_int (f_mul fa y (of_int h)) \<le> y2) ls"
    using sx sy by (auto simp: list_all_iff)
  ultimately show ?thesis using sx sy by auto
qed

end
