(* ===== verification/DispatcherResults.thy ===== *)
theory DispatcherResults
  imports DispatcherProps
begin

text \<open>
  The theorems about the dispatcher, with a concrete session: a client without camera frames, whose
  libraries answer nothing.
\<close>

section \<open>A concrete dispatcher\<close>

definition demo_vision :: "unit vision_lib" where
  "demo_vision =
     \<lparr> il_imdecode = (\<lambda>_. Some ()), il_shape = (\<lambda>_. [480, 640, 3]), il_bgr2rgb = id, il_bgra2bgr = id,
       il_crop = (\<lambda>i _ _ _ _. i),
       vl_face_detect = (\<lambda>_ _. Inr []), vl_face_landmarks = (\<lambda>_. Inr []), vl_solve_pnp = (\<lambda>_ _ _. Inr None),
       vl_rodrigues = (\<lambda>_. []), vl_yolo = (\<lambda>_ _. Inr None), vl_yolo_names = (\<lambda>_. None),
       vl_is_speech = (\<lambda>_ _ _. Inr False), vl_face_encodings = (\<lambda>_. Inr []), vl_spoof = (\<lambda>_ _. Inr (True, 1)) \<rparr>"

definition demo_num :: num_lib where
  "demo_num = \<lparr> nl_rms = (\<lambda>_. 0), nl_log10 = id, nl_linspace = (\<lambda>_ _ _. []), nl_interp = (\<lambda>_ _ _. []),
     nl_norm = sum_list, nl_dot = (\<lambda>_ _. 0), nl_mean = (\<lambda>_. 0), nl_sqrt = id, nl_atan2 = (\<lambda>_ _. 0), nl_degrees = id \<rparr>"

definition demo_dispatch :: "unit dispatch_deps" where
  "demo_dispatch =
     \<lparr> dd_lenient = True, dd_fa = exact_arith, dd_nl = demo_num, dd_lib = demo_vision,
       dd_environ = (\<lambda>_. Some ''/models''), dd_isfile = (\<lambda>_. True), dd_load_landmarker = (\<lambda>_. Inr ()),
       dd_load_yolo = (\<lambda>_. Inr ()), dd_import_vad = Inr (), dd_face_recognition = NotInstalled, dd_uniface = Inr () \<rparr>"

definition demo_config :: frame_dispatcher_config where
  "demo_config =
     \<lparr> fc_policy_snapshot = default_policy_snapshot, fc_context = demo_ctx, fc_head_pose_period = 1,
       fc_object_detection_period = 1, fc_identity_match_period = 5, fc_liveness_period = 5,
       fc_enrollment_embedding = None, fc_identity_backend_unavailable = False \<rparr>"

definition demo_dispatcher :: "unit frame_dispatcher" where
  "demo_dispatcher =
     \<lparr> dsp_config = demo_config, dsp_aggregator = new_session_aggregator default_policy_snapshot demo_ctx,
       dsp_scheduler = default_modality_scheduler, dsp_heavy_frame_seq = 0, dsp_identity_backend = AlwaysZeroBackend,
       dsp_face_landmarker = None, dsp_object_detector = None, dsp_audio_vad = None, dsp_liveness_runner = None,
       dsp_event_map = (\<lambda>_. None), dsp_flag_decisions = [], dsp_stop = False, dsp_thread = False,
       dsp_processed = 0, dsp_errors = 0 \<rparr>"

lemma demo_dispatcher_built: "new_frame_dispatcher demo_dispatch demo_config = Inr demo_dispatcher"
  by (simp add: new_frame_dispatcher_def demo_dispatch_def demo_config_def demo_dispatcher_def
      new_modality_scheduler_def default_modality_scheduler_def choose_identity_backend_def
      choose_liveness_runner_def default_policy_snapshot_def)

definition demo_light_event :: "int \<Rightarrow> int \<Rightarrow> buffered_event" where
  "demo_light_event seq faces =
     \<lparr> be_message = TelemetryLight \<lparr> ce_session_id = ''s'', ce_captured_at = 5 \<rparr>
         \<lparr> tlp_face_count = faces, tlp_confidence = 1 / 2, tlp_bbox = None \<rparr>,
       be_received_at = 6, be_seq = seq, be_synthetic_id = None \<rparr>"

definition demo_keyed :: keyed_event where
  "demo_keyed = (70, (\<lambda>_. 0), demo_light_event 0 2)"

section \<open>Decisions\<close>

text \<open>C5: Whatever events arrive, the dispatcher's aggregator and the decisions it has queued are those of
  the fusion engine on a sequence of calls, one group per event and in the order of the events.
  Every call carries the identifier of its event and is justified by its message: face readings
  come from light telemetry with that count, gaze, object, identity and liveness readings from heavy
  frames (denylisted objects only, the gaze instant being the frame's), browser and audio readings
  from those messages.  No input of a call is outside the range the engine expects.\<close>

theorem dispatcher_refines_aggregator:
  assumes "new_frame_dispatcher dd cfg = Inr st0"
  shows "\<exists>trs. list_all2 (calls_justified dd cfg) ks trs \<and>
    (dsp_aggregator (dispatch_all dd ks st0), map pf_decision (dsp_flag_decisions (dispatch_all dd ks st0))) =
      agg_run (dd_fa dd) (concat trs) (new_session_aggregator (fc_policy_snapshot cfg) (fc_context cfg))"
  using dispatch_all_trace[OF assms, of ks] by (simp add: queue_is_def)

theorem dispatcher_refines_aggregator_witness:
  "\<exists>trs. list_all2 (calls_justified demo_dispatch demo_config) [demo_keyed, demo_keyed] trs \<and>
    (dsp_aggregator (dispatch_all demo_dispatch [demo_keyed, demo_keyed] demo_dispatcher),
     map pf_decision (dsp_flag_decisions (dispatch_all demo_dispatch [demo_keyed, demo_keyed] demo_dispatcher))) =
      agg_run (dd_fa demo_dispatch) (concat trs)
        (new_session_aggregator (fc_policy_snapshot demo_config) (fc_context demo_config))"
  by (rule dispatcher_refines_aggregator[OF demo_dispatcher_built])

section \<open>A second person\<close>

lemma has_run_map: "has_run n P (map f xs) \<longleftrightarrow> has_run n (P \<circ> f) xs"
  by (simp add: has_run_def) (metis (no_types, lifting) add_less_mono1 comp_apply less_le_trans nat_add_left_cancel_less nth_map)

definition light_counts :: "client_message list \<Rightarrow> int list" where
  "light_counts msgs = concat (map face_counts msgs)"

text \<open>C6: Once the light telemetry of a session contains the configured number of consecutive messages
  with two or more faces, the next iteration of the loop leaves exactly one terminating
  second-person flag in the queue, whatever other messages came before, between and after and
  however the libraries behaved; and until then there is none.  The iteration empties the buffer.\<close>

theorem second_person_reaches_queue:
  assumes "new_frame_dispatcher dd cfg = Inr st0"
    and "ps_terminate_on_second_face (fc_policy_snapshot cfg)"
    and "0 < n" "ps_second_face_confirmation_frames (fc_policy_snapshot cfg) = int n"
    and "list_all check_message (map message_of ks @ map be_message (tb_buf b))"
    and "(b', st') = loop_iteration dd keys clocks None (b, dispatch_all dd ks st0)"
  shows "tb_buf b' = [] \<and>
    (if has_run n (\<lambda>c. 2 \<le> c) (light_counts (map message_of ks @ map be_message (tb_buf b)))
     then \<exists>d. of_rule RULE_SECOND_PERSON (map pf_decision (dsp_flag_decisions st')) = [d] \<and>
            fd_triggered_termination d \<and> fd_severity d = ''critical''
     else of_rule RULE_SECOND_PERSON (map pf_decision (dsp_flag_decisions st')) = [])"
proof -
  define ks' where "ks' = map (\<lambda>(i, ev). (keys i, clocks i, ev)) (enumerate 0 (tb_buf b))"
  have st': "st' = dispatch_all dd (ks @ ks') st0" and b': "tb_buf b' = []"
    using assms(6) dispatch_all_keeps[OF assms(1), of ks]
      dispatch_all_keeps[OF assms(1), of "ks @ ks'"]
    by (simp_all add: loop_iteration_def tb_drain_def Let_def ks'_def dispatch_all_def)
  have "map message_of ks' = map be_message (map snd (enumerate 0 (tb_buf b)))"
    by (simp add: ks'_def message_of_def comp_def case_prod_unfold del: map_snd_enumerate)
  then have msgs: "map message_of (ks @ ks') = map message_of ks @ map be_message (tb_buf b)" by simp
  then have "list_all (\<lambda>k. check_message (message_of k)) (ks @ ks')"
    using assms(5) unfolding msgs[symmetric] by (auto simp: list_all_iff)
  from dispatch_all_faces[OF assms(1) this] obtain tr where
    tr: "queue_is dd cfg tr (dispatch_all dd (ks @ ks') st0)"
      "map (\<lambda>x. fp_face_count (fst x)) (faces_of tr) = concat (map (\<lambda>k. face_counts (message_of k)) (ks @ ks'))"
    by blast
  have "concat (map (\<lambda>k. face_counts (message_of k)) (ks @ ks')) = light_counts (map message_of (ks @ ks'))"
    by (simp add: light_counts_def comp_def)
  with tr(2) have "has_run n (\<lambda>c. 2 \<le> c) (light_counts (map message_of ks @ map be_message (tb_buf b)))
      = has_run n two_faces (faces_of tr)"
    unfolding msgs[symmetric] using has_run_map[of n "\<lambda>c. 2 \<le> c" "\<lambda>x. fp_face_count (fst x)" "faces_of tr"]
    by (simp add: two_faces_def[abs_def] comp_def)
  moreover have "map pf_decision (dsp_flag_decisions st') =
      snd (agg_run (dd_fa dd) tr (new_session_aggregator (fc_policy_snapshot cfg) (fc_context cfg)))"
    using tr(1) unfolding st' queue_is_def by (metis snd_conv)
  ultimately show ?thesis
    using second_person_run[OF assms(2-4), of tr "dd_fa dd" "fc_context cfg"] b'
    by (auto simp: second_person_inv_def SEV_CRITICAL_def)
qed

definition demo_crowded :: telemetry_event_buffer where
  "demo_crowded = \<lparr> tb_maxlen = 8, tb_buf = [demo_light_event 0 2, demo_light_event 1 3], tb_seq = 2, tb_dropped = 0 \<rparr>"

theorem second_person_reaches_queue_witness:
  "\<exists>d. of_rule RULE_SECOND_PERSON (map pf_decision (dsp_flag_decisions (snd (loop_iteration demo_dispatch
      (\<lambda>i. 71 + of_nat i) (\<lambda>_ _. 0) None (demo_crowded, dispatch_all demo_dispatch [demo_keyed] demo_dispatcher))))) = [d]
    \<and> fd_triggered_termination d"
proof -
  let ?r = "loop_iteration demo_dispatch (\<lambda>i. 71 + of_nat i) (\<lambda>_ _. 0) None
      (demo_crowded, dispatch_all demo_dispatch [demo_keyed] demo_dispatcher)"
  have c: "list_all check_message (map message_of [demo_keyed] @ map be_message (tb_buf demo_crowded))"
    by (simp add: demo_keyed_def demo_crowded_def message_of_def demo_light_event_def check_envelope_def
        check_telemetry_light_def bbox_values_normalised_def)
  have r: "has_run 3 (\<lambda>c. 2 \<le> c) (light_counts (map message_of [demo_keyed] @ map be_message (tb_buf demo_crowded)))"
    by (simp add: demo_keyed_def demo_crowded_def message_of_def demo_light_event_def light_counts_def face_counts_def)
       (rule has_runI[of 0]; simp add: less_Suc_eq numeral_eq_Suc; elim disjE; simp)
  have "(fst ?r, snd ?r) = ?r" by simp
  from second_person_reaches_queue[OF demo_dispatcher_built _ _ _ c this, of 3] r
  show ?thesis by (auto simp: demo_config_def default_policy_snapshot_def)
qed

section \<open>Events and decisions\<close>

text \<open>C15: If the minted identifiers are distinct, no telemetry event is attached to two decisions (or twice
  to one), and an event attached to a decision is one that was dispatched, under the identifier
  that the decision names.\<close>

theorem no_event_attached_twice:
  assumes "new_frame_dispatcher dd cfg = Inr st0" "distinct (map fst ks)"
  shows "distinct (concat (map (\<lambda>pf. map be_synthetic_id (pf_contributing_events pf))
           (dsp_flag_decisions (dispatch_all dd ks st0)))) \<and>
    list_all (\<lambda>pf. list_all (\<lambda>ev. list_ex (\<lambda>(eid, clock, event).
        ev = event\<lparr> be_synthetic_id := Some eid \<rparr> \<and> eid \<in> set (fd_contributing_event_ids (pf_decision pf))) ks)
      (pf_contributing_events pf)) (dsp_flag_decisions (dispatch_all dd ks st0))"
proof -
  note inv = dispatch_all_events[OF assms, unfolded event_inv_def]
  have "list_ex (\<lambda>(eid, clock, event). ev = event\<lparr> be_synthetic_id := Some eid \<rparr> \<and>
      eid \<in> set (fd_contributing_event_ids (pf_decision pf))) ks"
    if "pf \<in> set (dsp_flag_decisions (dispatch_all dd ks st0))" "ev \<in> set (pf_contributing_events pf)" for pf ev
    using inv that by (fastforce simp: dispatched_as_def list_ex_iff)
  then show ?thesis using inv by (simp add: attached_def list_all_iff)
qed

theorem no_event_attached_twice_witness:
  "distinct (concat (map (\<lambda>pf. map be_synthetic_id (pf_contributing_events pf))
     (dsp_flag_decisions (dispatch_all demo_dispatch [demo_keyed, (71, \<lambda>_. 0, demo_light_event 1 2)] demo_dispatcher))))"
  using no_event_attached_twice[OF demo_dispatcher_built, of "[demo_keyed, (71, \<lambda>_. 0, demo_light_event 1 2)]"]
  by (simp add: demo_keyed_def)

section \<open>The configuration in use\<close>

text \<open>C27: Without an enrolment embedding, and with the identity check due whenever the liveness check is
  (both every fifth frame by default), neither check ever produces a decision, even when the
  policy enables liveness: the handler returns at the identity branch.\<close>

theorem liveness_is_unreachable:
  assumes "new_frame_dispatcher dd cfg = Inr st0" "fc_enrollment_embedding cfg = None"
    "fc_identity_match_period cfg dvd fc_liveness_period cfg"
  shows "of_rule RULE_LIVENESS_CHECK_FAILED (map pf_decision (dsp_flag_decisions (dispatch_all dd ks st0))) = [] \<and>
    of_rule RULE_IDENTITY_MISMATCH (map pf_decision (dsp_flag_decisions (dispatch_all dd ks st0))) = []"
proof -
  from dispatch_all_trace[OF assms(1), of ks] obtain trs where
    trs: "list_all2 (calls_justified dd cfg) ks trs" "queue_is dd cfg (concat trs) (dispatch_all dd ks st0)" by blast
  have "identity_before_liveness cfg" using assms(2,3) by (simp add: identity_before_liveness_def)
  from blocked_run[OF trs(1) this] have "of_rule c (snd (agg_run (dd_fa dd) (concat trs) (new_session_aggregator (fc_policy_snapshot cfg) (fc_context cfg)))) = []"
    if "c = RULE_LIVENESS_CHECK_FAILED \<or> c = RULE_IDENTITY_MISMATCH" for c
    using that by (intro agg_run_no_rule)
  then show ?thesis using trs(2) unfolding queue_is_def by (metis snd_conv)
qed

theorem liveness_is_unreachable_witness:
  "of_rule RULE_LIVENESS_CHECK_FAILED (map pf_decision (dsp_flag_decisions (dispatch_all demo_dispatch [demo_keyed] demo_dispatcher))) = []"
  using liveness_is_unreachable[OF demo_dispatcher_built, of "[demo_keyed]"] by (simp add: demo_config_def)

section \<open>The face box\<close>

text \<open>C36: The box cut out for a face with landmarks in the unit square is not empty, lies within the
  frame and contains the pixel of every landmark, under float multiplication that is exact on 0
  and 1 and monotone.\<close>

theorem face_box_in_frame:
  assumes "mul_monotone fa" "il_shape lib (df_array frame) = [h, w, c]" "0 < h" "0 < w"
    and "dict_get (ir_raw_value r) ''landmarks'' JNull = JList (map landmark_value ls)" "ls \<noteq> []"
    and "list_all (\<lambda>(x, y, z). in_unit x \<and> in_unit y) ls"
  shows "\<exists>x1 y1 x2 y2. extract_face_bbox fa lib frame (Some r) = Some [x1, y1, x2, y2] \<and>
    0 \<le> x1 \<and> x1 < x2 \<and> x2 \<le> int w \<and> 0 \<le> y1 \<and> y1 < y2 \<and> y2 \<le> int h \<and>
    list_all (\<lambda>(x, y, z). x1 \<le> trunc_int (f_mul fa x (of_nat w)) \<and> trunc_int (f_mul fa x (of_nat w)) \<le> x2 \<and>
                          y1 \<le> trunc_int (f_mul fa y (of_nat h)) \<and> trunc_int (f_mul fa y (of_nat h)) \<le> y2) ls"
  using box_of_landmarks_sound[OF assms(1) _ _ assms(6,7), of "int h" "int w"] assms(2-6)
  by (simp add: extract_face_bbox_def)

lemma exact_mul_monotone: "mul_monotone exact_arith"
  by (simp add: mul_monotone_def exact_arith_def mult_right_mono)

theorem face_box_in_frame_witness:
  "\<exists>x1 y1 x2 y2. extract_face_bbox exact_arith demo_vision
      \<lparr> df_array = (), df_width = 640, df_height = 480, df_channels = 3, df_encoding = ''jpeg'' \<rparr>
      (Some (no_landmarks_result\<lparr> ir_raw_value := [(''landmarks'', JList [landmark_value (1/2, 1, 0)])] \<rparr>)) =
        Some [x1, y1, x2, y2] \<and> x1 < x2 \<and> y1 < y2"
  using face_box_in_frame[OF exact_mul_monotone, of demo_vision
      "\<lparr> df_array = (), df_width = 640, df_height = 480, df_channels = 3, df_encoding = ''jpeg'' \<rparr>" 480 640 3
      "no_landmarks_result\<lparr> ir_raw_value := [(''landmarks'', JList [landmark_value (1/2, 1, 0)])] \<rparr>" "[(1/2, 1, 0)]"]
  by (auto simp: demo_vision_def in_unit_def dict_get_def)

end
