(* ===== verification/WsProps.thy ===== *)
theory WsProps
  imports WsRoutes SystemProps DispatcherResults
begin

text \<open>
  The telemetry endpoint: what a handshake can end in and what it leaves in the database, what the
  message loop puts on the wire and into the buffer, and what an identity override does to a
  connection.
\<close>

section \<open>Sessions in the database\<close>

text \<open>\<open>d'\<close> is \<open>d\<close> with the row of one session replaced.\<close>

definition session_row_set :: "exam_session \<Rightarrow> database \<Rightarrow> database \<Rightarrow> bool" where
  "session_row_set es' d d' \<longleftrightarrow>
     get_row es_id (es_id es') (db_exam_sessions d') = Some es' \<and>
     (\<forall>k. k \<noteq> es_id es' \<longrightarrow> get_row es_id k (db_exam_sessions d') = get_row es_id k (db_exam_sessions d)) \<and>
     d'\<lparr> db_exam_sessions := db_exam_sessions d \<rparr> = d"

lemma session_row_set_update:
  assumes "get_row es_id (es_id es) (db_exam_sessions d) = Some es" "\<And>s. es_id (f s) = es_id s"
  shows "session_row_set (f es) d (d\<lparr> db_exam_sessions := update_row es_id (es_id es) f (db_exam_sessions d) \<rparr>)"
  using assms by (simp add: session_row_set_def get_row_update)

lemma lookup_session_Some:
  assumes "lookup_session d s = Some es" "db_ok d"
  shows "uuid_of_string s = Inr (es_id es)" "get_row es_id (es_id es) (db_exam_sessions d) = Some es"
    "es_status es = SS_PENDING \<or> es_status es = SS_ACTIVE"
proof -
  have "es \<in> set (db_exam_sessions d) \<and> uuid_of_string s = Inr (es_id es) \<and> (es_status es = SS_PENDING \<or> es_status es = SS_ACTIVE)"
    using assms(1) by (auto simp: lookup_session_def CONNECTABLE_STATUSES_def find_Some_iff split: sum.splits)
  moreover have "distinct (map es_id (db_exam_sessions d))"
    using assms(2) by (simp add: db_ok_def keys_ok_def)
  ultimately show "uuid_of_string s = Inr (es_id es)" "get_row es_id (es_id es) (db_exam_sessions d) = Some es"
    "es_status es = SS_PENDING \<or> es_status es = SS_ACTIVE" by (simp_all add: get_row_unique)
qed

lemma change_session_sel [simp]:
  "working (change_session f k db) = (working db)\<lparr> db_exam_sessions := update_row es_id k f (db_exam_sessions (working db)) \<rparr>"
  "committed (change_session f k db) = committed db"
  by (simp_all add: change_session_def)

lemma session_setters [simp]:
  "es_id (set_active s) = es_id s" "es_id (set_unverifiable s) = es_id s" "es_id (set_blocked s) = es_id s"
  by (simp_all add: set_active_def set_unverifiable_def set_blocked_def)

lemma set_session_ok:
  assumes "db_ok (working db)" "f \<in> {set_active, set_unverifiable, set_blocked}"
  shows "db_ok (working (change_session f k db))"
  using db_ok_update_session[OF assms(1), of f k] assms(2)
  by (auto simp: set_active_def set_unverifiable_def set_blocked_def exam_session_checks_def)

section \<open>The handshake\<close>

text \<open>The bearer of the header is a learner with a session that can be connected to.\<close>

definition learner_of ::
  "'k ws_router_deps \<Rightarrow> ws_env \<Rightarrow> string option \<Rightarrow> database \<Rightarrow> session_claims \<Rightarrow> exam_session \<Rightarrow> bool" where
  "learner_of deps env header d claims es \<longleftrightarrow>
     (\<exists>token. extract_token_from_subprotocol header = Some token \<and>
        decode_session_token (wd_jwt deps) (wd_str_of deps) (wd_settings deps) (we_now_seconds env) token = Inr claims) \<and>
     sc_role claims = APP_LEARNER \<and> uuid_of_string (sc_session_id claims) = Inr (es_id es) \<and>
     get_row es_id (es_id es) (db_exam_sessions d) = Some es \<and>
     (es_status es = SS_PENDING \<or> es_status es = SS_ACTIVE) \<and> es_consent_recorded_at es \<noteq> None"

text \<open>What the three outcomes mean for the database \<open>d\<close> the handshake started from.\<close>

definition admission :: "ws_env \<Rightarrow> import_outcome \<Rightarrow> database \<Rightarrow> database \<Rightarrow> exam_session \<Rightarrow> bool \<Rightarrow> bool" where
  "admission env backend d d' es unavailable \<longleftrightarrow>
     (if unavailable then backend = NotInstalled \<and> length (valid_overrides (we_now env) (es_id es) d) = 1
      else backend = Imported) \<and>
     (if es_status es = SS_PENDING
      then session_row_set (if unavailable then set_active (set_unverifiable es) else set_active es) d d'
      else d' = d)"

text \<open>Who may enter, by the identity backend.\<close>

definition entitled :: "ws_env \<Rightarrow> import_outcome \<Rightarrow> database \<Rightarrow> exam_session \<Rightarrow> bool \<Rightarrow> bool" where
  "entitled env backend d es unavailable \<longleftrightarrow>
     (if unavailable then backend = NotInstalled \<and> length (valid_overrides (we_now env) (es_id es) d) = 1
      else backend = Imported)"

lemma admission_entitled: "admission env backend d d' es u \<Longrightarrow> entitled env backend d es u"
  by (simp add: admission_def entitled_def)

text \<open>The token of the header was decoded with this result; the session of the claims can be connected to;
  its termination cannot be recorded.\<close>

definition bears ::
  "'k ws_router_deps \<Rightarrow> ws_env \<Rightarrow> string option \<Rightarrow> session_token_error + session_claims \<Rightarrow> bool" where
  "bears deps env header res \<longleftrightarrow>
     (\<exists>token. extract_token_from_subprotocol header = Some token \<and>
        decode_session_token (wd_jwt deps) (wd_str_of deps) (wd_settings deps) (we_now_seconds env) token = res)"

definition connectable :: "database \<Rightarrow> session_claims \<Rightarrow> exam_session \<Rightarrow> bool" where
  "connectable d claims es \<longleftrightarrow>
     uuid_of_string (sc_session_id claims) = Inr (es_id es) \<and> get_row es_id (es_id es) (db_exam_sessions d) = Some es \<and>
     (es_status es = SS_PENDING \<or> es_status es = SS_ACTIVE)"

definition unrecordable :: "ws_env \<Rightarrow> database \<Rightarrow> exam_session \<Rightarrow> bool" where
  "unrecordable env d es \<longleftrightarrow>
     has_key tr_exam_session_id (db_termination_records d) (es_id es) \<or> has_key tr_id (db_termination_records d) (we_termination_id env)"

text \<open>The causes of a rejection, the close frame of each, and when each holds.\<close>

datatype cause = NoToken | BadToken | ExpiredToken | OtherRole | NoSession | NoConsent | NoBackend

fun cause_frame :: "cause \<Rightarrow> ws_out" where
  "cause_frame NoToken = CloseFrame 4001 ''Missing or malformed Sec-WebSocket-Protocol token.''"
| "cause_frame BadToken = CloseFrame 4001 ''Invalid token.''"
| "cause_frame ExpiredToken = CloseFrame 4002 ''Token expired.''"
| "cause_frame OtherRole = CloseFrame 4005 ''Only learner-role tokens may open a telemetry connection.''"
| "cause_frame NoSession = CloseFrame 4003 ''Session not found or in terminal state.''"
| "cause_frame NoConsent = CloseFrame 4009 ''Consent has not been recorded for this session.''"
| "cause_frame NoBackend = CloseFrame 4008 ''Identity backend unavailable and no valid override exists.''"

lemma cause_frame_inj: "cause_frame a = cause_frame b \<longleftrightarrow> a = b"
  by (cases a; cases b) simp_all

fun turned_away ::
  "'k ws_router_deps \<Rightarrow> ws_env \<Rightarrow> import_outcome \<Rightarrow> string option \<Rightarrow> database \<Rightarrow> cause \<Rightarrow> bool" where
  "turned_away deps env backend header d NoToken \<longleftrightarrow> extract_token_from_subprotocol header = None"
| "turned_away deps env backend header d BadToken \<longleftrightarrow> (\<exists>m. bears deps env header (Inl (SessionTokenInvalid m)))"
| "turned_away deps env backend header d ExpiredToken \<longleftrightarrow> (\<exists>m. bears deps env header (Inl (SessionTokenExpired m)))"
| "turned_away deps env backend header d OtherRole \<longleftrightarrow>
     (\<exists>claims. bears deps env header (Inr claims) \<and> sc_role claims \<noteq> APP_LEARNER)"
| "turned_away deps env backend header d NoSession \<longleftrightarrow>
     (\<exists>claims. bears deps env header (Inr claims) \<and> sc_role claims = APP_LEARNER \<and> (\<forall>es. \<not> connectable d claims es))"
| "turned_away deps env backend header d NoConsent \<longleftrightarrow>
     (\<exists>claims es. bears deps env header (Inr claims) \<and> sc_role claims = APP_LEARNER \<and> connectable d claims es \<and>
        es_consent_recorded_at es = None)"
| "turned_away deps env backend header d NoBackend \<longleftrightarrow>
     (\<exists>claims es. learner_of deps env header d claims es \<and> backend = NotInstalled \<and>
        valid_overrides (we_now env) (es_id es) d = [] \<and> \<not> unrecordable env d es)"

text \<open>A rejection changes nothing, except that a missing backend without an override ends the session.\<close>

definition rejection ::
  "'k ws_router_deps \<Rightarrow> ws_env \<Rightarrow> import_outcome \<Rightarrow> string option \<Rightarrow> database \<Rightarrow> database \<Rightarrow> cause \<Rightarrow> bool" where
  "rejection deps env backend header d d' c \<longleftrightarrow>
     turned_away deps env backend header d c \<and>
     (if c = NoBackend
      then \<exists>claims es. learner_of deps env header d claims es \<and>
        session_row_set (set_blocked es) d (d'\<lparr> db_termination_records := db_termination_records d \<rparr>) \<and>
        db_termination_records d' = db_termination_records d
          @ [blocked_record (we_termination_id env) (we_now env) (es_id es)]
      else d' = d)"

text \<open>The handshake fails with an exception for one of these reasons only.\<close>

definition handshake_fault :: "'k ws_router_deps \<Rightarrow> ws_env \<Rightarrow> import_outcome \<Rightarrow> string option \<Rightarrow> database \<Rightarrow> bool" where
  "handshake_fault deps env backend header d \<longleftrightarrow>
     bears deps env header (Inl SessionTokenOverflow) \<or> (\<exists>e. bears deps env header (Inl (SessionTokenRaised e))) \<or>
     (\<exists>claims es. learner_of deps env header d claims es \<and>
        ((\<exists>e. backend = ImportRaised e) \<or>
         backend = NotInstalled \<and> (1 < length (valid_overrides (we_now env) (es_id es) d) \<or>
           valid_overrides (we_now env) (es_id es) d = [] \<and> unrecordable env d es)))"

lemma activate_session_outcome:
  assumes "db_ok (working db)"
  shows "activate_session es db =
    Inr (if es_status es = SS_PENDING
         then \<lparr> committed = working (change_session set_active (es_id es) db), working = working (change_session set_active (es_id es) db) \<rparr>
         else db)"
  using set_session_ok[OF assms, of set_active "es_id es"] by (simp add: activate_session_def commit_def)

lemma block_session_outcome:
  assumes "db_ok d" "get_row es_id (es_id es) (db_exam_sessions d) = Some es"
  shows "if unrecordable env d es
    then block_session env (es_id es) (open_session d) = Inl IntegrityError
    else \<exists>db. block_session env (es_id es) (open_session d) = Inr db \<and>
       session_row_set (set_blocked es) d ((committed db)\<lparr> db_termination_records := db_termination_records d \<rparr>) \<and>
       db_termination_records (committed db) = db_termination_records d
          @ [blocked_record (we_termination_id env) (we_now env) (es_id es)]"
proof -
  let ?r = "blocked_record (we_termination_id env) (we_now env) (es_id es)"
  let ?d1 = "d\<lparr> db_exam_sessions := update_row es_id (es_id es) set_blocked (db_exam_sessions d) \<rparr>"
  have ok: "db_ok ?d1" using set_session_ok[of "open_session d" set_blocked "es_id es"] assms(1) by (simp add: open_session_def)
  have "has_key es_id (db_exam_sessions ?d1) (es_id es)"
    using assms(2) by (simp flip: get_row_has_key add: get_row_update)
  then have "db_ok (?d1\<lparr> db_termination_records := db_termination_records ?d1 @ [?r] \<rparr>) \<longleftrightarrow>
      \<not> (has_key tr_exam_session_id (db_termination_records d) (es_id es) \<or> has_key tr_id (db_termination_records d) (we_termination_id env))"
    unfolding db_ok_add_termination[OF ok]
    by (auto simp: termination_insertable_def blocked_record_def termination_record_checks_def after_opt_def)
  moreover have "session_row_set (set_blocked es) d ?d1"
    by (rule session_row_set_update[OF assms(2)]) simp
  ultimately show ?thesis by (simp add: block_session_def commit_def Let_def open_session_def unrecordable_def)
qed

lemma identity_gate_outcome:
  assumes "db_ok d" "learner_of deps env header d claims es"
  shows "case identity_gate env backend claims es (open_session d) of (db', outs, h) \<Rightarrow>
    (case h of
       Admitted claims' es' u \<Rightarrow> outs = [] \<and> claims' = claims \<and> es' = es \<and> admission env backend d (committed db') es u
     | Rejected \<Rightarrow> \<exists>c. outs = [cause_frame c] \<and> rejection deps env backend header d (committed db') c
     | HandshakeRaised \<Rightarrow> outs = [] \<and> committed db' = d \<and> handshake_fault deps env backend header d)"
proof -
  have row: "get_row es_id (es_id es) (db_exam_sessions d) = Some es" using assms(2) by (simp add: learner_of_def)
  have ok: "db_ok (working (open_session d))" using assms(1) by (simp add: open_session_def)
  have oku: "db_ok (working (change_session set_unverifiable (es_id es) (open_session d)))"
    by (rule set_session_ok[OF ok]) simp
  note upd = session_row_set_update[OF row, of set_active]
  have upd2: "session_row_set (set_active (set_unverifiable es)) d
     (d\<lparr> db_exam_sessions := update_row es_id (es_id es) set_active (update_row es_id (es_id es) set_unverifiable (db_exam_sessions d)) \<rparr>)"
    by (simp add: session_row_set_def get_row_update row)
  consider (imported) "backend = Imported" | (raised) e where "backend = ImportRaised e"
    | (many) "backend = NotInstalled" "1 < length (valid_overrides (we_now env) (es_id es) d)"
    | (one) "backend = NotInstalled" "length (valid_overrides (we_now env) (es_id es) d) = 1"
    | (none) "backend = NotInstalled" "valid_overrides (we_now env) (es_id es) d = []"
    by (cases backend; cases "valid_overrides (we_now env) (es_id es) d"; cases "tl (valid_overrides (we_now env) (es_id es) d)") auto
  then show ?thesis
  proof cases
    case imported
    then show ?thesis using upd activate_session_outcome[OF ok]
      by (simp add: identity_gate_def admission_def open_session_def)
  next
    case raised
    then show ?thesis using assms(2) by (auto simp: identity_gate_def handshake_fault_def open_session_def)
  next
    case many
    then show ?thesis using assms(2) by (auto simp: identity_gate_def handshake_fault_def open_session_def)
  next
    case one
    then have "valid_overrides (we_now env) (es_id es) d \<noteq> []" by auto
    with one show ?thesis using upd2 activate_session_outcome[OF oku]
      by (simp add: identity_gate_def admission_def open_session_def Let_def)
  next
    case none
    show ?thesis
    proof (cases "block_session env (es_id es) (open_session d)")
      case (Inl e)
      with block_session_outcome[OF assms(1) row, of env] none assms(2)
      have "handshake_fault deps env backend header d" by (auto simp: handshake_fault_def split: if_splits)
      with Inl none show ?thesis by (simp add: identity_gate_def open_session_def Let_def)
    next
      case (Inr db)
      with block_session_outcome[OF assms(1) row, of env] none assms(2)
      have "rejection deps env backend header d (committed db) NoBackend"
        by (auto simp: rejection_def split: if_splits)
      with Inr none show ?thesis
        by (auto simp: identity_gate_def open_session_def Let_def reject_def close_codes intro!: exI[of _ NoBackend])
    qed
  qed
qed

lemma lookup_session_connectable:
  assumes "db_ok d"
  shows "lookup_session d (sc_session_id claims) = Some es \<longleftrightarrow> connectable d claims es"
proof
  assume "lookup_session d (sc_session_id claims) = Some es"
  from lookup_session_Some[OF this assms] show "connectable d claims es" by (simp add: connectable_def)
next
  assume c: "connectable d claims es"
  then have "es \<in> set (db_exam_sessions d)" using get_row_Some by (fastforce simp: connectable_def)
  with c have "lookup_session d (sc_session_id claims) \<noteq> None"
    by (auto simp: lookup_session_def connectable_def CONNECTABLE_STATUSES_def find_None_iff)
  then obtain es' where l: "lookup_session d (sc_session_id claims) = Some es'" by blast
  from lookup_session_Some[OF l assms] c l show "lookup_session d (sc_session_id claims) = Some es"
    by (simp add: connectable_def)
qed

lemma authenticated_outcome:
  assumes "db_ok d"
    "extract_token_from_subprotocol header = Some token"
    "decode_session_token (wd_jwt deps) (wd_str_of deps) (wd_settings deps) (we_now_seconds env) token = Inr claims"
  shows "case authenticated env backend claims (open_session d) of (db', outs, h) \<Rightarrow>
    (case h of
       Admitted claims' es' u \<Rightarrow> outs = [] \<and> learner_of deps env header d claims' es' \<and> admission env backend d (committed db') es' u
     | Rejected \<Rightarrow> \<exists>c. outs = [cause_frame c] \<and> rejection deps env backend header d (committed db') c
     | HandshakeRaised \<Rightarrow> outs = [] \<and> committed db' = d \<and> handshake_fault deps env backend header d)"
proof -
  have b: "bears deps env header (Inr claims)" using assms(2,3) by (auto simp: bears_def)
  note unfolds = authenticated_def reject_def rejection_def close_codes open_session_def
  consider (role) "sc_role claims \<noteq> APP_LEARNER"
    | (session) "sc_role claims = APP_LEARNER" "lookup_session d (sc_session_id claims) = None"
    | (consent) es where "sc_role claims = APP_LEARNER" "lookup_session d (sc_session_id claims) = Some es" "es_consent_recorded_at es = None"
    | (learner) es where "sc_role claims = APP_LEARNER" "lookup_session d (sc_session_id claims) = Some es" "es_consent_recorded_at es \<noteq> None"
    by (cases "lookup_session d (sc_session_id claims)") auto
  then show ?thesis
  proof cases
    case role
    with b have "turned_away deps env backend header d OtherRole"
      by auto
    with role show ?thesis by (auto simp: unfolds simp del: turned_away.simps intro!: exI[of _ OtherRole])
  next
    case session
    then have "\<forall>es. \<not> connectable d claims es" by (simp flip: lookup_session_connectable[OF assms(1)])
    with b session(1) have "turned_away deps env backend header d NoSession"
      by auto
    with session show ?thesis by (auto simp: unfolds simp del: turned_away.simps intro!: exI[of _ NoSession])
  next
    case consent
    then have "connectable d claims es" using lookup_session_connectable[OF assms(1)] by blast
    with b consent(1,3) have "turned_away deps env backend header d NoConsent"
      by auto
    with consent show ?thesis by (auto simp: unfolds simp del: turned_away.simps intro!: exI[of _ NoConsent])
  next
    case learner
    note found = lookup_session_Some[OF learner(2) assms(1)]
    then have l: "learner_of deps env header d claims es" using learner assms(2,3) by (auto simp: learner_of_def)
    have "authenticated env backend claims (open_session d) = identity_gate env backend claims es (open_session d)"
      using learner by (auto simp: authenticated_def open_session_def)
    with identity_gate_outcome[OF assms(1) l, of backend] l show ?thesis
      by (simp split: prod.splits handshake.splits)
  qed
qed

lemma handshake_outcome:
  assumes "db_ok d"
  shows "case ws_handshake deps env backend header (open_session d) of (db', outs, h) \<Rightarrow>
    (case h of
       Admitted claims es u \<Rightarrow> outs = [Accepted (echo_subprotocol header)] \<and>
         learner_of deps env header d claims es \<and> admission env backend d (committed db') es u
     | Rejected \<Rightarrow> \<exists>c. outs = [Accepted (echo_subprotocol header), cause_frame c] \<and>
         rejection deps env backend header d (committed db') c
     | HandshakeRaised \<Rightarrow> outs = [Accepted (echo_subprotocol header)] \<and> committed db' = d \<and>
         handshake_fault deps env backend header d)"
proof (cases "extract_token_from_subprotocol header")
  case None
  then show ?thesis
    by (auto simp: ws_handshake_def after_accept_def reject_def rejection_def close_codes open_session_def intro!: exI[of _ NoToken])
next
  case (Some token)
  let ?r = "decode_session_token (wd_jwt deps) (wd_str_of deps) (wd_settings deps) (we_now_seconds env) token"
  have b: "bears deps env header ?r" using Some by (auto simp: bears_def)
  show ?thesis
  proof (cases ?r)
    case (Inl e)
    note b = b[unfolded Inl]
    note unfolds = ws_handshake_def after_accept_def reject_def rejection_def close_codes open_session_def handshake_fault_def
    show ?thesis
    proof (cases e)
      case (SessionTokenInvalid m)
      with Some Inl b show ?thesis by (auto simp: unfolds intro!: exI[of _ BadToken])
    next
      case (SessionTokenExpired m)
      with Some Inl b show ?thesis by (auto simp: unfolds intro!: exI[of _ ExpiredToken])
    qed (use Some Inl b in \<open>auto simp: unfolds\<close>)
  next
    case (Inr claims)
    have "after_accept deps env backend header (open_session d) = authenticated env backend claims (open_session d)"
      using Some Inr by (simp add: after_accept_def)
    with authenticated_outcome[OF assms Some Inr, of backend] show ?thesis
      by (simp add: ws_handshake_def split: prod.splits handshake.splits)
  qed
qed

text \<open>The causes exclude one another.\<close>

lemma bears_unique: "bears deps env header a \<Longrightarrow> bears deps env header b \<Longrightarrow> a = b"
  by (auto simp: bears_def)

lemma connectable_unique: "connectable d claims a \<Longrightarrow> connectable d claims b \<Longrightarrow> a = b"
  by (auto simp: connectable_def)

lemma learner_of_parts:
  "learner_of deps env header d claims es \<longleftrightarrow> bears deps env header (Inr claims) \<and> sc_role claims = APP_LEARNER \<and>
     connectable d claims es \<and> es_consent_recorded_at es \<noteq> None"
  by (auto simp: learner_of_def bears_def connectable_def)

lemma learner_unique:
  "learner_of deps env header d claims es \<Longrightarrow> learner_of deps env header d claims' es' \<Longrightarrow> claims = claims' \<and> es = es'"
  unfolding learner_of_parts using bears_unique connectable_unique by blast

lemma learner_turned_away:
  assumes "learner_of deps env header d claims es"
  shows "turned_away deps env backend header d c \<longleftrightarrow>
    c = NoBackend \<and> backend = NotInstalled \<and> valid_overrides (we_now env) (es_id es) d = [] \<and> \<not> unrecordable env d es"
proof -
  have l: "bears deps env header (Inr claims)" "sc_role claims = APP_LEARNER" "connectable d claims es" "es_consent_recorded_at es \<noteq> None"
    using assms by (simp_all add: learner_of_parts)
  have token: "extract_token_from_subprotocol header \<noteq> None" using l(1) by (auto simp: bears_def)
  have b: "bears deps env header r \<longleftrightarrow> r = Inr claims" for r using bears_unique[OF l(1)] l(1) by blast
  have c: "connectable d claims es' \<longleftrightarrow> es' = es" for es' using connectable_unique[OF l(3)] l(3) by blast
  show ?thesis using l(2,4) token by (cases c) (auto simp: b c learner_of_parts)
qed

lemma turned_away_unique:
  assumes "turned_away deps env backend header d c" "turned_away deps env backend header d c'"
  shows "c = c'"
proof (cases "\<exists>r. bears deps env header r")
  case True
  then obtain r where r: "bears deps env header r" by blast
  then have token: "extract_token_from_subprotocol header \<noteq> None" by (auto simp: bears_def)
  have b: "bears deps env header x \<longleftrightarrow> x = r" for x using bears_unique[OF r] r by blast
  show ?thesis
  proof (cases "\<exists>claims es. learner_of deps env header d claims es")
    case True
    then show ?thesis using learner_turned_away assms by metis
  next
    case False
    then have "c \<noteq> NoBackend" "c' \<noteq> NoBackend" using assms by auto
    with assms token show ?thesis by (cases c; cases c') (auto simp: b)
  qed
next
  case False
  then have "turned_away deps env backend header d x \<Longrightarrow> x = NoToken" for x
    by (cases x) (auto simp: learner_of_parts)
  with assms show ?thesis by blast
qed

lemma turned_away_no_fault:
  assumes "turned_away deps env backend header d c"
  shows "\<not> handshake_fault deps env backend header d"
proof
  assume f: "handshake_fault deps env backend header d"
  show False
  proof (cases "\<exists>claims es. learner_of deps env header d claims es")
    case True
    then obtain claims es where l: "learner_of deps env header d claims es" by blast
    then have "\<not> bears deps env header (Inl e)" for e using bears_unique by (fastforce simp: learner_of_parts)
    moreover have "backend = NotInstalled" "valid_overrides (we_now env) (es_id es) d = []" "\<not> unrecordable env d es"
      using assms by (simp_all add: learner_turned_away[OF l])
    ultimately show False using f learner_unique[OF l] by (auto simp: handshake_fault_def)
  next
    case False
    with f obtain e where e: "bears deps env header (Inl e)" "e = SessionTokenOverflow \<or> (\<exists>r. e = SessionTokenRaised r)"
      by (auto simp: handshake_fault_def)
    then have token: "extract_token_from_subprotocol header \<noteq> None" by (auto simp: bears_def)
    have b: "bears deps env header x \<longleftrightarrow> x = Inl e" for x using bears_unique[OF e(1)] e(1) by blast
    show False using assms False e(2) token by (cases c) (auto simp: b)
  qed
qed

lemma entitled_no_fault:
  assumes "learner_of deps env header d claims es" "entitled env backend d es u"
  shows "\<not> handshake_fault deps env backend header d"
proof -
  have "\<not> bears deps env header (Inl e)" for e
    using assms(1) bears_unique by (fastforce simp: learner_of_parts)
  with learner_unique[OF assms(1)] assms(2) show ?thesis
    by (fastforce simp: handshake_fault_def entitled_def split: if_splits)
qed

text \<open>C9: A handshake accepts the socket first and ends in one of three ways, each for exactly the listed
  causes.  It admits exactly the learners whose token verifies and whose session is pending or
  active with consent on record, if the identity backend can be built or exactly one approved
  override is in force; a pending session is then active, and nothing else in the database has
  changed.  It is rejected with a close code and reason exactly for that code's cause: 4001 without a token or
  with an invalid one, 4002 for an expired one, 4005 for another role, 4003 for a session that cannot
  be connected to, 4009 without consent, 4008 without backend and override; the database is
  left alone, except that the last terminates the session and records it.  It raises exactly for the
  remaining faults, and then commits nothing.\<close>

theorem handshake_exact:
  assumes "db_ok d"
  shows "case ws_handshake deps env backend header (open_session d) of (db', outs, h) \<Rightarrow>
    (\<forall>claims es u. h = Admitted claims es u \<longleftrightarrow> learner_of deps env header d claims es \<and> entitled env backend d es u) \<and>
    (\<forall>c. outs = [Accepted (echo_subprotocol header), cause_frame c] \<longleftrightarrow> turned_away deps env backend header d c) \<and>
    (h = HandshakeRaised \<longleftrightarrow> handshake_fault deps env backend header d) \<and>
    (case h of
       Admitted claims es u \<Rightarrow> outs = [Accepted (echo_subprotocol header)] \<and> admission env backend d (committed db') es u
     | Rejected \<Rightarrow> \<exists>c. outs = [Accepted (echo_subprotocol header), cause_frame c] \<and>
         rejection deps env backend header d (committed db') c
     | HandshakeRaised \<Rightarrow> outs = [Accepted (echo_subprotocol header)] \<and> committed db' = d)"
proof -
  obtain db' outs h where w: "ws_handshake deps env backend header (open_session d) = (db', outs, h)" by (metis prod_cases3)
  have "case (db', outs, h) of (db', outs, h) \<Rightarrow>
    (case h of
       Admitted claims es u \<Rightarrow> outs = [Accepted (echo_subprotocol header)] \<and>
         learner_of deps env header d claims es \<and> admission env backend d (committed db') es u
     | Rejected \<Rightarrow> \<exists>c. outs = [Accepted (echo_subprotocol header), cause_frame c] \<and>
         rejection deps env backend header d (committed db') c
     | HandshakeRaised \<Rightarrow> outs = [Accepted (echo_subprotocol header)] \<and> committed db' = d \<and>
         handshake_fault deps env backend header d)"
    using handshake_outcome[OF assms, where deps = deps and env = env and backend = backend and header = header]
    unfolding w .
  note o = this[unfolded prod.case]
  have apart: "\<not> entitled env backend d es u"
    if "learner_of deps env header d claims es" "turned_away deps env backend header d c" for claims es u c
    using that(2) unfolding learner_turned_away[OF that(1)] by (auto simp: entitled_def)
  show ?thesis
  proof (cases h)
    case Rejected
    with o obtain c where c: "outs = [Accepted (echo_subprotocol header), cause_frame c]"
        "rejection deps env backend header d (committed db') c" by auto
    then have k: "turned_away deps env backend header d c" by (simp add: rejection_def)
    have one: "outs = [Accepted (echo_subprotocol header), cause_frame c'] \<longleftrightarrow> turned_away deps env backend header d c'" for c'
      unfolding c(1) list.inject cause_frame_inj using turned_away_unique[OF k] k by blast
    have "\<exists>c. outs = [Accepted (echo_subprotocol header), cause_frame c] \<and> rejection deps env backend header d (committed db') c"
      using c by blast
    with one apart[OF _ k] turned_away_no_fault[OF k] show ?thesis by (simp add: w Rejected)
  next
    case (Admitted claims es u)
    with o have a: "outs = [Accepted (echo_subprotocol header)]" "learner_of deps env header d claims es"
        "admission env backend d (committed db') es u" by auto
    note e = admission_entitled[OF a(3)]
    have "u' = u" if "entitled env backend d es u'" for u'
      using that e by (auto simp: entitled_def split: if_splits)
    then have one: "claims = claims' \<and> es = es' \<and> u = u' \<longleftrightarrow>
        learner_of deps env header d claims' es' \<and> entitled env backend d es' u'" for claims' es' u'
      using learner_unique[OF a(2)] a(2) e by blast
    have "\<not> turned_away deps env backend header d c" for c using apart[OF a(2)] e by blast
    with one a(1,3) entitled_no_fault[OF a(2) e] show ?thesis by (simp add: w Admitted)
  next
    case HandshakeRaised
    with o have f: "outs = [Accepted (echo_subprotocol header)]" "committed db' = d" "handshake_fault deps env backend header d" by auto
    have "\<not> turned_away deps env backend header d c" for c using turned_away_no_fault f(3) by blast
    moreover have "\<not> (learner_of deps env header d claims es \<and> entitled env backend d es u)" for claims es u
      using entitled_no_fault f(3) by blast
    ultimately show ?thesis using f by (simp add: w HandshakeRaised)
  qed
qed

definition demo_ws_jwt :: "string jwt_lib" where
  "demo_ws_jwt = demo_jwt\<lparr> jw_decode := (\<lambda>token secret algs aud iss req now.
     if token = ''good'' then
       Inr [(''exp'', JInt 900), (''iat'', JInt 100), (''iss'', JStr iss), (''aud'', JStr aud), (''sub'', JStr ''2''),
            (''sid'', JStr (uuid_str 1)), (''role'', JStr ''learner''), (''jti'', JStr ''j'')]
     else Inl InvalidTokenError) \<rparr>"

definition demo_ws_deps :: "string ws_router_deps" where
  "demo_ws_deps = \<lparr> wd_jwt = demo_ws_jwt, wd_str_of = (\<lambda>_. []), wd_settings = demo_lti_settings,
     wd_heartbeat_timeout_seconds = 30 \<rparr>"

definition demo_ws_env :: ws_env where
  "demo_ws_env = \<lparr> we_now_seconds = 200, we_now = 200000000, we_termination_id = 77 \<rparr>"

definition demo_ws_claims :: session_claims where
  "demo_ws_claims = \<lparr> sc_subject = ''2'', sc_session_id = uuid_str 1, sc_role = APP_LEARNER,
     sc_issuer = ''proctoring-engine'', sc_audience = ''proctoring-client'', sc_issued_at = 100000000,
     sc_expires_at = 900000000, sc_jti = ''j'' \<rparr>"

definition demo_waiting :: database where
  "demo_waiting = demo_db\<lparr> db_exam_sessions := [demo_session\<lparr> es_status := SS_PENDING \<rparr>] \<rparr>"

lemma demo_waiting_ok: "db_ok demo_waiting"
  by code_simp

lemma demo_ws_token:
  "after_accept demo_ws_deps demo_ws_env backend (Some ''proctoring-v1.good'') db = authenticated demo_ws_env backend demo_ws_claims db"
proof -
  have "extract_token_from_subprotocol (Some ''proctoring-v1.good'') = Some ''good''" by code_simp
  moreover have "decode_session_token demo_ws_jwt (\<lambda>_. []) demo_lti_settings 200 ''good'' = Inr demo_ws_claims" by code_simp
  ultimately show ?thesis by (simp add: after_accept_def demo_ws_deps_def demo_ws_env_def)
qed

lemma demo_ws_admitted:
  "snd (snd (ws_handshake demo_ws_deps demo_ws_env Imported (Some ''proctoring-v1.good'') (open_session demo_waiting)))
   = Admitted demo_ws_claims (demo_session\<lparr> es_status := SS_PENDING \<rparr>) False"
  unfolding ws_handshake_def demo_ws_token by code_simp

theorem handshake_exact_witness:
  "session_row_set (set_active (demo_session\<lparr> es_status := SS_PENDING \<rparr>)) demo_waiting
     (committed (fst (ws_handshake demo_ws_deps demo_ws_env Imported (Some ''proctoring-v1.good'') (open_session demo_waiting))))"
proof -
  obtain db' outs where w: "ws_handshake demo_ws_deps demo_ws_env Imported (Some ''proctoring-v1.good'') (open_session demo_waiting)
      = (db', outs, Admitted demo_ws_claims (demo_session\<lparr> es_status := SS_PENDING \<rparr>) False)"
    using demo_ws_admitted by (metis prod.collapse)
  from handshake_exact[OF demo_waiting_ok, where deps = demo_ws_deps and env = demo_ws_env and backend = Imported
      and header = "Some ''proctoring-v1.good''", unfolded w prod.case handshake.case]
  have "admission demo_ws_env Imported demo_waiting (committed db') (demo_session\<lparr> es_status := SS_PENDING \<rparr>) False" by blast
  then show ?thesis unfolding w by (simp add: admission_def)
qed

section \<open>The wire\<close>

text \<open>The acknowledgements and the kill-switches among what was sent, read from the JSON.\<close>

fun sent_of_type :: "string \<Rightarrow> ws_out \<Rightarrow> jdict option" where
  "sent_of_type t (SendJson d) =
     (case dict_get d ''payload'' JNull of
        JDict p \<Rightarrow> if dict_get d ''type'' JNull = JStr t then Some p else None
      | _ \<Rightarrow> None)"
| "sent_of_type t _ = None"

definition wire_acks :: "ws_out list \<Rightarrow> jval list" where
  "wire_acks outs = map (\<lambda>p. dict_get p ''seq'' JNull) (List.map_filter (sent_of_type ''ack'') outs)"

definition wire_kills :: "ws_out list \<Rightarrow> (jval \<times> jval) list" where
  "wire_kills outs = map (\<lambda>p. (dict_get p ''flag_id'' JNull, dict_get p ''reason'' JNull))
     (List.map_filter (sent_of_type ''kill_switch'') outs)"

lemma wire_append [simp]:
  "wire_acks [] = []" "wire_acks (xs @ ys) = wire_acks xs @ wire_acks ys"
  "wire_kills [] = []" "wire_kills (xs @ ys) = wire_kills xs @ wire_kills ys"
  by (simp_all add: wire_acks_def wire_kills_def map_filter_def)

lemma wire_one [simp]:
  "wire_acks [SendJson (to_json_dict (SessionAcknowledgeDeliver p))] = [JInt (sap_seq p)]"
  "wire_kills [SendJson (to_json_dict (SessionAcknowledgeDeliver p))] = []"
  "wire_acks [SendJson (to_json_dict (KillSwitchDeliver k))] = []"
  "wire_kills [SendJson (to_json_dict (KillSwitchDeliver k))] = [(JStr (ksp_flag_id k), JStr (ksp_reason k))]"
  "wire_acks [CloseFrame code reason] = []" "wire_kills [CloseFrame code reason] = []"
  "wire_acks [SendJson [(''type'', JStr ''ping'')]] = []" "wire_kills [SendJson [(''type'', JStr ''ping'')]] = []"
  "wire_acks [Accepted x] = []" "wire_kills [Accepted x] = []"
  by (simp_all add: wire_acks_def wire_kills_def map_filter_def dict_get_def)

declare to_json_dict.simps [simp del]

section \<open>One event of a connection\<close>

text \<open>The message of a text frame that passes every check, and the operation it makes on the buffer.\<close>

definition accepted_message ::
  "(string \<Rightarrow> jval option) \<Rightarrow> (client_message_type \<Rightarrow> jdict \<Rightarrow> client_message option) \<Rightarrow> string \<Rightarrow> string
   \<Rightarrow> client_message option" where
  "accepted_message loads decode sid raw_text =
     (case loads raw_text of
        Some (JDict raw) \<Rightarrow>
          if dict_get raw ''type'' JNull = JStr ''pong'' then None
          else (case parse_client_message decode raw of
                  Inr msg \<Rightarrow> if ce_session_id (envelope msg) = sid then Some msg else None
                | Inl _ \<Rightarrow> None)
      | _ \<Rightarrow> None)"

fun handles ::
  "(string \<Rightarrow> jval option) \<Rightarrow> (client_message_type \<Rightarrow> jdict \<Rightarrow> client_message option) \<Rightarrow> ws_event \<Rightarrow> ws_conn
   \<Rightarrow> client_message list" where
  "handles loads decode (TextFrame raw_text _ _ _) c =
     (if wc_status c = Receiving
      then (case accepted_message loads decode (sc_session_id (wc_claims c)) raw_text of None \<Rightarrow> [] | Some msg \<Rightarrow> [msg])
      else [])"
| "handles loads decode _ c = []"

definition is_telemetry :: "client_message \<Rightarrow> bool" where
  "is_telemetry msg \<longleftrightarrow> message_type msg \<noteq> KILL_SWITCH_ACK"

definition buffer_ops ::
  "(string \<Rightarrow> jval option) \<Rightarrow> (client_message_type \<Rightarrow> jdict \<Rightarrow> client_message option) \<Rightarrow> ws_event \<Rightarrow> ws_conn
   \<Rightarrow> buffer_op list" where
  "buffer_ops loads decode ev c =
     (case ev of
        Shared op \<Rightarrow> [op]
      | TextFrame raw_text now1 now2 ok \<Rightarrow> map (Push now1) (filter is_telemetry (handles loads decode ev c))
      | _ \<Rightarrow> [])"

definition buffer_after :: "buffer_op list \<Rightarrow> telemetry_event_buffer \<Rightarrow> telemetry_event_buffer" where
  "buffer_after ops b = fst (foldl (\<lambda>s op. buffer_step op s) (b, []) ops)"

lemma buffer_after_out: "fst (foldl (\<lambda>s op. buffer_step op s) (b, out) ops) = buffer_after ops b"
proof -
  have "fst (foldl (\<lambda>s op. buffer_step op s) (b, out) ops) = fst (foldl (\<lambda>s op. buffer_step op s) (b, out') ops)" for out'
  proof (induction ops arbitrary: b out out')
    case (Cons op ops)
    show ?case by (cases op) (simp_all add: Cons.IH)
  qed simp
  then show ?thesis by (simp add: buffer_after_def)
qed

lemma buffer_after_simps [simp]:
  "buffer_after [] b = b"
  "buffer_after (op # ops) b = buffer_after ops (fst (buffer_step op (b, [])))"
  "buffer_after (ops @ ops') b = buffer_after ops' (buffer_after ops b)"
proof -
  show "buffer_after [] b = b" by (simp add: buffer_after_def)
  show *: "buffer_after (op # ops) b = buffer_after ops (fst (buffer_step op (b, [])))" for op ops and b
    using buffer_after_out[of "fst (buffer_step op (b, []))" "snd (buffer_step op (b, []))" ops]
    by (simp add: buffer_after_def)
  show "buffer_after (ops @ ops') b = buffer_after ops' (buffer_after ops b)"
    by (induction ops arbitrary: b) (simp_all add: * buffer_after_def[of "[]"])
qed

text \<open>What the drains among the operations return.\<close>

definition buffer_out :: "buffer_op list \<Rightarrow> telemetry_event_buffer \<Rightarrow> buffered_event list" where
  "buffer_out ops b = snd (foldl (\<lambda>s op. buffer_step op s) (b, []) ops)"

lemma buffer_out_acc: "snd (foldl (\<lambda>s op. buffer_step op s) (b, out) ops) = out @ buffer_out ops b"
proof (induction ops arbitrary: b out)
  case (Cons op ops)
  obtain b' x where x: "buffer_step op (b, []) = (b', x)" by fastforce
  then have "buffer_step op (b, out) = (b', out @ x)" by (cases op) auto
  with x show ?case by (simp add: Cons.IH buffer_out_def[of "op # ops" b])
qed (simp add: buffer_out_def)

lemma buffer_out_simps [simp]:
  "buffer_out [] b = []"
  "buffer_out (op # ops) b = snd (buffer_step op (b, [])) @ buffer_out ops (fst (buffer_step op (b, [])))"
proof -
  show "buffer_out (op # ops) b = snd (buffer_step op (b, [])) @ buffer_out ops (fst (buffer_step op (b, [])))"
    using buffer_out_acc[of "fst (buffer_step op (b, []))" "snd (buffer_step op (b, []))" ops]
    by (simp add: buffer_out_def)
qed (simp add: buffer_out_def)

lemma buffer_out_append [simp]: "buffer_out (ops @ ops') b = buffer_out ops b @ buffer_out ops' (buffer_after ops b)"
  by (induction ops arbitrary: b) simp_all

lemma buffer_out_pushes: "buffer_out (map (Push now) msgs) b = []"
  by (induction msgs arbitrary: b) simp_all

text \<open>One message: an acknowledgement with the next number, unless the send fails and ends the loop.\<close>

lemma acknowledge_effect:
  "wc_claims (acknowledge now ok c) = wc_claims c" "wc_buffer (acknowledge now ok c) = wc_buffer c"
  "ds_seq (wc_delivery (acknowledge now ok c)) = ds_seq (wc_delivery c) + 1"
  "wire_acks (wc_sent (acknowledge now ok c)) = wire_acks (wc_sent c) @ (if ok then [JInt (ds_seq (wc_delivery c))] else [])"
  "wire_kills (wc_sent (acknowledge now ok c)) = wire_kills (wc_sent c)"
  "wc_status (acknowledge now ok c) = (if ok then wc_status c else Disconnected)"
  by (simp_all add: acknowledge_def next_ack_def send_out_def Let_def)

text \<open>What a step does, for the induction over a run.\<close>

definition lost_ack :: "ws_conn \<Rightarrow> int" where
  "lost_ack c = ds_seq (wc_delivery c) - int (length (wire_acks (wc_sent c)))"

definition step_effect ::
  "(string \<Rightarrow> jval option) \<Rightarrow> (client_message_type \<Rightarrow> jdict \<Rightarrow> client_message option) \<Rightarrow> ws_event \<Rightarrow> ws_conn \<Rightarrow> ws_conn \<Rightarrow> bool" where
  "step_effect loads decode ev c c' \<longleftrightarrow>
     wc_claims c' = wc_claims c \<and> wc_buffer c' = buffer_after (buffer_ops loads decode ev c) (wc_buffer c) \<and>
     ds_seq (wc_delivery c') = ds_seq (wc_delivery c) + int (length (handles loads decode ev c)) \<and>
     (wire_acks (wc_sent c') = wire_acks (wc_sent c) @ map (\<lambda>_. JInt (ds_seq (wc_delivery c))) (handles loads decode ev c) \<or>
      length (handles loads decode ev c) = 1 \<and> wire_acks (wc_sent c') = wire_acks (wc_sent c) \<and> wc_status c' = Disconnected) \<and>
     (wc_status c \<noteq> Receiving \<longrightarrow> wc_status c' = wc_status c)"

lemma handle_message_effect:
  assumes "wc_status c = Receiving" "handles loads decode (TextFrame raw now1 now2 ok) c = [msg]"
    "ce_session_id (envelope msg) = sc_session_id (wc_claims c)"
  shows "step_effect loads decode (TextFrame raw now1 now2 ok) c (handle_message now1 now2 ok msg c)"
  using assms
  by (cases msg) (auto simp: step_effect_def buffer_ops_def handle_message_def acknowledge_effect is_telemetry_def record_kill_switch_ack_def
        split: option.splits)

lemma ws_step_effect: "step_effect loads decode ev c (ws_step loads decode ev c)"
proof (cases "wc_status c = Receiving")
  case False
  then show ?thesis by (cases ev) (simp_all add: step_effect_def buffer_ops_def)
next
  case rec: True
  show ?thesis
  proof (cases ev)
    case (TextFrame raw now1 now2 ok)
    show ?thesis
    proof (cases "accepted_message loads decode (sc_session_id (wc_claims c)) raw")
      case None
      then have h: "handles loads decode ev c = []" using TextFrame by simp
      show ?thesis using None rec h
        by (auto simp: TextFrame step_effect_def buffer_ops_def accepted_message_def receive_text_def close_loop_def send_out_def handle_message_def
            split: option.splits jval.splits sum.splits parse_error.splits if_splits)
    next
      case (Some msg)
      then have "ce_session_id (envelope msg) = sc_session_id (wc_claims c)"
        "receive_text loads decode raw now1 now2 ok c = handle_message now1 now2 ok msg c"
        by (auto simp: accepted_message_def receive_text_def split: option.splits jval.splits sum.splits if_splits)
      then show ?thesis using handle_message_effect[OF rec, of loads decode raw now1 now2 ok msg] rec Some TextFrame by simp
    qed
  next
    case (KillSwitchDue t ok fid reason)
    then show ?thesis using rec
      by (auto simp: step_effect_def buffer_ops_def drain_kill_switch_def prepare_kill_switch_def send_out_def Let_def)
  next
    case (HeartbeatDue outcome)
    then show ?thesis using rec
      by (cases outcome) (simp_all add: step_effect_def buffer_ops_def heartbeat_tick_def send_out_def)
  qed (use rec in \<open>simp_all add: step_effect_def buffer_ops_def\<close>)
qed

section \<open>Runs of a connection\<close>

fun handled_run ::
  "(string \<Rightarrow> jval option) \<Rightarrow> (client_message_type \<Rightarrow> jdict \<Rightarrow> client_message option) \<Rightarrow> ws_event list \<Rightarrow> ws_conn
   \<Rightarrow> client_message list" where
  "handled_run loads decode [] c = []"
| "handled_run loads decode (ev # evs) c = handles loads decode ev c @ handled_run loads decode evs (ws_step loads decode ev c)"

fun buffer_trace ::
  "(string \<Rightarrow> jval option) \<Rightarrow> (client_message_type \<Rightarrow> jdict \<Rightarrow> client_message option) \<Rightarrow> ws_event list \<Rightarrow> ws_conn
   \<Rightarrow> buffer_op list" where
  "buffer_trace loads decode [] c = []"
| "buffer_trace loads decode (ev # evs) c = buffer_ops loads decode ev c @ buffer_trace loads decode evs (ws_step loads decode ev c)"

text \<open>The events that the drains of a run returned, each read off the connection it was made on.\<close>

definition drained_by :: "ws_event \<Rightarrow> ws_conn \<Rightarrow> buffered_event list" where
  "drained_by ev c = (case ev of Shared op \<Rightarrow> snd (buffer_step op (wc_buffer c, [])) | _ \<Rightarrow> [])"

fun drained_run ::
  "(string \<Rightarrow> jval option) \<Rightarrow> (client_message_type \<Rightarrow> jdict \<Rightarrow> client_message option) \<Rightarrow> ws_event list \<Rightarrow> ws_conn
   \<Rightarrow> buffered_event list" where
  "drained_run loads decode [] c = []"
| "drained_run loads decode (ev # evs) c = drained_by ev c @ drained_run loads decode evs (ws_step loads decode ev c)"

lemma ws_run_simps [simp]:
  "ws_run loads decode [] c = c"
  "ws_run loads decode (ev # evs) c = ws_run loads decode evs (ws_step loads decode ev c)"
  "ws_run loads decode (evs @ evs') c = ws_run loads decode evs' (ws_run loads decode evs c)"
  by (simp_all add: ws_run_def)

lemma trace_append [simp]:
  "handled_run loads decode (evs @ evs') c = handled_run loads decode evs c @ handled_run loads decode evs' (ws_run loads decode evs c)"
  "buffer_trace loads decode (evs @ evs') c = buffer_trace loads decode evs c @ buffer_trace loads decode evs' (ws_run loads decode evs c)"
  by (induction evs arbitrary: c) simp_all

lemma handles_cases: "handles loads decode ev c = [] \<or> (\<exists>msg. handles loads decode ev c = [msg] \<and> wc_status c = Receiving)"
  by (cases ev) (auto split: option.splits)

lemma accepted_checked:
  assumes "accepted_message loads decode sid raw_text = Some msg"
  shows "ce_session_id (envelope msg) = sid \<and> check_message msg"
proof -
  from assms obtain raw where "parse_client_message decode raw = Inr msg" "ce_session_id (envelope msg) = sid"
    by (auto simp: accepted_message_def split: if_splits option.splits jval.splits sum.splits)
  then show ?thesis using parse_client_message_Inr by blast
qed

lemma handles_accepted:
  "handles loads decode ev c = [msg] \<Longrightarrow> \<exists>raw_text. accepted_message loads decode (sc_session_id (wc_claims c)) raw_text = Some msg"
  by (cases ev) (auto split: option.splits if_splits)

lemma handles_checked:
  assumes "msg \<in> set (handles loads decode ev c)"
  shows "ce_session_id (envelope msg) = sc_session_id (wc_claims c) \<and> check_message msg"
proof -
  from handles_cases[of loads decode ev c] assms have "handles loads decode ev c = [msg]"
    by (elim disjE exE) (simp_all del: handles.simps)
  then show ?thesis using handles_accepted accepted_checked by blast
qed

text \<open>\<open>acks_ok\<close>: the acknowledgements on the wire are numbered in order, one for each message handled,
  except that the last one may have been lost with the connection.\<close>

definition acks_ok :: "nat \<Rightarrow> ws_conn \<Rightarrow> bool" where
  "acks_ok n c \<longleftrightarrow> (\<exists>k. wire_acks (wc_sent c) = map (\<lambda>i. JInt (int i)) [0..<k] \<and>
     (k = n \<or> k + 1 = n \<and> wc_status c = Disconnected))"

lemma ws_run_acks:
  assumes "acks_ok 0 c" "ds_seq (wc_delivery c) = 0"
  shows "ds_seq (wc_delivery (ws_run loads decode evs c)) = int (length (handled_run loads decode evs c)) \<and>
    acks_ok (length (handled_run loads decode evs c)) (ws_run loads decode evs c)"
proof (induction evs rule: rev_induct)
  case Nil
  show ?case using assms by simp
next
  case (snoc ev evs)
  let ?c = "ws_run loads decode evs c" and ?n = "length (handled_run loads decode evs c)"
  have e: "step_effect loads decode ev ?c (ws_step loads decode ev ?c)" by (rule ws_step_effect)
  from snoc obtain k where k: "wire_acks (wc_sent ?c) = map (\<lambda>i. JInt (int i)) [0..<k]"
      "k = ?n \<or> k + 1 = ?n \<and> wc_status ?c = Disconnected" and q: "ds_seq (wc_delivery ?c) = int ?n"
    unfolding acks_ok_def by blast
  from handles_cases[of loads decode ev ?c] show ?case
  proof (elim disjE exE conjE)
    assume "handles loads decode ev ?c = []"
    with e k q show ?thesis by (auto simp: step_effect_def acks_ok_def)
  next
    fix msg assume h: "handles loads decode ev ?c = [msg]" "wc_status ?c = Receiving"
    with k have "k = ?n" by auto
    with e h k q show ?thesis
      unfolding step_effect_def acks_ok_def
      by (elim conjE disjE) (simp_all, auto intro: exI[of _ "Suc ?n"])
  qed
qed

lemma ws_run_buffer:
  "wc_claims (ws_run loads decode evs c) = wc_claims c \<and>
   wc_buffer (ws_run loads decode evs c) = buffer_after (buffer_trace loads decode evs c) (wc_buffer c)"
proof (induction evs arbitrary: c)
  case (Cons ev evs)
  from ws_step_effect[of loads decode ev c] Cons show ?case by (simp add: step_effect_def)
qed simp

lemma drained_by_out: "drained_by ev c = buffer_out (buffer_ops loads decode ev c) (wc_buffer c)"
  by (cases ev) (simp_all add: drained_by_def buffer_ops_def buffer_out_pushes del: handles.simps)

lemma drained_run_out: "drained_run loads decode evs c = buffer_out (buffer_trace loads decode evs c) (wc_buffer c)"
proof (induction evs arbitrary: c)
  case (Cons ev evs)
  from ws_step_effect[of loads decode ev c] Cons show ?case
    by (simp add: step_effect_def drained_by_out[of ev c loads decode])
qed simp

lemma handled_run_checked:
  "msg \<in> set (handled_run loads decode evs c) \<Longrightarrow> ce_session_id (envelope msg) = sc_session_id (wc_claims c) \<and> check_message msg"
proof (induction evs arbitrary: c)
  case (Cons ev evs)
  from ws_step_effect[of loads decode ev c] have "wc_claims (ws_step loads decode ev c) = wc_claims c"
    by (simp add: step_effect_def)
  with Cons handles_checked[of msg loads decode ev c] show ?case by auto
qed simp

definition drains_only :: "ws_event \<Rightarrow> bool" where
  "drains_only ev \<longleftrightarrow> (case ev of Shared op \<Rightarrow> op = Drain | _ \<Rightarrow> True)"

lemma pushes_append [simp]: "pushes (xs @ ys) = pushes xs @ pushes ys"
  by (simp add: pushes_def)

lemma pushes_map_Push [simp]: "pushes (map (Push now) msgs) = msgs"
  by (induction msgs) (simp_all add: pushes_def)

lemma own_pushes:
  "list_all drains_only evs \<Longrightarrow> pushes (buffer_trace loads decode evs c) = filter is_telemetry (handled_run loads decode evs c)"
proof (induction evs arbitrary: c)
  case (Cons ev evs)
  then have "pushes (buffer_ops loads decode ev c) = filter is_telemetry (handles loads decode ev c)"
    by (cases ev) (auto simp: drains_only_def buffer_ops_def simp del: handles.simps(1), simp add: pushes_def)
  with Cons show ?case by simp
qed simp

lemma buffer_after_run:
  "buffer_after ops \<lparr> tb_maxlen = n, tb_buf = [], tb_seq = 0, tb_dropped = 0 \<rparr> = fst (buffer_run n ops)"
  "buffer_out ops \<lparr> tb_maxlen = n, tb_buf = [], tb_seq = 0, tb_dropped = 0 \<rparr> = snd (buffer_run n ops)"
  by (simp_all add: buffer_after_def buffer_out_def buffer_run_def)

text \<open>C16: Whatever a client sends, in any interleaving with kill-switches, heartbeats and the
  dispatcher's drains: every message handled is well formed and names the session of the
  token; the acknowledgements on the wire are 0, 1, 2 and so on, one for each of them (only the
  last can be lost, with the connection); and the telemetry among them is accounted for: what the
  drains of the run returned, in that order, then what is still in the buffer, are messages of it in the
  order of their arrival, each under the number of its arrival, and all the others are counted as dropped.\<close>

theorem connection_in_order:
  fixes n :: nat and loads decode evs claims g r s
  defines "c0 \<equiv> new_ws_conn claims (new_delivery_service g r) \<lparr> tb_maxlen = n, tb_buf = [], tb_seq = 0, tb_dropped = 0 \<rparr> [Accepted s]"
  defines "c \<equiv> ws_run loads decode evs c0" and "hs \<equiv> handled_run loads decode evs c0"
    and "drained \<equiv> drained_run loads decode evs c0"
  assumes "0 < n" "list_all drains_only evs"
  shows "list_all (\<lambda>msg. check_message msg \<and> ce_session_id (envelope msg) = sc_session_id claims) hs \<and>
    (\<exists>k. wire_acks (wc_sent c) = map (\<lambda>i. JInt (int i)) [0..<k] \<and>
       (k = length hs \<or> k + 1 = length hs \<and> wc_status c = Disconnected)) \<and>
    int (length drained) + tb_len (wc_buffer c) + tb_dropped (wc_buffer c) = int (length (filter is_telemetry hs)) \<and>
    sorted_wrt (<) (seqs (drained @ tb_buf (wc_buffer c))) \<and>
    (\<forall>e\<in>set (drained @ tb_buf (wc_buffer c)). 0 \<le> be_seq e \<and> be_seq e < int (length (filter is_telemetry hs)) \<and>
       be_message e = filter is_telemetry hs ! nat (be_seq e))"
proof -
  have c0: "wc_claims c0 = claims" "ds_seq (wc_delivery c0) = 0" "acks_ok 0 c0"
    "wc_buffer c0 = \<lparr> tb_maxlen = n, tb_buf = [], tb_seq = 0, tb_dropped = 0 \<rparr>"
    by (simp_all add: c0_def new_ws_conn_def new_delivery_service_def acks_ok_def)
  have hs: "list_all (\<lambda>msg. check_message msg \<and> ce_session_id (envelope msg) = sc_session_id claims) hs"
    using handled_run_checked[of _ loads decode evs c0] by (auto simp: list_all_iff hs_def c0)
  have acks: "acks_ok (length hs) c" using ws_run_acks[OF c0(3,2)] by (simp add: hs_def c_def)
  let ?ops = "buffer_trace loads decode evs c0"
  have b: "wc_buffer c = fst (buffer_run n ?ops)"
    using ws_run_buffer[of loads decode evs c0] by (simp add: c_def c0 buffer_after_run)
  have p: "pushes ?ops = filter is_telemetry hs" using own_pushes[OF assms(6)] by (simp add: hs_def)
  have dr: "drained = snd (buffer_run n ?ops)"
    by (simp add: drained_def drained_run_out c0 buffer_after_run)
  from buffer_run_inv[OF assms(5), of ?ops, folded b dr]
  have "int (length drained) + tb_len (wc_buffer c) + tb_dropped (wc_buffer c) = int (length (filter is_telemetry hs))"
    "sorted_wrt (<) (seqs (drained @ tb_buf (wc_buffer c)))"
    "\<forall>e\<in>set (drained @ tb_buf (wc_buffer c)). 0 \<le> be_seq e \<and> be_seq e < int (length (filter is_telemetry hs)) \<and>
       be_message e = filter is_telemetry hs ! nat (be_seq e)"
    unfolding buffer_inv_def p by auto
  with hs acks show ?thesis unfolding acks_ok_def by blast
qed

definition demo_frame :: client_message where
  "demo_frame = TelemetryLight \<lparr> ce_session_id = uuid_str 1, ce_captured_at = 5 \<rparr>
     \<lparr> tlp_face_count = 2, tlp_confidence = 1 / 2, tlp_bbox = None \<rparr>"

definition demo_loads :: "string \<Rightarrow> jval option" where
  "demo_loads text = (if text = ''frame'' then Some (JDict [(''type'', JStr ''telemetry_light'')]) else None)"

definition demo_decode :: "client_message_type \<Rightarrow> jdict \<Rightarrow> client_message option" where
  "demo_decode t raw = (if t = TELEMETRY_LIGHT then Some demo_frame else None)"

definition demo_traffic :: "ws_event list" where
  "demo_traffic = [TextFrame ''frame'' 6 7 True, Shared Drain, HeartbeatDue PingSent, TextFrame ''frame'' 8 9 True, TextFrame ''frame'' 8 9 True,
     KillSwitchDue 10 True ''f'' ''second_person'']"

text \<open>Three frames into a buffer of one: the first is drained, the second is dropped, the third waits.\<close>

theorem connection_in_order_witness:
  "let c0 = new_ws_conn demo_ws_claims (new_delivery_service 30 3) \<lparr> tb_maxlen = 1, tb_buf = [], tb_seq = 0, tb_dropped = 0 \<rparr> [Accepted None];
       c = ws_run demo_loads demo_decode demo_traffic c0; hs = handled_run demo_loads demo_decode demo_traffic c0
   in int (length (drained_run demo_loads demo_decode demo_traffic c0)) + tb_len (wc_buffer c) + tb_dropped (wc_buffer c)
      = int (length (filter is_telemetry hs)) \<and>
      (\<exists>k. wire_acks (wc_sent c) = map (\<lambda>i. JInt (int i)) [0..<k] \<and> (k = length hs \<or> k + 1 = length hs))"
proof -
  have "list_all drains_only demo_traffic" by (simp add: demo_traffic_def drains_only_def)
  from connection_in_order[where n = 1 and evs = demo_traffic and claims = demo_ws_claims and g = 30 and r = 3
      and s = None and loads = demo_loads and decode = demo_decode, OF zero_less_one this] show ?thesis
    unfolding Let_def by blast
qed

section \<open>Setting up a session\<close>

text \<open>The policy the dispatcher runs under is the same for every session.\<close>

lemma set_up_policy:
  assumes "set_up_session dd deps claims es u = Inr (st, delivery)"
  shows "fc_policy_snapshot (dsp_config st) = routes_policy_snapshot \<and> \<not> u \<and> dsp_thread st \<and> \<not> dsp_stop st \<and>
    (\<exists>sid st0. uuid_of_string (sc_session_id claims) = Inr sid \<and> new_frame_dispatcher dd (dispatcher_config_of es sid u) = Inr st0 \<and>
       st = st0\<lparr> dsp_stop := False, dsp_thread := True \<rparr>) \<and> delivery = new_delivery_service (wd_heartbeat_timeout_seconds deps) 3"
proof -
  from assms obtain sid st0 where s: "uuid_of_string (sc_session_id claims) = Inr sid"
      "new_frame_dispatcher dd (dispatcher_config_of es sid u) = Inr st0" "start_dispatcher st0 = (st, Inr ())"
      "delivery = new_delivery_service (wd_heartbeat_timeout_seconds deps) 3"
    by (auto simp: set_up_session_def split: sum.splits prod.splits)
  from s(2) have "dsp_thread st0 = False" "dsp_config st0 = dispatcher_config_of es sid u"
    by (auto simp: new_frame_dispatcher_def bind_err_eq_Inr split: sum.splits)
  with s show ?thesis
    by (auto simp: start_dispatcher_def emit_identity_unavailable_flag_def Let_def dispatcher_config_of_def split: if_splits)
qed

text \<open>C18: A session that is admitted on an approved override cannot be run.  Whenever the handshake admits
  it so, setting it up raises: the socket handler ends without a message loop, although the
  session has been made active and unverifiable; and if the dispatcher was built, the exception is the
  missing queue attribute, and the dispatcher is left running: its loop goes on emptying the
  buffer it shares with the other sessions and turning their messages into its own decisions.\<close>

theorem override_session_crashes:
  assumes "db_ok d" "ws_handshake deps env backend header (open_session d) = (db', outs, Admitted claims es True)"
  shows "\<exists>left e. set_up_session dd deps claims es True = Inl (left, e) \<and>
    (es_status es = SS_PENDING \<longrightarrow> session_row_set (set_active (set_unverifiable es)) d (committed db')) \<and>
    (\<forall>st0. new_frame_dispatcher dd (dispatcher_config_of es (es_id es) True) = Inr st0 \<longrightarrow>
       e = ModelRaised (AttributeError ''FrameDispatcher object has no attribute _decision_queue'') \<and>
       (\<exists>st. left = Some st \<and> dsp_thread st \<and>
          (\<forall>b keys clocks. loop_iteration dd keys clocks None (b, st) =
             (b\<lparr> tb_buf := [] \<rparr>, dispatch_all dd (map (\<lambda>(i, ev). (keys i, clocks i, ev)) (enumerate 0 (tb_buf b))) st))))"
proof -
  from handshake_outcome[OF assms(1), where deps = deps and env = env and backend = backend and header = header] assms(2)
  have l: "learner_of deps env header d claims es" and a: "admission env backend d (committed db') es True" by simp_all
  from l have sid: "uuid_of_string (sc_session_id claims) = Inr (es_id es)" by (simp add: learner_of_def)
  let ?cfg = "dispatcher_config_of es (es_id es) True"
  show ?thesis
  proof (cases "new_frame_dispatcher dd ?cfg")
    case (Inl e)
    with sid a show ?thesis by (auto simp: set_up_session_def admission_def)
  next
    case (Inr st0)
    define st where "st = st0\<lparr> dsp_stop := False, dsp_thread := True \<rparr>"
    from Inr have st0: "dsp_thread st0 = False" "dsp_config st0 = ?cfg" "configured dd st0"
      using new_configured[OF Inr] by (auto simp: new_frame_dispatcher_def bind_err_eq_Inr split: sum.splits)
    have unavailable: "fc_identity_backend_unavailable ?cfg" by (simp add: dispatcher_config_of_def)
    have up: "set_up_session dd deps claims es True = Inl (Some st, ModelRaised (AttributeError ''FrameDispatcher object has no attribute _decision_queue''))"
      by (simp add: set_up_session_def sid Inr start_dispatcher_def st0 emit_identity_unavailable_flag_def Let_def
          unavailable st_def)
    have go: "configured dd st" "\<not> dsp_stop st" using st0 by (simp_all add: configured_def st_def)
    have "\<not> dsp_stop (dispatch_all dd ks st) \<and> configured dd (dispatch_all dd ks st)" for ks
    proof (induction ks rule: rev_induct)
      case Nil
      show ?case using go by simp
    next
      case (snoc k ks)
      then show ?case using counted_keeps[of dd "dispatch_all dd ks st" k] by simp
    qed
    then have "loop_iteration dd keys clocks None (b, st) =
        (b\<lparr> tb_buf := [] \<rparr>, dispatch_all dd (map (\<lambda>(i, ev). (keys i, clocks i, ev)) (enumerate 0 (tb_buf b))) st)" for b keys clocks
      using go(2) by (simp add: loop_iteration_def tb_drain_def Let_def dispatch_all_def)
    with up a Inr show ?thesis by (auto simp: admission_def st_def)
  qed
qed

definition demo_override :: identity_override where
  "demo_override = \<lparr> io_id = 60, io_exam_session_id = 1, io_requested_by_admin_id = 20, io_department = ''cs'',
     io_reason = ''camera'', io_status = OR_APPROVED, io_approved_by_admin_id = Some 21, io_valid_from = 0,
     io_valid_until = 900000000, io_decided_at = Some 1, io_created_at = 1 \<rparr>"

definition demo_overridden :: database where
  "demo_overridden = demo_waiting\<lparr> db_identity_overrides := [demo_override] \<rparr>"

lemma demo_overridden_ok: "db_ok demo_overridden"
  by code_simp

lemma demo_ws_overridden:
  "snd (snd (ws_handshake demo_ws_deps demo_ws_env NotInstalled (Some ''proctoring-v1.good'') (open_session demo_overridden)))
   = Admitted demo_ws_claims (demo_session\<lparr> es_status := SS_PENDING \<rparr>) True"
  unfolding ws_handshake_def demo_ws_token by code_simp

theorem override_session_crashes_witness:
  "\<exists>left e. set_up_session demo_dispatch demo_ws_deps demo_ws_claims (demo_session\<lparr> es_status := SS_PENDING \<rparr>) True = Inl (left, e)"
proof -
  obtain db' outs h where r: "ws_handshake demo_ws_deps demo_ws_env NotInstalled (Some ''proctoring-v1.good'') (open_session demo_overridden)
      = (db', outs, h)" by (metis prod_cases3)
  with demo_ws_overridden have "ws_handshake demo_ws_deps demo_ws_env NotInstalled (Some ''proctoring-v1.good'')
      (open_session demo_overridden) = (db', outs, Admitted demo_ws_claims (demo_session\<lparr> es_status := SS_PENDING \<rparr>) True)" by simp
  from override_session_crashes[OF demo_overridden_ok this, of demo_dispatch]
  show ?thesis by (elim exE conjE) (intro exI)
qed

end
