(* ===== verification/LiveSession.thy ===== *)
theory LiveSession
  imports WsProps FlagWorker "HOL-Library.Sublist"
begin

text \<open>
  A session in progress: the endpoint of \<^verbatim>\<open>websocket/routes.py\<close> starts a dispatcher thread, a
  persistence worker thread and the kill-switch drain task beside the message loop, and stops them
  when the loop ends.  They meet in three places: the shared telemetry buffer, the dispatcher's queue of
  decisions and the queue of kill-switches.  A turn of one of them is a step; the order of
  turns is arbitrary, other connections may push to and drain the shared buffer, and other requests
  may extend the database in between.

  The dispatcher's queue keeps all its items here and \<open>lv_taken\<close> counts those the worker has
  taken.  \<open>lv_log\<close> records the messages the dispatcher has handled; nothing reads it.
\<close>

section \<open>State and turns\<close>

record 'i live_session =
  lv_conn :: ws_conn
  lv_dispatcher :: "'i frame_dispatcher"
  lv_taken :: nat
  lv_worker :: worker
  lv_worker_stop :: bool
  lv_kill_queue :: "kill_call list"
  lv_log :: "client_message list"

definition live_start ::
  "session_claims \<Rightarrow> 'i frame_dispatcher \<Rightarrow> delivery_service \<Rightarrow> telemetry_event_buffer \<Rightarrow> ws_out list \<Rightarrow> database
   \<Rightarrow> 'i live_session" where
  "live_start claims st delivery buffer outs d =
     \<lparr> lv_conn = new_ws_conn claims delivery buffer outs, lv_dispatcher = st, lv_taken = 0, lv_worker = new_worker d,
       lv_worker_stop = False, lv_kill_queue = [], lv_log = [] \<rparr>"

text \<open>The dispatcher's loop drains the shared buffer.\<close>

definition handled_now :: "nat option \<Rightarrow> 'i live_session \<Rightarrow> buffered_event list" where
  "handled_now stop_after ls =
     (if dsp_stop (lv_dispatcher ls) then []
      else (case stop_after of None \<Rightarrow> tb_buf (wc_buffer (lv_conn ls)) | Some n \<Rightarrow> take n (tb_buf (wc_buffer (lv_conn ls)))))"

definition loop_turn ::
  "'i dispatch_deps \<Rightarrow> (nat \<Rightarrow> uuid) \<Rightarrow> (nat \<Rightarrow> nat \<Rightarrow> timestamp) \<Rightarrow> nat option \<Rightarrow> 'i live_session \<Rightarrow> 'i live_session" where
  "loop_turn dd keys clocks stop_after ls =
     (case loop_iteration dd keys clocks stop_after (wc_buffer (lv_conn ls), lv_dispatcher ls) of
        (b, st) \<Rightarrow> ls\<lparr> lv_conn := (lv_conn ls)\<lparr> wc_buffer := b \<rparr>, lv_dispatcher := st,
                      lv_log := lv_log ls @ map be_message (handled_now stop_after ls) \<rparr>)"

text \<open>The worker takes the next item; \<^verbatim>\<open>_on_kill_switch\<close> queues what it calls back.\<close>

definition worker_turn ::
  "float_arith \<Rightarrow> (rat \<Rightarrow> rat) \<Rightarrow> bool \<Rightarrow> uuid \<Rightarrow> stamp \<Rightarrow> 'i live_session \<Rightarrow> 'i live_session" where
  "worker_turn fa num er sid st ls =
     (if lv_worker_stop ls \<or> length (dsp_flag_decisions (lv_dispatcher ls)) \<le> lv_taken ls then ls
      else (let item = dsp_flag_decisions (lv_dispatcher ls) ! lv_taken ls;
                w = worker_step fa num er True sid (lv_worker ls) (st, item) in
            ls\<lparr> lv_taken := lv_taken ls + 1, lv_worker := w,
                lv_kill_queue := lv_kill_queue ls @ drop (length (w_calls (lv_worker ls))) (w_calls w) \<rparr>))"

definition drain_turn :: "rat \<Rightarrow> bool \<Rightarrow> 'i live_session \<Rightarrow> 'i live_session" where
  "drain_turn monotonic send_ok ls =
     (case lv_kill_queue ls of
        [] \<Rightarrow> ls
      | (flag_id, reason) # rest \<Rightarrow>
          ls\<lparr> lv_conn := drain_kill_switch monotonic send_ok flag_id reason (lv_conn ls), lv_kill_queue := rest \<rparr>)"

text \<open>The \<^verbatim>\<open>finally\<close> clause.\<close>

definition tear_down :: "'i live_session \<Rightarrow> 'i live_session" where
  "tear_down ls = ls\<lparr> lv_worker_stop := True, lv_dispatcher := stop_dispatcher (lv_dispatcher ls) \<rparr>"

text \<open>What can happen on the socket or, by others, to the buffer: other connections push messages
  that passed the same checks.\<close>

definition outside_event :: "ws_event \<Rightarrow> bool" where
  "outside_event ev \<longleftrightarrow>
     (case ev of KillSwitchDue _ _ _ _ \<Rightarrow> False | Shared (Push _ msg) \<Rightarrow> check_message msg | _ \<Rightarrow> True)"

inductive live_step ::
  "'i dispatch_deps \<Rightarrow> (string \<Rightarrow> jval option) \<Rightarrow> (client_message_type \<Rightarrow> jdict \<Rightarrow> client_message option)
   \<Rightarrow> float_arith \<Rightarrow> (rat \<Rightarrow> rat) \<Rightarrow> bool \<Rightarrow> uuid \<Rightarrow> 'i live_session \<Rightarrow> 'i live_session \<Rightarrow> bool"
  for dd loads decode fa num er sid where
  Socket: "outside_event ev \<Longrightarrow>
     live_step dd loads decode fa num er sid ls (ls\<lparr> lv_conn := ws_step loads decode ev (lv_conn ls) \<rparr>)"
| Loop: "live_step dd loads decode fa num er sid ls (loop_turn dd keys clocks stop_after ls)"
| Work: "live_step dd loads decode fa num er sid ls (worker_turn fa num er sid st ls)"
| DrainQueue: "wc_status (lv_conn ls) = Receiving \<Longrightarrow>
     live_step dd loads decode fa num er sid ls (drain_turn monotonic send_ok ls)"
| TearDown: "wc_status (lv_conn ls) \<noteq> Receiving \<Longrightarrow> live_step dd loads decode fa num er sid ls (tear_down ls)"
| Elsewhere: "grows (w_db (lv_worker ls)) d \<Longrightarrow>
     live_step dd loads decode fa num er sid ls (ls\<lparr> lv_worker := (lv_worker ls)\<lparr> w_db := d \<rparr> \<rparr>)"

inductive live_run ::
  "'i dispatch_deps \<Rightarrow> (string \<Rightarrow> jval option) \<Rightarrow> (client_message_type \<Rightarrow> jdict \<Rightarrow> client_message option)
   \<Rightarrow> float_arith \<Rightarrow> (rat \<Rightarrow> rat) \<Rightarrow> bool \<Rightarrow> uuid \<Rightarrow> 'i live_session \<Rightarrow> 'i live_session \<Rightarrow> bool"
  for dd loads decode fa num er sid where
  Start: "live_run dd loads decode fa num er sid ls ls"
| Turn: "live_run dd loads decode fa num er sid ls ls1 \<Longrightarrow> live_step dd loads decode fa num er sid ls1 ls2
     \<Longrightarrow> live_run dd loads decode fa num er sid ls ls2"

section \<open>The dispatcher side\<close>

lemma emit_appends: "\<exists>new. dsp_flag_decisions (emit ds st) = dsp_flag_decisions st @ new"
proof (induction ds arbitrary: st)
  case (Cons d ds)
  obtain new where "dsp_flag_decisions (emit ds (emit_one d st)) = dsp_flag_decisions (emit_one d st) @ new"
    using Cons by blast
  then show ?case by (simp add: emit_one_def split: prod.splits)
qed simp

lemma works_appends: "works dd st tr st' \<Longrightarrow> \<exists>new. dsp_flag_decisions st' = dsp_flag_decisions st @ new"
proof (induction rule: works.induct)
  case (works_call st tr st1 ev)
  then obtain new1 where n1: "dsp_flag_decisions st1 = dsp_flag_decisions st @ new1" by blast
  obtain agg r where a: "agg_step (dd_fa dd) ev (dsp_aggregator st1) = (agg, r)" by fastforce
  show ?case
  proof (cases r)
    case (Inl e)
    with a n1 show ?thesis by (simp add: aggregate_def)
  next
    case (Inr ds)
    obtain new2 where "dsp_flag_decisions (emit ds (st1\<lparr> dsp_aggregator := agg \<rparr>)) = dsp_flag_decisions st1 @ new2"
      using emit_appends[of ds "st1\<lparr> dsp_aggregator := agg \<rparr>"] by auto
    with a n1 Inr show ?thesis by (simp add: aggregate_def)
  qed
qed (simp_all add: quiet_def)

definition dispatcher_inv :: "'i dispatch_deps \<Rightarrow> frame_dispatcher_config \<Rightarrow> client_message list \<Rightarrow> 'i frame_dispatcher \<Rightarrow> bool" where
  "dispatcher_inv dd cfg msgs st \<longleftrightarrow> configured dd st \<and> dsp_config st = cfg \<and>
     (\<exists>tr. queue_is dd cfg tr st \<and> map (\<lambda>x. fp_face_count (fst x)) (faces_of tr) = light_counts msgs)"

lemma dispatcher_inv_counted:
  assumes "dispatcher_inv dd cfg msgs st" "check_message (message_of k)"
  shows "dispatcher_inv dd cfg (msgs @ [message_of k]) (dispatch_counted dd k st) \<and>
    (\<exists>new. dsp_flag_decisions (dispatch_counted dd k st) = dsp_flag_decisions st @ new)"
proof -
  obtain eid clock event where k: "k = (eid, clock, event)" by (metis prod_cases3)
  from assms(1) obtain tr where c: "configured dd st" "dsp_config st = cfg" and
    tr: "queue_is dd cfg tr st" "map (\<lambda>x. fp_face_count (fst x)) (faces_of tr) = light_counts msgs"
    by (auto simp: dispatcher_inv_def)
  from counted_trace[OF c(1), of event eid clock] assms(2) obtain tr' where
    tr': "works dd (remember eid event st) tr' (dispatch_counted dd k st)"
      "map (\<lambda>x. fp_face_count (fst x)) (faces_of tr') = face_counts (message_of k)"
    by (auto simp: message_of_def k)
  have "faces_of (tr @ tr') = faces_of tr @ faces_of tr'" by (simp add: faces_of_def)
  with tr tr' queue_is_works[OF tr'(1)] have "\<exists>tr. queue_is dd cfg tr (dispatch_counted dd k st) \<and>
      map (\<lambda>x. fp_face_count (fst x)) (faces_of tr) = light_counts (msgs @ [message_of k])"
    by (intro exI[of _ "tr @ tr'"]) (simp add: light_counts_def)
  moreover from works_appends[OF tr'(1)] have "\<exists>new. dsp_flag_decisions (dispatch_counted dd k st) = dsp_flag_decisions st @ new"
    by simp
  ultimately show ?thesis using counted_keeps[OF c(1), of k] c(2) by (simp add: dispatcher_inv_def)
qed

lemma dispatcher_inv_all:
  assumes "dispatcher_inv dd cfg msgs st" "list_all check_message (map message_of ks)"
  shows "dispatcher_inv dd cfg (msgs @ map message_of ks) (dispatch_all dd ks st) \<and>
    (\<exists>new. dsp_flag_decisions (dispatch_all dd ks st) = dsp_flag_decisions st @ new)"
  using assms(2)
proof (induction ks rule: rev_induct)
  case Nil
  show ?case using assms(1) by simp
next
  case (snoc k ks)
  then have ih: "dispatcher_inv dd cfg (msgs @ map message_of ks) (dispatch_all dd ks st)"
    "\<exists>new. dsp_flag_decisions (dispatch_all dd ks st) = dsp_flag_decisions st @ new" "check_message (message_of k)" by auto
  from dispatcher_inv_counted[OF ih(1,3)] ih(2) show ?case by auto
qed

lemma dispatcher_inv_flags [simp]:
  "dispatcher_inv dd cfg msgs (st\<lparr> dsp_stop := x \<rparr>) = dispatcher_inv dd cfg msgs st"
  "dispatcher_inv dd cfg msgs (st\<lparr> dsp_thread := y \<rparr>) = dispatcher_inv dd cfg msgs st"
  by (simp_all add: dispatcher_inv_def configured_def queue_is_def)

lemma loop_turn_sel:
  "wc_claims (lv_conn (loop_turn dd keys clocks stop_after ls)) = wc_claims (lv_conn ls)"
  "wc_sent (lv_conn (loop_turn dd keys clocks stop_after ls)) = wc_sent (lv_conn ls)"
  "wc_status (lv_conn (loop_turn dd keys clocks stop_after ls)) = wc_status (lv_conn ls)"
  "wc_delivery (lv_conn (loop_turn dd keys clocks stop_after ls)) = wc_delivery (lv_conn ls)"
  "lv_worker_stop (loop_turn dd keys clocks stop_after ls) = lv_worker_stop ls"
  "lv_taken (loop_turn dd keys clocks stop_after ls) = lv_taken ls"
  "lv_worker (loop_turn dd keys clocks stop_after ls) = lv_worker ls"
  "lv_kill_queue (loop_turn dd keys clocks stop_after ls) = lv_kill_queue ls"
  "lv_log (loop_turn dd keys clocks stop_after ls) = lv_log ls @ map be_message (handled_now stop_after ls)"
  by (simp_all add: loop_turn_def split: prod.splits)

definition buffer_checked :: "ws_conn \<Rightarrow> bool" where
  "buffer_checked c \<longleftrightarrow> list_all check_message (map be_message (tb_buf (wc_buffer c)))"

lemma loop_turn_dispatcher:
  assumes "dispatcher_inv dd cfg (lv_log ls) (lv_dispatcher ls)" "buffer_checked (lv_conn ls)"
  shows "dispatcher_inv dd cfg (lv_log (loop_turn dd keys clocks stop_after ls)) (lv_dispatcher (loop_turn dd keys clocks stop_after ls)) \<and>
    (\<exists>new. dsp_flag_decisions (lv_dispatcher (loop_turn dd keys clocks stop_after ls)) = dsp_flag_decisions (lv_dispatcher ls) @ new) \<and>
    buffer_checked (lv_conn (loop_turn dd keys clocks stop_after ls))"
proof (cases "dsp_stop (lv_dispatcher ls)")
  case True
  with assms show ?thesis by (simp add: loop_turn_def loop_iteration_def handled_now_def buffer_checked_def)
next
  case False
  define all where "all = map (\<lambda>(i, ev). (keys i, clocks i, ev)) (enumerate 0 (tb_buf (wc_buffer (lv_conn ls))))"
  define ks where "ks = (case stop_after of None \<Rightarrow> all | Some n \<Rightarrow> take n all)"
  have "map message_of all = map be_message (map snd (enumerate 0 (tb_buf (wc_buffer (lv_conn ls)))))"
    by (simp add: all_def message_of_def comp_def case_prod_unfold del: map_snd_enumerate)
  then have m: "map message_of all = map be_message (tb_buf (wc_buffer (lv_conn ls)))" by simp
  have ks: "map message_of ks = map be_message (handled_now stop_after ls)"
    using m False by (cases stop_after) (simp_all add: ks_def handled_now_def flip: take_map)
  have "list_all check_message (map message_of ks)"
  proof -
    have "set ks \<subseteq> set all" by (cases stop_after) (auto simp: ks_def dest: in_set_takeD)
    moreover have "list_all check_message (map message_of all)" unfolding m using assms(2) by (simp add: buffer_checked_def)
    ultimately show ?thesis by (auto simp: list_all_iff)
  qed
  note step = dispatcher_inv_all[OF assms(1) this]
  have "lv_dispatcher (loop_turn dd keys clocks stop_after ls)
      = (dispatch_all dd ks (lv_dispatcher ls))\<lparr> dsp_stop := dsp_stop (dispatch_all dd ks (lv_dispatcher ls)) \<or> stop_after \<noteq> None \<rparr>"
    "tb_buf (wc_buffer (lv_conn (loop_turn dd keys clocks stop_after ls))) = []"
    using False by (cases stop_after; simp add: loop_turn_def loop_iteration_def tb_drain_def Let_def dispatch_all_def ks_def all_def)+
  with step ks show ?thesis by (simp add: loop_turn_sel buffer_checked_def)
qed

section \<open>The invariant\<close>

text \<open>Calls the worker made: each for an item it took that terminates, with that item's rule.\<close>

definition called_for :: "'i live_session \<Rightarrow> kill_call \<Rightarrow> bool" where
  "called_for ls k \<longleftrightarrow> (\<exists>pf\<in>set (dsp_flag_decisions (lv_dispatcher ls)).
     fd_triggered_termination (pf_decision pf) \<and> snd k = fd_rule_code (pf_decision pf))"

definition wire_call :: "kill_call \<Rightarrow> jval \<times> jval" where
  "wire_call k = (JStr (fst k), JStr (snd k))"

definition live_inv :: "'i dispatch_deps \<Rightarrow> frame_dispatcher_config \<Rightarrow> uuid \<Rightarrow> database \<Rightarrow> 'i live_session \<Rightarrow> bool" where
  "live_inv dd cfg sid d0 ls \<longleftrightarrow>
     dispatcher_inv dd cfg (lv_log ls) (lv_dispatcher ls) \<and> buffer_checked (lv_conn ls) \<and>
     worker_inv sid d0 (lv_worker ls) \<and> list_all (called_for ls) (w_calls (lv_worker ls)) \<and>
     (\<exists>past. w_calls (lv_worker ls) = past @ lv_kill_queue ls \<and>
        subseq (wire_kills (wc_sent (lv_conn ls))) (map wire_call past))"

lemma called_for_mono:
  "dsp_flag_decisions (lv_dispatcher ls') = dsp_flag_decisions (lv_dispatcher ls) @ new \<Longrightarrow> called_for ls k \<Longrightarrow> called_for ls' k"
  by (auto simp: called_for_def)

lemma ws_step_kills:
  "outside_event ev \<Longrightarrow> wire_kills (wc_sent (ws_step loads decode ev c)) = wire_kills (wc_sent c)"
proof (cases ev)
  case (TextFrame raw now1 now2 ok)
  have h: "wire_kills (wc_sent (handle_message now1 now2 ok msg c)) = wire_kills (wc_sent c)" for msg
    by (cases msg) (simp_all add: handle_message_def acknowledge_effect close_loop_def send_out_def)
  show ?thesis unfolding TextFrame
    by (auto simp: receive_text_def close_loop_def send_out_def h
        split: option.splits jval.splits sum.splits parse_error.splits)
next
  case (HeartbeatDue outcome)
  then show ?thesis by (cases outcome) (simp_all add: heartbeat_tick_def send_out_def)
qed (simp_all add: outside_event_def)

lemma ws_step_checked:
  assumes "outside_event ev" "buffer_checked c"
  shows "buffer_checked (ws_step loads decode ev c)"
proof -
  have one: "buffer_checked c'" if "buffer_checked c" "wc_buffer c' = fst (buffer_step op (wc_buffer c, []))"
    "case op of Push _ msg \<Rightarrow> check_message msg | Drain \<Rightarrow> True" for c c' :: ws_conn and op
  proof (cases op)
    case (Push now msg)
    have "set (deque_append n xs x) \<subseteq> set xs \<union> {x}" for n and xs :: "buffered_event list" and x
      by (cases xs) (auto simp: deque_append_def)
    with that Push show ?thesis by (fastforce simp: buffer_checked_def tb_push_def Let_def list_all_iff)
  qed (use that in \<open>simp add: buffer_checked_def tb_drain_def\<close>)
  from ws_step_effect[of loads decode ev c] have b: "wc_buffer (ws_step loads decode ev c) = buffer_after (buffer_ops loads decode ev c) (wc_buffer c)"
    by (simp add: step_effect_def)
  show ?thesis
  proof (cases ev)
    case (TextFrame raw now1 now2 ok)
    from handles_cases[of loads decode ev c] show ?thesis
    proof (elim disjE exE conjE)
      assume "handles loads decode ev c = []"
      with b assms(2) show ?thesis by (simp add: TextFrame buffer_ops_def buffer_checked_def del: handles.simps)
    next
      fix msg assume h: "handles loads decode ev c = [msg]"
      then have "check_message msg" using handles_checked[of msg loads decode ev c] by simp
      with one[OF assms(2), of _ "Push now1 msg"] h b assms(2) show ?thesis
        by (cases "is_telemetry msg") (simp_all add: TextFrame buffer_ops_def buffer_checked_def del: handles.simps)
    qed
  next
    case (Shared op)
    with b assms show ?thesis by (intro one[OF assms(2)]) (auto simp: buffer_ops_def outside_event_def split: buffer_op.splits)
  qed (use b assms(2) in \<open>simp_all add: buffer_ops_def buffer_checked_def\<close>)
qed

lemma drain_effect:
  "wc_buffer (drain_kill_switch t ok fid reason c) = wc_buffer c \<and> wc_status (drain_kill_switch t ok fid reason c) = wc_status c \<and>
   (wire_kills (wc_sent (drain_kill_switch t ok fid reason c)) = wire_kills (wc_sent c) \<or>
    wire_kills (wc_sent (drain_kill_switch t ok fid reason c)) = wire_kills (wc_sent c) @ [wire_call (fid, reason)])"
  by (simp add: drain_kill_switch_def prepare_kill_switch_def send_out_def wire_call_def Let_def)

lemma worker_calls:
  assumes "worker_inv sid d0 w"
  shows "\<exists>calls. w_calls (worker_step fa num er cb sid w si) = w_calls w @ calls \<and>
    (\<forall>k\<in>set calls. fd_triggered_termination (pf_decision (snd si)) \<and> snd k = fd_rule_code (pf_decision (snd si)))"
proof -
  obtain d' r calls where p: "persist_one fa num er cb sid (fst si) (snd si) (w_db w) = (d', r, calls)"
    by (metis prod_cases3)
  have "db_ok (w_db w)" using assms by (simp add: worker_inv_def grows_def)
  with p have "\<forall>k\<in>set calls. fd_triggered_termination (pf_decision (snd si)) \<and> snd k = fd_rule_code (pf_decision (snd si))"
    by (cases rule: persist_one_cases) auto
  with p show ?thesis by (auto simp: worker_step_def split: sum.splits)
qed

lemma worker_inv_elsewhere:
  assumes "worker_inv sid d0 w" "grows (w_db w) d"
  shows "worker_inv sid d0 (w\<lparr> w_db := d \<rparr>)"
proof -
  have "has_key tr_exam_session_id (db_termination_records d) sid"
    if "has_key tr_exam_session_id (db_termination_records (w_db w)) sid"
    using that assms(2) by (auto simp: grows_def has_key_iff)
  moreover have "list_all (call_recorded sid d) (w_calls w)"
    using assms call_recorded_mono[OF assms(2)] by (auto simp: worker_inv_def list_all_iff)
  ultimately show ?thesis using assms grows_trans by (auto simp: worker_inv_def)
qed

lemma live_inv_worker:
  assumes "live_inv dd cfg sid d0 ls"
  shows "live_inv dd cfg sid d0 (worker_turn fa num er sid st ls)"
proof (cases "lv_worker_stop ls \<or> length (dsp_flag_decisions (lv_dispatcher ls)) \<le> lv_taken ls")
  case True
  with assms show ?thesis by (simp add: worker_turn_def)
next
  case False
  define item where "item = dsp_flag_decisions (lv_dispatcher ls) ! lv_taken ls"
  define w where "w = worker_step fa num er True sid (lv_worker ls) (st, item)"
  have item: "item \<in> set (dsp_flag_decisions (lv_dispatcher ls))" using False by (simp add: item_def)
  have inv: "worker_inv sid d0 (lv_worker ls)" using assms by (simp add: live_inv_def)
  from worker_calls[OF inv, of fa num er True "(st, item)"] obtain calls where
    calls: "w_calls w = w_calls (lv_worker ls) @ calls"
      "\<forall>k\<in>set calls. fd_triggered_termination (pf_decision item) \<and> snd k = fd_rule_code (pf_decision item)"
    by (auto simp: w_def)
  have turn: "worker_turn fa num er sid st ls = ls\<lparr> lv_taken := lv_taken ls + 1, lv_worker := w, lv_kill_queue := lv_kill_queue ls @ calls \<rparr>"
    using False by (simp add: worker_turn_def Let_def calls(1) flip: item_def w_def)
  have "list_all (called_for (worker_turn fa num er sid st ls)) (w_calls w)"
    using assms calls item by (auto simp: turn live_inv_def called_for_def list_all_iff)
  moreover have "worker_inv sid d0 w" unfolding w_def by (rule worker_inv_step[OF inv])
  ultimately show ?thesis using assms calls by (auto simp: live_inv_def turn)
qed

lemma live_inv_step:
  assumes "live_step dd loads decode fa num er sid ls ls'" "live_inv dd cfg sid d0 ls"
  shows "live_inv dd cfg sid d0 ls'"
  using assms
proof (induction rule: live_step.induct)
  case (Socket ev ls)
  then show ?case using ws_step_kills[OF Socket(1), of loads decode "lv_conn ls"] ws_step_checked[OF Socket(1), of "lv_conn ls" loads decode]
    by (simp add: live_inv_def called_for_def[abs_def])
next
  case (Loop ls keys clocks stop_after)
  let ?ls = "loop_turn dd keys clocks stop_after ls"
  have "dispatcher_inv dd cfg (lv_log ls) (lv_dispatcher ls)" "buffer_checked (lv_conn ls)"
    using Loop by (simp_all add: live_inv_def)
  note d = loop_turn_dispatcher[OF this, of keys clocks stop_after]
  then obtain new where "dsp_flag_decisions (lv_dispatcher ?ls) = dsp_flag_decisions (lv_dispatcher ls) @ new" by blast
  from called_for_mono[OF this] have "list_all (called_for ls) ks \<Longrightarrow> list_all (called_for ?ls) ks" for ks
    by (auto simp: list_all_iff)
  with d Loop show ?case by (simp add: live_inv_def loop_turn_sel)
next
  case (Work ls st)
  then show ?case by (rule live_inv_worker)
next
  case (DrainQueue ls t ok)
  show ?case
  proof (cases "lv_kill_queue ls")
    case Nil
    with DrainQueue show ?thesis by (simp add: drain_turn_def)
  next
    case (Cons k rest)
    from DrainQueue(2) obtain don where don: "w_calls (lv_worker ls) = don @ k # rest"
      "subseq (wire_kills (wc_sent (lv_conn ls))) (map wire_call don)" by (auto simp: live_inv_def Cons)
    from drain_effect[of t ok "fst k" "snd k" "lv_conn ls"] don(2)
    have "subseq (wire_kills (wc_sent (drain_kill_switch t ok (fst k) (snd k) (lv_conn ls)))) (map wire_call (don @ [k]))"
      by (auto intro: list_emb_append_mono subseq_rev_drop_many)
    with DrainQueue don(1) show ?thesis using drain_effect[of t ok "fst k" "snd k" "lv_conn ls"]
      by (cases k) (auto simp: live_inv_def drain_turn_def Cons called_for_def[abs_def] buffer_checked_def intro!: exI[of _ "don @ [k]"])
  qed
next
  case (TearDown ls)
  then show ?case by (simp add: live_inv_def tear_down_def stop_dispatcher_def called_for_def[abs_def])
next
  case (Elsewhere ls d)
  then show ?case using worker_inv_elsewhere by (simp add: live_inv_def called_for_def[abs_def])
qed

lemma live_inv_run:
  "live_run dd loads decode fa num er sid ls ls' \<Longrightarrow> live_inv dd cfg sid d0 ls \<Longrightarrow> live_inv dd cfg sid d0 ls'"
  by (induction rule: live_run.induct) (auto intro: live_inv_step)

lemma live_inv_start:
  assumes "set_up_session dd deps claims es u = Inr (st, delivery)" "uuid_of_string (sc_session_id claims) = Inr sid"
    and "db_ok d" "buffer_checked (new_ws_conn claims delivery buffer outs)" "wire_kills outs = []"
  shows "live_inv dd (dispatcher_config_of es sid u) sid d (live_start claims st delivery buffer outs d)"
proof -
  from set_up_policy[OF assms(1)] assms(2) obtain st0 where
    st: "new_frame_dispatcher dd (dispatcher_config_of es sid u) = Inr st0" "st = st0\<lparr> dsp_stop := False, dsp_thread := True \<rparr>"
    by auto
  have "dispatcher_inv dd (dispatcher_config_of es sid u) [] st0"
    using new_configured[OF st(1)] new_queue[OF st(1)]
    by (auto simp: dispatcher_inv_def light_counts_def faces_of_def)
  moreover have "worker_inv sid d (new_worker d)"
    using assms(3) by (simp add: worker_inv_def new_worker_def grows_refl)
  ultimately show ?thesis using assms(4,5)
    by (simp add: live_inv_def live_start_def st(2) new_worker_def) (simp add: new_ws_conn_def)
qed

lemma faces_behind_decision:
  assumes "dispatcher_inv dd cfg msgs st" "pf \<in> set (dsp_flag_decisions st)" "fd_rule_code (pf_decision pf) = RULE_SECOND_PERSON"
    and "ps_terminate_on_second_face (fc_policy_snapshot cfg)" "0 < n" "ps_second_face_confirmation_frames (fc_policy_snapshot cfg) = int n"
  shows "has_run n (\<lambda>c. 2 \<le> c) (light_counts msgs)"
proof -
  from assms(1) obtain tr where tr: "queue_is dd cfg tr st"
    "map (\<lambda>x. fp_face_count (fst x)) (faces_of tr) = light_counts msgs" unfolding dispatcher_inv_def by blast
  have "pf_decision pf \<in> set (of_rule RULE_SECOND_PERSON (map pf_decision (dsp_flag_decisions st)))"
    using assms(2,3) by (simp add: of_rule_def)
  moreover have "map pf_decision (dsp_flag_decisions st)
      = snd (agg_run (dd_fa dd) tr (new_session_aggregator (fc_policy_snapshot cfg) (fc_context cfg)))"
    using tr(1) unfolding queue_is_def by (metis snd_conv)
  moreover note second_person_run[OF assms(4-6), of tr "dd_fa dd" "fc_context cfg"]
  ultimately have "has_run n two_faces (faces_of tr)" by (auto simp: second_person_inv_def split: if_splits)
  then show ?thesis
    using has_run_map[of n "\<lambda>c. 2 \<le> c" "\<lambda>x. fp_face_count (fst x)" "faces_of tr"] tr(2)
    by (simp add: two_faces_def[abs_def] comp_def)
qed

lemma live_inv_one_kill:
  assumes "live_inv dd cfg sid d ls"
  shows "length (wire_kills (wc_sent (lv_conn ls))) \<le> 1"
    "k \<in> set (wire_kills (wc_sent (lv_conn ls))) \<Longrightarrow> \<exists>c\<in>set (w_calls (lv_worker ls)). k = wire_call c"
proof -
  from assms obtain past where past: "w_calls (lv_worker ls) = past @ lv_kill_queue ls"
    "subseq (wire_kills (wc_sent (lv_conn ls))) (map wire_call past)" and w: "worker_inv sid d (lv_worker ls)"
    unfolding live_inv_def by blast
  have "length (wire_kills (wc_sent (lv_conn ls))) \<le> length past" using list_emb_length[OF past(2)] by simp
  moreover have "length past \<le> 1" using w past(1) by (simp add: worker_inv_def)
  ultimately show "length (wire_kills (wc_sent (lv_conn ls))) \<le> 1" by simp
  have "set (wire_kills (wc_sent (lv_conn ls))) \<subseteq> set (map wire_call past)"
    using past(2) by (metis notin_set_nthsI subseq_conv_nths subsetI)
  then show "k \<in> set (wire_kills (wc_sent (lv_conn ls))) \<Longrightarrow> \<exists>c\<in>set (w_calls (lv_worker ls)). k = wire_call c"
    by (auto simp: past(1))
qed

text \<open>C2: In any interleaving of socket, dispatcher, worker, kill-switch drain, other connections and other
  requests, a session's client is sent at most one kill-switch.  When it is sent, the committed
  database holds a terminating flag of this session and the session's termination record naming that
  flag, the message carries that flag's id and the recorded reason, and the reason is the rule of a
  terminating decision that the dispatcher had queued; and if the reason is a second person, then
  among the messages the dispatcher handled there are three consecutive face reports with two or
  more faces.\<close>

theorem kill_switch_justified:
  assumes "set_up_session dd deps claims es u = Inr (st, delivery)" "uuid_of_string (sc_session_id claims) = Inr sid"
    and "db_ok d" "buffer_checked (new_ws_conn claims delivery buffer outs)" "wire_kills outs = []"
    and "live_run dd loads decode fa num er sid (live_start claims st delivery buffer outs d) ls"
  shows "length (wire_kills (wc_sent (lv_conn ls))) \<le> 1 \<and>
    (\<forall>k\<in>set (wire_kills (wc_sent (lv_conn ls))). \<exists>f t pf.
       f \<in> set (db_flags (w_db (lv_worker ls))) \<and> t \<in> set (db_termination_records (w_db (lv_worker ls))) \<and>
       fl_triggered_termination f \<and> fl_exam_session_id f = sid \<and> tr_exam_session_id t = sid \<and>
       tr_triggering_flag_id t = Some (fl_id f) \<and> k = (JStr (uuid_str (fl_id f)), JStr (tr_reason t)) \<and>
       pf \<in> set (dsp_flag_decisions (lv_dispatcher ls)) \<and> fd_triggered_termination (pf_decision pf) \<and>
       tr_reason t = fd_rule_code (pf_decision pf) \<and>
       (tr_reason t = RULE_SECOND_PERSON \<longrightarrow> has_run 3 (\<lambda>c. 2 \<le> c) (light_counts (lv_log ls))))"
proof -
  let ?cfg = "dispatcher_config_of es sid u"
  have inv: "live_inv dd ?cfg sid d ls"
    by (rule live_inv_run[OF assms(6) live_inv_start[OF assms(1-5)]])
  then have w: "worker_inv sid d (lv_worker ls)" and called: "list_all (called_for ls) (w_calls (lv_worker ls))"
    and disp: "dispatcher_inv dd ?cfg (lv_log ls) (lv_dispatcher ls)"
    unfolding live_inv_def by blast+
  have "ps_terminate_on_second_face (fc_policy_snapshot ?cfg)" "(0::nat) < 3"
    "ps_second_face_confirmation_frames (fc_policy_snapshot ?cfg) = int 3"
    by (simp_all add: dispatcher_config_of_def routes_policy_snapshot_def)
  note run = faces_behind_decision[OF disp _ _ this]
  show ?thesis
  proof (intro conjI ballI)
    fix k assume "k \<in> set (wire_kills (wc_sent (lv_conn ls)))"
    from live_inv_one_kill(2)[OF inv this] obtain c where c: "c \<in> set (w_calls (lv_worker ls))" and k: "k = wire_call c" by blast
    from c w have "call_recorded sid (w_db (lv_worker ls)) c" by (auto simp: worker_inv_def list_all_iff)
    then obtain f t where ft: "f \<in> set (db_flags (w_db (lv_worker ls)))" "t \<in> set (db_termination_records (w_db (lv_worker ls)))"
       "fl_triggered_termination f" "fl_exam_session_id f = sid" "tr_exam_session_id t = sid"
       "tr_triggering_flag_id t = Some (fl_id f)" "c = (uuid_str (fl_id f), tr_reason t)"
      unfolding call_recorded_def by blast
    from c called have "called_for ls c" by (auto simp: list_all_iff)
    then obtain pf where pf: "pf \<in> set (dsp_flag_decisions (lv_dispatcher ls))" "fd_triggered_termination (pf_decision pf)"
      "tr_reason t = fd_rule_code (pf_decision pf)" by (auto simp: called_for_def ft(7))
    show "\<exists>f t pf. f \<in> set (db_flags (w_db (lv_worker ls))) \<and> t \<in> set (db_termination_records (w_db (lv_worker ls))) \<and>
       fl_triggered_termination f \<and> fl_exam_session_id f = sid \<and> tr_exam_session_id t = sid \<and>
       tr_triggering_flag_id t = Some (fl_id f) \<and> k = (JStr (uuid_str (fl_id f)), JStr (tr_reason t)) \<and>
       pf \<in> set (dsp_flag_decisions (lv_dispatcher ls)) \<and> fd_triggered_termination (pf_decision pf) \<and>
       tr_reason t = fd_rule_code (pf_decision pf) \<and>
       (tr_reason t = RULE_SECOND_PERSON \<longrightarrow> has_run 3 (\<lambda>c. 2 \<le> c) (light_counts (lv_log ls)))"
      using ft pf run[OF pf(1)] k
      by (intro exI[of _ f] exI[of _ t] exI[of _ pf]) (simp add: wire_call_def)
  qed (rule live_inv_one_kill(1)[OF inv])
qed

section \<open>A session that ends\<close>

text \<open>Three frames with two faces, one turn of each party, and the kill-switch is on the wire.\<close>

definition demo_live_dispatcher :: "unit frame_dispatcher" where
  "demo_live_dispatcher = demo_dispatcher\<lparr> dsp_config := dispatcher_config_of demo_session 1 False,
     dsp_aggregator := new_session_aggregator routes_policy_snapshot (session_context_of demo_session 1),
     dsp_thread := True \<rparr>"

definition demo_empty_buffer :: telemetry_event_buffer where
  "demo_empty_buffer = \<lparr> tb_maxlen = 8, tb_buf = [], tb_seq = 0, tb_dropped = 0 \<rparr>"

definition demo_live :: "unit live_session" where
  "demo_live = live_start demo_ws_claims demo_live_dispatcher (new_delivery_service 30 3) demo_empty_buffer [Accepted None] demo_db"

definition demo_socket :: "ws_event \<Rightarrow> unit live_session \<Rightarrow> unit live_session" where
  "demo_socket ev ls = ls\<lparr> lv_conn := ws_step demo_loads demo_decode ev (lv_conn ls) \<rparr>"

definition demo_watched :: "unit live_session" where
  "demo_watched = demo_socket (TextFrame ''frame'' 3 3 True) (demo_socket (TextFrame ''frame'' 2 2 True)
     (demo_socket (TextFrame ''frame'' 1 1 True) demo_live))"

definition demo_looped :: "unit live_session" where
  "demo_looped = loop_turn demo_dispatch (\<lambda>i. 90 + of_nat i) (\<lambda>_ _. 0) None demo_watched"

definition demo_flagged :: "unit live_session" where
  "demo_flagged = worker_turn exact_arith id True 1 (demo_stamp 5) demo_looped"

definition demo_ended :: "unit live_session" where
  "demo_ended = drain_turn 9 True demo_flagged"

lemma demo_set_up:
  "set_up_session demo_dispatch demo_ws_deps demo_ws_claims demo_session False
   = Inr (demo_live_dispatcher, new_delivery_service 30 3)"
  by (simp add: set_up_session_def demo_ws_claims_def uuid_of_uuid_str new_frame_dispatcher_def dispatcher_config_of_def
      demo_dispatch_def demo_live_dispatcher_def demo_dispatcher_def new_modality_scheduler_def default_modality_scheduler_def
      choose_identity_backend_def choose_liveness_runner_def routes_policy_snapshot_def start_dispatcher_def demo_ws_deps_def Let_def)

definition demo_reported :: "nat \<Rightarrow> buffered_event" where
  "demo_reported i = \<lparr> be_message = demo_frame, be_received_at = int i + 1, be_seq = int i, be_synthetic_id = Some (90 + of_nat i) \<rparr>"

definition demo_crowd_item :: persisted_flag where
  "demo_crowd_item = \<lparr> pf_decision = \<lparr> fd_rule_code = ''second_person'', fd_severity = ''critical'', fd_confidence = point (1/2),
       fd_triggered_termination = True, fd_suppressed_by_exemption_id = None,
       fd_detail = [(''face_count'', JInt 2), (''confirmation_frames'', JInt 3)],
       fd_contributing_event_ids = [90, 91, 92], fd_score_delta = 0 \<rparr>,
     pf_contributing_events = [demo_reported 0, demo_reported 1, demo_reported 2] \<rparr>"

lemma demo_watched_rest:
  "lv_taken demo_watched = 0" "lv_kill_queue demo_watched = []" "lv_worker demo_watched = new_worker demo_db"
  "\<not> lv_worker_stop demo_watched"
  by (simp_all add: demo_watched_def demo_socket_def demo_live_def live_start_def)

lemma uuid_str_nonempty: "uuid_str u \<noteq> []"
  by (simp add: uuid_str_def Let_def)

lemma demo_frame_checked: "check_message demo_frame"
  by (simp add: demo_frame_def check_envelope_def check_telemetry_light_def bbox_values_normalised_def Suc_le_eq uuid_str_nonempty)

lemma demo_frame_accepted: "accepted_message demo_loads demo_decode (uuid_str 1) ''frame'' = Some demo_frame"
  using demo_frame_checked
  by (simp add: accepted_message_def demo_loads_def parse_client_message_def dict_get_def TYPE_TO_MODEL_def demo_decode_def)
     (simp add: demo_frame_def)

definition demo_sent :: "nat \<Rightarrow> buffered_event" where
  "demo_sent i = (demo_reported i)\<lparr> be_synthetic_id := None \<rparr>"

text \<open>A frame with two faces, below the third and at the third.\<close>

lemma two_faces_step:
  fixes ev eid clock and st :: "unit frame_dispatcher"
  assumes "be_message ev = demo_frame" "sa_policy (dsp_aggregator st) = routes_policy_snapshot"
    "\<not> sa_second_person_fired (dsp_aggregator st)"
  defines "mp \<equiv> (dsp_event_map st)(eid \<mapsto> ev\<lparr> be_synthetic_id := Some eid \<rparr>)"
    and "agg \<equiv> (dsp_aggregator st)\<lparr> sa_consecutive_second_person_frames := sa_consecutive_second_person_frames (dsp_aggregator st) + 1,
           sa_second_person_event_ids := sa_second_person_event_ids (dsp_aggregator st) @ [eid] \<rparr>"
  shows "sa_consecutive_second_person_frames agg < 3 \<Longrightarrow> dispatch_counted demo_dispatch (eid, clock, ev) st =
      st\<lparr> dsp_event_map := mp, dsp_aggregator := agg, dsp_processed := dsp_processed st + 1 \<rparr>"
    "3 \<le> sa_consecutive_second_person_frames agg \<Longrightarrow> dsp_flag_decisions (dispatch_counted demo_dispatch (eid, clock, ev) st) =
      dsp_flag_decisions st @ [\<lparr> pf_decision = pf_decision demo_crowd_item\<lparr> fd_contributing_event_ids := sa_second_person_event_ids agg \<rparr>,
         pf_contributing_events = fst (take_events (sa_second_person_event_ids agg) mp) \<rparr>]"
  using assms(1-3) unfolding mp_def agg_def
  by (simp_all add: dispatch_counted_def dispatch_event_def dispatch_light_def demo_frame_def mk_point_interval_def
      mk_confidence_interval_def aggregate_def process_face_presence_def returns_def light_result_def routes_policy_snapshot_def
      demo_crowd_item_def emit_one_def default_flag_decision_def point_def RULE_SECOND_PERSON_def SEV_CRITICAL_def in_unit_def Let_def
      split: prod.splits)

lemma demo_dispatched:
  "dsp_flag_decisions (dispatch_all demo_dispatch [(90, c0, demo_sent 0), (91, c1, demo_sent 1), (92, c2, demo_sent 2)]
     demo_live_dispatcher) = [demo_crowd_item]"
proof -
  have m: "be_message (demo_sent i) = demo_frame" for i by (simp add: demo_sent_def demo_reported_def)
  have a: "dsp_aggregator demo_live_dispatcher = new_session_aggregator routes_policy_snapshot (session_context_of demo_session 1)"
    "dsp_event_map demo_live_dispatcher = (\<lambda>_. None)" "dsp_flag_decisions demo_live_dispatcher = []"
    by (simp_all add: demo_live_dispatcher_def demo_dispatcher_def)
  have r: "(demo_sent i)\<lparr> be_synthetic_id := Some (90 + of_nat i) \<rparr> = demo_reported i" for i
    by (simp add: demo_sent_def demo_reported_def)
  show ?thesis
    using r[of 0] r[of 1] r[of 2]
    by (simp add: two_faces_step m a) (simp add: demo_crowd_item_def)
qed

lemma demo_receive:
  assumes "wc_status c = Receiving" "wc_claims c = demo_ws_claims"
  shows "ws_step demo_loads demo_decode (TextFrame ''frame'' t t' True) c =
    c\<lparr> wc_buffer := fst (tb_push t demo_frame (wc_buffer c)), wc_delivery := fst (next_ack t' (wc_delivery c)),
       wc_sent := wc_sent c @ [SendJson (to_json_dict (snd (next_ack t' (wc_delivery c))))] \<rparr>"
proof -
  have "receive_text demo_loads demo_decode ''frame'' t t' True c = handle_message t t' True demo_frame c"
    using demo_frame_checked
    by (simp add: receive_text_def demo_loads_def parse_client_message_def dict_get_def TYPE_TO_MODEL_def demo_decode_def)
  then show ?thesis using assms
    by (simp add: handle_message_def demo_frame_def demo_ws_claims_def acknowledge_def next_ack_def send_out_def)
qed

lemma wire_kills_cons: "wire_kills (x # y # ys) = wire_kills [x] @ wire_kills (y # ys)"
  using wire_append(4)[of "[x]" "y # ys"] by simp

lemma demo_watched_conn:
  "wc_status (lv_conn demo_watched) = Receiving" "wire_kills (wc_sent (lv_conn demo_watched)) = []"
  "ds_pending_kill (wc_delivery (lv_conn demo_watched)) = None"
  "tb_buf (wc_buffer (lv_conn demo_watched)) = [demo_sent 0, demo_sent 1, demo_sent 2]"
  by (simp_all add: demo_watched_def demo_socket_def demo_live_def live_start_def new_ws_conn_def demo_receive next_ack_def
      new_delivery_service_def demo_empty_buffer_def tb_push_def deque_append_def demo_sent_def demo_reported_def wire_kills_cons Let_def
      del: ws_step.simps)

lemma demo_looped_queue: "dsp_flag_decisions (lv_dispatcher demo_looped) = [demo_crowd_item]"
proof -
  have d: "lv_dispatcher demo_watched = demo_live_dispatcher" "\<not> dsp_stop demo_live_dispatcher"
    by (simp_all add: demo_watched_def demo_socket_def demo_live_def live_start_def demo_live_dispatcher_def demo_dispatcher_def)
  show ?thesis
    using demo_dispatched
    by (simp add: demo_looped_def loop_turn_def loop_iteration_def tb_drain_def d demo_watched_conn Let_def numeral_2_eq_2
        flip: dispatch_all_def)
qed

lemma demo_reported_row [simp]: "buildable st sid (demo_reported i)" "event_key st (demo_reported i) = 90 + of_nat i"
  by (simp_all add: buildable_def build_telemetry_event_row_def demo_reported_def demo_frame_def
      build_from_telemetry_light_def telemetry_row_def validate_confidence_def event_key_def)

lemma demo_crowd_item_calls:
  "w_calls (worker_step exact_arith id True True 1 (new_worker demo_db) (demo_stamp 5, demo_crowd_item))
   = [(''00000000-0000-0000-0000-000000000069'', ''second_person'')]"
proof -
  let ?st = "demo_stamp 5"
  have fresh: "fresh_item ?st 1 demo_crowd_item demo_db"
    by (simp add: fresh_item_def demo_crowd_item_def demo_db_def demo_event_def)
  have fits: "score_fits exact_arith id demo_session (pf_decision demo_crowd_item)"
    by (simp add: score_fits_def demo_crowd_item_def)
  have writable: "writable (st_flag_id ?st) (pf_decision demo_crowd_item)
      (with_events ?st 1 (pf_contributing_events demo_crowd_item) demo_db)"
    using buildable_row(2)[OF demo_reported_row(1), of ?st 1]
    by (simp add: writable_def demo_crowd_item_def point_def flag_severity_members_def has_key_def demo_db_def
        demo_flag_def demo_event_def demo_stamp_def)
  have "\<not> has_key tr_exam_session_id (db_termination_records demo_db) 1"
    "\<not> has_key tr_id (db_termination_records demo_db) (st_termination_id ?st)"
    by (simp_all add: demo_db_def empty_database_def has_key_def)
  from worker_persists[OF demo_db_ok demo_get_session fresh fits writable this, of True True]
  have "snd (snd (persist_one exact_arith id True True 1 ?st demo_crowd_item demo_db)) = [(uuid_str (st_flag_id ?st), ''second_person'')]"
    by (simp add: Let_def demo_crowd_item_def)
  moreover have "uuid_str (st_flag_id ?st) = ''00000000-0000-0000-0000-000000000069''" by code_simp
  ultimately show ?thesis by (auto simp: worker_step_def new_worker_def split: prod.splits sum.splits)
qed

lemma demo_kill_queue:
  "lv_kill_queue demo_flagged = [(''00000000-0000-0000-0000-000000000069'', ''second_person'')]"
  "lv_conn demo_flagged = lv_conn demo_looped"
proof -
  have l: "lv_taken demo_looped = 0" "lv_kill_queue demo_looped = []" "lv_worker demo_looped = new_worker demo_db"
    "\<not> lv_worker_stop demo_looped"
    by (simp_all add: demo_looped_def loop_turn_sel demo_watched_rest)
  then have "w_calls (lv_worker demo_looped) = []" by (simp add: new_worker_def)
  with l show "lv_kill_queue demo_flagged = [(''00000000-0000-0000-0000-000000000069'', ''second_person'')]"
    "lv_conn demo_flagged = lv_conn demo_looped"
    using demo_crowd_item_calls by (simp_all add: demo_flagged_def worker_turn_def demo_looped_queue Let_def)
qed

lemma demo_looped_conn:
  "wc_status (lv_conn demo_looped) = Receiving" "wire_kills (wc_sent (lv_conn demo_looped)) = []"
  "ds_pending_kill (wc_delivery (lv_conn demo_looped)) = None"
  by (simp_all add: demo_looped_def loop_turn_sel demo_watched_conn)

lemma demo_kill_sent:
  "wire_kills (wc_sent (lv_conn demo_ended)) = [(JStr ''00000000-0000-0000-0000-000000000069'', JStr ''second_person'')]"
  using demo_looped_conn
  by (simp add: demo_ended_def drain_turn_def demo_kill_queue drain_kill_switch_def prepare_kill_switch_def send_out_def Let_def)

lemma demo_live_run: "live_run demo_dispatch demo_loads demo_decode exact_arith id True 1 demo_live demo_ended"
proof -
  note sock = live_step.Socket[where dd = demo_dispatch and loads = demo_loads and decode = demo_decode and fa = exact_arith
      and num = id and er = True and sid = 1, folded demo_socket_def]
  have out: "outside_event (TextFrame ''frame'' n n True)" for n by (simp add: outside_event_def)
  have "live_run demo_dispatch demo_loads demo_decode exact_arith id True 1 demo_live demo_watched"
    unfolding demo_watched_def by (rule live_run.Turn[OF live_run.Turn[OF live_run.Turn[OF live_run.Start sock[OF out]] sock[OF out]] sock[OF out]])
  then have "live_run demo_dispatch demo_loads demo_decode exact_arith id True 1 demo_live demo_flagged"
    unfolding demo_flagged_def demo_looped_def by (rule live_run.Turn[OF live_run.Turn[OF _ live_step.Loop] live_step.Work])
  moreover have "wc_status (lv_conn demo_flagged) = Receiving" by (simp add: demo_kill_queue demo_looped_conn)
  ultimately show ?thesis unfolding demo_ended_def by (rule live_run.Turn[OF _ live_step.DrainQueue])
qed

theorem kill_switch_justified_witness:
  "wire_kills (wc_sent (lv_conn demo_ended)) = [(JStr ''00000000-0000-0000-0000-000000000069'', JStr ''second_person'')] \<and>
   (\<exists>f\<in>set (db_flags (w_db (lv_worker demo_ended))). fl_triggered_termination f \<and>
      uuid_str (fl_id f) = ''00000000-0000-0000-0000-000000000069'')"
proof -
  have sid: "uuid_of_string (sc_session_id demo_ws_claims) = Inr 1" by (simp add: demo_ws_claims_def uuid_of_uuid_str)
  have b: "buffer_checked (new_ws_conn demo_ws_claims (new_delivery_service 30 3) demo_empty_buffer [Accepted None])"
    by (simp add: buffer_checked_def new_ws_conn_def demo_empty_buffer_def)
  from kill_switch_justified[OF demo_set_up sid demo_db_ok b wire_one(10) demo_live_run[unfolded demo_live_def]]
  show ?thesis unfolding demo_kill_sent by auto
qed

end
