(* ===== verification/SessionBlind.thy ===== *)
theory SessionBlind
  imports DispatcherResults
begin

text \<open>
  The dispatcher does not look at the session a message names: renaming the session identifiers of the
  messages renames those of the events it keeps, and changes nothing else.
\<close>

section \<open>Renaming sessions\<close>

definition rename_envelope :: "(string \<Rightarrow> string) \<Rightarrow> client_envelope \<Rightarrow> client_envelope" where
  "rename_envelope f e = e\<lparr> ce_session_id := f (ce_session_id e) \<rparr>"

fun rename_message :: "(string \<Rightarrow> string) \<Rightarrow> client_message \<Rightarrow> client_message" where
  "rename_message f (TelemetryLight e p) = TelemetryLight (rename_envelope f e) p"
| "rename_message f (TelemetryHeavyFrame e p) = TelemetryHeavyFrame (rename_envelope f e) p"
| "rename_message f (TelemetryAudioChunk e p) = TelemetryAudioChunk (rename_envelope f e) p"
| "rename_message f (TelemetryBrowserEvent e p) = TelemetryBrowserEvent (rename_envelope f e) p"
| "rename_message f (KillSwitchAcknowledge e p) = KillSwitchAcknowledge (rename_envelope f e) p"

definition rename_event :: "(string \<Rightarrow> string) \<Rightarrow> buffered_event \<Rightarrow> buffered_event" where
  "rename_event f ev = ev\<lparr> be_message := rename_message f (be_message ev) \<rparr>"

definition rename_item :: "(string \<Rightarrow> string) \<Rightarrow> persisted_flag \<Rightarrow> persisted_flag" where
  "rename_item f pf = pf\<lparr> pf_contributing_events := map (rename_event f) (pf_contributing_events pf) \<rparr>"

definition rename_dispatcher :: "(string \<Rightarrow> string) \<Rightarrow> 'i frame_dispatcher \<Rightarrow> 'i frame_dispatcher" where
  "rename_dispatcher f st =
     st\<lparr> dsp_event_map := (\<lambda>eid. map_option (rename_event f) (dsp_event_map st eid)),
         dsp_flag_decisions := map (rename_item f) (dsp_flag_decisions st) \<rparr>"

lemma rename_dispatcher_sel [simp]:
  "dsp_config (rename_dispatcher f st) = dsp_config st" "dsp_aggregator (rename_dispatcher f st) = dsp_aggregator st"
  "dsp_scheduler (rename_dispatcher f st) = dsp_scheduler st"
  "dsp_heavy_frame_seq (rename_dispatcher f st) = dsp_heavy_frame_seq st"
  "dsp_identity_backend (rename_dispatcher f st) = dsp_identity_backend st"
  "dsp_face_landmarker (rename_dispatcher f st) = dsp_face_landmarker st"
  "dsp_object_detector (rename_dispatcher f st) = dsp_object_detector st"
  "dsp_audio_vad (rename_dispatcher f st) = dsp_audio_vad st"
  "dsp_liveness_runner (rename_dispatcher f st) = dsp_liveness_runner st"
  "dsp_errors (rename_dispatcher f st) = dsp_errors st" "dsp_processed (rename_dispatcher f st) = dsp_processed st"
  "map pf_decision (dsp_flag_decisions (rename_dispatcher f st)) = map pf_decision (dsp_flag_decisions st)"
  by (simp_all add: rename_dispatcher_def rename_item_def comp_def)

lemma rename_dispatcher_upd [simp]:
  "(rename_dispatcher f st)\<lparr> dsp_aggregator := a \<rparr> = rename_dispatcher f (st\<lparr> dsp_aggregator := a \<rparr>)"
  "(rename_dispatcher f st)\<lparr> dsp_errors := n \<rparr> = rename_dispatcher f (st\<lparr> dsp_errors := n \<rparr>)"
  "(rename_dispatcher f st)\<lparr> dsp_processed := n \<rparr> = rename_dispatcher f (st\<lparr> dsp_processed := n \<rparr>)"
  "(rename_dispatcher f st)\<lparr> dsp_heavy_frame_seq := n \<rparr> = rename_dispatcher f (st\<lparr> dsp_heavy_frame_seq := n \<rparr>)"
  "(rename_dispatcher f st)\<lparr> dsp_face_landmarker := l \<rparr> = rename_dispatcher f (st\<lparr> dsp_face_landmarker := l \<rparr>)"
  "(rename_dispatcher f st)\<lparr> dsp_object_detector := d \<rparr> = rename_dispatcher f (st\<lparr> dsp_object_detector := d \<rparr>)"
  "(rename_dispatcher f st)\<lparr> dsp_audio_vad := v \<rparr> = rename_dispatcher f (st\<lparr> dsp_audio_vad := v \<rparr>)"
  by (simp_all add: rename_dispatcher_def)

lemma rename_message_sel [simp]:
  "ce_captured_at (envelope (rename_message f msg)) = ce_captured_at (envelope msg)"
  "captured_at_ms fa (rename_message f msg) = captured_at_ms fa msg"
  by (cases msg; simp add: rename_envelope_def captured_at_ms_def)+

section \<open>Every handler commutes\<close>

lemma take_events_rename:
  "take_events eids (\<lambda>eid. map_option (rename_event f) (mp eid)) =
     (case take_events eids mp of (evs, mp') \<Rightarrow> (map (rename_event f) evs, \<lambda>eid. map_option (rename_event f) (mp' eid)))"
proof (induction eids arbitrary: mp)
  case (Cons eid eids)
  have e: "(\<lambda>i. map_option (rename_event f) (mp i))(eid := None) = (\<lambda>i. map_option (rename_event f) ((mp(eid := None)) i))"
    by auto
  show ?case
  proof (cases "mp eid")
    case None
    then show ?thesis using Cons.IH[of mp] by simp
  next
    case (Some ev)
    obtain evs mp' where t: "take_events eids (mp(eid := None)) = (evs, mp')" by fastforce
    have "take_events eids ((\<lambda>i. map_option (rename_event f) (mp i))(eid := None))
        = (map (rename_event f) evs, \<lambda>i. map_option (rename_event f) (mp' i))"
      unfolding e Cons.IH t by simp
    with t Some show ?thesis by simp
  qed
qed simp

lemma emit_one_rename: "emit_one d (rename_dispatcher f st) = rename_dispatcher f (emit_one d st)"
  using take_events_rename[of "fd_contributing_event_ids d" f "dsp_event_map st"]
  by (simp add: emit_one_def rename_dispatcher_def rename_item_def split: prod.splits)

lemma emit_rename [simp]: "emit ds (rename_dispatcher f st) = rename_dispatcher f (emit ds st)"
  by (induction ds arbitrary: st) (simp_all add: emit_one_rename)

lemma aggregate_rename [simp]: "aggregate dd ev (rename_dispatcher f st) = apfst (rename_dispatcher f) (aggregate dd ev st)"
  by (simp add: aggregate_def split: prod.splits sum.splits)

lemma count_error_rename [simp]: "count_error (rename_dispatcher f st) = rename_dispatcher f (count_error st)"
  by (simp add: count_error_def)

lemma ensure_rename [simp]:
  "ensure_face_landmarker dd (rename_dispatcher f st) = apfst (rename_dispatcher f) (ensure_face_landmarker dd st)"
  "ensure_object_detector dd (rename_dispatcher f st) = apfst (rename_dispatcher f) (ensure_object_detector dd st)"
  "ensure_audio_vad dd (rename_dispatcher f st) = apfst (rename_dispatcher f) (ensure_audio_vad dd st)"
  by (simp_all add: ensure_face_landmarker_def ensure_object_detector_def ensure_audio_vad_def Let_def split: option.splits sum.splits)

lemma stages_rename [simp]:
  "landmark_stage dd decision frame (rename_dispatcher f st) = apfst (rename_dispatcher f) (landmark_stage dd decision frame st)"
  "gaze_stage dd decision (rename_message f msg) eid res (rename_dispatcher f st)
     = apfst (rename_dispatcher f) (gaze_stage dd decision msg eid res st)"
  by (simp add: landmark_stage_def split: prod.splits sum.splits, cases res) (simp_all add: gaze_stage_def)

lemma feed_detections_rename [simp]:
  "feed_detections dd eid clock i rs (rename_dispatcher f st) = apfst (rename_dispatcher f) (feed_detections dd eid clock i rs st)"
  by (induction dd eid clock i rs st rule: feed_detections.induct) (simp_all split: prod.splits sum.splits)

lemma later_stages_rename [simp]:
  "object_stage dd decision frame eid clock (rename_dispatcher f st)
     = apfst (rename_dispatcher f) (object_stage dd decision frame eid clock st)"
  "identity_stage dd decision frame eid res (rename_dispatcher f st)
     = apfst (rename_dispatcher f) (identity_stage dd decision frame eid res st)"
  by (simp_all add: object_stage_def identity_stage_def go_on_def split: prod.splits sum.splits option.splits)

lemma liveness_stage_rename [simp]:
  "liveness_stage dd decision frame eid res (rename_dispatcher f st)
     = apfst (rename_dispatcher f) (liveness_stage dd decision frame eid res st)"
proof (cases "dsp_liveness_runner st")
  case (Some backend)
  then show ?thesis
    by (cases "should_run decision LIVENESS"; cases "extract_face_bbox (dd_fa dd) (dd_lib dd) frame res")
       (simp_all add: liveness_stage_def split: sum.splits)
qed (simp add: liveness_stage_def split: bool.splits)

lemma run_stages_rename [simp]:
  "run_stages dd (rename_message f msg) eid clock decision frame (rename_dispatcher f st)
     = apfst (rename_dispatcher f) (run_stages dd msg eid clock decision frame st)"
  by (simp add: run_stages_def split: prod.splits sum.splits bool.splits)

lemma handlers_rename [simp]:
  "dispatch_heavy_frame dd (rename_message f msg) p eid clock (rename_dispatcher f st)
     = apfst (rename_dispatcher f) (dispatch_heavy_frame dd msg p eid clock st)"
  "dispatch_light dd lp eid (rename_dispatcher f st) = apfst (rename_dispatcher f) (dispatch_light dd lp eid st)"
  "dispatch_audio_chunk dd ap eid (rename_dispatcher f st) = apfst (rename_dispatcher f) (dispatch_audio_chunk dd ap eid st)"
  "dispatch_browser_event dd bp eid (rename_dispatcher f st) = apfst (rename_dispatcher f) (dispatch_browser_event dd bp eid st)"
  by (simp_all add: dispatch_heavy_frame_def dispatch_light_def dispatch_audio_chunk_def dispatch_browser_event_def Let_def
      split: prod.splits sum.splits)

lemma remember_rename:
  "remember eid (rename_event f event) (rename_dispatcher f st) = rename_dispatcher f (remember eid event st)"
  by (auto simp: remember_def rename_dispatcher_def rename_event_def fun_eq_iff)

lemma dispatch_event_rename:
  "dispatch_event dd eid clock (rename_event f event) (rename_dispatcher f st)
     = apfst (rename_dispatcher f) (dispatch_event dd eid clock event st)"
proof -
  have "be_message (rename_event f event) = rename_message f (be_message event)" by (simp add: rename_event_def)
  then show ?thesis
    using remember_rename[of eid f event st] handlers_rename(1)[of dd f "be_message event"]
    by (cases "be_message event") (simp_all add: dispatch_event_def Let_def flip: remember_def)
qed

definition rename_keyed :: "(string \<Rightarrow> string) \<Rightarrow> keyed_event \<Rightarrow> keyed_event" where
  "rename_keyed f k = (case k of (eid, clock, event) \<Rightarrow> (eid, clock, rename_event f event))"

lemma dispatch_counted_rename:
  "dispatch_counted dd (rename_keyed f k) (rename_dispatcher f st) = rename_dispatcher f (dispatch_counted dd k st)"
  by (simp add: dispatch_counted_def rename_keyed_def dispatch_event_rename split: prod.splits sum.splits)

lemma dispatch_all_rename:
  "dispatch_all dd (map (rename_keyed f) ks) (rename_dispatcher f st) = rename_dispatcher f (dispatch_all dd ks st)"
  by (induction ks arbitrary: st) (simp_all add: dispatch_counted_rename)

text \<open>C12: The dispatcher counts every message of the shared buffer for its own session: whatever session
  identifiers the messages carry, its aggregator goes through the same states and it queues the same
  decisions.  So frames of another candidate that it happens to drain terminate this exam exactly as the
  candidate's own would.\<close>

theorem dispatcher_ignores_sessions:
  assumes "new_frame_dispatcher dd cfg = Inr st0"
  shows "dsp_aggregator (dispatch_all dd (map (rename_keyed f) ks) st0) = dsp_aggregator (dispatch_all dd ks st0) \<and>
    map pf_decision (dsp_flag_decisions (dispatch_all dd (map (rename_keyed f) ks) st0))
      = map pf_decision (dsp_flag_decisions (dispatch_all dd ks st0))"
proof -
  have "rename_dispatcher f st0 = st0"
    using new_queue[OF assms] by (simp add: rename_dispatcher_def)
  with dispatch_all_rename[of dd f ks st0] show ?thesis by simp
qed

theorem dispatcher_ignores_sessions_witness:
  "map pf_decision (dsp_flag_decisions (dispatch_all demo_dispatch
      (map (rename_keyed (\<lambda>_. ''another session'')) [demo_keyed, demo_keyed, demo_keyed]) demo_dispatcher))
   = map pf_decision (dsp_flag_decisions (dispatch_all demo_dispatch [demo_keyed, demo_keyed, demo_keyed] demo_dispatcher))"
  using dispatcher_ignores_sessions[OF demo_dispatcher_built, of "\<lambda>_. ''another session''" "[demo_keyed, demo_keyed, demo_keyed]"]
  by (rule conjunct2)

end
