(* ===== verification/SessionEnd.thy ===== *)
theory SessionEnd
  imports LiveSession
begin

text \<open>
  The live path from end to end.  The client's frames go through the message loop into the shared
  buffer, the dispatcher turns them into one decision, the worker writes it and calls back, and the
  drain task sends the kill-switch.  Each stage has a progress lemma; the theorem composes them
  along the schedule in which every party takes one turn.
\<close>

section \<open>The dispatcher: light frames\<close>

definition light_key :: "keyed_event \<Rightarrow> bool" where
  "light_key k \<longleftrightarrow> check_message (message_of k) \<and> face_counts (message_of k) \<noteq> []"

definition reported :: "keyed_event \<Rightarrow> buffered_event" where
  "reported k = (snd (snd k))\<lparr> be_synthetic_id := Some (fst k) \<rparr>"

definition crowd_item :: "rat \<Rightarrow> int \<Rightarrow> keyed_event list \<Rightarrow> persisted_flag" where
  "crowd_item c n trio =
     \<lparr> pf_decision = (default_flag_decision RULE_SECOND_PERSON SEV_CRITICAL (point c))
         \<lparr> fd_triggered_termination := True, fd_detail := [(''face_count'', JInt n), (''confirmation_frames'', JInt 3)],
           fd_contributing_event_ids := map fst trio \<rparr>,
       pf_contributing_events = map reported trio \<rparr>"

lemma light_key_message:
  assumes "light_key (eid, clock, ev)"
  obtains env p where "be_message ev = TelemetryLight env p" "in_unit (tlp_confidence p)"
  using assms by (cases "be_message ev") (auto simp: light_key_def face_counts_def message_of_def check_telemetry_light_def in_unit_def)

lemma reported_buildable:
  assumes "light_key k"
  shows "buildable st sid (reported k)" "event_key st (reported k) = fst k"
proof -
  obtain eid clock ev where k: "k = (eid, clock, ev)" by (metis prod_cases3)
  obtain env p where p: "be_message ev = TelemetryLight env p" "in_unit (tlp_confidence p)"
    using light_key_message[OF assms[unfolded k]] .
  then show "buildable st sid (reported k)" "event_key st (reported k) = fst k"
    by (simp_all add: k buildable_def build_telemetry_event_row_def reported_def build_from_telemetry_light_def
        telemetry_row_def validate_confidence_def event_key_def in_unit_def)
qed

lemma take_reported:
  "distinct (map fst ks) \<Longrightarrow> (\<And>k. k \<in> set ks \<Longrightarrow> mp (fst k) = Some (reported k)) \<Longrightarrow>
     fst (take_events (map fst ks) mp) = map reported ks"
proof (induction ks arbitrary: mp)
  case (Cons k ks)
  have "fst (take_events (map fst ks) (mp(fst k := None))) = map reported ks"
    using Cons.prems by (intro Cons.IH) (auto simp: image_iff)
  then show ?case using Cons.prems(2)[of k] by (auto split: prod.splits)
qed simp

definition counting :: "session_aggregator \<Rightarrow> int \<Rightarrow> uuid list \<Rightarrow> session_aggregator" where
  "counting agg n ids = agg\<lparr> sa_consecutive_second_person_frames := n, sa_second_person_event_ids := ids \<rparr>"

lemma counting_sel [simp]:
  "sa_consecutive_second_person_frames (counting agg n ids) = n" "sa_second_person_event_ids (counting agg n ids) = ids"
  "sa_policy (counting agg n ids) = sa_policy agg" "sa_second_person_fired (counting agg n ids) = sa_second_person_fired agg"
  by (simp_all add: counting_def)

text \<open>One light frame, in the three cases of the second-person rule.\<close>

lemma light_step:
  fixes st :: "'i frame_dispatcher" and dd :: "'i dispatch_deps" and eid clock ev
  assumes "light_key (eid, clock, ev)" "sa_policy (dsp_aggregator st) = routes_policy_snapshot"
  defines "agg \<equiv> dsp_aggregator st" and "st' \<equiv> dispatch_counted dd (eid, clock, ev) st"
    and "mp \<equiv> (dsp_event_map st)(eid \<mapsto> reported (eid, clock, ev))"
  shows "sa_second_person_fired agg \<Longrightarrow> dsp_aggregator st' = agg \<and> dsp_flag_decisions st' = dsp_flag_decisions st"
    and "\<not> sa_second_person_fired agg \<Longrightarrow> sa_consecutive_second_person_frames agg < 2 \<Longrightarrow>
      dsp_flag_decisions st' = dsp_flag_decisions st \<and> dsp_event_map st' = mp \<and>
      (dsp_aggregator st' = counting agg 0 [] \<or>
       dsp_aggregator st' = counting agg (sa_consecutive_second_person_frames agg + 1) (sa_second_person_event_ids agg @ [eid]))"
    and "\<not> sa_second_person_fired agg \<Longrightarrow> sa_consecutive_second_person_frames agg = 2 \<Longrightarrow>
      dsp_aggregator st' = counting agg 0 [] \<and>
        dsp_flag_decisions st' = dsp_flag_decisions st \<and> dsp_event_map st' = mp \<or>
      sa_second_person_fired (dsp_aggregator st') \<and> sa_policy (dsp_aggregator st') = sa_policy agg \<and>
        (\<exists>c n. in_unit c \<and> dsp_flag_decisions st' = dsp_flag_decisions st @
          [crowd_item c n [] \<lparr> pf_decision := (pf_decision (crowd_item c n []))
               \<lparr> fd_contributing_event_ids := sa_second_person_event_ids agg @ [eid] \<rparr>,
             pf_contributing_events := fst (take_events (sa_second_person_event_ids agg @ [eid]) mp) \<rparr>])"
proof -
  obtain env p where p: "be_message ev = TelemetryLight env p" "in_unit (tlp_confidence p)"
    using light_key_message[OF assms(1)] .
  then have c: "mk_point_interval (tlp_confidence p) = Inr (point (tlp_confidence p))"
    by (simp add: mk_point_interval_total point_def)
  note defs = dispatch_counted_def dispatch_event_def dispatch_light_def p(1) c aggregate_def process_face_presence_def
    returns_def light_result_def routes_policy_snapshot_def assms(2) agg_def st'_def mp_def reported_def Let_def
  show "sa_second_person_fired agg \<Longrightarrow> dsp_aggregator st' = agg \<and> dsp_flag_decisions st' = dsp_flag_decisions st"
    by (simp add: defs)
  show "\<not> sa_second_person_fired agg \<Longrightarrow> sa_consecutive_second_person_frames agg < 2 \<Longrightarrow>
      dsp_flag_decisions st' = dsp_flag_decisions st \<and> dsp_event_map st' = mp \<and>
      (dsp_aggregator st' = counting agg 0 [] \<or>
       dsp_aggregator st' = counting agg (sa_consecutive_second_person_frames agg + 1) (sa_second_person_event_ids agg @ [eid]))"
    by (cases "2 \<le> tlp_face_count p") (simp_all add: defs counting_def)
  show "\<not> sa_second_person_fired agg \<Longrightarrow> sa_consecutive_second_person_frames agg = 2 \<Longrightarrow>
      dsp_aggregator st' = counting agg 0 [] \<and>
        dsp_flag_decisions st' = dsp_flag_decisions st \<and> dsp_event_map st' = mp \<or>
      sa_second_person_fired (dsp_aggregator st') \<and> sa_policy (dsp_aggregator st') = sa_policy agg \<and>
        (\<exists>c n. in_unit c \<and> dsp_flag_decisions st' = dsp_flag_decisions st @
          [crowd_item c n [] \<lparr> pf_decision := (pf_decision (crowd_item c n []))
               \<lparr> fd_contributing_event_ids := sa_second_person_event_ids agg @ [eid] \<rparr>,
             pf_contributing_events := fst (take_events (sa_second_person_event_ids agg @ [eid]) mp) \<rparr>])"
  proof (cases "2 \<le> tlp_face_count p")
    case True
    assume "\<not> sa_second_person_fired agg" "sa_consecutive_second_person_frames agg = 2"
    with True p(2) show ?thesis
      by (intro disjI2 conjI exI[of _ "tlp_confidence p"] exI[of _ "tlp_face_count p"])
         (simp_all add: defs emit_one_def crowd_item_def split: prod.splits)
  qed (simp add: defs counting_def)
qed

text \<open>While no run of three is complete the queue is empty and the aggregator holds the identifiers of
  the run so far; afterwards the queue holds one item, with the three frames.\<close>

definition waiting :: "keyed_event list \<Rightarrow> 'i frame_dispatcher \<Rightarrow> bool" where
  "waiting ks st \<longleftrightarrow>
     \<not> sa_second_person_fired (dsp_aggregator st) \<and> dsp_flag_decisions st = [] \<and>
     (\<forall>k\<in>set ks. dsp_event_map st (fst k) = Some (reported k)) \<and>
     (\<exists>us t. ks = us @ t \<and> length t \<le> 2 \<and> sa_consecutive_second_person_frames (dsp_aggregator st) = int (length t) \<and>
        sa_second_person_event_ids (dsp_aggregator st) = map fst t)"

definition crowd_seen :: "keyed_event list \<Rightarrow> 'i frame_dispatcher \<Rightarrow> bool" where
  "crowd_seen ks st \<longleftrightarrow>
     sa_second_person_fired (dsp_aggregator st) \<and>
     (\<exists>us trio vs c n. ks = us @ trio @ vs \<and> length trio = 3 \<and> in_unit c \<and> dsp_flag_decisions st = [crowd_item c n trio])"

lemma waiting_step:
  assumes "waiting ks st" "light_key k" "sa_policy (dsp_aggregator st) = routes_policy_snapshot" "distinct (map fst (ks @ [k]))"
  shows "waiting (ks @ [k]) (dispatch_counted dd k st) \<or> crowd_seen (ks @ [k]) (dispatch_counted dd k st)"
proof -
  obtain eid clock ev where k: "k = (eid, clock, ev)" by (metis prod_cases3)
  let ?agg = "dsp_aggregator st" and ?st = "dispatch_counted dd k st"
  let ?mp = "(dsp_event_map st)(eid \<mapsto> reported k)"
  from assms(1) obtain us t where w: "\<not> sa_second_person_fired ?agg" "dsp_flag_decisions st = []"
    "\<forall>k\<in>set ks. dsp_event_map st (fst k) = Some (reported k)" "ks = us @ t" "length t \<le> 2"
    "sa_consecutive_second_person_frames ?agg = int (length t)" "sa_second_person_event_ids ?agg = map fst t"
    unfolding waiting_def by blast
  note step = light_step[OF assms(2)[unfolded k] assms(3), of dd, folded k]
  have mp: "\<forall>k'\<in>set (ks @ [k]). ?mp (fst k') = Some (reported k')"
    using w(3) assms(4) by (auto simp: k image_iff)
  have keep: "waiting (ks @ [k]) ?st" if "dsp_flag_decisions ?st = []" "dsp_event_map ?st = ?mp"
    "dsp_aggregator ?st = counting ?agg (int (length t')) (map fst t')" "ks @ [k] = us' @ t'" "length t' \<le> 2" for us' t'
    using that mp w(1) unfolding waiting_def by auto
  show ?thesis
  proof (cases "length t = 2")
    case False
    with w(5,6) have "sa_consecutive_second_person_frames ?agg < 2" by linarith
    from step(2)[OF w(1) this] w(2,4,5,6,7) False keep[of "[]" "ks @ [k]"] keep[of "t @ [k]" us]
    show ?thesis by (auto simp: k add.commute)
  next
    case True
    with w(6) have "sa_consecutive_second_person_frames ?agg = 2" by simp
    from step(3)[OF w(1) this] show ?thesis
    proof (elim disjE conjE exE)
      assume "dsp_aggregator ?st = counting ?agg 0 []" "dsp_flag_decisions ?st = dsp_flag_decisions st" "dsp_event_map ?st = ?mp"
      then show ?thesis using keep[of "[]" "ks @ [k]"] w(2) by simp
    next
      fix c n
      assume f: "sa_second_person_fired (dsp_aggregator ?st)" "in_unit c"
        "dsp_flag_decisions ?st = dsp_flag_decisions st @
          [crowd_item c n [] \<lparr> pf_decision := (pf_decision (crowd_item c n []))
               \<lparr> fd_contributing_event_ids := sa_second_person_event_ids ?agg @ [eid] \<rparr>,
             pf_contributing_events := fst (take_events (sa_second_person_event_ids ?agg @ [eid]) ?mp) \<rparr>]"
      have "fst (take_events (map fst (t @ [k])) ?mp) = map reported (t @ [k])"
      proof (rule take_reported)
        fix x assume "x \<in> set (t @ [k])"
        then have "x \<in> set (ks @ [k])" using w(4) by auto
        then show "?mp (fst x) = Some (reported x)" by (rule bspec[OF mp])
      qed (use assms(4) w(4) in simp)
      then have "dsp_flag_decisions ?st = [crowd_item c n (t @ [k])]"
        using f(3) w(2,7) by (simp add: k crowd_item_def)
      with f(1,2) True w(4) show ?thesis unfolding crowd_seen_def
        by (intro disjI2 conjI exI[of _ us] exI[of _ "t @ [k]"] exI[of _ "[]"]) auto
    qed
  qed
qed

lemma light_run:
  assumes "list_all light_key ks" "distinct (map fst ks)" "waiting [] st" "sa_policy (dsp_aggregator st) = routes_policy_snapshot"
  shows "sa_policy (dsp_aggregator (dispatch_all dd ks st)) = routes_policy_snapshot \<and>
    (waiting ks (dispatch_all dd ks st) \<or> crowd_seen ks (dispatch_all dd ks st))"
  using assms(1,2)
proof (induction ks rule: rev_induct)
  case Nil
  then show ?case using assms(3,4) by simp
next
  case (snoc k ks)
  let ?st = "dispatch_all dd ks st"
  have ih: "sa_policy (dsp_aggregator ?st) = routes_policy_snapshot" "waiting ks ?st \<or> crowd_seen ks ?st" and k: "light_key k"
    using snoc by auto
  obtain eid clock ev where kk: "k = (eid, clock, ev)" by (metis prod_cases3)
  show ?case
  proof (cases "waiting ks ?st")
    case True
    note w = waiting_step[OF True k ih(1) snoc.prems(2), of dd]
    have "sa_policy (dsp_aggregator (dispatch_counted dd k ?st)) = routes_policy_snapshot"
      using light_step(2,3)[OF k[unfolded kk] ih(1), of dd, folded kk] True ih(1)
      by (auto simp: waiting_def le_less)
    with w show ?thesis by simp
  next
    case False
    with ih(2) have s: "crowd_seen ks ?st" by simp
    then have "dsp_aggregator (dispatch_counted dd k ?st) = dsp_aggregator ?st"
      "dsp_flag_decisions (dispatch_counted dd k ?st) = dsp_flag_decisions ?st"
      using light_step(1)[OF k[unfolded kk] ih(1), of dd, folded kk] by (auto simp: crowd_seen_def)
    with s ih(1) show ?thesis by (auto simp: crowd_seen_def) (metis append.assoc)
  qed
qed

section \<open>The worker\<close>

text \<open>The decision about a crowd is written with its termination record, and the worker calls back.\<close>

definition crowd_recorded :: "stamp \<Rightarrow> uuid \<Rightarrow> database \<Rightarrow> bool" where
  "crowd_recorded sp sid d \<longleftrightarrow>
     (\<exists>f\<in>set (db_flags d). fl_id f = st_flag_id sp \<and> fl_exam_session_id f = sid \<and> fl_rule_code f = RULE_SECOND_PERSON \<and>
        fl_triggered_termination f) \<and>
     (\<exists>t\<in>set (db_termination_records d). tr_exam_session_id t = sid \<and> tr_triggering_flag_id t = Some (st_flag_id sp) \<and>
        tr_reason t = RULE_SECOND_PERSON)"

lemma crowd_persisted:
  assumes "db_ok d" "get_row es_id sid (db_exam_sessions d) = Some es"
    and "list_all light_key trio" "distinct (map te_id (db_telemetry_events d) @ map fst trio)" "in_unit c"
    and "\<not> has_key tr_exam_session_id (db_termination_records d) sid"
    and "\<not> has_key tr_id (db_termination_records d) (st_termination_id sp)" "\<not> has_key fl_id (db_flags d) (st_flag_id sp)"
  shows "w_calls (worker_step fa num er True sid (new_worker d) (sp, crowd_item c n trio)) = [(uuid_str (st_flag_id sp), RULE_SECOND_PERSON)] \<and>
    crowd_recorded sp sid (w_db (worker_step fa num er True sid (new_worker d) (sp, crowd_item c n trio)))"
proof -
  let ?i = "crowd_item c n trio"
  have keys: "map (event_key sp) (map reported trio) = map fst trio"
    using assms(3) reported_buildable(2) by (auto simp: list_all_iff)
  have b: "list_all (buildable sp sid) (map reported trio)"
    using assms(3) reported_buildable(1) by (auto simp: list_all_iff)
  have "pf_contributing_events ?i = map reported trio" by (simp add: crowd_item_def)
  then have fresh: "fresh_item sp sid ?i d"
    unfolding fresh_item_def using assms(4) b by (simp only: keys simp_thms)
  have fits: "score_fits fa num es (pf_decision ?i)"
    by (simp add: score_fits_def crowd_item_def default_flag_decision_def)
  have rows: "map te_id (map (row_of sp sid) (map reported trio)) = map fst trio"
    using b assms(3) buildable_row(2) reported_buildable by (fastforce simp: list_all_iff)
  have stored: "has_key te_id (db_telemetry_events (with_events sp sid (pf_contributing_events ?i) d)) (fst k)" if "k \<in> set trio" for k
  proof -
    have "fst k \<in> set (map te_id (map (row_of sp sid) (map reported trio)))" unfolding rows using that by simp
    then show ?thesis by (simp add: has_key_def crowd_item_def)
  qed
  have writable: "writable (st_flag_id sp) (pf_decision ?i) (with_events sp sid (pf_contributing_events ?i) d)"
    using assms(4,5,8) stored
    by (simp add: writable_def crowd_item_def default_flag_decision_def point_def in_unit_def flag_severity_members_def SEV_CRITICAL_def list_all_iff)
  from worker_persists[OF assms(1,2) fresh fits writable assms(6,7), of er True]
  have p: "persist_one fa num er True sid sp ?i d =
    ((written fa num (flag_of sp es (pf_decision ?i)) (pf_decision ?i) es (with_events sp sid (pf_contributing_events ?i) d))
       \<lparr> db_termination_records := db_termination_records d @ [new_termination sp sid (flag_of sp es (pf_decision ?i)) (pf_decision ?i)] \<rparr>,
     Inr (), [(uuid_str (st_flag_id sp), RULE_SECOND_PERSON)])"
    by (simp add: Let_def crowd_item_def)
  have "es_id es = sid" using get_row_Some[OF assms(2)] by simp
  then show ?thesis using p
    by (simp add: worker_step_def new_worker_def crowd_recorded_def written_def flag_of_def flag_row_def new_termination_def)
       (simp add: crowd_item_def)
qed

section \<open>The message loop\<close>

text \<open>The frames of a client: text, the two clock readings of the handler.\<close>

type_synonym client_frame = "string \<times> timestamp \<times> timestamp"

definition frame_events :: "client_frame list \<Rightarrow> ws_event list" where
  "frame_events fs = map (\<lambda>(raw, t1, t2). TextFrame raw t1 t2 True) fs"

definition light_frame ::
  "(string \<Rightarrow> jval option) \<Rightarrow> (client_message_type \<Rightarrow> jdict \<Rightarrow> client_message option) \<Rightarrow> string \<Rightarrow> client_frame \<Rightarrow> bool" where
  "light_frame loads decode sid f \<longleftrightarrow>
     (case accepted_message loads decode sid (fst f) of Some (TelemetryLight _ _) \<Rightarrow> True | _ \<Rightarrow> False)"

definition frame_message ::
  "(string \<Rightarrow> jval option) \<Rightarrow> (client_message_type \<Rightarrow> jdict \<Rightarrow> client_message option) \<Rightarrow> string \<Rightarrow> client_frame \<Rightarrow> client_message" where
  "frame_message loads decode sid f = the (accepted_message loads decode sid (fst f))"

lemma light_frame_step:
  assumes "light_frame loads decode (sc_session_id (wc_claims c)) (raw, t1, t2)" "wc_status c = Receiving"
  shows "ws_step loads decode (TextFrame raw t1 t2 True) c =
    c\<lparr> wc_buffer := fst (tb_push t1 (frame_message loads decode (sc_session_id (wc_claims c)) (raw, t1, t2)) (wc_buffer c)),
       wc_delivery := fst (next_ack t2 (wc_delivery c)),
       wc_sent := wc_sent c @ [SendJson (to_json_dict (snd (next_ack t2 (wc_delivery c))))] \<rparr>"
proof -
  from assms(1) obtain e p where a: "accepted_message loads decode (sc_session_id (wc_claims c)) raw = Some (TelemetryLight e p)"
    by (auto simp: light_frame_def split: option.splits client_message.splits)
  then have "ce_session_id e = sc_session_id (wc_claims c)"
    "receive_text loads decode raw t1 t2 True c = handle_message t1 t2 True (TelemetryLight e p) c"
    by (auto simp: accepted_message_def receive_text_def split: option.splits jval.splits sum.splits if_splits)
  then show ?thesis using a assms(2)
    by (simp add: handle_message_def acknowledge_def next_ack_def send_out_def frame_message_def)
qed

lemma light_frame_checked:
  "light_frame loads decode sid f \<Longrightarrow> check_message (frame_message loads decode sid f)"
  "light_frame loads decode sid f \<Longrightarrow> face_counts (frame_message loads decode sid f) \<noteq> []"
  using accepted_checked[of loads decode sid "fst f"]
  by (auto simp: light_frame_def frame_message_def face_counts_def split: option.splits client_message.splits)

lemma light_frames_run:
  assumes "list_all (light_frame loads decode (sc_session_id (wc_claims c))) fs" "wc_status c = Receiving"
    and "length (tb_buf (wc_buffer c)) + length fs \<le> tb_maxlen (wc_buffer c)"
  shows "let c' = ws_run loads decode (frame_events fs) c in
    wc_status c' = Receiving \<and> wc_claims c' = wc_claims c \<and> wire_kills (wc_sent c') = wire_kills (wc_sent c) \<and>
    ds_pending_kill (wc_delivery c') = ds_pending_kill (wc_delivery c) \<and>
    map be_message (tb_buf (wc_buffer c')) = map be_message (tb_buf (wc_buffer c))
      @ map (frame_message loads decode (sc_session_id (wc_claims c))) fs"
  using assms
proof (induction fs arbitrary: c)
  case Nil
  then show ?case by (simp add: frame_events_def)
next
  case (Cons f fs)
  obtain raw t1 t2 where f: "f = (raw, t1, t2)" by (metis prod_cases3)
  let ?c = "ws_step loads decode (TextFrame raw t1 t2 True) c"
  note step = light_frame_step[of loads decode c raw t1 t2]
  have s: "?c = c\<lparr> wc_buffer := fst (tb_push t1 (frame_message loads decode (sc_session_id (wc_claims c)) f) (wc_buffer c)),
       wc_delivery := fst (next_ack t2 (wc_delivery c)),
       wc_sent := wc_sent c @ [SendJson (to_json_dict (snd (next_ack t2 (wc_delivery c))))] \<rparr>"
    using step Cons.prems(1,2) by (simp add: f del: ws_step.simps)
  have b: "tb_maxlen (wc_buffer ?c) = tb_maxlen (wc_buffer c)" "length (tb_buf (wc_buffer ?c)) = Suc (length (tb_buf (wc_buffer c)))"
    "map be_message (tb_buf (wc_buffer ?c)) = map be_message (tb_buf (wc_buffer c)) @ [frame_message loads decode (sc_session_id (wc_claims c)) f]"
    using Cons.prems(3) unfolding s by (simp_all add: tb_push_def deque_append_def Let_def)
  have "wc_claims ?c = wc_claims c" "wc_status ?c = Receiving" "wire_kills (wc_sent ?c) = wire_kills (wc_sent c)"
    "ds_pending_kill (wc_delivery ?c) = ds_pending_kill (wc_delivery c)"
    using Cons.prems(2) unfolding s by (simp_all add: next_ack_def)
  with Cons.IH[of ?c] Cons.prems b show ?case
    by (simp add: f frame_events_def Let_def del: ws_step.simps)
qed

lemma socket_run:
  "list_all outside_event evs \<Longrightarrow>
     live_run dd loads decode fa num er sid ls (ls\<lparr> lv_conn := ws_run loads decode evs (lv_conn ls) \<rparr>)"
proof (induction evs rule: rev_induct)
  case Nil
  show ?case using live_run.Start[of dd loads decode fa num er sid ls] by simp
next
  case (snoc ev evs)
  let ?ls = "ls\<lparr> lv_conn := ws_run loads decode evs (lv_conn ls) \<rparr>"
  have "outside_event ev" using snoc.prems by simp
  note step = live_step.Socket[OF this, of dd loads decode fa num er sid ?ls]
  have "live_run dd loads decode fa num er sid ls ?ls" using snoc by simp
  from live_run.Turn[OF this step] show ?case by (simp add: ws_run_def del: ws_step.simps)
qed

section \<open>One turn of each party\<close>

lemma crowd_fires:
  assumes "dispatcher_inv dd cfg msgs st" "fc_policy_snapshot cfg = routes_policy_snapshot"
    and "has_run 3 (\<lambda>c. 2 \<le> c) (light_counts msgs)"
  shows "sa_second_person_fired (dsp_aggregator st)"
proof -
  from assms(1) obtain tr where tr: "queue_is dd cfg tr st"
    "map (\<lambda>x. fp_face_count (fst x)) (faces_of tr) = light_counts msgs" unfolding dispatcher_inv_def by blast
  have "has_run 3 two_faces (faces_of tr)"
    using assms(3) has_run_map[of 3 "\<lambda>c. 2 \<le> c" "\<lambda>x. fp_face_count (fst x)" "faces_of tr"] tr(2)
    by (simp add: two_faces_def[abs_def] comp_def)
  moreover have "ps_terminate_on_second_face routes_policy_snapshot" "(0::nat) < 3"
    "ps_second_face_confirmation_frames routes_policy_snapshot = int 3"
    by (simp_all add: routes_policy_snapshot_def)
  note second_person_run[OF this, of tr "dd_fa dd" "fc_context cfg"]
  moreover have "dsp_aggregator st = fst (agg_run (dd_fa dd) tr (new_session_aggregator routes_policy_snapshot (fc_context cfg)))"
    using tr(1) unfolding queue_is_def assms(2) by (metis fst_conv)
  ultimately show ?thesis by (auto simp: second_person_inv_def)
qed

definition one_turn_each ::
  "'i dispatch_deps \<Rightarrow> (nat \<Rightarrow> uuid) \<Rightarrow> (nat \<Rightarrow> nat \<Rightarrow> timestamp) \<Rightarrow> float_arith \<Rightarrow> (rat \<Rightarrow> rat) \<Rightarrow> bool \<Rightarrow> uuid \<Rightarrow> stamp
   \<Rightarrow> rat \<Rightarrow> 'i live_session \<Rightarrow> 'i live_session" where
  "one_turn_each dd keys clocks fa num er sid sp monotonic ls =
     drain_turn monotonic True (worker_turn fa num er sid sp (loop_turn dd keys clocks None ls))"

lemma crowd_queued:
  assumes "live_inv dd cfg sid d (loop_turn dd keys clocks None ls)" "fc_policy_snapshot cfg = routes_policy_snapshot"
    and "\<not> dsp_stop (lv_dispatcher ls)" "waiting [] (lv_dispatcher ls)"
    and "sa_policy (dsp_aggregator (lv_dispatcher ls)) = routes_policy_snapshot" "lv_log ls = []"
    and "list_all (\<lambda>m. check_message m \<and> face_counts m \<noteq> []) (map be_message (tb_buf (wc_buffer (lv_conn ls))))"
    and "distinct (map keys [0..<length (tb_buf (wc_buffer (lv_conn ls)))])"
    and "has_run 3 (\<lambda>c. 2 \<le> c) (light_counts (map be_message (tb_buf (wc_buffer (lv_conn ls)))))"
  obtains trio c n where "dsp_flag_decisions (lv_dispatcher (loop_turn dd keys clocks None ls)) = [crowd_item c n trio]"
    "in_unit c" "list_all light_key trio" "length trio = 3" "distinct (map fst trio)"
    "set (map fst trio) \<subseteq> set (map keys [0..<length (tb_buf (wc_buffer (lv_conn ls)))])"
proof -
  let ?buf = "tb_buf (wc_buffer (lv_conn ls))" and ?ls = "loop_turn dd keys clocks None ls"
  define ks where "ks = map (\<lambda>(i, ev). (keys i, clocks i, ev)) (enumerate 0 ?buf)"
  have "map message_of ks = map be_message (map snd (enumerate 0 ?buf))" "map fst ks = map keys (map fst (enumerate 0 ?buf))"
    by (simp_all add: ks_def message_of_def comp_def case_prod_unfold del: map_snd_enumerate map_fst_enumerate)
  then have ks: "map message_of ks = map be_message ?buf" "map fst ks = map keys [0..<length ?buf]" by simp_all
  have light: "list_all light_key ks"
    using assms(7) unfolding ks(1)[symmetric] by (simp add: light_key_def[abs_def] list.pred_map comp_def)
  have st: "lv_dispatcher ?ls = dispatch_all dd ks (lv_dispatcher ls)"
    using assms(3) loop_turn_dispatcher[of dd cfg ls]
    by (simp add: loop_turn_def loop_iteration_def tb_drain_def Let_def flip: ks_def dispatch_all_def)
  have "lv_log ?ls = map be_message ?buf" using assms(3,6) by (simp add: loop_turn_sel handled_now_def)
  with assms(1) have "dispatcher_inv dd cfg (map be_message ?buf) (lv_dispatcher ?ls)" by (simp add: live_inv_def)
  then have "sa_second_person_fired (dsp_aggregator (lv_dispatcher ?ls))" by (rule crowd_fires[OF _ assms(2,9)])
  then have "crowd_seen ks (lv_dispatcher ?ls)"
    using light_run[OF light _ assms(4,5), of dd] assms(8) by (auto simp: st ks(2) waiting_def)
  then obtain us trio vs c n where t: "ks = us @ trio @ vs" "length trio = 3" "in_unit c"
    "dsp_flag_decisions (lv_dispatcher ?ls) = [crowd_item c n trio]" unfolding crowd_seen_def by blast
  have "distinct (map fst ks)" using assms(8) ks(2) by simp
  then have "distinct (map fst trio)" "set (map fst trio) \<subseteq> set (map fst ks)" "list_all light_key trio"
    using light t(1) by auto
  with t(2-4) show ?thesis unfolding ks(2) by (intro that)
qed

text \<open>C3: Two people in front of the camera end the session.  When a client's light frames, no more than
  the buffer holds, contain three consecutive ones with two or more faces, one turn each of
  the dispatcher, the worker and the drain task puts exactly one kill-switch with the reason
  \<^verbatim>\<open>second_person\<close> on the wire, and the committed database holds the flag it names and the
  session's termination record.  The identifiers drawn must be new and the session must exist
  without a termination record; no further assumption is made on the frames, the
  libraries or the clocks.\<close>

theorem crowd_ends_session:
  assumes "set_up_session dd deps claims es u = Inr (st, delivery)" "uuid_of_string (sc_session_id claims) = Inr sid"
    and "db_ok d" "get_row es_id sid (db_exam_sessions d) = Some row" "\<not> has_key tr_exam_session_id (db_termination_records d) sid"
    and "tb_buf buffer = []" "length fs \<le> tb_maxlen buffer" "wire_kills outs = []"
    and "list_all (light_frame loads decode (sc_session_id claims)) fs"
    and "has_run 3 (\<lambda>c. 2 \<le> c) (light_counts (map (frame_message loads decode (sc_session_id claims)) fs))"
    and "distinct (map te_id (db_telemetry_events d) @ map keys [0..<length fs])"
    and "\<not> has_key fl_id (db_flags d) (st_flag_id sp)" "\<not> has_key tr_id (db_termination_records d) (st_termination_id sp)"
  shows "let start = live_start claims st delivery buffer outs d;
      ended = one_turn_each dd keys clocks fa num er sid sp monotonic
        (start\<lparr> lv_conn := ws_run loads decode (frame_events fs) (lv_conn start) \<rparr>) in
    live_run dd loads decode fa num er sid start ended \<and>
    wire_kills (wc_sent (lv_conn ended)) = [(JStr (uuid_str (st_flag_id sp)), JStr RULE_SECOND_PERSON)] \<and>
    crowd_recorded sp sid (w_db (lv_worker ended))"
proof -
  define start where "start = live_start claims st delivery buffer outs d"
  let ?cfg = "dispatcher_config_of es sid u"
  let ?seen = "start\<lparr> lv_conn := ws_run loads decode (frame_events fs) (lv_conn start) \<rparr>"
  let ?looped = "loop_turn dd keys clocks None ?seen"
  let ?worked = "worker_turn fa num er sid sp ?looped"
  let ?run = "live_run dd loads decode fa num er sid start"
  have conn: "lv_conn start = new_ws_conn claims delivery buffer outs" by (simp add: start_def live_start_def)
  have b: "buffer_checked (new_ws_conn claims delivery buffer outs)"
    using assms(6) by (simp add: buffer_checked_def new_ws_conn_def)
  have c: "wc_status (lv_conn ?seen) = Receiving" "wire_kills (wc_sent (lv_conn ?seen)) = []"
    "ds_pending_kill (wc_delivery (lv_conn ?seen)) = ds_pending_kill delivery"
    "map be_message (tb_buf (wc_buffer (lv_conn ?seen))) = map (frame_message loads decode (sc_session_id claims)) fs"
    using light_frames_run[of loads decode "lv_conn start" fs] assms(6-9) by (simp_all add: conn new_ws_conn_def Let_def)
  have len: "length (tb_buf (wc_buffer (lv_conn ?seen))) = length fs" using arg_cong[OF c(4), of length] by simp
  have "list_all outside_event (frame_events fs)" by (auto simp: frame_events_def list_all_iff outside_event_def)
  then have r: "?run ?seen" by (rule socket_run)
  then have rl: "?run ?looped" by (rule live_run.Turn[OF _ live_step.Loop])
  then have rw: "?run ?worked" by (rule live_run.Turn[OF _ live_step.Work])
  have inv: "live_inv dd ?cfg sid d ?looped"
    using live_inv_run[OF rl[unfolded start_def] live_inv_start[OF assms(1,2,3) b assms(8)]] by (simp add: start_def)
  from set_up_policy[OF assms(1)] obtain st0 where st0: "new_frame_dispatcher dd ?cfg = Inr st0"
    "st = st0\<lparr> dsp_stop := False, dsp_thread := True \<rparr>" "ds_pending_kill delivery = None"
    using assms(2) by (auto simp: new_delivery_service_def)
  have cfg: "fc_policy_snapshot ?cfg = routes_policy_snapshot" by (simp add: dispatcher_config_of_def)
  have fresh: "\<not> dsp_stop (lv_dispatcher ?seen)" "waiting [] (lv_dispatcher ?seen)"
    "sa_policy (dsp_aggregator (lv_dispatcher ?seen)) = routes_policy_snapshot" "lv_log ?seen = []"
    using st0(1,2) cfg by (auto simp: start_def live_start_def waiting_def new_frame_dispatcher_def bind_err_eq_Inr
        new_session_aggregator_def split: sum.splits)
  have frames: "list_all (\<lambda>m. check_message m \<and> face_counts m \<noteq> []) (map be_message (tb_buf (wc_buffer (lv_conn ?seen))))"
    unfolding c(4) using assms(9) light_frame_checked by (fastforce simp: list_all_iff)
  have keys: "distinct (map keys [0..<length (tb_buf (wc_buffer (lv_conn ?seen)))])"
    "has_run 3 (\<lambda>c. 2 \<le> c) (light_counts (map be_message (tb_buf (wc_buffer (lv_conn ?seen)))))"
    using assms(10,11) unfolding c(4) len by simp_all
  obtain trio cf n where q: "dsp_flag_decisions (lv_dispatcher ?looped) = [crowd_item cf n trio]"
    "in_unit cf" "list_all light_key trio" "distinct (map fst trio)" "set (map fst trio) \<subseteq> set (map keys [0..<length fs])"
    by (rule crowd_queued[OF inv cfg fresh frames keys]) (simp only: len)
  have w: "lv_worker ?looped = new_worker d" "lv_taken ?looped = 0" "\<not> lv_worker_stop ?looped" "lv_kill_queue ?looped = []"
    "lv_conn ?looped = (lv_conn ?seen)\<lparr> wc_buffer := wc_buffer (lv_conn ?looped) \<rparr>"
    by (simp_all add: loop_turn_sel start_def live_start_def) (simp add: loop_turn_def split: prod.split)
  have "distinct (map te_id (db_telemetry_events d) @ map fst trio)" using q(4,5) assms(11) by auto
  note p = crowd_persisted[OF assms(3,4) q(3) this q(2) assms(5,13,12), of fa num er n]
  let ?w = "worker_step fa num er True sid (new_worker d) (sp, crowd_item cf n trio)"
  have worked: "lv_worker ?worked = ?w" "lv_kill_queue ?worked = [(uuid_str (st_flag_id sp), RULE_SECOND_PERSON)]"
    "lv_conn ?worked = lv_conn ?looped"
    using p w(1-4) q(1) by (simp_all add: worker_turn_def Let_def new_worker_def)
  have "wc_status (lv_conn ?worked) = Receiving" using w(5) c(1) worked(3) by (metis loop_turn_sel(3))
  then have "?run (drain_turn monotonic True ?worked)" by (rule live_run.Turn[OF rw live_step.DrainQueue])
  moreover have "wire_kills (wc_sent (lv_conn (drain_turn monotonic True ?worked)))
      = [(JStr (uuid_str (st_flag_id sp)), JStr RULE_SECOND_PERSON)]"
  proof -
    have "ds_pending_kill (wc_delivery (lv_conn ?looped)) = None" "wire_kills (wc_sent (lv_conn ?looped)) = []"
      using c(2,3) st0(3) by (simp_all add: loop_turn_sel)
    then show ?thesis using worked uuid_str_nonempty
      by (simp add: drain_turn_def drain_kill_switch_def prepare_kill_switch_def send_out_def Let_def)
  qed
  moreover have "lv_worker (drain_turn monotonic True ?worked) = ?w" using worked by (simp add: drain_turn_def)
  ultimately show ?thesis using p by (simp add: one_turn_each_def Let_def flip: start_def)
qed

section \<open>After the connection\<close>

text \<open>The stopped worker takes nothing more and the drain task is gone.\<close>

definition torn_down :: "'i live_session \<Rightarrow> 'i live_session \<Rightarrow> bool" where
  "torn_down ls ls' \<longleftrightarrow>
     lv_worker_stop ls' \<and> wc_status (lv_conn ls') \<noteq> Receiving \<and> lv_taken ls' = lv_taken ls \<and>
     w_calls (lv_worker ls') = w_calls (lv_worker ls) \<and> w_persisted_count (lv_worker ls') = w_persisted_count (lv_worker ls) \<and>
     wire_kills (wc_sent (lv_conn ls')) = wire_kills (wc_sent (lv_conn ls))"

lemma torn_down_step:
  assumes "live_step dd loads decode fa num er sid ls1 ls2" "torn_down ls ls1"
  shows "torn_down ls ls2"
  using assms
proof cases
  case (Socket ev)
  have "wc_status (ws_step loads decode ev (lv_conn ls1)) = wc_status (lv_conn ls1)"
    using ws_step_effect[of loads decode ev "lv_conn ls1"] assms(2) by (simp add: step_effect_def torn_down_def)
  then show ?thesis using Socket ws_step_kills[OF Socket(2), of loads decode "lv_conn ls1"] assms(2)
    by (simp add: torn_down_def)
next
  case (Loop keys clocks stop_after)
  then show ?thesis using assms(2) by (simp add: torn_down_def loop_turn_sel)
next
  case (Work st)
  then show ?thesis using assms(2) by (simp add: torn_down_def worker_turn_def)
qed (use assms(2) in \<open>simp_all add: torn_down_def tear_down_def\<close>)

lemma torn_down_run:
  "live_run dd loads decode fa num er sid ls1 ls2 \<Longrightarrow> torn_down ls ls1 \<Longrightarrow> torn_down ls ls2"
  by (induction rule: live_run.induct) (auto intro: torn_down_step)

text \<open>C13: Who disconnects in time escapes.  When the connection is over and the threads have been told to stop, nothing
  that was queued is worked on any more, in whatever order the parties still take turns: the
  worker takes no further decision, counts nothing as persisted and calls nothing back, and no kill-switch is
  sent, even if a terminating decision was waiting in the queue.\<close>

theorem disconnect_drops_queue:
  assumes "wc_status (lv_conn ls) \<noteq> Receiving" "live_run dd loads decode fa num er sid (tear_down ls) ls'"
  shows "lv_taken ls' = lv_taken ls \<and> w_calls (lv_worker ls') = w_calls (lv_worker ls) \<and>
    w_persisted_count (lv_worker ls') = w_persisted_count (lv_worker ls) \<and>
    wire_kills (wc_sent (lv_conn ls')) = wire_kills (wc_sent (lv_conn ls))"
proof -
  have "torn_down ls (tear_down ls)" using assms(1) by (simp add: torn_down_def tear_down_def)
  from torn_down_run[OF assms(2) this] show ?thesis by (simp add: torn_down_def)
qed

text \<open>The crowd was seen, but the candidate closes the page before the worker's turn.\<close>

definition demo_escaped :: "unit live_session" where
  "demo_escaped = demo_socket ClientGone demo_looped"

theorem disconnect_drops_queue_witness:
  "map pf_decision (dsp_flag_decisions (lv_dispatcher demo_escaped)) = [pf_decision demo_crowd_item] \<and>
   w_persisted_count (lv_worker (worker_turn exact_arith id True 1 (demo_stamp 5) (tear_down demo_escaped))) = 0 \<and>
   wire_kills (wc_sent (lv_conn (worker_turn exact_arith id True 1 (demo_stamp 5) (tear_down demo_escaped)))) = []"
proof -
  have gone: "wc_status (lv_conn demo_escaped) \<noteq> Receiving"
    by (simp add: demo_escaped_def demo_socket_def demo_looped_conn)
  have "live_run demo_dispatch demo_loads demo_decode exact_arith id True 1 (tear_down demo_escaped)
      (worker_turn exact_arith id True 1 (demo_stamp 5) (tear_down demo_escaped))"
    by (rule live_run.Turn[OF live_run.Start live_step.Work])
  from disconnect_drops_queue[OF gone this] show ?thesis
    by (simp add: demo_escaped_def demo_socket_def demo_looped_conn demo_looped_queue)
       (simp add: demo_looped_def loop_turn_sel demo_watched_rest new_worker_def)
qed

definition demo_frames :: "client_frame list" where
  "demo_frames = [(''frame'', 1, 1), (''frame'', 2, 2), (''frame'', 3, 3), (''frame'', 4, 4)]"

lemma demo_frames_light:
  "list_all (light_frame demo_loads demo_decode (sc_session_id demo_ws_claims)) demo_frames"
  "map (frame_message demo_loads demo_decode (sc_session_id demo_ws_claims)) demo_frames = replicate 4 demo_frame"
  using demo_frame_accepted
  by (simp_all add: demo_frames_def light_frame_def frame_message_def demo_ws_claims_def numeral_eq_Suc) (simp add: demo_frame_def)

theorem crowd_ends_session_witness:
  "let ended = one_turn_each demo_dispatch (\<lambda>i. 90 + of_nat i) (\<lambda>_ _. 0) exact_arith id True 1 (demo_stamp 5) 9
       (demo_live\<lparr> lv_conn := ws_run demo_loads demo_decode (frame_events demo_frames) (lv_conn demo_live) \<rparr>) in
   wire_kills (wc_sent (lv_conn ended)) = [(JStr (uuid_str (st_flag_id (demo_stamp 5))), JStr ''second_person'')] \<and>
   crowd_recorded (demo_stamp 5) 1 (w_db (lv_worker ended))"
proof -
  have sid: "uuid_of_string (sc_session_id demo_ws_claims) = Inr 1" by code_simp
  have run: "has_run 3 (\<lambda>c. 2 \<le> c) (light_counts (map (frame_message demo_loads demo_decode (sc_session_id demo_ws_claims)) demo_frames))"
    unfolding demo_frames_light(2)
    by (simp add: light_counts_def face_counts_def demo_frame_def numeral_eq_Suc)
       (rule has_runI[of 0]; simp add: less_Suc_eq numeral_eq_Suc; elim disjE; simp)
  have ids: "map (\<lambda>i. 90 + of_nat i) [0..<length demo_frames] = [90, 91, 92, 93 :: uuid]"
    by (simp add: demo_frames_def upt_rec)
  have db: "\<not> has_key tr_exam_session_id (db_termination_records demo_db) 1"
    "distinct (map te_id (db_telemetry_events demo_db) @ map (\<lambda>i. 90 + of_nat i) [0..<length demo_frames])"
    "\<not> has_key fl_id (db_flags demo_db) (st_flag_id (demo_stamp 5))"
    "\<not> has_key tr_id (db_termination_records demo_db) (st_termination_id (demo_stamp 5))"
    unfolding ids by (simp_all add: demo_db_def empty_database_def has_key_def demo_event_def demo_flag_def demo_stamp_def)
  have buf: "tb_buf demo_empty_buffer = []" "length demo_frames \<le> tb_maxlen demo_empty_buffer"
    by (simp_all add: demo_empty_buffer_def demo_frames_def)
  from crowd_ends_session[OF demo_set_up sid demo_db_ok demo_get_session db(1) buf wire_one(10) demo_frames_light(1) run db(2-4)]
  show ?thesis by (simp add: Let_def demo_live_def RULE_SECOND_PERSON_def)
qed

end
