(* ===== verification/LaunchedSession.thy ===== *)
theory LaunchedSession
  imports WsProps LtiProps
begin

text \<open>
  From the launch to the telemetry connection.  A launch answers with a redirect whose fragment carries the
  session token; the client offers the token as the subprotocol of the telemetry socket.  The
  two requests meet in the database and in the settings of the token only.  PyJWT writes tokens in
  the compact form of RFC 7515, three base64url parts joined by dots: \<open>compact_tokens\<close>.
\<close>

section \<open>The token as a subprotocol\<close>

definition token_char :: "char \<Rightarrow> bool" where
  "token_char c \<longleftrightarrow>
     (let n = of_char c :: nat in
      48 \<le> n \<and> n \<le> 57 \<or> 65 \<le> n \<and> n \<le> 90 \<or> 97 \<le> n \<and> n \<le> 122 \<or> n = 45 \<or> n = 46 \<or> n = 95)"

definition compact_tokens :: "'k jwt_lib \<Rightarrow> bool" where
  "compact_tokens jw \<longleftrightarrow> (\<forall>p secret. list_all token_char (jw_encode jw p secret))"

text \<open>What the client sends as \<^verbatim>\<open>Sec-WebSocket-Protocol\<close>.\<close>

definition bearer_header :: "string \<Rightarrow> string" where
  "bearer_header token = SUBPROTOCOL_PREFIX @ token"

lemma token_char_plain: "token_char c \<Longrightarrow> \<not> is_space c \<and> c \<noteq> CHR '',''"
  by (auto simp: token_char_def is_space_def Let_def)

lemma strip_plain: "list_all (\<lambda>c. \<not> is_space c) s \<Longrightarrow> strip s = s"
proof -
  assume s: "list_all (\<lambda>c. \<not> is_space c) s"
  have d: "dropWhile is_space xs = xs" if "list_all (\<lambda>c. \<not> is_space c) xs" for xs
    using that by (cases xs) simp_all
  show ?thesis using s by (simp add: strip_def d)
qed

lemma bearer_matches:
  assumes "list_all token_char token"
  shows "matching_subprotocols (bearer_header token) = [bearer_header token]"
proof -
  have all: "list_all token_char (bearer_header token)"
    using assms by (simp add: bearer_header_def SUBPROTOCOL_PREFIX_def token_char_def Let_def)
  then have "list_all (\<lambda>c. \<not> is_space c) (bearer_header token)" "CHR '','' \<notin> set (bearer_header token)"
    using token_char_plain by (auto simp: list_all_iff)
  then have "strip (bearer_header token) = bearer_header token" "split_on CHR '','' (bearer_header token) = [bearer_header token]"
    by (simp_all add: strip_plain split_on_none)
  moreover have "bearer_header token \<noteq> []" "has_prefix SUBPROTOCOL_PREFIX (bearer_header token)"
    by (simp_all add: bearer_header_def has_prefix_def SUBPROTOCOL_PREFIX_def)
  ultimately show ?thesis by (simp add: matching_subprotocols_def)
qed

lemma bearer_extracted:
  assumes "list_all token_char token"
  shows "extract_token_from_subprotocol (Some (bearer_header token)) = Some token"
    "echo_subprotocol (Some (bearer_header token)) = Some (bearer_header token)"
proof -
  have "bearer_header token \<noteq> []" by (simp add: bearer_header_def SUBPROTOCOL_PREFIX_def)
  then show "extract_token_from_subprotocol (Some (bearer_header token)) = Some token"
    "echo_subprotocol (Some (bearer_header token)) = Some (bearer_header token)"
    by (simp_all add: extract_token_from_subprotocol_def echo_subprotocol_def bearer_matches[OF assms])
       (simp add: bearer_header_def)
qed

section \<open>What a launch leaves behind\<close>

definition launch_token :: "('s, 'k, 'w) router_deps \<Rightarrow> launch_times \<Rightarrow> launch_ids \<Rightarrow> app_role \<Rightarrow> uuid \<Rightarrow> string" where
  "launch_token deps tm ids role pid =
     issue_session_token (dp_jwt deps) (dp_settings deps) pid (li_session ids) role (lt_now tm) (li_jti ids)"

lemma process_launch_result:
  assumes "process_launch jw cfg now ids claims role s = (s', Inr res)"
  obtains pid polid ss where
    "lr_redirect_url res = redirect_url cfg role (issue_session_token jw cfg pid (li_session ids) role now (li_jti ids)) (li_session ids)"
    "db_exam_sessions (working s') = ss @ [launched_session ids claims now pid polid]"
proof -
  from assms obtain nm policy where pol: "require_policy_config_name claims = Inr nm" "resolve_policy nm (working s) = Inr policy"
    by (auto simp: process_launch_def split: sum.splits)
  from assms pol obtain s1 p where s1: "upsert_participant ids claims s = (s1, Inr p)"
    by (auto simp: process_launch_def split: sum.splits prod.splits)
  define es where "es = launched_session ids claims now (pt_id p) (pc_id policy)"
  from assms pol s1 obtain s2 es' where s2': "create_session es s1 = (s2, Inr es')"
    by (auto simp: process_launch_def es_def split: sum.splits prod.splits)
  then have s2: "create_session es s1 = (s2, Inr es)" "db_exam_sessions (working s2) = db_exam_sessions (working s1) @ [es]"
    using create_session_Inr by fastforce+
  from assms pol s1 s2(1) have s3: "(if is_admin_route role then upsert_admin ids claims role s2 else (s2, Inr ())) = (s', Inr ())"
    and res: "lr_redirect_url res = redirect_url cfg role
        (issue_session_token jw cfg (pt_id p) (es_id es) role now (li_jti ids)) (es_id es)"
    by (auto simp: process_launch_def es_def Let_def split: sum.splits prod.splits if_splits)
  have "db_exam_sessions (working s') = db_exam_sessions (working s2)"
  proof (cases "is_admin_route role")
    case True
    with s3 have "upsert_admin ids claims role s2 = (s', Inr ())" by simp
    from upsert_admin_Inr[OF this] have w: "working s' = (working s2)\<lparr> db_admin_users := db_admin_users (working s') \<rparr>" by blast
    show ?thesis by (subst w) simp
  next
    case False
    with s3 show ?thesis by simp
  qed
  then have "db_exam_sessions (working s') = db_exam_sessions (working s1) @ [launched_session ids claims now (pt_id p) (pc_id policy)]"
    using s2(2) by (simp add: es_def)
  then show ?thesis using res by (intro that) (simp_all add: es_def launched_session_def)
qed

text \<open>The launch of a world \<open>w\<close> that answered with a redirect, by what the client and the database see of it.\<close>

definition launched ::
  "('s, 'k, 'w) router_deps \<Rightarrow> launch_times \<Rightarrow> launch_ids \<Rightarrow> string \<Rightarrow> database \<Rightarrow> database \<Rightarrow> string \<Rightarrow> app_role \<Rightarrow> uuid \<Rightarrow> exam_session \<Rightarrow> bool" where
  "launched deps tm ids tok d d' url role pid es \<longleftrightarrow>
     (\<exists>issuer k claims polid. launch_claims deps tm tok issuer k = Inr (claims, role) \<and>
        es = launched_session ids claims (lt_now tm) pid polid) \<and>
     url = redirect_url (dp_settings deps) role (launch_token deps tm ids role pid) (li_session ids) \<and>
     get_row es_id (li_session ids) (db_exam_sessions d') = Some es \<and>
     \<not> has_key es_id (db_exam_sessions d) (li_session ids) \<and> same_but_launch d d' \<and> db_ok d'"

lemma launch_found:
  assumes "lti_launch deps tm ids tok w = (w', Found url)" "db_ok (lw_db w)"
  obtains role pid es where "launched deps tm ids tok (lw_db w) (lw_db w') url role pid es"
  using assms(1)
proof (cases rule: lti_launch_cases)
  case (persisted kid unv issuer w1 w2 k claims role w3 d)
  have d: "lw_db w' = d" using persisted(7) by simp
  from persisted(6) obtain s1 s2 res where
    pl: "process_launch (dp_jwt deps) (dp_settings deps) (lt_now tm) ids claims role (open_session (lw_db w)) = (s1, Inr res)"
    and cm: "commit s1 = Inr s2" "d = committed s2" "url = lr_redirect_url res"
    by (auto simp: launch_persist_def http_error_def split: prod.splits sum.splits launch_failure.splits)
  from process_launch_result[OF pl] obtain pid polid ss where
    u: "url = redirect_url (dp_settings deps) role (launch_token deps tm ids role pid) (li_session ids)"
    and ss: "db_exam_sessions (working s1) = ss @ [launched_session ids claims (lt_now tm) pid polid]"
    unfolding launch_token_def cm(3) by metis
  have dw: "d = working s1" "db_ok d" using commit_Inr[OF cm(1)] cm(2) by auto
  have eff: "launch_effect claims role (lt_now tm) (lw_db w) (working s1)"
    using process_launch_effect[OF pl assms(2)] by simp
  then have ss': "ss = db_exam_sessions (lw_db w)" "same_but_launch (lw_db w) d"
    by (auto simp: launch_effect_def ss dw(1))
  have dist: "distinct (map es_id (db_exam_sessions d))" using dw(2) by (simp add: db_ok_def keys_ok_def)
  let ?es = "launched_session ids claims (lt_now tm) pid polid"
  have sid: "es_id ?es = li_session ids" by (simp add: launched_session_def)
  have row: "get_row es_id (li_session ids) (db_exam_sessions d) = Some ?es"
    using get_row_unique[OF dist, of ?es] ss dw(1) sid by simp
  have "\<not> has_key es_id (db_exam_sessions (lw_db w)) (li_session ids)"
    using dist ss ss'(1) dw(1) sid by (auto simp: has_key_iff)
  then have "launched deps tm ids tok (lw_db w) d url role pid ?es"
    using persisted(4) u row ss'(2) dw(2) unfolding launched_def by blast
  then show ?thesis using that d by simp
qed simp

section \<open>The first connection\<close>

text \<open>Both endpoints read the token with the settings and the library it was issued with, from the second it was
  issued on, in years that \<^verbatim>\<open>datetime\<close> can express.\<close>

definition same_tokens ::
  "('s, 'k, 'w) router_deps \<Rightarrow> launch_times \<Rightarrow> 'k ws_router_deps \<Rightarrow> ws_env \<Rightarrow> bool" where
  "same_tokens deps tm wd env \<longleftrightarrow>
     wd_jwt wd = dp_jwt deps \<and> wd_settings wd = dp_settings deps \<and> 0 \<le> lt_now tm \<and>
     0 < ls_session_token_ttl_seconds (dp_settings deps) \<and>
     unix_seconds (lt_now tm) + ls_session_token_ttl_seconds (dp_settings deps) \<le> 253402300799 \<and>
     unix_seconds (lt_now tm) \<le> we_now_seconds env"

definition token_expired :: "('s, 'k, 'w) router_deps \<Rightarrow> launch_times \<Rightarrow> ws_env \<Rightarrow> bool" where
  "token_expired deps tm env \<longleftrightarrow>
     unix_seconds (lt_now tm) + ls_session_token_ttl_seconds (dp_settings deps) \<le> we_now_seconds env"

lemma launched_row:
  assumes "launched deps tm ids tok d d' url role pid es"
  shows "es_id es = li_session ids" "es_status es = SS_PENDING" "es_consent_recorded_at es = Some (lt_now tm)"
  using assms by (auto simp: launched_def launched_session_def)

lemma launch_token_accepted:
  assumes "jwt_ok (dp_jwt deps)" "compact_tokens (dp_jwt deps)" "same_tokens deps tm wd env"
  shows "after_accept wd env backend (Some (bearer_header (launch_token deps tm ids role pid))) db =
    (if token_expired deps tm env then reject WS_CLOSE_AUTH_EXPIRED ''Token expired.'' db
     else authenticated env backend (issued_claims (dp_settings deps) pid (li_session ids) role (lt_now tm) (li_jti ids)) db)"
    and "echo_subprotocol (Some (bearer_header (launch_token deps tm ids role pid)))
      = Some (bearer_header (launch_token deps tm ids role pid))"
proof -
  have c: "list_all token_char (launch_token deps tm ids role pid)"
    using assms(2) by (simp add: compact_tokens_def launch_token_def issue_session_token_def)
  note ex = bearer_extracted[OF c]
  have "decode_session_token (wd_jwt wd) (wd_str_of wd) (wd_settings wd) (we_now_seconds env) (launch_token deps tm ids role pid)
    = (if token_expired deps tm env then Inl (SessionTokenExpired ''session token has expired'')
       else Inr (issued_claims (dp_settings deps) pid (li_session ids) role (lt_now tm) (li_jti ids)))"
    using assms(1,3) by (simp add: same_tokens_def launch_token_def token_expired_def decode_issue)
  with ex show "after_accept wd env backend (Some (bearer_header (launch_token deps tm ids role pid))) db =
    (if token_expired deps tm env then reject WS_CLOSE_AUTH_EXPIRED ''Token expired.'' db
     else authenticated env backend (issued_claims (dp_settings deps) pid (li_session ids) role (lt_now tm) (li_jti ids)) db)"
    by (simp add: after_accept_def)
  show "echo_subprotocol (Some (bearer_header (launch_token deps tm ids role pid)))
      = Some (bearer_header (launch_token deps tm ids role pid))" by (rule ex(2))
qed

lemma lookup_launched:
  assumes "get_row es_id sid (db_exam_sessions d) = Some es" "db_ok d" "List.member CONNECTABLE_STATUSES (es_status es)"
  shows "lookup_session d (uuid_str sid) = Some es"
proof -
  let ?P = "\<lambda>s. es_id s = sid \<and> List.member CONNECTABLE_STATUSES (es_status s)"
  have es: "es \<in> set (db_exam_sessions d)" "es_id es = sid" using get_row_Some[OF assms(1)] by auto
  obtain s where s: "find ?P (db_exam_sessions d) = Some s"
    using es assms(3) by (cases "find ?P (db_exam_sessions d)") (auto simp: find_None_iff)
  then have "s \<in> set (db_exam_sessions d)" "es_id s = sid" by (auto simp: find_Some_iff)
  moreover have "distinct (map es_id (db_exam_sessions d))" using assms(2) by (simp add: db_ok_def keys_ok_def)
  ultimately have "s = es" using assms(1) by (metis get_row_unique option.inject)
  with s show ?thesis by (simp add: lookup_session_def uuid_of_uuid_str)
qed

lemma launched_authenticated:
  assumes "db_ok d" "get_row es_id (li_session ids) (db_exam_sessions d) = Some es"
    "es_status es = SS_PENDING" "es_consent_recorded_at es \<noteq> None"
  shows "authenticated env backend (issued_claims cfg pid (li_session ids) role now jti) (open_session d) =
    (if role \<noteq> APP_LEARNER
     then reject WS_CLOSE_NOT_LEARNER ''Only learner-role tokens may open a telemetry connection.'' (open_session d)
     else identity_gate env backend (issued_claims cfg pid (li_session ids) role now jti) es (open_session d))"
  using lookup_launched[OF assms(2,1)] assms(3,4)
  by (auto simp: authenticated_def issued_claims_def CONNECTABLE_STATUSES_def)

text \<open>C7: The token of a launch opens the telemetry connection of that launch.  After a launch that
  answered with a redirect, the token in the redirect's fragment, offered as the subprotocol while the
  identity backend is available, is refused as expired once its life is over and is refused for
  the other roles; a learner is admitted to the session the launch created, which becomes active
  while nothing else changes.  Other requests may have changed the database in between, except
  for the session's row.\<close>

theorem launched_session_admitted:
  assumes "lti_launch deps tm ids tok w = (w', Found url)" "db_ok (lw_db w)"
    and "jwt_ok (dp_jwt deps)" "compact_tokens (dp_jwt deps)" "same_tokens deps tm wd env"
    and "db_ok d" "get_row es_id (li_session ids) (db_exam_sessions d) = get_row es_id (li_session ids) (db_exam_sessions (lw_db w'))"
  shows "\<exists>token role issuer k idc.
    launch_claims deps tm tok issuer k = Inr (idc, role) \<and>
    url = redirect_url (dp_settings deps) role token (li_session ids) \<and>
    (case ws_handshake wd env Imported (Some (bearer_header token)) (open_session d) of (db', outs, h) \<Rightarrow>
       if token_expired deps tm env
       then h = Rejected \<and> committed db' = d \<and>
         outs = [Accepted (Some (bearer_header token)), CloseFrame WS_CLOSE_AUTH_EXPIRED ''Token expired.'']
       else if role \<noteq> APP_LEARNER
       then h = Rejected \<and> committed db' = d \<and>
         outs = [Accepted (Some (bearer_header token)),
                 CloseFrame WS_CLOSE_NOT_LEARNER ''Only learner-role tokens may open a telemetry connection.'']
       else \<exists>claims es. h = Admitted claims es False \<and> outs = [Accepted (Some (bearer_header token))] \<and>
         es_id es = li_session ids \<and> sc_session_id claims = uuid_str (li_session ids) \<and>
         session_row_set (set_active es) d (committed db'))"
proof -
  obtain role pid es where l: "launched deps tm ids tok (lw_db w) (lw_db w') url role pid es"
    using launch_found[OF assms(1,2)] .
  then obtain issuer k idc where c: "launch_claims deps tm tok issuer k = Inr (idc, role)"
      "url = redirect_url (dp_settings deps) role (launch_token deps tm ids role pid) (li_session ids)"
    unfolding launched_def by blast
  have row: "get_row es_id (li_session ids) (db_exam_sessions d) = Some es" using l assms(7) by (simp add: launched_def)
  note es = launched_row[OF l]
  let ?token = "launch_token deps tm ids role pid"
  have ok: "db_ok (working (open_session d))" using assms(6) by simp
  have row': "session_row_set (set_active es) d
      (d\<lparr> db_exam_sessions := update_row es_id (es_id es) set_active (db_exam_sessions d) \<rparr>)"
    using row es(1) by (intro session_row_set_update) simp_all
  have "case ws_handshake wd env Imported (Some (bearer_header ?token)) (open_session d) of (db', outs, h) \<Rightarrow>
       if token_expired deps tm env
       then h = Rejected \<and> committed db' = d \<and>
         outs = [Accepted (Some (bearer_header ?token)), CloseFrame WS_CLOSE_AUTH_EXPIRED ''Token expired.'']
       else if role \<noteq> APP_LEARNER
       then h = Rejected \<and> committed db' = d \<and>
         outs = [Accepted (Some (bearer_header ?token)),
                 CloseFrame WS_CLOSE_NOT_LEARNER ''Only learner-role tokens may open a telemetry connection.'']
       else \<exists>claims es. h = Admitted claims es False \<and> outs = [Accepted (Some (bearer_header ?token))] \<and>
         es_id es = li_session ids \<and> sc_session_id claims = uuid_str (li_session ids) \<and>
         session_row_set (set_active es) d (committed db')"
    using row' es activate_session_outcome[OF ok, of es]
      launched_authenticated[OF assms(6) row, where env = env and backend = Imported]
    by (simp add: ws_handshake_def launch_token_accepted[OF assms(3-5)] reject_def identity_gate_def issued_claims_def)
  with c show ?thesis by (intro exI conjI)
qed

lemma fk_fresh: "fk col rows keys \<Longrightarrow> k \<notin> set keys \<Longrightarrow> list_all (\<lambda>r. col r \<noteq> k) rows \<and> k \<notin> col ` set rows"
  by (auto simp: fk_def list_all_iff)

text \<open>C20: Without the identity backend a launch is wasted.  A session that was just launched has no override,
  since an override refers to an existing session; so the learner's first connection terminates it: the
  socket is closed with 4008, the session's row is terminated and a termination record says so.\<close>

theorem launched_session_blocked:
  assumes "lti_launch deps tm ids tok w = (w', Found url)" "db_ok (lw_db w)"
    and "jwt_ok (dp_jwt deps)" "compact_tokens (dp_jwt deps)" "same_tokens deps tm wd env" "\<not> token_expired deps tm env"
    and "\<not> has_key tr_id (db_termination_records (lw_db w)) (we_termination_id env)"
  shows "\<exists>token role issuer k idc.
    launch_claims deps tm tok issuer k = Inr (idc, role) \<and>
    url = redirect_url (dp_settings deps) role token (li_session ids) \<and>
    (role = APP_LEARNER \<longrightarrow>
      (case ws_handshake wd env NotInstalled (Some (bearer_header token)) (open_session (lw_db w')) of (db', outs, h) \<Rightarrow>
         h = Rejected \<and>
         outs = [Accepted (Some (bearer_header token)),
                 CloseFrame WS_CLOSE_IDENTITY_BACKEND_UNAVAILABLE ''Identity backend unavailable and no valid override exists.''] \<and>
         map_option es_status (get_row es_id (li_session ids) (db_exam_sessions (committed db'))) = Some SS_TERMINATED \<and>
         db_termination_records (committed db') = db_termination_records (lw_db w)
           @ [blocked_record (we_termination_id env) (we_now env) (li_session ids)]))"
proof -
  obtain role pid es where l: "launched deps tm ids tok (lw_db w) (lw_db w') url role pid es"
    using launch_found[OF assms(1,2)] .
  then obtain issuer k idc where c: "launch_claims deps tm tok issuer k = Inr (idc, role)"
      "url = redirect_url (dp_settings deps) role (launch_token deps tm ids role pid) (li_session ids)"
    unfolding launched_def by blast
  let ?token = "launch_token deps tm ids role pid" and ?d = "lw_db w'"
  have row: "get_row es_id (li_session ids) (db_exam_sessions ?d) = Some es" and ok: "db_ok ?d"
    and fresh: "\<not> has_key es_id (db_exam_sessions (lw_db w)) (li_session ids)" and sbl: "same_but_launch (lw_db w) ?d"
    using l by (auto simp: launched_def)
  note es = launched_row[OF l]
  from sbl have same: "db_termination_records ?d = db_termination_records (lw_db w)"
    "db_identity_overrides ?d = db_identity_overrides (lw_db w)"
    unfolding same_but_launch_def by (metis database.select_convs database.surjective database.update_convs)+
  from assms(2) have "fk io_exam_session_id (db_identity_overrides (lw_db w)) (map es_id (db_exam_sessions (lw_db w)))"
    "fk tr_exam_session_id (db_termination_records (lw_db w)) (map es_id (db_exam_sessions (lw_db w)))"
    by (simp_all add: db_ok_def refs_ok_def Let_def)
  with fresh fk_fresh have "list_all (\<lambda>r. io_exam_session_id r \<noteq> li_session ids) (db_identity_overrides ?d)"
    "\<not> has_key tr_exam_session_id (db_termination_records ?d) (li_session ids)"
    unfolding same has_key_iff by fastforce+
  then have none: "valid_overrides (we_now env) (es_id es) ?d = []"
    and clear: "\<not> has_key tr_exam_session_id (db_termination_records ?d) (es_id es)"
    using es(1) by (auto simp: valid_overrides_def filter_empty_conv list_all_iff)
  obtain db' where b: "block_session env (es_id es) (open_session ?d) = Inr db'"
      "session_row_set (set_blocked es) ?d ((committed db')\<lparr> db_termination_records := db_termination_records ?d \<rparr>)"
      "db_termination_records (committed db') = db_termination_records ?d @ [blocked_record (we_termination_id env) (we_now env) (es_id es)]"
    using block_session_outcome[OF ok row[folded es(1)], of env] clear assms(7)[folded same(1)]
    by (auto simp: unrecordable_def)
  have "map_option es_status (get_row es_id (li_session ids) (db_exam_sessions (committed db'))) = Some SS_TERMINATED"
    using b(2) es(1) by (simp add: session_row_set_def) (simp add: set_blocked_def)
  with b es launched_authenticated[OF ok row, where env = env and backend = NotInstalled] none assms(6) same
  have "role = APP_LEARNER \<longrightarrow>
      (case ws_handshake wd env NotInstalled (Some (bearer_header ?token)) (open_session ?d) of (db', outs, h) \<Rightarrow>
         h = Rejected \<and>
         outs = [Accepted (Some (bearer_header ?token)),
                 CloseFrame WS_CLOSE_IDENTITY_BACKEND_UNAVAILABLE ''Identity backend unavailable and no valid override exists.''] \<and>
         map_option es_status (get_row es_id (li_session ids) (db_exam_sessions (committed db'))) = Some SS_TERMINATED \<and>
         db_termination_records (committed db') = db_termination_records (lw_db w)
           @ [blocked_record (we_termination_id env) (we_now env) (li_session ids)])"
    by (simp add: ws_handshake_def launch_token_accepted[OF assms(3-5)] reject_def identity_gate_def)
  with c show ?thesis by (intro exI conjI)
qed

section \<open>A learner's launch\<close>

text \<open>The session tokens of \<open>demo_jwt\<close>, written in sixteen letters.\<close>

definition letters :: "char \<Rightarrow> string" where
  "letters c = [char_of (97 + (of_char c :: nat) div 16), char_of (97 + (of_char c :: nat) mod 16)]"

definition in_letters :: "string \<Rightarrow> string" where
  "in_letters s = concat (map letters s)"

fun from_letters :: "string \<Rightarrow> string" where
  "from_letters (a # b # s) = char_of (((of_char a :: nat) - 97) * 16 + ((of_char b :: nat) - 97)) # from_letters s"
| "from_letters s = []"

lemma letter_range: "(of_char c :: nat) div 16 < 16" "(of_char c :: nat) mod 16 < 16"
proof -
  have "(of_char c :: nat) < 256" by (simp add: of_char_def)
  then show "(of_char c :: nat) div 16 < 16" by (simp add: less_mult_imp_div_less)
qed simp

lemma letter_codes:
  "(of_char (char_of (97 + (of_char c :: nat) div 16) :: char) :: nat) = 97 + of_char c div 16"
  "(of_char (char_of (97 + (of_char c :: nat) mod 16) :: char) :: nat) = 97 + of_char c mod 16"
proof -
  have "(of_char c :: nat) div 16 < 16" by (rule letter_range)
  then show "(of_char (char_of (97 + (of_char c :: nat) div 16) :: char) :: nat) = 97 + of_char c div 16"
    "(of_char (char_of (97 + (of_char c :: nat) mod 16) :: char) :: nat) = 97 + of_char c mod 16"
    by simp_all
qed

lemma from_in_letters: "from_letters (in_letters s) = s"
proof (induction s)
  case (Cons c s)
  have "(of_char c :: nat) div 16 * 16 + of_char c mod 16 = of_char c" by simp
  with Cons show ?case by (simp only: in_letters_def letters_def letter_codes list.map concat.simps append_Cons append_Nil
      from_letters.simps add_diff_cancel_left') simp
qed (simp add: in_letters_def)

lemma in_letters_plain: "list_all token_char (in_letters s)"
proof -
  have "list_all token_char (letters c)" for c
  proof -
    show ?thesis using letter_range[of c] by (simp add: letters_def token_char_def letter_codes Let_def)
  qed
  then show ?thesis by (auto simp: in_letters_def list_all_iff)
qed

definition letter_jwt :: "string jwt_lib" where
  "letter_jwt = demo_jwt
     \<lparr> jw_encode := (\<lambda>p secret. in_letters (jw_encode demo_jwt p secret)),
       jw_decode := (\<lambda>token. jw_decode demo_jwt (from_letters token)) \<rparr>"

lemma letter_jwt_ok: "jwt_ok letter_jwt" "compact_tokens letter_jwt"
  using demo_jwt_ok by (simp_all add: jwt_ok_def letter_jwt_def from_in_letters compact_tokens_def in_letters_plain)

text \<open>Whether a launch succeeds does not depend on how session tokens are encoded.\<close>

lemma process_launch_jwt:
  "map_prod id (map_sum id (\<lambda>_. ())) (process_launch jw cfg now ids claims role s)
   = map_prod id (map_sum id (\<lambda>_. ())) (process_launch jw' cfg now ids claims role s)"
  by (simp add: process_launch_def Let_def split: sum.split prod.split)

lemma launch_persist_jwt:
  "is_found (snd (launch_persist (deps\<lparr> dp_jwt := jw \<rparr>) tm ids claims role d)) = is_found (snd (launch_persist deps tm ids claims role d))"
  using process_launch_jwt[of jw "dp_settings deps" "lt_now tm" ids claims role "open_session d" "dp_jwt deps"]
  by (cases "process_launch jw (dp_settings deps) (lt_now tm) ids claims role (open_session d)";
      cases "process_launch (dp_jwt deps) (dp_settings deps) (lt_now tm) ids claims role (open_session d)")
     (auto simp: launch_persist_def http_error_def split: sum.splits launch_failure.splits)

lemma jwt_free:
  "lti_login (deps\<lparr> dp_jwt := jw \<rparr>) = lti_login deps" "launch_peek (deps\<lparr> dp_jwt := jw \<rparr>) = launch_peek deps"
  "launch_key (deps\<lparr> dp_jwt := jw \<rparr>) = launch_key deps" "launch_consume (deps\<lparr> dp_jwt := jw \<rparr>) = launch_consume deps"
  by - (cases deps; intro ext;
    simp only: lti_login_def launch_peek_def launch_key_def launch_consume_def router_deps.select_convs router_deps.update_convs)+

lemma launch_claims_jwt:
  "jw_verify jw = jw_verify (dp_jwt deps) \<Longrightarrow> launch_claims (deps\<lparr> dp_jwt := jw \<rparr>) = launch_claims deps"
  by (cases deps; intro ext; simp only: launch_claims_def router_deps.select_convs router_deps.update_convs)

lemma lti_launch_jwt:
  assumes "jw_header jw = jw_header (dp_jwt deps)" "jw_unverified jw = jw_unverified (dp_jwt deps)" "jw_verify jw = jw_verify (dp_jwt deps)"
  shows "is_found (snd (lti_launch (deps\<lparr> dp_jwt := jw \<rparr>) tm ids tok w)) = is_found (snd (lti_launch deps tm ids tok w))"
proof -
  have "launch_header jw = launch_header (dp_jwt deps)" using assms(1,2) by (intro ext) (simp only: launch_header_def)
  then show ?thesis
    using launch_persist_jwt[where deps = deps and jw = jw and tm = tm and ids = ids]
    by (simp add: lti_launch_def jwt_free launch_claims_jwt[OF assms(3)] case_prod_unfold split: sum.split)
qed

definition demo_learner_plain :: "(launch_entries, string, unit) router_deps" where
  "demo_learner_plain = demo_deps
     \<lparr> dp_decode := (\<lambda>_. Some (demo_claims\<lparr> it_roles := [''http://purl.imsglobal.org/vocab/lis/v2/membership#Learner''] \<rparr>)) \<rparr>"

definition demo_learner_deps :: "(launch_entries, string, unit) router_deps" where
  "demo_learner_deps = demo_learner_plain\<lparr> dp_jwt := letter_jwt \<rparr>"

definition demo_learner_world :: "(launch_entries, string, unit) launch_world" where
  "demo_learner_world = fst (run_event demo_learner_deps demo_login demo_world)"

definition demo_learner_ws :: "string ws_router_deps" where
  "demo_learner_ws = \<lparr> wd_jwt = letter_jwt, wd_str_of = (\<lambda>_. []), wd_settings = dp_settings demo_learner_deps,
     wd_heartbeat_timeout_seconds = 30 \<rparr>"

definition demo_first_connect :: ws_env where
  "demo_first_connect = \<lparr> we_now_seconds = 21, we_now = 21000000, we_termination_id = 77 \<rparr>"

lemma demo_learner_plain_found:
  "is_found (snd (lti_launch demo_learner_plain demo_times demo_ids demo_id_token (fst (run_event demo_learner_plain demo_login demo_world))))"
  by code_simp

lemma demo_learner_world: "demo_learner_world = fst (run_event demo_learner_plain demo_login demo_world)"
  by (simp add: demo_learner_world_def demo_learner_deps_def demo_login_def jwt_free)

lemma demo_learner_found: "is_found (snd (lti_launch demo_learner_deps demo_times demo_ids demo_id_token demo_learner_world))"
  using demo_learner_plain_found lti_launch_jwt[of letter_jwt demo_learner_plain]
  by (simp add: demo_learner_deps_def demo_learner_world letter_jwt_def demo_learner_plain_def demo_deps_def)

lemma demo_learner_role:
  "launch_claims demo_learner_deps tm tok issuer k = Inr (idc, role) \<Longrightarrow> role = APP_LEARNER"
proof -
  have r: "map_roles [''http://purl.imsglobal.org/vocab/lis/v2/membership#Learner''] = Inr APP_LEARNER" by code_simp
  assume "launch_claims demo_learner_deps tm tok issuer k = Inr (idc, role)"
  then show ?thesis
    by (auto simp: launch_claims_def Let_def demo_learner_deps_def demo_learner_plain_def from_jwt_payload_Inr r
        split: sum.splits jwt_error.splits option.splits if_splits)
qed

lemma demo_same_tokens: "same_tokens demo_learner_deps demo_times demo_learner_ws demo_first_connect"
  "\<not> token_expired demo_learner_deps demo_times demo_first_connect"
  by (simp_all add: same_tokens_def token_expired_def demo_learner_deps_def demo_learner_plain_def demo_deps_def demo_learner_ws_def demo_first_connect_def
      demo_times_def demo_lti_settings_def unix_seconds_def)

lemma demo_learner_db: "db_ok (lw_db demo_learner_world)" "lw_db demo_learner_world = demo_db"
proof -
  show d: "lw_db demo_learner_world = demo_db"
    by (simp add: demo_learner_world demo_login_def lti_login_def demo_world_def Let_def split: prod.split sum.split)
  show "db_ok (lw_db demo_learner_world)" unfolding d by (rule demo_db_ok)
qed

lemma demo_launched_id: "li_session demo_ids = 51"
  by (simp add: demo_ids_def)

theorem launched_session_admitted_witness:
  "let (w', resp) = lti_launch demo_learner_deps demo_times demo_ids demo_id_token demo_learner_world in
   is_found resp \<and> (\<exists>token db' claims es.
     ws_handshake demo_learner_ws demo_first_connect Imported (Some (bearer_header token)) (open_session (lw_db w'))
       = (db', [Accepted (Some (bearer_header token))], Admitted claims es False) \<and>
     sc_session_id claims = uuid_str 51 \<and> session_row_set (set_active es) (lw_db w') (committed db'))"
proof -
  obtain w' url where r: "lti_launch demo_learner_deps demo_times demo_ids demo_id_token demo_learner_world = (w', Found url)"
    using demo_learner_found by (metis is_found.elims(2) prod.collapse)
  from launch_found[OF r demo_learner_db(1)] have ok: "db_ok (lw_db w')" by (metis launched_def)
  have jw: "jwt_ok (dp_jwt demo_learner_deps)" "compact_tokens (dp_jwt demo_learner_deps)"
    by (simp_all add: demo_learner_deps_def letter_jwt_ok)
  from launched_session_admitted[OF r demo_learner_db(1) jw demo_same_tokens(1) ok refl]
  show ?thesis
    apply (elim exE conjE)
    apply (frule demo_learner_role)
    subgoal for token by (cases "ws_handshake demo_learner_ws demo_first_connect Imported (Some (bearer_header token)) (open_session (lw_db w'))")
      (auto simp: r demo_same_tokens(2) demo_launched_id)
    done
qed

theorem launched_session_blocked_witness:
  "let (w', resp) = lti_launch demo_learner_deps demo_times demo_ids demo_id_token demo_learner_world in
   is_found resp \<and> (\<exists>token.
     map_option es_status (get_row es_id 51 (db_exam_sessions (committed (fst
       (ws_handshake demo_learner_ws demo_first_connect NotInstalled (Some (bearer_header token)) (open_session (lw_db w'))))))) = Some SS_TERMINATED)"
proof -
  obtain w' url where r: "lti_launch demo_learner_deps demo_times demo_ids demo_id_token demo_learner_world = (w', Found url)"
    using demo_learner_found by (metis is_found.elims(2) prod.collapse)
  have jw: "jwt_ok (dp_jwt demo_learner_deps)" "compact_tokens (dp_jwt demo_learner_deps)"
    by (simp_all add: demo_learner_deps_def letter_jwt_ok)
  have "\<not> has_key tr_id (db_termination_records (lw_db demo_learner_world)) (we_termination_id demo_first_connect)"
    by (simp add: demo_learner_db(2) demo_db_def empty_database_def has_key_def)
  from launched_session_blocked[OF r demo_learner_db(1) jw demo_same_tokens this]
  show ?thesis
    apply (elim exE conjE)
    apply (frule demo_learner_role)
    subgoal for token by (cases "ws_handshake demo_learner_ws demo_first_connect NotInstalled (Some (bearer_header token)) (open_session (lw_db w'))")
      (auto simp: r demo_launched_id intro!: exI[of _ token])
    done
qed

end
