(* ===== verification/Lifecycle.thy ===== *)
theory Lifecycle
  imports FlagWorker FrameDispatcher
begin

text \<open>
  Starting and stopping the two background threads of a session (\<open>start\<close> and \<open>stop\<close> of
  \<^verbatim>\<open>FlagPersistenceWorker\<close> and of \<^verbatim>\<open>FrameDispatcher\<close>, which do the same with their thread), and the
  runners that \<^verbatim>\<open>FrameDispatcher.stop\<close> closes.  A thread runs until it sees the stop event set;
  \<^verbatim>\<open>join(timeout)\<close> may return before that.
\<close>

section \<open>Threads\<close>

text \<open>\<open>ow_alive\<close> are the threads whose loop has not returned, which no attribute records.\<close>

record thread_owner =
  ow_stop :: bool
  ow_thread :: "nat option"
  ow_alive :: "nat list"
  ow_started :: nat

definition new_owner :: thread_owner where
  "new_owner = \<lparr> ow_stop = False, ow_thread = None, ow_alive = [], ow_started = 0 \<rparr>"

definition owner_start :: "thread_owner \<Rightarrow> thread_owner" where
  "owner_start o' =
     (if ow_thread o' \<noteq> None then o'
      else o'\<lparr> ow_stop := False, ow_thread := Some (ow_started o'), ow_alive := ow_alive o' @ [ow_started o'],
               ow_started := ow_started o' + 1 \<rparr>)"

text \<open>\<open>joined\<close>: the thread returned within the timeout.\<close>

definition owner_stop :: "bool \<Rightarrow> thread_owner \<Rightarrow> thread_owner" where
  "owner_stop joined o' =
     (case ow_thread o' of
        None \<Rightarrow> o'\<lparr> ow_stop := True \<rparr>
      | Some t \<Rightarrow> o'\<lparr> ow_stop := True, ow_thread := None,
                     ow_alive := (if joined then filter (\<lambda>x. x \<noteq> t) (ow_alive o') else ow_alive o') \<rparr>)"

datatype owner_op = StartThread | StopThread bool | ThreadReturns nat

fun owner_step :: "owner_op \<Rightarrow> thread_owner \<Rightarrow> thread_owner" where
  "owner_step StartThread o' = owner_start o'"
| "owner_step (StopThread joined) o' = owner_stop joined o'"
| "owner_step (ThreadReturns t) o' = (if ow_stop o' then o'\<lparr> ow_alive := filter (\<lambda>x. x \<noteq> t) (ow_alive o') \<rparr> else o')"

definition owner_run :: "owner_op list \<Rightarrow> thread_owner \<Rightarrow> thread_owner" where
  "owner_run ops o' = fold owner_step ops o'"

definition joins :: "owner_op \<Rightarrow> bool" where
  "joins op \<longleftrightarrow> op \<noteq> StopThread False"

definition owner_inv :: "thread_owner \<Rightarrow> bool" where
  "owner_inv o' \<longleftrightarrow>
     (case ow_thread o' of
        None \<Rightarrow> ow_alive o' = []
      | Some t \<Rightarrow> \<not> ow_stop o' \<and> ow_alive o' = [t])"

lemma owner_inv_step: "owner_inv o' \<Longrightarrow> joins op \<Longrightarrow> owner_inv (owner_step op o')"
  by (cases op) (auto simp: owner_inv_def joins_def owner_start_def owner_stop_def split: option.splits)

lemma owner_inv_run: "owner_inv o' \<Longrightarrow> list_all joins ops \<Longrightarrow> owner_inv (owner_run ops o')"
  by (induction ops arbitrary: o') (auto simp: owner_run_def owner_inv_step)

text \<open>Whatever the order of starts and stops, as long as no join times out there is at most one thread,
  and it is the one that the attribute names and that has not been told to stop.\<close>

theorem one_thread:
  assumes "list_all joins ops"
  shows "length (ow_alive (owner_run ops new_owner)) \<le> 1 \<and>
    (ow_alive (owner_run ops new_owner) \<noteq> [] \<longleftrightarrow> ow_thread (owner_run ops new_owner) \<noteq> None) \<and>
    (ow_thread (owner_run ops new_owner) \<noteq> None \<longrightarrow> \<not> ow_stop (owner_run ops new_owner))"
proof -
  have "owner_inv new_owner" by (simp add: owner_inv_def new_owner_def)
  from owner_inv_run[OF this assms] show ?thesis by (auto simp: owner_inv_def split: option.splits)
qed

text \<open>If a join times out, the next start clears the event that the old thread has not seen yet: two threads
  take from the same queue.\<close>

lemma two_threads:
  "owner_run [StartThread, StopThread False, StartThread] new_owner
   = \<lparr> ow_stop = False, ow_thread = Some 1, ow_alive = [0, 1], ow_started = 2 \<rparr>"
  by (simp add: owner_run_def owner_start_def owner_stop_def new_owner_def)

section \<open>Closing the runners\<close>

text \<open>A runner with whether \<^verbatim>\<open>close\<close> was called on it.  The loop goes over the four attributes and keeps
  them; an exception of \<^verbatim>\<open>close\<close> is logged.\<close>

record 'r held_runner =
  hr_runner :: 'r
  hr_closed :: bool

definition close_runner :: "'r held_runner option \<Rightarrow> 'r held_runner option" where
  "close_runner slot = (case slot of None \<Rightarrow> None | Some h \<Rightarrow> Some (h\<lparr> hr_closed := True \<rparr>))"

definition close_runners :: "'r held_runner option list \<Rightarrow> 'r held_runner option list" where
  "close_runners slots = map close_runner slots"

definition ensure_runner :: "'r \<Rightarrow> 'r held_runner option \<Rightarrow> 'r held_runner option \<times> 'r held_runner" where
  "ensure_runner fresh slot =
     (case slot of
        None \<Rightarrow> (Some \<lparr> hr_runner = fresh, hr_closed = False \<rparr>, \<lparr> hr_runner = fresh, hr_closed = False \<rparr>)
      | Some h \<Rightarrow> (Some h, h))"

text \<open>The attributes still hold the runners after they were closed, so a dispatcher that is started
  again uses closed runners.\<close>

lemma closed_runner_reused:
  assumes "slot \<in> set (close_runners slots)" "slot \<noteq> None"
  shows "hr_closed (snd (ensure_runner fresh slot))"
  using assms by (auto simp: close_runners_def close_runner_def ensure_runner_def split: option.splits)

end
