(* ===== verification/Migrations.thy ===== *)
theory Migrations
  imports DataModel
begin

text \<open>
  The schema history (\<^verbatim>\<open>migrations/\<close>): the statements each revision issues for a dialect, and what they do
  to a deployed database.  A schema is modelled as far as the statements can change it: which tables
  exist, which columns they may make required, the named check constraints they add, functions
  and triggers.  \<open>exec\<close> gives the statements their PostgreSQL meaning; SQLite has no
  \<^verbatim>\<open>ALTER COLUMN\<close> and no \<^verbatim>\<open>ADD CONSTRAINT\<close>.
\<close>

section \<open>Statements\<close>

datatype statement =
    CreateAll
  | DropAll
  | CreateOrReplaceFunction string
  | DropFunctionIfExists string
  | CreateTrigger string string string
  | DropTriggerIfExists string string
  | DropNotNull string string
  | SetNotNull string string
  | AddCheck string string
  | DropConstraintIfExists string string

definition METADATA_TABLES :: "string list" where
  "METADATA_TABLES =
     [''admin_users'', ''admin_role_audits'', ''participants'', ''policy_configs'', ''exam_sessions'',
      ''accommodation_exemptions'', ''enrollment_references'', ''telemetry_events'', ''flags'',
      ''flag_telemetry_events'', ''evidence_artifacts'', ''termination_records'', ''proctor_reviews'',
      ''identity_verification_override_requests'']"

definition upgrade_0001 :: "string \<Rightarrow> statement list" where
  "upgrade_0001 dialect =
     CreateAll #
     (if dialect = ''postgresql''
      then [CreateOrReplaceFunction ''prevent_termination_record_mutation'',
            CreateTrigger ''termination_record_immutable'' ''termination_records'' ''prevent_termination_record_mutation'']
      else [])"

definition downgrade_0001 :: "string \<Rightarrow> statement list" where
  "downgrade_0001 dialect =
     (if dialect = ''postgresql''
      then [DropTriggerIfExists ''termination_record_immutable'' ''termination_records'',
            DropFunctionIfExists ''prevent_termination_record_mutation'']
      else []) @ [DropAll]"

definition upgrade_0002 :: "string \<Rightarrow> statement list" where
  "upgrade_0002 dialect =
     (if dialect = ''postgresql''
      then [CreateOrReplaceFunction ''prevent_flag_mutation'',
            DropTriggerIfExists ''flag_immutable'' ''flags'',
            CreateTrigger ''flag_immutable'' ''flags'' ''prevent_flag_mutation'']
      else [])"

definition downgrade_0002 :: "string \<Rightarrow> statement list" where
  "downgrade_0002 dialect =
     (if dialect = ''postgresql''
      then [DropTriggerIfExists ''flag_immutable'' ''flags'', DropFunctionIfExists ''prevent_flag_mutation'']
      else [])"

definition FLAG_CHECK :: string where
  "FLAG_CHECK = ''ck_termination_flag_null_only_for_identity_backend_unavailable''"

definition NO_OVERRIDE_REASON :: string where
  "NO_OVERRIDE_REASON = ''identity_backend_unavailable_no_override''"

text \<open>The predicate of the constraint.\<close>

definition termination_flag_check :: "termination_record \<Rightarrow> bool" where
  "termination_flag_check t \<longleftrightarrow>
     tr_reason t = NO_OVERRIDE_REASON \<and> tr_triggering_flag_id t = None \<or>
     tr_reason t \<noteq> NO_OVERRIDE_REASON \<and> tr_triggering_flag_id t \<noteq> None"

definition upgrade_0003 :: "string \<Rightarrow> statement list" where
  "upgrade_0003 dialect =
     [DropNotNull ''termination_records'' ''triggering_flag_id'', AddCheck ''termination_records'' FLAG_CHECK]"

definition downgrade_0003 :: "string \<Rightarrow> statement list" where
  "downgrade_0003 dialect =
     [DropConstraintIfExists ''termination_records'' FLAG_CHECK, SetNotNull ''termination_records'' ''triggering_flag_id'']"

section \<open>Revisions\<close>

record revision =
  rv_id :: string
  rv_down :: "string option"
  rv_upgrade :: "string \<Rightarrow> statement list"
  rv_downgrade :: "string \<Rightarrow> statement list"

definition rev_0001 :: revision where
  "rev_0001 = \<lparr> rv_id = ''20260717_0001'', rv_down = None, rv_upgrade = upgrade_0001, rv_downgrade = downgrade_0001 \<rparr>"

definition rev_0002 :: revision where
  "rev_0002 = \<lparr> rv_id = ''20260718_0002'', rv_down = Some ''20260717_0001'',
     rv_upgrade = upgrade_0002, rv_downgrade = downgrade_0002 \<rparr>"

definition rev_0003 :: revision where
  "rev_0003 = \<lparr> rv_id = ''20260823_0003'', rv_down = Some ''20260718_0002'',
     rv_upgrade = upgrade_0003, rv_downgrade = downgrade_0003 \<rparr>"

definition REVISIONS :: "revision list" where
  "REVISIONS = [rev_0002, rev_0003, rev_0001]"

text \<open>The revisions that lead from the current one to the head, and back to the base, along the links.\<close>

fun path_up :: "nat \<Rightarrow> string option \<Rightarrow> revision list" where
  "path_up 0 cur = []"
| "path_up (Suc n) cur =
     (case find (\<lambda>r. rv_down r = cur) REVISIONS of None \<Rightarrow> [] | Some r \<Rightarrow> r # path_up n (Some (rv_id r)))"

fun path_down :: "nat \<Rightarrow> string option \<Rightarrow> revision list" where
  "path_down 0 cur = []"
| "path_down (Suc n) cur =
     (case find (\<lambda>r. Some (rv_id r) = cur) REVISIONS of None \<Rightarrow> [] | Some r \<Rightarrow> r # path_down n (rv_down r))"

section \<open>Deployed databases\<close>

record schema =
  sc_tables :: "string list"
  sc_required :: "(string \<times> string) list"
  sc_checks :: "(string \<times> string) list"
  sc_functions :: "string list"
  sc_triggers :: "(string \<times> string \<times> string) list"

record deployed =
  de_schema :: schema
  de_rows :: database
  de_revision :: "string option"

datatype sql_error =
    UndefinedTable | UndefinedFunction | DuplicateObject | DependentObjects | NotNullViolation | CheckViolation | SyntaxError

definition fresh_deployment :: deployed where
  "fresh_deployment = \<lparr> de_schema = \<lparr> sc_tables = [], sc_required = [], sc_checks = [], sc_functions = [], sc_triggers = [] \<rparr>,
     de_rows = empty_database, de_revision = None \<rparr>"

definition nulls_in :: "string \<Rightarrow> string \<Rightarrow> database \<Rightarrow> bool" where
  "nulls_in t c d \<longleftrightarrow> t = ''termination_records'' \<and> c = ''triggering_flag_id'' \<and>
     list_ex (\<lambda>r. tr_triggering_flag_id r = None) (db_termination_records d)"

definition check_holds :: "string \<Rightarrow> database \<Rightarrow> bool" where
  "check_holds n d \<longleftrightarrow> n \<noteq> FLAG_CHECK \<or> list_all termination_flag_check (db_termination_records d)"

text \<open>Dropping a table drops what hangs on it.\<close>

definition drop_tables :: "string list \<Rightarrow> schema \<Rightarrow> schema" where
  "drop_tables ts s =
     s\<lparr> sc_tables := filter (\<lambda>t. \<not> List.member ts t) (sc_tables s),
        sc_required := filter (\<lambda>x. \<not> List.member ts (fst x)) (sc_required s),
        sc_checks := filter (\<lambda>x. \<not> List.member ts (fst x)) (sc_checks s),
        sc_triggers := filter (\<lambda>x. \<not> List.member ts (fst (snd x))) (sc_triggers s) \<rparr>"

definition alter_table :: "string \<Rightarrow> string \<Rightarrow> schema \<Rightarrow> (sql_error + schema) \<Rightarrow> sql_error + schema" where
  "alter_table dialect t s r =
     (if dialect \<noteq> ''postgresql'' then Inl SyntaxError
      else if \<not> List.member (sc_tables s) t then Inl UndefinedTable
      else r)"

definition exec_schema :: "string \<Rightarrow> statement \<Rightarrow> database \<Rightarrow> schema \<Rightarrow> sql_error + schema" where
  "exec_schema dialect st d s =
     (case st of
        CreateAll \<Rightarrow> Inr (s\<lparr> sc_tables := sc_tables s @ filter (\<lambda>t. \<not> List.member (sc_tables s) t) METADATA_TABLES \<rparr>)
      | DropAll \<Rightarrow> Inr (drop_tables METADATA_TABLES s)
      | CreateOrReplaceFunction f \<Rightarrow>
          Inr (if List.member (sc_functions s) f then s else s\<lparr> sc_functions := sc_functions s @ [f] \<rparr>)
      | DropFunctionIfExists f \<Rightarrow>
          if list_ex (\<lambda>x. snd (snd x) = f) (sc_triggers s) then Inl DependentObjects
          else Inr (s\<lparr> sc_functions := filter (\<lambda>g. g \<noteq> f) (sc_functions s) \<rparr>)
      | CreateTrigger nm t f \<Rightarrow>
          if \<not> List.member (sc_tables s) t then Inl UndefinedTable
          else if \<not> List.member (sc_functions s) f then Inl UndefinedFunction
          else if list_ex (\<lambda>x. fst x = nm \<and> fst (snd x) = t) (sc_triggers s) then Inl DuplicateObject
          else Inr (s\<lparr> sc_triggers := sc_triggers s @ [(nm, t, f)] \<rparr>)
      | DropTriggerIfExists nm t \<Rightarrow>
          Inr (s\<lparr> sc_triggers := filter (\<lambda>x. \<not> (fst x = nm \<and> fst (snd x) = t)) (sc_triggers s) \<rparr>)
      | DropNotNull t c \<Rightarrow>
          alter_table dialect t s (Inr (s\<lparr> sc_required := filter (\<lambda>x. x \<noteq> (t, c)) (sc_required s) \<rparr>))
      | SetNotNull t c \<Rightarrow>
          alter_table dialect t s
            (if nulls_in t c d then Inl NotNullViolation
             else if List.member (sc_required s) (t, c) then Inr s
             else Inr (s\<lparr> sc_required := sc_required s @ [(t, c)] \<rparr>))
      | AddCheck t n \<Rightarrow>
          alter_table dialect t s
            (if List.member (sc_checks s) (t, n) then Inl DuplicateObject
             else if \<not> check_holds n d then Inl CheckViolation
             else Inr (s\<lparr> sc_checks := sc_checks s @ [(t, n)] \<rparr>))
      | DropConstraintIfExists t n \<Rightarrow>
          alter_table dialect t s (Inr (s\<lparr> sc_checks := filter (\<lambda>x. x \<noteq> (t, n)) (sc_checks s) \<rparr>)))"

definition exec :: "string \<Rightarrow> statement \<Rightarrow> deployed \<Rightarrow> sql_error + deployed" where
  "exec dialect st p =
     (case exec_schema dialect st (de_rows p) (de_schema p) of
        Inl e \<Rightarrow> Inl e
      | Inr s \<Rightarrow> Inr (p\<lparr> de_schema := s, de_rows := (if st = DropAll then empty_database else de_rows p) \<rparr>))"

text \<open>The database after the statements that succeeded, and the error that stopped the rest.\<close>

fun run_statements :: "string \<Rightarrow> statement list \<Rightarrow> deployed \<Rightarrow> deployed \<times> (sql_error + unit)" where
  "run_statements dialect [] p = (p, Inr ())"
| "run_statements dialect (st # sts) p =
     (case exec dialect st p of
        Inl e \<Rightarrow> (p, Inl e)
      | Inr p' \<Rightarrow> run_statements dialect sts p')"

fun run_up :: "string \<Rightarrow> revision list \<Rightarrow> deployed \<Rightarrow> deployed \<times> (sql_error + unit)" where
  "run_up dialect [] p = (p, Inr ())"
| "run_up dialect (r # rs) p =
     (case run_statements dialect (rv_upgrade r dialect) p of
        (p', Inl e) \<Rightarrow> (p', Inl e)
      | (p', Inr _) \<Rightarrow> run_up dialect rs (p'\<lparr> de_revision := Some (rv_id r) \<rparr>))"

fun run_down :: "string \<Rightarrow> revision list \<Rightarrow> deployed \<Rightarrow> deployed \<times> (sql_error + unit)" where
  "run_down dialect [] p = (p, Inr ())"
| "run_down dialect (r # rs) p =
     (case run_statements dialect (rv_downgrade r dialect) p of
        (p', Inl e) \<Rightarrow> (p', Inl e)
      | (p', Inr _) \<Rightarrow> run_down dialect rs (p'\<lparr> de_revision := rv_down r \<rparr>))"

text \<open>\<^verbatim>\<open>run_migrations_online\<close> runs all revisions in one transaction, which PostgreSQL rolls back as a whole; the
  other dialects keep what was done.\<close>

definition in_transaction :: "string \<Rightarrow> deployed \<Rightarrow> deployed \<times> (sql_error + unit) \<Rightarrow> deployed \<times> (sql_error + unit)" where
  "in_transaction dialect p r =
     (case r of
        (p', Inl e) \<Rightarrow> (if dialect = ''postgresql'' then p else p', Inl e)
      | (p', Inr _) \<Rightarrow> (p', Inr ()))"

definition upgrade_head :: "string \<Rightarrow> deployed \<Rightarrow> deployed \<times> (sql_error + unit)" where
  "upgrade_head dialect p = in_transaction dialect p (run_up dialect (path_up (length REVISIONS) (de_revision p)) p)"

definition downgrade_steps :: "nat \<Rightarrow> string \<Rightarrow> deployed \<Rightarrow> deployed \<times> (sql_error + unit)" where
  "downgrade_steps n dialect p =
     in_transaction dialect p (run_down dialect (take n (path_down (length REVISIONS) (de_revision p))) p)"

section \<open>The chain\<close>

lemma path_up_head:
  "path_up (length REVISIONS) None = [rev_0001, rev_0002, rev_0003]"
  "path_up (length REVISIONS) (Some ''20260718_0002'') = [rev_0003]"
  "path_up (length REVISIONS) (Some ''20260823_0003'') = []"
  "path_down (length REVISIONS) (Some ''20260823_0003'') = [rev_0003, rev_0002, rev_0001]"
  by (simp_all add: REVISIONS_def rev_0001_def rev_0002_def rev_0003_def numeral_3_eq_3)

definition head_schema :: schema where
  "head_schema = \<lparr> sc_tables = METADATA_TABLES, sc_required = [], sc_checks = [(''termination_records'', FLAG_CHECK)],
     sc_functions = [''prevent_termination_record_mutation'', ''prevent_flag_mutation''],
     sc_triggers = [(''termination_record_immutable'', ''termination_records'', ''prevent_termination_record_mutation''),
                    (''flag_immutable'', ''flags'', ''prevent_flag_mutation'')] \<rparr>"

lemmas rev_defs = rev_0001_def rev_0002_def rev_0003_def upgrade_0001_def upgrade_0002_def upgrade_0003_def
  downgrade_0001_def downgrade_0002_def downgrade_0003_def

lemma upgrade_fresh_head:
  "upgrade_head ''postgresql'' fresh_deployment
   = (\<lparr> de_schema = head_schema, de_rows = empty_database, de_revision = Some ''20260823_0003'' \<rparr>, Inr ())"
  by code_simp

lemma upgrade_fresh_sqlite:
  "map_prod de_revision id (upgrade_head ''sqlite'' fresh_deployment) = (Some ''20260718_0002'', Inl SyntaxError)"
  by code_simp

end
