(* ===== verification/MigrationProps.thy ===== *)
theory MigrationProps
  imports Migrations WsProps AdminProps FlagWorker AppStartup "HOL-Library.Sublist"
begin

text \<open>
  What the migrations do to a database with rows, whether they can be undone, and whether the migrated
  database accepts what the application writes.
\<close>

section \<open>The last revision\<close>

lemma conforming_rows:
  "check_holds FLAG_CHECK d \<longleftrightarrow> list_all termination_flag_check (db_termination_records d)"
  by (simp add: check_holds_def)

lemma blocked_iff_null:
  "list_all termination_flag_check rows \<Longrightarrow>
     list_ex (\<lambda>r. tr_triggering_flag_id r = None) rows \<longleftrightarrow> list_ex (\<lambda>r. tr_reason r = NO_OVERRIDE_REASON) rows"
  by (induction rows) (auto simp: termination_flag_check_def)

definition with_check :: "schema \<Rightarrow> schema" where
  "with_check s = s\<lparr> sc_required := filter (\<lambda>x. x \<noteq> (''termination_records'', ''triggering_flag_id'')) (sc_required s),
     sc_checks := sc_checks s @ [(''termination_records'', FLAG_CHECK)] \<rparr>"

text \<open>On a PostgreSQL database at the revision before it, the upgrade succeeds exactly when every recorded
  termination has a flag or carries the reserved reason, not both; otherwise it is rolled back.\<close>

lemma run_0003:
  assumes "''termination_records'' \<in> set (sc_tables (de_schema p))"
    and "(''termination_records'', FLAG_CHECK) \<notin> set (sc_checks (de_schema p))" "de_revision p = Some ''20260718_0002''"
  shows "upgrade_head ''postgresql'' p =
    (if list_all termination_flag_check (db_termination_records (de_rows p))
     then (p\<lparr> de_schema := with_check (de_schema p), de_revision := Some ''20260823_0003'' \<rparr>, Inr ())
     else (p, Inl CheckViolation))"
  using assms
  by (simp add: upgrade_head_def path_up_head rev_0003_def upgrade_0003_def exec_def exec_schema_def alter_table_def
      List.member_iff conforming_rows with_check_def in_transaction_def)

lemma undo_0003:
  assumes "''termination_records'' \<in> set (sc_tables (de_schema p))" "de_revision p = Some ''20260823_0003''"
    and "(''termination_records'', ''triggering_flag_id'') \<notin> set (sc_required (de_schema p))"
  shows "downgrade_steps 1 ''postgresql'' p =
    (if list_ex (\<lambda>r. tr_triggering_flag_id r = None) (db_termination_records (de_rows p)) then (p, Inl NotNullViolation)
     else (p\<lparr> de_schema := (de_schema p)
               \<lparr> sc_checks := filter (\<lambda>x. x \<noteq> (''termination_records'', FLAG_CHECK)) (sc_checks (de_schema p)),
                 sc_required := sc_required (de_schema p) @ [(''termination_records'', ''triggering_flag_id'')] \<rparr>,
               de_revision := Some ''20260718_0002'' \<rparr>, Inr ()))"
  using assms
  by (simp add: downgrade_steps_def path_up_head rev_0003_def downgrade_0003_def exec_def exec_schema_def alter_table_def
      List.member_iff nulls_in_def in_transaction_def)

text \<open>C31: The revision cannot be undone once it was needed.  Dropping the constraint first does not help, as the
  comment in the revision hopes: in a database that satisfies the constraint the downgrade fails, with
  nothing changed, exactly when some session was blocked for want of an identity backend.\<close>

theorem flag_migration_undo:
  assumes "''termination_records'' \<in> set (sc_tables (de_schema p))" "de_revision p = Some ''20260823_0003''"
    and "(''termination_records'', ''triggering_flag_id'') \<notin> set (sc_required (de_schema p))"
    and "list_all termination_flag_check (db_termination_records (de_rows p))"
  shows "if list_ex (\<lambda>r. tr_reason r = NO_OVERRIDE_REASON) (db_termination_records (de_rows p))
    then downgrade_steps 1 ''postgresql'' p = (p, Inl NotNullViolation)
    else snd (downgrade_steps 1 ''postgresql'' p) = Inr () \<and>
      de_revision (fst (downgrade_steps 1 ''postgresql'' p)) = Some ''20260718_0002''"
  using undo_0003[OF assms(1-3)] blocked_iff_null[OF assms(4)] by simp_all

text \<open>C33: The last revision done and undone, whatever the rows.  If every recorded termination has a flag and
  none carries the reserved reason, rows and schema come back as they were, except that the flag of a
  termination is required afterwards, which it was not in a database that the first revision built
  from the present models.  If all satisfy the constraint but some session was blocked, the upgrade
  succeeds, the downgrade fails and the upgraded database stays.  If some row violates the
  constraint, the upgrade itself fails and is rolled back.\<close>

theorem flag_migration_roundtrip:
  assumes "''termination_records'' \<in> set (sc_tables (de_schema p))"
    and "(''termination_records'', FLAG_CHECK) \<notin> set (sc_checks (de_schema p))" "de_revision p = Some ''20260718_0002''"
  shows "case upgrade_head ''postgresql'' p of (up, r) \<Rightarrow>
    if \<not> list_all termination_flag_check (db_termination_records (de_rows p)) then up = p \<and> r = Inl CheckViolation
    else r = Inr () \<and> de_rows up = de_rows p \<and> de_revision up = Some ''20260823_0003'' \<and>
      downgrade_steps 1 ''postgresql'' up =
        (if list_ex (\<lambda>t. tr_reason t = NO_OVERRIDE_REASON) (db_termination_records (de_rows p)) then (up, Inl NotNullViolation)
         else (p\<lparr> de_schema := (de_schema p)
             \<lparr> sc_required := filter (\<lambda>x. x \<noteq> (''termination_records'', ''triggering_flag_id'')) (sc_required (de_schema p))
                 @ [(''termination_records'', ''triggering_flag_id'')] \<rparr> \<rparr>, Inr ()))"
proof (cases "list_all termination_flag_check (db_termination_records (de_rows p))")
  case rows: True
  have "filter (\<lambda>x. x \<noteq> (''termination_records'', FLAG_CHECK)) (sc_checks (de_schema p)) = sc_checks (de_schema p)"
    using assms(2) by (auto intro!: filter_True)
  with rows show ?thesis
    using assms(1,3) undo_0003[of "fst (upgrade_head ''postgresql'' p)"] blocked_iff_null[OF rows]
    by (simp add: run_0003[OF assms] with_check_def)
qed (simp add: run_0003[OF assms])

section \<open>What a schema accepts\<close>

text \<open>The guards stop statements that update or delete a row of their table; a check must hold for all rows.\<close>

definition guards :: "string \<Rightarrow> schema \<Rightarrow> bool" where
  "guards t s \<longleftrightarrow> list_ex (\<lambda>x. fst (snd x) = t) (sc_triggers s)"

definition accepts :: "schema \<Rightarrow> database \<Rightarrow> database \<Rightarrow> bool" where
  "accepts s d d' \<longleftrightarrow>
     (guards ''termination_records'' s \<longrightarrow> prefix (db_termination_records d) (db_termination_records d')) \<and>
     (guards ''flags'' s \<longrightarrow> prefix (db_flags d) (db_flags d')) \<and>
     list_all (\<lambda>x. check_holds (snd x) d') (sc_checks s)"

lemma accepts_head:
  "accepts head_schema d d' \<longleftrightarrow>
     prefix (db_termination_records d) (db_termination_records d') \<and> prefix (db_flags d) (db_flags d') \<and>
     list_all termination_flag_check (db_termination_records d')"
  by (simp add: accepts_def guards_def head_schema_def conforming_rows)

lemma accepts_refl: "list_all termination_flag_check (db_termination_records d) \<Longrightarrow> accepts head_schema d d"
  by (simp add: accepts_head)

lemma accepts_same:
  "list_all termination_flag_check (db_termination_records d) \<Longrightarrow> db_termination_records d' = db_termination_records d \<Longrightarrow>
     db_flags d' = db_flags d \<Longrightarrow> accepts head_schema d d'"
  by (simp add: accepts_head)

lemma session_rows_only:
  assumes "session_row_set es d d'"
  shows "db_termination_records d' = db_termination_records d" "db_flags d' = db_flags d"
proof -
  from assms have e: "d'\<lparr> db_exam_sessions := db_exam_sessions d \<rparr> = d" by (simp add: session_row_set_def)
  from arg_cong[OF e, of db_termination_records] arg_cong[OF e, of db_flags]
  show "db_termination_records d' = db_termination_records d" "db_flags d' = db_flags d" by simp_all
qed

lemma worker_write_accepted:
  assumes "db_ok d" "list_all termination_flag_check (db_termination_records d)" "fd_rule_code (pf_decision item) \<noteq> NO_OVERRIDE_REASON"
  shows "accepts head_schema d (fst (persist_one fa num er cb sid st item d))"
proof -
  obtain d' r calls where p: "persist_one fa num er cb sid st item d = (d', r, calls)" by (metis prod_cases3)
  from p assms(1) have "accepts head_schema d d'"
  proof (cases rule: persist_one_cases)
    case kept
    with assms(2) show ?thesis by (simp add: accepts_refl)
  next
    case (flagged f)
    with assms(2) show ?thesis by (simp add: accepts_head flag_added_def)
  next
    case (terminated f d1)
    have "termination_flag_check (new_termination st sid f (pf_decision item))"
      using assms(3) by (simp add: termination_flag_check_def new_termination_def)
    with terminated assms(2) show ?thesis by (simp add: accepts_head flag_added_def)
  qed
  with p show ?thesis by simp
qed

lemma handshake_write_accepted:
  assumes "db_ok d" "list_all termination_flag_check (db_termination_records d)"
  shows "accepts head_schema d (committed (fst (ws_handshake deps env backend header (open_session d))))"
proof -
  obtain db outs h where r: "after_accept deps env backend header (open_session d) = (db, outs, h)" by (metis prod_cases3)
  have fst: "fst (ws_handshake deps env backend header (open_session d)) = db" by (simp add: ws_handshake_def r)
  have same: "accepts head_schema d (committed db)" if "committed db = d" using that assms(2) by (simp add: accepts_refl)
  have blocked: "accepts head_schema d (committed db)" if "rejection deps env backend header d (committed db) c" for c
  proof (cases "c = NoBackend")
    case True
    with that obtain es where s: "session_row_set (set_blocked es) d ((committed db)\<lparr> db_termination_records := db_termination_records d \<rparr>)"
      "db_termination_records (committed db) = db_termination_records d @ [blocked_record (we_termination_id env) (we_now env) (es_id es)]"
      by (auto simp: rejection_def)
    have "termination_flag_check (blocked_record (we_termination_id env) (we_now env) (es_id es))"
      by (simp add: termination_flag_check_def blocked_record_def NO_OVERRIDE_REASON_def)
    with s(2) session_rows_only(2)[OF s(1)] assms(2) show ?thesis by (simp add: accepts_head)
  qed (use that same in \<open>simp add: rejection_def\<close>)
  have admitted: "accepts head_schema d (committed db)" if "admission env backend d (committed db) es u" for es u
    using that same accepts_same[OF assms(2)] session_rows_only by (auto simp: admission_def split: if_splits)
  consider "committed db = d"
    | token claims where "extract_token_from_subprotocol header = Some token"
      "decode_session_token (wd_jwt deps) (wd_str_of deps) (wd_settings deps) (we_now_seconds env) token = Inr claims"
      "authenticated env backend claims (open_session d) = (db, outs, h)"
    using r by (auto simp: after_accept_def reject_def split: option.splits sum.splits session_token_error.splits)
  then show ?thesis
  proof cases
    case 1
    with fst same show ?thesis by simp
  next
    case 2
    from authenticated_outcome[OF assms(1) 2(1,2), of backend] 2(3) have "accepts head_schema d (committed db)"
      using assms(2) by (cases h) (auto intro: admitted blocked simp: accepts_refl)
    with fst show ?thesis by simp
  qed
qed

lemma terminate_write_accepted:
  assumes "post_terminate deps env auth session_id (Some rq) d = (d', Inr res)" "list_all termination_flag_check (db_termination_records d)"
  shows "accepts head_schema d d' \<longleftrightarrow> trq_reason rq \<noteq> NO_OVERRIDE_REASON"
proof -
  from assms(1) obtain sid where d': "d' = terminate_in (cx_now env) sid
      (route_termination (cx_new_id env) (cx_created_at env) sid (trq_triggering_flag_id rq) (trq_reason rq)) d"
    by (auto simp: post_terminate_def commit_def Let_def split: sum.splits option.splits if_splits)
  with assms(2) show ?thesis
    by (auto simp: accepts_head terminate_in_def termination_flag_check_def route_termination_def)
qed

text \<open>C24: The migrated database accepts what the application writes, with one exception.  If its rows satisfy the
  flag constraint, neither the guards nor the constraint stop the worker's transaction for any decision
  whose rule is not the reserved reason, nor any handshake.  But a termination by the internal
  route that passes every check of the application is refused when the reason in the request is
  the reserved one.\<close>

theorem production_accepts_writes:
  assumes "db_ok d" "list_all termination_flag_check (db_termination_records d)"
  shows "(fd_rule_code (pf_decision item) \<noteq> NO_OVERRIDE_REASON \<longrightarrow>
      accepts head_schema d (fst (persist_one fa num er cb sid st item d))) \<and>
    accepts head_schema d (committed (fst (ws_handshake wdeps wenv backend header (open_session d)))) \<and>
    (\<forall>d' res. post_terminate deps env auth session_id (Some rq) d = (d', Inr res) \<longrightarrow>
      (accepts head_schema d d' \<longleftrightarrow> trq_reason rq \<noteq> NO_OVERRIDE_REASON))"
  using worker_write_accepted[OF assms] handshake_write_accepted[OF assms] terminate_write_accepted[OF _ assms(2)] by blast

section \<open>Local databases\<close>

text \<open>\<^verbatim>\<open>initialize_schema\<close> in the statements of the migrations.\<close>

fun ddl_statements :: "ddl \<Rightarrow> statement list" where
  "ddl_statements CreateTables = [CreateAll]"
| "ddl_statements CreateGuardFunction = [CreateOrReplaceFunction ''prevent_termination_record_mutation'']"
| "ddl_statements CreateGuardTrigger =
     [DropTriggerIfExists ''termination_record_immutable'' ''termination_records'',
      CreateTrigger ''termination_record_immutable'' ''termination_records'' ''prevent_termination_record_mutation'']"

text \<open>A local database has the tables and the guard of the terminations, but neither the guard of the flags
  nor the constraint on terminations, so it accepts the refused termination.\<close>

lemma local_schema:
  "run_statements ''postgresql'' (concat (map ddl_statements (initialize_schema ''postgresql''))) fresh_deployment
   = (fresh_deployment\<lparr> de_schema := head_schema
        \<lparr> sc_checks := [], sc_functions := [''prevent_termination_record_mutation''],
          sc_triggers := [(''termination_record_immutable'', ''termination_records'', ''prevent_termination_record_mutation'')] \<rparr> \<rparr>,
      Inr ())"
  by code_simp

section \<open>A deployment\<close>

text \<open>A database of the second revision, as it was when the column was still required.\<close>

definition demo_deployed :: deployed where
  "demo_deployed = \<lparr> de_schema = head_schema\<lparr> sc_required := [(''termination_records'', ''triggering_flag_id'')], sc_checks := [] \<rparr>,
     de_rows = terminate_in 30000000 1 (route_termination 80 30000000 1 40 ''phone'') demo_db, de_revision = Some ''20260718_0002'' \<rparr>"

lemma demo_deployed_sel:
  "''termination_records'' \<in> set (sc_tables (de_schema demo_deployed))" "sc_checks (de_schema demo_deployed) = []"
  "sc_required (de_schema demo_deployed) = [(''termination_records'', ''triggering_flag_id'')]"
  "de_revision demo_deployed = Some ''20260718_0002''"
  "db_termination_records (de_rows demo_deployed) = [route_termination 80 30000000 1 40 ''phone'']"
  by (simp_all add: demo_deployed_def head_schema_def METADATA_TABLES_def terminate_in_def demo_db_def empty_database_def)

lemma demo_upgraded:
  "upgrade_head ''postgresql'' demo_deployed
   = (demo_deployed\<lparr> de_schema := head_schema, de_revision := Some ''20260823_0003'' \<rparr>, Inr ())"
  using run_0003[of demo_deployed] demo_deployed_sel
  by (simp add: termination_flag_check_def route_termination_def NO_OVERRIDE_REASON_def with_check_def)
     (simp add: demo_deployed_def head_schema_def)

theorem flag_migration_roundtrip_witness:
  "downgrade_steps 1 ''postgresql'' (fst (upgrade_head ''postgresql'' demo_deployed)) = (demo_deployed, Inr ())"
proof -
  have "demo_deployed\<lparr> de_schema := (de_schema demo_deployed)\<lparr> sc_required := [(''termination_records'', ''triggering_flag_id'')] \<rparr> \<rparr> = demo_deployed"
    by (simp add: demo_deployed_def)
  then show ?thesis
    using flag_migration_roundtrip[of demo_deployed] demo_deployed_sel
    by (simp add: route_termination_def NO_OVERRIDE_REASON_def termination_flag_check_def split: prod.splits)
qed

text \<open>The same after a session was blocked.\<close>

definition demo_blocked_deployed :: deployed where
  "demo_blocked_deployed = \<lparr> de_schema = head_schema,
     de_rows = demo_db\<lparr> db_termination_records := [blocked_record 77 5 1] \<rparr>, de_revision = Some ''20260823_0003'' \<rparr>"

theorem flag_migration_undo_witness:
  "downgrade_steps 1 ''postgresql'' demo_blocked_deployed = (demo_blocked_deployed, Inl NotNullViolation)"
  using flag_migration_undo[of demo_blocked_deployed]
  by (simp add: demo_blocked_deployed_def head_schema_def METADATA_TABLES_def termination_flag_check_def blocked_record_def
      NO_OVERRIDE_REASON_def)

definition demo_reserved :: terminate_request where
  "demo_reserved = \<lparr> trq_triggering_flag_id = 40, trq_reason = NO_OVERRIDE_REASON \<rparr>"

lemma demo_reserved_passes:
  "is_Inr (snd (post_terminate demo_orch_deps (demo_call 80) (Some (bearer ''internal-token-of-32-bytes-or-so'')) (uuid_str 1)
     (Some demo_reserved) demo_office))"
  by code_simp

theorem production_accepts_writes_witness:
  "let (d', r) = post_terminate demo_orch_deps (demo_call 80) (Some (bearer ''internal-token-of-32-bytes-or-so'')) (uuid_str 1)
     (Some demo_reserved) demo_office in is_Inr r \<and> db_ok demo_office \<and> \<not> accepts head_schema demo_office d'"
proof -
  obtain d' r where p: "post_terminate demo_orch_deps (demo_call 80) (Some (bearer ''internal-token-of-32-bytes-or-so'')) (uuid_str 1)
     (Some demo_reserved) demo_office = (d', r)" by fastforce
  then obtain res where r: "r = Inr res" using demo_reserved_passes by (auto simp: is_Inr_iff)
  have "list_all termination_flag_check (db_termination_records demo_office)"
    by (simp add: demo_office_def demo_db_def empty_database_def)
  from production_accepts_writes[OF demo_office_ok(1) this] p r
  have "accepts head_schema demo_office d' \<longleftrightarrow> trq_reason demo_reserved \<noteq> NO_OVERRIDE_REASON" by blast
  then show ?thesis using p r demo_office_ok(1) by (simp add: demo_reserved_def)
qed

end
