(* ===== verification/Spec2Isabelle.thy ===== *)
theory Spec2Isabelle
  imports FusionProperties StateMachine WsServer Scheduler RollingBuffer FlagWorker Retention
    LaunchStoreEquiv AppStartup AdminProps PreprocessingProps LiveSession SessionBlind
    SessionEnd LaunchedSession Lifecycle MigrationProps
begin

text \<open>
  A verification library for the AI Proctor Engine (\<^verbatim>\<open>src/src/proctoring_engine\<close>).

  \<^bold>\<open>The program.\<close>  An LMS launches a candidate or an administrator through LTI 1.3; the launch creates an exam
  session and issues a session token.  With the token the candidate's browser opens a WebSocket and
  sends telemetry.  Messages go through a bounded buffer to a per-session dispatcher, which decodes
  media, runs the inference modules at scheduled frames and hands their results to the fusion
  aggregator.  The aggregator's decisions are queued; a worker writes them to the database as flags and, when a
  decision terminates the exam, records the termination and has a kill-switch sent to the client.
  Administrators review flags, publish policies, grant exemptions and overrides, and seal evidence;
  a retention job removes it after its term.

  \<^bold>\<open>Theories and sources.\<close>
  \<^item> \<open>Prelude\<close>: identifiers, JSON values, errors as sums, windows and their two locales
    (\<open>suffix_buffer\<close>, \<open>bounded_window\<close>), interpreted by the aggregator's windows, the rolling
    buffer and the deque.  \<open>Uuid\<close>: \<^verbatim>\<open>uuid.UUID\<close> and \<^verbatim>\<open>str\<close> of it.  \<open>Windows\<close>: runs of readings.
  \<^item> Fusion (\<^verbatim>\<open>fusion/\<close>, \<^verbatim>\<open>inference/_types.py\<close>): \<open>InferenceTypes\<close>, \<open>FusionTypes\<close> and \<open>Aggregator\<close> hold the types, the book
    and exemption rules and one definition per \<^verbatim>\<open>process_*\<close> method; \<open>AggregatorProps\<close>,
    \<open>LivenessTrace\<close>, \<open>GazeLadder\<close>, \<open>AggregatorScore\<close> the traces of each rule under any interleaving;
    \<open>FusionProperties\<close> the theorems.
  \<^item> Media and models (\<^verbatim>\<open>preprocessing/\<close>, \<^verbatim>\<open>inference/\<close>): \<open>Preprocessing\<close>, \<open>PreprocessingProps\<close>, \<open>InferenceModules\<close>,
    \<open>Scheduler\<close>, \<open>RollingBuffer\<close>.
  \<^item> Dispatcher (\<^verbatim>\<open>orchestration/_frame_dispatcher.py\<close>): \<open>FrameDispatcher\<close>; \<open>DispatcherTrace\<close> says what a handler does to
    the aggregator and the queue (the relation \<open>works\<close>), \<open>DispatcherProps\<close> lifts it to sequences of events,
    \<open>DispatcherResults\<close> holds the theorems, \<open>SessionBlind\<close> that session identifiers do not matter to it.
  \<^item> Telemetry connection (\<^verbatim>\<open>websocket/\<close>): \<open>ClientMessages\<close>, \<open>WsServer\<close>, \<open>WsRoutes\<close>, and \<open>WsProps\<close> for the theorems about
    handshakes and message loops.
  \<^item> Persistence (\<^verbatim>\<open>models.py\<close>, \<^verbatim>\<open>orchestration/_state_machine.py\<close>, \<^verbatim>\<open>_flag_persistence*.py\<close>): \<open>Enums\<close>, \<open>DataModel\<close> (one record per
    table, \<open>db_ok\<close> for keys, references and check constraints, sessions with a committed and a
    working copy), \<open>TableUpdates\<close> (when a new row keeps \<open>db_ok\<close>), \<open>StateMachine\<close>, \<open>FlagPersistence\<close>, \<open>FlagWorker\<close>.
  \<^item> Evidence (\<^verbatim>\<open>evidence/\<close>, \<^verbatim>\<open>orchestration/_evidence_service.py\<close>): \<open>StorageKey\<close>, \<open>EvidenceStore\<close> (the locale \<open>blob_store\<close>, interpreted
    by the memory store; the S3 store is related to it under the documented behaviour of its
    client), \<open>EvidenceService\<close>, \<open>Retention\<close>.
  \<^item> Launch (\<^verbatim>\<open>lti/\<close>): \<open>LtiRoles\<close>, \<open>LtiClaims\<close>, \<open>SessionToken\<close>, \<open>LtiKeys\<close>, \<open>LaunchState\<close>, \<open>LaunchStore\<close> (the locale
    \<open>launch_store\<close>), \<open>LaunchStoreEquiv\<close>, \<open>LtiService\<close>, \<open>LtiRoutes\<close>, \<open>LtiProps\<close>.
  \<^item> Administration (\<^verbatim>\<open>orchestration/_admin_service.py\<close>, \<^verbatim>\<open>_auth.py\<close>, \<^verbatim>\<open>_routes.py\<close>, \<^verbatim>\<open>_schemas.py\<close>): \<open>AdminService\<close>, \<open>OrchestrationSchemas\<close>,
    \<open>OrchestrationRoutes\<close>; \<open>AdminChanges\<close> is the list of changes a request may make, \<open>AdminProps\<close> and
    \<open>SystemProps\<close> the theorems about single requests and about any run of launches and requests.
  \<^item> Settings and startup (\<^verbatim>\<open>*/config.py\<close>, \<^verbatim>\<open>*_settings.py\<close>, \<^verbatim>\<open>api.py\<close>, \<^verbatim>\<open>database.py\<close>): \<open>Settings\<close>, \<open>AppStartup\<close>.
  \<^item> \<open>LiveSession\<close> composes the parts of a session in progress: socket, dispatcher, worker and
    kill-switch drain take turns in any order over the shared buffer, the two queues and the database.
    \<open>SessionEnd\<close> follows frames of two people through all of them to the kill-switch on the wire and the rows
    in the database, and says what a disconnect loses; \<open>LaunchedSession\<close> composes a launch with the
    handshake its token opens; \<open>Lifecycle\<close> holds starting and stopping the two threads and
    closing the runners.
  \<^item> Schema (\<^verbatim>\<open>migrations/\<close>): \<open>Migrations\<close> has the statements of each revision, their meaning on a deployed
    database and the walk along the revisions in one transaction; \<open>MigrationProps\<close> the theorems: upgrade
    and downgrade with rows in place, and what the migrated database accepts of what the application writes.
  \<^item> \<open>DemoData\<close>: a small consistent database for the applications of the theorems.

  \<^bold>\<open>What is shown.\<close>  The fusion rules are characterised reading by reading (second person, gaze ladder, identity,
  liveness, objects, score), for every interleaving and every rounding of floats that is
  mentioned.  The dispatcher refines the aggregator: its queue holds the decisions on calls that messages
  justify.  The handshake admits, rejects with each code and raises for exactly the listed causes;
  acknowledgements are in order and every message is returned by a drain, buffered or counted as dropped.
  Whatever transitions are asked for, a session takes at most five statuses along the documented table.  The worker writes a flag exactly when it
  is valid, keeps the audit tables append-only and fires at most one, recorded, kill-switch; put
  together, a client is sent a kill-switch only for a recorded terminating flag of its session that goes
  back to a decision of its dispatcher, and three consecutive frames of two people, with one turn of
  each party, are enough for it; a learner's launch opens the connection of its own session.  A launch
  is atomic and belongs to one registered login; the two launch stores agree away from the end of an
  entry's life, but for one word.  Requests make only the listed changes, under their authority; roles, overrides, trails and statuses obey
  the system invariants.  Sealed evidence stays verifiable and the retention job removes what it should.
  Where the code does not do what it means to, the theorem states what it does (the override
  that cannot run, the messages of other sessions that count, the second termination, the second
  sealing, the checks that are never reached, the decisions a disconnect drops, the fresh session that is
  blocked at once, the migration that cannot be undone, the termination the database refuses).

  \<^bold>\<open>Conventions.\<close>  Exceptions are the left of a sum, one constructor per class that some handler
  distinguishes.  Floats are rationals; their arithmetic is a \<open>float_arith\<close> record, \<open>exact_arith\<close> or
  \<open>double_arith\<close> in the applications, and literals are the exact values of the doubles.
  Timestamps are microseconds, frame instants and policy durations milliseconds as in the source.
  Generated identifiers and clock readings are arguments.  Loops are structural recursion or a \<open>function\<close> with
  a measure; there is no fuel.  The retention loop ends because each batch removes rows or
  remembers the ones that failed.

  \<^bold>\<open>Parameters.\<close>  PyJWT (\<open>jwt_lib\<close>), HTTP, Redis, the S3 client, JSON codecs, pydantic's decoding, base64 leniency, numpy
  reductions (\<open>num_lib\<close>), OpenCV and MediaPipe, YOLO, webrtcvad, face and spoof models (\<open>vision_lib\<close>), SHA-256.
  What is relied on of them is a named predicate (\<open>jwt_ok\<close>, \<open>decodes_as_asked\<close>, the laws of the Redis
  and S3 clients), each shown to hold of a concrete instance.

  \<^bold>\<open>Not modelled.\<close>  SQL outside the migrations, enum types, indexes and the width of string columns; isolation between overlapping transactions (requests are
  atomic, other writers appear as steps between); threads and locks below the level of a
  turn (\<open>Lifecycle\<close> has the threads that outlive the five seconds of \<^verbatim>\<open>join\<close>, without their work); NaN and infinities; naive
  against aware datetimes; failures of the Redis connection itself; non-ASCII header values; the closing
  of the HTTP client; logging; the SQL script of the offline migrations; the browser client.  The
  \<^verbatim>\<open>__init__.py\<close> files only import and re-export names; they have no behaviour to model.
\<close>

end
